(* ===== verification/Prelude.thy ===== *)
theory Prelude
  imports Main "HOL-Library.Product_Lexorder"
begin

section \<open>Shared types, tables and automation\<close>

text \<open>
  This theory holds what every component shares: points in time, the error values
  that stand for the exceptions of the code, and database tables as lists of rows with
  the queries of the object-relational mapper that the code uses (look up by primary
  key, save one row, update or delete the rows of a filter, the first row of an
  ordering). Collections of rewrite rules keep the proofs of the components short:
  \<open>table_simps\<close> for what a table holds after an operation.
\<close>

named_theorems table_simps

subsection \<open>Time\<close>

text \<open>
  A point in time is a number of microseconds, the resolution of Python's \<open>datetime\<close>.
  A \<open>clock\<close> gives the value of the n-th reading of \<open>timezone.now()\<close> in one request, so
  that code which reads the clock more than once is modelled with the readings it makes.
\<close>

type_synonym time = int
type_synonym clock = "nat \<Rightarrow> time"

definition seconds :: "int \<Rightarrow> time" where
  [simp]: "seconds n = n * 1000000"

definition minutes :: "int \<Rightarrow> time" where
  [simp]: "minutes n = n * 60000000"

definition hours :: "int \<Rightarrow> time" where
  [simp]: "hours n = n * 3600000000"

definition days :: "int \<Rightarrow> time" where
  [simp]: "days n = n * 86400000000"

subsection \<open>Errors\<close>

text \<open>
  The exceptions that leave a handler. The validation errors carry the field they name
  (empty for an error about the whole request) and the message.
\<close>

datatype error =
    ValidationError string string
  | AuthenticationFailed string
  | PermissionDenied string
  | APIException string
  | ParseError string
  | Throttled int
  | PayloadTooLarge
  | UnsupportedEncoding
  | Http404
  | IntegrityError string
  | ImproperlyConfigured string
  | CommandError string
  | ServerError string

type_synonym 'a result = "error + 'a"

definition require :: "bool \<Rightarrow> error \<Rightarrow> unit result" where
  "require b e = (if b then Inr () else Inl e)"

definition bind_result :: "'a result \<Rightarrow> ('a \<Rightarrow> 'b result) \<Rightarrow> 'b result" where
  "bind_result r f = (case r of Inl e \<Rightarrow> Inl e | Inr x \<Rightarrow> f x)"

lemma bind_result_simps [simp]:
  "bind_result (Inl e) f = Inl e"
  "bind_result (Inr x) f = f x"
  by (simp_all add: bind_result_def)

lemma bind_result_Inr_iff:
  "bind_result r f = Inr y \<longleftrightarrow> (\<exists>x. r = Inr x \<and> f x = Inr y)"
  by (cases r) auto

lemma require_Inr [simp]: "require b e = Inr u \<longleftrightarrow> b"
  by (simp add: require_def)

lemma require_Inl [simp]: "require b e = Inl e' \<longleftrightarrow> \<not> b \<and> e' = e"
  by (auto simp: require_def)

fun map_result :: "('a \<Rightarrow> 'b result) \<Rightarrow> 'a list \<Rightarrow> 'b list result" where
  "map_result f [] = Inr []"
| "map_result f (x # xs) =
     bind_result (f x) (\<lambda>y. bind_result (map_result f xs) (\<lambda>ys. Inr (y # ys)))"

lemma map_result_Inr_iff:
  "map_result f xs = Inr ys \<longleftrightarrow> list_all2 (\<lambda>x y. f x = Inr y) xs ys"
proof (induction xs arbitrary: ys)
  case Nil
  then show ?case by (auto simp: list_all2_Nil)
next
  case (Cons x xs)
  then show ?case
    by (auto simp: bind_result_Inr_iff list_all2_Cons1)
qed

lemma map_result_length: "map_result f xs = Inr ys \<Longrightarrow> length ys = length xs"
  by (auto simp: map_result_Inr_iff dest: list_all2_lengthD)

lemma map_result_mem:
  assumes "map_result f xs = Inr ys" and "y \<in> set ys"
  shows "\<exists>x\<in>set xs. f x = Inr y"
  using assms
  by (force simp: map_result_Inr_iff list_all2_conv_all_nth in_set_conv_nth intro: nth_mem)

text \<open>
  A transaction: the body gives the new state or raises, and a raise rolls every change
  of the body back.
\<close>

definition atomic :: "('s \<Rightarrow> ('a \<times> 's) result) \<Rightarrow> 's \<Rightarrow> 'a result \<times> 's" where
  "atomic body s = (case body s of Inl e \<Rightarrow> (Inl e, s) | Inr (x, s') \<Rightarrow> (Inr x, s'))"

lemma atomic_simps [simp]:
  "body s = Inl e \<Longrightarrow> atomic body s = (Inl e, s)"
  "body s = Inr (x, s') \<Longrightarrow> atomic body s = (Inr x, s')"
  by (simp_all add: atomic_def)

lemma atomic_Inl: "atomic body s = (Inl e, s') \<Longrightarrow> s' = s"
  by (auto simp: atomic_def split: sum.splits)

lemma atomic_Inr_iff: "atomic body s = (Inr x, s') \<longleftrightarrow> body s = Inr (x, s')"
  by (auto simp: atomic_def split: sum.splits)

text \<open>Steps that may fail, run in order; the first failure ends the run.\<close>

fun fold_result :: "('a \<Rightarrow> 's \<Rightarrow> 's result) \<Rightarrow> 'a list \<Rightarrow> 's \<Rightarrow> 's result" where
  "fold_result f [] s = Inr s"
| "fold_result f (x # xs) s = bind_result (f x s) (fold_result f xs)"

lemma fold_result_append:
  "fold_result f (xs @ ys) s = bind_result (fold_result f xs s) (fold_result f ys)"
  by (induction xs arbitrary: s) (auto simp: bind_result_def split: sum.splits)

lemma fold_result_invariant:
  assumes "fold_result f xs s = Inr s'" and "P s"
    and "\<And>x s s'. x \<in> set xs \<Longrightarrow> P s \<Longrightarrow> f x s = Inr s' \<Longrightarrow> P s'"
  shows "P s'"
  using assms
proof (induction xs arbitrary: s)
  case Nil
  then show ?case by simp
next
  case (Cons x xs)
  then obtain t where "f x s = Inr t" and "fold_result f xs t = Inr s'"
    by (auto simp: bind_result_Inr_iff)
  with Cons show ?case by (meson list.set_intros)
qed

subsection \<open>Tables\<close>

definition lookup_by :: "('r \<Rightarrow> 'k) \<Rightarrow> 'k \<Rightarrow> 'r list \<Rightarrow> 'r option" where
  "lookup_by key k rows = find (\<lambda>r. key r = k) rows"

definition save_by :: "('r \<Rightarrow> 'k) \<Rightarrow> 'r \<Rightarrow> 'r list \<Rightarrow> 'r list" where
  "save_by key x rows = map (\<lambda>r. if key r = key x then x else r) rows"

definition update_where :: "('r \<Rightarrow> bool) \<Rightarrow> ('r \<Rightarrow> 'r) \<Rightarrow> 'r list \<Rightarrow> 'r list" where
  "update_where P f rows = map (\<lambda>r. if P r then f r else r) rows"

definition delete_where :: "('r \<Rightarrow> bool) \<Rightarrow> 'r list \<Rightarrow> 'r list" where
  "delete_where P rows = filter (\<lambda>r. \<not> P r) rows"

definition exists_row :: "('r \<Rightarrow> bool) \<Rightarrow> 'r list \<Rightarrow> bool" where
  "exists_row P rows = list_ex P rows"

text \<open>The first row of an ordering; rows with the same key stay in table order.\<close>

definition order_first :: "('r \<Rightarrow> 'k::linorder) \<Rightarrow> 'r list \<Rightarrow> 'r option" where
  "order_first key rows = (case sort_key key rows of [] \<Rightarrow> None | r # rs \<Rightarrow> Some r)"

definition first_row :: "'r list \<Rightarrow> 'r option" where
  "first_row rows = (case rows of [] \<Rightarrow> None | r # rs \<Rightarrow> Some r)"

lemma lookup_by_SomeD: "lookup_by key k rows = Some r \<Longrightarrow> r \<in> set rows \<and> key r = k"
  by (auto simp: lookup_by_def find_Some_iff)

lemma lookup_by_None: "lookup_by key k rows = None \<longleftrightarrow> (\<forall>r\<in>set rows. key r \<noteq> k)"
  by (auto simp: lookup_by_def find_None_iff)

lemma lookup_by_Cons [table_simps]:
  "lookup_by key k (r # rows) = (if key r = k then Some r else lookup_by key k rows)"
  by (simp add: lookup_by_def)

lemma lookup_by_Nil [simp]: "lookup_by key k [] = None"
  by (simp add: lookup_by_def)

lemma lookup_by_append [table_simps]:
  "lookup_by key k (xs @ ys) = (case lookup_by key k xs of None \<Rightarrow> lookup_by key k ys | Some r \<Rightarrow> Some r)"
  by (induction xs) (auto simp: table_simps)

lemma lookup_by_distinct:
  "distinct (map key rows) \<Longrightarrow> r \<in> set rows \<Longrightarrow> lookup_by key (key r) rows = Some r"
  by (induction rows) (auto simp: table_simps image_iff)

lemma keys_save_by [table_simps]: "map key (save_by key x rows) = map key rows"
  by (induction rows) (auto simp: save_by_def)

lemma lookup_by_save [table_simps]:
  "lookup_by key k (save_by key x rows) =
     (if key x = k \<and> lookup_by key k rows \<noteq> None then Some x else lookup_by key k rows)"
  by (induction rows) (auto simp: save_by_def table_simps)

lemma set_save_by:
  "set (save_by key x rows) = {r \<in> set rows. key r \<noteq> key x} \<union> (if key x \<in> key ` set rows then {x} else {})"
  by (induction rows) (auto simp: save_by_def)

lemma save_by_mem: "r \<in> set (save_by key x rows) \<Longrightarrow> r = x \<or> r \<in> set rows \<and> key r \<noteq> key x"
  by (auto simp: set_save_by split: if_splits)

lemma save_by_Cons [table_simps]:
  "save_by key x (r # rows) = (if key r = key x then x else r) # save_by key x rows"
  by (simp add: save_by_def)

lemma save_by_Nil [simp]: "save_by key x [] = []"
  by (simp add: save_by_def)

lemma save_by_fresh: "key x \<notin> key ` set rows \<Longrightarrow> save_by key x rows = rows"
  by (induction rows) (auto simp: save_by_def)

lemma lookup_by_fresh: "k \<notin> key ` set rows \<Longrightarrow> lookup_by key k rows = None"
  by (auto simp: lookup_by_None)

lemma find_update_where:
  "(\<And>r. P (f r) = P r) \<Longrightarrow> find P (update_where P f rows) = map_option f (find P rows)"
  by (induction rows) (auto simp: update_where_def)

lemma save_by_twice [table_simps]:
  "key x = key y \<Longrightarrow> save_by key x (save_by key y rows) = save_by key x rows"
  by (induction rows) (auto simp: save_by_def)

lemma filter_save_by_same:
  "(\<And>r. r \<in> set rows \<Longrightarrow> key r = key x \<Longrightarrow> \<not> P r) \<Longrightarrow> \<not> P x \<Longrightarrow>
   filter P (save_by key x rows) = filter P rows"
  by (induction rows) (auto simp: save_by_def)

lemma length_save_by [simp]: "length (save_by key x rows) = length rows"
  by (simp add: save_by_def)

lemma keys_update_where [table_simps]:
  "(\<And>r. P r \<Longrightarrow> key (f r) = key r) \<Longrightarrow> map key (update_where P f rows) = map key rows"
  by (induction rows) (auto simp: update_where_def)

lemma set_update_where:
  "set (update_where P f rows) = {r \<in> set rows. \<not> P r} \<union> f ` {r \<in> set rows. P r}"
  by (induction rows) (auto simp: update_where_def)

lemma update_where_mem:
  "r \<in> set (update_where P f rows) \<Longrightarrow> (r \<in> set rows \<and> \<not> P r) \<or> (\<exists>q\<in>set rows. P q \<and> r = f q)"
  by (auto simp: set_update_where)

lemma update_where_cases:
  assumes "r \<in> set (update_where P f rows)" and "\<And>q. q \<in> set rows \<Longrightarrow> P q \<Longrightarrow> Q (f q)"
    and "r \<in> set rows \<Longrightarrow> \<not> P r \<Longrightarrow> Q r"
  shows "Q r"
  using assms by (auto simp: set_update_where)

lemma update_where_Cons [table_simps]:
  "update_where P f (r # rows) = (if P r then f r else r) # update_where P f rows"
  by (simp add: update_where_def)

lemma update_where_Nil [simp]: "update_where P f [] = []"
  by (simp add: update_where_def)

lemma update_where_none: "(\<And>r. r \<in> set rows \<Longrightarrow> \<not> P r) \<Longrightarrow> update_where P f rows = rows"
  by (induction rows) (auto simp: update_where_def)

lemma length_update_where [simp]: "length (update_where P f rows) = length rows"
  by (simp add: update_where_def)

lemma set_delete_where [simp]: "set (delete_where P rows) = {r \<in> set rows. \<not> P r}"
  by (auto simp: delete_where_def)

lemma exists_row_iff [simp]: "exists_row P rows \<longleftrightarrow> (\<exists>r\<in>set rows. P r)"
  by (simp add: exists_row_def list_ex_iff)

lemma order_first_None [simp]: "order_first key rows = None \<longleftrightarrow> rows = []"
  by (auto simp: order_first_def split: list.splits dest: arg_cong [where f = length])

lemma order_first_Nil [simp]: "order_first key [] = None"
  by simp

lemma order_first_SomeD:
  assumes "order_first key rows = Some r"
  shows "r \<in> set rows" and "x \<in> set rows \<Longrightarrow> key r \<le> key x"
proof -
  from assms obtain rs where rs: "sort_key key rows = r # rs"
    by (auto simp: order_first_def split: list.splits)
  then have "set rows = set (r # rs)"
    by (metis set_sort)
  then show "r \<in> set rows" by simp
  have "sorted (map key (r # rs))"
    using rs sorted_sort_key [of key rows] by simp
  then show "x \<in> set rows \<Longrightarrow> key r \<le> key x"
    using \<open>set rows = set (r # rs)\<close> by auto
qed

lemma order_first_ex: "rows \<noteq> [] \<Longrightarrow> \<exists>r. order_first key rows = Some r"
  by (metis option.exhaust order_first_None)

text \<open>
  Two orderings agree on their first row when they order the same candidates by a key
  that separates them.
\<close>

lemma order_first_eqI:
  assumes "order_first key rows = Some r" and "r \<in> set rows'"
    and "\<And>x. x \<in> set rows' \<Longrightarrow> x \<noteq> r \<Longrightarrow> key r < key x"
  shows "order_first key rows' = Some r"
proof -
  from assms(2) obtain q where q: "order_first key rows' = Some q"
    by (metis list.set(1) empty_iff order_first_ex)
  with assms(2) have "key q \<le> key r" by (auto dest: order_first_SomeD)
  with assms(3) [of q] order_first_SomeD(1) [OF q] q show ?thesis
    by (cases "q = r") auto
qed

lemma first_row_SomeD: "first_row rows = Some r \<Longrightarrow> r \<in> set rows"
  by (auto simp: first_row_def split: list.splits)

lemma first_row_None [simp]: "first_row rows = None \<longleftrightarrow> rows = []"
  by (simp add: first_row_def split: list.splits)

subsection \<open>The table interface\<close>

text \<open>
  How a component reaches one table of the database: it reads all rows and writes them
  back. The laws are those of a field of a record; the client lemmas say what a save, an
  insertion with a fresh key and a deletion do to the keys of the table.
\<close>

locale table =
  fixes rows_of :: "'s \<Rightarrow> 'r list"
    and set_rows :: "'r list \<Rightarrow> 's \<Rightarrow> 's"
    and key :: "'r \<Rightarrow> 'k"
  assumes rows_set: "rows_of (set_rows rs s) = rs"
    and set_rows_same: "set_rows (rows_of s) s = s"
    and set_rows_twice: "set_rows rs (set_rows qs s) = set_rows rs s"
begin

lemma lookup_insert:
  "lookup_by key (key x) (rows_of s) = None \<Longrightarrow>
   lookup_by key (key x) (rows_of (set_rows (rows_of s @ [x]) s)) = Some x"
  by (simp add: rows_set table_simps)

lemma lookup_insert_other:
  "key x \<noteq> k \<Longrightarrow>
   lookup_by key k (rows_of (set_rows (rows_of s @ [x]) s)) = lookup_by key k (rows_of s)"
  by (simp add: rows_set table_simps split: option.splits)

lemma lookup_save:
  "lookup_by key (key x) (rows_of s) \<noteq> None \<Longrightarrow>
   lookup_by key (key x) (rows_of (set_rows (save_by key x (rows_of s)) s)) = Some x"
  by (simp add: rows_set table_simps)

lemma keys_save: "map key (rows_of (set_rows (save_by key x (rows_of s)) s)) = map key (rows_of s)"
  by (simp add: rows_set table_simps)

lemma distinct_insert:
  "distinct (map key (rows_of s)) \<Longrightarrow> lookup_by key (key x) (rows_of s) = None \<Longrightarrow>
   distinct (map key (rows_of (set_rows (rows_of s @ [x]) s)))"
  by (auto simp: rows_set lookup_by_None)

lemma distinct_delete:
  "distinct (map key (rows_of s)) \<Longrightarrow>
   distinct (map key (rows_of (set_rows (delete_where P (rows_of s)) s)))"
  by (simp add: rows_set delete_where_def distinct_map_filter)

lemma save_save:
  "key x = key y \<Longrightarrow>
   set_rows (save_by key x (rows_of (set_rows (save_by key y (rows_of s)) s)))
     (set_rows (save_by key y (rows_of s)) s) = set_rows (save_by key x (rows_of s)) s"
  by (simp add: rows_set set_rows_twice table_simps)

end

end
