(* ===== verification/Py_Std.thy ===== *)
theory Py_Std
  imports Prelude "HOL-Library.Char_ord"
begin

section \<open>The parts of Python's standard library the code uses\<close>

text \<open>
  Text is a list of characters, one per code point, over the first 256 code points.
  The definitions follow the documented behaviour of \<open>str.strip\<close>, \<open>str.lower\<close>,
  \<open>str.split\<close>, \<open>int\<close>, \<open>uuid.UUID\<close>, \<open>decimal.Decimal\<close> and the values the \<open>json\<close>
  module yields.
\<close>

subsection \<open>Strings\<close>

definition is_space :: "char \<Rightarrow> bool" where
  "is_space c = (let n = (of_char c :: nat) in
     (9 \<le> n \<and> n \<le> 13) \<or> (28 \<le> n \<and> n \<le> 32) \<or> n = 133 \<or> n = 160)"

definition strip_by :: "(char \<Rightarrow> bool) \<Rightarrow> string \<Rightarrow> string" where
  "strip_by p s = rev (dropWhile p (rev (dropWhile p s)))"

definition strip :: "string \<Rightarrow> string" where
  "strip s = strip_by is_space s"

definition lower_char :: "char \<Rightarrow> char" where
  "lower_char c = (let n = (of_char c :: nat) in
     if (65 \<le> n \<and> n \<le> 90) \<or> (192 \<le> n \<and> n \<le> 222 \<and> n \<noteq> 215) then char_of (n + 32) else c)"

definition lower :: "string \<Rightarrow> string" where
  "lower s = map lower_char s"

definition startswith :: "string \<Rightarrow> string \<Rightarrow> bool" where
  "startswith s p = (take (length p) s = p)"

definition endswith :: "string \<Rightarrow> string \<Rightarrow> bool" where
  "endswith s p = (length p \<le> length s \<and> drop (length s - length p) s = p)"

fun split_on :: "char \<Rightarrow> string \<Rightarrow> string list" where
  "split_on sep [] = [[]]"
| "split_on sep (c # cs) =
     (if c = sep then [] # split_on sep cs
      else (case split_on sep cs of [] \<Rightarrow> [[c]] | w # ws \<Rightarrow> (c # w) # ws))"

text \<open>\<open>s.split()\<close>: the maximal runs of characters that are not white space.\<close>

function split_ws :: "string \<Rightarrow> string list" where
  "split_ws s = (let t = dropWhile is_space s in
     if t = [] then []
     else takeWhile (\<lambda>c. \<not> is_space c) t # split_ws (dropWhile (\<lambda>c. \<not> is_space c) t))"
  by pat_completeness auto
termination
proof (relation "measure length", goal_cases)
  case 1
  then show ?case by simp
next
  case (2 s t)
  then have ne: "dropWhile is_space s \<noteq> []" by simp
  with 2 obtain c cs where t: "t = c # cs" by (metis neq_Nil_conv)
  then have "\<not> is_space c"
    using 2(1) hd_dropWhile [OF ne] by simp
  then have "length (dropWhile (\<lambda>c. \<not> is_space c) t) \<le> length cs"
    using t by (simp add: length_dropWhile_le)
  moreover have "length t \<le> length s"
    using 2 by (simp add: length_dropWhile_le)
  ultimately show ?case using t by simp
qed

declare split_ws.simps [simp del]

text \<open>\<open>s.replace(p, '')\<close> for a non-empty \<open>p\<close>.\<close>

fun remove_all :: "string \<Rightarrow> string \<Rightarrow> string" where
  "remove_all p [] = []"
| "remove_all p (c # cs) =
     (if p \<noteq> [] \<and> startswith (c # cs) p then remove_all p (drop (length p - 1) cs)
      else c # remove_all p cs)"

subsection \<open>Integers\<close>

definition dec_digit :: "char \<Rightarrow> int option" where
  "dec_digit c = (let n = (of_char c :: int) in if 48 \<le> n \<and> n \<le> 57 then Some (n - 48) else None)"

definition hex_digit :: "char \<Rightarrow> int option" where
  "hex_digit c = (let n = (of_char c :: int) in
     if 48 \<le> n \<and> n \<le> 57 then Some (n - 48)
     else if 97 \<le> n \<and> n \<le> 102 then Some (n - 87)
     else if 65 \<le> n \<and> n \<le> 70 then Some (n - 55) else None)"

text \<open>Digits with single underscores between them; the flag says that a digit came last.\<close>

fun parse_digits :: "(char \<Rightarrow> int option) \<Rightarrow> int \<Rightarrow> int \<Rightarrow> bool \<Rightarrow> string \<Rightarrow> int option" where
  "parse_digits dig base acc digit_last [] = (if digit_last then Some acc else None)"
| "parse_digits dig base acc digit_last (c # cs) =
     (if c = CHR ''_'' then (if digit_last then parse_digits dig base acc False cs else None)
      else (case dig c of None \<Rightarrow> None
            | Some d \<Rightarrow> parse_digits dig base (acc * base + d) True cs))"

definition split_sign :: "string \<Rightarrow> bool \<times> string" where
  "split_sign s = (case s of [] \<Rightarrow> (False, [])
     | c # cs \<Rightarrow> if c = CHR ''-'' then (True, cs) else if c = CHR ''+'' then (False, cs) else (False, s))"

definition parse_int :: "string \<Rightarrow> int option" where
  "parse_int s = (let (neg, t) = split_sign (strip s) in
     map_option (\<lambda>n. if neg then - n else n) (parse_digits dec_digit 10 0 False t))"

definition parse_int16 :: "string \<Rightarrow> int option" where
  "parse_int16 s = (let (neg, t) = split_sign (strip s);
       u = (if startswith (lower t) ''0x''
            then (let v = drop 2 t in if startswith v ''_'' then drop 1 v else v) else t)
     in map_option (\<lambda>n. if neg then - n else n) (parse_digits hex_digit 16 0 False u))"

definition parse_uuid :: "string \<Rightarrow> int option" where
  "parse_uuid s =
     (let h = remove_all ''-'' (strip_by (\<lambda>c. c = CHR ''{'' \<or> c = CHR ''}'')
                (remove_all ''uuid:'' (remove_all ''urn:'' s)))
      in if length h \<noteq> 32 then None
         else (case parse_int16 h of None \<Rightarrow> None
               | Some i \<Rightarrow> if 0 \<le> i \<and> i < 2 ^ 128 then Some i else None))"

definition digit_char :: "int \<Rightarrow> char" where
  "digit_char n = (if n < 10 then char_of (48 + n) else char_of (87 + n))"

function nat_str :: "int \<Rightarrow> string" where
  "nat_str n = (if n < 10 then [digit_char n] else nat_str (n div 10) @ [digit_char (n mod 10)])"
  by pat_completeness auto
termination
  by (relation "measure nat") auto

declare nat_str.simps [simp del]

definition int_str :: "int \<Rightarrow> string" where
  "int_str i = (if i < 0 then CHR ''-'' # nat_str (- i) else nat_str i)"

fun hex_fixed :: "nat \<Rightarrow> int \<Rightarrow> string" where
  "hex_fixed 0 n = []"
| "hex_fixed (Suc k) n = hex_fixed k (n div 16) @ [digit_char (n mod 16)]"

definition uuid_hex :: "int \<Rightarrow> string" where
  "uuid_hex u = hex_fixed 32 u"

definition uuid_str :: "int \<Rightarrow> string" where
  "uuid_str u = (let h = uuid_hex u in
     take 8 h @ ''-'' @ take 4 (drop 8 h) @ ''-'' @ take 4 (drop 12 h) @ ''-''
       @ take 4 (drop 16 h) @ ''-'' @ drop 20 h)"

subsection \<open>JSON values\<close>

text \<open>
  A JSON number with a fraction or an exponent is a Python float; \<open>JFloat m e\<close> is the
  float whose shortest decimal representation is \<open>m * 10 ^ e\<close>.
\<close>

datatype json =
    JNull
  | JBool bool
  | JInt int
  | JFloat int int
  | JStr string
  | JArr "json list"
  | JObj "(string \<times> json) list"

type_synonym payload = "(string \<times> json) list"

definition jget :: "payload \<Rightarrow> string \<Rightarrow> json" where
  "jget p k = (case map_of p k of None \<Rightarrow> JNull | Some v \<Rightarrow> v)"

definition jget_default :: "payload \<Rightarrow> string \<Rightarrow> json \<Rightarrow> json" where
  "jget_default p k d = (case map_of p k of None \<Rightarrow> d | Some v \<Rightarrow> v)"

definition jkeys :: "payload \<Rightarrow> string list" where
  "jkeys p = map fst p"

definition keys_within :: "payload \<Rightarrow> string list \<Rightarrow> bool" where
  "keys_within p allowed = list_all (\<lambda>k. k \<in> set allowed) (jkeys p)"

definition keys_exactly :: "payload \<Rightarrow> string list \<Rightarrow> bool" where
  "keys_exactly p expected = (keys_within p expected \<and> list_all (\<lambda>k. k \<in> set (jkeys p)) expected)"

fun truthy :: "json \<Rightarrow> bool" where
  "truthy JNull = False"
| "truthy (JBool b) = b"
| "truthy (JInt i) = (i \<noteq> 0)"
| "truthy (JFloat m e) = (m \<noteq> 0)"
| "truthy (JStr s) = (s \<noteq> [])"
| "truthy (JArr xs) = (xs \<noteq> [])"
| "truthy (JObj kvs) = (kvs \<noteq> [])"

text \<open>\<open>str(value)\<close> and \<open>repr(value)\<close> of a parsed JSON value.\<close>

definition escape_char :: "char \<Rightarrow> char \<Rightarrow> string" where
  "escape_char quote c = (let n = (of_char c :: int) in
     if c = quote \<or> n = 92 then [char_of (92::nat), c]
     else if n = 10 then [char_of (92::nat), CHR ''n'']
     else if n = 13 then [char_of (92::nat), CHR ''r'']
     else if n = 9 then [char_of (92::nat), CHR ''t'']
     else if n < 32 \<or> (127 \<le> n \<and> n \<le> 160) \<or> n = 173 then [char_of (92::nat), CHR ''x''] @ hex_fixed 2 n
     else [c])"

definition str_repr :: "string \<Rightarrow> string" where
  "str_repr s = (let single = char_of (39::nat); double = char_of (34::nat);
       quote = (if single \<in> set s \<and> double \<notin> set s then double else single)
     in quote # concat (map (escape_char quote) s) @ [quote])"

definition zeros :: "nat \<Rightarrow> string" where
  "zeros n = replicate n (CHR ''0'')"

definition float_repr :: "int \<Rightarrow> int \<Rightarrow> string" where
  "float_repr m e = (let sign = (if m < 0 then ''-'' else []) in
     if m = 0 then ''0.0'' else
     (let all_digits = nat_str \<bar>m\<bar>;
          digits = rev (dropWhile (\<lambda>c. c = CHR ''0'') (rev all_digits));
          point = int (length all_digits) + e
      in sign @
        (if point \<le> - 4 \<or> 16 < point then
           (let x = point - 1; mantissa = take 1 digits @ (if length digits = 1 then [] else CHR ''.'' # drop 1 digits)
            in mantissa @ ''e'' @ (if x < 0 then ''-'' else ''+'')
                 @ (if \<bar>x\<bar> < 10 then ''0'' else []) @ nat_str \<bar>x\<bar>)
         else if point \<le> 0 then ''0.'' @ zeros (nat (- point)) @ digits
         else if int (length digits) \<le> point
           then digits @ zeros (nat point - length digits) @ ''.0''
         else take (nat point) digits @ ''.'' @ drop (nat point) digits)))"

fun join :: "string \<Rightarrow> string list \<Rightarrow> string" where
  "join sep [] = []"
| "join sep [w] = w"
| "join sep (w # ws) = w @ sep @ join sep ws"

fun json_repr :: "json \<Rightarrow> string" where
  "json_repr JNull = ''None''"
| "json_repr (JBool b) = (if b then ''True'' else ''False'')"
| "json_repr (JInt i) = int_str i"
| "json_repr (JFloat m e) = float_repr m e"
| "json_repr (JStr s) = str_repr s"
| "json_repr (JArr xs) = ''['' @ join '', '' (map json_repr xs) @ '']''"
| "json_repr (JObj kvs) =
     ''{'' @ join '', '' (map (\<lambda>(k, v). str_repr k @ '': '' @ json_repr v) kvs) @ ''}''"

definition json_str :: "json \<Rightarrow> string" where
  "json_str v = (case v of JStr s \<Rightarrow> s | _ \<Rightarrow> json_repr v)"

text \<open>
  \<open>int(value)\<close>: \<open>None\<close> stands for the \<open>TypeError\<close> or \<open>ValueError\<close> of a value that
  is not a number. A float is truncated towards zero.
\<close>

definition trunc_dec :: "int \<Rightarrow> int \<Rightarrow> int" where
  "trunc_dec m e = (if 0 \<le> e then m * 10 ^ nat e
     else if 0 \<le> m then m div 10 ^ nat (- e) else - ((- m) div 10 ^ nat (- e)))"

fun json_int :: "json \<Rightarrow> int option" where
  "json_int (JInt i) = Some i"
| "json_int (JBool b) = Some (if b then 1 else 0)"
| "json_int (JFloat m e) = Some (trunc_dec m e)"
| "json_int (JStr s) = parse_int s"
| "json_int _ = None"

subsection \<open>Decimal numbers\<close>

datatype pydec = DFin int int | DInf bool | DNaN

definition parse_mantissa :: "string \<Rightarrow> (int \<times> nat) option" where
  "parse_mantissa s = (let ip = takeWhile (\<lambda>c. c \<noteq> CHR ''.'') s;
       rest = dropWhile (\<lambda>c. c \<noteq> CHR ''.'') s; fp = drop 1 rest
     in if ip @ fp = [] then None
        else map_option (\<lambda>n. (n, length fp)) (parse_digits dec_digit 10 0 True (ip @ fp)))"

definition parse_decimal :: "string \<Rightarrow> pydec option" where
  "parse_decimal s = (let (neg, t) = split_sign (lower (remove_all ''_'' (strip s)));
       m = takeWhile (\<lambda>c. c \<noteq> CHR ''e'') t; x = dropWhile (\<lambda>c. c \<noteq> CHR ''e'') t
     in if t = ''inf'' \<or> t = ''infinity'' then Some (DInf neg)
        else if (startswith t ''nan'' \<and> list_all (\<lambda>c. dec_digit c \<noteq> None) (drop 3 t))
             \<or> (startswith t ''snan'' \<and> list_all (\<lambda>c. dec_digit c \<noteq> None) (drop 4 t)) then Some DNaN
        else (case parse_mantissa m of None \<Rightarrow> None
          | Some (n, places) \<Rightarrow>
              (let coeff = (if neg then - n else n) in
               if x = [] then Some (DFin coeff (- int places))
               else (let (xneg, xd) = split_sign (drop 1 x) in
                 case parse_digits dec_digit 10 0 False xd of None \<Rightarrow> None
                 | Some k \<Rightarrow> Some (DFin coeff ((if xneg then - k else k) - int places))))))"

text \<open>\<open>Decimal(str(value))\<close>; \<open>None\<close> is the \<open>InvalidOperation\<close> of text that is no number.\<close>

fun json_decimal :: "json \<Rightarrow> pydec option" where
  "json_decimal (JInt i) = Some (DFin i 0)"
| "json_decimal (JFloat m e) = Some (DFin m e)"
| "json_decimal (JStr s) = parse_decimal s"
| "json_decimal _ = None"

definition dec_le_int :: "int \<Rightarrow> int \<Rightarrow> int \<Rightarrow> bool" where
  "dec_le_int m e n = (if 0 \<le> e then m * 10 ^ nat e \<le> n else m \<le> n * 10 ^ nat (- e))"

definition int_le_dec :: "int \<Rightarrow> int \<Rightarrow> int \<Rightarrow> bool" where
  "int_le_dec n m e = (if 0 \<le> e then n \<le> m * 10 ^ nat e else n * 10 ^ nat (- e) \<le> m)"

text \<open>
  \<open>quantize(10 ^ -places)\<close> with the default context: half-even rounding, and
  \<open>InvalidOperation\<close> (\<open>None\<close>) when the coefficient needs more than 28 digits. The
  result is the coefficient, that is the number in units of \<open>10 ^ -places\<close>.
\<close>

definition round_half_even :: "int \<Rightarrow> int \<Rightarrow> int" where
  "round_half_even m d = (let q = m div d; r = m mod d in
     if 2 * r < d then q else if d < 2 * r then q + 1 else if even q then q else q + 1)"

definition quantize :: "nat \<Rightarrow> int \<Rightarrow> int \<Rightarrow> int option" where
  "quantize places m e = (let x = e + int places;
       units = (if 0 \<le> x then m * 10 ^ nat x else round_half_even m (10 ^ nat (- x)))
     in if \<bar>units\<bar> < 10 ^ 28 then Some units else None)"

lemma round_half_even_bounds:
  assumes "0 < d"
  shows "2 * (m - d * round_half_even m d) \<le> d" and "- d \<le> 2 * (m - d * round_half_even m d)"
proof -
  define q r where "q = m div d" and "r = m mod d"
  have m: "m = d * q + r" by (simp add: q_def r_def)
  have r: "0 \<le> r" "r < d" using assms by (simp_all add: r_def)
  have e: "round_half_even m d = (if 2 * r < d then q else if d < 2 * r then q + 1 else if even q then q else q + 1)"
    by (simp add: round_half_even_def Let_def q_def r_def)
  show "2 * (m - d * round_half_even m d) \<le> d"
    unfolding e using r by (simp add: m algebra_simps)
  show "- d \<le> 2 * (m - d * round_half_even m d)"
    unfolding e using r by (simp add: m algebra_simps)
qed

lemma round_half_even_mono_bound:
  assumes "0 < d" and "m \<le> n * d"
  shows "round_half_even m d \<le> n"
proof (rule ccontr)
  assume "\<not> round_half_even m d \<le> n"
  then have "n + 1 \<le> round_half_even m d" by simp
  then have "d * (n + 1) \<le> d * round_half_even m d" using assms(1) by simp
  with round_half_even_bounds(2) [OF assms(1), of m] assms show False
    by (auto simp: algebra_simps)
qed

lemma round_half_even_mono_bound_lower:
  assumes "0 < d" and "n * d \<le> m"
  shows "n \<le> round_half_even m d"
proof (rule ccontr)
  assume "\<not> n \<le> round_half_even m d"
  then have "round_half_even m d + 1 \<le> n" by simp
  then have "d * (round_half_even m d + 1) \<le> d * n" using assms(1) by simp
  with round_half_even_bounds(1) [OF assms(1), of m] assms show False
    by (auto simp: algebra_simps)
qed

subsection \<open>Printing and parsing of UUIDs\<close>

definition hex_chars :: "string" where
  "hex_chars = ''0123456789abcdef''"

lemma digit_char_props:
  assumes "0 \<le> n" and "n < 16"
  shows "digit_char n \<in> set hex_chars" and "hex_digit (digit_char n) = Some n"
proof -
  have all: "list_all (\<lambda>n. digit_char n \<in> set hex_chars \<and> hex_digit (digit_char n) = Some n) [0..15]"
    by code_simp
  have "n \<in> set [0..15]" using assms by simp
  with all show "digit_char n \<in> set hex_chars" and "hex_digit (digit_char n) = Some n"
    unfolding list_all_iff by blast+
qed

lemma hex_char_props:
  assumes "c \<in> set hex_chars"
  shows "c \<noteq> CHR ''_''" and "c \<noteq> CHR ''-''" and "c \<noteq> CHR ''+''" and "\<not> is_space c"
    and "lower_char c = c" and "c \<noteq> CHR ''u''" and "c \<noteq> CHR ''x''" and "c \<noteq> CHR ''{''" and "c \<noteq> CHR ''}''"
proof -
  have "\<forall>c\<in>set hex_chars. c \<noteq> CHR ''_'' \<and> c \<noteq> CHR ''-'' \<and> c \<noteq> CHR ''+'' \<and> \<not> is_space c \<and>
      lower_char c = c \<and> c \<noteq> CHR ''u'' \<and> c \<noteq> CHR ''x'' \<and> c \<noteq> CHR ''{'' \<and> c \<noteq> CHR ''}''"
    by code_simp
  with assms show "c \<noteq> CHR ''_''" "c \<noteq> CHR ''-''" "c \<noteq> CHR ''+''" "\<not> is_space c"
    "lower_char c = c" "c \<noteq> CHR ''u''" "c \<noteq> CHR ''x''" "c \<noteq> CHR ''{''" "c \<noteq> CHR ''}''" by blast+
qed

lemma hex_fixed_chars: "set (hex_fixed k n) \<subseteq> set hex_chars"
  by (induction k n rule: hex_fixed.induct) (auto intro: digit_char_props)

lemma length_hex_fixed [simp]: "length (hex_fixed k n) = k"
  by (induction k n rule: hex_fixed.induct) auto

lemma parse_digits_append:
  assumes "\<forall>c\<in>set xs. c \<noteq> CHR ''_''" and "xs \<noteq> []"
  shows "parse_digits dig base acc l (xs @ ys) =
    (case parse_digits dig base acc l xs of None \<Rightarrow> None | Some a \<Rightarrow> parse_digits dig base a True ys)"
  using assms
proof (induction xs arbitrary: acc l)
  case Nil
  then show ?case by simp
next
  case (Cons c cs)
  then show ?case by (cases cs) (auto split: option.splits)
qed

lemma parse_hex_fixed:
  "0 \<le> n \<Longrightarrow> n < 16 ^ k \<Longrightarrow> 0 < k \<Longrightarrow> parse_digits hex_digit 16 0 l (hex_fixed k n) = Some n"
proof (induction k n arbitrary: l rule: hex_fixed.induct)
  case (1 n)
  then show ?case by simp
next
  case (2 k n)
  have d: "hex_digit (digit_char (n mod 16)) = Some (n mod 16)" "digit_char (n mod 16) \<noteq> CHR ''_''"
    using hex_char_props(1) [OF digit_char_props(1)] by (auto simp: digit_char_props)
  show ?case
  proof (cases "k = 0")
    case True
    with 2 d show ?thesis by simp
  next
    case False
    have "n div 16 < 16 ^ k" using 2(3) by (simp add: div_less_iff_less_mult mult.commute)
    with 2 False have IH: "parse_digits hex_digit 16 0 l (hex_fixed k (n div 16)) = Some (n div 16)" by simp
    have ne: "hex_fixed k (n div 16) \<noteq> []" using False by (metis length_hex_fixed list.size(3))
    show ?thesis
      using d IH ne hex_fixed_chars [of k "n div 16"] hex_char_props(1)
      by (subst hex_fixed.simps, subst parse_digits_append) auto
  qed
qed

lemma remove_all_none:
  "p = q # qs \<Longrightarrow> q \<notin> set s \<Longrightarrow> remove_all p s = s"
  by (induction p s rule: remove_all.induct) (auto simp: startswith_def)

lemma remove_all_dash: "remove_all ''-'' s = filter (\<lambda>c. c \<noteq> CHR ''-'') s"
  by (induction "''-''" s rule: remove_all.induct) (auto simp: startswith_def)

lemma strip_by_none: "(\<forall>c\<in>set s. \<not> p c) \<Longrightarrow> strip_by p s = s"
proof -
  assume a: "\<forall>c\<in>set s. \<not> p c"
  have "dropWhile p t = t" if "\<forall>c\<in>set t. \<not> p c" for t
    using that by (cases t) auto
  from this [OF a] this [of "rev s"] a show ?thesis by (simp add: strip_by_def)
qed

lemma uuid_str_chars: "set (uuid_str u) \<subseteq> insert (CHR ''-'') (set hex_chars)"
  using hex_fixed_chars [of 32 u]
  by (auto simp: uuid_str_def uuid_hex_def Let_def dest!: in_set_takeD in_set_dropD)

lemma uuid_str_digits: "filter (\<lambda>c. c \<noteq> CHR ''-'') (uuid_str u) = uuid_hex u"
proof -
  define h where "h = uuid_hex u"
  have no: "filter (\<lambda>c. c \<noteq> CHR ''-'') w = w" if "set w \<subseteq> set h" for w
    using that hex_fixed_chars [of 32 u] hex_char_props(2) by (auto simp: h_def uuid_hex_def filter_id_conv)
  have sub: "set (take a (drop b h)) \<subseteq> set h" "set (drop b h) \<subseteq> set h" "set (take a h) \<subseteq> set h" for a b
    by (auto dest!: in_set_takeD in_set_dropD)
  have "filter (\<lambda>c. c \<noteq> CHR ''-'') (uuid_str u)
      = take 8 h @ take 4 (drop 8 h) @ take 4 (drop 12 h) @ take 4 (drop 16 h) @ drop 20 h"
    by (simp add: uuid_str_def Let_def h_def [symmetric] no [OF sub(1)] no [OF sub(2)] no [OF sub(3)])
  also have "drop 16 h = take 4 (drop 16 h) @ drop 20 h"
    using append_take_drop_id [of 4 "drop 16 h"] by simp
  then have "take 8 h @ take 4 (drop 8 h) @ take 4 (drop 12 h) @ take 4 (drop 16 h) @ drop 20 h
      = take 8 h @ take 4 (drop 8 h) @ take 4 (drop 12 h) @ drop 16 h" by metis
  also have "take 4 (drop 12 h) @ drop 16 h = drop 12 h"
    using append_take_drop_id [of 4 "drop 12 h"] by simp
  also have "take 4 (drop 8 h) @ drop 12 h = drop 8 h"
    using append_take_drop_id [of 4 "drop 8 h"] by simp
  finally show ?thesis by (simp add: h_def)
qed

lemma parse_uuid_str [simp]:
  assumes "0 \<le> u" and "u < 2 ^ 128"
  shows "parse_uuid (uuid_str u) = Some u"
proof -
  define s h where "s = uuid_str u" and "h = uuid_hex u"
  have hc: "set h \<subseteq> set hex_chars" by (simp add: h_def uuid_hex_def hex_fixed_chars)
  have sc: "set s \<subseteq> insert (CHR ''-'') (set hex_chars)" by (simp add: s_def uuid_str_chars)
  have "CHR ''u'' \<notin> set s" using sc hex_char_props(6) by auto
  then have r: "remove_all ''uuid:'' (remove_all ''urn:'' s) = s"
    by (simp add: remove_all_none)
  have "strip_by (\<lambda>c. c = CHR ''{'' \<or> c = CHR ''}'') s = s"
    using sc hex_char_props(8,9) by (intro strip_by_none) auto
  then have d: "remove_all ''-'' (strip_by (\<lambda>c. c = CHR ''{'' \<or> c = CHR ''}'') s) = h"
    by (simp add: remove_all_dash s_def h_def uuid_str_digits)
  have len: "length h = 32" by (simp add: h_def uuid_hex_def)
  then have "length h = Suc (Suc 30)" by simp
  then obtain c e rest where h: "h = c # e # rest"
    unfolding length_Suc_conv by blast
  have ce: "c \<in> set hex_chars" "e \<in> set hex_chars" using hc h by auto
  have st: "strip h = h" unfolding strip_def using hc hex_char_props(4) by (intro strip_by_none) auto
  have "split_sign h = (False, h)" using ce hex_char_props(2,3) by (simp add: split_sign_def h)
  moreover have "\<not> startswith (lower h) ''0x''"
    using ce hex_char_props(5,7) by (simp add: startswith_def lower_def h)
  ultimately have "parse_int16 h = parse_digits hex_digit 16 0 False h"
    by (simp add: parse_int16_def st option.map_ident)
  also have "\<dots> = Some u"
    unfolding h_def uuid_hex_def using assms by (intro parse_hex_fixed) auto
  finally show ?thesis
    using assms unfolding parse_uuid_def Let_def s_def [symmetric] r d len by simp
qed

end
