(* ===== verification/Models.thy ===== *)
theory Models
  imports Py_Std
begin

section \<open>The data model\<close>

text \<open>
  The tables of \<open>signage/models.py\<close> as records, one per model class, and the database
  as the record of all tables. Columns keep the names of the model fields behind a prefix
  for the class. A foreign key is the primary key of the row it names; a UUID is its
  128-bit value; a nullable column is an option; an empty character column is the empty
  list. The column \<open>updated_at\<close> is kept where the code reads it, in the two throttle
  tables; the display diagonal is in hundredths of an inch.
\<close>

type_synonym id = int

subsection \<open>Limits, accounts and throttles\<close>

record platform_settings =
  ps_singleton_id :: int
  ps_playlist_max_entries :: int
  ps_playlist_max_duration_seconds :: int

definition default_platform_settings :: platform_settings where
  "default_platform_settings =
     \<lparr>ps_singleton_id = 1, ps_playlist_max_entries = 100, ps_playlist_max_duration_seconds = 1800\<rparr>"

record hardware_qualification =
  hq_id :: id
  hq_model_name :: string
  hq_firmware_version :: string
  hq_android_version :: string
  hq_security_patch_level :: string
  hq_display_diagonal :: "int option"
  hq_tested_by :: id
  hq_test_date :: int
  hq_evidence_reference :: string
  hq_legacy_passes :: "bool list"
  hq_recorded_passes :: "string \<Rightarrow> bool"
  hq_approved_for_pilot :: bool
  hq_approved_at :: "time option"

record login_throttle =
  lt_key_hash :: string
  lt_failures :: int
  lt_locked_until :: "time option"
  lt_updated_at :: time

record api_throttle =
  at_key_hash :: string
  at_attempts :: int
  at_window_started_at :: time
  at_blocked_until :: "time option"
  at_updated_at :: time

datatype role = Owner | Marketing

record user =
  us_id :: id
  us_email :: string
  us_role :: role
  us_is_active :: bool
  us_is_staff :: bool
  us_is_superuser :: bool
  us_password :: string

record driver =
  dr_id :: id
  dr_internal_id :: string
  dr_name :: string
  dr_anonymized_at :: "time option"

record vehicle =
  ve_id :: id
  ve_registration :: string
  ve_anonymized_at :: "time option"

subsection \<open>Playlists and media\<close>

datatype playlist_status = Draft | Published | Cancelled | PlaylistArchived

record playlist =
  pl_id :: id
  pl_name :: string
  pl_version :: int
  pl_status :: playlist_status
  pl_starts_at :: time
  pl_ends_at :: time
  pl_published_at :: "time option"
  pl_is_urgent :: bool
  pl_created_by :: id
  pl_superseded_by :: "id option"

datatype media_kind = Image | Video

datatype media_status = Quarantined | Processing | Ready | Rejected | MediaArchived

record media_asset =
  ma_id :: id
  ma_business_name :: string
  ma_title :: string
  ma_kind :: media_kind
  ma_status :: media_status
  ma_source_file :: string
  ma_normalized_file :: string
  ma_sha256 :: string
  ma_mime_type :: string
  ma_file_size :: int
  ma_duration_ms :: int
  ma_width :: "int option"
  ma_height :: "int option"
  ma_rejection_reason :: string
  ma_uploaded_by :: id
  ma_archived_at :: "time option"
  ma_dispatch_attempts :: int
  ma_last_dispatch_attempt_at :: "time option"
  ma_dispatched_at :: "time option"
  ma_processing_attempts :: int
  ma_processing_token :: "id option"
  ma_processing_started_at :: "time option"
  ma_processing_lease_expires_at :: "time option"
  ma_processing_finished_at :: "time option"
  ma_created_at :: time

record playlist_item =
  pi_id :: id
  pi_playlist :: id
  pi_media :: id
  pi_position :: int

record media_deletion =
  md_id :: id
  md_asset :: id
  md_source_name :: string
  md_normalized_name :: string
  md_attempts :: int
  md_last_attempt_at :: "time option"
  md_last_error :: string
  md_completed_at :: "time option"
  md_created_at :: time

subsection \<open>Devices, enrollment and credentials\<close>

datatype device_status = Pending | Active | Disabled

record device =
  dv_id :: id
  dv_label :: string
  dv_hardware_qualification :: "id option"
  dv_status :: device_status
  dv_android_id_hash :: "string option"
  dv_hardware_model :: string
  dv_hardware_firmware_version :: string
  dv_hardware_security_patch :: string
  dv_app_version :: string
  dv_android_version :: string
  dv_last_seen_at :: "time option"
  dv_last_heartbeat_recorded_at :: "time option"
  dv_last_location_reported_at :: "time option"
  dv_location_state :: string
  dv_location_state_updated_at :: "time option"
  dv_location_planned_gap_until :: "time option"
  dv_last_sync_at :: "time option"
  dv_last_playback_at :: "time option"
  dv_current_playlist :: "id option"
  dv_disabled_at :: "time option"
  dv_kiosk_pin_hash :: string
  dv_kiosk_pin_reset_at :: "time option"
  dv_created_at :: time

record device_assignment =
  da_id :: id
  da_device :: id
  da_driver :: id
  da_vehicle :: id
  da_sim_card_number :: string
  da_assigned_at :: time
  da_unassigned_at :: "time option"

record enrollment_code =
  ec_id :: id
  ec_device :: id
  ec_code_hash :: string
  ec_expires_at :: time
  ec_used_at :: "time option"
  ec_created_by :: id

record enrollment_challenge =
  ch_id :: id
  ch_enrollment :: id
  ch_request_hash :: string
  ch_android_id_hash :: string
  ch_android_version :: string
  ch_app_version :: string
  ch_hardware_model :: string
  ch_firmware_version :: string
  ch_security_patch_level :: string
  ch_expires_at :: time
  ch_used_at :: "time option"

record device_credential =
  cr_id :: id
  cr_device :: id
  cr_refresh_hash :: string
  cr_revoked_at :: "time option"
  cr_created_at :: time

record management_credential =
  mc_device :: id
  mc_token_hash :: string

datatype command_kind = AdminMode | SyncNow

record device_command =
  dc_id :: id
  dc_device :: id
  dc_kind :: command_kind
  dc_requested_by :: id
  dc_expires_at :: time
  dc_delivered_at :: "time option"
  dc_acknowledged_at :: "time option"
  dc_created_at :: time

record access_token =
  tk_id :: id
  tk_credential :: id
  tk_token_hash :: string
  tk_expires_at :: time

subsection \<open>Evidence, alerts and audit\<close>

record device_heartbeat =
  hb_id :: id
  hb_device :: id
  hb_recorded_at :: time
  hb_received_at :: time
  hb_screen_on :: bool
  hb_external_power :: "bool option"
  hb_charging :: "bool option"
  hb_battery_percent :: "int option"
  hb_free_storage_bytes :: int
  hb_temperature_celsius :: "(int \<times> int) option"
  hb_app_version :: string
  hb_android_version :: string
  hb_active_playlist :: "id option"
  hb_playback_active :: bool
  hb_last_successful_sync_at :: "time option"
  hb_last_playback_at :: "time option"

record location_point =
  lp_id :: id
  lp_device :: id
  lp_assignment :: "id option"
  lp_recorded_at :: time
  lp_device_recorded_at :: time
  lp_latitude :: int
  lp_longitude :: int
  lp_accuracy_m :: int
  lp_provider :: string
  lp_source :: string

record playback_batch_row =
  pb_id :: id
  pb_device :: id
  pb_playlist :: id
  pb_assignment :: "id option"
  pb_loop_started_at :: time
  pb_loop_ended_at :: "time option"
  pb_captured_offline :: bool
  pb_received_at :: time

datatype playback_status = Completed | Interrupted | Failed

record playback_event =
  pe_id :: id
  pe_batch :: id
  pe_playlist_item :: id
  pe_started_at :: time
  pe_ended_at :: "time option"
  pe_duration_ms :: int
  pe_status :: playback_status
  pe_failure_reason :: string

record playback_correction =
  pc_id :: id
  pc_event :: id
  pc_reason :: string
  pc_replacement_status :: "playback_status option"
  pc_created_by :: id
  pc_created_at :: time

datatype event_kind =
    ForcedQueueLoss
  | ReplacementFailed
  | PlannedShutdown
  | AbnormalAppExit
  | LocationQueueLoss
  | LocationPointRejected

record operational_event_row =
  oe_id :: id
  oe_device :: id
  oe_kind :: event_kind
  oe_recorded_at :: time
  oe_received_at :: time
  oe_details :: payload

datatype severity = Warning | Critical

instantiation severity :: linorder
begin

definition less_eq_severity :: "severity \<Rightarrow> severity \<Rightarrow> bool" where
  "less_eq_severity a b = (a = Warning \<or> b = Critical)"

definition less_severity :: "severity \<Rightarrow> severity \<Rightarrow> bool" where
  "less_severity a b = (a = Warning \<and> b = Critical)"

instance
proof
  fix x y z :: severity
  show "(x < y) = (x \<le> y \<and> \<not> y \<le> x)"
    by (cases x; cases y) (simp_all add: less_severity_def less_eq_severity_def)
  show "x \<le> x"
    by (cases x) (simp_all add: less_eq_severity_def)
  show "x \<le> y \<Longrightarrow> y \<le> z \<Longrightarrow> x \<le> z"
    by (cases x; cases y; cases z) (simp_all add: less_eq_severity_def)
  show "x \<le> y \<Longrightarrow> y \<le> x \<Longrightarrow> x = y"
    by (cases x; cases y) (simp_all add: less_eq_severity_def)
  show "x \<le> y \<or> y \<le> x"
    by (cases x; cases y) (simp_all add: less_eq_severity_def)
qed

end

record alert =
  al_id :: id
  al_device :: "id option"
  al_code :: string
  al_severity :: severity
  al_message :: string
  al_acknowledged_at :: "time option"
  al_acknowledged_by :: "id option"
  al_created_at :: time

record audit_event =
  au_id :: id
  au_actor :: "id option"
  au_action :: string
  au_target_type :: string
  au_target_id :: string
  au_metadata :: payload
  au_occurred_at :: time

subsection \<open>The database\<close>

text \<open>
  The field \<open>next_pk\<close> stands for the sequences of the automatic integer keys: every
  insertion takes the next value.
\<close>

record db =
  platform :: "platform_settings option"
  qualifications :: "hardware_qualification list"
  login_throttles :: "login_throttle list"
  api_throttles :: "api_throttle list"
  users :: "user list"
  drivers :: "driver list"
  vehicles :: "vehicle list"
  playlists :: "playlist list"
  media_assets :: "media_asset list"
  playlist_items :: "playlist_item list"
  media_deletions :: "media_deletion list"
  devices :: "device list"
  assignments :: "device_assignment list"
  enrollment_codes :: "enrollment_code list"
  challenges :: "enrollment_challenge list"
  credentials :: "device_credential list"
  management_credentials :: "management_credential list"
  commands :: "device_command list"
  access_tokens :: "access_token list"
  heartbeats :: "device_heartbeat list"
  location_points :: "location_point list"
  playback_batches :: "playback_batch_row list"
  playback_events :: "playback_event list"
  corrections :: "playback_correction list"
  operational_events :: "operational_event_row list"
  alerts :: "alert list"
  audits :: "audit_event list"
  next_pk :: id

definition empty_db :: db where
  "empty_db = \<lparr>platform = None, qualifications = [], login_throttles = [], api_throttles = [],
     users = [], drivers = [], vehicles = [], playlists = [], media_assets = [],
     playlist_items = [], media_deletions = [], devices = [], assignments = [],
     enrollment_codes = [], challenges = [], credentials = [], management_credentials = [],
     commands = [], access_tokens = [], heartbeats = [], location_points = [],
     playback_batches = [], playback_events = [], corrections = [], operational_events = [],
     alerts = [], audits = [], next_pk = 1\<rparr>"

text \<open>\<open>PlatformSettings.load\<close>: read the singleton row, creating it when it is missing.\<close>

definition load_platform :: "db \<Rightarrow> platform_settings \<times> db" where
  "load_platform s = (case platform s of
       Some p \<Rightarrow> (p, s)
     | None \<Rightarrow> (default_platform_settings, s\<lparr>platform := Some default_platform_settings\<rparr>))"

lemma load_platform_frame [simp]:
  "playlists (snd (load_platform s)) = playlists s"
  "playlist_items (snd (load_platform s)) = playlist_items s"
  "media_assets (snd (load_platform s)) = media_assets s"
  "commands (snd (load_platform s)) = commands s"
  "devices (snd (load_platform s)) = devices s"
  "management_credentials (snd (load_platform s)) = management_credentials s"
  "next_pk (snd (load_platform s)) = next_pk s"
  by (auto simp: load_platform_def split: option.splits)

text \<open>
  \<open>services.audit\<close>: append an audit event about a target, given by its model label and
  the text of its primary key.
\<close>

definition audit :: "time \<Rightarrow> id option \<Rightarrow> string \<Rightarrow> string \<Rightarrow> string \<Rightarrow> payload \<Rightarrow> db \<Rightarrow> db" where
  "audit now actor action target_type target_id metadata s =
     s\<lparr>audits := audits s @
          [\<lparr>au_id = next_pk s, au_actor = actor, au_action = action, au_target_type = target_type,
            au_target_id = target_id, au_metadata = metadata, au_occurred_at = now\<rparr>],
       next_pk := next_pk s + 1\<rparr>"

lemma audit_frame [simp]:
  "platform (audit now actor act tt ti m s) = platform s"
  "playlists (audit now actor act tt ti m s) = playlists s"
  "playlist_items (audit now actor act tt ti m s) = playlist_items s"
  "media_assets (audit now actor act tt ti m s) = media_assets s"
  "media_deletions (audit now actor act tt ti m s) = media_deletions s"
  "devices (audit now actor act tt ti m s) = devices s"
  "assignments (audit now actor act tt ti m s) = assignments s"
  "enrollment_codes (audit now actor act tt ti m s) = enrollment_codes s"
  "challenges (audit now actor act tt ti m s) = challenges s"
  "credentials (audit now actor act tt ti m s) = credentials s"
  "management_credentials (audit now actor act tt ti m s) = management_credentials s"
  "commands (audit now actor act tt ti m s) = commands s"
  "access_tokens (audit now actor act tt ti m s) = access_tokens s"
  "alerts (audit now actor act tt ti m s) = alerts s"
  "users (audit now actor act tt ti m s) = users s"
  "drivers (audit now actor act tt ti m s) = drivers s"
  "vehicles (audit now actor act tt ti m s) = vehicles s"
  "api_throttles (audit now actor act tt ti m s) = api_throttles s"
  "login_throttles (audit now actor act tt ti m s) = login_throttles s"
  "next_pk (audit now actor act tt ti m s) = next_pk s + 1"
  by (simp_all add: audit_def)

text \<open>Every audit event already written stays where it is.\<close>

lemma audits_audit:
  "audits (audit now actor act tt ti m s) = audits s @
     [\<lparr>au_id = next_pk s, au_actor = actor, au_action = act, au_target_type = tt,
       au_target_id = ti, au_metadata = m, au_occurred_at = now\<rparr>]"
  by (simp add: audit_def)

subsection \<open>The tables behind the table interface\<close>

interpretation playlist_table: table playlists "\<lambda>rs s. s\<lparr>playlists := rs\<rparr>" pl_id
  by unfold_locales simp_all

interpretation media_table: table media_assets "\<lambda>rs s. s\<lparr>media_assets := rs\<rparr>" ma_id
  by unfold_locales simp_all

interpretation device_table: table devices "\<lambda>rs s. s\<lparr>devices := rs\<rparr>" dv_id
  by unfold_locales simp_all

interpretation alert_table: table alerts "\<lambda>rs s. s\<lparr>alerts := rs\<rparr>" al_id
  by unfold_locales simp_all

interpretation throttle_table: table api_throttles "\<lambda>rs s. s\<lparr>api_throttles := rs\<rparr>" at_key_hash
  by unfold_locales simp_all

interpretation operational_table:
  table operational_events "\<lambda>rs s. s\<lparr>operational_events := rs\<rparr>" oe_id
  by unfold_locales simp_all

interpretation location_table: table location_points "\<lambda>rs s. s\<lparr>location_points := rs\<rparr>" lp_id
  by unfold_locales simp_all

interpretation batch_table: table playback_batches "\<lambda>rs s. s\<lparr>playback_batches := rs\<rparr>" pb_id
  by unfold_locales simp_all

end
