(* ===== verification/Settings.thy ===== *)
theory Settings
  imports Py_Std
begin

section \<open>Configuration\<close>

text \<open>
  \<open>config/settings.py\<close>: reading the process environment and secret files into the
  settings the components use. A value that Python cannot parse ends start-up with an
  error, as the import of the module would. The secret-file rules, the isolation of
  development and production and the bounds checked at start-up are kept; settings that
  only name Django classes are not part of the record.
\<close>

type_synonym environ = "string \<Rightarrow> string option"

record secret_file =
  sf_symlink :: bool
  sf_regular :: bool
  sf_mode :: int
  sf_text :: "string option"

type_synonym secret_files = "string \<Rightarrow> secret_file option"

subsection \<open>Reading the environment\<close>

definition env_str :: "environ \<Rightarrow> string \<Rightarrow> string \<Rightarrow> string" where
  "env_str env name dflt = (case env name of None \<Rightarrow> dflt | Some v \<Rightarrow> v)"

definition env_int :: "environ \<Rightarrow> string \<Rightarrow> int \<Rightarrow> int result" where
  "env_int env name dflt = (case env name of None \<Rightarrow> Inr dflt
     | Some v \<Rightarrow> (case parse_int v of None \<Rightarrow> Inl (ServerError name) | Some i \<Rightarrow> Inr i))"

definition env_bool :: "environ \<Rightarrow> string \<Rightarrow> bool \<Rightarrow> bool" where
  "env_bool env name dflt =
     (lower (env_str env name (if dflt then ''True'' else ''False'')) \<in> set [''1'', ''true'', ''yes'', ''on''])"

definition env_csv :: "environ \<Rightarrow> string \<Rightarrow> string list" where
  "env_csv env name = filter (\<lambda>v. v \<noteq> []) (map strip (split_on (CHR '','') (env_str env name [])))"

text \<open>\<open>float(text)\<close> as an exact decimal, an infinity or a NaN.\<close>

definition parse_float :: "string \<Rightarrow> pydec option" where
  "parse_float s = (let (neg, t) = split_sign (lower (strip s));
       m = takeWhile (\<lambda>c. c \<noteq> CHR ''e'') t; x = dropWhile (\<lambda>c. c \<noteq> CHR ''e'') t;
       ip = takeWhile (\<lambda>c. c \<noteq> CHR ''.'') m; fp = drop 1 (dropWhile (\<lambda>c. c \<noteq> CHR ''.'') m);
       part = (\<lambda>d. if d = [] then Some 0 else parse_digits dec_digit 10 0 False d);
       places = length (filter (\<lambda>c. c \<noteq> CHR ''_'') fp)
     in if t = ''inf'' \<or> t = ''infinity'' then Some (DInf neg)
        else if t = ''nan'' then Some DNaN
        else if ip = [] \<and> fp = [] then None
        else (case (part ip, part fp) of
            (Some a, Some b) \<Rightarrow>
              (let n = a * 10 ^ places + b; coeff = (if neg then - n else n) in
               if x = [] then Some (DFin coeff (- int places))
               else (let (xneg, xd) = split_sign (drop 1 x) in
                 case parse_digits dec_digit 10 0 False xd of None \<Rightarrow> None
                 | Some k \<Rightarrow> Some (DFin coeff ((if xneg then - k else k) - int places))))
          | _ \<Rightarrow> None))"

definition env_float :: "environ \<Rightarrow> string \<Rightarrow> string \<Rightarrow> pydec result" where
  "env_float env name dflt =
     (case parse_float (env_str env name dflt) of None \<Rightarrow> Inl (ServerError name) | Some d \<Rightarrow> Inr d)"

subsection \<open>Secrets\<close>

definition rstrip_newlines :: "string \<Rightarrow> string" where
  "rstrip_newlines s = rev (dropWhile (\<lambda>c. c = char_of (13::nat) \<or> c = char_of (10::nat)) (rev s))"

text \<open>The two characters backslash and n, replaced by a line feed.\<close>

fun unescape_newlines :: "string \<Rightarrow> string" where
  "unescape_newlines (a # b # cs) =
     (if a = char_of (92::nat) \<and> b = CHR ''n'' then char_of (10::nat) # unescape_newlines cs
      else a # unescape_newlines (b # cs))"
| "unescape_newlines cs = cs"

definition read_secret_file :: "secret_files \<Rightarrow> string \<Rightarrow> string \<Rightarrow> string result" where
  "read_secret_file fs file_name path = (case fs path of
       None \<Rightarrow> Inl (ImproperlyConfigured (file_name @ '' cannot be read.''))
     | Some f \<Rightarrow>
         if sf_symlink f \<or> \<not> sf_regular f
         then Inl (ImproperlyConfigured (file_name @ '' must name a regular file.''))
         else if sf_mode f mod 64 \<noteq> 0
         then Inl (ImproperlyConfigured (file_name @ '' must not be accessible by group or other users.''))
         else (case sf_text f of
             None \<Rightarrow> Inl (ImproperlyConfigured (file_name @ '' cannot be read.''))
           | Some t \<Rightarrow> (let v = rstrip_newlines t in
               if v = [] then Inl (ImproperlyConfigured (file_name @ '' is empty.'')) else Inr v)))"

definition secret_env_or_file ::
  "environ \<Rightarrow> secret_files \<Rightarrow> string \<Rightarrow> string option \<Rightarrow> string option \<Rightarrow> string \<Rightarrow> string result" where
  "secret_env_or_file env fs value_name file_name_arg fallback dflt =
     (let file_name = (case file_name_arg of None \<Rightarrow> value_name @ ''_FILE''
                       | Some f \<Rightarrow> if f = [] then value_name @ ''_FILE'' else f);
          file_path = strip (env_str env file_name []);
          direct = (case env value_name of None \<Rightarrow> [] | Some v \<Rightarrow> [v])
                 @ (case fallback of None \<Rightarrow> [] | Some g \<Rightarrow> (case env g of None \<Rightarrow> [] | Some v \<Rightarrow> [v]))
      in if file_path \<noteq> [] \<and> direct \<noteq> []
         then Inl (ImproperlyConfigured (''Configure either '' @ value_name @ '' or '' @ file_name @ '', not both.''))
         else if 1 < length direct
         then Inl (ImproperlyConfigured (''Configure only one environment value for '' @ value_name @ ''.''))
         else bind_result
           (if file_path \<noteq> [] then read_secret_file fs file_name file_path
            else Inr (case direct of [] \<Rightarrow> dflt | v # vs \<Rightarrow> v))
           (\<lambda>value. Inr (if startswith value ''-----BEGIN'' then unescape_newlines value else value)))"

subsection \<open>The settings\<close>

record settings =
  st_secret_key :: string
  st_debug :: bool
  st_deployment_env :: string
  st_deployment_component :: string
  st_database_engine :: string
  st_session_cookie_secure :: bool
  st_csrf_cookie_secure :: bool
  st_secure_proxy_ssl_header :: bool
  st_session_idle_timeout_seconds :: int
  st_device_access_token_ttl_seconds :: int
  st_enrollment_code_ttl_seconds :: int
  st_enrollment_challenge_ttl_seconds :: int
  st_required_app_version :: string
  st_app_update_version_code :: int
  st_app_update_version_name :: string
  st_app_update_storage_name :: string
  st_app_update_sha256 :: string
  st_app_update_size_bytes :: int
  st_app_update_rollout_percent :: int
  st_openmaptiles_style_url :: string
  st_openmaptiles_max_zoom :: int
  st_device_overheat_celsius :: pydec
  st_device_media_cache_bytes :: int
  st_device_event_queue_bytes :: int
  st_device_min_free_bytes :: int
  st_playback_batch_max_compressed_bytes :: int
  st_playback_batch_max_decompressed_bytes :: int
  st_play_integrity_project_number :: string
  st_play_integrity_package_name :: string
  st_play_integrity_app_certificate_sha256 :: "string list"
  st_play_integrity_service_account_json :: string
  st_play_integrity_max_token_age_seconds :: int
  st_media_max_image_bytes :: int
  st_media_max_video_bytes :: int
  st_media_max_image_pixels :: int
  st_media_max_image_dimension :: int
  st_media_normalized_image_width :: int
  st_media_normalized_image_height :: int
  st_media_max_request_bytes :: int
  st_media_processing_dispatch_backend :: string
  st_media_processing_lease_seconds :: int
  st_media_dispatch_retry_seconds :: int
  st_media_max_dispatch_attempts :: int
  st_media_reconcile_max_assets :: int
  st_media_dispatch_max_concurrent_tasks :: int
  st_media_dispatch_max_tasks_per_hour :: int
  st_media_dispatch_startup_grace_seconds :: int
  st_media_dispatch_ambiguity_reuse_seconds :: int
  st_media_dispatch_aws_connect_timeout_seconds :: int
  st_media_dispatch_aws_read_timeout_seconds :: int
  st_ecs_media_cluster :: string
  st_ecs_media_task_definition :: string
  st_ecs_media_container_name :: string
  st_ecs_media_subnet_ids :: "string list"
  st_ecs_media_security_group_ids :: "string list"
  st_pilot_backup_retention_days :: int
  st_pilot_backup_max_local_archives :: int
  st_csv_export_max_rows :: int
  st_auth_artifact_retention_days :: int
  st_aws_s3_custom_domain :: string

text \<open>The settings of an empty environment, from which every deployment starts.\<close>

definition default_settings :: settings where
  "default_settings = \<lparr>
     st_secret_key = ''development-only-unsafe-secret'', st_debug = True,
     st_deployment_env = ''development'', st_deployment_component = ''all'',
     st_database_engine = ''django.db.backends.sqlite3'',
     st_session_cookie_secure = False, st_csrf_cookie_secure = False,
     st_secure_proxy_ssl_header = False,
     st_session_idle_timeout_seconds = 30 * 60,
     st_device_access_token_ttl_seconds = 60 * 60,
     st_enrollment_code_ttl_seconds = 15 * 60,
     st_enrollment_challenge_ttl_seconds = 5 * 60,
     st_required_app_version = ''0.1.0'',
     st_app_update_version_code = 0, st_app_update_version_name = [],
     st_app_update_storage_name = [], st_app_update_sha256 = [],
     st_app_update_size_bytes = 0, st_app_update_rollout_percent = 0,
     st_openmaptiles_style_url = ''/locations/style.json'',
     st_openmaptiles_max_zoom = 14,
     st_device_overheat_celsius = DFin 45 0,
     st_device_media_cache_bytes = 10 * 1024 ^ 3,
     st_device_event_queue_bytes = 500 * 1024 ^ 2,
     st_device_min_free_bytes = 2 * 1024 ^ 3,
     st_playback_batch_max_compressed_bytes = 256 * 1024,
     st_playback_batch_max_decompressed_bytes = 1024 * 1024,
     st_play_integrity_project_number = [],
     st_play_integrity_package_name = ''com.duducar.signage'',
     st_play_integrity_app_certificate_sha256 = [],
     st_play_integrity_service_account_json = [],
     st_play_integrity_max_token_age_seconds = 120,
     st_media_max_image_bytes = 10 * 1024 * 1024,
     st_media_max_video_bytes = 50 * 1024 * 1024,
     st_media_max_image_pixels = 25000000,
     st_media_max_image_dimension = 10000,
     st_media_normalized_image_width = 1920,
     st_media_normalized_image_height = 1080,
     st_media_max_request_bytes = 50 * 1024 * 1024 + 1024 * 1024,
     st_media_processing_dispatch_backend = ''disabled'',
     st_media_processing_lease_seconds = 1800,
     st_media_dispatch_retry_seconds = 600,
     st_media_max_dispatch_attempts = 5,
     st_media_reconcile_max_assets = 25,
     st_media_dispatch_max_concurrent_tasks = 2,
     st_media_dispatch_max_tasks_per_hour = 6,
     st_media_dispatch_startup_grace_seconds = 120,
     st_media_dispatch_ambiguity_reuse_seconds = 900,
     st_media_dispatch_aws_connect_timeout_seconds = 5,
     st_media_dispatch_aws_read_timeout_seconds = 10,
     st_ecs_media_cluster = [], st_ecs_media_task_definition = [],
     st_ecs_media_container_name = ''application'',
     st_ecs_media_subnet_ids = [], st_ecs_media_security_group_ids = [],
     st_pilot_backup_retention_days = 3, st_pilot_backup_max_local_archives = 3,
     st_csv_export_max_rows = 10000, st_auth_artifact_retention_days = 30,
     st_aws_s3_custom_domain = []\<rparr>"

text \<open>
  The start of the module: the secret key, the two modes and the isolation checks. Then
  the remaining groups, each reading its settings into the record in source order.
\<close>

definition load_environment :: "environ \<Rightarrow> secret_files \<Rightarrow> settings result" where
  "load_environment env fs =
     bind_result (secret_env_or_file env fs ''DJANGO_SECRET_KEY'' None None ''development-only-unsafe-secret'') (\<lambda>key.
     let debug = env_bool env ''DJANGO_DEBUG'' True;
         deployment = lower (strip (env_str env ''DEPLOYMENT_ENV'' ''development''));
         part = lower (strip (env_str env ''DEPLOYMENT_COMPONENT'' ''all''))
     in if deployment \<notin> set [''development'', ''production'']
        then Inl (ImproperlyConfigured ''DEPLOYMENT_ENV must be development or production.'')
        else if part \<notin> set [''all'', ''web'', ''media-worker'', ''scheduled'']
        then Inl (ImproperlyConfigured ''DEPLOYMENT_COMPONENT must be all, web, media-worker, or scheduled.'')
        else if \<not> debug \<and> deployment \<noteq> ''production''
        then Inl (ImproperlyConfigured ''DJANGO_DEBUG=false requires DEPLOYMENT_ENV=production.'')
        else if deployment = ''production'' \<and> debug
        then Inl (ImproperlyConfigured ''DEPLOYMENT_ENV=production requires DJANGO_DEBUG=false.'')
        else Inr (default_settings\<lparr>st_secret_key := key, st_debug := debug,
               st_deployment_env := deployment, st_deployment_component := part,
               st_session_cookie_secure := \<not> debug, st_csrf_cookie_secure := \<not> debug,
               st_secure_proxy_ssl_header := env_bool env ''DJANGO_TRUST_X_FORWARDED_PROTO'' (\<not> debug)\<rparr>))"

definition load_database :: "environ \<Rightarrow> secret_files \<Rightarrow> settings \<Rightarrow> settings result" where
  "load_database env fs st =
     (if env_str env ''DATABASE_URL'' [] \<noteq> [] then Inr (st\<lparr>st_database_engine := ''django.db.backends.postgresql''\<rparr>)
      else if env_str env ''DB_HOST'' [] \<noteq> []
      then bind_result (secret_env_or_file env fs ''DB_PASSWORD'' None None []) (\<lambda>pw.
           bind_result (env_int env ''DB_PORT'' 5432) (\<lambda>port.
           Inr (st\<lparr>st_database_engine := ''django.db.backends.postgresql''\<rparr>)))
      else Inr (st\<lparr>st_database_engine := ''django.db.backends.sqlite3''\<rparr>))"

definition load_device_settings :: "environ \<Rightarrow> settings \<Rightarrow> settings result" where
  "load_device_settings env st =
     bind_result (env_int env ''APP_UPDATE_VERSION_CODE'' 0) (\<lambda>code.
     bind_result (env_int env ''APP_UPDATE_SIZE_BYTES'' 0) (\<lambda>size.
     bind_result (env_int env ''APP_UPDATE_ROLLOUT_PERCENT'' 0) (\<lambda>percent.
     let style = strip (env_str env ''OPENMAPTILES_STYLE_URL'' ''/locations/style.json'') in
     if \<not> startswith style ''/'' \<or> startswith style ''//''
     then Inl (ImproperlyConfigured ''OPENMAPTILES_STYLE_URL must be a same-origin path.'')
     else bind_result (env_int env ''OPENMAPTILES_MAX_ZOOM'' 14) (\<lambda>zoom.
     if \<not> (0 \<le> zoom \<and> zoom \<le> 22)
     then Inl (ImproperlyConfigured ''OPENMAPTILES_MAX_ZOOM must be between 0 and 22.'')
     else bind_result (env_float env ''DEVICE_OVERHEAT_CELSIUS'' ''45'') (\<lambda>overheat.
     bind_result (env_int env ''DEVICE_MEDIA_CACHE_BYTES'' (10 * 1024 ^ 3)) (\<lambda>cache.
     bind_result (env_int env ''DEVICE_EVENT_QUEUE_BYTES'' (500 * 1024 ^ 2)) (\<lambda>queue.
     bind_result (env_int env ''DEVICE_MIN_FREE_BYTES'' (2 * 1024 ^ 3)) (\<lambda>free.
     Inr (st\<lparr>st_required_app_version := env_str env ''REQUIRED_APP_VERSION'' ''0.1.0'',
       st_app_update_version_code := code,
       st_app_update_version_name := strip (env_str env ''APP_UPDATE_VERSION_NAME'' []),
       st_app_update_storage_name := strip (env_str env ''APP_UPDATE_STORAGE_NAME'' []),
       st_app_update_sha256 := lower (strip (env_str env ''APP_UPDATE_SHA256'' [])),
       st_app_update_size_bytes := size, st_app_update_rollout_percent := percent,
       st_openmaptiles_style_url := style, st_openmaptiles_max_zoom := zoom,
       st_device_overheat_celsius := overheat, st_device_media_cache_bytes := cache,
       st_device_event_queue_bytes := queue, st_device_min_free_bytes := free\<rparr>)))))))))"

definition load_integrity_settings :: "environ \<Rightarrow> secret_files \<Rightarrow> settings \<Rightarrow> settings result" where
  "load_integrity_settings env fs st =
     bind_result (env_int env ''PLAYBACK_BATCH_MAX_COMPRESSED_BYTES'' (256 * 1024)) (\<lambda>compressed.
     bind_result (env_int env ''PLAYBACK_BATCH_MAX_DECOMPRESSED_BYTES'' (1024 * 1024)) (\<lambda>decompressed.
     bind_result (secret_env_or_file env fs ''PLAY_INTEGRITY_SERVICE_ACCOUNT_JSON'' None None []) (\<lambda>account.
     bind_result (env_int env ''PLAY_INTEGRITY_MAX_TOKEN_AGE_SECONDS'' 120) (\<lambda>age.
     Inr (st\<lparr>st_playback_batch_max_compressed_bytes := compressed,
       st_playback_batch_max_decompressed_bytes := decompressed,
       st_play_integrity_project_number := env_str env ''PLAY_INTEGRITY_PROJECT_NUMBER'' [],
       st_play_integrity_package_name := env_str env ''PLAY_INTEGRITY_PACKAGE_NAME'' ''com.duducar.signage'',
       st_play_integrity_app_certificate_sha256 := env_csv env ''PLAY_INTEGRITY_APP_CERTIFICATE_SHA256'',
       st_play_integrity_service_account_json := account,
       st_play_integrity_max_token_age_seconds := age\<rparr>)))))"

definition load_media_settings :: "environ \<Rightarrow> settings \<Rightarrow> settings result" where
  "load_media_settings env st =
     bind_result (env_int env ''MEDIA_MAX_IMAGE_PIXELS'' 25000000) (\<lambda>pixels.
     bind_result (env_int env ''MEDIA_MAX_IMAGE_DIMENSION'' 10000) (\<lambda>dimension.
     bind_result (env_int env ''MEDIA_MAX_REQUEST_BYTES'' (50 * 1024 * 1024 + 1024 * 1024)) (\<lambda>request.
     bind_result (env_int env ''MEDIA_PROCESSING_LEASE_SECONDS'' 1800) (\<lambda>lease.
     bind_result (env_int env ''MEDIA_DISPATCH_RETRY_SECONDS'' 600) (\<lambda>retry.
     bind_result (env_int env ''MEDIA_MAX_DISPATCH_ATTEMPTS'' 5) (\<lambda>attempts.
     bind_result (env_int env ''MEDIA_RECONCILE_MAX_ASSETS'' 25) (\<lambda>assets.
     bind_result (env_int env ''MEDIA_DISPATCH_MAX_CONCURRENT_TASKS'' 2) (\<lambda>concurrent.
     bind_result (env_int env ''MEDIA_DISPATCH_MAX_TASKS_PER_HOUR'' 6) (\<lambda>hourly.
     bind_result (env_int env ''MEDIA_DISPATCH_STARTUP_GRACE_SECONDS'' 120) (\<lambda>grace.
     bind_result (env_int env ''MEDIA_DISPATCH_AMBIGUITY_REUSE_SECONDS'' 900) (\<lambda>reuse.
     bind_result (env_int env ''MEDIA_DISPATCH_AWS_CONNECT_TIMEOUT_SECONDS'' 5) (\<lambda>connect.
     bind_result (env_int env ''MEDIA_DISPATCH_AWS_READ_TIMEOUT_SECONDS'' 10) (\<lambda>read.
     bind_result (env_int env ''PILOT_BACKUP_RETENTION_DAYS'' 3) (\<lambda>retention.
     bind_result (env_int env ''PILOT_BACKUP_MAX_LOCAL_ARCHIVES'' 3) (\<lambda>archives.
     bind_result (env_int env ''CSV_EXPORT_MAX_ROWS'' 10000) (\<lambda>rows.
     bind_result (env_int env ''AUTH_ARTIFACT_RETENTION_DAYS'' 30) (\<lambda>auth.
     Inr (st\<lparr>st_media_max_image_pixels := pixels, st_media_max_image_dimension := dimension,
       st_media_max_request_bytes := request,
       st_media_processing_dispatch_backend := lower (env_str env ''MEDIA_PROCESSING_DISPATCH_BACKEND'' ''disabled''),
       st_media_processing_lease_seconds := lease, st_media_dispatch_retry_seconds := retry,
       st_media_max_dispatch_attempts := attempts, st_media_reconcile_max_assets := assets,
       st_media_dispatch_max_concurrent_tasks := concurrent,
       st_media_dispatch_max_tasks_per_hour := hourly,
       st_media_dispatch_startup_grace_seconds := grace,
       st_media_dispatch_ambiguity_reuse_seconds := reuse,
       st_media_dispatch_aws_connect_timeout_seconds := connect,
       st_media_dispatch_aws_read_timeout_seconds := read,
       st_ecs_media_cluster := env_str env ''ECS_MEDIA_CLUSTER'' [],
       st_ecs_media_task_definition := env_str env ''ECS_MEDIA_TASK_DEFINITION'' [],
       st_ecs_media_container_name := env_str env ''ECS_MEDIA_CONTAINER_NAME'' ''application'',
       st_ecs_media_subnet_ids := env_csv env ''ECS_MEDIA_SUBNET_IDS'',
       st_ecs_media_security_group_ids := env_csv env ''ECS_MEDIA_SECURITY_GROUP_IDS'',
       st_pilot_backup_retention_days := retention, st_pilot_backup_max_local_archives := archives,
       st_csv_export_max_rows := rows, st_auth_artifact_retention_days := auth,
       st_aws_s3_custom_domain := strip (env_str env ''AWS_S3_CUSTOM_DOMAIN'' [])\<rparr>))))))))))))))))))"

definition load_settings :: "environ \<Rightarrow> secret_files \<Rightarrow> settings result" where
  "load_settings env fs =
     bind_result (load_environment env fs) (\<lambda>a.
     bind_result (load_database env fs a) (\<lambda>b.
     bind_result (load_device_settings env b) (\<lambda>c.
     bind_result (load_integrity_settings env fs c) (\<lambda>d.
     load_media_settings env d))))"


subsection \<open>What start-up guarantees\<close>

lemmas load_defs = load_environment_def load_database_def load_device_settings_def
  load_integrity_settings_def load_media_settings_def

text \<open>Each later group keeps the isolation fields of the first one.\<close>

lemma load_database_keeps:
  "load_database env fs st = Inr st' \<Longrightarrow>
   st_deployment_env st' = st_deployment_env st \<and> st_debug st' = st_debug st
   \<and> st_session_cookie_secure st' = st_session_cookie_secure st
   \<and> st_csrf_cookie_secure st' = st_csrf_cookie_secure st"
  by (auto simp: load_database_def bind_result_Inr_iff split: if_splits)

lemma load_device_settings_ok:
  "load_device_settings env st = Inr st' \<Longrightarrow>
   st_deployment_env st' = st_deployment_env st \<and> st_debug st' = st_debug st
   \<and> st_session_cookie_secure st' = st_session_cookie_secure st
   \<and> st_csrf_cookie_secure st' = st_csrf_cookie_secure st
   \<and> 0 \<le> st_openmaptiles_max_zoom st' \<and> st_openmaptiles_max_zoom st' \<le> 22
   \<and> startswith (st_openmaptiles_style_url st') ''/'' \<and> \<not> startswith (st_openmaptiles_style_url st') ''//''"
  by (auto simp: load_device_settings_def bind_result_Inr_iff Let_def split: if_splits)

lemma load_integrity_settings_keeps:
  "load_integrity_settings env fs st = Inr st' \<Longrightarrow>
   st_deployment_env st' = st_deployment_env st \<and> st_debug st' = st_debug st
   \<and> st_session_cookie_secure st' = st_session_cookie_secure st
   \<and> st_csrf_cookie_secure st' = st_csrf_cookie_secure st
   \<and> st_openmaptiles_max_zoom st' = st_openmaptiles_max_zoom st
   \<and> st_openmaptiles_style_url st' = st_openmaptiles_style_url st"
  by (auto simp: load_integrity_settings_def bind_result_Inr_iff)

lemma load_media_settings_keeps:
  "load_media_settings env st = Inr st' \<Longrightarrow>
   st_deployment_env st' = st_deployment_env st \<and> st_debug st' = st_debug st
   \<and> st_session_cookie_secure st' = st_session_cookie_secure st
   \<and> st_csrf_cookie_secure st' = st_csrf_cookie_secure st
   \<and> st_openmaptiles_max_zoom st' = st_openmaptiles_max_zoom st
   \<and> st_openmaptiles_style_url st' = st_openmaptiles_style_url st"
  by (auto simp: load_media_settings_def bind_result_Inr_iff)

lemma load_environment_ok:
  "load_environment env fs = Inr st \<Longrightarrow>
   (st_deployment_env st = ''production'' \<longleftrightarrow> \<not> st_debug st)
   \<and> (st_deployment_env st = ''development'' \<or> st_deployment_env st = ''production'')
   \<and> st_session_cookie_secure st = (\<not> st_debug st) \<and> st_csrf_cookie_secure st = (\<not> st_debug st)"
  by (auto simp: load_environment_def bind_result_Inr_iff Let_def split: if_splits)

text \<open>A process that starts at all runs either in development with debugging on or in
  production with debugging off; production then always uses secure session and CSRF
  cookies, the map style is a path of the same origin and the zoom limit lies between 0
  and 22.\<close>

theorem load_settings_isolated:
  assumes "load_settings env fs = Inr st"
  shows "(st_deployment_env st = ''production'' \<and> \<not> st_debug st \<and> st_session_cookie_secure st
            \<and> st_csrf_cookie_secure st
          \<or> st_deployment_env st = ''development'' \<and> st_debug st)
    \<and> 0 \<le> st_openmaptiles_max_zoom st \<and> st_openmaptiles_max_zoom st \<le> 22
    \<and> startswith (st_openmaptiles_style_url st) ''/'' \<and> \<not> startswith (st_openmaptiles_style_url st) ''//''"
proof -
  obtain a b c d where r: "load_environment env fs = Inr a" "load_database env fs a = Inr b"
    "load_device_settings env b = Inr c" "load_integrity_settings env fs c = Inr d"
    "load_media_settings env d = Inr st"
    using assms by (auto simp: load_settings_def bind_result_Inr_iff)
  show ?thesis
    using load_environment_ok [OF r(1)] load_database_keeps [OF r(2)] load_device_settings_ok [OF r(3)]
      load_integrity_settings_keeps [OF r(4)] load_media_settings_keeps [OF r(5)]
    by auto
qed

definition example_environ :: environ where
  "example_environ name = (if name = ''DEPLOYMENT_ENV'' then Some ''production''
     else if name = ''DJANGO_DEBUG'' then Some ''false''
     else if name = ''DB_PASSWORD_FILE'' then Some ''/run/pw'' else None)"

theorem load_settings_isolated_witness:
  "\<exists>st. load_settings example_environ Map.empty = Inr st
     \<and> st_deployment_env st = ''production'' \<and> st_session_cookie_secure st
     \<and> st_openmaptiles_max_zoom st \<le> 22"
proof -
  have "\<not> (case load_settings example_environ Map.empty of Inl e \<Rightarrow> True
     | Inr st \<Rightarrow> st_deployment_env st \<noteq> ''production'')"
    by code_simp
  then obtain st where st: "load_settings example_environ Map.empty = Inr st" "st_deployment_env st = ''production''"
    by (auto split: sum.splits)
  then show ?thesis using load_settings_isolated [OF st(1)] by auto
qed

text \<open>A secret comes from one place: when the file variable and a value variable are both
  set start-up fails, and a file is used only if it is a regular file, not a symbolic
  link, and closed to group and others; an empty file is refused.\<close>

theorem secret_file_rules:
  assumes "secret_env_or_file env fs name None fallback dflt = Inr v"
    and "strip (env_str env (name @ ''_FILE'') []) = path" and "path \<noteq> []"
  shows "env name = None \<and> (\<forall>g. fallback = Some g \<longrightarrow> env g = None)
    \<and> (\<exists>f t. fs path = Some f \<and> \<not> sf_symlink f \<and> sf_regular f \<and> sf_mode f mod 64 = 0
          \<and> sf_text f = Some t \<and> rstrip_newlines t \<noteq> [])"
  using assms
  by (auto simp: secret_env_or_file_def read_secret_file_def Let_def bind_result_Inr_iff
      split: option.splits if_splits)


theorem secret_file_rules_witness:
  "\<exists>v. secret_env_or_file example_environ
         [''/run/pw'' \<mapsto> \<lparr>sf_symlink = False, sf_regular = True, sf_mode = 33152,
             sf_text = Some (''secret'' @ [char_of (10::nat)])\<rparr>] ''DB_PASSWORD'' None None [] = Inr v
     \<and> example_environ ''DB_PASSWORD'' = None"
proof -
  let ?fs = "[''/run/pw'' \<mapsto> \<lparr>sf_symlink = False, sf_regular = True, sf_mode = 33152,
             sf_text = Some (''secret'' @ [char_of (10::nat)])\<rparr>]"
  have v: "secret_env_or_file example_environ ?fs ''DB_PASSWORD'' None None [] = Inr ''secret''"
    by code_simp
  have p: "strip (env_str example_environ (''DB_PASSWORD'' @ ''_FILE'') []) = ''/run/pw''"
    by code_simp
  show ?thesis using secret_file_rules [OF v p] v by auto
qed

end
