(* ===== verification/Media_Files.thy ===== *)
theory Media_Files
  imports Models Settings
begin

section \<open>Inspecting and normalizing media files\<close>

text \<open>
  The validation of uploaded files in \<open>services.py\<close>: type sniffing, the malware scan, the
  image and video rules and the checks of the normalized output. What the external tools
  (the image library, clamscan, ffprobe, ffmpeg, the object store) answer is data of the
  model: a \<open>media_file\<close> carries the facts the code reads of a file, and \<open>toolchain\<close> holds
  the answers of one processing run.
\<close>

subsection \<open>Files and tools\<close>

record image_info =
  ii_format :: string
  ii_width :: int
  ii_height :: int
  ii_mode :: string
  ii_verify_error :: "string option"
  ii_load_error :: "string option"

datatype pil_open = PilBomb | PilError string | PilImage image_info

record media_file =
  mf_suffix :: string
  mf_bytes :: string
  mf_size :: int
  mf_sha256 :: string
  mf_pil :: pil_open

text \<open>
  An exception of a processing step: \<open>Invalid\<close> is Django's \<open>ValidationError\<close> with its message,
  \<open>Handled\<close> one of the other classes \<open>inspect_media\<close> catches, with its text; \<open>Escaped\<close> leaves
  the worker.
\<close>

datatype job_error = Invalid string | Handled string | Escaped string

type_synonym 'a job = "job_error + 'a"

definition bind_job :: "'a job \<Rightarrow> ('a \<Rightarrow> 'b job) \<Rightarrow> 'b job" where
  "bind_job r f = (case r of Inl e \<Rightarrow> Inl e | Inr x \<Rightarrow> f x)"

lemma bind_job_simps [simp]: "bind_job (Inl e) f = Inl e" "bind_job (Inr x) f = f x"
  by (simp_all add: bind_job_def)

lemma bind_job_Inr_iff: "bind_job r f = Inr y \<longleftrightarrow> (\<exists>x. r = Inr x \<and> f x = Inr y)"
  by (cases r) auto

definition invalid :: "string \<Rightarrow> job_error" where
  "invalid message = Invalid message"

text \<open>\<open>str(exc)\<close>; a \<open>ValidationError\<close> prints the list of its messages.\<close>

fun error_text :: "job_error \<Rightarrow> string" where
  "error_text (Invalid message) = ''['' @ str_repr message @ '']''"
| "error_text (Handled message) = message"
| "error_text (Escaped message) = message"

declare error_text.simps [simp del]

definition check :: "bool \<Rightarrow> string \<Rightarrow> unit job" where
  "check bad message = (if bad then Inl (invalid message) else Inr ())"

lemma check_Inr [simp]: "check bad m = Inr u \<longleftrightarrow> \<not> bad"
  by (simp add: check_def)

definition path_name :: "string \<Rightarrow> string" where
  "path_name p = last (split_on (CHR ''/'') p)"

definition path_suffix :: "string \<Rightarrow> string" where
  "path_suffix p = (let name = path_name p; parts = split_on (CHR ''.'') name; ext = last parts;
       stem_length = length name - length ext - 1
     in if length parts < 2 \<or> stem_length = 0 \<or> ext = [] then [] else CHR ''.'' # ext)"

subsection \<open>Types by extension and by content\<close>

definition extension_mime :: "string \<Rightarrow> string option" where
  "extension_mime suffix = (let e = lower suffix in
     if e = ''.jpg'' then Some ''image/jpeg''
     else if e = ''.jpeg'' then Some ''image/jpeg''
     else if e = ''.png'' then Some ''image/png''
     else if e = ''.mp4'' then Some ''video/mp4'' else None)"

definition jpeg_signature :: string where
  "jpeg_signature = map char_of [255::nat, 216, 255]"

definition png_signature :: string where
  "png_signature = map char_of [137::nat, 80, 78, 71, 13, 10, 26, 10]"

definition unsafe_dimensions :: "settings \<Rightarrow> int \<Rightarrow> int \<Rightarrow> bool" where
  "unsafe_dimensions st width height =
     (width < 1 \<or> height < 1 \<or> st_media_max_image_dimension st < width
      \<or> st_media_max_image_dimension st < height
      \<or> st_media_max_image_pixels st < width * height)"

definition open_image :: "media_file \<Rightarrow> image_info job" where
  "open_image f = (case mf_pil f of
       PilBomb \<Rightarrow> Inl (invalid ''Image dimensions exceed the safe limit.'')
     | PilError text \<Rightarrow> Inl (Handled text)
     | PilImage i \<Rightarrow> Inr i)"

definition sniff_image_mime :: "settings \<Rightarrow> media_file \<Rightarrow> string job" where
  "sniff_image_mime st f =
     (let expected = extension_mime (mf_suffix f); header = take 16 (mf_bytes f) in
      bind_job (check (expected \<noteq> Some ''image/jpeg'' \<and> expected \<noteq> Some ''image/png'')
                  ''Only JPEG and PNG image filenames are accepted.'') (\<lambda>u1.
      bind_job (if startswith header jpeg_signature then Inr ''image/jpeg''
                else if startswith header png_signature then Inr ''image/png''
                else Inl (invalid ''Image content is not a valid JPEG or PNG file.'')) (\<lambda>detected.
      bind_job (check (Some detected \<noteq> expected) ''Image filename extension does not match its content.'') (\<lambda>u2.
      bind_job (open_image f) (\<lambda>i.
      bind_job (check (ii_format i \<noteq> ''JPEG'' \<and> ii_format i \<noteq> ''PNG'')
                  ''Image decoder did not confirm JPEG or PNG content.'') (\<lambda>u3.
      bind_job (check (unsafe_dimensions st (ii_width i) (ii_height i))
                  ''Image dimensions exceed the safe limit.'') (\<lambda>u4.
      case ii_verify_error i of Some text \<Rightarrow> Inl (Handled text) | None \<Rightarrow> Inr detected)))))))"

definition sniff_video_mime :: "media_file \<Rightarrow> string job" where
  "sniff_video_mime f =
     (let expected = extension_mime (mf_suffix f); header = take 12 (mf_bytes f) in
      bind_job (check (expected \<noteq> Some ''video/mp4'') ''Only MP4 video filenames are accepted.'') (\<lambda>u1.
      bind_job (check (length header < 12 \<or> take 4 (drop 4 header) \<noteq> ''ftyp'')
                  ''Video content is not an MP4 container.'') (\<lambda>u2.
      Inr ''video/mp4'')))"

subsection \<open>The malware scan\<close>

datatype scan_outcome = NoScanner | ScanTimeout | ScanExit int

definition scan_quarantined_source :: "scan_outcome \<Rightarrow> bool \<Rightarrow> unit job" where
  "scan_quarantined_source outcome require_malware_scanner = (case outcome of
       NoScanner \<Rightarrow> check require_malware_scanner ''Malware scanner is unavailable.''
     | ScanTimeout \<Rightarrow> Inl (invalid ''Malware scan timed out.'')
     | ScanExit code \<Rightarrow>
         bind_job (check (code = 1) ''Malware was detected in the upload.'') (\<lambda>u.
         check (code \<noteq> 0) ''Malware scan failed.''))"

subsection \<open>Video probing\<close>

text \<open>
  The stream and format entries of ffprobe. The duration is \<open>round(float(text) * 1000)\<close>;
  the outcomes of a missing or unreadable entry are kept apart, because a missing key is
  not among the exceptions the worker catches.
\<close>

record probe_stream =
  sr_codec_type :: string
  sr_codec_name :: string
  sr_width :: "int option"
  sr_height :: "int option"

datatype probe_duration = DurationMs int | DurationMissing | DurationBad string

record probe_details =
  pr_streams :: "probe_stream list"
  pr_duration :: probe_duration

datatype probe_outcome = ProbeTimeout | ProbeFailed string | ProbeBadJson string | Probed probe_details

datatype tool_outcome = ToolTimeout | ToolFailed string | ToolOk

definition run_ffprobe :: "probe_outcome \<Rightarrow> probe_details job" where
  "run_ffprobe outcome = (case outcome of
       ProbeTimeout \<Rightarrow> Inl (invalid ''Video inspection timed out.'')
     | ProbeFailed text \<Rightarrow> Inl (Handled text)
     | ProbeBadJson text \<Rightarrow> Inl (Handled text)
     | Probed d \<Rightarrow> Inr d)"

definition probe_duration_ms :: "probe_details \<Rightarrow> int job" where
  "probe_duration_ms d = (case pr_duration d of
       DurationMs ms \<Rightarrow> Inr ms
     | DurationMissing \<Rightarrow> Inl (Escaped ''KeyError'')
     | DurationBad text \<Rightarrow> Inl (Handled text))"

definition stream_size :: "int option \<Rightarrow> int" where
  "stream_size v = (case v of None \<Rightarrow> 0 | Some n \<Rightarrow> n)"

definition validate_normalized_video :: "probe_outcome \<Rightarrow> tool_outcome \<Rightarrow> int job" where
  "validate_normalized_video probe decode =
     bind_job (run_ffprobe probe) (\<lambda>d.
     let video_streams = filter (\<lambda>s. sr_codec_type s = ''video'') (pr_streams d);
         audio_streams = filter (\<lambda>s. sr_codec_type s = ''audio'') (pr_streams d)
     in case video_streams of
          [video] \<Rightarrow>
            bind_job (check (audio_streams \<noteq> []) ''Normalized output must not contain audio.'') (\<lambda>u1.
            bind_job (check (sr_codec_name video \<noteq> ''h264'') ''Normalized output must use H.264 video.'') (\<lambda>u2.
            bind_job (check (1920 < stream_size (sr_width video) \<or> 1080 < stream_size (sr_height video))
                        ''Normalized output exceeds 1920x1080.'') (\<lambda>u3.
            bind_job (probe_duration_ms d) (\<lambda>duration_ms.
            bind_job (check (15000 < duration_ms) ''Normalized output exceeds the 15-second limit.'') (\<lambda>u4.
            case decode of
              ToolTimeout \<Rightarrow> Inl (invalid ''Normalized video validation timed out.'')
            | ToolFailed text \<Rightarrow> Inl (Handled text)
            | ToolOk \<Rightarrow> Inr duration_ms)))))
        | _ \<Rightarrow> Inl (invalid ''Normalized output must contain exactly one video stream.''))"

subsection \<open>Normalized images\<close>

definition load_image :: "image_info \<Rightarrow> unit job" where
  "load_image i = (case ii_load_error i of Some text \<Rightarrow> Inl (Handled text) | None \<Rightarrow> Inr ())"

definition validate_normalized_image :: "settings \<Rightarrow> media_file \<Rightarrow> string \<Rightarrow> unit job" where
  "validate_normalized_image st f expected_mime =
     bind_job (sniff_image_mime st f) (\<lambda>detected.
     bind_job (check (detected \<noteq> expected_mime) ''Normalized image type changed unexpectedly.'') (\<lambda>u1.
     bind_job (open_image f) (\<lambda>i.
     bind_job (load_image i) (\<lambda>u2.
     bind_job (check (ii_width i \<noteq> st_media_normalized_image_width st
                    \<or> ii_height i \<noteq> st_media_normalized_image_height st)
                 ''Normalized image dimensions are invalid.'') (\<lambda>u3.
     check (ii_mode i \<noteq> ''RGB'') ''Normalized image must use RGB pixels.'')))))"

text \<open>
  \<open>encoded\<close> is the file the image library writes for the canvas it was given: the scaled
  image centred on a black canvas of the normalized size.
\<close>

definition normalize_image :: "settings \<Rightarrow> media_file \<Rightarrow> media_file job \<Rightarrow> string \<Rightarrow> media_file job" where
  "normalize_image st source encoded detected_mime =
     bind_job (open_image source) (\<lambda>i.
     bind_job (check (unsafe_dimensions st (ii_width i) (ii_height i))
                 ''Image dimensions exceed the safe limit.'') (\<lambda>u1.
     bind_job (load_image i) (\<lambda>u2.
     bind_job encoded (\<lambda>output.
     bind_job (check (st_media_max_image_bytes st < mf_size output)
                 ''Normalized image exceeds the 10 MB limit.'') (\<lambda>u3.
     bind_job (validate_normalized_image st output detected_mime) (\<lambda>u4.
     Inr output))))))"

text \<open>\<open>validate_ready_media_delivery\<close>: the stored bytes behind a manifest entry.\<close>

definition validate_ready_media_delivery ::
  "settings \<Rightarrow> (string \<Rightarrow> media_file job) \<Rightarrow> media_asset \<Rightarrow> unit job" where
  "validate_ready_media_delivery st stored asset =
     bind_job (check (ma_status asset \<noteq> Ready \<or> ma_normalized_file asset = [])
                 ''Media is not ready for delivery.'') (\<lambda>u1.
     bind_job (stored (ma_normalized_file asset)) (\<lambda>f.
     let delivered = f\<lparr>mf_suffix := path_suffix (ma_normalized_file asset)\<rparr> in
     bind_job (check (mf_size delivered \<noteq> ma_file_size asset \<or> mf_sha256 delivered \<noteq> ma_sha256 asset)
                 ''Stored media does not match its validated metadata.'') (\<lambda>u2.
     if ma_kind asset = Image then validate_normalized_image st delivered (ma_mime_type asset) else Inr ())))"

subsection \<open>One processing run\<close>

record toolchain =
  tc_source :: "media_file job"
  tc_scan :: scan_outcome
  tc_encoded :: "media_file job"
  tc_probe :: probe_outcome
  tc_transcode :: tool_outcome
  tc_output_probe :: probe_outcome
  tc_output_decode :: tool_outcome
  tc_output :: media_file
  tc_save :: "string \<Rightarrow> string job"
  tc_read :: "string \<Rightarrow> media_file job"

definition normalized_media_name :: "media_asset \<Rightarrow> string \<Rightarrow> id \<Rightarrow> string" where
  "normalized_media_name asset source_suffix processing_token =
     (let suffix = (if ma_kind asset = Video then ''.mp4'' else lower source_suffix)
      in uuid_hex (ma_id asset) @ ''/'' @ uuid_hex processing_token @ ''/media'' @ suffix)"

text \<open>
  The steps up to the normalized output. The asset is the in-memory object: an exception
  leaves the fields assigned so far, and the finalization copies them.
\<close>

definition prepare_image ::
  "settings \<Rightarrow> toolchain \<Rightarrow> media_file \<Rightarrow> media_asset \<Rightarrow> media_asset \<times> (string \<times> media_file) job" where
  "prepare_image st tc source asset =
     (case bind_job (sniff_image_mime st source) (\<lambda>detected.
           bind_job (normalize_image st source (tc_encoded tc) detected) (\<lambda>output. Inr (detected, output))) of
        Inl e \<Rightarrow> (asset, Inl e)
      | Inr r \<Rightarrow> (asset\<lparr>ma_width := Some (st_media_normalized_image_width st),
                       ma_height := Some (st_media_normalized_image_height st),
                       ma_duration_ms := 15000\<rparr>, Inr r))"

definition sized_video_stream :: "probe_stream \<Rightarrow> bool" where
  "sized_video_stream s = (sr_codec_type s = ''video'' \<and> sr_width s \<noteq> None \<and> sr_height s \<noteq> None)"

definition prepare_video ::
  "toolchain \<Rightarrow> media_file \<Rightarrow> media_asset \<Rightarrow> media_asset \<times> (string \<times> media_file) job" where
  "prepare_video tc source asset =
     (case bind_job (sniff_video_mime source) (\<lambda>detected.
           bind_job (run_ffprobe (tc_probe tc)) (\<lambda>d.
           bind_job (probe_duration_ms d) (\<lambda>ms.
           bind_job (check (15000 < ms) ''Video exceeds the 15-second limit.'') (\<lambda>u.
           case find sized_video_stream (pr_streams d) of
             None \<Rightarrow> Inl (Handled [])
           | Some s \<Rightarrow> Inr (detected, ms, s))))) of
        Inl e \<Rightarrow> (asset, Inl e)
      | Inr (detected, ms, s) \<Rightarrow>
          (let a = asset\<lparr>ma_width := sr_width s, ma_height := sr_height s, ma_duration_ms := ms\<rparr> in
           case (case tc_transcode tc of
                   ToolTimeout \<Rightarrow> Inl (invalid ''Video normalization timed out.'')
                 | ToolFailed text \<Rightarrow> Inl (Handled text)
                 | ToolOk \<Rightarrow> validate_normalized_video (tc_output_probe tc) (tc_output_decode tc)) of
             Inl e \<Rightarrow> (a, Inl e)
           | Inr out_ms \<Rightarrow> (a\<lparr>ma_duration_ms := out_ms\<rparr>, Inr (detected, tc_output tc))))"

definition prepare_media ::
  "settings \<Rightarrow> toolchain \<Rightarrow> bool \<Rightarrow> media_asset \<Rightarrow> media_asset \<times> (string \<times> media_file \<times> media_file) job" where
  "prepare_media st tc require_malware_scanner asset =
     (case bind_job (tc_source tc) (\<lambda>f.
           let source = f\<lparr>mf_suffix := lower (path_suffix (ma_source_file asset))\<rparr> in
           bind_job (if ma_kind asset = Image
                     then check (st_media_max_image_bytes st < mf_size source) ''Image exceeds the 10 MB limit.''
                     else check (st_media_max_video_bytes st < mf_size source) ''Video exceeds the 50 MB limit.'') (\<lambda>u1.
           bind_job (scan_quarantined_source (tc_scan tc) require_malware_scanner) (\<lambda>u2.
           Inr source))) of
        Inl e \<Rightarrow> (asset, Inl e)
      | Inr source \<Rightarrow>
          (case (if ma_kind asset = Image then prepare_image st tc source asset
                 else prepare_video tc source asset) of
             (a, Inl e) \<Rightarrow> (a, Inl e)
           | (a, Inr (detected, output)) \<Rightarrow> (a, Inr (detected, source, output))))"

text \<open>
  Storing the output and validating the stored bytes. The name is the staged object, empty
  while nothing was stored.
\<close>

definition deliver_media ::
  "settings \<Rightarrow> toolchain \<Rightarrow> id \<Rightarrow> string \<Rightarrow> media_file \<Rightarrow> media_file \<Rightarrow> media_asset \<Rightarrow> media_asset \<times> string \<times> unit job" where
  "deliver_media st tc token detected source output asset =
     (case tc_save tc (''validated/'' @ normalized_media_name asset (mf_suffix source) token) of
        Inl e \<Rightarrow> (asset, [], Inl e)
      | Inr staged \<Rightarrow>
          (let a = asset\<lparr>ma_mime_type := if ma_kind asset = Video then ''video/mp4'' else detected\<rparr> in
           case bind_job (tc_read tc staged) (\<lambda>f.
                let delivered = f\<lparr>mf_suffix := mf_suffix output\<rparr> in
                bind_job (if ma_kind asset = Image
                          then validate_normalized_image st delivered (ma_mime_type a) else Inr ()) (\<lambda>u.
                Inr delivered)) of
             Inl e \<Rightarrow> (a, staged, Inl e)
           | Inr delivered \<Rightarrow>
               (a\<lparr>ma_sha256 := mf_sha256 delivered, ma_file_size := mf_size delivered,
                  ma_status := Ready, ma_rejection_reason := []\<rparr>, staged, Inr ())))"

datatype run_outcome = RunFinished media_asset string | RunCrashed string string

text \<open>
  The body of \<open>inspect_media\<close>: a handled exception deletes the staged object, gives back
  the empty name and rejects the asset; an escaping one leaves the staged object behind.
\<close>

definition run_inspection :: "settings \<Rightarrow> toolchain \<Rightarrow> bool \<Rightarrow> id \<Rightarrow> media_asset \<Rightarrow> run_outcome \<times> string list" where
  "run_inspection st tc require_malware_scanner token asset =
     (let (a, staged, r) =
        (case prepare_media st tc require_malware_scanner asset of
           (a, Inl e) \<Rightarrow> (a, [], Inl e)
         | (a, Inr (detected, source, output)) \<Rightarrow> deliver_media st tc token detected source output a)
      in case r of
           Inr u \<Rightarrow> (RunFinished a staged, [])
         | Inl (Escaped text) \<Rightarrow> (RunCrashed text staged, [])
         | Inl e \<Rightarrow>
             (RunFinished (a\<lparr>ma_status := Rejected, ma_rejection_reason := take 255 (error_text e)\<rparr>) [],
              if staged \<noteq> [] then [staged] else []))"

end
