(* ===== verification/Alerts.thy ===== *)
theory Alerts
  imports Models
begin

section \<open>Operational alerts\<close>

text \<open>
  Opening, escalating and acknowledging alerts: \<open>open_or_escalate_alert\<close> of
  \<open>services.py\<close> and \<open>acknowledge_alert\<close> of \<open>views.py\<close>. The locale \<open>alert_sink\<close> is the
  contract the other components use: an alert that was asked for is open afterwards with
  at least the severity asked for, and nothing else about open alerts changes.
\<close>

subsection \<open>Opening and escalating\<close>

definition unresolved :: "alert \<Rightarrow> bool" where
  "unresolved a = (al_acknowledged_at a = None)"

definition open_alerts :: "id option \<Rightarrow> string \<Rightarrow> alert list \<Rightarrow> alert list" where
  "open_alerts device code rows =
     filter (\<lambda>a. al_device a = device \<and> al_code a = code \<and> unresolved a) rows"

definition find_open_alert :: "id option \<Rightarrow> string \<Rightarrow> alert list \<Rightarrow> alert option" where
  "find_open_alert device code rows = order_first al_created_at (open_alerts device code rows)"

text \<open>
  The insertion under the partial unique constraints of the table: one unresolved alert
  for each device and code, and one for each code without a device.
\<close>

definition insert_alert ::
  "time \<Rightarrow> id option \<Rightarrow> string \<Rightarrow> severity \<Rightarrow> string \<Rightarrow> db \<Rightarrow> (alert \<times> db) result" where
  "insert_alert now device code sev message s =
     (if open_alerts device code (alerts s) \<noteq> [] then Inl (IntegrityError ''alert'')
      else (let a = \<lparr>al_id = next_pk s, al_device = device, al_code = code, al_severity = sev,
                     al_message = message, al_acknowledged_at = None, al_acknowledged_by = None,
                     al_created_at = now\<rparr>
            in Inr (a, s\<lparr>alerts := alerts s @ [a], next_pk := next_pk s + 1\<rparr>)))"

definition escalate :: "alert \<Rightarrow> severity \<Rightarrow> string \<Rightarrow> db \<Rightarrow> alert \<times> db" where
  "escalate a sev message s =
     (if sev = Critical \<and> al_severity a \<noteq> Critical
      then (let b = a\<lparr>al_severity := sev, al_message := message\<rparr>
            in (b, s\<lparr>alerts := save_by al_id b (alerts s)\<rparr>))
      else (a, s))"

text \<open>
  The rows \<open>race\<close> are what concurrent transactions commit to the alert table after the
  first query of this one and before its insertion; they are empty for an alert of a
  device, whose row is locked.
\<close>

definition open_or_escalate_racing ::
  "alert list \<Rightarrow> time \<Rightarrow> id option \<Rightarrow> string \<Rightarrow> severity \<Rightarrow> string \<Rightarrow> db \<Rightarrow> ((alert \<times> bool) \<times> db) result" where
  "open_or_escalate_racing race now device code sev message s =
     (if (case device of None \<Rightarrow> False | Some d \<Rightarrow> lookup_by dv_id d (devices s) = None)
      then Inl (ServerError ''Device matching query does not exist.'')
      else (case find_open_alert device code (alerts s) of
          Some a \<Rightarrow> (let (b, s') = escalate a sev message s in Inr ((b, False), s'))
        | None \<Rightarrow>
            (let r = s\<lparr>alerts := alerts s @ race\<rparr> in
             case insert_alert now device code sev message r of
               Inr (a, s') \<Rightarrow> Inr ((a, True), s')
             | Inl e \<Rightarrow>
                 (case find_open_alert device code (alerts r) of
                    None \<Rightarrow> Inl (IntegrityError ''Could not create or load the unresolved alert.'')
                  | Some a \<Rightarrow> (let (b, s') = escalate a sev message r in Inr ((b, False), s'))))))"

definition open_or_escalate_alert ::
  "time \<Rightarrow> id option \<Rightarrow> string \<Rightarrow> severity \<Rightarrow> string \<Rightarrow> db \<Rightarrow> ((alert \<times> bool) \<times> db) result" where
  "open_or_escalate_alert now device code sev message s =
     open_or_escalate_racing [] now device code sev message s"

definition open_alert ::
  "time \<Rightarrow> id option \<Rightarrow> string \<Rightarrow> severity \<Rightarrow> string \<Rightarrow> db \<Rightarrow> ((alert \<times> bool) \<times> db) result" where
  "open_alert now device code sev message s = open_or_escalate_alert now device code sev message s"

text \<open>The same step for callers that ignore the returned alert.\<close>

definition raise_alert ::
  "time \<Rightarrow> id option \<Rightarrow> string \<Rightarrow> severity \<Rightarrow> string \<Rightarrow> db \<Rightarrow> db result" where
  "raise_alert now device code sev message s =
     bind_result (open_or_escalate_alert now device code sev message s) (\<lambda>r. Inr (snd r))"

text \<open>\<open>acknowledge_alert\<close> of the dashboard: only an unresolved alert is found.\<close>

definition acknowledge_alert :: "time \<Rightarrow> id \<Rightarrow> id \<Rightarrow> db \<Rightarrow> db result" where
  "acknowledge_alert now user alert_id s =
     (case find (\<lambda>a. al_id a = alert_id \<and> unresolved a) (alerts s) of
        None \<Rightarrow> Inl Http404
      | Some a \<Rightarrow>
          (let b = a\<lparr>al_acknowledged_at := Some now, al_acknowledged_by := Some user\<rparr>
           in Inr (audit now (Some user) ''alert.acknowledge'' ''signage.alert'' (int_str alert_id) []
                 (s\<lparr>alerts := save_by al_id b (alerts s)\<rparr>))))"

subsection \<open>The invariant of the alert table\<close>

definition unique_open :: "alert list \<Rightarrow> bool" where
  "unique_open rows = (distinct (map al_id rows) \<and>
     distinct (map (\<lambda>a. (al_device a, al_code a)) (filter unresolved rows)))"

definition alerts_ok :: "db \<Rightarrow> bool" where
  "alerts_ok s = (unique_open (alerts s) \<and> (\<forall>a\<in>set (alerts s). al_id a < next_pk s))"

definition open_severity :: "db \<Rightarrow> id option \<Rightarrow> string \<Rightarrow> severity option" where
  "open_severity s device code = map_option al_severity (find_open_alert device code (alerts s))"

lemma open_alerts_append [table_simps]:
  "open_alerts d c (xs @ ys) = open_alerts d c xs @ open_alerts d c ys"
  by (simp add: open_alerts_def)

lemma open_alerts_single [table_simps]:
  "open_alerts d c [a] = (if al_device a = d \<and> al_code a = c \<and> unresolved a then [a] else [])"
  by (simp add: open_alerts_def)

lemma find_open_None: "find_open_alert d c rows = None \<longleftrightarrow> open_alerts d c rows = []"
  by (simp add: find_open_alert_def)

lemma find_open_SomeD:
  "find_open_alert d c rows = Some a \<Longrightarrow>
   a \<in> set rows \<and> al_device a = d \<and> al_code a = c \<and> unresolved a"
  by (auto simp: find_open_alert_def open_alerts_def dest: order_first_SomeD)

lemma distinct_map_unique:
  "distinct (map f xs) \<Longrightarrow> x \<in> set xs \<Longrightarrow> y \<in> set xs \<Longrightarrow> f x = f y \<Longrightarrow> x = y"
  by (metis inj_on_contraD distinct_map)

lemma unique_open_eq:
  assumes "unique_open rows" and "a \<in> set rows" and "b \<in> set rows"
    and "unresolved a" and "unresolved b" and "al_device a = al_device b" and "al_code a = al_code b"
  shows "a = b"
  using assms distinct_map_unique [of "\<lambda>a. (al_device a, al_code a)" "filter unresolved rows" a b]
  by (simp add: unique_open_def)

lemma find_open_unique:
  assumes "unique_open rows" and "a \<in> set rows" and "unresolved a"
  shows "find_open_alert (al_device a) (al_code a) rows = Some a"
proof -
  have "a \<in> set (open_alerts (al_device a) (al_code a) rows)"
    using assms by (simp add: open_alerts_def)
  then have "open_alerts (al_device a) (al_code a) rows \<noteq> []" by auto
  then obtain b where b: "find_open_alert (al_device a) (al_code a) rows = Some b"
    by (cases "find_open_alert (al_device a) (al_code a) rows") (auto simp: find_open_None)
  then have "b \<in> set rows \<and> al_device b = al_device a \<and> al_code b = al_code a \<and> unresolved b"
    by (rule find_open_SomeD)
  then have "b = a" using unique_open_eq [OF assms(1), of b a] assms(2,3) by simp
  with b show ?thesis by simp
qed

lemma unique_open_append:
  assumes "unique_open rows" and "open_alerts (al_device a) (al_code a) rows = []"
    and "al_id a \<notin> al_id ` set rows"
  shows "unique_open (rows @ [a])"
  using assms by (auto simp: unique_open_def open_alerts_def filter_empty_conv)

lemma save_by_map_eq:
  assumes "\<And>r. r \<in> set rows \<Longrightarrow> key r = key x \<Longrightarrow> f r = f x"
  shows "map f (save_by key x rows) = map f rows"
  using assms by (induction rows) (auto simp: save_by_def)

text \<open>Saving an alert with a new severity and message changes no key and no open alert.\<close>

lemma unique_open_save:
  assumes u: "unique_open rows" and a: "a \<in> set rows"
    and b: "al_id b = al_id a" "al_device b = al_device a" "al_code b = al_code a"
      "unresolved b = unresolved a"
  shows "unique_open (save_by al_id b rows)"
proof -
  let ?k = "\<lambda>a. (al_device a, al_code a)"
  have same: "r = a" if "r \<in> set rows" "al_id r = al_id b" for r
    using u that a b distinct_map_unique [of al_id rows r a] by (auto simp: unique_open_def)
  have rows: "map (\<lambda>r. (unresolved r, ?k r)) (save_by al_id b rows) = map (\<lambda>r. (unresolved r, ?k r)) rows"
    by (rule save_by_map_eq) (use same b in auto)
  have keys: "map ?k (filter unresolved xs) = map snd (filter fst (map (\<lambda>r. (unresolved r, ?k r)) xs))" for xs
    by (induction xs) auto
  have "map ?k (filter unresolved (save_by al_id b rows)) = map ?k (filter unresolved rows)"
    by (simp only: keys rows)
  then show ?thesis using u by (simp add: unique_open_def table_simps)
qed

text \<open>Closing an alert removes one candidate, so the open ones stay distinct.\<close>

lemma unique_open_close:
  assumes u: "unique_open rows" and b: "\<not> unresolved b"
  shows "unique_open (save_by al_id b rows)"
proof -
  let ?k = "\<lambda>a. (al_device a, al_code a)"
  have "filter unresolved (save_by al_id b rows) = filter (\<lambda>r. al_id r \<noteq> al_id b) (filter unresolved rows)"
    using b by (induction rows) (auto simp: save_by_def)
  then show ?thesis using u
    by (simp add: unique_open_def table_simps distinct_map_filter del: filter_filter)
qed

subsection \<open>What opening an alert does\<close>

lemma escalate_simps:
  "escalate a sev m s = (b, s') \<Longrightarrow> al_id b = al_id a \<and> al_device b = al_device a \<and> al_code b = al_code a
     \<and> unresolved b = unresolved a \<and> al_severity b = max (al_severity a) sev
     \<and> s' = s\<lparr>alerts := save_by al_id b (alerts s)\<rparr> \<or> b = a \<and> s' = s \<and> sev \<le> al_severity a"
  by (cases sev; cases "al_severity a")
    (auto simp: escalate_def unresolved_def Let_def max_def less_eq_severity_def)

lemma find_open_save_other:
  assumes u: "unique_open rows" and a: "find_open_alert d c rows = Some a"
    and b: "al_id b = al_id a" "al_device b = d" "al_code b = c" and other: "(d', c') \<noteq> (d, c)"
  shows "find_open_alert d' c' (save_by al_id b rows) = find_open_alert d' c' rows"
proof -
  have a': "a \<in> set rows" "al_device a = d" "al_code a = c"
    using find_open_SomeD [OF a] by auto
  have same: "r = a" if "r \<in> set rows" "al_id r = al_id b" for r
    using u that a' b distinct_map_unique [of al_id rows r a] by (auto simp: unique_open_def)
  have "open_alerts d' c' (save_by al_id b rows) = open_alerts d' c' rows"
    unfolding open_alerts_def
  proof (rule filter_save_by_same)
    fix r assume "r \<in> set rows" and "al_id r = al_id b"
    then have "r = a" by (rule same)
    then show "\<not> (al_device r = d' \<and> al_code r = c' \<and> unresolved r)" using a'(2,3) other by auto
  next
    show "\<not> (al_device b = d' \<and> al_code b = c' \<and> unresolved b)" using b(2,3) other by auto
  qed
  then show ?thesis by (simp add: find_open_alert_def)
qed

lemma escalate_ok:
  assumes u: "unique_open (alerts s)" and a: "find_open_alert d c (alerts s) = Some a"
    and e: "escalate a sev m s = (b, s')"
  shows "unique_open (alerts s')" and "find_open_alert d c (alerts s') = Some b"
    and "al_severity b = max (al_severity a) sev"
    and "(d', c') \<noteq> (d, c) \<Longrightarrow> find_open_alert d' c' (alerts s') = find_open_alert d' c' (alerts s)"
    and "al_id ` set (alerts s') = al_id ` set (alerts s)"
proof -
  have a': "a \<in> set (alerts s)" "al_device a = d" "al_code a = c" "unresolved a"
    using find_open_SomeD [OF a] by auto
  consider (same) "b = a" "s' = s" "sev \<le> al_severity a"
    | (saved) "al_id b = al_id a" "al_device b = d" "al_code b = c" "unresolved b"
        "al_severity b = max (al_severity a) sev" "s' = s\<lparr>alerts := save_by al_id b (alerts s)\<rparr>"
    using escalate_simps [OF e] a' by auto
  then have "unique_open (alerts s') \<and> find_open_alert d c (alerts s') = Some b
     \<and> al_severity b = max (al_severity a) sev
     \<and> ((d', c') \<noteq> (d, c) \<longrightarrow> find_open_alert d' c' (alerts s') = find_open_alert d' c' (alerts s))
     \<and> al_id ` set (alerts s') = al_id ` set (alerts s)"
  proof cases
    case same
    then show ?thesis using u a by (simp add: max_absorb1)
  next
    case saved
    have uo: "unique_open (save_by al_id b (alerts s))"
      by (rule unique_open_save [OF u a'(1)]) (use saved a' in auto)
    have "b \<in> set (save_by al_id b (alerts s))"
      using a' saved by (auto simp: set_save_by image_iff)
    from find_open_unique [OF uo this] saved have "find_open_alert d c (save_by al_id b (alerts s)) = Some b"
      by simp
    moreover have "(d', c') \<noteq> (d, c) \<Longrightarrow>
        find_open_alert d' c' (save_by al_id b (alerts s)) = find_open_alert d' c' (alerts s)"
      by (rule find_open_save_other [OF u a saved(1-3)])
    moreover have "al_id ` set (save_by al_id b (alerts s)) = al_id ` set (alerts s)"
      using arg_cong [OF keys_save_by [of al_id b "alerts s"], of set] by simp
    ultimately show ?thesis using uo saved by simp
  qed
  then show "unique_open (alerts s')" and "find_open_alert d c (alerts s') = Some b"
    and "al_severity b = max (al_severity a) sev"
    and "(d', c') \<noteq> (d, c) \<Longrightarrow> find_open_alert d' c' (alerts s') = find_open_alert d' c' (alerts s)"
    and "al_id ` set (alerts s') = al_id ` set (alerts s)"
    by auto
qed

lemma insert_alert_ok:
  assumes u: "unique_open (alerts s)" and fresh: "next_pk s \<notin> al_id ` set (alerts s)"
    and i: "insert_alert now d c sev m s = Inr (a, s')"
  shows "unique_open (alerts s')" and "find_open_alert d c (alerts s') = Some a"
    and "al_severity a = sev"
    and "find_open_alert d c (alerts s) = None"
    and "(d', c') \<noteq> (d, c) \<Longrightarrow> find_open_alert d' c' (alerts s') = find_open_alert d' c' (alerts s)"
    and "alerts s' = alerts s @ [a]" and "next_pk s' = next_pk s + 1" and "al_id a = next_pk s"
proof -
  from i have none: "open_alerts d c (alerts s) = []"
    and a: "a = \<lparr>al_id = next_pk s, al_device = d, al_code = c, al_severity = sev, al_message = m,
              al_acknowledged_at = None, al_acknowledged_by = None, al_created_at = now\<rparr>"
    and s': "s' = s\<lparr>alerts := alerts s @ [a], next_pk := next_pk s + 1\<rparr>"
    by (auto simp: insert_alert_def Let_def split: if_splits)
  show uo: "unique_open (alerts s')"
    unfolding s' using unique_open_append [OF u, of a] none fresh by (simp add: a)
  show "find_open_alert d c (alerts s') = Some a"
    using find_open_unique [OF uo, of a] by (simp add: s' a unresolved_def)
  show "find_open_alert d c (alerts s) = None"
    using none by (simp add: find_open_None)
  show "(d', c') \<noteq> (d, c) \<Longrightarrow> find_open_alert d' c' (alerts s') = find_open_alert d' c' (alerts s)"
    by (auto simp: s' a find_open_alert_def table_simps)
  show "al_severity a = sev" "alerts s' = alerts s @ [a]" "next_pk s' = next_pk s + 1" "al_id a = next_pk s"
    by (simp_all add: a s')
qed

text \<open>
  The step with interference: whatever well-formed alerts other transactions commit in
  between, one unresolved alert of the device and code is left, with at least the
  severity asked for, and the other open alerts are as they were.
\<close>

lemma racing_ok:
  assumes ok: "unique_open (alerts s @ race)" "\<forall>a\<in>set (alerts s @ race). al_id a < next_pk s"
    and run: "open_or_escalate_racing race now d c sev m s = Inr ((a, created), s')"
  shows "alerts_ok s'" and "open_severity s' d c = Some (al_severity a)" and "sev \<le> al_severity a"
    and "open_severity s d c = Some v \<Longrightarrow> al_severity a = max v sev"
    and "open_severity s d c = None \<Longrightarrow> race = [] \<Longrightarrow> al_severity a = sev \<and> created"
    and "race = [] \<Longrightarrow> (d', c') \<noteq> (d, c) \<Longrightarrow> open_severity s' d' c' = open_severity s d' c'"
proof -
  let ?r = "s\<lparr>alerts := alerts s @ race\<rparr>"
  have us: "unique_open (alerts s)"
    using ok(1) by (auto simp: unique_open_def)
  have fresh: "next_pk ?r \<notin> al_id ` set (alerts ?r)"
    using ok(2) by auto
  consider (found) a0 where "find_open_alert d c (alerts s) = Some a0" "escalate a0 sev m s = (a, s')"
    | (inserted) "find_open_alert d c (alerts s) = None" "insert_alert now d c sev m ?r = Inr (a, s')" "created"
    | (raced) a0 where "find_open_alert d c (alerts s) = None" "race \<noteq> []"
        "find_open_alert d c (alerts ?r) = Some a0" "escalate a0 sev m ?r = (a, s')"
    using run
    by (cases "race = []") (auto simp: open_or_escalate_racing_def Let_def insert_alert_def find_open_None
        split: if_splits option.splits sum.splits prod.splits)
  then have "alerts_ok s' \<and> open_severity s' d c = Some (al_severity a) \<and> sev \<le> al_severity a
    \<and> (open_severity s d c = Some v \<longrightarrow> al_severity a = max v sev)
    \<and> (open_severity s d c = None \<and> race = [] \<longrightarrow> al_severity a = sev \<and> created)
    \<and> (race = [] \<and> (d', c') \<noteq> (d, c) \<longrightarrow> open_severity s' d' c' = open_severity s d' c')"
  proof cases
    case found
    note e = escalate_ok [OF us found]
    have "next_pk s' = next_pk s"
      using found(2) by (auto simp: escalate_def Let_def split: if_splits)
    moreover have "al_id x < next_pk s" if "x \<in> set (alerts s')" for x
    proof -
      from that have "al_id x \<in> al_id ` set (alerts s')" by (rule imageI)
      then have "al_id x \<in> al_id ` set (alerts s)" unfolding e(5) .
      then show ?thesis using ok(2) by auto
    qed
    ultimately show ?thesis
      using e(1-4) found by (simp add: alerts_ok_def open_severity_def)
  next
    case inserted
    have ur: "unique_open (alerts ?r)" using ok(1) by simp
    note e = insert_alert_ok [OF ur fresh inserted(2)]
    have "al_id x < next_pk s'" if "x \<in> set (alerts s')" for x
      using e(6-8) ok(2) that by (fastforce intro: less_imp_le)
    then show ?thesis
      using e inserted by (cases "race = []") (auto simp: alerts_ok_def open_severity_def)
  next
    case raced
    have ur: "unique_open (alerts ?r)" using ok(1) by simp
    note e = escalate_ok [OF ur raced(3,4)]
    have "next_pk s' = next_pk s"
      using raced(4) by (auto simp: escalate_def Let_def split: if_splits)
    moreover have "al_id x < next_pk s" if "x \<in> set (alerts s')" for x
    proof -
      from that have "al_id x \<in> al_id ` set (alerts s')" by (rule imageI)
      then have "al_id x \<in> al_id ` set (alerts s @ race)" unfolding e(5) by simp
      then show ?thesis using ok(2) by auto
    qed
    ultimately show ?thesis
      using e(1-3) raced by (simp add: alerts_ok_def open_severity_def)
  qed
  then show "alerts_ok s'" and "open_severity s' d c = Some (al_severity a)" and "sev \<le> al_severity a"
    and "open_severity s d c = Some v \<Longrightarrow> al_severity a = max v sev"
    and "open_severity s d c = None \<Longrightarrow> race = [] \<Longrightarrow> al_severity a = sev \<and> created"
    and "race = [] \<Longrightarrow> (d', c') \<noteq> (d, c) \<Longrightarrow> open_severity s' d' c' = open_severity s d' c'"
    by blast+
qed

text \<open>Opening alerts writes the alert table and the key sequence, nothing else.\<close>

definition only_alerts :: "db \<Rightarrow> db \<Rightarrow> bool" where
  "only_alerts s s' = (\<exists>rows n. s' = s\<lparr>alerts := rows, next_pk := n\<rparr> \<and> next_pk s \<le> n)"

lemma only_alertsI: "next_pk s \<le> n \<Longrightarrow> only_alerts s (s\<lparr>alerts := rows, next_pk := n\<rparr>)"
  unfolding only_alerts_def by (rule exI [where x = rows], rule exI [where x = n]) simp

lemma only_alerts_rows: "only_alerts s (s\<lparr>alerts := rows\<rparr>)"
  using only_alertsI [of s "next_pk s" rows] by (cases s) simp

lemma only_alerts_refl [simp]: "only_alerts s s"
  using only_alerts_rows [of s "alerts s"] by simp

lemma only_alerts_trans: "only_alerts s t \<Longrightarrow> only_alerts t u \<Longrightarrow> only_alerts s u"
  by (auto simp: only_alerts_def) (metis order_trans)

lemma only_alertsD:
  assumes "only_alerts s s'"
  shows "playlists s' = playlists s" "devices s' = devices s" "heartbeats s' = heartbeats s"
    "media_assets s' = media_assets s" "api_throttles s' = api_throttles s"
    "login_throttles s' = login_throttles s" "location_points s' = location_points s"
    "playback_batches s' = playback_batches s" "playback_events s' = playback_events s"
    "operational_events s' = operational_events s" "credentials s' = credentials s"
    "access_tokens s' = access_tokens s" "management_credentials s' = management_credentials s"
    "enrollment_codes s' = enrollment_codes s" "challenges s' = challenges s"
    "audits s' = audits s" "assignments s' = assignments s" "commands s' = commands s"
    "playlist_items s' = playlist_items s" "platform s' = platform s" "users s' = users s"
    "media_deletions s' = media_deletions s" "qualifications s' = qualifications s"
    "next_pk s \<le> next_pk s'"
  using assms by (auto simp: only_alerts_def)

lemma escalate_frame: "escalate a sev m s = (b, t) \<Longrightarrow> only_alerts s t"
  by (auto simp: escalate_def Let_def only_alerts_rows split: if_splits)

lemma open_or_escalate_frame:
  "open_or_escalate_alert now d c sev m s = Inr (r, s') \<Longrightarrow> only_alerts s s'"
  by (auto simp: open_or_escalate_alert_def open_or_escalate_racing_def insert_alert_def Let_def
      only_alertsI dest: escalate_frame split: option.splits sum.splits prod.splits if_splits)

lemma open_or_escalate_total:
  assumes "case device of None \<Rightarrow> True | Some d \<Rightarrow> lookup_by dv_id d (devices s) \<noteq> None"
  shows "\<exists>a created s'. open_or_escalate_alert now device code sev m s = Inr ((a, created), s')"
  using assms
  by (auto simp: open_or_escalate_alert_def open_or_escalate_racing_def insert_alert_def Let_def
      find_open_None split: option.splits prod.splits)

lemma raise_alert_frame: "raise_alert now d c sev m s = Inr s' \<Longrightarrow> only_alerts s s'"
  by (auto simp: raise_alert_def bind_result_Inr_iff dest: open_or_escalate_frame)

lemma raise_alert_total:
  "(case device of None \<Rightarrow> True | Some d \<Rightarrow> lookup_by dv_id d (devices s) \<noteq> None) \<Longrightarrow>
   \<exists>s'. raise_alert now device code sev m s = Inr s'"
  using open_or_escalate_total [where device = device and s = s and now = now and code = code and sev = sev and m = m]
  by (auto simp: raise_alert_def)

lemma raise_alert_ok:
  assumes ok: "alerts_ok s" and run: "raise_alert now d c sev m s = Inr s'"
  shows "alerts_ok s'"
    and "open_severity s' d c =
       Some (case open_severity s d c of None \<Rightarrow> sev | Some v \<Rightarrow> max v sev)"
    and "(d', c') \<noteq> (d, c) \<Longrightarrow> open_severity s' d' c' = open_severity s d' c'"
proof -
  obtain a created where r: "open_or_escalate_racing [] now d c sev m s = Inr ((a, created), s')"
    using run by (auto simp: raise_alert_def open_or_escalate_alert_def bind_result_Inr_iff)
  have ok': "unique_open (alerts s @ [])" "\<forall>a\<in>set (alerts s @ []). al_id a < next_pk s"
    using ok by (simp_all add: alerts_ok_def)
  note k = racing_ok [OF ok' r]
  show "alerts_ok s'" by (rule k(1))
  show "open_severity s' d c = Some (case open_severity s d c of None \<Rightarrow> sev | Some v \<Rightarrow> max v sev)"
    using k(2,4,5) by (simp split: option.split)
  show "(d', c') \<noteq> (d, c) \<Longrightarrow> open_severity s' d' c' = open_severity s d' c'"
    by (rule k(6)) simp_all
qed

subsection \<open>The contract of an alert sink\<close>

datatype alert_request = AlertRequest "id option" string severity string

fun request_key :: "alert_request \<Rightarrow> id option \<times> string" where
  "request_key (AlertRequest d c sev m) = (d, c)"

fun request_severity :: "alert_request \<Rightarrow> severity" where
  "request_severity (AlertRequest d c sev m) = sev"

fun raise_request :: "time \<Rightarrow> alert_request \<Rightarrow> db \<Rightarrow> db result" where
  "raise_request now (AlertRequest d c sev m) s = raise_alert now d c sev m s"

definition raise_all :: "time \<Rightarrow> alert_request list \<Rightarrow> db \<Rightarrow> db result" where
  "raise_all now requests s = fold_result (raise_request now) requests s"

locale alert_sink =
  fixes sink :: "'a \<Rightarrow> 's \<Rightarrow> 's result"
    and key_of :: "'a \<Rightarrow> 'k"
    and wanted :: "'a \<Rightarrow> severity"
    and level :: "'s \<Rightarrow> 'k \<Rightarrow> severity option"
    and ok :: "'s \<Rightarrow> bool"
  assumes sink_ok: "ok s \<Longrightarrow> sink a s = Inr s' \<Longrightarrow> ok s'"
    and sink_level: "ok s \<Longrightarrow> sink a s = Inr s' \<Longrightarrow>
      level s' (key_of a) = Some (case level s (key_of a) of None \<Rightarrow> wanted a | Some v \<Rightarrow> max v (wanted a))"
    and sink_other: "ok s \<Longrightarrow> sink a s = Inr s' \<Longrightarrow> k \<noteq> key_of a \<Longrightarrow> level s' k = level s k"
begin

lemma run_ok: "ok s \<Longrightarrow> fold_result sink as s = Inr s' \<Longrightarrow> ok s'"
  using fold_result_invariant [of sink as s s' ok] sink_ok by blast

lemma sink_mono: "ok s \<Longrightarrow> sink a s = Inr s' \<Longrightarrow> level s k = Some u \<Longrightarrow> \<exists>v. level s' k = Some v \<and> u \<le> v"
  by (cases "k = key_of a") (auto dest: sink_level sink_other)

lemma run_mono:
  "ok s \<Longrightarrow> fold_result sink as s = Inr s' \<Longrightarrow> level s k = Some u \<Longrightarrow> \<exists>v. level s' k = Some v \<and> u \<le> v"
proof (induction as arbitrary: s u)
  case Nil
  then show ?case by simp
next
  case (Cons a as)
  then obtain t where t: "sink a s = Inr t" "fold_result sink as t = Inr s'"
    by (auto simp: bind_result_Inr_iff)
  obtain w where w: "level t k = Some w" "u \<le> w"
    using sink_mono [OF Cons.prems(1) t(1) Cons.prems(3)] by blast
  obtain v where "level s' k = Some v" "w \<le> v"
    using Cons.IH [OF sink_ok [OF Cons.prems(1) t(1)] t(2) w(1)] by blast
  then show ?case using w(2) by (meson order_trans)
qed

lemma run_requested:
  "ok s \<Longrightarrow> fold_result sink as s = Inr s' \<Longrightarrow> a \<in> set as \<Longrightarrow>
   \<exists>v. level s' (key_of a) = Some v \<and> wanted a \<le> v"
proof (induction as arbitrary: s)
  case Nil
  then show ?case by simp
next
  case (Cons b as)
  then obtain t where t: "sink b s = Inr t" "fold_result sink as t = Inr s'"
    by (auto simp: bind_result_Inr_iff)
  have okt: "ok t" by (rule sink_ok [OF Cons.prems(1) t(1)])
  show ?case
  proof (cases "a \<in> set as")
    case True
    then show ?thesis using Cons.IH [OF okt t(2)] by blast
  next
    case False
    with Cons.prems have ab: "a = b" by simp
    obtain w where "level t (key_of a) = Some w" "wanted a \<le> w"
      using sink_level [OF Cons.prems(1) t(1)] ab by (auto split: option.splits)
    then show ?thesis using run_mono [OF okt t(2)] by (meson order_trans)
  qed
qed

lemma run_untouched:
  "ok s \<Longrightarrow> fold_result sink as s = Inr s' \<Longrightarrow> k \<notin> key_of ` set as \<Longrightarrow> level s' k = level s k"
proof (induction as arbitrary: s)
  case Nil
  then show ?case by simp
next
  case (Cons a as)
  then obtain t where t: "sink a s = Inr t" "fold_result sink as t = Inr s'"
    by (auto simp: bind_result_Inr_iff)
  have "level s' k = level t k"
    using Cons.IH [OF sink_ok [OF Cons.prems(1) t(1)] t(2)] Cons.prems(3) by simp
  then show ?case using sink_other [OF Cons.prems(1) t(1)] Cons.prems(3) by simp
qed

end

definition alert_level :: "db \<Rightarrow> id option \<times> string \<Rightarrow> severity option" where
  "alert_level s k = open_severity s (fst k) (snd k)"

lemma raise_request_ok:
  assumes "alerts_ok s" and "raise_request now a s = Inr s'"
  shows "alerts_ok s'"
    and "alert_level s' (request_key a) =
       Some (case alert_level s (request_key a) of None \<Rightarrow> request_severity a
             | Some v \<Rightarrow> max v (request_severity a))"
    and "k \<noteq> request_key a \<Longrightarrow> alert_level s' k = alert_level s k"
proof -
  obtain d c sev m where a: "a = AlertRequest d c sev m" by (cases a)
  obtain d' c' where k: "k = (d', c')" by (cases k)
  have run: "raise_alert now d c sev m s = Inr s'" using assms(2) by (simp add: a)
  show "alerts_ok s'" by (rule raise_alert_ok(1) [OF assms(1) run])
  show "alert_level s' (request_key a) =
       Some (case alert_level s (request_key a) of None \<Rightarrow> request_severity a
             | Some v \<Rightarrow> max v (request_severity a))"
    using raise_alert_ok(2) [OF assms(1) run] by (simp add: a alert_level_def cong: option.case_cong)
  show "k \<noteq> request_key a \<Longrightarrow> alert_level s' k = alert_level s k"
    using raise_alert_ok(3) [OF assms(1) run, of d' c'] by (simp add: a k alert_level_def)
qed

interpretation sink: alert_sink "raise_request now" request_key request_severity alert_level alerts_ok for now
  by unfold_locales (auto dest: raise_request_ok)

lemma raise_all_frame: "raise_all now rs s = Inr s' \<Longrightarrow> only_alerts s s'"
  unfolding raise_all_def
proof (erule fold_result_invariant)
  show "only_alerts s s" by simp
next
  fix a t t'
  assume "only_alerts s t" and "raise_request now a t = Inr t'"
  then show "only_alerts s t'"
    by (cases a) (auto intro: only_alerts_trans dest: raise_alert_frame)
qed


lemma open_or_escalate_racing_total:
  assumes "case device of None \<Rightarrow> True | Some d \<Rightarrow> lookup_by dv_id d (devices s) \<noteq> None"
  shows "\<exists>a created s'. open_or_escalate_racing race now device code sev m s = Inr ((a, created), s')"
proof (cases "find_open_alert device code (alerts s)")
  case (Some a)
  then show ?thesis using assms
    by (auto simp: open_or_escalate_racing_def Let_def split: option.splits prod.splits)
next
  case None
  let ?r = "s\<lparr>alerts := alerts s @ race\<rparr>"
  show ?thesis
  proof (cases "open_alerts device code (alerts ?r) = []")
    case True
    then show ?thesis using assms None
      by (auto simp: open_or_escalate_racing_def insert_alert_def Let_def split: option.splits)
  next
    case False
    then obtain b where "find_open_alert device code (alerts ?r) = Some b"
      by (metis find_open_None option.exhaust)
    then show ?thesis using assms None False
      by (auto simp: open_or_escalate_racing_def insert_alert_def Let_def split: option.splits prod.splits)
  qed
qed

lemma raise_all_total:
  "\<forall>r\<in>set rs. \<forall>d. fst (request_key r) = Some d \<longrightarrow> lookup_by dv_id d (devices s) \<noteq> None \<Longrightarrow>
   \<exists>s'. raise_all now rs s = Inr s'"
proof (induction rs arbitrary: s)
  case Nil
  then show ?case by (simp add: raise_all_def)
next
  case (Cons r rs)
  obtain d c sev m where r: "r = AlertRequest d c sev m" by (cases r)
  have "case d of None \<Rightarrow> True | Some e \<Rightarrow> lookup_by dv_id e (devices s) \<noteq> None"
    using Cons.prems by (simp add: r split: option.split)
  from raise_alert_total [OF this] obtain t where t: "raise_alert now d c sev m s = Inr t" by blast
  have "devices t = devices s" using raise_alert_frame [OF t] by (simp add: only_alertsD)
  then have "\<exists>s'. raise_all now rs t = Inr s'"
    using Cons.IH [of t] Cons.prems by simp
  then show ?case using t by (simp add: raise_all_def r)
qed

subsection \<open>Properties\<close>

text \<open>C20: Opening an alert while other transactions commit alerts of their own between the
  query and the insertion always succeeds for a known device, leaves one unresolved alert
  for the device and code, and that alert has at least the severity asked for: a later
  warning never lowers a critical alert, a critical request raises a warning.\<close>

theorem open_alert_race_safe:
  assumes "unique_open (alerts s @ race)" and "\<forall>a\<in>set (alerts s @ race). al_id a < next_pk s"
    and "case device of None \<Rightarrow> True | Some d \<Rightarrow> lookup_by dv_id d (devices s) \<noteq> None"
  shows "\<exists>a created s'. open_or_escalate_racing race now device code sev m s = Inr ((a, created), s')
     \<and> alerts_ok s' \<and> open_severity s' device code = Some (al_severity a) \<and> sev \<le> al_severity a
     \<and> (\<forall>v. open_severity s device code = Some v \<longrightarrow> al_severity a = max v sev)"
proof -
  obtain a created s' where r: "open_or_escalate_racing race now device code sev m s = Inr ((a, created), s')"
    using open_or_escalate_racing_total [OF assms(3)] by blast
  show ?thesis using r racing_ok(1-4) [OF assms(1,2) r] by blast
qed

definition example_alert :: "id \<Rightarrow> id option \<Rightarrow> string \<Rightarrow> severity \<Rightarrow> alert" where
  "example_alert i d c sev = \<lparr>al_id = i, al_device = d, al_code = c, al_severity = sev, al_message = [],
     al_acknowledged_at = None, al_acknowledged_by = None, al_created_at = 0\<rparr>"

theorem open_alert_race_safe_witness:
  "\<exists>a created s'. open_or_escalate_racing [example_alert 1 None ''x'' Warning] 7 None ''x'' Critical ''m''
       (empty_db\<lparr>next_pk := 5\<rparr>) = Inr ((a, created), s')
     \<and> alerts_ok s' \<and> open_severity s' None ''x'' = Some (al_severity a) \<and> Critical \<le> al_severity a
     \<and> (\<forall>v. open_severity (empty_db\<lparr>next_pk := 5\<rparr>) None ''x'' = Some v \<longrightarrow> al_severity a = max v Critical)"
  by (rule open_alert_race_safe) (simp_all add: empty_db_def example_alert_def unique_open_def)

text \<open>A run of alert requests keeps one unresolved alert per device and code; every
  alert asked for is open afterwards with at least the severity asked for, no open alert
  loses severity, and no alert of another device or code is touched.\<close>

theorem raise_all_contract:
  assumes "alerts_ok s" and "raise_all now requests s = Inr s'"
  shows "alerts_ok s'
     \<and> (\<forall>a\<in>set requests. \<exists>v. alert_level s' (request_key a) = Some v \<and> request_severity a \<le> v)
     \<and> (\<forall>k u. alert_level s k = Some u \<longrightarrow> (\<exists>v. alert_level s' k = Some v \<and> u \<le> v))
     \<and> (\<forall>k. k \<notin> request_key ` set requests \<longrightarrow> alert_level s' k = alert_level s k)"
  using sink.run_ok sink.run_requested sink.run_mono sink.run_untouched assms
  unfolding raise_all_def by metis

theorem raise_all_contract_witness:
  "\<exists>s'. raise_all 7 [AlertRequest None ''x'' Warning ''m'', AlertRequest None ''x'' Critical ''n''] empty_db = Inr s'
     \<and> alerts_ok s' \<and> (\<exists>v. alert_level s' (None, ''x'') = Some v \<and> Critical \<le> v)"
proof -
  obtain s' where s': "raise_all 7 [AlertRequest None ''x'' Warning ''m'', AlertRequest None ''x'' Critical ''n'']
      empty_db = Inr s'"
    using raise_all_total [of "[AlertRequest None ''x'' Warning ''m'', AlertRequest None ''x'' Critical ''n'']" empty_db 7]
    by fastforce
  have ok: "alerts_ok empty_db" by (simp add: alerts_ok_def unique_open_def empty_db_def)
  show ?thesis using raise_all_contract [OF ok s'] s' by fastforce
qed

text \<open>Acknowledging closes exactly one alert: a second acknowledgement of it is a 404,
  and the next request for the same device and code opens a fresh alert with the severity
  of that request instead of reviving the closed one.\<close>

theorem acknowledge_then_reopen:
  assumes ok: "alerts_ok s" and a: "a \<in> set (alerts s)" "unresolved a"
    and ack: "acknowledge_alert now user (al_id a) s = Inr s'"
    and next_raise: "raise_alert later (al_device a) (al_code a) sev m s' = Inr s''"
  shows "alerts_ok s' \<and> acknowledge_alert now2 user2 (al_id a) s' = Inl Http404
    \<and> open_severity s' (al_device a) (al_code a) = None
    \<and> open_severity s'' (al_device a) (al_code a) = Some sev"
proof (intro conjI)
  have u: "unique_open (alerts s)" and d: "distinct (map al_id (alerts s))"
    using ok by (auto simp: alerts_ok_def unique_open_def)
  have same: "x = a" if "x \<in> set (alerts s)" "al_id x = al_id a" for x
    using distinct_map_unique [OF d] that a by auto
  obtain x where "find (\<lambda>x. al_id x = al_id a \<and> unresolved x) (alerts s) = Some x"
    using ack by (auto simp: acknowledge_alert_def split: option.splits)
  moreover from this have "x = a" using same by (auto simp: find_Some_iff)
  ultimately have s': "s' = audit now (Some user) ''alert.acknowledge'' ''signage.alert'' (int_str (al_id a)) []
      (s\<lparr>alerts := save_by al_id (a\<lparr>al_acknowledged_at := Some now, al_acknowledged_by := Some user\<rparr>) (alerts s)\<rparr>)"
    using ack by (simp add: acknowledge_alert_def Let_def)
  let ?b = "a\<lparr>al_acknowledged_at := Some now, al_acknowledged_by := Some user\<rparr>"
  have rows: "alerts s' = save_by al_id ?b (alerts s)" by (simp add: s')
  have nb: "\<not> unresolved ?b" by (simp add: unresolved_def)
  have uo: "unique_open (alerts s')"
    unfolding rows by (rule unique_open_close [OF u nb])
  show ok': "alerts_ok s'"
    using ok uo rows a(1) by (force simp: alerts_ok_def s' dest!: save_by_mem)
  have closed: "x = ?b \<or> x \<in> set (alerts s) \<and> x \<noteq> a" if "x \<in> set (alerts s')" for x
    using that by (auto simp: rows dest!: save_by_mem)
  show "acknowledge_alert now2 user2 (al_id a) s' = Inl Http404"
    using closed nb same by (fastforce simp: acknowledge_alert_def find_None_iff split: option.splits)
  have "open_alerts (al_device a) (al_code a) (alerts s') = []"
    using closed nb unique_open_eq [OF u _ a(1) _ a(2)] by (fastforce simp: open_alerts_def filter_empty_conv)
  then show none: "open_severity s' (al_device a) (al_code a) = None"
    by (simp add: open_severity_def find_open_None)
  show "open_severity s'' (al_device a) (al_code a) = Some sev"
    using raise_alert_ok(2) [OF ok' next_raise] none by simp
qed


theorem acknowledge_then_reopen_witness:
  "\<exists>s' s''. acknowledge_alert 3 1 1 (empty_db\<lparr>alerts := [example_alert 1 None ''x'' Critical], next_pk := 2\<rparr>) = Inr s'
     \<and> raise_alert 4 None ''x'' Warning ''m'' s' = Inr s''
     \<and> acknowledge_alert 5 1 1 s' = Inl Http404
     \<and> open_severity s'' None ''x'' = Some Warning"
proof -
  let ?s = "empty_db\<lparr>alerts := [example_alert 1 None ''x'' Critical], next_pk := 2\<rparr>"
  have ok: "alerts_ok ?s"
    by (simp add: alerts_ok_def unique_open_def empty_db_def example_alert_def unresolved_def)
  obtain s' where s': "acknowledge_alert 3 1 1 ?s = Inr s'"
    by (simp add: acknowledge_alert_def example_alert_def unresolved_def Let_def)
  obtain s'' where s'': "raise_alert 4 None ''x'' Warning ''m'' s' = Inr s''"
    using raise_alert_total [where device = None and s = s' and now = 4 and code = "''x''" and sev = Warning and m = "''m''"]
    by auto
  show ?thesis
    using acknowledge_then_reopen [OF ok, of "example_alert 1 None ''x'' Critical" 3 1 s' 4 Warning "''m''" s'' 5 1] s' s''
    by (auto simp: example_alert_def unresolved_def)
qed

end
