(* ===== verification/Media.thy ===== *)
theory Media
  imports Media_Files Alerts
begin

section \<open>The life of a media asset\<close>

text \<open>
  Uploads, processing attempts and binary deletion: the media forms of \<open>forms.py\<close> and
  \<open>views.py\<close>, the processing and deletion functions of \<open>services.py\<close>, and the commands
  \<open>process_media\<close> and \<open>reconcile_media_deletions\<close>. Work that spans several transactions
  takes a function for what the rest of the system does in between.
\<close>

subsection \<open>Uploads\<close>

definition save_asset :: "media_asset \<Rightarrow> db \<Rightarrow> db" where
  "save_asset a s = s\<lparr>media_assets := save_by ma_id a (media_assets s)\<rparr>"

definition find_asset :: "id \<Rightarrow> db \<Rightarrow> media_asset option" where
  "find_asset i s = lookup_by ma_id i (media_assets s)"

definition rsplit_extension :: "string \<Rightarrow> string" where
  "rsplit_extension name = last (split_on (CHR ''.'') (lower name))"

text \<open>\<open>MediaUploadForm.clean_source_file\<close>.\<close>

definition clean_source_file :: "settings \<Rightarrow> media_kind \<Rightarrow> string \<Rightarrow> int \<Rightarrow> unit result" where
  "clean_source_file st kind name bytes =
     (let limit = (if kind = Image then st_media_max_image_bytes st else st_media_max_video_bytes st);
          extension = rsplit_extension name;
          allowed = (if kind = Image then [''jpg'', ''jpeg'', ''png''] else [''mp4''])
      in bind_result (require (bytes \<le> limit)
           (ValidationError ''source_file'' ''The uploaded file exceeds the allowed size.'')) (\<lambda>u.
         require (extension \<in> set allowed)
           (ValidationError ''source_file'' ''The filename does not match an accepted format.'')))"

text \<open>\<open>MediaAsset.clean\<close>.\<close>

definition clean_media_asset :: "media_asset \<Rightarrow> unit result" where
  "clean_media_asset a =
     bind_result (require (\<not> (ma_kind a = Image \<and> ma_duration_ms a \<noteq> 15000))
       (ValidationError ''duration_ms'' ''Images must display for 15 seconds.'')) (\<lambda>u.
     require (\<not> (ma_kind a = Video \<and> 15000 < ma_duration_ms a))
       (ValidationError ''duration_ms'' ''Videos cannot exceed 15 seconds.''))"

definition new_media_asset :: "time \<Rightarrow> id \<Rightarrow> string \<Rightarrow> string \<Rightarrow> media_kind \<Rightarrow> string \<Rightarrow> id \<Rightarrow> media_asset" where
  "new_media_asset now uuid business title kind source uploader =
     \<lparr>ma_id = uuid, ma_business_name = business, ma_title = title, ma_kind = kind,
      ma_status = Quarantined, ma_source_file = source, ma_normalized_file = [], ma_sha256 = [],
      ma_mime_type = [], ma_file_size = 0, ma_duration_ms = 15000, ma_width = None, ma_height = None,
      ma_rejection_reason = [], ma_uploaded_by = uploader, ma_archived_at = None,
      ma_dispatch_attempts = 0, ma_last_dispatch_attempt_at = None, ma_dispatched_at = None,
      ma_processing_attempts = 0, ma_processing_token = None, ma_processing_started_at = None,
      ma_processing_lease_expires_at = None, ma_processing_finished_at = None, ma_created_at = now\<rparr>"

text \<open>
  The object store holds the names of the stored files. \<open>source\<close> is the name the store gave
  the upload below \<open>media_upload_path\<close>. \<open>media_upload\<close> is the transaction of the view; the
  dispatch, which runs when it commits, follows in \<open>Site\<close>, \<open>media_upload_page\<close>.
\<close>

record media_world =
  mw_db :: db
  mw_objects :: "string list"

definition media_upload_path :: "id \<Rightarrow> string \<Rightarrow> string" where
  "media_upload_path uuid filename = ''quarantine/'' @ uuid_str uuid @ ''/'' @ filename"

definition media_upload ::
  "settings \<Rightarrow> time \<Rightarrow> id \<Rightarrow> id \<Rightarrow> (string \<Rightarrow> string) \<Rightarrow> string \<Rightarrow> string \<Rightarrow> media_kind \<Rightarrow> string \<Rightarrow> int \<Rightarrow> media_world \<Rightarrow> (id \<times> media_world) result" where
  "media_upload st now uploader uuid stored_as business title kind filename bytes w =
     bind_result (clean_source_file st kind filename bytes) (\<lambda>u1.
     let source = stored_as (media_upload_path uuid filename);
         a = new_media_asset now uuid business title kind source uploader in
     bind_result (clean_media_asset a) (\<lambda>u2.
     Inr (uuid, w\<lparr>mw_db := audit now (Some uploader) ''media.upload'' ''signage.mediaasset'' (uuid_str uuid) []
                    ((mw_db w)\<lparr>media_assets := media_assets (mw_db w) @ [a]\<rparr>),
                  mw_objects := source # mw_objects w\<rparr>)))"

subsection \<open>Processing attempts\<close>

definition begin_attempt :: "settings \<Rightarrow> time \<Rightarrow> id \<Rightarrow> media_asset \<Rightarrow> media_asset" where
  "begin_attempt st now token a =
     a\<lparr>ma_status := Processing,
       ma_processing_attempts := ma_processing_attempts a + 1,
       ma_processing_token := Some token,
       ma_processing_started_at := Some now,
       ma_processing_lease_expires_at := Some (now + seconds (st_media_processing_lease_seconds st)),
       ma_processing_finished_at := None\<rparr>"

definition start_media_processing_attempt ::
  "settings \<Rightarrow> time \<Rightarrow> id \<Rightarrow> id \<Rightarrow> db \<Rightarrow> (id option \<times> db) result" where
  "start_media_processing_attempt st now token asset_id s =
     (case find_asset asset_id s of
        None \<Rightarrow> Inl (ServerError ''MediaAsset matching query does not exist.'')
      | Some a \<Rightarrow>
          if ma_status a \<noteq> Quarantined then Inr (None, s)
          else Inr (Some token, save_asset (begin_attempt st now token a) s))"

text \<open>
  \<open>process_media._claim_asset\<close>: \<open>locked\<close> are the rows other transactions hold, which
  \<open>skip_locked\<close> passes over.
\<close>

definition lease_lapsed :: "time \<Rightarrow> media_asset \<Rightarrow> bool" where
  "lease_lapsed now a = (case ma_processing_lease_expires_at a of None \<Rightarrow> True | Some t \<Rightarrow> t \<le> now)"

definition claimable :: "time \<Rightarrow> media_asset \<Rightarrow> bool" where
  "claimable now a = (ma_status a = Quarantined \<or> ma_status a = Processing \<and> lease_lapsed now a)"

fun media_status_value :: "media_status \<Rightarrow> string" where
  "media_status_value Quarantined = ''quarantined''"
| "media_status_value Processing = ''processing''"
| "media_status_value Ready = ''ready''"
| "media_status_value Rejected = ''rejected''"
| "media_status_value MediaArchived = ''archived''"

definition claim_asset ::
  "settings \<Rightarrow> time \<Rightarrow> id \<Rightarrow> id list \<Rightarrow> id option \<Rightarrow> db \<Rightarrow> ((media_asset option \<times> string) \<times> db) result" where
  "claim_asset st now token locked asset_id s =
     (let rows = filter (\<lambda>a. ma_id a \<notin> set locked) (media_assets s);
          claim = (\<lambda>a. let b = begin_attempt st now token a
                       in Inr ((Some b, ''claimed''), save_asset b s))
      in case asset_id of
           Some i \<Rightarrow>
             (case lookup_by ma_id i rows of
                None \<Rightarrow> Inl (CommandError (''Media asset does not exist: '' @ uuid_str i))
              | Some a \<Rightarrow>
                  if ma_status a = Processing then
                    (if lease_lapsed now a then claim a else Inr ((None, ''already processing''), s))
                  else if ma_status a \<noteq> Quarantined
                    then Inr ((None, ''already '' @ media_status_value (ma_status a)), s)
                  else claim a)
         | None \<Rightarrow>
             (case order_first ma_created_at (filter (claimable now) rows) of
                None \<Rightarrow> Inr ((None, ''no eligible media''), s)
              | Some a \<Rightarrow> claim a))"

text \<open>
  \<open>_finalize_media_processing\<close>: the first component tells whether the attempt still owned
  the asset; the list holds the objects deleted when the transaction commits.
\<close>

definition finish_attempt :: "time \<Rightarrow> media_asset \<Rightarrow> string \<Rightarrow> media_asset \<Rightarrow> media_asset" where
  "finish_attempt now asset staged locked =
     locked\<lparr>ma_sha256 := ma_sha256 asset, ma_file_size := ma_file_size asset,
       ma_mime_type := ma_mime_type asset, ma_duration_ms := ma_duration_ms asset,
       ma_width := ma_width asset, ma_height := ma_height asset,
       ma_rejection_reason := ma_rejection_reason asset, ma_status := ma_status asset,
       ma_normalized_file := if ma_status asset = Ready then staged else ma_normalized_file locked,
       ma_processing_token := None, ma_processing_lease_expires_at := None,
       ma_processing_finished_at := Some now\<rparr>"

definition owns_attempt :: "id \<Rightarrow> media_asset \<Rightarrow> bool" where
  "owns_attempt token a = (ma_status a = Processing \<and> ma_processing_token a = Some token)"

definition finalize_media_processing ::
  "time \<Rightarrow> media_asset \<Rightarrow> id \<Rightarrow> string \<Rightarrow> db \<Rightarrow> ((bool \<times> string list) \<times> db) result" where
  "finalize_media_processing now asset token staged s =
     (case find_asset (ma_id asset) s of
        None \<Rightarrow> Inl (ServerError ''MediaAsset matching query does not exist.'')
      | Some locked \<Rightarrow>
          if \<not> owns_attempt token locked then Inr ((False, []), s)
          else (let old = ma_normalized_file locked
                in Inr ((True, if old \<noteq> [] \<and> staged \<noteq> [] \<and> old \<noteq> staged then [old] else []),
                        save_asset (finish_attempt now asset staged locked) s)))"

definition remove_objects :: "string list \<Rightarrow> media_world \<Rightarrow> media_world" where
  "remove_objects names w = w\<lparr>mw_objects := filter (\<lambda>n. n \<notin> set names) (mw_objects w)\<rparr>"

definition add_object :: "string \<Rightarrow> media_world \<Rightarrow> media_world" where
  "add_object name w = (if name = [] then w else w\<lparr>mw_objects := name # mw_objects w\<rparr>)"

text \<open>
  \<open>inspect_media\<close>. An asset that was not claimed beforehand starts its own attempt.
  \<open>others\<close> is what the rest of the system commits between the start and the finalization.
\<close>

definition refreshed :: "id \<Rightarrow> media_world \<Rightarrow> media_asset result" where
  "refreshed i w = (case find_asset i (mw_db w) of
       None \<Rightarrow> Inl (ServerError ''MediaAsset matching query does not exist.'') | Some a \<Rightarrow> Inr a)"

definition finish_inspection ::
  "time \<Rightarrow> media_asset \<Rightarrow> id \<Rightarrow> string \<Rightarrow> media_world \<Rightarrow> media_asset result \<times> media_world" where
  "finish_inspection now asset token staged w =
     (case finalize_media_processing now asset token staged (mw_db w) of
        Inl e \<Rightarrow> (Inl e, w)
      | Inr ((finalized, committed), s') \<Rightarrow>
          (let w1 = remove_objects committed (w\<lparr>mw_db := s'\<rparr>);
               w2 = (if \<not> finalized \<and> staged \<noteq> [] then remove_objects [staged] w1 else w1)
           in (refreshed (ma_id asset) w2, w2)))"

definition inspect_claimed ::
  "settings \<Rightarrow> toolchain \<Rightarrow> bool \<Rightarrow> time \<Rightarrow> (media_world \<Rightarrow> media_world) \<Rightarrow> id \<Rightarrow> media_asset \<Rightarrow> media_world \<Rightarrow> media_asset result \<times> media_world" where
  "inspect_claimed st tc scanner now others token asset w =
     (case run_inspection st tc scanner token asset of
        (RunCrashed text staged, deleted) \<Rightarrow> (Inl (ServerError text), others (add_object staged w))
      | (RunFinished result staged, deleted) \<Rightarrow>
          finish_inspection now result token staged (others (add_object staged w)))"

definition inspect_media ::
  "settings \<Rightarrow> toolchain \<Rightarrow> bool \<Rightarrow> clock \<Rightarrow> id \<Rightarrow> (media_world \<Rightarrow> media_world) \<Rightarrow> media_asset \<Rightarrow> media_world \<Rightarrow> media_asset result \<times> media_world" where
  "inspect_media st tc scanner clk new_token others asset w =
     (case (ma_status asset, ma_processing_token asset) of
        (Processing, Some token) \<Rightarrow> inspect_claimed st tc scanner (clk 1) others token asset w
      | _ \<Rightarrow>
          (case start_media_processing_attempt st (clk 0) new_token (ma_id asset) (mw_db w) of
             Inl e \<Rightarrow> (Inl e, w)
           | Inr (None, s') \<Rightarrow> (refreshed (ma_id asset) w, w)
           | Inr (Some token, s') \<Rightarrow>
               (let w1 = w\<lparr>mw_db := s'\<rparr> in
                case refreshed (ma_id asset) w1 of
                  Inl e \<Rightarrow> (Inl e, w1)
                | Inr claimed \<Rightarrow> inspect_claimed st tc scanner (clk 1) others token claimed w1)))"

subsection \<open>Binary deletion\<close>

definition media_has_current_or_future_references :: "time \<Rightarrow> id \<Rightarrow> db \<Rightarrow> bool" where
  "media_has_current_or_future_references now asset s =
     exists_row (\<lambda>i. pi_media i = asset \<and>
       exists_row (\<lambda>p. pl_id p = pi_playlist i \<and> (pl_status p = Draft \<or> pl_status p = Published)
                       \<and> now \<le> pl_ends_at p) (playlists s)) (playlist_items s)"

definition get_or_create_deletion :: "time \<Rightarrow> media_asset \<Rightarrow> db \<Rightarrow> db" where
  "get_or_create_deletion now a s =
     (if exists_row (\<lambda>d. md_asset d = ma_id a) (media_deletions s) then s
      else s\<lparr>media_deletions := media_deletions s @
               [\<lparr>md_id = next_pk s, md_asset = ma_id a, md_source_name = ma_source_file a,
                 md_normalized_name = ma_normalized_file a, md_attempts = 0,
                 md_last_attempt_at = None, md_last_error = [], md_completed_at = None,
                 md_created_at = now\<rparr>],
             next_pk := next_pk s + 1\<rparr>)"

definition archived_asset :: "clock \<Rightarrow> media_asset \<Rightarrow> media_asset" where
  "archived_asset clk a =
     a\<lparr>ma_status := MediaArchived, ma_archived_at := Some (clk 1), ma_processing_token := None,
       ma_processing_lease_expires_at := None,
       ma_processing_finished_at :=
         if ma_status a = Processing then Some (clk 2) else ma_processing_finished_at a\<rparr>"

definition delete_media_binary :: "clock \<Rightarrow> id \<Rightarrow> id \<Rightarrow> db \<Rightarrow> db result" where
  "delete_media_binary clk actor asset_id s =
     (case find_asset asset_id s of
        None \<Rightarrow> Inl (ServerError ''MediaAsset matching query does not exist.'')
      | Some a \<Rightarrow>
          bind_result (require (\<not> media_has_current_or_future_references (clk 0) asset_id s)
            (ValidationError [] ''Media is referenced by a draft, current, or future playlist.'')) (\<lambda>u.
          Inr (audit (clk 1) (Some actor) ''media.delete_binary'' ''signage.mediaasset'' (uuid_str asset_id) []
                 (save_asset (archived_asset clk a) (get_or_create_deletion (clk 0) a s)))))"

datatype delete_page = DeleteNotFound | DeleteUnconfirmed | DeleteRefused string | DeleteQueued

text \<open>\<open>media_delete\<close> of the dashboard.\<close>

definition media_delete :: "clock \<Rightarrow> id \<Rightarrow> id \<Rightarrow> string \<Rightarrow> db \<Rightarrow> delete_page \<times> db" where
  "media_delete clk actor asset_id confirm s =
     (if find_asset asset_id s = None then (DeleteNotFound, s)
      else if confirm \<noteq> ''delete'' then (DeleteUnconfirmed, s)
      else (case delete_media_binary clk actor asset_id s of
              Inr s' \<Rightarrow> (DeleteQueued, s')
            | Inl (ValidationError field message) \<Rightarrow> (DeleteRefused message, s)
            | Inl e \<Rightarrow> (DeleteNotFound, s)))"

text \<open>
  \<open>process_media_deletion\<close> in its three phases: take the outbox row, delete the objects, and
  complete the row. \<open>fault\<close> tells for an object name the text of the storage error, if any.
\<close>

definition open_deletion :: "id \<Rightarrow> db \<Rightarrow> media_deletion option" where
  "open_deletion i s = find (\<lambda>d. md_id d = i \<and> md_completed_at d = None) (media_deletions s)"

definition save_deletion :: "media_deletion \<Rightarrow> db \<Rightarrow> db" where
  "save_deletion d s = s\<lparr>media_deletions := save_by md_id d (media_deletions s)\<rparr>"

definition take_deletion :: "time \<Rightarrow> id \<Rightarrow> db \<Rightarrow> (string \<times> string) option \<times> db" where
  "take_deletion now i s = (case open_deletion i s of
       None \<Rightarrow> (None, s)
     | Some d \<Rightarrow> (Some (md_source_name d, md_normalized_name d),
                  save_deletion (d\<lparr>md_attempts := md_attempts d + 1, md_last_attempt_at := Some now\<rparr>) s))"

definition erase_objects :: "(string \<Rightarrow> string option) \<Rightarrow> string \<Rightarrow> string \<Rightarrow> media_world \<Rightarrow> string option \<times> media_world" where
  "erase_objects fault source normalized w =
     (case (if source = [] then None else fault source) of
        Some text \<Rightarrow> (Some text, w)
      | None \<Rightarrow>
          (let w1 = (if source = [] then w else remove_objects [source] w) in
           case (if normalized = [] then None else fault normalized) of
             Some text \<Rightarrow> (Some text, w1)
           | None \<Rightarrow> (None, if normalized = [] then w1 else remove_objects [normalized] w1)))"

definition fail_deletion :: "string \<Rightarrow> id \<Rightarrow> db \<Rightarrow> db" where
  "fail_deletion text i s =
     s\<lparr>media_deletions := update_where (\<lambda>d. md_id d = i \<and> md_completed_at d = None)
        (\<lambda>d. d\<lparr>md_last_error := take 255 text\<rparr>) (media_deletions s)\<rparr>"

definition cleared_asset :: "media_deletion \<Rightarrow> media_asset \<Rightarrow> media_asset" where
  "cleared_asset d a =
     a\<lparr>ma_source_file := if ma_source_file a = md_source_name d then [] else ma_source_file a,
       ma_normalized_file := if ma_normalized_file a = md_normalized_name d then [] else ma_normalized_file a\<rparr>"

definition complete_deletion :: "time \<Rightarrow> id \<Rightarrow> db \<Rightarrow> bool \<times> db" where
  "complete_deletion now i s = (case open_deletion i s of
       None \<Rightarrow> (False, s)
     | Some d \<Rightarrow>
         (True, save_deletion (d\<lparr>md_completed_at := Some now, md_last_error := []\<rparr>)
            (case find_asset (md_asset d) s of None \<Rightarrow> s | Some a \<Rightarrow> save_asset (cleared_asset d a) s)))"

definition process_media_deletion ::
  "clock \<Rightarrow> (string \<Rightarrow> string option) \<Rightarrow> (media_world \<Rightarrow> media_world) \<Rightarrow> id \<Rightarrow> media_world \<Rightarrow> bool \<times> media_world" where
  "process_media_deletion clk fault others i w =
     (case take_deletion (clk 0) i (mw_db w) of
        (None, s') \<Rightarrow> (False, w)
      | (Some (source, normalized), s') \<Rightarrow>
          (case erase_objects fault source normalized (w\<lparr>mw_db := s'\<rparr>) of
             (Some text, w1) \<Rightarrow> (let w2 = others w1 in (False, w2\<lparr>mw_db := fail_deletion text i (mw_db w2)\<rparr>))
           | (None, w1) \<Rightarrow>
               (let w2 = others w1; (done, s2) = complete_deletion (clk 1) i (mw_db w2)
                in (done, w2\<lparr>mw_db := s2\<rparr>))))"

text \<open>The command \<open>reconcile_media_deletions\<close>.\<close>

fun run_deletions ::
  "clock \<Rightarrow> (string \<Rightarrow> string option) \<Rightarrow> nat \<Rightarrow> id list \<Rightarrow> media_world \<Rightarrow> nat \<times> media_world" where
  "run_deletions clk fault k [] w = (0, w)"
| "run_deletions clk fault k (i # is) w =
     (let (done, w1) = process_media_deletion (\<lambda>j. clk (k + j)) fault (\<lambda>x. x) i w;
          (n, w2) = run_deletions clk fault (k + 2) is w1
      in ((if done then 1 else 0) + n, w2))"

definition pending_deletions :: "int \<Rightarrow> db \<Rightarrow> id list" where
  "pending_deletions limit s =
     take (nat limit) (map md_id (sort_key md_created_at
       (filter (\<lambda>d. md_completed_at d = None) (media_deletions s))))"

definition reconcile_media_deletions ::
  "settings \<Rightarrow> clock \<Rightarrow> (string \<Rightarrow> string option) \<Rightarrow> int \<Rightarrow> media_world \<Rightarrow> ((nat \<times> nat) \<times> media_world) result" where
  "reconcile_media_deletions st clk fault limit w =
     (let maximum = st_media_reconcile_max_assets st in
      if \<not> (1 \<le> limit \<and> limit \<le> maximum)
      then Inl (CommandError (''--limit must be between 1 and '' @ int_str maximum @ ''.''))
      else (let ids = pending_deletions limit (mw_db w);
                (completed, w') = run_deletions clk fault 0 ids w
            in Inr ((length ids, completed), w')))"

subsection \<open>The worker command\<close>

text \<open>
  The command \<open>process_media\<close>. \<open>limit\<close> zero means no limit. \<open>k\<close> numbers the rounds of the
  loop and \<open>n\<close> the assets processed so far; each round takes two readings of the clock. The
  list holds the assets processed. With \<open>--loop\<close> the command may never end, so the rounds
  are bounded by fuel and \<open>None\<close> means that it is still running.
\<close>

record worker_options =
  wo_asset_id :: "id option"
  wo_allow_missing_clamav :: bool
  wo_loop :: bool
  wo_limit :: int

fun process_media_rounds ::
  "nat \<Rightarrow> settings \<Rightarrow> (id \<Rightarrow> toolchain) \<Rightarrow> (nat \<Rightarrow> id) \<Rightarrow> clock \<Rightarrow> worker_options \<Rightarrow> nat \<Rightarrow> int \<Rightarrow> media_world \<Rightarrow> (id list result \<times> media_world) option" where
  "process_media_rounds 0 st tools tokens clk opts k n w = None"
| "process_media_rounds (Suc fuel) st tools tokens clk opts k n w =
     (case claim_asset st (clk (2 * k)) (tokens k) [] (wo_asset_id opts) (mw_db w) of
        Inl e \<Rightarrow> Some (Inl e, w)
      | Inr ((None, reason), s') \<Rightarrow>
          if wo_asset_id opts \<noteq> None \<or> \<not> wo_loop opts then Some (Inr [], w)
          else process_media_rounds fuel st tools tokens clk opts (Suc k) n w
      | Inr ((Some asset, reason), s') \<Rightarrow>
          (case inspect_media st (tools (ma_id asset)) (\<not> wo_allow_missing_clamav opts)
                  (\<lambda>j. clk (2 * k + j)) (tokens k) (\<lambda>x. x) asset (w\<lparr>mw_db := s'\<rparr>) of
             (Inl e, w') \<Rightarrow> Some (Inl e, w')
           | (Inr result, w') \<Rightarrow>
               if wo_limit opts \<noteq> 0 \<and> wo_limit opts \<le> n + 1 then Some (Inr [ma_id asset], w')
               else map_option (\<lambda>(r, w''). (bind_result r (\<lambda>ids. Inr (ma_id asset # ids)), w''))
                      (process_media_rounds fuel st tools tokens clk opts (Suc k) (n + 1) w')))"

definition process_media ::
  "nat \<Rightarrow> settings \<Rightarrow> (id \<Rightarrow> toolchain) \<Rightarrow> (nat \<Rightarrow> id) \<Rightarrow> clock \<Rightarrow> worker_options \<Rightarrow> media_world \<Rightarrow> (id list result \<times> media_world) option" where
  "process_media fuel st tools tokens clk opts w =
     (if wo_allow_missing_clamav opts \<and> st_deployment_env st = ''production''
      then Some (Inl (CommandError ''--allow-missing-clamav is forbidden in production.''), w)
      else if wo_asset_id opts \<noteq> None \<and> wo_loop opts
      then Some (Inl (CommandError ''--asset-id cannot be combined with --loop.''), w)
      else process_media_rounds fuel st tools tokens clk opts 0 0 w)"

subsection \<open>Expired leases\<close>

definition recover_expired_lease :: "time \<Rightarrow> time \<Rightarrow> id \<Rightarrow> db \<Rightarrow> (bool \<times> db) result" where
  "recover_expired_lease at now asset_id s =
     (case find_asset asset_id s of
        None \<Rightarrow> Inr (False, s)
      | Some a \<Rightarrow>
          if ma_status a \<noteq> Processing then Inr (False, s)
          else if \<not> lease_lapsed now a then Inr (False, s)
          else bind_result
                 (raise_alert at None ''media_processing_lease_expired'' Warning
                    ''A media validation task stopped before reporting a result and was retried.''
                    (save_asset (a\<lparr>ma_status := Quarantined, ma_processing_token := None,
                                   ma_processing_lease_expires_at := None\<rparr>) s))
                 (\<lambda>s'. Inr (True, s')))"

subsection \<open>What a processing run gives\<close>

text \<open>The columns a processing run leaves alone.\<close>

definition same_identity :: "media_asset \<Rightarrow> media_asset \<Rightarrow> bool" where
  "same_identity a b = (ma_id a = ma_id b \<and> ma_kind a = ma_kind b \<and> ma_source_file a = ma_source_file b
     \<and> ma_normalized_file a = ma_normalized_file b \<and> ma_uploaded_by a = ma_uploaded_by b
     \<and> ma_processing_token a = ma_processing_token b)"

lemma prepare_image_identity: "prepare_image st tc source asset = (a, r) \<Longrightarrow> same_identity a asset"
  by (auto simp: prepare_image_def same_identity_def split: sum.splits)

lemma prepare_video_identity: "prepare_video tc source asset = (a, r) \<Longrightarrow> same_identity a asset"
  by (auto simp: prepare_video_def same_identity_def Let_def split: sum.splits prod.splits)

lemma same_identity_refl [simp]: "same_identity a a"
  by (simp add: same_identity_def)

lemma prepare_media_identity: "prepare_media st tc f asset = (a, r) \<Longrightarrow> same_identity a asset"
  by (auto simp: prepare_media_def split: sum.splits prod.splits if_splits
      dest: prepare_image_identity prepare_video_identity)

lemma same_identity_trans: "same_identity a b \<Longrightarrow> same_identity b c \<Longrightarrow> same_identity a c"
  by (simp add: same_identity_def)

lemma deliver_media_identity:
  "deliver_media st tc token d source output asset = (a, staged, r) \<Longrightarrow> same_identity a asset"
  by (auto simp: deliver_media_def same_identity_def Let_def split: sum.splits)

lemma run_inspection_identity:
  "run_inspection st tc f token asset = (RunFinished r staged, deleted) \<Longrightarrow> same_identity r asset"
  apply (auto simp: run_inspection_def Let_def split: prod.splits sum.splits job_error.splits)
  apply (auto dest!: prepare_media_identity deliver_media_identity simp: same_identity_def)
  done

lemma check_job [simp]: "bind_job (check b m) k = Inr x \<longleftrightarrow> \<not> b \<and> k () = Inr x"
  by (simp add: check_def)

lemma single_stream:
  "(case xs of [x] \<Rightarrow> f x | _ \<Rightarrow> Inl e) = Inr y \<longleftrightarrow> (\<exists>x. xs = [x] \<and> f x = Inr y)"
  by (auto split: list.splits)

lemma validate_normalized_video_bound: "validate_normalized_video p d = Inr ms \<Longrightarrow> ms \<le> 15000"
  by (cases d) (auto simp: validate_normalized_video_def bind_job_Inr_iff Let_def single_stream)

lemma prepare_video_ready:
  "prepare_video tc source asset = (a, Inr (d, out)) \<Longrightarrow> ma_duration_ms a \<le> 15000"
  by (auto simp: prepare_video_def Let_def dest: validate_normalized_video_bound
      split: sum.splits prod.splits tool_outcome.splits)
lemma prepare_image_ready:
  "prepare_image st tc source asset = (a, Inr (d, out)) \<Longrightarrow> ma_duration_ms a = 15000
    \<and> ma_width a = Some (st_media_normalized_image_width st)
    \<and> ma_height a = Some (st_media_normalized_image_height st)
    \<and> d \<in> {''image/jpeg'', ''image/png''}"
  by (auto simp: prepare_image_def sniff_image_mime_def bind_job_Inr_iff Let_def
      split: sum.splits prod.splits option.splits if_splits)


definition delivered_ok :: "settings \<Rightarrow> toolchain \<Rightarrow> string \<Rightarrow> media_asset \<Rightarrow> bool" where
  "delivered_ok st tc staged a = (\<exists>f. tc_read tc staged = Inr f
     \<and> ma_sha256 a = mf_sha256 f \<and> ma_file_size a = mf_size f)"

lemma deliver_media_ready:
  assumes "deliver_media st tc token d source output asset = (a, staged, Inr u)"
  shows "ma_status a = Ready \<and> ma_rejection_reason a = [] \<and> ma_duration_ms a = ma_duration_ms asset
    \<and> ma_width a = ma_width asset \<and> ma_height a = ma_height asset
    \<and> ma_mime_type a = (if ma_kind asset = Video then ''video/mp4'' else d)
    \<and> delivered_ok st tc staged a"
  using assms
  by (auto simp: deliver_media_def delivered_ok_def bind_job_Inr_iff Let_def split: sum.splits if_splits)

lemma deliver_media_unread:
  assumes "deliver_media st tc token d source output asset = (a, staged, Inl e)"
  shows "ma_status a = ma_status asset"
  using assms by (auto simp: deliver_media_def Let_def split: sum.splits)

text \<open>A finished processing run accepts or rejects. An accepted asset passed the malware
  scan (or the development flag waived a missing scanner), lasts at most 15 seconds, has the
  hash and size of the bytes read back from the object store, carries the type of its kind,
  and an image has exactly the normalized size and 15 seconds; a rejected one keeps no
  staged object and a reason of at most 255 characters.\<close>

theorem inspection_verdict:
  assumes "run_inspection st tc scanner token asset = (RunFinished r staged, deleted)"
  shows "same_identity r asset \<and>
    (ma_status r = Ready \<and> deleted = [] \<and> delivered_ok st tc staged r
       \<and> (tc_scan tc = ScanExit 0 \<or> tc_scan tc = NoScanner \<and> \<not> scanner)
       \<and> clean_media_asset r = Inr () \<and> ma_duration_ms r \<le> 15000 \<and> ma_rejection_reason r = []
       \<and> (if ma_kind r = Image
          then ma_mime_type r \<in> {''image/jpeg'', ''image/png''}
            \<and> ma_width r = Some (st_media_normalized_image_width st)
            \<and> ma_height r = Some (st_media_normalized_image_height st)
          else ma_mime_type r = ''video/mp4'')
     \<or> ma_status r = Rejected \<and> staged = [] \<and> length (ma_rejection_reason r) \<le> 255)"
proof -
  have ident: "same_identity r asset" by (rule run_inspection_identity [OF assms])
  consider (bad) a msg where "r = a\<lparr>ma_status := Rejected, ma_rejection_reason := take 255 msg\<rparr>" "staged = []"
    | (good) a d src out u where "prepare_media st tc scanner asset = (a, Inr (d, src, out))"
        "deliver_media st tc token d src out a = (r, staged, Inr u)" "deleted = []"
    using assms by (auto simp: run_inspection_def Let_def split: prod.splits sum.splits job_error.splits)
  then show ?thesis
  proof cases
    case bad
    then show ?thesis using ident by simp
  next
    case good
    have k: "ma_kind a = ma_kind asset" "ma_kind r = ma_kind asset"
      using prepare_media_identity [OF good(1)] ident by (simp_all add: same_identity_def)
    have scan: "tc_scan tc = ScanExit 0 \<or> tc_scan tc = NoScanner \<and> \<not> scanner"
      using good(1) by (auto simp: prepare_media_def scan_quarantined_source_def bind_job_Inr_iff Let_def
          split: sum.splits prod.splits scan_outcome.splits if_splits)
    have p: "if ma_kind asset = Image then ma_duration_ms a = 15000 \<and> d \<in> {''image/jpeg'', ''image/png''}
        \<and> ma_width a = Some (st_media_normalized_image_width st)
        \<and> ma_height a = Some (st_media_normalized_image_height st) else ma_duration_ms a \<le> 15000"
      using good(1) prepare_image_ready [of st tc _ asset] prepare_video_ready [of tc _ asset]
      by (auto simp: prepare_media_def split: sum.splits prod.splits if_splits)
    show ?thesis
      using deliver_media_ready [OF good(2)] p scan ident k good(3)
      by (cases "ma_kind asset") (auto simp: clean_media_asset_def require_def)
  qed
qed

definition example_png :: media_file where
  "example_png = \<lparr>mf_suffix = ''.png'', mf_bytes = png_signature, mf_size = 900, mf_sha256 = ''ab'',
     mf_pil = PilImage \<lparr>ii_format = ''PNG'', ii_width = 1920, ii_height = 1080, ii_mode = ''RGB'',
       ii_verify_error = None, ii_load_error = None\<rparr>\<rparr>"

definition example_tools :: toolchain where
  "example_tools = \<lparr>tc_source = Inr example_png, tc_scan = ScanExit 0, tc_encoded = Inr example_png,
     tc_probe = ProbeTimeout, tc_transcode = ToolOk, tc_output_probe = ProbeTimeout,
     tc_output_decode = ToolOk, tc_output = example_png, tc_save = Inr, tc_read = (\<lambda>n. Inr example_png)\<rparr>"

definition example_asset :: "id \<Rightarrow> media_asset" where
  "example_asset i = new_media_asset 0 i ''shop'' ''sale'' Image ''quarantine/a.png'' 1"

theorem inspection_verdict_witness:
  "\<exists>r staged deleted. run_inspection default_settings example_tools True 5 (example_asset 3)
       = (RunFinished r staged, deleted) \<and> ma_status r = Ready \<and> delivered_ok default_settings example_tools staged r
       \<and> ma_duration_ms r \<le> 15000"
proof -
  have "case run_inspection default_settings example_tools True 5 (example_asset 3) of
      (RunFinished r staged, deleted) \<Rightarrow> ma_status r = Ready | _ \<Rightarrow> False"
    by code_simp
  then obtain r staged deleted where run: "run_inspection default_settings example_tools True 5 (example_asset 3)
       = (RunFinished r staged, deleted)" and ready: "ma_status r = Ready"
    by (auto split: prod.splits run_outcome.splits)
  show ?thesis using inspection_verdict [OF run] run ready by auto
qed

subsection \<open>Fencing\<close>

lemma find_save_asset [simp]:
  "find_asset i (save_asset a s) = (if ma_id a = i \<and> find_asset i s \<noteq> None then Some a else find_asset i s)"
  by (simp add: find_asset_def save_asset_def table_simps)

lemma find_asset_id: "find_asset i s = Some a \<Longrightarrow> ma_id a = i"
  by (auto simp: find_asset_def dest: lookup_by_SomeD)

lemma finish_attempt_id [simp]: "ma_id (finish_attempt now asset staged locked) = ma_id locked"
  by (simp add: finish_attempt_def)

lemma find_asset_objects [simp]: "mw_db (remove_objects ns w) = mw_db w" "mw_db (add_object n w) = mw_db w"
  by (simp_all add: remove_objects_def add_object_def)

text \<open>The processing token fences an attempt. A worker whose row was recovered,
  re-claimed or archived in the meantime writes nothing, and removes its own staged object;
  a worker that still owns the row writes its result once, gives up the token, so that the
  same token never finalizes again, and leaves every other asset alone.\<close>

theorem stale_attempt_fenced:
  assumes run: "run_inspection st tc scanner token asset = (RunFinished result staged, deleted)"
    and row: "find_asset (ma_id asset) (mw_db (others (add_object staged w))) = Some row"
    and out: "inspect_claimed st tc scanner now others token asset w = (r, w')"
  shows "if owns_attempt token row
     then r = Inr (finish_attempt now result staged row)
       \<and> (\<forall>i. find_asset i (mw_db w') = (if i = ma_id asset then Some (finish_attempt now result staged row)
             else find_asset i (mw_db (others (add_object staged w)))))
       \<and> (\<forall>later again staged2. ma_id again = ma_id asset \<longrightarrow>
            finalize_media_processing later again token staged2 (mw_db w') = Inr ((False, []), mw_db w'))
     else r = Inr row \<and> mw_db w' = mw_db (others (add_object staged w))
       \<and> (staged \<noteq> [] \<longrightarrow> staged \<notin> set (mw_objects w'))"
proof -
  have i: "ma_id result = ma_id asset"
    using run_inspection_identity [OF run] by (simp add: same_identity_def)
  have rid: "ma_id row = ma_id asset" by (rule find_asset_id [OF row])
  show ?thesis
  proof (cases "owns_attempt token row")
    case True
    have "\<not> owns_attempt token (finish_attempt now result staged row)"
      by (simp add: owns_attempt_def finish_attempt_def)
    then show ?thesis using True out run row i rid
      by (auto simp: inspect_claimed_def finish_inspection_def finalize_media_processing_def refreshed_def Let_def
          split: if_splits)
  next
    case False
    then show ?thesis using out run row i
      by (auto simp: inspect_claimed_def finish_inspection_def finalize_media_processing_def refreshed_def Let_def
          remove_objects_def)
  qed
qed

theorem stale_attempt_fenced_witness:
  "\<exists>r w'. inspect_claimed default_settings example_tools True 9
       (\<lambda>w. w\<lparr>mw_db := save_asset (archived_asset (\<lambda>n. 8) (example_asset 3)) (mw_db w)\<rparr>) 5 (example_asset 3)
       \<lparr>mw_db = empty_db\<lparr>media_assets := [begin_attempt default_settings 1 5 (example_asset 3)]\<rparr>, mw_objects = []\<rparr> = (r, w')
     \<and> r = Inr (archived_asset (\<lambda>n. 8) (example_asset 3)) \<and> mw_objects w' = []"
proof -
  let ?w = "\<lparr>mw_db = empty_db\<lparr>media_assets := [begin_attempt default_settings 1 5 (example_asset 3)]\<rparr>, mw_objects = []\<rparr>"
  let ?o = "\<lambda>w. w\<lparr>mw_db := save_asset (archived_asset (\<lambda>n. 8) (example_asset 3)) (mw_db w)\<rparr>"
  have "case run_inspection default_settings example_tools True 5 (example_asset 3) of
      (RunFinished r staged, deleted) \<Rightarrow> staged \<noteq> [] | _ \<Rightarrow> False"
    by code_simp
  then obtain res staged deleted where run: "run_inspection default_settings example_tools True 5 (example_asset 3)
       = (RunFinished res staged, deleted)" "staged \<noteq> []"
    by (auto split: prod.splits run_outcome.splits)
  obtain r w' where out: "inspect_claimed default_settings example_tools True 9 ?o 5 (example_asset 3) ?w = (r, w')"
    by fastforce
  have row: "find_asset (ma_id (example_asset 3)) (mw_db (?o (add_object staged ?w)))
      = Some (archived_asset (\<lambda>n. 8) (example_asset 3))"
    by (simp add: archived_asset_def begin_attempt_def example_asset_def new_media_asset_def find_asset_def save_asset_def table_simps)
  have "\<not> owns_attempt 5 (archived_asset (\<lambda>n. 8) (example_asset 3))"
    by (simp add: owns_attempt_def archived_asset_def)
  with stale_attempt_fenced [OF run(1) row out]
  have r: "r = Inr (archived_asset (\<lambda>n. 8) (example_asset 3))" "staged \<notin> set (mw_objects w')"
    using run(2) by auto
  have "set (mw_objects w') \<subseteq> {staged}"
    using out run by (auto simp: inspect_claimed_def finish_inspection_def add_object_def remove_objects_def Let_def
        split: sum.splits prod.splits if_splits)
  then have "mw_objects w' = []" using r(2) by (cases "mw_objects w'") auto
  then show ?thesis using r(1) out by blast
qed

text \<open>A binary is deleted only when no draft or published playlist that has not ended
  refers to the asset. Then the asset is archived without a processing token, the outbox
  holds an entry for it with the object names it had, and every other asset, every playlist and
  every earlier outbox entry is unchanged; otherwise nothing changes.\<close>

theorem delete_media_guarded:
  assumes a: "find_asset i s = Some a"
  shows "if media_has_current_or_future_references (clk 0) i s
     then (\<exists>m. delete_media_binary clk actor i s = Inl (ValidationError [] m))
     else (\<exists>s'. delete_media_binary clk actor i s = Inr s'
       \<and> find_asset i s' = Some (archived_asset clk a)
       \<and> \<not> owns_attempt token (archived_asset clk a)
       \<and> (\<forall>j. j \<noteq> i \<longrightarrow> find_asset j s' = find_asset j s)
       \<and> playlists s' = playlists s \<and> playlist_items s' = playlist_items s
       \<and> (\<exists>new. media_deletions s' = media_deletions s @ new
            \<and> (if \<exists>x\<in>set (media_deletions s). md_asset x = i then new = []
               else \<exists>x. new = [x] \<and> md_asset x = i \<and> md_source_name x = ma_source_file a
                 \<and> md_normalized_name x = ma_normalized_file a \<and> md_completed_at x = None)))"
proof -
  have ai: "ma_id a = i" by (rule find_asset_id [OF a])
  show ?thesis
    using a ai
    by (auto simp: delete_media_binary_def require_def owns_attempt_def archived_asset_def get_or_create_deletion_def
        save_asset_def find_asset_def table_simps)
qed

theorem delete_media_guarded_witness:
  "\<exists>s'. delete_media_binary (\<lambda>n. 8) 1 3 (empty_db\<lparr>media_assets := [example_asset 3]\<rparr>) = Inr s'
     \<and> find_asset 3 s' = Some (archived_asset (\<lambda>n. 8) (example_asset 3))"
proof -
  let ?s = "empty_db\<lparr>media_assets := [example_asset 3]\<rparr>"
  have a: "find_asset 3 ?s = Some (example_asset 3)"
    by (simp add: find_asset_def table_simps example_asset_def new_media_asset_def)
  have "\<not> media_has_current_or_future_references 8 3 ?s"
    by (simp add: media_has_current_or_future_references_def empty_db_def)
  then show ?thesis using delete_media_guarded [OF a, where clk = "\<lambda>n. 8" and actor = 1 and token = 0]
    by (simp only: if_False) blast
qed

lemma open_deletionD: "open_deletion i s = Some d \<Longrightarrow> d \<in> set (media_deletions s) \<and> md_id d = i \<and> md_completed_at d = None"
  by (auto simp: open_deletion_def find_Some_iff)

lemma open_deletion_lookup:
  "distinct (map md_id (media_deletions s)) \<Longrightarrow>
   open_deletion i s = (case lookup_by md_id i (media_deletions s) of None \<Rightarrow> None
      | Some d \<Rightarrow> if md_completed_at d = None then Some d else None)"
proof -
  have "distinct (map md_id rows) \<Longrightarrow> find (\<lambda>d. md_id d = i \<and> md_completed_at d = None) rows
      = (case lookup_by md_id i rows of None \<Rightarrow> None | Some d \<Rightarrow> if md_completed_at d = None then Some d else None)" for rows
    by (induction rows) (auto simp: table_simps find_None_iff lookup_by_fresh split: option.splits)
  then show "distinct (map md_id (media_deletions s)) \<Longrightarrow> ?thesis" by (simp add: open_deletion_def)
qed

lemma erase_objects_result:
  "erase_objects fault source normalized w = (r, w') \<Longrightarrow>
   mw_db w' = mw_db w \<and> (r = None \<longrightarrow> set (mw_objects w') = set (mw_objects w) - ({source, normalized} - {[]}))
   \<and> (r = None \<longleftrightarrow> (source \<noteq> [] \<longrightarrow> fault source = None) \<and> (normalized \<noteq> [] \<longrightarrow> fault normalized = None))"
  by (auto simp: erase_objects_def remove_objects_def Let_def split: option.splits if_splits)

lemma save_deletion_frame [simp]:
  "media_deletions (save_deletion d s) = save_by md_id d (media_deletions s)"
  "media_assets (save_deletion d s) = media_assets s"
  by (simp_all add: save_deletion_def)

lemma save_asset_frame [simp]:
  "media_deletions (save_asset a s) = media_deletions s"
  "media_assets (save_asset a s) = save_by ma_id a (media_assets s)"
  "alerts (save_asset a s) = alerts s" "next_pk (save_asset a s) = next_pk s"
  "playlists (save_asset a s) = playlists s" "playlist_items (save_asset a s) = playlist_items s"
  by (simp_all add: save_asset_def)

text \<open>A pass over one outbox entry, while other transactions change other tables and
  assets, either erases both objects of the entry and completes it, clearing exactly the file
  columns that still name them, or fails on a storage error and leaves the entry open with one
  more attempt; the asset is not touched then. A completed entry is never processed again.\<close>

theorem deletion_outbox_pass:
  assumes dist: "distinct (map md_id (media_deletions (mw_db w)))"
    and d: "open_deletion i (mw_db w) = Some d"
    and others: "\<And>v. media_deletions (mw_db (others v)) = media_deletions (mw_db v) \<and> mw_objects (others v) = mw_objects v"
    and run: "process_media_deletion clk fault others i w = (done, w')"
  shows "if (md_source_name d \<noteq> [] \<longrightarrow> fault (md_source_name d) = None)
       \<and> (md_normalized_name d \<noteq> [] \<longrightarrow> fault (md_normalized_name d) = None)
     then done \<and> set (mw_objects w') = set (mw_objects w) - ({md_source_name d, md_normalized_name d} - {[]})
       \<and> open_deletion i (mw_db w') = None
       \<and> process_media_deletion clk2 fault2 others2 i w' = (False, w')
       \<and> (\<exists>v. \<forall>j. find_asset j (mw_db w') =
            (if j = md_asset d then map_option (cleared_asset d) (find_asset j (mw_db (others v)))
             else find_asset j (mw_db (others v))))
     else \<not> done \<and> (\<exists>text. open_deletion i (mw_db w') =
         Some (d\<lparr>md_attempts := md_attempts d + 1, md_last_attempt_at := Some (clk 0), md_last_error := take 255 text\<rparr>))"
proof -
  let ?e = "d\<lparr>md_attempts := md_attempts d + 1, md_last_attempt_at := Some (clk 0)\<rparr>"
  have l: "lookup_by md_id i (media_deletions (mw_db w)) = Some d" "md_completed_at d = None" "md_id d = i"
    using d open_deletionD [OF d] by (auto simp: open_deletion_lookup [OF dist] split: option.splits if_splits)
  define s1 where "s1 = save_deletion ?e (mw_db w)"
  have dist1: "distinct (map md_id (media_deletions s1))" using dist by (simp add: s1_def table_simps)
  have l1: "lookup_by md_id i (media_deletions s1) = Some ?e" using l by (simp add: s1_def table_simps)
  obtain r w1 where e: "erase_objects fault (md_source_name d) (md_normalized_name d) (w\<lparr>mw_db := s1\<rparr>) = (r, w1)"
    by fastforce
  note er = erase_objects_result [OF e]
  have md: "media_deletions (mw_db (others w1)) = media_deletions s1" and ob: "mw_objects (others w1) = mw_objects w1"
    using others er by simp_all
  have d2: "distinct (map md_id (media_deletions (mw_db (others w1))))"
    and o2: "open_deletion i (mw_db (others w1)) = Some ?e"
    using dist1 l1 l by (simp_all add: md open_deletion_lookup)
  show ?thesis
  proof (cases r)
    case None
    let ?s2 = "mw_db (others w1)"
    let ?f = "?e\<lparr>md_completed_at := Some (clk 1), md_last_error := []\<rparr>"
    define s3 where "s3 = save_deletion ?f
      (case find_asset (md_asset d) ?s2 of None \<Rightarrow> ?s2 | Some a \<Rightarrow> save_asset (cleared_asset d a) ?s2)"
    have c: "cleared_asset ?e = cleared_asset d" by (rule ext) (simp add: cleared_asset_def)
    have dn: "done" and w': "w' = (others w1)\<lparr>mw_db := s3\<rparr>"
      using run None e o2 by (simp_all add: process_media_deletion_def take_deletion_def d s1_def complete_deletion_def Let_def s3_def c cong: option.case_cong)
    have md3: "media_deletions s3 = save_by md_id ?f (media_deletions s1)"
      by (simp add: s3_def md split: option.split)
    have "distinct (map md_id (media_deletions s3))" using dist1 by (simp add: md3 table_simps)
    then have o3: "open_deletion i s3 = None"
      using l1 l by (simp add: open_deletion_lookup md3 table_simps)
    have fa: "find_asset j s3 = (if j = md_asset d then map_option (cleared_asset d) (find_asset j ?s2)
         else find_asset j ?s2)" for j
      by (auto simp: s3_def find_asset_def table_simps cleared_asset_def split: option.split dest: lookup_by_SomeD)
    have again: "process_media_deletion clk2 fault2 others2 i w' = (False, w')"
      by (simp add: process_media_deletion_def take_deletion_def w' o3)
    have objs: "set (mw_objects w') = set (mw_objects w) - ({md_source_name d, md_normalized_name d} - {[]})"
      using er None ob by (simp add: w')
    have ok: "(md_source_name d \<noteq> [] \<longrightarrow> fault (md_source_name d) = None)
       \<and> (md_normalized_name d \<noteq> [] \<longrightarrow> fault (md_normalized_name d) = None)"
      using er None by blast
    show ?thesis
      unfolding if_P [OF ok] using dn objs o3 again fa by (intro conjI exI [where x = w1]) (simp_all add: w')
  next
    case (Some msg)
    have "done = False" and w': "mw_db w' = fail_deletion msg i (mw_db (others w1))"
      using run Some e by (auto simp: process_media_deletion_def take_deletion_def d s1_def Let_def)
    have "open_deletion i (fail_deletion msg i (mw_db (others w1))) = Some (?e\<lparr>md_last_error := take 255 msg\<rparr>)"
    proof -
      have "open_deletion i (fail_deletion msg i t) = map_option (\<lambda>x. x\<lparr>md_last_error := take 255 msg\<rparr>) (open_deletion i t)" for t
        by (simp add: open_deletion_def fail_deletion_def find_update_where)
      then show ?thesis by (simp add: o2)
    qed
    then show ?thesis using er Some \<open>done = False\<close> w' by (auto simp: w')
  qed
qed

definition example_deletion :: media_deletion where
  "example_deletion = \<lparr>md_id = 7, md_asset = 3, md_source_name = ''a'', md_normalized_name = ''b'',
     md_attempts = 0, md_last_attempt_at = None, md_last_error = [], md_completed_at = None, md_created_at = 0\<rparr>"

theorem deletion_outbox_pass_witness:
  "\<exists>done w'. process_media_deletion (\<lambda>n. 9) (\<lambda>n. None) (\<lambda>v. v) 7
       \<lparr>mw_db = empty_db\<lparr>media_deletions := [example_deletion]\<rparr>, mw_objects = [''a'', ''b'', ''c'']\<rparr> = (done, w')
     \<and> done \<and> set (mw_objects w') = {''c''}"
proof -
  let ?w = "\<lparr>mw_db = empty_db\<lparr>media_deletions := [example_deletion]\<rparr>, mw_objects = [''a'', ''b'', ''c'']\<rparr>"
  obtain dn w' where run: "process_media_deletion (\<lambda>n. 9) (\<lambda>n. None) (\<lambda>v. v) 7 ?w = (dn, w')"
    by fastforce
  have d: "open_deletion 7 (mw_db ?w) = Some example_deletion"
    by (simp add: open_deletion_def example_deletion_def)
  have "dn \<and> set (mw_objects w') = {''c''}"
    using deletion_outbox_pass [OF _ d _ run] by (auto simp: example_deletion_def)
  then show ?thesis using run by blast
qed

subsection \<open>The worker command terminates\<close>

text \<open>The assets a worker can still claim at some time.\<close>

definition unsettled :: "db \<Rightarrow> nat" where
  "unsettled s = length (filter (\<lambda>a. ma_status a = Quarantined \<or> ma_status a = Processing) (media_assets s))"

lemma filter_save_settled:
  assumes "find_asset (ma_id b) s = Some a" and "distinct (map ma_id (media_assets s))"
    and "ma_status a = Quarantined \<or> ma_status a = Processing"
  shows "unsettled (save_asset b s) =
    (if ma_status b = Quarantined \<or> ma_status b = Processing then unsettled s else unsettled s - 1)"
proof -
  let ?P = "\<lambda>a. ma_status a = Quarantined \<or> ma_status a = Processing"
  have "distinct (map ma_id rows) \<Longrightarrow> lookup_by ma_id (ma_id b) rows = Some a \<Longrightarrow>
     length (filter ?P (save_by ma_id b rows)) = (if ?P b then length (filter ?P rows) else length (filter ?P rows) - 1)
     \<and> filter ?P rows \<noteq> []" for rows
  proof (induction rows)
    case Nil
    then show ?case by simp
  next
    case (Cons r rows)
    show ?case
    proof (cases "ma_id r = ma_id b")
      case True
      then have "save_by ma_id b rows = rows"
        using Cons.prems by (intro save_by_fresh) auto
      then show ?thesis using True Cons.prems assms(3) by (simp add: table_simps)
    next
      case False
      then show ?thesis using Cons by (auto simp: table_simps)
    qed
  qed
  then show ?thesis using assms by (simp add: unsettled_def find_asset_def)
qed

lemma run_inspection_status:
  "run_inspection st tc f token asset = (RunFinished r staged, deleted) \<Longrightarrow> ma_status r = Ready \<or> ma_status r = Rejected"
  by (auto simp: run_inspection_def Let_def dest: deliver_media_ready split: prod.splits sum.splits job_error.splits)

lemma claim_asset_some:
  assumes "claim_asset st now token locked i s = Inr ((Some b, reason), s')" and d: "distinct (map ma_id (media_assets s))"
  obtains a where "find_asset (ma_id a) s = Some a" "ma_status a = Quarantined \<or> ma_status a = Processing"
    "b = begin_attempt st now token a" "s' = save_asset b s"
proof -
  let ?rows = "filter (\<lambda>a. ma_id a \<notin> set locked) (media_assets s)"
  obtain a where a: "a \<in> set ?rows" "ma_status a = Quarantined \<or> ma_status a = Processing"
      "b = begin_attempt st now token a" "s' = save_asset b s"
    using assms(1)
    by (auto simp: claim_asset_def claimable_def Let_def dest!: lookup_by_SomeD order_first_SomeD(1)
        split: option.splits if_splits)
  then have "find_asset (ma_id a) s = Some a"
    using lookup_by_distinct [OF d, of a] by (simp add: find_asset_def)
  with a that show thesis by blast
qed

lemma begin_attempt_simps [simp]:
  "ma_id (begin_attempt st now token a) = ma_id a"
  "ma_status (begin_attempt st now token a) = Processing"
  "ma_processing_token (begin_attempt st now token a) = Some token"
  by (simp_all add: begin_attempt_def)

lemma claim_unsettled:
  assumes "claim_asset st now token locked i s = Inr ((Some b, reason), s')" and "distinct (map ma_id (media_assets s))"
  shows "unsettled s' = unsettled s" and "find_asset (ma_id b) s' = Some b"
    and "map ma_id (media_assets s') = map ma_id (media_assets s)"
    and "owns_attempt token b"
proof -
  obtain a where a: "find_asset (ma_id a) s = Some a" "ma_status a = Quarantined \<or> ma_status a = Processing"
    "b = begin_attempt st now token a" "s' = save_asset b s"
    using claim_asset_some [OF assms] .
  then show "unsettled s' = unsettled s" using filter_save_settled [of b s a] assms(2) by simp
  show "find_asset (ma_id b) s' = Some b" "map ma_id (media_assets s') = map ma_id (media_assets s)" "owns_attempt token b"
    using a by (simp_all add: table_simps owns_attempt_def)
qed

lemma inspect_settles:
  assumes run: "inspect_claimed st tc scanner now (\<lambda>x. x) token b w = (Inr res, w')"
    and row: "find_asset (ma_id b) (mw_db w) = Some b" and own: "owns_attempt token b"
    and d: "distinct (map ma_id (media_assets (mw_db w)))"
  shows "unsettled (mw_db w') < unsettled (mw_db w)"
    and "map ma_id (media_assets (mw_db w')) = map ma_id (media_assets (mw_db w))"
proof -
  obtain r staged deleted where r: "run_inspection st tc scanner token b = (RunFinished r staged, deleted)"
    using run by (auto simp: inspect_claimed_def split: prod.splits run_outcome.splits)
  have rid: "ma_id r = ma_id b" using run_inspection_identity [OF r] by (simp add: same_identity_def)
  have st: "ma_status r = Ready \<or> ma_status r = Rejected"
    using run_inspection_status [OF r] .
  have w': "mw_db w' = save_asset (finish_attempt now r staged b) (mw_db w)"
    using run r row own rid
    by (auto simp: inspect_claimed_def finish_inspection_def finalize_media_processing_def Let_def split: if_splits)
  have "ma_status (finish_attempt now r staged b) = ma_status r" by (simp add: finish_attempt_def)
  then have "unsettled (mw_db w') = unsettled (mw_db w) - 1"
    using filter_save_settled [of "finish_attempt now r staged b" "mw_db w" b] row own d st
    by (auto simp: w' owns_attempt_def)
  moreover have "0 < unsettled (mw_db w)"
    using row own by (auto simp: unsettled_def find_asset_def owns_attempt_def filter_empty_conv dest!: lookup_by_SomeD)
  ultimately show "unsettled (mw_db w') < unsettled (mw_db w)" by simp
  show "map ma_id (media_assets (mw_db w')) = map ma_id (media_assets (mw_db w))" by (simp add: w' table_simps)
qed

lemma rounds_return:
  assumes "distinct (map ma_id (media_assets (mw_db w)))" and "unsettled (mw_db w) < fuel"
    and "\<not> wo_loop opts"
  shows "\<exists>r w'. process_media_rounds fuel st tools tokens clk opts k n w = Some (r, w')
    \<and> (wo_asset_id opts = None \<and> wo_limit opts = 0 \<longrightarrow>
        (\<exists>e. r = Inl e) \<or> (\<exists>j. \<forall>a\<in>set (media_assets (mw_db w')). \<not> claimable (clk j) a))"
  using assms
proof (induction fuel arbitrary: k n w)
  case 0
  then show ?case by simp
next
  case (Suc fuel)
  let ?claim = "claim_asset st (clk (2 * k)) (tokens k) [] (wo_asset_id opts) (mw_db w)"
  consider (err) e where "?claim = Inl e" | (none) reason s' where "?claim = Inr ((None, reason), s')"
    | (some) b reason s' where "?claim = Inr ((Some b, reason), s')"
    by (metis surj_pair sum.exhaust option.exhaust)
  then show ?case
  proof cases
    case err
    then show ?thesis by simp
  next
    case none
    then show ?thesis using Suc.prems(3)
      by (auto simp: claim_asset_def filter_empty_conv Let_def split: option.splits if_splits)
  next
    case some
    note c = claim_unsettled [OF some Suc.prems(1)]
    let ?w1 = "w\<lparr>mw_db := s'\<rparr>"
    obtain res w' where i: "inspect_media st (tools (ma_id b)) (\<not> wo_allow_missing_clamav opts)
        (\<lambda>j. clk (2 * k + j)) (tokens k) (\<lambda>x. x) b ?w1 = (res, w')"
      by fastforce
    then have ic: "inspect_claimed st (tools (ma_id b)) (\<not> wo_allow_missing_clamav opts) (clk (2 * k + 1))
        (\<lambda>x. x) (tokens k) b ?w1 = (res, w')"
      using c(4) by (simp add: inspect_media_def owns_attempt_def)
    show ?thesis
    proof (cases res)
      case (Inl e)
      then show ?thesis using some i by simp
    next
      case (Inr a)
      note s = inspect_settles [OF ic [unfolded Inr]]
      have d1: "distinct (map ma_id (media_assets (mw_db w')))" and less: "unsettled (mw_db w') < fuel"
        using s c Suc.prems(1,2) by simp_all
      obtain r2 w2 where IH: "process_media_rounds fuel st tools tokens clk opts (Suc k) (n + 1) w' = Some (r2, w2)"
        and post: "wo_asset_id opts = None \<and> wo_limit opts = 0 \<longrightarrow>
          (\<exists>e. r2 = Inl e) \<or> (\<exists>j. \<forall>a\<in>set (media_assets (mw_db w2)). \<not> claimable (clk j) a)"
        using Suc.IH [OF d1 less Suc.prems(3)] by blast
      show ?thesis
      proof (cases "wo_limit opts \<noteq> 0 \<and> wo_limit opts \<le> n + 1")
        case True
        then show ?thesis using some i Inr by simp
      next
        case False
        then have "process_media_rounds (Suc fuel) st tools tokens clk opts k n w
            = Some (bind_result r2 (\<lambda>ids. Inr (ma_id b # ids)), w2)"
          using some i Inr IH by auto
        then show ?thesis using post by (cases r2) auto
      qed
    qed
  qed
qed

text \<open>Without \<open>--loop\<close> the worker command returns, whatever the tools answer: as many rounds
  as there are assets and one more are enough, since every round settles one asset or ends.
  A run over the whole queue without a limit that ends without an error leaves no asset that
  can be claimed at the time of its last look.\<close>

theorem process_media_returns:
  assumes "distinct (map ma_id (media_assets (mw_db w)))" and "length (media_assets (mw_db w)) < fuel"
    and "\<not> wo_loop opts"
  shows "\<exists>r w'. process_media fuel st tools tokens clk opts w = Some (r, w')
    \<and> (wo_asset_id opts = None \<and> wo_limit opts = 0 \<longrightarrow>
        (\<exists>e. r = Inl e) \<or> (\<exists>j. \<forall>a\<in>set (media_assets (mw_db w')). \<not> claimable (clk j) a))"
proof -
  have "unsettled (mw_db w) \<le> length (media_assets (mw_db w))"
    by (simp add: unsettled_def)
  then have less: "unsettled (mw_db w) < fuel" using assms(2) by simp
  show ?thesis
    using rounds_return [OF assms(1) less assms(3)] assms(3) by (simp add: process_media_def)
qed

theorem process_media_returns_witness:
  "\<exists>r w'. process_media 2 default_settings (\<lambda>i. example_tools) (\<lambda>n. 5) (\<lambda>n. int n)
      \<lparr>wo_asset_id = None, wo_allow_missing_clamav = False, wo_loop = False, wo_limit = 0\<rparr>
      \<lparr>mw_db = empty_db\<lparr>media_assets := [example_asset 3]\<rparr>, mw_objects = []\<rparr> = Some (r, w')"
  using process_media_returns [of "\<lparr>mw_db = empty_db\<lparr>media_assets := [example_asset 3]\<rparr>, mw_objects = []\<rparr>" 2
      "\<lparr>wo_asset_id = None, wo_allow_missing_clamav = False, wo_loop = False, wo_limit = 0\<rparr>"
      default_settings "\<lambda>i. example_tools" "\<lambda>n. 5" "\<lambda>n. int n"]
  by fastforce

end
