(* ===== verification/Media_Lifecycle.thy ===== *)
theory Media_Lifecycle
  imports Media
begin

section \<open>Interleaved media processing\<close>

text \<open>
  The media pipeline as a state machine: uploads, workers that claim, run and finalize or
  die at any moment, lease recovery, archival and the deletion outbox, in any interleaving of
  their transactions. The steps are the functions of theory Media; the only addition is
  the list of live workers. The properties are an invariant of every reachable state and the
  status changes an asset can go through.
\<close>

subsection \<open>States and steps\<close>

text \<open>
  A worker holds its token, its copy of the asset and the name of its staged object (empty
  before it has stored one, or when it rejected the upload).
\<close>

record worker =
  wk_token :: id
  wk_asset :: media_asset
  wk_staged :: string
  wk_finished :: bool

record life =
  lf_world :: media_world
  lf_workers :: "worker list"

definition asset_names :: "media_asset \<Rightarrow> string set" where
  "asset_names a = {ma_source_file a, ma_normalized_file a} - {[]}"

definition deletion_names :: "media_deletion list \<Rightarrow> string set" where
  "deletion_names ds = (\<Union>d\<in>set ds. {md_source_name d, md_normalized_name d}) - {[]}"

definition staged_names :: "worker list \<Rightarrow> string set" where
  "staged_names ws = wk_staged ` set ws - {[]}"

text \<open>
  The names the store gives: never one of an existing object, and, because they contain the
  identifiers of the asset and of the attempt, never one used before.
\<close>

definition unused_name :: "string \<Rightarrow> life \<Rightarrow> bool" where
  "unused_name n l = (n \<noteq> [] \<and> n \<notin> set (mw_objects (lf_world l))
     \<and> n \<notin> (\<Union>a\<in>set (media_assets (mw_db (lf_world l))). asset_names a)
     \<and> n \<notin> deletion_names (media_deletions (mw_db (lf_world l))) \<and> n \<notin> staged_names (lf_workers l))"

definition update_db :: "db \<Rightarrow> life \<Rightarrow> life" where
  "update_db s l = l\<lparr>lf_world := (lf_world l)\<lparr>mw_db := s\<rparr>\<rparr>"

definition drop_worker :: "worker \<Rightarrow> life \<Rightarrow> life" where
  "drop_worker w l = l\<lparr>lf_workers := remove1 w (lf_workers l)\<rparr>"

inductive life_step :: "settings \<Rightarrow> life \<Rightarrow> life \<Rightarrow> bool" for st where
  upload: "media_upload st now uploader uuid stored_as business title kind filename bytes (lf_world l) = Inr (uuid, w') \<Longrightarrow>
     find_asset uuid (mw_db (lf_world l)) = None \<Longrightarrow>
     unused_name (stored_as (media_upload_path uuid filename)) l \<Longrightarrow>
     \<forall>d\<in>set (media_deletions (mw_db (lf_world l))). md_asset d \<noteq> uuid \<Longrightarrow>
     life_step st l (l\<lparr>lf_world := w'\<rparr>)"
| claim: "claim_asset st now token locked i (mw_db (lf_world l)) = Inr ((Some b, reason), s') \<Longrightarrow>
     token \<notin> wk_token ` set (lf_workers l) \<Longrightarrow>
     life_step st l (update_db s' (l\<lparr>lf_workers := \<lparr>wk_token = token, wk_asset = b, wk_staged = [], wk_finished = False\<rparr>
        # lf_workers l\<rparr>))"
| run: "w \<in> set (lf_workers l) \<Longrightarrow> \<not> wk_finished w \<Longrightarrow>
     run_inspection st tc scanner (wk_token w) (wk_asset w) = (RunFinished r staged, deleted) \<Longrightarrow>
     (if ma_status r = Ready then unused_name staged l else staged = []) \<Longrightarrow>
     life_step st l ((drop_worker w l)\<lparr>lf_world := add_object staged (lf_world l),
       lf_workers := w\<lparr>wk_asset := r, wk_staged := staged, wk_finished := True\<rparr> # remove1 w (lf_workers l)\<rparr>)"
| finalize: "w \<in> set (lf_workers l) \<Longrightarrow> wk_finished w \<Longrightarrow>
     finish_inspection now (wk_asset w) (wk_token w) (wk_staged w) (lf_world l) = (res, w') \<Longrightarrow>
     life_step st l ((drop_worker w l)\<lparr>lf_world := w'\<rparr>)"
| die: "w \<in> set (lf_workers l) \<Longrightarrow> life_step st l (drop_worker w l)"
| recover: "recover_expired_lease at now i (mw_db (lf_world l)) = Inr (b, s') \<Longrightarrow> life_step st l (update_db s' l)"
| dispatch: "find_asset i (mw_db (lf_world l)) = Some a \<Longrightarrow>
     life_step st l (update_db (save_asset (a\<lparr>ma_dispatch_attempts := n, ma_last_dispatch_attempt_at := t,
        ma_dispatched_at := u\<rparr>) (mw_db (lf_world l))) l)"
| archive: "delete_media_binary clk actor i (mw_db (lf_world l)) = Inr s' \<Longrightarrow> life_step st l (update_db s' l)"
| take: "take_deletion now i (mw_db (lf_world l)) = (r, s') \<Longrightarrow> life_step st l (update_db s' l)"
| erase: "d \<in> set (media_deletions (mw_db (lf_world l))) \<Longrightarrow>
     erase_objects fault (md_source_name d) (md_normalized_name d) (lf_world l) = (r, w') \<Longrightarrow>
     life_step st l (l\<lparr>lf_world := w'\<rparr>)"
| fail: "life_step st l (update_db (fail_deletion msg i (mw_db (lf_world l))) l)"
| complete: "complete_deletion now i (mw_db (lf_world l)) = (done, s') \<Longrightarrow> life_step st l (update_db s' l)"

definition life_reachable :: "settings \<Rightarrow> life \<Rightarrow> life \<Rightarrow> bool" where
  "life_reachable st = (life_step st)\<^sup>*\<^sup>*"

subsection \<open>The invariant\<close>

definition row_ok :: "string set \<Rightarrow> media_deletion list \<Rightarrow> media_asset \<Rightarrow> bool" where
  "row_ok objs ds a =
     ((ma_status a = Processing \<longleftrightarrow> ma_processing_token a \<noteq> None)
      \<and> (ma_status a = Processing \<longleftrightarrow> ma_processing_lease_expires_at a \<noteq> None)
      \<and> (ma_normalized_file a \<noteq> [] \<longrightarrow> ma_status a \<in> {Ready, MediaArchived})
      \<and> (ma_status a = Ready \<longrightarrow> ma_normalized_file a \<noteq> [] \<and> ma_normalized_file a \<in> objs
           \<and> ma_duration_ms a \<le> 15000)
      \<and> (ma_status a = MediaArchived \<longleftrightarrow> ma_id a \<in> md_asset ` set ds))"

definition separate :: "media_asset list \<Rightarrow> media_deletion list \<Rightarrow> worker list \<Rightarrow> bool" where
  "separate rows ds ws =
     ((\<forall>a\<in>set rows. \<forall>b\<in>set rows. ma_id a \<noteq> ma_id b \<longrightarrow> asset_names a \<inter> asset_names b = {})
      \<and> (\<forall>a\<in>set rows. \<forall>d\<in>set ds. ma_id a \<noteq> md_asset d \<longrightarrow> asset_names a \<inter> deletion_names [d] = {})
      \<and> (\<forall>a\<in>set rows. asset_names a \<inter> staged_names ws = {})
      \<and> deletion_names ds \<inter> staged_names ws = {})"

definition worker_ok :: "string set \<Rightarrow> worker \<Rightarrow> bool" where
  "worker_ok objs w = ((wk_staged w \<noteq> [] \<longrightarrow> wk_staged w \<in> objs)
     \<and> (wk_finished w \<longrightarrow> ma_status (wk_asset w) \<in> {Ready, Rejected}
         \<and> (ma_status (wk_asset w) = Ready \<longrightarrow> wk_staged w \<noteq> [] \<and> ma_duration_ms (wk_asset w) \<le> 15000)))"

definition workers_ok :: "string set \<Rightarrow> worker list \<Rightarrow> bool" where
  "workers_ok objs ws = ((\<forall>w\<in>set ws. worker_ok objs w) \<and> distinct (map wk_token ws)
     \<and> distinct (filter (\<lambda>n. n \<noteq> []) (map wk_staged ws)))"

definition media_ok :: "db \<Rightarrow> string set \<Rightarrow> worker list \<Rightarrow> bool" where
  "media_ok s objs ws =
     (distinct (map ma_id (media_assets s)) \<and> distinct (map md_id (media_deletions s))
      \<and> (\<forall>d\<in>set (media_deletions s). md_id d < next_pk s)
      \<and> (\<forall>a\<in>set (media_assets s). row_ok objs (media_deletions s) a)
      \<and> separate (media_assets s) (media_deletions s) ws \<and> workers_ok objs ws)"

definition life_ok :: "life \<Rightarrow> bool" where
  "life_ok l = media_ok (mw_db (lf_world l)) (set (mw_objects (lf_world l))) (lf_workers l)"

subsection \<open>Preservation\<close>

lemma media_ok_find:
  assumes "media_ok s objs ws" and "find_asset i s = Some a"
  shows "a \<in> set (media_assets s)" and "ma_id a = i" and "row_ok objs (media_deletions s) a"
  using assms by (auto simp: media_ok_def find_asset_def dest: lookup_by_SomeD)

lemma in_remove1D: "x \<in> set (remove1 w ws) \<Longrightarrow> x \<in> set ws"
  by (meson notin_set_remove1)

lemma staged_names_remove1: "staged_names (remove1 w ws) \<subseteq> staged_names ws"
  by (auto simp: staged_names_def dest: in_remove1D)

lemma separate_mono:
  assumes "separate rows ds ws"
    and "\<And>b. b \<in> set rows' \<Longrightarrow> \<exists>a\<in>set rows. ma_id b = ma_id a \<and> asset_names b \<subseteq> asset_names a"
    and "\<And>e. e \<in> set ds' \<Longrightarrow> \<exists>d\<in>set ds. md_asset e = md_asset d \<and> deletion_names [e] = deletion_names [d]"
    and "staged_names ws' \<subseteq> staged_names ws"
  shows "separate rows' ds' ws'"
proof -
  have dn: "deletion_names ds' \<subseteq> deletion_names ds"
  proof
    fix n assume "n \<in> deletion_names ds'"
    then obtain e where "e \<in> set ds'" "n \<in> deletion_names [e]" by (auto simp: deletion_names_def)
    then obtain d where "d \<in> set ds" "n \<in> deletion_names [d]" using assms(3) by blast
    then show "n \<in> deletion_names ds" by (auto simp: deletion_names_def)
  qed
  show ?thesis
    unfolding separate_def
  proof (intro conjI ballI impI)
    fix a b assume "a \<in> set rows'" "b \<in> set rows'" "ma_id a \<noteq> ma_id b"
    moreover then obtain a' b' where "a' \<in> set rows" "b' \<in> set rows" "ma_id a = ma_id a'" "ma_id b = ma_id b'"
      "asset_names a \<subseteq> asset_names a'" "asset_names b \<subseteq> asset_names b'" using assms(2) by metis
    moreover from calculation have "asset_names a' \<inter> asset_names b' = {}" using assms(1) unfolding separate_def by metis
    ultimately show "asset_names a \<inter> asset_names b = {}" by blast
  next
    fix a d assume "a \<in> set rows'" "d \<in> set ds'" "ma_id a \<noteq> md_asset d"
    moreover then obtain a' d' where "a' \<in> set rows" "d' \<in> set ds" "ma_id a = ma_id a'" "md_asset d = md_asset d'"
      "asset_names a \<subseteq> asset_names a'" "deletion_names [d] = deletion_names [d']" using assms(2,3) by metis
    moreover from calculation have "asset_names a' \<inter> deletion_names [d'] = {}" using assms(1) unfolding separate_def by metis
    ultimately show "asset_names a \<inter> deletion_names [d] = {}" by blast
  next
    fix a assume "a \<in> set rows'"
    then obtain a' where "a' \<in> set rows" "asset_names a \<subseteq> asset_names a'" using assms(2) by blast
    then show "asset_names a \<inter> staged_names ws' = {}" using assms(1,4) unfolding separate_def by blast
  next
    show "deletion_names ds' \<inter> staged_names ws' = {}" using assms(1,4) dn unfolding separate_def by blast
  qed
qed

lemma separate_workers:
  "separate rows ds ws \<Longrightarrow> staged_names ws' \<subseteq> staged_names ws \<Longrightarrow> separate rows ds ws'"
  unfolding separate_def by blast

lemma media_ok_save:
  assumes ok: "media_ok s objs ws" and a: "find_asset (ma_id b) s = Some a"
    and names: "asset_names b \<subseteq> asset_names a" and row: "row_ok objs (media_deletions s) b"
  shows "media_ok (save_asset b s) objs ws"
proof -
  note f = media_ok_find [OF ok a]
  have mem: "x = b \<or> x \<in> set (media_assets s)" if "x \<in> set (save_by ma_id b (media_assets s))" for x
    using save_by_mem [OF that] by blast
  have sub: "\<exists>c\<in>set (media_assets s). ma_id x = ma_id c \<and> asset_names x \<subseteq> asset_names c"
    if "x \<in> set (save_by ma_id b (media_assets s))" for x
    using mem [OF that] f(1,2) names by (metis order_refl)
  have "separate (save_by ma_id b (media_assets s)) (media_deletions s) ws"
    by (rule separate_mono [of "media_assets s" "media_deletions s" ws]) (use ok in \<open>auto simp: media_ok_def intro: sub\<close>)
  moreover have "row_ok objs (media_deletions s) x" if "x \<in> set (save_by ma_id b (media_assets s))" for x
    using mem [OF that] ok row by (auto simp: media_ok_def)
  ultimately show ?thesis using ok by (simp add: media_ok_def table_simps)
qed

lemma distinct_remove1: "distinct (map f ws) \<Longrightarrow> distinct (map f (remove1 w ws))"
  by (induction ws) (auto dest: in_remove1D)

lemma distinct_staged_remove1:
  "distinct (filter P (map f ws)) \<Longrightarrow> distinct (filter P (map f (remove1 w ws)))"
  by (induction ws) (auto dest: in_remove1D)

lemma media_ok_drop:
  assumes "media_ok s objs ws"
  shows "media_ok s objs (remove1 w ws)"
proof -
  have "separate (media_assets s) (media_deletions s) (remove1 w ws)"
    using assms separate_workers [OF _ staged_names_remove1] by (simp add: media_ok_def)
  then show ?thesis
    using assms in_remove1D [of _ w ws] by (simp add: media_ok_def workers_ok_def distinct_remove1 distinct_staged_remove1)
qed

lemma media_ok_objects:
  assumes ok: "media_ok s objs ws" and gone: "objs - gone \<subseteq> objs'"
    and ready: "\<And>a. a \<in> set (media_assets s) \<Longrightarrow> ma_status a = Ready \<Longrightarrow> ma_normalized_file a \<notin> gone"
    and staged: "staged_names ws \<inter> gone = {}"
  shows "media_ok s objs' ws"
proof -
  have "row_ok objs' (media_deletions s) a" if "a \<in> set (media_assets s)" for a
    using ok that ready [OF that] gone by (auto simp: media_ok_def row_ok_def)
  moreover have "worker_ok objs' w" if "w \<in> set ws" for w
  proof -
    have "worker_ok objs w" using ok that by (simp add: media_ok_def workers_ok_def)
    moreover have "wk_staged w \<noteq> [] \<Longrightarrow> wk_staged w \<notin> gone" using that staged by (auto simp: staged_names_def)
    ultimately show ?thesis using gone by (auto simp: worker_ok_def)
  qed
  ultimately show ?thesis using ok by (auto simp: media_ok_def workers_ok_def)
qed

lemma media_ok_alerts: "media_ok s objs ws \<Longrightarrow> only_alerts s s' \<Longrightarrow> media_ok s' objs ws"
  using only_alertsD [of s s'] by (fastforce simp: media_ok_def)

lemma run_inspection_duration:
  assumes "run_inspection st tc f token asset = (RunFinished r staged, deleted)" and "ma_status r = Ready"
  shows "ma_duration_ms r \<le> 15000"
proof -
  obtain a d src out u where p: "prepare_media st tc f asset = (a, Inr (d, src, out))"
      "deliver_media st tc token d src out a = (r, staged, Inr u)"
    using assms by (auto simp: run_inspection_def Let_def split: prod.splits sum.splits job_error.splits)
  have "ma_duration_ms a \<le> 15000"
    using p(1) prepare_image_ready [of st tc _ asset] prepare_video_ready [of tc _ asset]
    by (fastforce simp: prepare_media_def split: sum.splits prod.splits if_splits)
  then show ?thesis using deliver_media_ready [OF p(2)] by simp
qed

lemma staged_remove1_new:
  assumes ok: "media_ok s objs ws" and w: "w \<in> set ws"
  shows "wk_staged w \<notin> staged_names (remove1 w ws)"
proof -
  have "distinct (filter (\<lambda>n. n \<noteq> []) (map wk_staged ws)) \<Longrightarrow> w \<in> set ws \<Longrightarrow>
      wk_staged w \<noteq> [] \<Longrightarrow> wk_staged w \<notin> wk_staged ` set (remove1 w ws)" for ws
    by (induction ws) (auto simp: image_iff split: if_splits)
  then show ?thesis using ok w by (auto simp: media_ok_def workers_ok_def staged_names_def)
qed

lemma media_ok_finish:
  assumes ok: "media_ok s objs ws" and w: "w \<in> set ws" "wk_finished w"
    and a: "find_asset (ma_id (wk_asset w)) s = Some a" and own: "owns_attempt (wk_token w) a"
  shows "media_ok (save_asset (finish_attempt now (wk_asset w) (wk_staged w) a) s) objs (remove1 w ws)"
proof -
  let ?b = "finish_attempt now (wk_asset w) (wk_staged w) a"
  note f = media_ok_find [OF ok a]
  have wok: "worker_ok objs w" using ok w by (simp add: media_ok_def workers_ok_def)
  have ok1: "media_ok s objs (remove1 w ws)" by (rule media_ok_drop [OF ok])
  have sep: "separate (media_assets s) (media_deletions s) ws"
    and sep1: "separate (media_assets s) (media_deletions s) (remove1 w ws)"
    using ok ok1 by (simp_all add: media_ok_def)
  have new: "wk_staged w \<notin> staged_names (remove1 w ws)" by (rule staged_remove1_new [OF ok w(1)])
  have names: "asset_names ?b \<subseteq> asset_names a \<union> ({wk_staged w} - {[]})"
    by (auto simp: asset_names_def finish_attempt_def)
  have wn: "{wk_staged w} - {[]} \<subseteq> staged_names ws" using w(1) by (auto simp: staged_names_def)
  have row: "row_ok objs (media_deletions s) ?b"
    using f(3) own wok w(2) by (auto simp: row_ok_def owns_attempt_def finish_attempt_def worker_ok_def)
  have mem: "x = ?b \<or> x \<in> set (media_assets s) \<and> ma_id x \<noteq> ma_id a" if "x \<in> set (save_by ma_id ?b (media_assets s))" for x
    using save_by_mem [OF that] by simp
  have disj: "asset_names z \<inter> asset_names ?b = {}" if "z \<in> set (media_assets s)" "ma_id z \<noteq> ma_id a" for z
  proof -
    have "asset_names z \<inter> asset_names a = {}" using sep that f(1) unfolding separate_def by metis
    moreover have "asset_names z \<inter> staged_names ws = {}" using sep that unfolding separate_def by metis
    ultimately show ?thesis using names wn by blast
  qed
  have rest: "asset_names z \<inter> staged_names (remove1 w ws) = {}" if "z \<in> insert ?b (set (media_assets s))" for z
  proof -
    have "asset_names y \<inter> staged_names (remove1 w ws) = {}" if "y \<in> set (media_assets s)" for y
      using sep1 that unfolding separate_def by metis
    then show ?thesis using that f(1) names new by blast
  qed
  have "separate (save_by ma_id ?b (media_assets s)) (media_deletions s) (remove1 w ws)"
    unfolding separate_def
  proof (intro conjI ballI impI)
    fix x y assume "x \<in> set (save_by ma_id ?b (media_assets s))" "y \<in> set (save_by ma_id ?b (media_assets s))"
      and ne: "ma_id x \<noteq> ma_id y"
    then consider (1) "x = ?b" "y \<in> set (media_assets s)" "ma_id y \<noteq> ma_id a"
      | (2) "y = ?b" "x \<in> set (media_assets s)" "ma_id x \<noteq> ma_id a"
      | (3) "x \<in> set (media_assets s)" "y \<in> set (media_assets s)"
      using mem [of x] mem [of y] by fastforce
    then show "asset_names x \<inter> asset_names y = {}"
    proof cases
      case 1
      then show ?thesis using disj [of y] by auto
    next
      case 2
      then show ?thesis using disj [of x] by auto
    next
      case 3
      then show ?thesis using sep ne unfolding separate_def by metis
    qed
  next
    fix x d assume x: "x \<in> set (save_by ma_id ?b (media_assets s))" and d: "d \<in> set (media_deletions s)"
      and ne: "ma_id x \<noteq> md_asset d"
    have "deletion_names [d] \<subseteq> deletion_names (media_deletions s)" using d by (auto simp: deletion_names_def)
    moreover have "deletion_names (media_deletions s) \<inter> staged_names ws = {}" using sep unfolding separate_def by metis
    ultimately have dd: "deletion_names [d] \<inter> staged_names ws = {}" by blast
    show "asset_names x \<inter> deletion_names [d] = {}"
    proof (cases "x = ?b")
      case True
      then have "ma_id a \<noteq> md_asset d" using ne by simp
      then have "asset_names a \<inter> deletion_names [d] = {}" using sep f(1) d unfolding separate_def by metis
      then show ?thesis using True names wn dd by blast
    next
      case False
      then show ?thesis using mem [OF x] sep ne d unfolding separate_def by metis
    qed
  next
    fix x assume "x \<in> set (save_by ma_id ?b (media_assets s))"
    then show "asset_names x \<inter> staged_names (remove1 w ws) = {}"
      using mem [of x] rest by (cases "x = ?b") auto
  next
    show "deletion_names (media_deletions s) \<inter> staged_names (remove1 w ws) = {}"
      using sep1 unfolding separate_def by blast
  qed
  moreover have "row_ok objs (media_deletions s) x" if "x \<in> set (save_by ma_id ?b (media_assets s))" for x
    using mem [OF that] ok row by (auto simp: media_ok_def)
  ultimately show ?thesis using ok1 by (simp add: media_ok_def table_simps)
qed

lemma media_ok_claim:
  assumes ok: "media_ok s objs ws"
    and c: "claim_asset st now token locked i s = Inr ((Some b, reason), s')"
    and t: "token \<notin> wk_token ` set ws"
  shows "media_ok s' objs (\<lparr>wk_token = token, wk_asset = b, wk_staged = [], wk_finished = False\<rparr> # ws)"
proof -
  have d: "distinct (map ma_id (media_assets s))" using ok by (simp add: media_ok_def)
  obtain a where a: "find_asset (ma_id a) s = Some a" "ma_status a = Quarantined \<or> ma_status a = Processing"
    "b = begin_attempt st now token a" "s' = save_asset b s"
    using claim_asset_some [OF c d] .
  note f = media_ok_find [OF ok a(1)]
  have "row_ok objs (media_deletions s) b" using f(3) a(2,3) by (auto simp: row_ok_def begin_attempt_def)
  moreover have "asset_names b \<subseteq> asset_names a" by (simp add: a(3) asset_names_def begin_attempt_def)
  ultimately have ok': "media_ok s' objs ws" using media_ok_save [of s objs ws b a] ok a by simp
  have "staged_names (\<lparr>wk_token = token, wk_asset = b, wk_staged = [], wk_finished = False\<rparr> # ws) = staged_names ws"
    by (auto simp: staged_names_def)
  then show ?thesis using ok' t
    by (auto simp: media_ok_def workers_ok_def worker_ok_def separate_def)
qed

lemma media_ok_upload:
  assumes ok: "media_ok s objs ws" and a: "a = new_media_asset now uuid business title kind source uploader"
    and fresh: "find_asset uuid s = None" "\<forall>d\<in>set (media_deletions s). md_asset d \<noteq> uuid"
    and new: "source \<notin> (\<Union>a\<in>set (media_assets s). asset_names a)"
      "source \<notin> deletion_names (media_deletions s)" "source \<notin> staged_names ws"
  shows "media_ok (s\<lparr>media_assets := media_assets s @ [a]\<rparr>) (insert source objs) ws"
proof -
  have names: "asset_names a \<subseteq> {source}" "ma_id a = uuid" by (auto simp: a new_media_asset_def asset_names_def)
  have dn: "source \<notin> deletion_names [d]" if "d \<in> set (media_deletions s)" for d
    using new(2) that by (auto simp: deletion_names_def)
  have "separate (media_assets s @ [a]) (media_deletions s) ws"
    using ok names new dn unfolding separate_def media_ok_def by auto
  moreover have "row_ok (insert source objs) (media_deletions s) x" if "x \<in> set (media_assets s @ [a])" for x
    using that ok fresh by (auto simp: media_ok_def row_ok_def a new_media_asset_def)
  moreover have "workers_ok (insert source objs) ws"
    using ok by (auto simp: media_ok_def workers_ok_def worker_ok_def)
  ultimately show ?thesis using ok fresh names
    by (auto simp: media_ok_def find_asset_def lookup_by_None)
qed

lemma separate_stage:
  "separate rows ds ws \<Longrightarrow> staged_names ws' \<subseteq> insert n (staged_names ws) \<Longrightarrow>
   n \<notin> (\<Union>a\<in>set rows. asset_names a) \<Longrightarrow> n \<notin> deletion_names ds \<Longrightarrow> separate rows ds ws'"
  unfolding separate_def by blast

lemma media_ok_run:
  assumes ok: "media_ok s objs ws" and w: "w \<in> set ws" "\<not> wk_finished w"
    and r: "run_inspection st tc scanner token b = (RunFinished r staged, deleted)"
    and new: "if ma_status r = Ready then staged \<noteq> [] \<and> staged \<notin> (\<Union>a\<in>set (media_assets s). asset_names a)
       \<and> staged \<notin> deletion_names (media_deletions s) \<and> staged \<notin> staged_names ws else staged = []"
  shows "media_ok s (insert staged objs) (w\<lparr>wk_asset := r, wk_staged := staged, wk_finished := True\<rparr> # remove1 w ws)"
proof -
  let ?v = "w\<lparr>wk_asset := r, wk_staged := staged, wk_finished := True\<rparr>"
  have st: "ma_status r = Ready \<or> ma_status r = Rejected" by (rule run_inspection_status [OF r])
  have len: "ma_status r = Ready \<Longrightarrow> ma_duration_ms r \<le> 15000" using run_inspection_duration [OF r] by simp
  have ok1: "media_ok s (insert staged objs) (remove1 w ws)"
    by (rule media_ok_objects [OF media_ok_drop [OF ok], where gone = "{}"]) auto
  have tok: "wk_token w \<notin> wk_token ` set (remove1 w ws)"
    using ok w by (auto simp: media_ok_def workers_ok_def distinct_map inj_on_def dest: in_remove1D)
  have sep: "separate (media_assets s) (media_deletions s) (remove1 w ws)"
    using ok1 by (simp add: media_ok_def)
  have "separate (media_assets s) (media_deletions s) (?v # remove1 w ws)"
  proof (cases "ma_status r = Ready")
    case True
    then show ?thesis
      using new by (intro separate_stage [OF sep, where n = staged]) (auto simp: staged_names_def)
  next
    case False
    then show ?thesis
      using new by (intro separate_workers [OF sep]) (auto simp: staged_names_def)
  qed
  moreover have "staged \<noteq> [] \<Longrightarrow> staged \<notin> wk_staged ` set (remove1 w ws)"
    using new by (auto simp: staged_names_def split: if_splits dest: in_remove1D)
  ultimately show ?thesis using ok1 new st len tok
    by (auto simp: media_ok_def workers_ok_def worker_ok_def split: if_splits)
qed

lemma media_ok_finalize:
  assumes ok: "media_ok (mw_db v) (set (mw_objects v)) ws" and w: "w \<in> set ws" "wk_finished w"
    and fin: "finish_inspection now (wk_asset w) (wk_token w) (wk_staged w) v = (res, v')"
  shows "media_ok (mw_db v') (set (mw_objects v')) (remove1 w ws)"
proof (cases "find_asset (ma_id (wk_asset w)) (mw_db v)")
  case None
  then show ?thesis using fin media_ok_drop [OF ok] by (simp add: finish_inspection_def finalize_media_processing_def)
next
  case (Some a)
  note f = media_ok_find [OF ok Some]
  have wok: "worker_ok (set (mw_objects v)) w" using ok w by (simp add: media_ok_def workers_ok_def)
  have sep: "separate (media_assets (mw_db v)) (media_deletions (mw_db v)) ws" using ok by (simp add: media_ok_def)
  show ?thesis
  proof (cases "owns_attempt (wk_token w) a")
    case False
    have db: "mw_db v' = mw_db v" and obs: "set (mw_objects v') = set (mw_objects v) - ({wk_staged w} - {[]})"
      using fin Some False
      by (auto simp: finish_inspection_def finalize_media_processing_def remove_objects_def Let_def split: if_splits)
    have "ma_normalized_file x \<notin> {wk_staged w} - {[]}" if "x \<in> set (media_assets (mw_db v))" for x
      using sep that w unfolding separate_def staged_names_def asset_names_def by blast
    moreover have "wk_staged w \<notin> staged_names (remove1 w ws)"
      using ok w(1) by (rule staged_remove1_new)
    ultimately show ?thesis
      unfolding db by (intro media_ok_objects [OF media_ok_drop [OF ok], where gone = "{wk_staged w} - {[]}"])
        (auto simp: obs asset_names_def)
  next
    case True
    let ?b = "finish_attempt now (wk_asset w) (wk_staged w) a"
    have nn: "ma_normalized_file a = []" using f(3) True by (auto simp: row_ok_def owns_attempt_def)
    have db: "mw_db v' = save_asset ?b (mw_db v)" and obs: "mw_objects v' = mw_objects v"
      using fin Some True nn
      by (auto simp: finish_inspection_def finalize_media_processing_def remove_objects_def Let_def)
    show ?thesis unfolding db obs by (rule media_ok_finish [OF ok w Some True])
  qed
qed

lemma media_ok_recover:
  assumes ok: "media_ok s objs ws" and r: "recover_expired_lease at now i s = Inr (b, s')"
  shows "media_ok s' objs ws"
proof -
  consider "s' = s" | a where "find_asset i s = Some a" "ma_status a = Processing"
      "raise_alert at None ''media_processing_lease_expired'' Warning
         ''A media validation task stopped before reporting a result and was retried.''
         (save_asset (a\<lparr>ma_status := Quarantined, ma_processing_token := None,
            ma_processing_lease_expires_at := None\<rparr>) s) = Inr s'"
    using r by (auto simp: recover_expired_lease_def bind_result_Inr_iff split: option.splits if_splits)
  then show ?thesis
  proof cases
    case 1
    then show ?thesis using ok by simp
  next
    case 2
    let ?b = "a\<lparr>ma_status := Quarantined, ma_processing_token := None, ma_processing_lease_expires_at := None\<rparr>"
    note f = media_ok_find [OF ok 2(1)]
    have "media_ok (save_asset ?b s) objs ws"
      by (rule media_ok_save [OF ok]) (use f 2 in \<open>auto simp: asset_names_def row_ok_def\<close>)
    then show ?thesis using media_ok_alerts raise_alert_frame [OF 2(3)] by blast
  qed
qed

lemma map_through:
  assumes "map k xs = map k ys" and "\<And>x. f x = g (k x)"
  shows "map f xs = map f ys"
proof -
  have h: "map f zs = map g (map k zs)" for zs by (simp add: assms(2))
  show ?thesis unfolding h [of xs] h [of ys] assms(1) ..
qed

lemma media_ok_deletions:
  assumes ok: "media_ok s objs ws"
    and ds: "map (\<lambda>d. (md_id d, md_asset d, md_source_name d, md_normalized_name d)) ds
           = map (\<lambda>d. (md_id d, md_asset d, md_source_name d, md_normalized_name d)) (media_deletions s)"
  shows "media_ok (s\<lparr>media_deletions := ds\<rparr>) objs ws"
proof -
  let ?k = "\<lambda>d. (md_id d, md_asset d, md_source_name d, md_normalized_name d)"
  have ids: "map md_id ds = map md_id (media_deletions s)" by (rule map_through [OF ds, where g = fst]) simp
  have assets: "map md_asset ds = map md_asset (media_deletions s)" by (rule map_through [OF ds, where g = "\<lambda>k. fst (snd k)"]) simp
  have ex: "\<exists>d\<in>set (media_deletions s). md_asset e = md_asset d \<and> deletion_names [e] = deletion_names [d]"
    if "e \<in> set ds" for e
  proof -
    have "?k e \<in> set (map ?k (media_deletions s))" using that ds [symmetric] by force
    then show ?thesis by (auto simp: deletion_names_def)
  qed
  have "separate (media_assets s) ds ws"
    by (rule separate_mono [of "media_assets s" "media_deletions s" ws])
      (use ok ex in \<open>auto simp: media_ok_def\<close>)
  moreover have "md_asset ` set ds = md_asset ` set (media_deletions s)" using arg_cong [OF assets, of set] by simp
  moreover have "\<forall>d\<in>set ds. md_id d < next_pk s"
    using ok arg_cong [OF ids, of set] by (force simp: media_ok_def)
  ultimately show ?thesis using ok ids by (auto simp: media_ok_def row_ok_def)
qed

lemma save_deletion_keys:
  assumes "distinct (map md_id ds)" and "d \<in> set ds" and "md_id e = md_id d" "md_asset e = md_asset d"
    "md_source_name e = md_source_name d" "md_normalized_name e = md_normalized_name d"
  shows "map (\<lambda>d. (md_id d, md_asset d, md_source_name d, md_normalized_name d)) (save_by md_id e ds)
       = map (\<lambda>d. (md_id d, md_asset d, md_source_name d, md_normalized_name d)) ds"
  by (rule save_by_map_eq) (use assms distinct_map_unique [OF assms(1)] in fastforce)

lemma media_ok_save_deletion:
  assumes ok: "media_ok s objs ws" and "d \<in> set (media_deletions s)" "md_id e = md_id d" "md_asset e = md_asset d"
    "md_source_name e = md_source_name d" "md_normalized_name e = md_normalized_name d"
  shows "media_ok (save_deletion e s) objs ws"
proof -
  have d: "distinct (map md_id (media_deletions s))" using ok by (simp add: media_ok_def)
  show ?thesis using media_ok_deletions [OF ok save_deletion_keys [OF d assms(2-6)]] by (simp add: save_deletion_def)
qed

lemma media_ok_take:
  assumes ok: "media_ok s objs ws" and "take_deletion now i s = (r, s')"
  shows "media_ok s' objs ws"
  using assms by (auto simp: take_deletion_def intro: media_ok_save_deletion dest: open_deletionD split: option.splits)

lemma media_ok_fail: "media_ok s objs ws \<Longrightarrow> media_ok (fail_deletion msg i s) objs ws"
  unfolding fail_deletion_def by (rule media_ok_deletions) (auto simp: update_where_def)

lemma media_ok_complete:
  assumes ok: "media_ok s objs ws" and c: "complete_deletion now i s = (dn, s')"
  shows "media_ok s' objs ws"
proof (cases "open_deletion i s")
  case None
  then show ?thesis using assms by (simp add: complete_deletion_def)
next
  case (Some d)
  note d = open_deletionD [OF Some]
  let ?s = "case find_asset (md_asset d) s of None \<Rightarrow> s | Some a \<Rightarrow> save_asset (cleared_asset d a) s"
  have "media_ok ?s objs ws"
  proof (cases "find_asset (md_asset d) s")
    case None
    then show ?thesis using ok by simp
  next
    case (Some a)
    note f = media_ok_find [OF ok Some]
    have "md_asset d \<in> md_asset ` set (media_deletions s)" using d by blast
    then have "ma_status a = MediaArchived" using f(2,3) by (simp add: row_ok_def)
    then have "row_ok objs (media_deletions s) (cleared_asset d a)"
      using f(3) by (auto simp: row_ok_def cleared_asset_def)
    moreover have "ma_id (cleared_asset d a) = md_asset d" "asset_names (cleared_asset d a) \<subseteq> asset_names a"
      using f(2) by (auto simp: cleared_asset_def asset_names_def)
    ultimately show ?thesis using Some media_ok_save [OF ok, of "cleared_asset d a" a] by simp
  qed
  moreover have "d \<in> set (media_deletions ?s)" using d by (simp split: option.split)
  ultimately have "media_ok (save_deletion (d\<lparr>md_completed_at := Some now, md_last_error := []\<rparr>) ?s) objs ws"
    by (rule media_ok_save_deletion) simp_all
  then show ?thesis using c Some by (simp add: complete_deletion_def)
qed

lemma media_ok_archive:
  assumes ok: "media_ok s objs ws" and r: "delete_media_binary clk actor i s = Inr s'"
  shows "media_ok s' objs ws"
proof -
  obtain a where a: "find_asset i s = Some a"
    and s': "s' = audit (clk 1) (Some actor) ''media.delete_binary'' ''signage.mediaasset'' (uuid_str i) []
       (save_asset (archived_asset clk a) (get_or_create_deletion (clk 0) a s))"
    using r by (auto simp: delete_media_binary_def bind_result_Inr_iff split: option.splits)
  note f = media_ok_find [OF ok a]
  let ?g = "get_or_create_deletion (clk 0) a s"
  let ?ds = "media_deletions ?g"
  let ?rows = "save_by ma_id (archived_asset clk a) (media_assets s)"
  have ds: "?ds = media_deletions s \<or> (\<exists>d. ?ds = media_deletions s @ [d] \<and> md_id d = next_pk s \<and> md_asset d = ma_id a
       \<and> deletion_names [d] = asset_names a \<and> next_pk ?g = next_pk s + 1)"
    and asst: "md_asset ` set ?ds = insert (ma_id a) (md_asset ` set (media_deletions s))"
    and pk: "next_pk s \<le> next_pk ?g" and rows: "media_assets ?g = media_assets s"
    by (auto simp: get_or_create_deletion_def deletion_names_def asset_names_def intro: rev_image_eqI)
  have arch: "ma_id (archived_asset clk a) = ma_id a" "asset_names (archived_asset clk a) = asset_names a"
    "ma_status (archived_asset clk a) = MediaArchived" "ma_processing_token (archived_asset clk a) = None"
    "ma_processing_lease_expires_at (archived_asset clk a) = None"
    by (simp_all add: archived_asset_def asset_names_def)
  have sep: "separate (media_assets s) (media_deletions s) ws" using ok by (simp add: media_ok_def)
  have sep1: "separate (media_assets s) ?ds ws"
    using ds
  proof
    assume "\<exists>d. ?ds = media_deletions s @ [d] \<and> md_id d = next_pk s \<and> md_asset d = ma_id a
       \<and> deletion_names [d] = asset_names a \<and> next_pk ?g = next_pk s + 1"
    then obtain d where d: "?ds = media_deletions s @ [d]" "md_asset d = ma_id a" "deletion_names [d] = asset_names a"
      by blast
    have "deletion_names ?ds = deletion_names (media_deletions s) \<union> asset_names a"
      unfolding d(3) [symmetric] by (auto simp: d(1) deletion_names_def)
    then show ?thesis using sep d f(1) unfolding separate_def by auto
  qed (use sep in simp)
  have mem: "x = archived_asset clk a \<or> x \<in> set (media_assets s) \<and> ma_id x \<noteq> ma_id a" if "x \<in> set ?rows" for x
    using save_by_mem [OF that] arch(1) by auto
  have "\<exists>c\<in>set (media_assets s). ma_id x = ma_id c \<and> asset_names x \<subseteq> asset_names c" if "x \<in> set ?rows" for x
    using mem [OF that] f(1) arch(1,2) by (metis order_refl)
  then have sep2: "separate ?rows ?ds ws"
    by (intro separate_mono [OF sep1]) auto
  have row: "row_ok objs ?ds x" if "x \<in> set ?rows" for x
    using mem [OF that] ok arch by (auto simp: media_ok_def row_ok_def asst)
  have "distinct (map md_id ?ds) \<and> (\<forall>d\<in>set ?ds. md_id d < next_pk ?g)"
    using ds ok pk by (fastforce simp: media_ok_def)
  then show ?thesis using sep2 row ok
    by (auto simp: s' media_ok_def rows table_simps)
qed

lemma media_ok_erase:
  assumes ok: "media_ok (mw_db v) (set (mw_objects v)) ws" and d: "d \<in> set (media_deletions (mw_db v))"
    and e: "erase_objects fault (md_source_name d) (md_normalized_name d) v = (r, v')"
  shows "media_ok (mw_db v') (set (mw_objects v')) ws"
proof -
  have db: "mw_db v' = mw_db v" and obs: "set (mw_objects v) - deletion_names [d] \<subseteq> set (mw_objects v')"
    using e by (auto simp: erase_objects_def remove_objects_def deletion_names_def Let_def split: option.splits if_splits)
  have sep: "separate (media_assets (mw_db v)) (media_deletions (mw_db v)) ws" using ok by (simp add: media_ok_def)
  have "ma_normalized_file a \<notin> deletion_names [d]" if a: "a \<in> set (media_assets (mw_db v))" "ma_status a = Ready" for a
  proof -
    have "row_ok (set (mw_objects v)) (media_deletions (mw_db v)) a" using ok a by (simp add: media_ok_def)
    then have "ma_id a \<noteq> md_asset d" "ma_normalized_file a \<noteq> []" using a(2) d by (auto simp: row_ok_def)
    then have "asset_names a \<inter> deletion_names [d] = {}" "ma_normalized_file a \<in> asset_names a"
      using sep a(1) d unfolding separate_def asset_names_def by auto
    then show ?thesis by blast
  qed
  moreover have "deletion_names [d] \<subseteq> deletion_names (media_deletions (mw_db v))" using d by (auto simp: deletion_names_def)
  then have "staged_names ws \<inter> deletion_names [d] = {}" using sep unfolding separate_def by blast
  ultimately show ?thesis unfolding db by (intro media_ok_objects [OF ok obs]) auto
qed

inductive_cases life_stepE: "life_step st l l'"

lemma media_upload_result:
  assumes "media_upload st now uploader uuid stored_as business title kind filename bytes w = Inr (u, w')"
  shows "u = uuid" and "mw_db w' = audit now (Some uploader) ''media.upload'' ''signage.mediaasset'' (uuid_str uuid) []
      ((mw_db w)\<lparr>media_assets := media_assets (mw_db w) @
         [new_media_asset now uuid business title kind (stored_as (media_upload_path uuid filename)) uploader]\<rparr>)"
    and "mw_objects w' = stored_as (media_upload_path uuid filename) # mw_objects w"
  using assms by (auto simp: media_upload_def bind_result_Inr_iff Let_def)

lemma media_ok_audit [simp]: "media_ok (audit now act a t i m s) objs ws \<longleftrightarrow>
    media_ok (s\<lparr>next_pk := next_pk s + 1\<rparr>) objs ws"
  by (simp add: media_ok_def)

lemma media_ok_pk: "media_ok s objs ws \<Longrightarrow> media_ok (s\<lparr>next_pk := next_pk s + 1\<rparr>) objs ws"
  by (auto simp: media_ok_def)

lemma life_step_ok:
  assumes "life_step st l l'" and ok: "life_ok l"
  shows "life_ok l'"
  using assms(1)
proof cases
  case (upload now uploader uuid stored_as business title kind filename bytes w')
  note u = media_upload_result [OF upload(2)]
  let ?s = "mw_db (lf_world l)" and ?src = "stored_as (media_upload_path uuid filename)"
  have new: "?src \<notin> (\<Union>a\<in>set (media_assets ?s). asset_names a)" "?src \<notin> deletion_names (media_deletions ?s)"
    "?src \<notin> staged_names (lf_workers l)"
    using upload(4) unfolding unused_name_def by blast+
  note m = media_ok_upload [OF ok [unfolded life_ok_def] refl upload(3,5) new,
      where now = now and business = business and title = title and kind = kind and uploader = uploader]
  show ?thesis
    unfolding life_ok_def upload(1) using media_ok_pk [OF m] by (simp add: u(2,3))
next
  case (claim now token locked i b reason s')
  then show ?thesis using media_ok_claim [OF ok [unfolded life_ok_def] claim(2,3)]
    by (simp add: life_ok_def update_db_def)
next
  case (run w tc scanner r staged deleted)
  have new: "if ma_status r = Ready then staged \<noteq> [] \<and> staged \<notin> (\<Union>a\<in>set (media_assets (mw_db (lf_world l))). asset_names a)
       \<and> staged \<notin> deletion_names (media_deletions (mw_db (lf_world l))) \<and> staged \<notin> staged_names (lf_workers l) else staged = []"
    using run(5) by (simp add: unused_name_def split: if_splits)
  have m: "media_ok (mw_db (lf_world l)) (insert staged (set (mw_objects (lf_world l))))
      (w\<lparr>wk_asset := r, wk_staged := staged, wk_finished := True\<rparr> # remove1 w (lf_workers l))"
    by (rule media_ok_run [OF ok [unfolded life_ok_def] run(2,3,4) new])
  show ?thesis
  proof (cases "staged = []")
    case True
    have "media_ok (mw_db (lf_world l)) (set (mw_objects (lf_world l)))
      (w\<lparr>wk_asset := r, wk_staged := staged, wk_finished := True\<rparr> # remove1 w (lf_workers l))"
      by (rule media_ok_objects [OF m, where gone = "{[]}"]) (use True m in \<open>auto simp: media_ok_def row_ok_def staged_names_def\<close>)
    then show ?thesis using True by (simp add: life_ok_def run(1) drop_worker_def add_object_def)
  next
    case False
    then show ?thesis using m by (simp add: life_ok_def run(1) drop_worker_def add_object_def)
  qed
next
  case (finalize w now res w')
  then show ?thesis using media_ok_finalize [OF ok [unfolded life_ok_def] finalize(2-4)]
    by (simp add: life_ok_def drop_worker_def)
next
  case (die w)
  then show ?thesis using media_ok_drop [OF ok [unfolded life_ok_def]] by (simp add: life_ok_def drop_worker_def)
next
  case (recover at now i b s')
  then show ?thesis using media_ok_recover [OF ok [unfolded life_ok_def]] by (simp add: life_ok_def update_db_def)
next
  case (dispatch i a u t n)
  note f = media_ok_find [OF ok [unfolded life_ok_def] dispatch(2)]
  have "media_ok (save_asset (a\<lparr>ma_dispatch_attempts := n, ma_last_dispatch_attempt_at := t, ma_dispatched_at := u\<rparr>)
      (mw_db (lf_world l))) (set (mw_objects (lf_world l))) (lf_workers l)"
    by (rule media_ok_save [OF ok [unfolded life_ok_def]]) (use f dispatch(2) in \<open>auto simp: asset_names_def row_ok_def\<close>)
  then show ?thesis by (simp add: dispatch(1) life_ok_def update_db_def)
next
  case (archive clk actor i s')
  then show ?thesis using media_ok_archive [OF ok [unfolded life_ok_def]] by (simp add: life_ok_def update_db_def)
next
  case (take now i r s')
  then show ?thesis using media_ok_take [OF ok [unfolded life_ok_def]] by (simp add: life_ok_def update_db_def)
next
  case (erase d fault r w')
  then show ?thesis using media_ok_erase [OF ok [unfolded life_ok_def] erase(2,3)] by (simp add: life_ok_def)
next
  case (fail msg i)
  then show ?thesis using media_ok_fail [OF ok [unfolded life_ok_def]] by (simp add: life_ok_def update_db_def)
next
  case (complete now i dn s')
  then show ?thesis using media_ok_complete [OF ok [unfolded life_ok_def]] by (simp add: life_ok_def update_db_def)
qed

definition initial_life :: "db \<Rightarrow> life" where
  "initial_life s = \<lparr>lf_world = \<lparr>mw_db = s\<lparr>media_assets := [], media_deletions := []\<rparr>, mw_objects = []\<rparr>, lf_workers = []\<rparr>"

lemma initial_life_ok: "life_ok (initial_life s)"
  by (simp add: life_ok_def initial_life_def media_ok_def workers_ok_def separate_def staged_names_def deletion_names_def)

lemma reachable_ok: "life_reachable st (initial_life s) l \<Longrightarrow> life_ok l"
  unfolding life_reachable_def
  by (induction rule: rtranclp_induct) (auto intro: initial_life_ok life_step_ok)

text \<open>C1: In every state the pipeline can reach, however uploads, workers, worker deaths,
  lease recovery, archival and deletion passes interleave: an asset has a processing token and
  a lease exactly while it is processing; a ready asset has a normalized file that is still in
  the object store and lasts at most 15 seconds; an asset is archived exactly when the deletion
  outbox has an entry for it; no two ready or processed assets share an object; and at most
  one live worker can finalize an asset.\<close>

theorem media_pipeline_invariant:
  assumes "life_reachable st (initial_life s) l"
  shows "(\<forall>a\<in>set (media_assets (mw_db (lf_world l))).
       (ma_status a = Processing \<longleftrightarrow> ma_processing_token a \<noteq> None)
     \<and> (ma_status a = Processing \<longleftrightarrow> ma_processing_lease_expires_at a \<noteq> None)
     \<and> (ma_status a = Ready \<longrightarrow> ma_normalized_file a \<in> set (mw_objects (lf_world l)) \<and> ma_duration_ms a \<le> 15000)
     \<and> (ma_status a = MediaArchived \<longleftrightarrow> ma_id a \<in> md_asset ` set (media_deletions (mw_db (lf_world l))))
     \<and> (\<forall>b\<in>set (media_assets (mw_db (lf_world l))). ma_id a \<noteq> ma_id b \<longrightarrow> asset_names a \<inter> asset_names b = {})
     \<and> (\<forall>v\<in>set (lf_workers l). \<forall>w\<in>set (lf_workers l).
          owns_attempt (wk_token v) a \<longrightarrow> owns_attempt (wk_token w) a \<longrightarrow> v = w))"
proof -
  have ok: "media_ok (mw_db (lf_world l)) (set (mw_objects (lf_world l))) (lf_workers l)"
    using reachable_ok [OF assms] by (simp add: life_ok_def)
  have "v = w" if "v \<in> set (lf_workers l)" "w \<in> set (lf_workers l)" "owns_attempt (wk_token v) a" "owns_attempt (wk_token w) a" for v w a
    using ok that distinct_map_unique [of wk_token "lf_workers l" v w]
    by (simp add: media_ok_def workers_ok_def owns_attempt_def)
  moreover have "\<forall>a\<in>set (media_assets (mw_db (lf_world l))). row_ok (set (mw_objects (lf_world l)))
      (media_deletions (mw_db (lf_world l))) a"
    and "\<forall>a\<in>set (media_assets (mw_db (lf_world l))). \<forall>b\<in>set (media_assets (mw_db (lf_world l))).
      ma_id a \<noteq> ma_id b \<longrightarrow> asset_names a \<inter> asset_names b = {}"
    using ok unfolding media_ok_def separate_def by simp_all
  ultimately show ?thesis unfolding row_ok_def by blast
qed

fun allowed_transition :: "media_status \<Rightarrow> media_status \<Rightarrow> bool" where
  "allowed_transition Quarantined t = (t \<in> {Quarantined, Processing, MediaArchived})"
| "allowed_transition Processing t = (t \<in> {Processing, Ready, Rejected, Quarantined, MediaArchived})"
| "allowed_transition Ready t = (t \<in> {Ready, MediaArchived})"
| "allowed_transition Rejected t = (t \<in> {Rejected, MediaArchived})"
| "allowed_transition MediaArchived t = (t = MediaArchived)"

definition advances :: "db \<Rightarrow> db \<Rightarrow> bool" where
  "advances s s' = (\<forall>i a. find_asset i s = Some a \<longrightarrow> (\<exists>b. find_asset i s' = Some b
     \<and> allowed_transition (ma_status a) (ma_status b) \<and> ma_processing_attempts a \<le> ma_processing_attempts b))"

lemma allowed_refl [simp]: "allowed_transition t t" "allowed_transition t MediaArchived"
  by (cases t; simp)+

lemma advances_same: "media_assets s' = media_assets s \<Longrightarrow> advances s s'"
  by (simp add: advances_def find_asset_def)

lemma advances_save:
  assumes "find_asset (ma_id b) s = Some a" and "allowed_transition (ma_status a) (ma_status b)"
    and "ma_processing_attempts a \<le> ma_processing_attempts b" and "media_assets s' = save_by ma_id b (media_assets s)"
  shows "advances s s'"
  using assms by (auto simp: advances_def find_asset_def table_simps)


lemma advances_refl [simp]: "advances s s"
  by (simp add: advances_same)

lemma only_alerts_advances: "only_alerts s s' \<Longrightarrow> advances t s \<Longrightarrow> advances t s'"
  using only_alertsD(4) [of s s'] by (simp add: advances_def find_asset_def)

lemma life_step_advances:
  assumes "life_step st l l'" and ok: "life_ok l"
  shows "advances (mw_db (lf_world l)) (mw_db (lf_world l'))"
  using assms(1)
proof cases
  case (upload now uploader uuid stored_as business title kind filename bytes w')
  note u = media_upload_result [OF upload(2)]
  show ?thesis using upload(1)
    by (auto simp: u(2,3) advances_def find_asset_def table_simps)
next
  case (claim now token locked i b reason s')
  have d: "distinct (map ma_id (media_assets (mw_db (lf_world l))))" using ok by (simp add: life_ok_def media_ok_def)
  obtain a where a: "find_asset (ma_id a) (mw_db (lf_world l)) = Some a" "ma_status a = Quarantined \<or> ma_status a = Processing"
    "b = begin_attempt st now token a" "s' = save_asset b (mw_db (lf_world l))"
    using claim_asset_some [OF claim(2) d] .
  have "advances (mw_db (lf_world l)) s'"
    by (rule advances_save [where b = b and a = a]) (use a in \<open>auto simp: begin_attempt_def\<close>)
  then show ?thesis by (simp add: claim(1) update_db_def)
next
  case (finalize w now res w')
  show ?thesis
  proof (cases "find_asset (ma_id (wk_asset w)) (mw_db (lf_world l))")
    case None
    then show ?thesis using finalize by (auto simp: finish_inspection_def finalize_media_processing_def)
  next
    case (Some a)
    have wok: "worker_ok (set (mw_objects (lf_world l))) w"
      using ok finalize(2) by (simp add: life_ok_def media_ok_def workers_ok_def)
    have "mw_db w' = mw_db (lf_world l) \<or> owns_attempt (wk_token w) a
        \<and> mw_db w' = save_asset (finish_attempt now (wk_asset w) (wk_staged w) a) (mw_db (lf_world l))"
      using finalize(4) Some
      by (auto simp: finish_inspection_def finalize_media_processing_def Let_def split: if_splits)
    then have "advances (mw_db (lf_world l)) (mw_db w')"
    proof
      assume "owns_attempt (wk_token w) a
        \<and> mw_db w' = save_asset (finish_attempt now (wk_asset w) (wk_staged w) a) (mw_db (lf_world l))"
      then show ?thesis
        using Some wok finalize(3) find_asset_id [OF Some]
        by (intro advances_save [where b = "finish_attempt now (wk_asset w) (wk_staged w) a" and a = a])
          (auto simp: owns_attempt_def worker_ok_def finish_attempt_def)
    qed simp
    then show ?thesis by (simp add: finalize(1))
  qed
next
  case (recover at now i b s')
  consider "s' = mw_db (lf_world l)" | a t where "find_asset i (mw_db (lf_world l)) = Some a" "ma_status a = Processing"
      "t = save_asset (a\<lparr>ma_status := Quarantined, ma_processing_token := None,
            ma_processing_lease_expires_at := None\<rparr>) (mw_db (lf_world l))" "only_alerts t s'"
    using recover(2) raise_alert_frame
    by (fastforce simp: recover_expired_lease_def bind_result_Inr_iff split: option.splits if_splits)
  then have "advances (mw_db (lf_world l)) s'"
  proof cases
    case 2
    have "advances (mw_db (lf_world l)) t"
      by (rule advances_save [where b = "a\<lparr>ma_status := Quarantined, ma_processing_token := None,
            ma_processing_lease_expires_at := None\<rparr>" and a = a]) (use 2 find_asset_id [OF 2(1)] in auto)
    then show ?thesis using only_alerts_advances [OF 2(4)] by blast
  qed simp
  then show ?thesis by (simp add: recover(1) update_db_def)
next
  case (dispatch i a u t n)
  then show ?thesis using find_asset_id [OF dispatch(2)]
    by (auto simp: update_db_def advances_def)
next
  case (archive clk actor i s')
  obtain a where a: "find_asset i (mw_db (lf_world l)) = Some a"
    and s': "media_assets s' = save_by ma_id (archived_asset clk a) (media_assets (mw_db (lf_world l)))"
    using archive(2)
    by (auto simp: delete_media_binary_def get_or_create_deletion_def save_asset_def bind_result_Inr_iff split: option.splits)
  have "advances (mw_db (lf_world l)) s'"
    by (rule advances_save [where b = "archived_asset clk a" and a = a])
      (use a s' find_asset_id [OF a] in \<open>auto simp: archived_asset_def\<close>)
  then show ?thesis by (simp add: archive(1) update_db_def)
next
  case (take now i r s')
  then show ?thesis by (auto simp: update_db_def take_deletion_def split: option.splits intro!: advances_same)
next
  case (erase d fault r w')
  then show ?thesis using erase_objects_result [OF erase(3)] by (simp add: advances_same)
next
  case (fail msg i)
  then show ?thesis by (auto simp: update_db_def fail_deletion_def intro!: advances_same)
next
  case (complete now i dn s')
  have "advances (mw_db (lf_world l)) s'"
  proof (cases "\<exists>d a. open_deletion i (mw_db (lf_world l)) = Some d \<and> find_asset (md_asset d) (mw_db (lf_world l)) = Some a")
    case True
    then obtain d a where d: "open_deletion i (mw_db (lf_world l)) = Some d"
      "find_asset (md_asset d) (mw_db (lf_world l)) = Some a" by blast
    show ?thesis
      by (rule advances_save [where b = "cleared_asset d a" and a = a])
        (use complete(2) d find_asset_id [OF d(2)] in \<open>auto simp: complete_deletion_def cleared_asset_def\<close>)
  next
    case False
    then show ?thesis using complete(2)
      by (intro advances_same) (auto simp: complete_deletion_def split: option.splits)
  qed
  then show ?thesis by (simp add: complete(1) update_db_def)
qed (auto simp: drop_worker_def)

text \<open>C33: From every reachable state each step moves an asset only along the life cycle
  quarantined, processing, ready or rejected, archived (with processing falling back to
  quarantined when a lease is recovered), never loses the asset, and never lowers its count of
  processing attempts; an archived asset stays archived.\<close>

theorem media_lifecycle_order:
  assumes "life_reachable st (initial_life s) l" and "life_step st l l'"
    and "find_asset i (mw_db (lf_world l)) = Some a"
  shows "\<exists>b. find_asset i (mw_db (lf_world l')) = Some b \<and> allowed_transition (ma_status a) (ma_status b)
     \<and> ma_processing_attempts a \<le> ma_processing_attempts b"
  using life_step_advances [OF assms(2) reachable_ok [OF assms(1)]] assms(3) by (simp add: advances_def)

definition example_life :: life where
  "example_life = \<lparr>lf_world = \<lparr>mw_db = audit 4 (Some 1) ''media.upload'' ''signage.mediaasset'' (uuid_str 3) []
       (empty_db\<lparr>media_assets := [new_media_asset 4 3 ''shop'' ''sale'' Image ''src'' 1]\<rparr>), mw_objects = [''src'']\<rparr>,
     lf_workers = []\<rparr>"

lemma example_life_reachable: "life_reachable default_settings (initial_life empty_db) example_life"
proof -
  have "life_step default_settings (initial_life empty_db) ((initial_life empty_db)\<lparr>lf_world := lf_world example_life\<rparr>)"
  proof (rule life_step.upload [where uuid = 3 and now = 4 and uploader = 1 and business = "''shop''" and title = "''sale''"
        and kind = Image and filename = "''a.png''" and bytes = 10 and stored_as = "\<lambda>n. ''src''"])
    have "clean_source_file default_settings Image ''a.png'' 10 = Inr ()" by code_simp
    then show "media_upload default_settings 4 1 3 (\<lambda>n. ''src'') ''shop'' ''sale'' Image ''a.png'' 10 (lf_world (initial_life empty_db))
        = Inr (3, lf_world example_life)"
      by (simp add: media_upload_def initial_life_def example_life_def clean_media_asset_def new_media_asset_def require_def empty_db_def Let_def)
  qed (simp_all add: initial_life_def find_asset_def unused_name_def deletion_names_def staged_names_def)
  then show ?thesis by (simp add: life_reachable_def initial_life_def example_life_def)
qed

theorem media_pipeline_invariant_witness:
  "\<exists>a\<in>set (media_assets (mw_db (lf_world example_life))). ma_status a \<noteq> Processing \<and> ma_processing_token a = None"
  using media_pipeline_invariant [OF example_life_reachable]
  by (auto simp: example_life_def new_media_asset_def)

theorem media_lifecycle_order_witness:
  "\<exists>l'. life_step default_settings example_life l' \<and>
     (\<exists>b. find_asset 3 (mw_db (lf_world l')) = Some b \<and> allowed_transition Quarantined (ma_status b))"
proof -
  let ?a = "new_media_asset 4 3 ''shop'' ''sale'' Image ''src'' 1"
  have f: "find_asset 3 (mw_db (lf_world example_life)) = Some ?a"
    by (simp add: example_life_def find_asset_def table_simps new_media_asset_def)
  obtain l' where l': "life_step default_settings example_life l'"
    using life_step.dispatch [OF f] by blast
  have "ma_status ?a = Quarantined" by (simp add: new_media_asset_def)
  then show ?thesis using media_lifecycle_order [OF example_life_reachable l' f] l' by auto
qed

end
