(* ===== verification/Throttles.thy ===== *)
theory Throttles
  imports Alerts Settings
begin

section \<open>Request throttling and sign-in lockout\<close>

text \<open>
  The fixed-window request throttle of \<open>services.py\<close> (\<open>throttle_wait\<close>), the proxy-aware
  client address and the sign-in lockout of \<open>SecureLoginView\<close>. The digest that turns an
  identity into a table key is a parameter; nothing is assumed of it.
\<close>

subsection \<open>The request throttle\<close>

text \<open>The right-most forwarded address is the one the trusted proxy appended.\<close>

definition client_ip :: "settings \<Rightarrow> string \<Rightarrow> string \<Rightarrow> string" where
  "client_ip st forwarded remote_addr =
     (if st_secure_proxy_ssl_header st \<and> forwarded \<noteq> []
      then strip (last (split_on (CHR '','') forwarded)) else remote_addr)"

definition throttle_key :: "(string \<Rightarrow> string) \<Rightarrow> settings \<Rightarrow> string \<Rightarrow> string \<Rightarrow> string" where
  "throttle_key sha256 st action ip = sha256 (action @ ''|'' @ ip @ ''|'' @ st_secret_key st)"

definition is_blocked :: "time \<Rightarrow> api_throttle \<Rightarrow> bool" where
  "is_blocked now t = (case at_blocked_until t of None \<Rightarrow> False | Some b \<Rightarrow> now < b)"

definition int_seconds :: "time \<Rightarrow> int" where
  "int_seconds d = (if 0 \<le> d then d div 1000000 else - ((- d) div 1000000))"

definition get_or_create_throttle :: "time \<Rightarrow> string \<Rightarrow> db \<Rightarrow> api_throttle \<times> db" where
  "get_or_create_throttle now key s = (case lookup_by at_key_hash key (api_throttles s) of
       Some t \<Rightarrow> (t, s)
     | None \<Rightarrow> (let t = \<lparr>at_key_hash = key, at_attempts = 0, at_window_started_at = now,
                      at_blocked_until = None, at_updated_at = now\<rparr>
               in (t, s\<lparr>api_throttles := api_throttles s @ [t]\<rparr>)))"

text \<open>
  The counter update of an unblocked request; \<open>now\<close> is the reading at the start of the
  call, \<open>saved_at\<close> the one the save stores.
\<close>

definition count_attempt :: "time \<Rightarrow> time \<Rightarrow> int \<Rightarrow> int \<Rightarrow> api_throttle \<Rightarrow> api_throttle" where
  "count_attempt now saved_at limit window_seconds t =
     (let t = (if at_window_started_at t \<le> now - seconds window_seconds
               then t\<lparr>at_attempts := 0, at_window_started_at := now, at_blocked_until := None\<rparr> else t);
          t = t\<lparr>at_attempts := at_attempts t + 1\<rparr>;
          t = (if limit < at_attempts t then t\<lparr>at_blocked_until := Some (now + seconds window_seconds)\<rparr> else t)
      in t\<lparr>at_updated_at := saved_at\<rparr>)"

text \<open>
  The clock is read at the start (reading 0), when a missing row is created (1), by the
  blocked test (2) and when the row is saved (3).
\<close>

definition throttle_wait :: "clock \<Rightarrow> string \<Rightarrow> int \<Rightarrow> int \<Rightarrow> db \<Rightarrow> int \<times> db" where
  "throttle_wait clk key limit window_seconds s =
     (let (t, s1) = get_or_create_throttle (clk 1) key s in
      if is_blocked (clk 2) t
      then (max 1 (int_seconds (the (at_blocked_until t) - clk 0)), s1)
      else (let u = count_attempt (clk 0) (clk 3) limit window_seconds t
            in (if at_blocked_until u \<noteq> None then window_seconds else 0,
                s1\<lparr>api_throttles := save_by at_key_hash u (api_throttles s1)\<rparr>)))"

definition enforce_api_throttle :: "clock \<Rightarrow> string \<Rightarrow> int \<Rightarrow> int \<Rightarrow> db \<Rightarrow> unit result \<times> db" where
  "enforce_api_throttle clk key limit window_seconds s =
     (let (wait, s') = throttle_wait clk key limit window_seconds s
      in (if wait \<noteq> 0 then Inl (Throttled wait) else Inr (), s'))"

subsection \<open>The sign-in lockout\<close>

definition login_key :: "(string \<Rightarrow> string) \<Rightarrow> settings \<Rightarrow> string \<Rightarrow> string \<Rightarrow> string" where
  "login_key sha256 st username ip =
     sha256 (''login-failures|'' @ lower (strip username) @ ''|'' @ ip @ ''|'' @ st_secret_key st)"

definition is_locked :: "time \<Rightarrow> login_throttle \<Rightarrow> bool" where
  "is_locked now t = (case lt_locked_until t of None \<Rightarrow> False | Some u \<Rightarrow> now < u)"

text \<open>\<open>SecureLoginView.post\<close>: whether the attempt reaches the password check.\<close>

definition login_admitted :: "time \<Rightarrow> string \<Rightarrow> db \<Rightarrow> bool" where
  "login_admitted now key s = (case lookup_by lt_key_hash key (login_throttles s) of
       None \<Rightarrow> True | Some t \<Rightarrow> \<not> is_locked now t)"

definition get_or_create_login :: "time \<Rightarrow> string \<Rightarrow> db \<Rightarrow> login_throttle \<times> db" where
  "get_or_create_login now key s = (case lookup_by lt_key_hash key (login_throttles s) of
       Some t \<Rightarrow> (t, s)
     | None \<Rightarrow> (let t = \<lparr>lt_key_hash = key, lt_failures = 0, lt_locked_until = None, lt_updated_at = now\<rparr>
               in (t, s\<lparr>login_throttles := login_throttles s @ [t]\<rparr>)))"

text \<open>
  \<open>SecureLoginView.form_invalid\<close>: the clock is read for a new row (0), for the lock (1),
  on the save (2), for the audit event (3) and for the alert (4).
\<close>

definition login_failed :: "(string \<Rightarrow> string) \<Rightarrow> clock \<Rightarrow> string \<Rightarrow> string \<Rightarrow> db \<Rightarrow> db result" where
  "login_failed sha256 clk key username s =
     (let (t, s1) = get_or_create_login (clk 0) key s;
          t = t\<lparr>lt_failures := lt_failures t + 1\<rparr>;
          t = (if 5 \<le> lt_failures t then t\<lparr>lt_locked_until := Some (clk 1 + minutes 15)\<rparr> else t);
          t = t\<lparr>lt_updated_at := clk 2\<rparr>;
          s2 = s1\<lparr>login_throttles := save_by lt_key_hash t (login_throttles s1)\<rparr>;
          s3 = audit (clk 3) None ''auth.login_failed'' ''user'' (sha256 (lower username))
                 [(''attempt'', JInt (lt_failures t))] s2
      in if 5 \<le> lt_failures t
         then raise_alert (clk 4) None ''suspicious_login_lockout'' Warning
                ''Repeated failed dashboard sign-in attempts triggered a lockout.'' s3
         else Inr s3)"

text \<open>\<open>SecureLoginView.form_valid\<close>: the failures are forgotten and the sign-in audited.\<close>

definition login_succeeded :: "time \<Rightarrow> string \<Rightarrow> user \<Rightarrow> db \<Rightarrow> db" where
  "login_succeeded now key u s =
     audit now (Some (us_id u)) ''auth.login'' ''signage.user'' (int_str (us_id u)) []
       (s\<lparr>login_throttles := delete_where (\<lambda>t. lt_key_hash t = key) (login_throttles s)\<rparr>)"

text \<open>\<open>SecureAdminLoginView.form_valid\<close>: only account owners enter the administration site.\<close>

definition admin_login :: "(string \<Rightarrow> string) \<Rightarrow> clock \<Rightarrow> string \<Rightarrow> string \<Rightarrow> user \<Rightarrow> db \<Rightarrow> (bool \<times> db) result" where
  "admin_login sha256 clk key username u s =
     (if us_role u \<noteq> Owner
      then bind_result (login_failed sha256 clk key username s) (\<lambda>s'. Inr (False, s'))
      else Inr (True, login_succeeded (clk 0) key u s))"

subsection \<open>Lemmas on one request\<close>

lemma lookup_get_or_create:
  "get_or_create_throttle now key s = (t, s1) \<Longrightarrow>
   at_key_hash t = key \<and> lookup_by at_key_hash key (api_throttles s1) = Some t
   \<and> (\<forall>k. k \<noteq> key \<longrightarrow> lookup_by at_key_hash k (api_throttles s1) = lookup_by at_key_hash k (api_throttles s))"
  by (auto simp: get_or_create_throttle_def Let_def table_simps
      split: option.splits dest: lookup_by_SomeD)

lemma count_attempt_key [simp]: "at_key_hash (count_attempt now sv limit w t) = at_key_hash t"
  by (simp add: count_attempt_def Let_def)

definition throttle_row :: "string \<Rightarrow> db \<Rightarrow> api_throttle option" where
  "throttle_row key s = lookup_by at_key_hash key (api_throttles s)"

text \<open>What a request does to the row of its key, and that no other key is touched.\<close>

definition fresh_throttle :: "time \<Rightarrow> string \<Rightarrow> api_throttle" where
  "fresh_throttle now key = \<lparr>at_key_hash = key, at_attempts = 0, at_window_started_at = now,
     at_blocked_until = None, at_updated_at = now\<rparr>"

lemma throttle_wait_row:
  assumes "throttle_wait clk key limit w s = (wait, s')"
    and "t = (case throttle_row key s of None \<Rightarrow> fresh_throttle (clk 1) key | Some t \<Rightarrow> t)"
  shows "is_blocked (clk 2) t \<Longrightarrow>
           wait = max 1 (int_seconds (the (at_blocked_until t) - clk 0)) \<and> throttle_row key s' = Some t"
    and "\<not> is_blocked (clk 2) t \<Longrightarrow>
           wait = (if at_blocked_until (count_attempt (clk 0) (clk 3) limit w t) \<noteq> None then w else 0)
           \<and> throttle_row key s' = Some (count_attempt (clk 0) (clk 3) limit w t)"
    and "k \<noteq> key \<Longrightarrow> throttle_row k s' = throttle_row k s"
proof -
  obtain t0 s1 where g: "get_or_create_throttle (clk 1) key s = (t0, s1)"
    by (cases "get_or_create_throttle (clk 1) key s") auto
  have t0: "t0 = t"
    using g assms(2) by (auto simp: get_or_create_throttle_def throttle_row_def fresh_throttle_def Let_def
        split: option.splits)
  note l = lookup_get_or_create [OF g]
  show "is_blocked (clk 2) t \<Longrightarrow>
      wait = max 1 (int_seconds (the (at_blocked_until t) - clk 0)) \<and> throttle_row key s' = Some t"
    using assms(1) g t0 l by (auto simp: throttle_wait_def throttle_row_def)
  show "\<not> is_blocked (clk 2) t \<Longrightarrow>
      wait = (if at_blocked_until (count_attempt (clk 0) (clk 3) limit w t) \<noteq> None then w else 0)
      \<and> throttle_row key s' = Some (count_attempt (clk 0) (clk 3) limit w t)"
    using assms(1) g t0 l by (auto simp: throttle_wait_def throttle_row_def Let_def table_simps)
  show "k \<noteq> key \<Longrightarrow> throttle_row k s' = throttle_row k s"
    using assms(1) g t0 l by (auto simp: throttle_wait_def throttle_row_def Let_def table_simps split: if_splits)
qed

text \<open>A run of requests for one key, each with its own clock: the waits they are told.\<close>

fun throttle_run :: "string \<Rightarrow> int \<Rightarrow> int \<Rightarrow> clock list \<Rightarrow> db \<Rightarrow> int list \<times> db" where
  "throttle_run key limit w [] s = ([], s)"
| "throttle_run key limit w (c # cs) s =
     (let (wait, s1) = throttle_wait c key limit w s;
          (waits, s2) = throttle_run key limit w cs s1
      in (wait # waits, s2))"

definition admitted :: "int list \<Rightarrow> nat" where
  "admitted waits = length (filter (\<lambda>x. x = 0) waits)"

text \<open>
  Inside one window the row counts the admitted requests: with \<open>a\<close> attempts on record and
  the window still open, at most \<open>limit - a\<close> more requests get through.
\<close>

lemma throttle_run_in_window:
  assumes "throttle_row key s = Some t" and "0 < w" and "0 \<le> at_attempts t"
    and "\<forall>c\<in>set cs. \<forall>i. at_window_started_at t \<le> c i \<and> c i < at_window_started_at t + seconds w"
    and "at_blocked_until t = None \<or> (\<exists>b. at_blocked_until t = Some b \<and> at_window_started_at t + seconds w \<le> b)"
    and "throttle_run key limit w cs s = (waits, s')"
  shows "int (admitted waits) \<le> max 0 (limit - at_attempts t)
    \<and> (at_blocked_until t \<noteq> None \<longrightarrow> admitted waits = 0)"
  using assms
proof (induction cs arbitrary: s t waits s')
  case Nil
  then show ?case by (simp add: admitted_def)
next
  case (Cons c cs)
  obtain wait s1 where s1: "throttle_wait c key limit w s = (wait, s1)"
    by (cases "throttle_wait c key limit w s") auto
  obtain ws s2 where s2: "throttle_run key limit w cs s1 = (ws, s2)"
    by (cases "throttle_run key limit w cs s1") auto
  have waits: "waits = wait # ws" using Cons.prems(6) s1 s2 by simp
  note row = throttle_wait_row [OF s1, of t]
  have times: "\<forall>i. at_window_started_at t \<le> c i \<and> c i < at_window_started_at t + seconds w"
    using Cons.prems(4) by simp
  show ?case
  proof (cases "is_blocked (c 2) t")
    case True
    then have r: "1 \<le> wait" "throttle_row key s1 = Some t" using row(1) Cons.prems(1) by auto
    have b: "at_blocked_until t \<noteq> None" using True by (auto simp: is_blocked_def split: option.splits)
    have "int (admitted ws) \<le> max 0 (limit - at_attempts t) \<and> (at_blocked_until t \<noteq> None \<longrightarrow> admitted ws = 0)"
      by (rule Cons.IH [OF r(2) Cons.prems(2,3) _ Cons.prems(5) s2]) (use Cons.prems(4) in simp)
    then show ?thesis using r(1) b by (simp add: waits admitted_def)
  next
    case False
    have nb: "at_blocked_until t = None"
      using False Cons.prems(5) times [rule_format, of 2] by (auto simp: is_blocked_def split: option.splits)
    let ?u = "count_attempt (c 0) (c 3) limit w t"
    have r: "wait = (if at_blocked_until ?u \<noteq> None then w else 0)" "throttle_row key s1 = Some ?u"
      using row(2) False Cons.prems(1) by auto
    have open_window: "\<not> at_window_started_at t \<le> c 0 - seconds w" using times [rule_format, of 0] by simp
    have u: "at_attempts ?u = at_attempts t + 1" "at_window_started_at ?u = at_window_started_at t"
      "at_blocked_until ?u = (if limit < at_attempts t + 1 then Some (c 0 + seconds w) else None)"
      using open_window nb by (simp_all add: count_attempt_def Let_def)
    have "int (admitted ws) \<le> max 0 (limit - at_attempts ?u) \<and> (at_blocked_until ?u \<noteq> None \<longrightarrow> admitted ws = 0)"
    proof (rule Cons.IH [OF r(2) Cons.prems(2) _ _ _ s2])
      show "0 \<le> at_attempts ?u" using u(1) Cons.prems(3) by simp
      show "\<forall>d\<in>set cs. \<forall>i. at_window_started_at ?u \<le> d i \<and> d i < at_window_started_at ?u + seconds w"
        using Cons.prems(4) u(2) by simp
      show "at_blocked_until ?u = None
          \<or> (\<exists>b. at_blocked_until ?u = Some b \<and> at_window_started_at ?u + seconds w \<le> b)"
        using u times by simp
    qed
    then show ?thesis using r(1) u nb Cons.prems(2) by (auto simp: waits admitted_def)
  qed
qed


subsection \<open>Lemmas on sign-in\<close>

definition login_row :: "string \<Rightarrow> db \<Rightarrow> login_throttle option" where
  "login_row key s = lookup_by lt_key_hash key (login_throttles s)"

definition failures_of :: "string \<Rightarrow> db \<Rightarrow> int" where
  "failures_of key s = (case login_row key s of None \<Rightarrow> 0 | Some t \<Rightarrow> lt_failures t)"

lemma login_failed_row:
  assumes "login_failed sha clk key username s = Inr s'"
  shows "failures_of key s' = failures_of key s + 1"
    and "5 \<le> failures_of key s + 1 \<Longrightarrow>
           \<exists>t. login_row key s' = Some t \<and> lt_locked_until t = Some (clk 1 + minutes 15)"
    and "failures_of key s + 1 < 5 \<Longrightarrow>
           \<exists>t. login_row key s' = Some t \<and>
               lt_locked_until t = (case login_row key s of None \<Rightarrow> None | Some u \<Rightarrow> lt_locked_until u)"
    and "k \<noteq> key \<Longrightarrow> login_row k s' = login_row k s"
proof -
  obtain t s1 where g: "get_or_create_login (clk 0) key s = (t, s1)"
    by (cases "get_or_create_login (clk 0) key s") auto
  have t: "lt_key_hash t = key" "login_row key s1 = Some t" "lt_failures t = failures_of key s"
    "lt_locked_until t = (case login_row key s of None \<Rightarrow> None | Some u \<Rightarrow> lt_locked_until u)"
    "\<And>k. k \<noteq> key \<Longrightarrow> login_row k s1 = login_row k s"
    using g by (auto simp: get_or_create_login_def login_row_def failures_of_def Let_def table_simps
        split: option.splits dest: lookup_by_SomeD)
  have rows: "login_row j s' = (if j = key then Some (if 5 \<le> lt_failures t + 1
         then t\<lparr>lt_failures := lt_failures t + 1, lt_locked_until := Some (clk 1 + minutes 15), lt_updated_at := clk 2\<rparr>
         else t\<lparr>lt_failures := lt_failures t + 1, lt_updated_at := clk 2\<rparr>) else login_row j s)" for j
    using assms g t(1,2,5)
    by (auto simp: login_failed_def login_row_def Let_def table_simps only_alertsD
        dest!: raise_alert_frame split: if_splits)
  show "failures_of key s' = failures_of key s + 1"
    using t(3) by (simp add: failures_of_def rows)
  show "5 \<le> failures_of key s + 1 \<Longrightarrow>
      \<exists>t. login_row key s' = Some t \<and> lt_locked_until t = Some (clk 1 + minutes 15)"
    using t(3) by (simp add: rows)
  show "failures_of key s + 1 < 5 \<Longrightarrow> \<exists>t. login_row key s' = Some t \<and>
      lt_locked_until t = (case login_row key s of None \<Rightarrow> None | Some u \<Rightarrow> lt_locked_until u)"
    using t(3,4) by (simp add: rows)
  show "k \<noteq> key \<Longrightarrow> login_row k s' = login_row k s"
    by (simp add: rows)
qed

lemma login_failed_total: "\<exists>s'. login_failed sha clk key username s = Inr s'"
  using raise_alert_total [where device = None]
  by (auto simp: login_failed_def Let_def split: prod.splits)

definition login_fail_run ::
  "(string \<Rightarrow> string) \<Rightarrow> string \<Rightarrow> string \<Rightarrow> clock list \<Rightarrow> db \<Rightarrow> db result" where
  "login_fail_run sha key username clks s = fold_result (\<lambda>c. login_failed sha c key username) clks s"

lemma login_fail_run_total: "\<exists>s'. login_fail_run sha key username clks s = Inr s'"
proof (induction clks arbitrary: s)
  case Nil
  then show ?case by (simp add: login_fail_run_def)
next
  case (Cons c clks)
  obtain t where "login_failed sha c key username s = Inr t" using login_failed_total by blast
  then show ?case using Cons [of t] by (simp add: login_fail_run_def)
qed

lemma login_fail_run_failures:
  "login_fail_run sha key username clks s = Inr s' \<Longrightarrow>
   failures_of key s' = failures_of key s + int (length clks)"
proof (induction clks arbitrary: s)
  case Nil
  then show ?case by (simp add: login_fail_run_def)
next
  case (Cons c clks)
  then obtain t where "login_failed sha c key username s = Inr t" "login_fail_run sha key username clks t = Inr s'"
    by (auto simp: login_fail_run_def bind_result_Inr_iff)
  then show ?case using Cons.IH login_failed_row(1) by fastforce
qed

subsection \<open>Properties\<close>

text \<open>C39: The request throttle admits at most \<open>limit\<close> requests of one key in the window its
  first request opens, however the requests are spread over the window.\<close>

theorem throttle_limits_window:
  assumes "throttle_row key s = None" and "0 < w" and "1 \<le> limit" and "c0 0 \<le> c0 1"
    and "\<forall>c\<in>set cs. \<forall>i. c0 1 \<le> c i \<and> c i < c0 1 + seconds w"
    and "throttle_run key limit w (c0 # cs) s = (waits, s')"
  shows "int (admitted waits) \<le> limit"
proof -
  obtain wait s1 where s1: "throttle_wait c0 key limit w s = (wait, s1)"
    by (cases "throttle_wait c0 key limit w s") auto
  obtain ws where s2: "throttle_run key limit w cs s1 = (ws, s')" and waits: "waits = wait # ws"
    using assms(6) s1 by (auto split: prod.splits)
  let ?u = "count_attempt (c0 0) (c0 3) limit w (fresh_throttle (c0 1) key)"
  have r: "throttle_row key s1 = Some ?u" "wait = 0"
    using throttle_wait_row(2) [OF s1, of "fresh_throttle (c0 1) key"] assms(1-4)
    by (auto simp: fresh_throttle_def is_blocked_def count_attempt_def Let_def)
  have u: "at_attempts ?u = 1" "at_window_started_at ?u = c0 1" "at_blocked_until ?u = None"
    using assms(2-4) by (auto simp: fresh_throttle_def count_attempt_def Let_def)
  have "int (admitted ws) \<le> max 0 (limit - at_attempts ?u) \<and> (at_blocked_until ?u \<noteq> None \<longrightarrow> admitted ws = 0)"
    by (rule throttle_run_in_window [OF r(1) assms(2) _ _ _ s2]) (use u assms(5) in auto)
  then show ?thesis using u assms(3) r(2) by (simp add: waits admitted_def)
qed

theorem throttle_limits_window_witness:
  "\<exists>waits s'. throttle_run ''k'' 2 900 [\<lambda>_. 10, \<lambda>_. 20, \<lambda>_. 30] empty_db = (waits, s')
     \<and> waits = [0, 0, 900] \<and> int (admitted waits) \<le> 2"
proof -
  obtain waits s' where r: "throttle_run ''k'' 2 900 ((\<lambda>_. 10) # [\<lambda>_. 20, \<lambda>_. 30]) empty_db = (waits, s')"
    by (cases "throttle_run ''k'' 2 900 ((\<lambda>_. 10) # [\<lambda>_. 20, \<lambda>_. 30]) empty_db") auto
  have "int (admitted waits) \<le> 2"
    by (rule throttle_limits_window [OF _ _ _ _ _ r]) (simp_all add: throttle_row_def empty_db_def)
  moreover have "waits = [0, 0, 900]"
    using r by (simp add: throttle_wait_def get_or_create_throttle_def empty_db_def Let_def table_simps
        is_blocked_def count_attempt_def lookup_by_def save_by_def split: prod.splits)
  ultimately show ?thesis using r by auto
qed

text \<open>A refused request leaves its key blocked, and while the block lasts every further
  request of the key is refused and changes nothing in the row; a request that ran into
  the limit blocks the key for a whole window from its own time.\<close>

theorem throttle_block_holds:
  assumes "throttle_wait c key limit w s = (wait, s1)" and "wait \<noteq> 0" and "0 < w"
    and "throttle_wait d key limit w s1 = (wait', s2)"
  shows "\<exists>t b. throttle_row key s1 = Some t \<and> at_blocked_until t = Some b
     \<and> (d 2 < b \<longrightarrow> 1 \<le> wait' \<and> throttle_row key s2 = Some t)
     \<and> ((\<forall>t0. throttle_row key s = Some t0 \<longrightarrow> at_blocked_until t0 = None) \<longrightarrow> b = c 0 + seconds w)"
proof -
  let ?t0 = "case throttle_row key s of None \<Rightarrow> fresh_throttle (c 1) key | Some t \<Rightarrow> t"
  let ?u = "count_attempt (c 0) (c 3) limit w ?t0"
  note r = throttle_wait_row [OF assms(1) refl]
  obtain t b where t: "throttle_row key s1 = Some t" "at_blocked_until t = Some b"
    and orig: "(\<forall>t0. throttle_row key s = Some t0 \<longrightarrow> at_blocked_until t0 = None) \<longrightarrow> b = c 0 + seconds w"
  proof (cases "is_blocked (c 2) ?t0")
    case True
    then obtain b where "at_blocked_until ?t0 = Some b" by (auto simp: is_blocked_def split: option.splits)
    then show ?thesis using that [of ?t0 b] r(1) True
      by (auto simp: fresh_throttle_def split: option.splits)
  next
    case False
    then have u: "throttle_row key s1 = Some ?u" "at_blocked_until ?u \<noteq> None"
      using r(2) assms(2) by (auto split: if_splits)
    then obtain b where b: "at_blocked_until ?u = Some b" by blast
    have "(\<forall>t0. throttle_row key s = Some t0 \<longrightarrow> at_blocked_until t0 = None) \<longrightarrow> b = c 0 + seconds w"
      using b by (auto simp: count_attempt_def Let_def fresh_throttle_def split: if_splits option.splits)
    then show ?thesis using that [OF u(1) b] by blast
  qed
  have "d 2 < b \<longrightarrow> 1 \<le> wait' \<and> throttle_row key s2 = Some t"
    using throttle_wait_row(1) [OF assms(4), of t] t by (auto simp: is_blocked_def)
  then show ?thesis using t orig by blast
qed

theorem throttle_block_holds_witness:
  "\<exists>wait s1 wait' s2. throttle_wait (\<lambda>_. 10) ''k'' 0 900 empty_db = (wait, s1)
     \<and> throttle_wait (\<lambda>_. 20) ''k'' 0 900 s1 = (wait', s2) \<and> wait = 900 \<and> 1 \<le> wait'"
proof -
  obtain wait s1 where a: "throttle_wait (\<lambda>_. 10) ''k'' 0 900 empty_db = (wait, s1)"
    by (cases "throttle_wait (\<lambda>_. 10) ''k'' 0 900 empty_db") auto
  obtain wait' s2 where b: "throttle_wait (\<lambda>_. 20) ''k'' 0 900 s1 = (wait', s2)"
    by (cases "throttle_wait (\<lambda>_. 20) ''k'' 0 900 s1") auto
  have w: "wait = 900"
    using a by (simp add: throttle_wait_def get_or_create_throttle_def empty_db_def Let_def
        is_blocked_def count_attempt_def)
  have none: "throttle_row ''k'' empty_db = None" by (simp add: throttle_row_def empty_db_def)
  show ?thesis
    using throttle_block_holds [OF a _ _ b] a b w none by auto
qed

text \<open>The throttle recovers: once the block and the window have passed, the next request
  of the key is admitted and counts as the first of a new window.\<close>

theorem throttle_recovers:
  assumes "throttle_row key s = Some t" and "\<not> is_blocked (c 2) t"
    and "at_window_started_at t \<le> c 0 - seconds w" and "1 \<le> limit"
    and "throttle_wait c key limit w s = (wait, s')"
  shows "wait = 0 \<and> (\<exists>u. throttle_row key s' = Some u \<and> at_attempts u = 1
     \<and> at_window_started_at u = c 0 \<and> at_blocked_until u = None)"
  using throttle_wait_row(2) [OF assms(5), of t] assms(1-4)
  by (auto simp: count_attempt_def Let_def)

theorem throttle_recovers_witness:
  "\<exists>wait s'. throttle_wait (\<lambda>_. 2000000000) ''k'' 1 900
       (empty_db\<lparr>api_throttles := [(fresh_throttle 0 ''k'')\<lparr>at_attempts := 9, at_blocked_until := Some 900000000\<rparr>]\<rparr>)
       = (wait, s') \<and> wait = 0"
proof -
  let ?t = "(fresh_throttle 0 ''k'')\<lparr>at_attempts := 9, at_blocked_until := Some 900000000\<rparr>"
  let ?s = "empty_db\<lparr>api_throttles := [?t]\<rparr>"
  obtain wait s' where r: "throttle_wait (\<lambda>_. 2000000000) ''k'' 1 900 ?s = (wait, s')"
    by (cases "throttle_wait (\<lambda>_. 2000000000) ''k'' 1 900 ?s") auto
  have row: "throttle_row ''k'' ?s = Some ?t"
    by (simp add: throttle_row_def fresh_throttle_def table_simps)
  have "wait = 0"
    using throttle_recovers [OF row _ _ _ r] by (simp add: is_blocked_def fresh_throttle_def)
  then show ?thesis using r by blast
qed

text \<open>Five failed sign-ins in a row lock the key out for fifteen minutes after the last of
  them, whatever came before; fewer than five failures after a fresh start do not lock it,
  and a successful sign-in clears the count. Failures of one key never lock another.\<close>

theorem login_lockout:
  assumes "login_fail_run sha key username clks s = Inr s1"
    and "login_failed sha last_clk key username s1 = Inr s2"
    and "login_row key s = None" and "k \<noteq> key"
  shows "(4 \<le> length clks \<longrightarrow> now < last_clk 1 + minutes 15 \<longrightarrow> \<not> login_admitted now key s2)
    \<and> (4 \<le> length clks \<longrightarrow> last_clk 1 + minutes 15 \<le> now \<longrightarrow> login_admitted now key s2)
    \<and> (length clks < 4 \<longrightarrow> login_admitted now key s2)
    \<and> login_row key (login_succeeded now key u s2) = None
    \<and> login_row k s2 = login_row k s"
proof -
  have f: "failures_of key s1 = int (length clks)"
    using login_fail_run_failures [OF assms(1)] assms(3) by (simp add: failures_of_def)
  note r = login_failed_row [OF assms(2)]
  have low: "length cs \<le> 4 \<Longrightarrow> login_fail_run sha key username cs t = Inr t' \<Longrightarrow> failures_of key t' < 5 \<Longrightarrow>
      (case login_row key t of None \<Rightarrow> None | Some u \<Rightarrow> lt_locked_until u) = None \<Longrightarrow>
      (case login_row key t' of None \<Rightarrow> None | Some u \<Rightarrow> lt_locked_until u) = None" for cs t t'
  proof (induction cs arbitrary: t)
    case Nil
    then show ?case by (simp add: login_fail_run_def)
  next
    case (Cons c cs)
    then obtain m where m: "login_failed sha c key username t = Inr m" "login_fail_run sha key username cs m = Inr t'"
      by (auto simp: login_fail_run_def bind_result_Inr_iff)
    have "failures_of key t + 1 < 5"
      using login_failed_row(1) [OF m(1)] login_fail_run_failures [OF m(2)] Cons.prems(3) by linarith
    then have "(case login_row key m of None \<Rightarrow> None | Some u \<Rightarrow> lt_locked_until u) = None"
      using login_failed_row(3) [OF m(1)] Cons.prems(4) by auto
    then show ?case using Cons.IH [OF _ m(2) Cons.prems(3)] Cons.prems(1) by simp
  qed
  have other: "login_fail_run sha key username cs t = Inr t' \<Longrightarrow> login_row k t' = login_row k t" for cs t t'
  proof (induction cs arbitrary: t)
    case Nil
    then show ?case by (simp add: login_fail_run_def)
  next
    case (Cons c cs)
    then obtain m where m: "login_failed sha c key username t = Inr m" "login_fail_run sha key username cs m = Inr t'"
      by (auto simp: login_fail_run_def bind_result_Inr_iff)
    show ?case using Cons.IH [OF m(2)] login_failed_row(4) [OF m(1) assms(4)] by simp
  qed
  have locked: "4 \<le> length clks \<Longrightarrow> \<exists>t. login_row key s2 = Some t \<and> lt_locked_until t = Some (last_clk 1 + minutes 15)"
    using r(2) f by simp
  have unlocked: "length clks < 4 \<Longrightarrow> (\<exists>t. login_row key s2 = Some t \<and> lt_locked_until t = None)"
    using r(3) f low [OF _ assms(1)] assms(3) by auto
  have "login_row key (login_succeeded now key u s2) = None"
    by (simp add: login_row_def login_succeeded_def lookup_by_None)
  then show ?thesis
    using locked unlocked other [OF assms(1)] r(4) [OF assms(4)]
    by (auto simp: login_admitted_def is_locked_def login_row_def split: option.splits)
qed

theorem login_lockout_witness:
  "\<exists>s1 s2. login_fail_run id ''k'' ''u'' [\<lambda>_. 1, \<lambda>_. 2, \<lambda>_. 3, \<lambda>_. 4] empty_db = Inr s1
     \<and> login_failed id (\<lambda>_. 5) ''k'' ''u'' s1 = Inr s2 \<and> \<not> login_admitted 6 ''k'' s2
     \<and> login_admitted 900000005 ''k'' s2"
proof -
  obtain s1 where s1: "login_fail_run id ''k'' ''u'' [\<lambda>_. 1, \<lambda>_. 2, \<lambda>_. 3, \<lambda>_. 4] empty_db = Inr s1"
    using login_fail_run_total by blast
  obtain s2 where s2: "login_failed id (\<lambda>_. 5) ''k'' ''u'' s1 = Inr s2"
    using login_failed_total by blast
  have none: "login_row ''k'' empty_db = None" by (simp add: login_row_def empty_db_def)
  show ?thesis
    using login_lockout [OF s1 s2 none, of "''x''" 6]
      login_lockout [OF s1 s2 none, of "''x''" 900000005] s1 s2 by auto
qed

end
