(* ===== verification/Dispatch.thy ===== *)
theory Dispatch
  imports Media Throttles
begin

section \<open>Dispatching media tasks\<close>

text \<open>
  The launch of one-off worker tasks, \<open>media_dispatch.py\<close>, and the command
  \<open>reconcile_media_processing\<close>. The answers of the cloud service are data: \<open>ecs\<close> holds what
  one dispatch gets from it. \<open>sha\<close> is SHA-256 in hexadecimal. A dispatch tells whether it
  launched a task and which client token it sent, if it came to the launch call.
\<close>

subsection \<open>Configuration and the service\<close>

definition missing_settings :: "settings \<Rightarrow> string list" where
  "missing_settings st =
     map fst (filter (\<lambda>(n, missing). missing)
       [(''cluster'', st_ecs_media_cluster st = []),
        (''container_name'', st_ecs_media_container_name st = []),
        (''security_group_ids'', st_ecs_media_security_group_ids st = []),
        (''subnet_ids'', st_ecs_media_subnet_ids st = []),
        (''task_definition'', st_ecs_media_task_definition st = [])])"

definition invalid_limits :: "settings \<Rightarrow> string list" where
  "invalid_limits st =
     map fst (filter (\<lambda>(n, v). v < 1)
       [(''max_concurrent_tasks'', st_media_dispatch_max_concurrent_tasks st),
        (''max_tasks_per_hour'', st_media_dispatch_max_tasks_per_hour st),
        (''ambiguity_reuse_seconds'', st_media_dispatch_ambiguity_reuse_seconds st),
        (''startup_grace_seconds'', st_media_dispatch_startup_grace_seconds st),
        (''aws_connect_timeout_seconds'', st_media_dispatch_aws_connect_timeout_seconds st),
        (''aws_read_timeout_seconds'', st_media_dispatch_aws_read_timeout_seconds st)])
     @ (if 3600 < st_media_dispatch_ambiguity_reuse_seconds st then [''ambiguity_reuse_seconds''] else [])
     @ (if 2 < st_media_dispatch_max_concurrent_tasks st then [''max_concurrent_tasks''] else [])
     @ (if 6 < st_media_dispatch_max_tasks_per_hour st then [''max_tasks_per_hour''] else [])"

text \<open>\<open>_ecs_configuration\<close>: whether the settings describe a usable launch.\<close>

definition ecs_configured :: "settings \<Rightarrow> bool" where
  "ecs_configured st = (missing_settings st = [] \<and> invalid_limits st = [])"

datatype ecs_error = EcsClientError string int | EcsTransportError

datatype run_task_outcome = RunTaskError ecs_error | RunTaskResponse bool nat

record ecs_service =
  es_client :: bool
  es_pages :: "(ecs_error + string list) list"
  es_started_by :: "ecs_error + string list"
  es_run_task :: "string \<Rightarrow> run_task_outcome"

text \<open>\<open>_active_ecs_tasks\<close>: count the running tasks page by page, stopping at the limit.\<close>

fun list_tasks :: "int \<Rightarrow> string list \<Rightarrow> (ecs_error + string list) list \<Rightarrow> ecs_error + (bool \<times> string list)" where
  "list_tasks limit arns [] = Inr (False, arns)"
| "list_tasks limit arns (Inl e # pages) = Inl e"
| "list_tasks limit arns (Inr page # pages) =
     (let seen = remdups (arns @ page)
      in if limit \<le> int (length seen) then Inr (True, seen) else list_tasks limit seen pages)"

definition active_ecs_tasks :: "settings \<Rightarrow> ecs_service \<Rightarrow> ecs_error + (int \<times> string list)" where
  "active_ecs_tasks st ecs =
     (case list_tasks (st_media_dispatch_max_concurrent_tasks st) [] (es_pages ecs) of
        Inl e \<Rightarrow> Inl e
      | Inr (full, arns) \<Rightarrow>
          if full then Inr (int (length arns), [])
          else if arns = [] then Inr (0, [])
          else (case es_started_by ecs of
                  Inl e \<Rightarrow> Inl e
                | Inr names \<Rightarrow> Inr (int (length arns), filter (\<lambda>n. n \<noteq> []) names)))"

subsection \<open>Reservations\<close>

definition dispatch_budget_key :: "(string \<Rightarrow> string) \<Rightarrow> string" where
  "dispatch_budget_key sha = sha ''duducar-media-dispatch-hourly-budget-v1''"

definition asset_dispatch_state_key :: "(string \<Rightarrow> string) \<Rightarrow> id \<Rightarrow> string" where
  "asset_dispatch_state_key sha i = sha (''duducar-media-dispatch-state-v1|'' @ uuid_str i)"

definition save_throttle :: "api_throttle \<Rightarrow> db \<Rightarrow> db" where
  "save_throttle t s = s\<lparr>api_throttles := save_by at_key_hash t (api_throttles s)\<rparr>"

definition lock_hourly_dispatch_budget :: "(string \<Rightarrow> string) \<Rightarrow> time \<Rightarrow> db \<Rightarrow> api_throttle \<times> db" where
  "lock_hourly_dispatch_budget sha now s =
     (let (budget, s1) = get_or_create_throttle now (dispatch_budget_key sha) s in
      if at_window_started_at budget \<le> now - hours 1
      then (let b = budget\<lparr>at_attempts := 0, at_window_started_at := now, at_blocked_until := None,
                      at_updated_at := now\<rparr>
            in (b, save_throttle b s1))
      else (budget, s1))"

text \<open>The alerts about media have no device, so opening them cannot fail.\<close>

definition warn :: "time \<Rightarrow> string \<Rightarrow> severity \<Rightarrow> string \<Rightarrow> db \<Rightarrow> db" where
  "warn now code sev message s = (case raise_alert now None code sev message s of Inr s' \<Rightarrow> s' | Inl e \<Rightarrow> s)"

definition record_dispatch_deferred :: "time \<Rightarrow> string \<Rightarrow> db \<Rightarrow> db" where
  "record_dispatch_deferred now reason s =
     (if reason = ''hourly_budget_exhausted''
      then warn now ''media_processing_dispatch_budget_exhausted'' Warning
             ''The hourly media-processing task budget was reached; quarantined uploads will retry automatically.'' s
      else s)"

definition record_dispatch_failure :: "time \<Rightarrow> db \<Rightarrow> db" where
  "record_dispatch_failure now s =
     warn now ''media_processing_dispatch_failed'' Warning
       ''A quarantined media upload could not be queued for validation.'' s"

definition record_dispatch_exhaustion :: "time \<Rightarrow> db \<Rightarrow> db" where
  "record_dispatch_exhaustion now s =
     warn now ''media_processing_dispatch_exhausted'' Critical
       ''One or more media uploads exhausted automated validation retries and require operator investigation.'' s"

definition handle_dispatch_failure :: "settings \<Rightarrow> time \<Rightarrow> int \<Rightarrow> db \<Rightarrow> db" where
  "handle_dispatch_failure st now attempt s =
     (let s1 = record_dispatch_failure now s in
      if st_media_max_dispatch_attempts st \<le> attempt then record_dispatch_exhaustion now s1 else s1)"

definition find_throttle :: "string \<Rightarrow> db \<Rightarrow> api_throttle option" where
  "find_throttle key s = lookup_by at_key_hash key (api_throttles s)"

definition delete_throttle :: "string \<Rightarrow> db \<Rightarrow> db" where
  "delete_throttle key s = s\<lparr>api_throttles := delete_where (\<lambda>t. at_key_hash t = key) (api_throttles s)\<rparr>"

text \<open>
  \<open>_reserve_dispatch_attempt\<close>. \<open>reuses_attempt\<close> tells that the last call for the asset is of
  unknown outcome and recent, so that its attempt, and with it the client token, is used again.
\<close>

definition backing_off :: "settings \<Rightarrow> time \<Rightarrow> media_asset \<Rightarrow> bool" where
  "backing_off st now a = (case ma_last_dispatch_attempt_at a of None \<Rightarrow> False
     | Some t \<Rightarrow> now < t + seconds (st_media_dispatch_retry_seconds st))"

definition reuses_attempt :: "settings \<Rightarrow> time \<Rightarrow> media_asset \<Rightarrow> api_throttle option \<Rightarrow> bool" where
  "reuses_attempt st now a state = (case state of None \<Rightarrow> False
     | Some t \<Rightarrow> 0 < at_attempts t \<and> at_attempts t = ma_dispatch_attempts a
         \<and> now - seconds (st_media_dispatch_ambiguity_reuse_seconds st) < at_window_started_at t)"

definition mark_state :: "string \<Rightarrow> time \<Rightarrow> int \<Rightarrow> bool \<Rightarrow> api_throttle option \<Rightarrow> db \<Rightarrow> db" where
  "mark_state key now attempts reuse state s =
     (let s1 = (if state = None then snd (get_or_create_throttle now key s) else s);
          t = fst (get_or_create_throttle now key s)
      in save_throttle (t\<lparr>at_attempts := attempts,
           at_window_started_at := if reuse then at_window_started_at t else now,
           at_blocked_until := Some now, at_updated_at := now\<rparr>) s1)"

definition reserve_dispatch_attempt ::
  "settings \<Rightarrow> (string \<Rightarrow> string) \<Rightarrow> time \<Rightarrow> bool \<Rightarrow> bool \<Rightarrow> id \<Rightarrow> db \<Rightarrow> int option \<times> db" where
  "reserve_dispatch_attempt st sha now bypass_backoff mark_issued i s =
     (case find_asset i s of
        None \<Rightarrow> (None, s)
      | Some a \<Rightarrow>
          if ma_status a \<noteq> Quarantined then (None, s)
          else if \<not> bypass_backoff \<and> backing_off st now a then (None, s)
          else (let key = asset_dispatch_state_key sha i;
                    state = (if mark_issued then find_throttle key s else None);
                    reuse = reuses_attempt st now a state in
                if \<not> reuse \<and> st_media_max_dispatch_attempts st \<le> ma_dispatch_attempts a
                then (None,
                      let s1 = (if state \<noteq> None then delete_throttle key s else s)
                      in if mark_issued \<and> ma_dispatched_at a \<noteq> None
                         then save_asset (a\<lparr>ma_dispatched_at := None\<rparr>) s1 else s1)
                else (let attempts = ma_dispatch_attempts a + (if reuse then 0 else 1);
                          b = a\<lparr>ma_dispatch_attempts := attempts, ma_last_dispatch_attempt_at := Some now\<rparr>
                      in if mark_issued
                         then (Some attempts, save_asset (b\<lparr>ma_dispatched_at := Some now\<rparr>)
                                                (mark_state key now attempts reuse state s))
                         else (Some attempts, save_asset b s))))"

definition clear_dispatch_state :: "(string \<Rightarrow> string) \<Rightarrow> id \<Rightarrow> int \<Rightarrow> bool \<Rightarrow> db \<Rightarrow> db" where
  "clear_dispatch_state sha i attempt clear_dispatched_at s =
     (let key = asset_dispatch_state_key sha i;
          s1 = (case find_throttle key s of
                  Some t \<Rightarrow> if at_attempts t = attempt then delete_throttle key s else s
                | None \<Rightarrow> s)
      in if clear_dispatched_at
         then s1\<lparr>media_assets := update_where (\<lambda>a. ma_id a = i \<and> ma_dispatch_attempts a = attempt)
                (\<lambda>a. a\<lparr>ma_dispatched_at := None\<rparr>) (media_assets s1)\<rparr>
         else s1)"

subsection \<open>One dispatch\<close>

text \<open>
  The transaction before the launch: it ends with the reserved attempt, or without one after
  having noted why. Readings of the clock: 0 at its start, 1 in the reservation, 2 for alerts.
\<close>

definition recently_dispatched :: "settings \<Rightarrow> time \<Rightarrow> id \<Rightarrow> db \<Rightarrow> string list" where
  "recently_dispatched st now i s =
     map (\<lambda>a. uuid_str (ma_id a))
       (filter (\<lambda>a. ma_id a \<noteq> i \<and> (case ma_dispatched_at a of None \<Rightarrow> False
           | Some t \<Rightarrow> now - seconds (st_media_dispatch_startup_grace_seconds st) \<le> t)) (media_assets s))"

definition used_capacity :: "settings \<Rightarrow> time \<Rightarrow> id \<Rightarrow> int \<Rightarrow> string list \<Rightarrow> db \<Rightarrow> int" where
  "used_capacity st now i active active_ids s =
     active + int (length (remdups (filter (\<lambda>n. n \<notin> set active_ids) (recently_dispatched st now i s))))"

definition reserve_or_fail ::
  "settings \<Rightarrow> (string \<Rightarrow> string) \<Rightarrow> clock \<Rightarrow> bool \<Rightarrow> id \<Rightarrow> db \<Rightarrow> db" where
  "reserve_or_fail st sha clk bypass_backoff i s =
     (case reserve_dispatch_attempt st sha (clk 1) bypass_backoff False i s of
        (None, s1) \<Rightarrow> s1
      | (Some attempt, s1) \<Rightarrow> handle_dispatch_failure st (clk 2) attempt s1)"

definition exhausted_asset :: "settings \<Rightarrow> media_asset \<Rightarrow> bool" where
  "exhausted_asset st a = ((ma_status a = Quarantined \<or> ma_status a = Processing)
     \<and> st_media_max_dispatch_attempts st \<le> ma_dispatch_attempts a)"

definition reserve_launch ::
  "settings \<Rightarrow> (string \<Rightarrow> string) \<Rightarrow> ecs_service \<Rightarrow> clock \<Rightarrow> bool \<Rightarrow> id \<Rightarrow> db \<Rightarrow> int option \<times> db" where
  "reserve_launch st sha ecs clk bypass_backoff i s =
     (let (budget, s1) = lock_hourly_dispatch_budget sha (clk 0) s in
      if st_media_dispatch_max_tasks_per_hour st \<le> at_attempts budget
      then (None, record_dispatch_deferred (clk 2) ''hourly_budget_exhausted'' s1)
      else (case active_ecs_tasks st ecs of
          Inl e \<Rightarrow> (None, reserve_or_fail st sha clk bypass_backoff i s1)
        | Inr (active, active_ids) \<Rightarrow>
            if st_media_dispatch_max_concurrent_tasks st \<le> used_capacity st (clk 0) i active active_ids s1
            then (None, record_dispatch_deferred (clk 2) ''concurrency_limit'' s1)
            else (case reserve_dispatch_attempt st sha (clk 1) bypass_backoff True i s1 of
                (None, s2) \<Rightarrow>
                  (None, if exists_row (\<lambda>a. ma_id a = i \<and> exhausted_asset st a) (media_assets s2)
                         then record_dispatch_exhaustion (clk 2) s2 else s2)
              | (Some attempt, s2) \<Rightarrow>
                  (Some attempt, save_throttle (budget\<lparr>at_attempts := at_attempts budget + 1, at_updated_at := clk 1\<rparr>) s2))))"

definition client_token :: "id \<Rightarrow> int \<Rightarrow> string" where
  "client_token i attempt = ''media-'' @ uuid_hex i @ ''-'' @ int_str attempt"

definition launch ::
  "settings \<Rightarrow> (string \<Rightarrow> string) \<Rightarrow> ecs_service \<Rightarrow> clock \<Rightarrow> id \<Rightarrow> int \<Rightarrow> db \<Rightarrow> bool \<times> db" where
  "launch st sha ecs clk i attempt s =
     (case es_run_task ecs (client_token i attempt) of
        RunTaskError (EcsClientError code status) \<Rightarrow>
          if 500 \<le> status then (False, record_dispatch_failure (clk 2) s)
          else (False, handle_dispatch_failure st (clk 2) attempt (clear_dispatch_state sha i attempt True s))
      | RunTaskError EcsTransportError \<Rightarrow> (False, record_dispatch_failure (clk 2) s)
      | RunTaskResponse failures tasks \<Rightarrow>
          if failures \<or> tasks \<noteq> 1
          then (False, handle_dispatch_failure st (clk 2) attempt (clear_dispatch_state sha i attempt True s))
          else (True, clear_dispatch_state sha i attempt False s))"

definition dispatch_media_processing ::
  "settings \<Rightarrow> (string \<Rightarrow> string) \<Rightarrow> ecs_service \<Rightarrow> clock \<Rightarrow> bool \<Rightarrow> id \<Rightarrow> db \<Rightarrow> (bool \<times> string option) \<times> db" where
  "dispatch_media_processing st sha ecs clk bypass_backoff i s =
     (let backend = st_media_processing_dispatch_backend st in
      if backend = ''disabled'' \<and> st_deployment_env st \<noteq> ''production'' then ((False, None), s)
      else if backend \<noteq> ''ecs'' \<or> \<not> ecs_configured st
        then ((False, None), reserve_or_fail st sha clk bypass_backoff i s)
      else if \<not> es_client ecs then ((False, None), reserve_or_fail st sha clk bypass_backoff i s)
      else (case reserve_launch st sha ecs clk bypass_backoff i s of
              (None, s1) \<Rightarrow> ((False, None), s1)
            | (Some attempt, s1) \<Rightarrow>
                (let (ok, s2) = launch st sha ecs clk i attempt s1
                 in ((ok, Some (client_token i attempt)), s2))))"

subsection \<open>Reconciliation\<close>

text \<open>
  The command \<open>reconcile_media_processing\<close>. \<open>services k\<close> and \<open>clocks k\<close> are the answers of the
  cloud service and the clock during the k-th dispatch.
\<close>

definition lapsed :: "time \<Rightarrow> time option \<Rightarrow> bool" where
  "lapsed limit t = (case t of None \<Rightarrow> True | Some u \<Rightarrow> u \<le> limit)"

definition eligible_asset :: "settings \<Rightarrow> time \<Rightarrow> media_asset \<Rightarrow> bool" where
  "eligible_asset st now a =
     (ma_dispatch_attempts a < st_media_max_dispatch_attempts st
      \<and> (ma_status a = Quarantined
           \<and> lapsed (now - seconds (st_media_dispatch_retry_seconds st)) (ma_last_dispatch_attempt_at a)
         \<or> ma_status a = Processing \<and> lapsed now (ma_processing_lease_expires_at a)))"

definition exhausted_candidate :: "settings \<Rightarrow> time \<Rightarrow> media_asset \<Rightarrow> bool" where
  "exhausted_candidate st now a =
     (st_media_max_dispatch_attempts st \<le> ma_dispatch_attempts a
      \<and> (ma_status a = Quarantined \<and> ma_last_dispatch_attempt_at a \<noteq> None
           \<and> lapsed (now - seconds (st_media_dispatch_retry_seconds st)) (ma_last_dispatch_attempt_at a)
         \<or> ma_status a = Processing \<and> lapsed now (ma_processing_lease_expires_at a)))"

definition oldest_first :: "int \<Rightarrow> (media_asset \<Rightarrow> bool) \<Rightarrow> db \<Rightarrow> id list" where
  "oldest_first limit P s = take (nat limit) (map ma_id (sort_key ma_created_at (filter P (media_assets s))))"

definition alert_exhausted_attempts :: "settings \<Rightarrow> time \<Rightarrow> int \<Rightarrow> db \<Rightarrow> db" where
  "alert_exhausted_attempts st now limit s =
     fold (\<lambda>i. record_dispatch_exhaustion now) (oldest_first limit (exhausted_candidate st now) s) s"

definition note_stalled_dispatch :: "settings \<Rightarrow> time \<Rightarrow> time \<Rightarrow> id \<Rightarrow> db \<Rightarrow> db" where
  "note_stalled_dispatch st at retry_cutoff i s =
     (if exists_row (\<lambda>a. ma_id a = i \<and> ma_status a = Quarantined \<and> ma_dispatched_at a \<noteq> None
            \<and> ma_last_dispatch_attempt_at a \<noteq> None \<and> lapsed retry_cutoff (ma_last_dispatch_attempt_at a)) (media_assets s)
      then warn at ''media_processing_task_stalled'' Warning
             ''A queued media validation task did not start and was retried.'' s
      else s)"

fun reconcile_assets ::
  "settings \<Rightarrow> (string \<Rightarrow> string) \<Rightarrow> (nat \<Rightarrow> ecs_service) \<Rightarrow> (nat \<Rightarrow> clock) \<Rightarrow> time \<Rightarrow> nat \<Rightarrow> id list \<Rightarrow> db \<Rightarrow> (nat \<times> db) result" where
  "reconcile_assets st sha services clocks now k [] s = Inr (0, s)"
| "reconcile_assets st sha services clocks now k (i # is) s =
     bind_result (recover_expired_lease (clocks k 3) now i s) (\<lambda>(recovered, s1).
     let s2 = (if recovered then s1
               else note_stalled_dispatch st (clocks k 3) (now - seconds (st_media_dispatch_retry_seconds st)) i s1);
         ((ok, token), s3) = dispatch_media_processing st sha (services k) (clocks k) True i s2
     in bind_result (reconcile_assets st sha services clocks now (k + 1) is s3) (\<lambda>(n, s4).
        Inr ((if ok then 1 else 0) + n, s4)))"

definition reconcile_media_processing ::
  "settings \<Rightarrow> (string \<Rightarrow> string) \<Rightarrow> (nat \<Rightarrow> ecs_service) \<Rightarrow> (nat \<Rightarrow> clock) \<Rightarrow> time \<Rightarrow> int option \<Rightarrow> db \<Rightarrow> ((nat \<times> nat) \<times> db) result" where
  "reconcile_media_processing st sha services clocks now limit_option s =
     (let maximum = st_media_reconcile_max_assets st;
          limit = (case limit_option of Some n \<Rightarrow> n | None \<Rightarrow> min 10 maximum) in
      if limit < 1 \<or> maximum < limit
      then Inl (CommandError (''--limit must be between 1 and '' @ int_str maximum
                  @ '' to cap one-off ECS task launches.''))
      else (let s1 = alert_exhausted_attempts st now limit s;
                ids = oldest_first limit (eligible_asset st now) s1
            in bind_result (reconcile_assets st sha services clocks now 0 ids s1) (\<lambda>(n, s2).
               Inr ((length ids, n), s2))))"

subsection \<open>What a dispatch does to the rows it shares\<close>

lemma warn_total: "\<exists>s'. raise_alert now None code sev message s = Inr s' \<and> warn now code sev message s = s'"
  using raise_alert_total [where device = None and s = s and now = now and code = code and sev = sev and m = message]
  by (auto simp: warn_def)

lemma warn_frame: "only_alerts s (warn now code sev message s)"
  using warn_total [of now code sev message s] raise_alert_frame by fastforce

lemma warn_simps [simp]:
  "api_throttles (warn now code sev message s) = api_throttles s"
  "media_assets (warn now code sev message s) = media_assets s"
  using only_alertsD [OF warn_frame] by auto

lemma record_simps [simp]:
  "api_throttles (record_dispatch_deferred now reason s) = api_throttles s"
  "media_assets (record_dispatch_deferred now reason s) = media_assets s"
  "api_throttles (record_dispatch_failure now s) = api_throttles s"
  "media_assets (record_dispatch_failure now s) = media_assets s"
  "api_throttles (record_dispatch_exhaustion now s) = api_throttles s"
  "media_assets (record_dispatch_exhaustion now s) = media_assets s"
  "api_throttles (handle_dispatch_failure st now attempt s) = api_throttles s"
  "media_assets (handle_dispatch_failure st now attempt s) = media_assets s"
  by (simp_all add: record_dispatch_deferred_def record_dispatch_failure_def record_dispatch_exhaustion_def
      handle_dispatch_failure_def Let_def)

lemma find_throttle_simps [simp]:
  "find_throttle k (save_throttle t s) = (if at_key_hash t = k \<and> find_throttle k s \<noteq> None then Some t else find_throttle k s)"
  "find_throttle k (save_asset a s) = find_throttle k s"
  "find_throttle k (s\<lparr>media_assets := rows\<rparr>) = find_throttle k s"
  by (simp_all add: find_throttle_def save_throttle_def save_asset_def table_simps)

lemma find_throttle_delete [simp]:
  "find_throttle k (delete_throttle key s) = (if k = key then None else find_throttle k s)"
proof -
  have h: "lookup_by at_key_hash k (delete_where (\<lambda>t. at_key_hash t = key) rows)
      = (if k = key then None else lookup_by at_key_hash k rows)" for rows
    by (induction rows) (auto simp: delete_where_def table_simps)
  show ?thesis by (simp add: find_throttle_def delete_throttle_def h)
qed

lemma find_throttle_cong: "api_throttles s' = api_throttles s \<Longrightarrow> find_throttle k s' = find_throttle k s"
  by (simp add: find_throttle_def)

lemma find_throttle_records [simp]:
  "find_throttle k (record_dispatch_deferred now reason s) = find_throttle k s"
  "find_throttle k (record_dispatch_failure now s) = find_throttle k s"
  "find_throttle k (record_dispatch_exhaustion now s) = find_throttle k s"
  "find_throttle k (handle_dispatch_failure st now attempt s) = find_throttle k s"
  by (simp_all add: find_throttle_def)

lemma get_or_create_find:
  "get_or_create_throttle now key s = (t, s') \<Longrightarrow>
   at_key_hash t = key \<and> find_throttle key s' = Some t
   \<and> (\<forall>k. k \<noteq> key \<longrightarrow> find_throttle k s' = find_throttle k s) \<and> media_assets s' = media_assets s
   \<and> (case find_throttle key s of Some u \<Rightarrow> t = u \<and> s' = s
      | None \<Rightarrow> at_attempts t = 0 \<and> at_window_started_at t = now)"
  by (auto simp: get_or_create_throttle_def find_throttle_def Let_def table_simps
      split: option.splits dest: lookup_by_SomeD)

lemma mark_state_find:
  assumes "state = find_throttle key s"
  shows "find_throttle k (mark_state key now attempts reuse state s) =
     (if k = key then Some ((fst (get_or_create_throttle now key s))\<lparr>at_attempts := attempts,
           at_window_started_at := if reuse then at_window_started_at (fst (get_or_create_throttle now key s)) else now,
           at_blocked_until := Some now, at_updated_at := now\<rparr>) else find_throttle k s)"
    and "media_assets (mark_state key now attempts reuse state s) = media_assets s"
proof -
  obtain t s1 where g: "get_or_create_throttle now key s = (t, s1)" by fastforce
  note gf = get_or_create_find [OF g]
  have "(if state = None then s1 else s) = s1" using gf assms by (auto split: option.splits)
  then show "find_throttle k (mark_state key now attempts reuse state s) =
     (if k = key then Some ((fst (get_or_create_throttle now key s))\<lparr>at_attempts := attempts,
           at_window_started_at := if reuse then at_window_started_at (fst (get_or_create_throttle now key s)) else now,
           at_blocked_until := Some now, at_updated_at := now\<rparr>) else find_throttle k s)"
    and "media_assets (mark_state key now attempts reuse state s) = media_assets s"
    using gf by (auto simp: mark_state_def Let_def g save_throttle_def find_throttle_def table_simps)
qed

lemma reserve_other:
  assumes "reserve_dispatch_attempt st sha now bypass mark i s = (r, s')" and "k \<noteq> asset_dispatch_state_key sha i"
  shows "find_throttle k s' = find_throttle k s"
  using assms by (auto simp: reserve_dispatch_attempt_def Let_def mark_state_find split: option.splits if_splits)

lemma reserve_or_fail_other:
  "k \<noteq> asset_dispatch_state_key sha i \<Longrightarrow> find_throttle k (reserve_or_fail st sha clk bypass i s) = find_throttle k s"
  by (auto simp: reserve_or_fail_def dest: reserve_other split: prod.splits option.splits)

lemma clear_other:
  "k \<noteq> asset_dispatch_state_key sha i \<Longrightarrow> find_throttle k (clear_dispatch_state sha i attempt c s) = find_throttle k s"
  by (auto simp: clear_dispatch_state_def Let_def split: option.splits)

lemma launch_other:
  "launch st sha ecs clk i attempt s = (ok, s') \<Longrightarrow> k \<noteq> asset_dispatch_state_key sha i \<Longrightarrow>
   find_throttle k s' = find_throttle k s"
  by (auto simp: launch_def clear_other split: run_task_outcome.splits ecs_error.splits if_splits)

definition budget_row :: "(string \<Rightarrow> string) \<Rightarrow> db \<Rightarrow> api_throttle option" where
  "budget_row sha s = find_throttle (dispatch_budget_key sha) s"

text \<open>The budget of the window that a dispatch at \<open>now\<close> belongs to.\<close>

definition budget_now :: "(string \<Rightarrow> string) \<Rightarrow> time \<Rightarrow> db \<Rightarrow> int \<times> time" where
  "budget_now sha now s = (case budget_row sha s of
       None \<Rightarrow> (0, now)
     | Some b \<Rightarrow> if at_window_started_at b \<le> now - hours 1 then (0, now) else (at_attempts b, at_window_started_at b))"

lemma lock_budget:
  assumes "lock_hourly_dispatch_budget sha now s = (b, s')"
  shows "budget_row sha s' = Some b" and "(at_attempts b, at_window_started_at b) = budget_now sha now s"
    and "at_key_hash b = dispatch_budget_key sha"
    and "k \<noteq> dispatch_budget_key sha \<Longrightarrow> find_throttle k s' = find_throttle k s"
    and "media_assets s' = media_assets s"
proof -
  obtain t s1 where g: "get_or_create_throttle now (dispatch_budget_key sha) s = (t, s1)" by fastforce
  note gf = get_or_create_find [OF g]
  show "budget_row sha s' = Some b" "(at_attempts b, at_window_started_at b) = budget_now sha now s"
    "at_key_hash b = dispatch_budget_key sha"
    "k \<noteq> dispatch_budget_key sha \<Longrightarrow> find_throttle k s' = find_throttle k s"
    "media_assets s' = media_assets s"
    using assms gf
    by (auto simp: lock_hourly_dispatch_budget_def g Let_def budget_row_def budget_now_def save_throttle_def
        split: if_splits option.splits) (auto simp: find_throttle_def table_simps)
qed

lemma dispatch_budget_step:
  assumes d: "dispatch_media_processing st sha ecs clk bypass i s = ((ok, token), s')"
    and key: "asset_dispatch_state_key sha i \<noteq> dispatch_budget_key sha"
  shows "(case token of
       None \<Rightarrow> budget_row sha s' = budget_row sha s
         \<or> (\<exists>b. budget_row sha s' = Some b \<and> (at_attempts b, at_window_started_at b) = budget_now sha (clk 0) s)
     | Some t \<Rightarrow> fst (budget_now sha (clk 0) s) < st_media_dispatch_max_tasks_per_hour st
         \<and> (\<exists>b. budget_row sha s' = Some b \<and> at_attempts b = fst (budget_now sha (clk 0) s) + 1
              \<and> at_window_started_at b = snd (budget_now sha (clk 0) s)))"
proof -
  have nk: "dispatch_budget_key sha \<noteq> asset_dispatch_state_key sha i" using key by simp
  obtain b s1 where l: "lock_hourly_dispatch_budget sha (clk 0) s = (b, s1)" by fastforce
  note lb = lock_budget [OF l]
  consider (skip) "token = None" "budget_row sha s' = budget_row sha s"
    | (none) "token = None" "reserve_launch st sha ecs clk bypass i s = (None, s')"
    | (some) n s2 where "token = Some (client_token i n)" "reserve_launch st sha ecs clk bypass i s = (Some n, s2)"
        "launch st sha ecs clk i n s2 = (ok, s')"
    using d reserve_or_fail_other [OF nk]
    by (auto simp: dispatch_media_processing_def Let_def budget_row_def split: if_splits prod.splits option.splits)
  then show ?thesis
  proof cases
    case skip
    then show ?thesis by simp
  next
    case none
    have "budget_row sha s' = budget_row sha s1"
      using none(2) reserve_or_fail_other [OF nk] reserve_other [OF _ nk]
      by (auto simp: reserve_launch_def l Let_def budget_row_def split: if_splits sum.splits prod.splits option.splits)
    then show ?thesis using none(1) lb by auto
  next
    case some
    obtain s3 where less: "at_attempts b < st_media_dispatch_max_tasks_per_hour st"
      and r: "reserve_dispatch_attempt st sha (clk 1) bypass True i s1 = (Some n, s3)"
      and s2: "s2 = save_throttle (b\<lparr>at_attempts := at_attempts b + 1, at_updated_at := clk 1\<rparr>) s3"
      using some(2) by (auto simp: reserve_launch_def l Let_def split: if_splits sum.splits prod.splits option.splits)
    have "budget_row sha s3 = Some b" using reserve_other [OF r nk] lb(1) by (simp add: budget_row_def)
    then have "budget_row sha s2 = Some (b\<lparr>at_attempts := at_attempts b + 1, at_updated_at := clk 1\<rparr>)"
      using lb(3) by (simp add: s2 budget_row_def)
    then have "budget_row sha s' = Some (b\<lparr>at_attempts := at_attempts b + 1, at_updated_at := clk 1\<rparr>)"
      using launch_other [OF some(3) nk] by (simp add: budget_row_def)
    moreover have "fst (budget_now sha (clk 0) s) = at_attempts b" "snd (budget_now sha (clk 0) s) = at_window_started_at b"
      using lb(2) [symmetric] by simp_all
    ultimately show ?thesis using some(1) less by simp
  qed
qed


subsection \<open>Runs of dispatches\<close>

record dispatch_call =
  ca_service :: ecs_service
  ca_clock :: clock
  ca_bypass :: bool
  ca_asset :: id

definition run_call :: "settings \<Rightarrow> (string \<Rightarrow> string) \<Rightarrow> dispatch_call \<Rightarrow> db \<Rightarrow> (bool \<times> string option) \<times> db" where
  "run_call st sha c s = dispatch_media_processing st sha (ca_service c) (ca_clock c) (ca_bypass c) (ca_asset c) s"

fun dispatch_run :: "settings \<Rightarrow> (string \<Rightarrow> string) \<Rightarrow> dispatch_call list \<Rightarrow> db \<Rightarrow> string list \<times> db" where
  "dispatch_run st sha [] s = ([], s)"
| "dispatch_run st sha (c # cs) s =
     (let ((ok, token), s1) = run_call st sha c s; (tokens, s2) = dispatch_run st sha cs s1
      in ((case token of None \<Rightarrow> [] | Some t \<Rightarrow> [t]) @ tokens, s2))"

definition keys_apart :: "(string \<Rightarrow> string) \<Rightarrow> bool" where
  "keys_apart sha = (\<forall>i. asset_dispatch_state_key sha i \<noteq> dispatch_budget_key sha)"

definition call_time :: "dispatch_call \<Rightarrow> time" where
  "call_time c = ca_clock c 0"

text \<open>Inside one budget window the launches are bounded by what is left of the budget.\<close>

lemma window_run:
  assumes "keys_apart sha" and "budget_row sha s = Some b" and "at_attempts b \<le> st_media_dispatch_max_tasks_per_hour st"
    and "\<forall>c\<in>set cs. call_time c < at_window_started_at b + hours 1"
    and "dispatch_run st sha cs s = (tokens, s')"
  shows "int (length tokens) + at_attempts b \<le> st_media_dispatch_max_tasks_per_hour st"
  using assms
proof (induction cs arbitrary: s b tokens)
  case Nil
  then show ?case by simp
next
  case (Cons c cs)
  obtain ok token s1 where d: "run_call st sha c s = ((ok, token), s1)" by (metis surj_pair)
  obtain ts where ts: "dispatch_run st sha cs s1 = (ts, s')" "tokens = (case token of None \<Rightarrow> [] | Some t \<Rightarrow> [t]) @ ts"
    using Cons.prems(5) d by (auto split: prod.splits)
  have bn: "budget_now sha (ca_clock c 0) s = (at_attempts b, at_window_started_at b)"
    using Cons.prems(2,4) by (auto simp: budget_now_def call_time_def)
  have step: "case token of
       None \<Rightarrow> budget_row sha s1 = budget_row sha s
         \<or> (\<exists>b. budget_row sha s1 = Some b \<and> (at_attempts b, at_window_started_at b) = budget_now sha (ca_clock c 0) s)
     | Some t \<Rightarrow> fst (budget_now sha (ca_clock c 0) s) < st_media_dispatch_max_tasks_per_hour st
         \<and> (\<exists>b. budget_row sha s1 = Some b \<and> at_attempts b = fst (budget_now sha (ca_clock c 0) s) + 1
              \<and> at_window_started_at b = snd (budget_now sha (ca_clock c 0) s))"
    using dispatch_budget_step [OF d [unfolded run_call_def]] Cons.prems(1) by (simp add: keys_apart_def)
  obtain b1 where b1: "budget_row sha s1 = Some b1" "at_window_started_at b1 = at_window_started_at b"
    "at_attempts b1 = at_attempts b + (if token = None then 0 else 1)"
    "at_attempts b1 \<le> st_media_dispatch_max_tasks_per_hour st"
    using step Cons.prems(2,3) bn by (cases token) auto
  have "int (length ts) + at_attempts b1 \<le> st_media_dispatch_max_tasks_per_hour st"
    using Cons.IH [OF Cons.prems(1) b1(1,4) _ ts(1)] Cons.prems(4) b1(2) by simp
  then show ?case using b1(3) ts(2) by (cases token) auto
qed

text \<open>
  A run whose calls lie within one hour meets at most one change of the budget window, so it
  launches at most twice the hourly number of tasks.
\<close>

lemma hour_run:
  assumes "keys_apart sha" and "0 \<le> st_media_dispatch_max_tasks_per_hour st"
    and "case budget_row sha s of None \<Rightarrow> True | Some b \<Rightarrow> 0 \<le> at_attempts b \<and> at_attempts b \<le> st_media_dispatch_max_tasks_per_hour st"
    and "sorted (map call_time cs)" and "\<forall>c\<in>set cs. start \<le> call_time c \<and> call_time c < start + hours 1"
    and "dispatch_run st sha cs s = (tokens, s')"
  shows "int (length tokens) \<le> 2 * st_media_dispatch_max_tasks_per_hour st
    - (case budget_row sha s of None \<Rightarrow> st_media_dispatch_max_tasks_per_hour st | Some b \<Rightarrow> at_attempts b)"
  using assms
proof (induction cs arbitrary: s tokens)
  case Nil
  then show ?case by (auto split: option.splits)
next
  case (Cons c cs)
  let ?max = "st_media_dispatch_max_tasks_per_hour st"
  obtain ok token s1 where d: "run_call st sha c s = ((ok, token), s1)" by (metis surj_pair)
  obtain ts where ts: "dispatch_run st sha cs s1 = (ts, s')" "tokens = (case token of None \<Rightarrow> [] | Some t \<Rightarrow> [t]) @ ts"
    using Cons.prems(6) d by (auto split: prod.splits)
  have step: "case token of
       None \<Rightarrow> budget_row sha s1 = budget_row sha s
         \<or> (\<exists>b. budget_row sha s1 = Some b \<and> (at_attempts b, at_window_started_at b) = budget_now sha (ca_clock c 0) s)
     | Some t \<Rightarrow> fst (budget_now sha (ca_clock c 0) s) < ?max
         \<and> (\<exists>b. budget_row sha s1 = Some b \<and> at_attempts b = fst (budget_now sha (ca_clock c 0) s) + 1
              \<and> at_window_started_at b = snd (budget_now sha (ca_clock c 0) s))"
    using dispatch_budget_step [OF d [unfolded run_call_def]] Cons.prems(1) by (simp add: keys_apart_def)
  show ?case
  proof (cases "snd (budget_now sha (ca_clock c 0) s) = ca_clock c 0 \<and> budget_row sha s1 \<noteq> budget_row sha s")
    case True
    then obtain b1 where b1: "budget_row sha s1 = Some b1" "at_window_started_at b1 = ca_clock c 0"
      "at_attempts b1 = fst (budget_now sha (ca_clock c 0) s) + (if token = None then 0 else 1)" "at_attempts b1 \<le> ?max"
      using step Cons.prems(2,3) by (cases token) (auto simp: budget_now_def split: option.splits if_splits)
    have "\<forall>x\<in>set cs. call_time x < at_window_started_at b1 + hours 1"
      using Cons.prems(4,5) b1(2) by (force simp: call_time_def)
    then have "int (length ts) + at_attempts b1 \<le> ?max" by (rule window_run [OF Cons.prems(1) b1(1,4) _ ts(1)])
    moreover have "0 \<le> fst (budget_now sha (ca_clock c 0) s)"
      using Cons.prems(3) by (auto simp: budget_now_def split: option.splits)
    ultimately have "int (length tokens) \<le> ?max - fst (budget_now sha (ca_clock c 0) s)"
      using b1(3) ts(2) by (cases token) auto
    then show ?thesis using Cons.prems(3) True
      by (auto simp: budget_now_def split: option.splits if_splits)
  next
    case False
    have srt: "sorted (map call_time cs)" "\<forall>c\<in>set cs. start \<le> call_time c \<and> call_time c < start + hours 1"
      using Cons.prems(4,5) by auto
    note IH = Cons.IH [OF Cons.prems(1,2) _ srt ts(1)]
    show ?thesis
    proof (cases "budget_row sha s1 = budget_row sha s")
      case same: True
      have "token = None"
      proof (rule ccontr)
        assume "token \<noteq> None"
        then obtain t where t: "token = Some t" by blast
        obtain b where b: "budget_row sha s = Some b" "at_attempts b = fst (budget_now sha (ca_clock c 0) s) + 1"
            "at_window_started_at b = snd (budget_now sha (ca_clock c 0) s)"
          using step unfolding t same option.case by blast
        show False
          using b(2,3) unfolding budget_now_def b(1) option.case
          by (cases "at_window_started_at b \<le> ca_clock c 0 - hours 1") simp_all
      qed
      then show ?thesis using IH same ts(2) Cons.prems(3) by simp
    next
      case other: False
      then have "snd (budget_now sha (ca_clock c 0) s) \<noteq> ca_clock c 0" using False by blast
      then obtain b where b: "budget_row sha s = Some b" "budget_now sha (ca_clock c 0) s = (at_attempts b, at_window_started_at b)"
        by (auto simp: budget_now_def split: option.splits if_splits)
      then obtain b1 where b1: "budget_row sha s1 = Some b1" "at_attempts b1 = at_attempts b + (if token = None then 0 else 1)"
          "at_attempts b1 \<le> ?max" "0 \<le> at_attempts b1"
        using step other Cons.prems(3) by (cases token) auto
      then have "int (length ts) \<le> 2 * ?max - at_attempts b1" using IH by simp
      then show ?thesis using b1(2) b(1) ts(2) by (cases token) auto
    qed
  qed
qed

subsection \<open>The rows a dispatch may touch\<close>

text \<open>\<open>queue_media_processing\<close>: what runs as soon as the transaction of the upload has committed.\<close>

definition queue_media_processing ::
  "settings \<Rightarrow> (string \<Rightarrow> string) \<Rightarrow> ecs_service \<Rightarrow> clock \<Rightarrow> id \<Rightarrow> db \<Rightarrow> db" where
  "queue_media_processing st sha ecs clk i s = snd (dispatch_media_processing st sha ecs clk False i s)"

text \<open>
  \<open>dispatch_only keys s t\<close>: nothing but throttle rows under the keys \<open>keys\<close>, media assets and alerts
  differs.
\<close>

definition throttles_besides :: "string set \<Rightarrow> db \<Rightarrow> api_throttle list" where
  "throttles_besides keys s = filter (\<lambda>r. at_key_hash r \<notin> keys) (api_throttles s)"

definition dispatch_only :: "string set \<Rightarrow> db \<Rightarrow> db \<Rightarrow> bool" where
  "dispatch_only keys s t =
     (t = s\<lparr>api_throttles := api_throttles t, media_assets := media_assets t, alerts := alerts t, next_pk := next_pk t\<rparr>
      \<and> throttles_besides keys t = throttles_besides keys s)"

lemma dispatch_only_refl [simp]: "dispatch_only keys s s"
  by (simp add: dispatch_only_def)

lemma dispatch_only_trans: "dispatch_only keys s t \<Longrightarrow> dispatch_only keys t r \<Longrightarrow> dispatch_only keys s r"
  by (cases s; cases t; cases r) (auto simp: dispatch_only_def throttles_besides_def)

lemma dispatch_only_alerts: "only_alerts s t \<Longrightarrow> dispatch_only keys s t"
  by (auto simp: only_alerts_def dispatch_only_def throttles_besides_def)

lemma dispatch_only_assets [simp]:
  "dispatch_only keys s (save_asset a s)" "dispatch_only keys s (s\<lparr>media_assets := rows\<rparr>)"
  by (simp_all add: dispatch_only_def throttles_besides_def save_asset_def)

lemma filter_save_by: "key x \<in> keys \<Longrightarrow>
  filter (\<lambda>r. key r \<notin> keys) (save_by key x rows) = filter (\<lambda>r. key r \<notin> keys) rows"
  by (induction rows) (auto simp: save_by_def)

lemma dispatch_only_throttles:
  "at_key_hash t \<in> keys \<Longrightarrow> dispatch_only keys s (save_throttle t s)"
  "key \<in> keys \<Longrightarrow> dispatch_only keys s (delete_throttle key s)"
  "key \<in> keys \<Longrightarrow> dispatch_only keys s (snd (get_or_create_throttle now key s))"
  by (auto simp: dispatch_only_def throttles_besides_def save_throttle_def delete_throttle_def delete_where_def
      get_or_create_throttle_def Let_def filter_save_by intro: filter_cong split: option.splits)

lemma dispatch_only_records [simp]:
  "dispatch_only keys s (record_dispatch_deferred now reason s)" "dispatch_only keys s (record_dispatch_failure now s)"
  "dispatch_only keys s (record_dispatch_exhaustion now s)" "dispatch_only keys s (handle_dispatch_failure st now attempt s)"
proof -
  have w: "dispatch_only keys r (warn now code sev m r)" for code sev m r by (rule dispatch_only_alerts [OF warn_frame])
  then show "dispatch_only keys s (record_dispatch_deferred now reason s)" "dispatch_only keys s (record_dispatch_failure now s)"
    "dispatch_only keys s (record_dispatch_exhaustion now s)" "dispatch_only keys s (handle_dispatch_failure st now attempt s)"
    by (auto simp: record_dispatch_deferred_def record_dispatch_failure_def record_dispatch_exhaustion_def
        handle_dispatch_failure_def Let_def intro: dispatch_only_trans [OF w w])
qed

lemma mark_state_only:
  assumes "key \<in> keys"
  shows "dispatch_only keys s (mark_state key now attempts reuse state s)"
proof -
  obtain t s1 where g: "get_or_create_throttle now key s = (t, s1)" by fastforce
  then have "at_key_hash t \<in> keys" "dispatch_only keys s s1"
    using get_or_create_find [OF g] dispatch_only_throttles(3) [OF assms, of s now] assms by simp_all
  then show ?thesis
    by (auto simp: mark_state_def Let_def g intro: dispatch_only_trans [OF _ dispatch_only_throttles(1)])
qed

lemma reserve_only:
  assumes "reserve_dispatch_attempt st sha now bypass mark i s = (r, t)" and "asset_dispatch_state_key sha i \<in> keys"
  shows "dispatch_only keys s t"
  using assms
  by (auto simp: reserve_dispatch_attempt_def Let_def split: option.splits if_splits
      intro: dispatch_only_trans [OF mark_state_only dispatch_only_assets(1)]
        dispatch_only_trans [OF dispatch_only_throttles(2) dispatch_only_assets(1)] dispatch_only_throttles(2))

lemma reserve_or_fail_only:
  "asset_dispatch_state_key sha i \<in> keys \<Longrightarrow> dispatch_only keys s (reserve_or_fail st sha clk bypass i s)"
  by (auto simp: reserve_or_fail_def split: prod.splits option.splits
      intro: reserve_only dispatch_only_trans [OF reserve_only dispatch_only_records(4)])

lemma clear_only:
  "asset_dispatch_state_key sha i \<in> keys \<Longrightarrow> dispatch_only keys s (clear_dispatch_state sha i attempt c s)"
  by (auto simp: clear_dispatch_state_def Let_def split: option.splits
      intro: dispatch_only_trans [OF dispatch_only_throttles(2) dispatch_only_assets(2)] dispatch_only_throttles(2))

lemma launch_only:
  "launch st sha ecs clk i attempt s = (ok, t) \<Longrightarrow> asset_dispatch_state_key sha i \<in> keys \<Longrightarrow> dispatch_only keys s t"
  by (auto simp: launch_def split: run_task_outcome.splits ecs_error.splits if_splits
      intro: clear_only dispatch_only_trans [OF clear_only dispatch_only_records(4)])

lemma lock_budget_only:
  assumes "lock_hourly_dispatch_budget sha now s = (b, t)" and "dispatch_budget_key sha \<in> keys"
  shows "dispatch_only keys s t"
proof -
  obtain b1 s1 where g: "get_or_create_throttle now (dispatch_budget_key sha) s = (b1, s1)" by fastforce
  then have "at_key_hash b1 \<in> keys" "dispatch_only keys s s1"
    using get_or_create_find [OF g] dispatch_only_throttles(3) [OF assms(2), of s now] assms(2) by simp_all
  then show ?thesis using assms(1)
    by (auto simp: lock_hourly_dispatch_budget_def g Let_def split: if_splits
        intro: dispatch_only_trans [OF _ dispatch_only_throttles(1)])
qed

lemma reserve_launch_only:
  assumes "reserve_launch st sha ecs clk bypass i s = (r, t)"
    and "{dispatch_budget_key sha, asset_dispatch_state_key sha i} \<subseteq> keys"
  shows "dispatch_only keys s t"
proof -
  obtain b s1 where l: "lock_hourly_dispatch_budget sha (clk 0) s = (b, s1)" by fastforce
  have b: "at_key_hash b \<in> keys" "dispatch_only keys s s1" using lock_budget(3) [OF l] lock_budget_only [OF l] assms(2) by auto
  have k: "asset_dispatch_state_key sha i \<in> keys" using assms(2) by simp
  have "dispatch_only keys s1 t"
    using assms(1) b(1)
    by (auto simp: reserve_launch_def l Let_def split: if_splits sum.splits prod.splits option.splits
        intro: reserve_or_fail_only [OF k] reserve_only [OF _ k] dispatch_only_trans [OF reserve_only [OF _ k] dispatch_only_records(3)]
          dispatch_only_trans [OF reserve_only [OF _ k] dispatch_only_throttles(1)])
  then show ?thesis using b(2) dispatch_only_trans by blast
qed

lemma queue_media_processing_only:
  "dispatch_only {dispatch_budget_key sha, asset_dispatch_state_key sha i} s (queue_media_processing st sha ecs clk i s)"
  by (auto simp: queue_media_processing_def dispatch_media_processing_def Let_def split: prod.splits option.splits
      intro: reserve_or_fail_only reserve_launch_only dispatch_only_trans [OF reserve_launch_only launch_only])

subsection \<open>Properties\<close>

text \<open>C34: The hourly budget of worker tasks holds over any run of dispatches, whatever the
  cloud service answers: as long as the budget window stays open at most what is left of it is
  launched, and no run whose calls lie within one hour launches more than twice the hourly number.
  (The state key of an asset never collides with the budget key.)\<close>

theorem dispatch_budget_holds:
  assumes keys: "keys_apart sha" and max: "0 \<le> st_media_dispatch_max_tasks_per_hour st"
    and budget: "case budget_row sha s of None \<Rightarrow> True
        | Some b \<Rightarrow> 0 \<le> at_attempts b \<and> at_attempts b \<le> st_media_dispatch_max_tasks_per_hour st"
    and times: "sorted (map call_time cs)" "\<forall>c\<in>set cs. start \<le> call_time c \<and> call_time c < start + hours 1"
    and run: "dispatch_run st sha cs s = (tokens, s')"
  shows "int (length tokens) \<le> 2 * st_media_dispatch_max_tasks_per_hour st
    \<and> (\<forall>b. budget_row sha s = Some b \<and> start + hours 1 \<le> at_window_started_at b + hours 1 \<longrightarrow>
         int (length tokens) \<le> st_media_dispatch_max_tasks_per_hour st - at_attempts b)"
proof (intro conjI allI impI)
  show "int (length tokens) \<le> 2 * st_media_dispatch_max_tasks_per_hour st"
    using hour_run [OF keys max budget times run] budget max by (cases "budget_row sha s") auto
  fix b assume b: "budget_row sha s = Some b \<and> start + hours 1 \<le> at_window_started_at b + hours 1"
  have "\<forall>c\<in>set cs. call_time c < at_window_started_at b + hours 1" using times(2) b by force
  then show "int (length tokens) \<le> st_media_dispatch_max_tasks_per_hour st - at_attempts b"
    using window_run [OF keys, of s b st cs tokens s'] b budget run by simp
qed

definition ecs_settings :: settings where
  "ecs_settings = default_settings\<lparr>st_media_processing_dispatch_backend := ''ecs'',
     st_ecs_media_cluster := ''c'', st_ecs_media_task_definition := ''t'', st_ecs_media_container_name := ''app'',
     st_ecs_media_subnet_ids := [''s''], st_ecs_media_security_group_ids := [''g'']\<rparr>"

definition timing_out_service :: ecs_service where
  "timing_out_service = \<lparr>es_client = True, es_pages = [], es_started_by = Inr [],
     es_run_task = (\<lambda>t. RunTaskError EcsTransportError)\<rparr>"

definition tagged :: "string \<Rightarrow> string" where
  "tagged x = x"

lemma tagged_apart: "keys_apart tagged"
  by (simp add: keys_apart_def tagged_def asset_dispatch_state_key_def dispatch_budget_key_def)

definition example_call :: "time \<Rightarrow> dispatch_call" where
  "example_call t = \<lparr>ca_service = timing_out_service, ca_clock = (\<lambda>n. t), ca_bypass = True, ca_asset = 3\<rparr>"

theorem dispatch_budget_holds_witness:
  "\<exists>tokens s'. dispatch_run ecs_settings tagged [example_call 5, example_call 9] (empty_db\<lparr>media_assets := [example_asset 3]\<rparr>) = (tokens, s')
     \<and> tokens \<noteq> [] \<and> int (length tokens) \<le> 2 * st_media_dispatch_max_tasks_per_hour ecs_settings"
proof -
  let ?s = "empty_db\<lparr>media_assets := [example_asset 3]\<rparr>"
  obtain tokens s' where run: "dispatch_run ecs_settings tagged [example_call 5, example_call 9] ?s = (tokens, s')"
    by fastforce
  have "fst (dispatch_run ecs_settings tagged [example_call 5, example_call 9] ?s) \<noteq> []" by code_simp
  moreover have "0 \<le> st_media_dispatch_max_tasks_per_hour ecs_settings" by code_simp
  moreover have "budget_row tagged ?s = None" by (simp add: budget_row_def find_throttle_def empty_db_def)
  ultimately show ?thesis
    using dispatch_budget_holds [OF tagged_apart _ _ _ _ run, of 5] run by (simp add: example_call_def call_time_def)
qed

text \<open>A task is launched only when everything holds at once: the ECS backend is configured
  within its limits, the asset exists and is quarantined, the hourly budget is not used up and
  the running and recently started tasks leave capacity; and the asset then carries the attempt
  and the time of the launch.\<close>

theorem launch_needs_all_guards:
  assumes "dispatch_media_processing st sha ecs clk bypass i s = ((ok, Some token), s')"
    and "keys_apart sha"
  shows "ecs_configured st \<and> st_media_dispatch_max_concurrent_tasks st \<le> 2
    \<and> st_media_dispatch_max_tasks_per_hour st \<le> 6
    \<and> (\<exists>a. find_asset i s = Some a \<and> ma_status a = Quarantined)
    \<and> fst (budget_now sha (clk 0) s) < st_media_dispatch_max_tasks_per_hour st
    \<and> (\<exists>active ids. active_ecs_tasks st ecs = Inr (active, ids)
         \<and> used_capacity st (clk 0) i active ids s < st_media_dispatch_max_concurrent_tasks st)
    \<and> (\<exists>n. token = client_token i n)"
proof -
  obtain b s1 where l: "lock_hourly_dispatch_budget sha (clk 0) s = (b, s1)" by fastforce
  note lb = lock_budget [OF l]
  obtain n s2 where rl: "ecs_configured st" "reserve_launch st sha ecs clk bypass i s = (Some n, s2)" "token = client_token i n"
    using assms(1) by (auto simp: dispatch_media_processing_def Let_def split: if_splits prod.splits option.splits)
  obtain active ids s3 where r: "at_attempts b < st_media_dispatch_max_tasks_per_hour st"
    "active_ecs_tasks st ecs = Inr (active, ids)"
    "used_capacity st (clk 0) i active ids s1 < st_media_dispatch_max_concurrent_tasks st"
    "reserve_dispatch_attempt st sha (clk 1) bypass True i s1 = (Some n, s3)"
    using rl(2) by (auto simp: reserve_launch_def l Let_def split: if_splits sum.splits prod.splits option.splits)
  have "find_asset i s1 = find_asset i s" using lb(5) by (simp add: find_asset_def)
  moreover have "\<exists>a. find_asset i s1 = Some a \<and> ma_status a = Quarantined"
    using r(4) by (auto simp: reserve_dispatch_attempt_def Let_def split: option.splits if_splits)
  moreover have "used_capacity st (clk 0) i active ids s1 = used_capacity st (clk 0) i active ids s"
    using lb(5) by (simp add: used_capacity_def recently_dispatched_def)
  moreover have "at_attempts b = fst (budget_now sha (clk 0) s)" using lb(2) [symmetric] by simp
  moreover have "st_media_dispatch_max_concurrent_tasks st \<le> 2" "st_media_dispatch_max_tasks_per_hour st \<le> 6"
    using rl(1) by (auto simp: ecs_configured_def invalid_limits_def split: if_splits)
  ultimately show ?thesis using rl r by auto
qed

theorem launch_needs_all_guards_witness:
  "\<exists>ok token s'. dispatch_media_processing ecs_settings tagged timing_out_service (\<lambda>n. 5) True 3
       (empty_db\<lparr>media_assets := [example_asset 3]\<rparr>) = ((ok, Some token), s') \<and> ecs_configured ecs_settings
     \<and> (\<exists>n. token = client_token 3 n)"
proof -
  let ?r = "dispatch_media_processing ecs_settings tagged timing_out_service (\<lambda>n. 5) True 3
       (empty_db\<lparr>media_assets := [example_asset 3]\<rparr>)"
  have "snd (fst ?r) \<noteq> None" by code_simp
  then obtain ok token s' where r: "?r = ((ok, Some token), s')"
    by (cases ?r) auto
  show ?thesis using launch_needs_all_guards [OF r tagged_apart] r by blast
qed

text \<open>The outcomes of a launch after which the task may or may not have been accepted.\<close>

definition ambiguous :: "run_task_outcome \<Rightarrow> bool" where
  "ambiguous r = (case r of
       RunTaskError (EcsClientError code status) \<Rightarrow> 500 \<le> status
     | RunTaskError EcsTransportError \<Rightarrow> True
     | RunTaskResponse failures tasks \<Rightarrow> False)"

lemma launch_state:
  assumes "launch st sha ecs clk i n s = (ok, s')" and "key = asset_dispatch_state_key sha i"
    and "find_throttle key s = Some t" and "at_attempts t = n" and "find_asset i s = Some a"
    and "ma_dispatch_attempts a = n"
  shows "find_throttle key s' = (if ambiguous (es_run_task ecs (client_token i n)) then Some t else None)"
    and "\<exists>d. find_asset i s' = Some (a\<lparr>ma_dispatched_at := d\<rparr>)"
proof -
  have upd: "lookup_by ma_id i (update_where (\<lambda>a. ma_id a = i \<and> ma_dispatch_attempts a = n) (\<lambda>a. a\<lparr>ma_dispatched_at := None\<rparr>) rows)
      = map_option (\<lambda>a. if ma_dispatch_attempts a = n then a\<lparr>ma_dispatched_at := None\<rparr> else a) (lookup_by ma_id i rows)" for rows
    by (induction rows) (auto simp: table_simps)
  have clr1: "find_throttle key (clear_dispatch_state sha i n c s) = None" for c
    using assms(2-4) by (simp add: clear_dispatch_state_def Let_def)
  have clr2: "\<exists>d. find_asset i (clear_dispatch_state sha i n c s) = Some (a\<lparr>ma_dispatched_at := d\<rparr>)" for c
  proof (cases c)
    case True
    then show ?thesis using assms(2-6)
      by (auto simp: clear_dispatch_state_def Let_def find_asset_def delete_throttle_def upd intro!: exI [of _ None])
  next
    case False
    then show ?thesis using assms(2-6)
      by (auto simp: clear_dispatch_state_def Let_def find_asset_def delete_throttle_def intro!: exI [of _ "ma_dispatched_at a"])
  qed
  have same: "\<exists>d. find_asset i s = Some (a\<lparr>ma_dispatched_at := d\<rparr>)" using assms(5) by (auto intro: exI [of _ "ma_dispatched_at a"])
  have fr: "find_asset i (record_dispatch_failure now u) = find_asset i u"
    "find_asset i (handle_dispatch_failure st now m u) = find_asset i u" for now m u
    by (simp_all add: find_asset_def)
  show "find_throttle key s' = (if ambiguous (es_run_task ecs (client_token i n)) then Some t else None)"
    "\<exists>d. find_asset i s' = Some (a\<lparr>ma_dispatched_at := d\<rparr>)"
    using assms(1,3) clr1 clr2 same fr
    by (auto simp: launch_def ambiguous_def split: run_task_outcome.splits ecs_error.splits if_splits)
qed

text \<open>An idempotency token is used again exactly while its outcome is unknown. After a
  transport error or a server error of the launch call the next reservation within the reuse
  window gives the same attempt, hence the same client token; after a definite answer, or once
  the window is over, it gives the next attempt, and none beyond the maximum.\<close>

theorem client_token_reuse:
  assumes r: "reserve_dispatch_attempt st sha now bypass True i s = (Some n, s1)"
    and l: "launch st sha ecs clk i n s1 = (ok, s2)"
    and a: "find_asset i s = Some a" "0 \<le> ma_dispatch_attempts a"
  shows "\<exists>t. find_throttle (asset_dispatch_state_key sha i) s1 = Some t \<and>
    fst (reserve_dispatch_attempt st sha later True True i s2) =
      (if ambiguous (es_run_task ecs (client_token i n))
          \<and> later - seconds (st_media_dispatch_ambiguity_reuse_seconds st) < at_window_started_at t then Some n
       else if st_media_max_dispatch_attempts st \<le> n then None else Some (n + 1))
    \<and> (\<not> reuses_attempt st now a (find_throttle (asset_dispatch_state_key sha i) s) \<longrightarrow> at_window_started_at t = now)"
proof -
  let ?key = "asset_dispatch_state_key sha i"
  obtain t where t: "find_throttle ?key s1 = Some t" "at_attempts t = n" "0 < n"
      "\<not> reuses_attempt st now a (find_throttle ?key s) \<Longrightarrow> at_window_started_at t = now"
    and row: "\<exists>d. find_asset i s1 = Some (a\<lparr>ma_dispatch_attempts := n, ma_last_dispatch_attempt_at := Some now, ma_dispatched_at := d\<rparr>)"
    and q: "ma_status a = Quarantined"
  proof -
    let ?reuse = "reuses_attempt st now a (find_throttle ?key s)"
    have q: "ma_status a = Quarantined" and n: "n = ma_dispatch_attempts a + (if ?reuse then 0 else 1)"
      and s1: "s1 = save_asset (a\<lparr>ma_dispatch_attempts := n, ma_last_dispatch_attempt_at := Some now,
           ma_dispatched_at := Some now\<rparr>) (mark_state ?key now n ?reuse (find_throttle ?key s) s)"
      using r a(1) by (auto simp: reserve_dispatch_attempt_def Let_def split: if_splits)
    have "find_asset i (mark_state ?key now n ?reuse (find_throttle ?key s) s) = Some a"
      using a(1) by (simp add: find_asset_def mark_state_find)
    then have row: "find_asset i s1 = Some (a\<lparr>ma_dispatch_attempts := n, ma_last_dispatch_attempt_at := Some now,
        ma_dispatched_at := Some now\<rparr>)"
      using find_asset_id [OF a(1)] by (simp add: s1)
    have pos: "0 < n" using n a(2) by (auto simp: reuses_attempt_def split: if_splits option.splits)
    define t0 where "t0 = fst (get_or_create_throttle now ?key s)"
    have f: "find_throttle ?key s1 = Some (t0\<lparr>at_attempts := n,
        at_window_started_at := if ?reuse then at_window_started_at t0 else now,
        at_blocked_until := Some now, at_updated_at := now\<rparr>)"
      by (simp add: s1 mark_state_find t0_def)
    show thesis
      by (rule that [OF f _ pos _ _ q]) (use row in auto)
  qed
  obtain d where d: "find_asset i s1 = Some (a\<lparr>ma_dispatch_attempts := n, ma_last_dispatch_attempt_at := Some now, ma_dispatched_at := d\<rparr>)"
    using row by blast
  note ls = launch_state [OF l refl t(1,2) d]
  have f2: "find_throttle ?key s2 = (if ambiguous (es_run_task ecs (client_token i n)) then Some t else None)"
    using ls(1) by simp
  obtain e where e: "find_asset i s2 = Some (a\<lparr>ma_dispatch_attempts := n, ma_last_dispatch_attempt_at := Some now, ma_dispatched_at := e\<rparr>)"
    using ls(2) by auto
  have "fst (reserve_dispatch_attempt st sha later True True i s2) =
      (if ambiguous (es_run_task ecs (client_token i n))
          \<and> later - seconds (st_media_dispatch_ambiguity_reuse_seconds st) < at_window_started_at t then Some n
       else if st_media_max_dispatch_attempts st \<le> n then None else Some (n + 1))"
    using t(2,3) q by (simp add: reserve_dispatch_attempt_def e f2 Let_def reuses_attempt_def)
  then show ?thesis using t(1,4) by auto
qed


theorem client_token_reuse_witness:
  "\<exists>s1 ok s2. reserve_dispatch_attempt ecs_settings tagged 5 True True 3 (empty_db\<lparr>media_assets := [example_asset 3]\<rparr>) = (Some 1, s1)
     \<and> launch ecs_settings tagged timing_out_service (\<lambda>n. 5) 3 1 s1 = (ok, s2)
     \<and> fst (reserve_dispatch_attempt ecs_settings tagged 6 True True 3 s2) = Some 1"
proof -
  let ?s = "empty_db\<lparr>media_assets := [example_asset 3]\<rparr>"
  have "fst (reserve_dispatch_attempt ecs_settings tagged 5 True True 3 ?s) = Some 1" by code_simp
  then obtain s1 where r: "reserve_dispatch_attempt ecs_settings tagged 5 True True 3 ?s = (Some 1, s1)"
    by (cases "reserve_dispatch_attempt ecs_settings tagged 5 True True 3 ?s") auto
  obtain ok s2 where l: "launch ecs_settings tagged timing_out_service (\<lambda>n. 5) 3 1 s1 = (ok, s2)" by fastforce
  have a: "find_asset 3 ?s = Some (example_asset 3)" "0 \<le> ma_dispatch_attempts (example_asset 3)"
    by (simp_all add: find_asset_def table_simps example_asset_def new_media_asset_def)
  have "\<not> reuses_attempt ecs_settings 5 (example_asset 3) (find_throttle (asset_dispatch_state_key tagged 3) ?s)"
    by (simp add: reuses_attempt_def find_throttle_def empty_db_def)
  moreover have "ambiguous (es_run_task timing_out_service (client_token 3 1))"
    by (simp add: ambiguous_def timing_out_service_def)
  moreover have "6 - seconds (st_media_dispatch_ambiguity_reuse_seconds ecs_settings) < 5" by code_simp
  ultimately show ?thesis using client_token_reuse [OF r l a, of 6] r l by auto
qed

end
