(* ===== verification/Devices.thy ===== *)
theory Devices
  imports Alerts Settings
begin

section \<open>Devices, assignments and commands\<close>

text \<open>
  The owner's work on devices: provisioning and reassignment (\<open>forms.py\<close>, \<open>views.py\<close>),
  kiosk PINs, disabling, reactivation and revocation (\<open>services.py\<close>), enrollment codes
  (\<open>EnrollmentCode\<close> in \<open>models.py\<close>), and the management commands of \<open>api.py\<close>. Hashes of
  secrets and random values are arguments.
\<close>

subsection \<open>Rows\<close>

definition find_device :: "id \<Rightarrow> db \<Rightarrow> device option" where
  "find_device i s = lookup_by dv_id i (devices s)"

definition save_device :: "device \<Rightarrow> db \<Rightarrow> db" where
  "save_device d s = s\<lparr>devices := save_by dv_id d (devices s)\<rparr>"

definition active_assignments :: "id \<Rightarrow> db \<Rightarrow> device_assignment list" where
  "active_assignments d s = filter (\<lambda>a. da_device a = d \<and> da_unassigned_at a = None) (assignments s)"

definition assigned :: "id \<Rightarrow> db \<Rightarrow> bool" where
  "assigned d s = (active_assignments d s \<noteq> [])"

definition get_device :: "id \<Rightarrow> db \<Rightarrow> device result" where
  "get_device i s = (case find_device i s of
       None \<Rightarrow> Inl (ServerError ''Device matching query does not exist.'') | Some d \<Rightarrow> Inr d)"

definition device_or_404 :: "bool \<Rightarrow> id \<Rightarrow> db \<Rightarrow> device result" where
  "device_or_404 owner i s =
     bind_result (require owner (PermissionDenied [])) (\<lambda>u.
     case find_device i s of None \<Rightarrow> Inl Http404 | Some d \<Rightarrow> Inr d)"

definition audit_device :: "time \<Rightarrow> id \<Rightarrow> string \<Rightarrow> device \<Rightarrow> payload \<Rightarrow> db \<Rightarrow> db" where
  "audit_device now actor action d metadata s =
     audit now (Some actor) action ''signage.device'' (uuid_str (dv_id d)) metadata s"

subsection \<open>Provisioning and reassignment\<close>

definition insert_assignment :: "device_assignment \<Rightarrow> db \<Rightarrow> db result" where
  "insert_assignment a s =
     (if da_unassigned_at a = None \<and> assigned (da_device a) s
      then Inl (IntegrityError ''one_active_assignment_per_device'')
      else Inr (s\<lparr>assignments := assignments s @ [a], next_pk := next_pk s + 1\<rparr>))"

definition create_driver :: "id \<Rightarrow> string \<Rightarrow> db \<Rightarrow> id \<times> db" where
  "create_driver uuid name s =
     (next_pk s, s\<lparr>drivers := drivers s @ [\<lparr>dr_id = next_pk s, dr_internal_id = ''AUTO-'' @ uuid_hex uuid,
          dr_name = name, dr_anonymized_at = None\<rparr>], next_pk := next_pk s + 1\<rparr>)"

definition get_or_create_vehicle :: "string \<Rightarrow> db \<Rightarrow> id \<times> db" where
  "get_or_create_vehicle registration s =
     (case lookup_by ve_registration registration (vehicles s) of
        Some v \<Rightarrow> (ve_id v, s)
      | None \<Rightarrow> (next_pk s, s\<lparr>vehicles := vehicles s @ [\<lparr>ve_id = next_pk s, ve_registration = registration,
            ve_anonymized_at = None\<rparr>], next_pk := next_pk s + 1\<rparr>))"

text \<open>The cleaned data of the two device forms; \<open>CharField\<close> strips and bounds the texts.\<close>

record device_form =
  df_label :: string
  df_qualification :: "id option"
  df_driver_name :: string
  df_vehicle_registration :: string
  df_sim_card_number :: string

definition char_field :: "string \<Rightarrow> int \<Rightarrow> string \<Rightarrow> string result" where
  "char_field field maximum v = (let t = strip v in
     if t = [] then Inl (ValidationError field ''This field is required.'')
     else if maximum < int (length t) then Inl (ValidationError field ''Ensure this value has fewer characters.'')
     else Inr t)"

definition clean_device_form :: "device_form \<Rightarrow> device_form result" where
  "clean_device_form f =
     bind_result (char_field ''device_label'' 100 (df_label f)) (\<lambda>label.
     bind_result (char_field ''driver_name'' 160 (df_driver_name f)) (\<lambda>driver.
     bind_result (char_field ''vehicle_registration'' 32 (df_vehicle_registration f)) (\<lambda>vehicle.
     bind_result (char_field ''sim_card_number'' 32 (df_sim_card_number f)) (\<lambda>sim.
     Inr (f\<lparr>df_label := label, df_driver_name := driver, df_vehicle_registration := vehicle,
            df_sim_card_number := sim\<rparr>)))))"

text \<open>The qualifications the provisioning form offers.\<close>

definition offered_qualification :: "hardware_qualification \<Rightarrow> bool" where
  "offered_qualification q =
     ((case hq_display_diagonal q of None \<Rightarrow> False | Some n \<Rightarrow> 900 \<le> n \<and> n \<le> 1200)
      \<and> hq_model_name q \<noteq> [] \<and> hq_firmware_version q \<noteq> [] \<and> hq_security_patch_level q \<noteq> [])"

definition clean_provisioning :: "device_form \<Rightarrow> db \<Rightarrow> device_form result" where
  "clean_provisioning f s =
     bind_result (clean_device_form f) (\<lambda>g.
     bind_result (require (case df_qualification g of None \<Rightarrow> True
          | Some q \<Rightarrow> exists_row (\<lambda>h. hq_id h = q \<and> offered_qualification h) (qualifications s))
        (ValidationError ''hardware_qualification'' ''Select a valid choice.'')) (\<lambda>u1.
     bind_result (require (\<not> exists_row (\<lambda>d. dv_label d = df_label g) (devices s))
        (ValidationError ''device_label'' ''A device with this model and number already exists.'')) (\<lambda>u2.
     Inr g)))"

definition new_device :: "time \<Rightarrow> id \<Rightarrow> string \<Rightarrow> id option \<Rightarrow> device" where
  "new_device now uuid label qualification =
     \<lparr>dv_id = uuid, dv_label = label, dv_hardware_qualification = qualification, dv_status = Pending,
      dv_android_id_hash = None, dv_hardware_model = [], dv_hardware_firmware_version = [],
      dv_hardware_security_patch = [], dv_app_version = [], dv_android_version = [], dv_last_seen_at = None,
      dv_last_heartbeat_recorded_at = None, dv_last_location_reported_at = None,
      dv_location_state = ''initializing'', dv_location_state_updated_at = None,
      dv_location_planned_gap_until = None, dv_last_sync_at = None, dv_last_playback_at = None,
      dv_current_playlist = None, dv_disabled_at = None, dv_kiosk_pin_hash = [],
      dv_kiosk_pin_reset_at = None, dv_created_at = now\<rparr>"

definition provision_device :: "time \<Rightarrow> id \<Rightarrow> id \<Rightarrow> device_form \<Rightarrow> db \<Rightarrow> (device \<times> db) result" where
  "provision_device now uuid driver_uuid f s =
     (let (driver, s1) = create_driver driver_uuid (df_driver_name f) s;
          (vehicle, s2) = get_or_create_vehicle (df_vehicle_registration f) s1;
          d = new_device now uuid (df_label f) (df_qualification f);
          s3 = s2\<lparr>devices := devices s2 @ [d]\<rparr>
      in bind_result (insert_assignment \<lparr>da_id = next_pk s3, da_device = uuid, da_driver = driver,
             da_vehicle = vehicle, da_sim_card_number = df_sim_card_number f, da_assigned_at = now,
             da_unassigned_at = None\<rparr> s3) (\<lambda>s4. Inr (d, s4)))"

text \<open>\<open>issue_kiosk_pin\<close>: \<open>pin_hash\<close> is the salted hash of the random PIN.\<close>

definition issue_kiosk_pin :: "time \<Rightarrow> string \<Rightarrow> id \<Rightarrow> id \<Rightarrow> db \<Rightarrow> db result" where
  "issue_kiosk_pin now pin_hash actor i s =
     bind_result (get_device i s) (\<lambda>d.
     let e = d\<lparr>dv_kiosk_pin_hash := pin_hash, dv_kiosk_pin_reset_at := Some now\<rparr> in
     Inr (audit_device now actor ''device.kiosk_pin.reset'' e [] (save_device e s)))"

definition device_create :: "time \<Rightarrow> bool \<Rightarrow> id \<Rightarrow> id \<Rightarrow> id \<Rightarrow> string \<Rightarrow> device_form \<Rightarrow> db \<Rightarrow> db result" where
  "device_create now owner actor uuid driver_uuid pin_hash f s =
     bind_result (require owner (PermissionDenied [])) (\<lambda>u.
     bind_result (clean_provisioning f s) (\<lambda>g.
     bind_result (provision_device now uuid driver_uuid g s) (\<lambda>(d, s1).
     issue_kiosk_pin now pin_hash actor uuid (audit_device now actor ''device.provision'' d [] s1))))"

definition expire_codes :: "time \<Rightarrow> id \<Rightarrow> db \<Rightarrow> db" where
  "expire_codes now d s =
     s\<lparr>enrollment_codes := update_where (\<lambda>c. ec_device c = d \<and> ec_used_at c = None)
        (\<lambda>c. c\<lparr>ec_expires_at := now\<rparr>) (enrollment_codes s)\<rparr>"

definition assignment_matches :: "device_form \<Rightarrow> device_assignment \<Rightarrow> db \<Rightarrow> bool" where
  "assignment_matches f a s =
     (exists_row (\<lambda>d. dr_id d = da_driver a \<and> dr_name d = df_driver_name f) (drivers s)
      \<and> exists_row (\<lambda>v. ve_id v = da_vehicle a \<and> ve_registration v = df_vehicle_registration f) (vehicles s)
      \<and> da_sim_card_number a = df_sim_card_number f)"

definition unassign :: "time \<Rightarrow> id \<Rightarrow> db \<Rightarrow> db" where
  "unassign now d s =
     s\<lparr>assignments := update_where (\<lambda>a. da_device a = d \<and> da_unassigned_at a = None)
        (\<lambda>a. a\<lparr>da_unassigned_at := Some now\<rparr>) (assignments s)\<rparr>"

text \<open>
  \<open>DeviceReassignmentForm.save\<close>: the first component tells whether the assignment changed. The
  ordering of assignments is by \<open>assigned_at\<close>, latest first.
\<close>

definition reassign_device :: "time \<Rightarrow> id \<Rightarrow> device_form \<Rightarrow> device \<Rightarrow> db \<Rightarrow> (bool \<times> db) result" where
  "reassign_device now driver_uuid f d s =
     (let s1 = save_device (d\<lparr>dv_label := df_label f\<rparr>) s;
          current = order_first (\<lambda>a. - da_assigned_at a) (active_assignments (dv_id d) s1)
      in if (case current of None \<Rightarrow> False | Some a \<Rightarrow> assignment_matches f a s1) then Inr (False, s1)
         else (let s2 = unassign now (dv_id d) s1;
                   (driver, s3) = create_driver driver_uuid (df_driver_name f) s2;
                   (vehicle, s4) = get_or_create_vehicle (df_vehicle_registration f) s3
               in bind_result (insert_assignment \<lparr>da_id = next_pk s4, da_device = dv_id d, da_driver = driver,
                      da_vehicle = vehicle, da_sim_card_number = df_sim_card_number f, da_assigned_at = now,
                      da_unassigned_at = None\<rparr> s4) (\<lambda>s5. Inr (True, s5))))"

definition device_reassign :: "clock \<Rightarrow> bool \<Rightarrow> id \<Rightarrow> id \<Rightarrow> device_form \<Rightarrow> id \<Rightarrow> db \<Rightarrow> db result" where
  "device_reassign clk owner actor driver_uuid f i s =
     bind_result (device_or_404 owner i s) (\<lambda>d.
     bind_result (clean_device_form f) (\<lambda>g.
     bind_result (require (\<not> exists_row (\<lambda>e. dv_id e \<noteq> i \<and> dv_label e = df_label g) (devices s))
        (ValidationError ''device_label'' ''A device with this model and number already exists.'')) (\<lambda>u.
     bind_result (reassign_device (clk 0) driver_uuid g d s) (\<lambda>(changed, s1).
     let s2 = (if changed then expire_codes (clk 1) i s1 else s1) in
     Inr (audit_device (clk 2) actor (if changed then ''device.reassign'' else ''device.edit'') d [] s2)))))"

subsection \<open>Enrollment codes\<close>

definition code_usable :: "time \<Rightarrow> enrollment_code \<Rightarrow> device \<Rightarrow> db \<Rightarrow> bool" where
  "code_usable now c d s =
     (ec_used_at c = None \<and> now < ec_expires_at c \<and> dv_kiosk_pin_hash d \<noteq> []
      \<and> dv_status d \<noteq> Disabled \<and> assigned (dv_id d) s)"

text \<open>The insertions of at most ten random codes; a code whose hash is taken is skipped.\<close>

fun insert_code ::
  "settings \<Rightarrow> (string \<Rightarrow> string) \<Rightarrow> time \<Rightarrow> id \<Rightarrow> id \<Rightarrow> string list \<Rightarrow> db \<Rightarrow> (string \<times> db) result" where
  "insert_code st hash now d actor [] s =
     Inl (ValidationError [] ''Could not issue a unique enrollment code.'')"
| "insert_code st hash now d actor (raw # raws) s =
     (if exists_row (\<lambda>c. ec_code_hash c = hash raw) (enrollment_codes s)
      then insert_code st hash now d actor raws s
      else Inr (raw, s\<lparr>enrollment_codes := enrollment_codes s @
             [\<lparr>ec_id = next_pk s, ec_device = d, ec_code_hash = hash raw,
               ec_expires_at = now + seconds (st_enrollment_code_ttl_seconds st), ec_used_at = None,
               ec_created_by = actor\<rparr>],
             next_pk := next_pk s + 1\<rparr>))"

definition issue_code ::
  "settings \<Rightarrow> (string \<Rightarrow> string) \<Rightarrow> time \<Rightarrow> string list \<Rightarrow> id \<Rightarrow> id \<Rightarrow> db \<Rightarrow> (string \<times> db) result" where
  "issue_code st hash now raws i actor s =
     bind_result (get_device i s) (\<lambda>d.
     bind_result (require (dv_status d \<noteq> Disabled \<and> dv_kiosk_pin_hash d \<noteq> [] \<and> assigned i s)
       (ValidationError [] ''Enrollment requires an enabled, assigned device with a kiosk administrator PIN.'')) (\<lambda>u.
     insert_code st hash now i actor (take 10 raws) (expire_codes now i s)))"

datatype code_page = CodeRefused string | CodeIssued string

definition issue_enrollment ::
  "settings \<Rightarrow> (string \<Rightarrow> string) \<Rightarrow> time \<Rightarrow> string list \<Rightarrow> bool \<Rightarrow> id \<Rightarrow> id \<Rightarrow> db \<Rightarrow> (code_page \<times> db) result" where
  "issue_enrollment st hash now raws owner actor i s =
     bind_result (device_or_404 owner i s) (\<lambda>d.
     if dv_status d = Disabled then Inr (CodeRefused ''Reactivate the device before enrollment.'', s)
     else if \<not> assigned i s then Inr (CodeRefused ''Assign a car and driver before enrollment.'', s)
     else if dv_kiosk_pin_hash d = []
       then Inr (CodeRefused ''The account owner must set the kiosk administrator PIN before enrollment.'', s)
     else bind_result (issue_code st hash now raws i actor s) (\<lambda>(raw, s1).
          Inr (CodeIssued raw, audit_device now actor ''device.enrollment_code.issue'' d [] s1)))"

definition device_pin_reset :: "clock \<Rightarrow> bool \<Rightarrow> id \<Rightarrow> string \<Rightarrow> id \<Rightarrow> db \<Rightarrow> db result" where
  "device_pin_reset clk owner actor pin_hash i s =
     bind_result (device_or_404 owner i s) (\<lambda>d.
     issue_kiosk_pin (clk 1) pin_hash actor i (expire_codes (clk 0) i s))"

subsection \<open>Disabling and revocation\<close>

definition live_credentials :: "id \<Rightarrow> db \<Rightarrow> device_credential list" where
  "live_credentials d s = filter (\<lambda>c. cr_device c = d \<and> cr_revoked_at c = None) (credentials s)"

definition revoke_active_device_credentials :: "time \<Rightarrow> id \<Rightarrow> db \<Rightarrow> nat \<times> db" where
  "revoke_active_device_credentials now d s =
     (let ids = map cr_id (live_credentials d s) in
      if ids = [] then (0, s)
      else (length ids,
            s\<lparr>credentials := update_where (\<lambda>c. cr_id c \<in> set ids) (\<lambda>c. c\<lparr>cr_revoked_at := Some now\<rparr>) (credentials s),
              access_tokens := delete_where (\<lambda>t. tk_credential t \<in> set ids) (access_tokens s)\<rparr>))"

definition expire_unused_enrollment_codes :: "time \<Rightarrow> id \<Rightarrow> db \<Rightarrow> nat \<times> db" where
  "expire_unused_enrollment_codes now d s =
     (let P = (\<lambda>c. ec_device c = d \<and> ec_used_at c = None \<and> now < ec_expires_at c) in
      (length (filter P (enrollment_codes s)),
       s\<lparr>enrollment_codes := update_where P (\<lambda>c. c\<lparr>ec_expires_at := now\<rparr>) (enrollment_codes s)\<rparr>))"

definition revoke_device_credentials :: "clock \<Rightarrow> id \<Rightarrow> id \<Rightarrow> db \<Rightarrow> (nat \<times> db) result" where
  "revoke_device_credentials clk actor i s =
     bind_result (get_device i s) (\<lambda>d.
     let (credential_count, s1) = revoke_active_device_credentials (clk 0) i s;
         management = filter (\<lambda>m. mc_device m = i) (management_credentials s1);
         s2 = s1\<lparr>management_credentials := delete_where (\<lambda>m. mc_device m = i) (management_credentials s1)\<rparr>;
         (enrollment_count, s3) = expire_unused_enrollment_codes (clk 1) i s2
     in Inr (credential_count, audit_device (clk 2) actor ''device.credentials.revoke'' d
               [(''credentials_revoked'', JInt (int credential_count)),
                (''management_credentials_revoked'', JInt (int (length management))),
                (''enrollment_codes_expired'', JInt (int enrollment_count))] s3))"

definition disable_device :: "clock \<Rightarrow> id \<Rightarrow> id \<Rightarrow> db \<Rightarrow> db result" where
  "disable_device clk actor i s =
     bind_result (get_device i s) (\<lambda>d.
     let e = d\<lparr>dv_status := Disabled, dv_disabled_at := Some (clk 0)\<rparr>;
         (credential_count, s1) = revoke_active_device_credentials (clk 1) i (save_device e s);
         (enrollment_count, s2) = expire_unused_enrollment_codes (clk 2) i s1
     in Inr (audit_device (clk 3) actor ''device.disable'' e
               [(''playback_credentials_revoked'', JInt (int credential_count)),
                (''enrollment_codes_expired'', JInt (int enrollment_count))] s2))"

definition reactivate_device :: "time \<Rightarrow> id \<Rightarrow> id \<Rightarrow> db \<Rightarrow> db result" where
  "reactivate_device now actor i s =
     bind_result (get_device i s) (\<lambda>d.
     let e = d\<lparr>dv_status := Active, dv_disabled_at := None\<rparr>
     in Inr (audit_device now actor ''device.reactivate'' e [] (save_device e s)))"

definition device_disable :: "clock \<Rightarrow> bool \<Rightarrow> id \<Rightarrow> id \<Rightarrow> db \<Rightarrow> db result" where
  "device_disable clk owner actor i s =
     bind_result (device_or_404 owner i s) (\<lambda>d. disable_device clk actor i s)"

definition device_reactivate :: "time \<Rightarrow> bool \<Rightarrow> id \<Rightarrow> id \<Rightarrow> db \<Rightarrow> db result" where
  "device_reactivate now owner actor i s =
     bind_result (device_or_404 owner i s) (\<lambda>d. reactivate_device now actor i s)"

definition device_credentials_revoke :: "clock \<Rightarrow> bool \<Rightarrow> id \<Rightarrow> id \<Rightarrow> db \<Rightarrow> (nat \<times> db) result" where
  "device_credentials_revoke clk owner actor i s =
     bind_result (device_or_404 owner i s) (\<lambda>d. revoke_device_credentials clk actor i s)"

subsection \<open>Commands\<close>

definition pending_command :: "time \<Rightarrow> id \<Rightarrow> device_command \<Rightarrow> bool" where
  "pending_command now d c = (dc_device c = d \<and> dc_acknowledged_at c = None \<and> now < dc_expires_at c)"

definition device_admin_mode :: "time \<Rightarrow> bool \<Rightarrow> id \<Rightarrow> id \<Rightarrow> id \<Rightarrow> db \<Rightarrow> (bool \<times> db) result" where
  "device_admin_mode now owner actor uuid i s =
     bind_result (device_or_404 owner i s) (\<lambda>d.
     if exists_row (\<lambda>c. pending_command now i c \<and> dc_kind c = AdminMode) (commands s) then Inr (False, s)
     else Inr (True, audit now (Some actor) ''device.admin_mode.request'' ''signage.devicecommand'' (uuid_str uuid) []
            (s\<lparr>commands := commands s @ [\<lparr>dc_id = uuid, dc_device = i, dc_kind = AdminMode, dc_requested_by = actor,
                dc_expires_at = now + minutes 10, dc_delivered_at = None, dc_acknowledged_at = None,
                dc_created_at = now\<rparr>]\<rparr>)))"

text \<open>\<open>management_commands\<close> for an authenticated device: delivery and acknowledgement.\<close>

definition deliver_command :: "time \<Rightarrow> id \<Rightarrow> db \<Rightarrow> device_command option \<times> db" where
  "deliver_command now d s =
     (case order_first dc_created_at (filter (pending_command now d) (commands s)) of
        None \<Rightarrow> (None, s)
      | Some c \<Rightarrow>
          if dc_delivered_at c = None
          then (let e = c\<lparr>dc_delivered_at := Some now\<rparr> in (Some e, s\<lparr>commands := save_by dc_id e (commands s)\<rparr>))
          else (Some c, s))"

definition acknowledge_command :: "time \<Rightarrow> id \<Rightarrow> json \<Rightarrow> db \<Rightarrow> db result" where
  "acknowledge_command now d command_id s =
     (case parse_uuid (json_str command_id) of
        None \<Rightarrow> Inl (ValidationError [] ''Invalid command ID.'')
      | Some i \<Rightarrow>
          (case find (\<lambda>c. dc_id c = i \<and> pending_command now d c \<and> dc_delivered_at c \<noteq> None) (commands s) of
             None \<Rightarrow> Inl (ValidationError [] ''Command is unavailable.'')
           | Some c \<Rightarrow> Inr (s\<lparr>commands := save_by dc_id (c\<lparr>dc_acknowledged_at := Some now\<rparr>) (commands s)\<rparr>)))"

subsection \<open>One active assignment per device\<close>

definition one_active :: "db \<Rightarrow> bool" where
  "one_active s = list_all (\<lambda>a. length (active_assignments (da_device a) s) \<le> 1) (assignments s)"

lemma one_active_iff: "one_active s \<longleftrightarrow> (\<forall>d. length (active_assignments d s) \<le> 1)"
proof
  assume a: "one_active s"
  show "\<forall>d. length (active_assignments d s) \<le> 1"
  proof
    fix d
    show "length (active_assignments d s) \<le> 1"
    proof (cases "active_assignments d s")
      case Nil
      then show ?thesis by simp
    next
      case (Cons x xs)
      then have "x \<in> set (active_assignments d s)" by simp
      then have "x \<in> set (assignments s)" and "da_device x = d" by (auto simp: active_assignments_def)
      with a show ?thesis by (auto simp: one_active_def list_all_iff)
    qed
  qed
qed (simp add: one_active_def list_all_iff)

lemma active_assignments_cong: "assignments s = assignments t \<Longrightarrow> active_assignments d s = active_assignments d t"
  by (simp add: active_assignments_def)

lemma one_active_cong: "assignments s = assignments t \<Longrightarrow> one_active s = one_active t"
  by (simp add: one_active_def active_assignments_def)

lemma active_unassign:
  "active_assignments e (unassign now d s) = (if e = d then [] else active_assignments e s)"
proof -
  have "filter (\<lambda>a. da_device a = e \<and> da_unassigned_at a = None)
      (update_where (\<lambda>a. da_device a = d \<and> da_unassigned_at a = None) (\<lambda>a. a\<lparr>da_unassigned_at := Some now\<rparr>) rows)
    = (if e = d then [] else filter (\<lambda>a. da_device a = e \<and> da_unassigned_at a = None) rows)" for rows
    by (induction rows) (auto simp: table_simps)
  note this [of "assignments s"]
  then show ?thesis unfolding active_assignments_def unassign_def by simp
qed

lemma insert_assignment_ok:
  assumes "insert_assignment a s = Inr t" and "da_unassigned_at a = None"
  shows "active_assignments (da_device a) s = []"
    and "t = s\<lparr>assignments := assignments s @ [a], next_pk := next_pk s + 1\<rparr>"
    and "active_assignments d t = (if d = da_device a then [a] else active_assignments d s)"
proof -
  show e: "active_assignments (da_device a) s = []"
    and t: "t = s\<lparr>assignments := assignments s @ [a], next_pk := next_pk s + 1\<rparr>"
    using assms by (auto simp: insert_assignment_def assigned_def split: if_splits)
  show "active_assignments d t = (if d = da_device a then [a] else active_assignments d s)"
    using e assms(2) by (auto simp: t active_assignments_def)
qed

lemma create_driver_frame:
  assumes "create_driver u n s = (x, t)"
  shows "assignments t = assignments s" and "vehicles t = vehicles s" and "devices t = devices s"
    and "enrollment_codes t = enrollment_codes s"
    and "exists_row (\<lambda>d. dr_id d = x \<and> dr_name d = n) (drivers t)"
  using assms by (auto simp: create_driver_def)

lemma get_or_create_vehicle_frame:
  assumes "get_or_create_vehicle r s = (x, t)"
  shows "assignments t = assignments s" and "drivers t = drivers s" and "devices t = devices s"
    and "enrollment_codes t = enrollment_codes s"
    and "exists_row (\<lambda>v. ve_id v = x \<and> ve_registration v = r) (vehicles t)"
  using assms by (auto simp: get_or_create_vehicle_def split: option.splits dest: lookup_by_SomeD)

lemma expire_codes_frame [simp]:
  "assignments (expire_codes now d s) = assignments s"
  "drivers (expire_codes now d s) = drivers s"
  "vehicles (expire_codes now d s) = vehicles s"
  "devices (expire_codes now d s) = devices s"
  by (simp_all add: expire_codes_def)

lemma save_device_frame [simp]:
  "assignments (save_device e s) = assignments s"
  "enrollment_codes (save_device e s) = enrollment_codes s"
  "credentials (save_device e s) = credentials s"
  "access_tokens (save_device e s) = access_tokens s"
  "management_credentials (save_device e s) = management_credentials s"
  "drivers (save_device e s) = drivers s"
  "vehicles (save_device e s) = vehicles s"
  by (simp_all add: save_device_def)

lemma audit_device_frame [simp]:
  "assignments (audit_device now a act d m s) = assignments s"
  "enrollment_codes (audit_device now a act d m s) = enrollment_codes s"
  "credentials (audit_device now a act d m s) = credentials s"
  "access_tokens (audit_device now a act d m s) = access_tokens s"
  "management_credentials (audit_device now a act d m s) = management_credentials s"
  "devices (audit_device now a act d m s) = devices s"
  "drivers (audit_device now a act d m s) = drivers s"
  "vehicles (audit_device now a act d m s) = vehicles s"
  by (simp_all add: audit_device_def)

lemma unassign_frame [simp]:
  "drivers (unassign now d s) = drivers s" "vehicles (unassign now d s) = vehicles s"
  "devices (unassign now d s) = devices s" "enrollment_codes (unassign now d s) = enrollment_codes s"
  by (simp_all add: unassign_def)

lemma get_device_Inr: "get_device i s = Inr d \<longleftrightarrow> find_device i s = Some d"
  by (auto simp: get_device_def split: option.splits)

lemma device_or_404_Inr: "device_or_404 owner i s = Inr d \<longleftrightarrow> owner \<and> find_device i s = Some d"
  by (auto simp: device_or_404_def bind_result_Inr_iff split: option.splits)

lemma find_device_id: "find_device i s = Some d \<Longrightarrow> dv_id d = i"
  by (auto simp: find_device_def dest: lookup_by_SomeD)

lemma find_device_cong: "devices s = devices t \<Longrightarrow> find_device i s = find_device i t"
  by (simp add: find_device_def)

lemma find_save_device:
  "find_device i (save_device e s) = (if dv_id e = i \<and> find_device i s \<noteq> None then Some e else find_device i s)"
  by (simp add: find_device_def save_device_def table_simps)

lemma reassign_device_effect:
  assumes r: "reassign_device now u g d s = Inr (changed, t)" and one: "one_active s"
  shows "one_active t"
    and "\<exists>a. active_assignments (dv_id d) t = [a] \<and> assignment_matches g a t"
    and "j \<noteq> dv_id d \<Longrightarrow> active_assignments j t = active_assignments j s"
    and "\<not> changed \<Longrightarrow> active_assignments (dv_id d) t = active_assignments (dv_id d) s"
proof -
  define s1 where "s1 = save_device (d\<lparr>dv_label := df_label g\<rparr>) s"
  have s1: "active_assignments j s1 = active_assignments j s" for j
    by (simp add: s1_def active_assignments_def)
  have one1: "one_active s1" using one by (simp add: one_active_def s1) (simp add: s1_def)
  have "one_active t \<and> (\<exists>a. active_assignments (dv_id d) t = [a] \<and> assignment_matches g a t) \<and>
     (\<forall>j. j \<noteq> dv_id d \<longrightarrow> active_assignments j t = active_assignments j s) \<and>
     (\<not> changed \<longrightarrow> active_assignments (dv_id d) t = active_assignments (dv_id d) s)"
  proof (cases "case order_first (\<lambda>a. - da_assigned_at a) (active_assignments (dv_id d) s1) of
      None \<Rightarrow> False | Some a \<Rightarrow> assignment_matches g a s1")
    case True
    then obtain a where a: "order_first (\<lambda>a. - da_assigned_at a) (active_assignments (dv_id d) s1) = Some a"
      and m: "assignment_matches g a s1"
      by (auto split: option.splits)
    from a have "a \<in> set (active_assignments (dv_id d) s1)" by (rule order_first_SomeD)
    moreover have "length (active_assignments (dv_id d) s1) \<le> 1" using one1 by (simp add: one_active_iff)
    ultimately have "active_assignments (dv_id d) s1 = [a]"
      by (cases "active_assignments (dv_id d) s1") auto
    moreover have "t = s1" "\<not> changed"
      using r True by (auto simp: reassign_device_def Let_def s1_def [symmetric])
    ultimately show ?thesis using m one1 s1 by auto
  next
    case False
    obtain dr s3 where 3: "create_driver u (df_driver_name g) (unassign now (dv_id d) s1) = (dr, s3)"
      by (metis surj_pair)
    obtain ve s4 where 4: "get_or_create_vehicle (df_vehicle_registration g) s3 = (ve, s4)" by (metis surj_pair)
    define a where "a = \<lparr>da_id = next_pk s4, da_device = dv_id d, da_driver = dr, da_vehicle = ve,
      da_sim_card_number = df_sim_card_number g, da_assigned_at = now, da_unassigned_at = None\<rparr>"
    have ia: "insert_assignment a s4 = Inr t" and ch: "changed"
      using r False 3 4 by (auto simp: reassign_device_def Let_def s1_def [symmetric] a_def bind_result_Inr_iff)
    have ua: "da_unassigned_at a = None" and da: "da_device a = dv_id d" by (simp_all add: a_def)
    have s4: "active_assignments j s4 = (if j = dv_id d then [] else active_assignments j s)" for j
      using create_driver_frame(1) [OF 3] get_or_create_vehicle_frame(1) [OF 4]
      by (simp add: active_assignments_cong [of s4 "unassign now (dv_id d) s1"] active_unassign s1)
    note ins = insert_assignment_ok [OF ia ua]
    have t: "active_assignments j t = (if j = dv_id d then [a] else active_assignments j s)" for j
      using ins(3) [of j] by (simp add: da s4)
    have "one_active t" using one by (auto simp: one_active_iff t)
    moreover have "assignment_matches g a t"
      using create_driver_frame(5) [OF 3] get_or_create_vehicle_frame(2,5) [OF 4]
      by (simp add: assignment_matches_def ins(2)) (simp add: a_def)
    ultimately show ?thesis using ch by (simp add: t)
  qed
  then show "one_active t" and "\<exists>a. active_assignments (dv_id d) t = [a] \<and> assignment_matches g a t"
    and "j \<noteq> dv_id d \<Longrightarrow> active_assignments j t = active_assignments j s"
    and "\<not> changed \<Longrightarrow> active_assignments (dv_id d) t = active_assignments (dv_id d) s"
    by blast+
qed

lemma expire_codes_used:
  assumes "c \<in> set (enrollment_codes (expire_codes now i s))"
  shows "ec_device c = i \<longrightarrow> ec_used_at c = None \<longrightarrow> ec_expires_at c = now"
  using assms unfolding expire_codes_def by (simp, elim update_where_cases) auto

lemma device_reassign_effect:
  assumes r: "device_reassign clk owner actor u f i s = Inr t" and one: "one_active s"
  shows "owner" and "one_active t"
    and "\<exists>g a. clean_device_form f = Inr g \<and> active_assignments i t = [a] \<and> assignment_matches g a t"
    and "j \<noteq> i \<Longrightarrow> active_assignments j t = active_assignments j s"
    and "active_assignments i t = active_assignments i s \<or>
      (\<forall>c\<in>set (enrollment_codes t). \<forall>e now. ec_device c = i \<longrightarrow> clk 1 \<le> now \<longrightarrow> \<not> code_usable now c e t)"
proof -
  from r obtain d g changed s1 where owner and d: "find_device i s = Some d" and g: "clean_device_form f = Inr g"
    and rd: "reassign_device (clk 0) u g d s = Inr (changed, s1)"
    and t: "t = audit_device (clk 2) actor (if changed then ''device.reassign'' else ''device.edit'') d []
        (if changed then expire_codes (clk 1) i s1 else s1)"
    by (auto simp: device_reassign_def bind_result_Inr_iff device_or_404_Inr Let_def)
  show owner by fact
  have i: "dv_id d = i" using d by (rule find_device_id)
  note eff = reassign_device_effect [OF rd one, unfolded i]
  have as: "assignments t = assignments s1" and dv: "drivers t = drivers s1" "vehicles t = vehicles s1"
    by (simp_all add: t)
  have act: "active_assignments j t = active_assignments j s1" for j
    using as by (rule active_assignments_cong)
  have am: "assignment_matches g a t = assignment_matches g a s1" for g a
    by (simp add: assignment_matches_def dv)
  show "one_active t" using eff(1) one_active_cong [OF as] by simp
  show "\<exists>g a. clean_device_form f = Inr g \<and> active_assignments i t = [a] \<and> assignment_matches g a t"
    using eff(2) g by (simp add: act am)
  show "j \<noteq> i \<Longrightarrow> active_assignments j t = active_assignments j s" using eff(3) act by simp
  show "active_assignments i t = active_assignments i s \<or>
      (\<forall>c\<in>set (enrollment_codes t). \<forall>e now. ec_device c = i \<longrightarrow> clk 1 \<le> now \<longrightarrow> \<not> code_usable now c e t)"
  proof (cases changed)
    case True
    then have "enrollment_codes t = enrollment_codes (expire_codes (clk 1) i s1)" by (simp add: t)
    then show ?thesis using expire_codes_used by (fastforce simp: code_usable_def)
  next
    case False
    with eff(4) act show ?thesis by simp
  qed
qed

lemma device_create_effect:
  assumes r: "device_create now owner actor uuid du ph f s = Inr t"
    and one: "one_active s" and fresh: "find_device uuid s = None"
  shows "owner" and "one_active t"
    and "\<exists>g a d. clean_device_form f = Inr g \<and> active_assignments uuid t = [a] \<and> assignment_matches g a t
       \<and> find_device uuid t = Some d \<and> dv_status d = Pending \<and> dv_kiosk_pin_hash d = ph \<and> dv_label d = df_label g"
    and "j \<noteq> uuid \<Longrightarrow> active_assignments j t = active_assignments j s"
proof -
  from r obtain g d s1 where owner and cl: "clean_provisioning f s = Inr g"
    and pd: "provision_device now uuid du g s = Inr (d, s1)"
    and k: "issue_kiosk_pin now ph actor uuid (audit_device now actor ''device.provision'' d [] s1) = Inr t"
    by (auto simp: device_create_def bind_result_Inr_iff)
  show owner by fact
  have g: "clean_device_form f = Inr g"
    using cl by (auto simp: clean_provisioning_def bind_result_Inr_iff)
  obtain dr s2 where 2: "create_driver du (df_driver_name g) s = (dr, s2)" by (metis surj_pair)
  obtain ve s3 where 3: "get_or_create_vehicle (df_vehicle_registration g) s2 = (ve, s3)" by (metis surj_pair)
  define e where "e = new_device now uuid (df_label g) (df_qualification g)"
  define s4 where "s4 = s3\<lparr>devices := devices s3 @ [e]\<rparr>"
  define a where "a = \<lparr>da_id = next_pk s4, da_device = uuid, da_driver = dr, da_vehicle = ve,
     da_sim_card_number = df_sim_card_number g, da_assigned_at = now, da_unassigned_at = None\<rparr>"
  have ia: "insert_assignment a s4 = Inr s1" and de: "d = e"
    using pd 2 3 by (auto simp: provision_device_def Let_def a_def s4_def e_def bind_result_Inr_iff)
  have ua: "da_unassigned_at a = None" and da: "da_device a = uuid" by (simp_all add: a_def)
  note ins = insert_assignment_ok [OF ia ua, unfolded da]
  have s4: "active_assignments j s4 = active_assignments j s" for j
    using create_driver_frame(1) [OF 2] get_or_create_vehicle_frame(1) [OF 3]
    by (simp add: active_assignments_def s4_def)
  have dev: "devices s1 = devices s @ [e]"
    using create_driver_frame(3) [OF 2] get_or_create_vehicle_frame(3) [OF 3] by (simp add: ins(2) s4_def)
  have find: "find_device uuid (audit_device now actor ''device.provision'' d [] s1) = Some e"
    using fresh by (simp add: find_device_def dev table_simps) (simp add: e_def new_device_def)
  have t: "t = audit_device now actor ''device.kiosk_pin.reset'' (e\<lparr>dv_kiosk_pin_hash := ph, dv_kiosk_pin_reset_at := Some now\<rparr>) []
      (save_device (e\<lparr>dv_kiosk_pin_hash := ph, dv_kiosk_pin_reset_at := Some now\<rparr>)
        (audit_device now actor ''device.provision'' d [] s1))"
    using k find by (simp add: issue_kiosk_pin_def get_device_def Let_def)
  have as: "assignments t = assignments s1" by (simp add: t)
  have act: "active_assignments j t = (if j = uuid then [a] else active_assignments j s)" for j
    using ins(3) [of j] s4 [of j] active_assignments_cong [OF as, of j] by metis
  show "one_active t" using one by (auto simp: one_active_iff act)
  have m: "assignment_matches g a t"
    using create_driver_frame(5) [OF 2] get_or_create_vehicle_frame(2,5) [OF 3]
    by (simp add: assignment_matches_def t ins(2) s4_def) (simp add: a_def)
  have "find_device uuid t = Some (e\<lparr>dv_kiosk_pin_hash := ph, dv_kiosk_pin_reset_at := Some now\<rparr>)"
    using find by (simp add: t find_device_cong [of _ "save_device x y" for x y] find_save_device)
      (simp add: e_def new_device_def)
  then show "\<exists>g a d. clean_device_form f = Inr g \<and> active_assignments uuid t = [a] \<and> assignment_matches g a t
       \<and> find_device uuid t = Some d \<and> dv_status d = Pending \<and> dv_kiosk_pin_hash d = ph \<and> dv_label d = df_label g"
    using g m act by (auto simp: e_def new_device_def)
  show "j \<noteq> uuid \<Longrightarrow> active_assignments j t = active_assignments j s" by (simp add: act)
qed

subsection \<open>What revocation and disabling leave\<close>

definition code_spent :: "time \<Rightarrow> enrollment_code \<Rightarrow> bool" where
  "code_spent now c = (ec_used_at c \<noteq> None \<or> ec_expires_at c \<le> now)"

lemma code_spent_unusable: "code_spent now c \<Longrightarrow> now \<le> later \<Longrightarrow> \<not> code_usable later c d s"
  by (auto simp: code_spent_def code_usable_def)

lemma live_credentials_empty:
  "live_credentials d s = [] \<longleftrightarrow> (\<forall>c\<in>set (credentials s). cr_device c = d \<longrightarrow> cr_revoked_at c \<noteq> None)"
  by (auto simp: live_credentials_def filter_empty_conv)

lemma revoke_active_effect:
  assumes r: "revoke_active_device_credentials now d s = (n, t)"
  shows "live_credentials d t = []"
    and "t = s\<lparr>credentials := credentials t, access_tokens := access_tokens t\<rparr>"
    and "distinct (map cr_id (credentials s)) \<Longrightarrow> e \<noteq> d \<Longrightarrow> live_credentials e t = live_credentials e s"
    and "map cr_id (credentials t) = map cr_id (credentials s)"
    and "n = length (live_credentials d s)"
proof -
  define ids where "ids = map cr_id (live_credentials d s)"
  define cs where "cs = update_where (\<lambda>c. cr_id c \<in> set ids) (\<lambda>c. c\<lparr>cr_revoked_at := Some now\<rparr>) (credentials s)"
  have ct: "credentials t = cs"
    using r by (auto simp: revoke_active_device_credentials_def ids_def [symmetric] cs_def Let_def
        update_where_none split: if_splits)
  have live: "c \<in> set (credentials s) \<Longrightarrow> cr_device c = d \<Longrightarrow> cr_revoked_at c = None \<Longrightarrow> cr_id c \<in> set ids" for c
    by (auto simp: ids_def live_credentials_def)
  show "live_credentials d t = []"
    unfolding live_credentials_empty ct cs_def
  proof
    fix c
    assume "c \<in> set (update_where (\<lambda>c. cr_id c \<in> set ids) (\<lambda>c. c\<lparr>cr_revoked_at := Some now\<rparr>) (credentials s))"
    then show "cr_device c = d \<longrightarrow> cr_revoked_at c \<noteq> None"
      by (rule update_where_cases) (auto dest: live)
  qed
  show "t = s\<lparr>credentials := credentials t, access_tokens := access_tokens t\<rparr>"
    and "n = length (live_credentials d s)"
    using r by (auto simp: revoke_active_device_credentials_def Let_def split: if_splits)
  show "map cr_id (credentials t) = map cr_id (credentials s)"
    by (simp add: ct cs_def keys_update_where)
  assume dist: "distinct (map cr_id (credentials s))" and e: "e \<noteq> d"
  have "filter (\<lambda>c. cr_device c = e \<and> cr_revoked_at c = None)
      (update_where (\<lambda>c. cr_id c \<in> set ids) (\<lambda>c. c\<lparr>cr_revoked_at := Some now\<rparr>) rows)
    = filter (\<lambda>c. cr_device c = e \<and> cr_revoked_at c = None) rows"
    if "\<forall>c\<in>set rows. cr_id c \<in> set ids \<longrightarrow> cr_device c \<noteq> e" for rows
    using that by (induction rows) (auto simp: table_simps)
  moreover have "\<forall>c\<in>set (credentials s). cr_id c \<in> set ids \<longrightarrow> cr_device c \<noteq> e"
  proof (intro ballI impI)
    fix c assume c: "c \<in> set (credentials s)" and "cr_id c \<in> set ids"
    then obtain x where "x \<in> set (live_credentials d s)" "cr_id x = cr_id c" by (auto simp: ids_def)
    then have x: "x \<in> set (credentials s)" "cr_device x = d" and "cr_id x = cr_id c"
      by (auto simp: live_credentials_def)
    with c dist have "x = c" by (metis distinct_map_unique)
    with x e show "cr_device c \<noteq> e" by simp
  qed
  ultimately show "live_credentials e t = live_credentials e s"
    by (simp add: live_credentials_def ct cs_def)
qed

lemma expire_unused_effect:
  assumes "expire_unused_enrollment_codes now d s = (n, t)"
  shows "c \<in> set (enrollment_codes t) \<Longrightarrow> ec_device c = d \<longrightarrow> code_spent now c"
    and "t = s\<lparr>enrollment_codes := enrollment_codes t\<rparr>"
    and "filter (\<lambda>c. ec_device c \<noteq> d) (enrollment_codes t) = filter (\<lambda>c. ec_device c \<noteq> d) (enrollment_codes s)"
proof -
  define P where "P = (\<lambda>c::enrollment_code. ec_device c = d \<and> ec_used_at c = None \<and> now < ec_expires_at c)"
  have t: "t = s\<lparr>enrollment_codes := update_where P (\<lambda>c. c\<lparr>ec_expires_at := now\<rparr>) (enrollment_codes s)\<rparr>"
    using assms by (simp add: expire_unused_enrollment_codes_def Let_def P_def)
  show "c \<in> set (enrollment_codes t) \<Longrightarrow> ec_device c = d \<longrightarrow> code_spent now c"
    unfolding t by (simp, elim update_where_cases) (auto simp: code_spent_def P_def)
  show "t = s\<lparr>enrollment_codes := enrollment_codes t\<rparr>" by (simp add: t)
  have "filter (\<lambda>c. ec_device c \<noteq> d) (update_where P (\<lambda>c. c\<lparr>ec_expires_at := now\<rparr>) rows)
      = filter (\<lambda>c. ec_device c \<noteq> d) rows" for rows
    by (induction rows) (auto simp: table_simps P_def)
  note this [of "enrollment_codes s"]
  then show "filter (\<lambda>c. ec_device c \<noteq> d) (enrollment_codes t) = filter (\<lambda>c. ec_device c \<noteq> d) (enrollment_codes s)"
    by (simp add: t)
qed

lemma find_save_self:
  "find_device i s = Some d \<Longrightarrow> dv_id e = i \<Longrightarrow> find_device i (save_device e s) = Some e"
  by (simp add: find_save_device)

lemma disable_device_effect:
  assumes r: "disable_device clk actor i s = Inr t"
  shows "\<exists>d. find_device i s = Some d \<and>
           find_device i t = Some (d\<lparr>dv_status := Disabled, dv_disabled_at := Some (clk 0)\<rparr>)"
    and "live_credentials i t = []"
    and "c \<in> set (enrollment_codes t) \<Longrightarrow> ec_device c = i \<longrightarrow> code_spent (clk 2) c"
    and "distinct (map cr_id (credentials s)) \<Longrightarrow> e \<noteq> i \<Longrightarrow> live_credentials e t = live_credentials e s"
    and "management_credentials t = management_credentials s" and "assignments t = assignments s"
proof -
  from r obtain d where d: "find_device i s = Some d" by (auto simp: disable_device_def bind_result_Inr_iff get_device_Inr)
  define e0 where "e0 = d\<lparr>dv_status := Disabled, dv_disabled_at := Some (clk 0)\<rparr>"
  obtain n s1 where 1: "revoke_active_device_credentials (clk 1) i (save_device e0 s) = (n, s1)" by (metis surj_pair)
  obtain m s2 where 2: "expire_unused_enrollment_codes (clk 2) i s1 = (m, s2)" by (metis surj_pair)
  have t: "t = audit_device (clk 3) actor ''device.disable'' e0
               [(''playback_credentials_revoked'', JInt (int n)), (''enrollment_codes_expired'', JInt (int m))] s2"
    using r 1 2 by (simp add: disable_device_def get_device_def d e0_def [symmetric] Let_def)
  note a = revoke_active_effect [OF 1] and b = expire_unused_effect [OF 2]
  have cr: "credentials t = credentials s1" using arg_cong [OF b(2), of credentials] by (simp add: t)
  have ec: "enrollment_codes t = enrollment_codes s2" by (simp add: t)
  have dv: "devices t = devices (save_device e0 s)"
    using arg_cong [OF b(2), of devices] arg_cong [OF a(2), of devices] by (simp add: t)
  show "\<exists>d. find_device i s = Some d \<and>
           find_device i t = Some (d\<lparr>dv_status := Disabled, dv_disabled_at := Some (clk 0)\<rparr>)"
    using d find_save_self [OF d, of e0] find_device_id [OF d]
    by (simp add: find_device_cong [OF dv] e0_def)
  show "live_credentials i t = []" using a(1) by (simp add: live_credentials_def cr)
  show "c \<in> set (enrollment_codes t) \<Longrightarrow> ec_device c = i \<longrightarrow> code_spent (clk 2) c"
    using b(1) by (simp add: ec)
  show "distinct (map cr_id (credentials s)) \<Longrightarrow> e \<noteq> i \<Longrightarrow> live_credentials e t = live_credentials e s"
    using a(3) by (simp add: live_credentials_def cr)
  show "management_credentials t = management_credentials s"
    using arg_cong [OF b(2), of management_credentials] arg_cong [OF a(2), of management_credentials] by (simp add: t)
  show "assignments t = assignments s"
    using arg_cong [OF b(2), of assignments] arg_cong [OF a(2), of assignments] by (simp add: t)
qed

lemma revoke_device_effect:
  assumes r: "revoke_device_credentials clk actor i s = Inr (n, t)"
  shows "live_credentials i t = []" and "n = length (live_credentials i s)"
    and "c \<in> set (enrollment_codes t) \<Longrightarrow> ec_device c = i \<longrightarrow> code_spent (clk 1) c"
    and "m \<in> set (management_credentials t) \<Longrightarrow> mc_device m \<noteq> i"
    and "distinct (map cr_id (credentials s)) \<Longrightarrow> e \<noteq> i \<Longrightarrow> live_credentials e t = live_credentials e s"
    and "devices t = devices s"
proof -
  from r obtain d where d: "find_device i s = Some d"
    by (auto simp: revoke_device_credentials_def bind_result_Inr_iff get_device_Inr)
  obtain k s1 where 1: "revoke_active_device_credentials (clk 0) i s = (k, s1)" by (metis surj_pair)
  define s2 where "s2 = s1\<lparr>management_credentials := delete_where (\<lambda>m. mc_device m = i) (management_credentials s1)\<rparr>"
  obtain m0 s3 where 3: "expire_unused_enrollment_codes (clk 1) i s2 = (m0, s3)" by (metis surj_pair)
  have n: "n = k" and t: "\<exists>act pl. t = audit_device (clk 2) actor act d pl s3"
    using r 1 3 by (auto simp: revoke_device_credentials_def get_device_def d s2_def Let_def)
  note a = revoke_active_effect [OF 1] and b = expire_unused_effect [OF 3]
  from t have tf: "credentials t = credentials s3" "enrollment_codes t = enrollment_codes s3"
    "management_credentials t = management_credentials s3" "devices t = devices s3" by auto
  have cr: "credentials t = credentials s1" using arg_cong [OF b(2), of credentials] by (simp add: tf s2_def)
  have mg: "management_credentials t = delete_where (\<lambda>m. mc_device m = i) (management_credentials s1)"
    using arg_cong [OF b(2), of management_credentials] by (simp add: tf s2_def)
  show "live_credentials i t = []" using a(1) by (simp add: live_credentials_def cr)
  show "n = length (live_credentials i s)" using a(5) n by simp
  show "c \<in> set (enrollment_codes t) \<Longrightarrow> ec_device c = i \<longrightarrow> code_spent (clk 1) c"
    using b(1) by (simp add: tf)
  show "m \<in> set (management_credentials t) \<Longrightarrow> mc_device m \<noteq> i" by (simp add: mg)
  show "distinct (map cr_id (credentials s)) \<Longrightarrow> e \<noteq> i \<Longrightarrow> live_credentials e t = live_credentials e s"
    using a(3) by (simp add: live_credentials_def cr)
  show "devices t = devices s"
    using arg_cong [OF b(2), of devices] arg_cong [OF a(2), of devices] by (simp add: tf s2_def)
qed

subsection \<open>Properties\<close>

text \<open>Reassigning a device is the owner's, keeps at most one active assignment per device and
  leaves the device with exactly one, which names the driver, the vehicle and the SIM card of the
  cleaned form; other devices keep theirs. When the assignment changed, every code issued before
  is unusable from the time of the request on.\<close>
theorem reassign_one_active:
  assumes "device_reassign clk owner actor u f i s = Inr t" and "one_active s"
  shows "owner \<and> one_active t
    \<and> (\<exists>g a. clean_device_form f = Inr g \<and> active_assignments i t = [a] \<and> assignment_matches g a t)
    \<and> (\<forall>j. j \<noteq> i \<longrightarrow> active_assignments j t = active_assignments j s)
    \<and> (active_assignments i t = active_assignments i s \<or>
       (\<forall>c\<in>set (enrollment_codes t). \<forall>e now. ec_device c = i \<longrightarrow> clk 1 \<le> now \<longrightarrow> \<not> code_usable now c e t))"
  using device_reassign_effect [OF assms] by blast

text \<open>Provisioning keeps at most one active assignment per device and gives the new device,
  pending and with its kiosk PIN set, exactly one, with the driver, vehicle and SIM card of the
  form; other devices keep theirs.\<close>
theorem provision_one_active:
  assumes "device_create now owner actor uuid du ph f s = Inr t" and "one_active s"
    and "find_device uuid s = None"
  shows "owner \<and> one_active t
    \<and> (\<exists>g a d. clean_device_form f = Inr g \<and> active_assignments uuid t = [a] \<and> assignment_matches g a t
       \<and> find_device uuid t = Some d \<and> dv_status d = Pending \<and> dv_kiosk_pin_hash d = ph \<and> dv_label d = df_label g)
    \<and> (\<forall>j. j \<noteq> uuid \<longrightarrow> active_assignments j t = active_assignments j s)"
  using device_create_effect [OF assms] by blast

definition example_form :: "string \<Rightarrow> device_form" where
  "example_form driver = \<lparr>df_label = ''Unit 1'', df_qualification = None, df_driver_name = driver,
     df_vehicle_registration = ''KA 1'', df_sim_card_number = ''89''\<rparr>"

definition fleet_db :: db where
  "fleet_db = (case device_create 10 True 1 7 8 ''pin'' (example_form ''Ann'') empty_db of
     Inl e \<Rightarrow> empty_db | Inr t \<Rightarrow> t)"

theorem provision_one_active_witness:
  "\<exists>t. device_create 10 True 1 7 8 ''pin'' (example_form ''Ann'') empty_db = Inr t \<and> one_active t"
proof -
  have "(case device_create 10 True 1 7 8 ''pin'' (example_form ''Ann'') empty_db of Inl e \<Rightarrow> False | Inr t \<Rightarrow> True)"
    and o: "one_active empty_db" and f: "find_device 7 empty_db = None"
    by code_simp+
  then obtain t where t: "device_create 10 True 1 7 8 ''pin'' (example_form ''Ann'') empty_db = Inr t"
    by (auto split: sum.splits)
  show ?thesis using provision_one_active [OF t o f] t by blast
qed

theorem reassign_one_active_witness:
  "\<exists>t. device_reassign (\<lambda>n. 20) True 1 9 (example_form ''Bob'') 7 fleet_db = Inr t \<and> one_active t"
proof -
  have "(case device_reassign (\<lambda>n. 20) True 1 9 (example_form ''Bob'') 7 fleet_db of Inl e \<Rightarrow> False | Inr t \<Rightarrow> True)"
    and o: "one_active fleet_db"
    by code_simp+
  then obtain t where t: "device_reassign (\<lambda>n. 20) True 1 9 (example_form ''Bob'') 7 fleet_db = Inr t"
    by (auto split: sum.splits)
  show ?thesis using reassign_one_active [OF t o] t by blast
qed


subsection \<open>The command handshake\<close>

lemma find_command:
  assumes "distinct (map dc_id rows)" and "c \<in> set rows" and "P c"
  shows "find (\<lambda>x. dc_id x = dc_id c \<and> P x) rows = Some c"
proof (cases "find (\<lambda>x. dc_id x = dc_id c \<and> P x) rows")
  case None
  with assms show ?thesis by (auto simp: find_None_iff)
next
  case (Some x)
  then have "x \<in> set rows" "dc_id x = dc_id c" by (auto simp: find_Some_iff)
  with assms(1,2) have "x = c" by (metis distinct_map_unique)
  with Some show ?thesis by simp
qed

lemma acknowledge_missing:
  assumes "\<And>x. x \<in> set (commands s) \<Longrightarrow> dc_id x = i \<Longrightarrow> \<not> (pending_command now d x \<and> dc_delivered_at x \<noteq> None)"
    and "0 \<le> i" and "i < 2 ^ 128"
  shows "acknowledge_command now d (JStr (uuid_str i)) s = Inl (ValidationError [] ''Command is unavailable.'')"
proof -
  have "find (\<lambda>c. dc_id c = i \<and> pending_command now d c \<and> dc_delivered_at c \<noteq> None) (commands s) = None"
    using assms(1) unfolding find_None_iff by blast
  then show ?thesis unfolding acknowledge_command_def using assms(2,3) by (simp add: json_str_def)
qed

lemma deliver_command_effect:
  assumes dist: "distinct (map dc_id (commands s))" and dl: "deliver_command now d s = (Some c, t)"
  shows "pending_command now d c" and "dc_delivered_at c \<noteq> None"
    and "commands t = save_by dc_id c (commands s)" and "c \<in> set (commands t)"
    and "x \<in> set (commands s) \<Longrightarrow> pending_command now d x \<Longrightarrow> dc_created_at c \<le> dc_created_at x"
proof -
  from dl obtain q where q: "order_first dc_created_at (filter (pending_command now d) (commands s)) = Some q"
    by (auto simp: deliver_command_def split: option.splits)
  have qm: "q \<in> set (commands s)" "pending_command now d q"
    using order_first_SomeD(1) [OF q] by auto
  have c: "c = (if dc_delivered_at q = None then q\<lparr>dc_delivered_at := Some now\<rparr> else q)"
    and t: "commands t = (if dc_delivered_at q = None then save_by dc_id c (commands s) else commands s)"
    using dl q by (auto simp: deliver_command_def Let_def split: if_splits)
  have id: "dc_id c = dc_id q" and cr: "dc_created_at c = dc_created_at q" by (simp_all add: c)
  show "pending_command now d c" using qm(2) by (simp add: c pending_command_def)
  show "dc_delivered_at c \<noteq> None" by (auto simp: c)
  have "save_by dc_id q (commands s) = commands s"
    unfolding save_by_def using dist qm(1) by (intro map_idI) (auto dest: distinct_map_unique)
  then show ct: "commands t = save_by dc_id c (commands s)" using t by (auto simp: c)
  show "c \<in> set (commands t)" using qm(1) id by (force simp: ct set_save_by)
  show "x \<in> set (commands s) \<Longrightarrow> pending_command now d x \<Longrightarrow> dc_created_at c \<le> dc_created_at x"
    using order_first_SomeD(2) [OF q, of x] by (simp add: cr)
qed

lemma acknowledge_effect:
  assumes dist: "distinct (map dc_id (commands s))" and c: "c \<in> set (commands s)"
    and p: "pending_command now d c" "dc_delivered_at c \<noteq> None" and u: "0 \<le> dc_id c" "dc_id c < 2 ^ 128"
  shows "acknowledge_command now d (JStr (uuid_str (dc_id c))) s =
    Inr (s\<lparr>commands := save_by dc_id (c\<lparr>dc_acknowledged_at := Some now\<rparr>) (commands s)\<rparr>)"
  using find_command [OF dist c, of "\<lambda>c. pending_command now d c \<and> dc_delivered_at c \<noteq> None"] p u
  by (simp add: acknowledge_command_def json_str_def)

text \<open>The management command handshake. What is delivered to a device is its earliest pending
  command, marked as delivered. Until the command expires the device can acknowledge it by the
  identifier it was sent, and only once: then no device can acknowledge it again and it is not
  delivered again. Another device cannot acknowledge it, nor can the device once it has expired.\<close>
theorem command_handshake:
  assumes "distinct (map dc_id (commands s))" and "deliver_command now d s = (Some c, t)"
    and "0 \<le> dc_id c" and "dc_id c < 2 ^ 128"
  shows "dc_device c = d \<and> now < dc_expires_at c \<and> dc_delivered_at c \<noteq> None
    \<and> list_all (\<lambda>x. pending_command now d x \<longrightarrow> dc_created_at c \<le> dc_created_at x) (commands s)
    \<and> (\<forall>later < dc_expires_at c. \<exists>u. acknowledge_command later d (JStr (uuid_str (dc_id c))) t = Inr u
         \<and> (\<forall>again e. acknowledge_command again e (JStr (uuid_str (dc_id c))) u
               = Inl (ValidationError [] ''Command is unavailable.'')
             \<and> map_option dc_id (fst (deliver_command again e u)) \<noteq> Some (dc_id c)))
    \<and> (\<forall>later e. e \<noteq> d \<or> dc_expires_at c \<le> later \<longrightarrow>
         acknowledge_command later e (JStr (uuid_str (dc_id c))) t
           = Inl (ValidationError [] ''Command is unavailable.''))"
proof -
  note eff = deliver_command_effect [OF assms(1,2)]
  have dt: "distinct (map dc_id (commands t))" using assms(1) by (simp add: eff(3) table_simps)
  have uniq: "x = c" if "x \<in> set (commands t)" "dc_id x = dc_id c" for x
    using that eff(4) dt by (metis distinct_map_unique)
  have refuse: "acknowledge_command later e (JStr (uuid_str (dc_id c))) v = Inl (ValidationError [] ''Command is unavailable.'')"
    if "\<And>x. x \<in> set (commands v) \<Longrightarrow> dc_id x = dc_id c \<Longrightarrow> \<not> (pending_command later e x \<and> dc_delivered_at x \<noteq> None)"
    for later e v
    using acknowledge_missing [of v "dc_id c" later e] that assms(3,4) by blast
  have ack: "\<exists>u. acknowledge_command later d (JStr (uuid_str (dc_id c))) t = Inr u
         \<and> (\<forall>again e. acknowledge_command again e (JStr (uuid_str (dc_id c))) u
               = Inl (ValidationError [] ''Command is unavailable.'')
             \<and> map_option dc_id (fst (deliver_command again e u)) \<noteq> Some (dc_id c))"
    if "later < dc_expires_at c" for later
  proof -
    define u where "u = t\<lparr>commands := save_by dc_id (c\<lparr>dc_acknowledged_at := Some later\<rparr>) (commands t)\<rparr>"
    have "pending_command later d c" using eff(1) that by (simp add: pending_command_def)
    then have a: "acknowledge_command later d (JStr (uuid_str (dc_id c))) t = Inr u"
      unfolding u_def using dt eff(2,4) assms(3,4) by (intro acknowledge_effect) auto
    have done_all: "\<not> pending_command again e x" if "x \<in> set (commands u)" "dc_id x = dc_id c" for x again e
      using that by (auto simp: u_def pending_command_def dest!: save_by_mem)
    have "map_option dc_id (fst (deliver_command again e u)) \<noteq> Some (dc_id c)" for again e
    proof (cases "order_first dc_created_at (filter (pending_command again e) (commands u))")
      case None
      then show ?thesis by (simp add: deliver_command_def)
    next
      case (Some x)
      then have "x \<in> set (commands u)" "pending_command again e x" by (auto dest: order_first_SomeD(1))
      with done_all have "dc_id x \<noteq> dc_id c" by blast
      with Some show ?thesis by (simp add: deliver_command_def Let_def)
    qed
    then show ?thesis using a refuse [of u] done_all by blast
  qed
  have "acknowledge_command later e (JStr (uuid_str (dc_id c))) t = Inl (ValidationError [] ''Command is unavailable.'')"
    if "e \<noteq> d \<or> dc_expires_at c \<le> later" for later e
    using that eff(1) by (intro refuse) (auto simp: pending_command_def dest!: uniq)
  then show ?thesis
    using eff ack by (simp add: pending_command_def list_all_iff)
qed

definition command_db :: db where
  "command_db = (case device_admin_mode 100 True 1 42 7 fleet_db of
     Inl e \<Rightarrow> empty_db | Inr (created, t) \<Rightarrow> t)"

theorem command_handshake_witness:
  "\<exists>c t u. deliver_command 200 7 command_db = (Some c, t)
     \<and> acknowledge_command 300 7 (JStr (uuid_str (dc_id c))) t = Inr u"
proof -
  have "(case fst (deliver_command 200 7 command_db) of None \<Rightarrow> False | Some c \<Rightarrow>
      0 \<le> dc_id c \<and> dc_id c < 2 ^ 128 \<and> 300 < dc_expires_at c)"
    and d: "distinct (map dc_id (commands command_db))"
    by code_simp+
  then obtain c t where "deliver_command 200 7 command_db = (Some c, t)"
    and "0 \<le> dc_id c" "dc_id c < 2 ^ 128" "300 < dc_expires_at c"
    by (cases "deliver_command 200 7 command_db") (auto split: option.splits)
  with command_handshake [OF d this(1-3)] show ?thesis by blast
qed

end
