(* ===== verification/Integrity.thy ===== *)
theory Integrity
  imports Settings
begin

section \<open>Play Integrity attestation\<close>

text \<open>
  \<open>integrity.py\<close>: the configured signing certificates, the shape of the Google credentials,
  the AWS credential broker and the checks on a decoded integrity verdict. The answers of
  Google and of the broker, the opened token file and the clock are arguments.
\<close>

subsection \<open>Signing certificates\<close>

definition is_hexdigit :: "char \<Rightarrow> bool" where
  "is_hexdigit c = (hex_digit c \<noteq> None)"

definition clean_fingerprint :: "string \<Rightarrow> string" where
  "clean_fingerprint raw = lower (remove_all '' '' (remove_all '':'' raw))"

definition configured_certificate_fingerprints :: "settings \<Rightarrow> string list result" where
  "configured_certificate_fingerprints st =
     bind_result (map_result (\<lambda>raw. let f = clean_fingerprint raw in
         if length f \<noteq> 64 \<or> \<not> list_all is_hexdigit f
         then Inl (ImproperlyConfigured ''PLAY_INTEGRITY_APP_CERTIFICATE_SHA256 must contain comma-separated SHA-256 certificate fingerprints in 64-character hex.'')
         else Inr f) (st_play_integrity_app_certificate_sha256 st)) (\<lambda>fs.
     if fs = [] then Inl (ImproperlyConfigured ''PLAY_INTEGRITY_APP_CERTIFICATE_SHA256 is required in production.'')
     else Inr fs)"

text \<open>
  \<open>base64.urlsafe_b64decode\<close>: the two URL-safe characters are translated first, characters
  outside the alphabet are skipped, and the data ends at complete padding. The arguments of
  \<open>a2b_base64\<close> are the position in the group of four, the pad characters seen and the bits left over.
\<close>

definition b64_value :: "char \<Rightarrow> int option" where
  "b64_value c = (let n = (of_char c :: int) in
     if 65 \<le> n \<and> n \<le> 90 then Some (n - 65)
     else if 97 \<le> n \<and> n \<le> 122 then Some (n - 71)
     else if 48 \<le> n \<and> n \<le> 57 then Some (n + 4)
     else if n = 43 \<or> n = 45 then Some 62
     else if n = 47 \<or> n = 95 then Some 63 else None)"

fun a2b_base64 :: "nat \<Rightarrow> nat \<Rightarrow> int \<Rightarrow> string \<Rightarrow> int list option" where
  "a2b_base64 quad pads left [] = (if quad = 0 then Some [] else None)"
| "a2b_base64 quad pads left (c # cs) =
     (if c = CHR ''='' then
        (if 2 \<le> quad \<and> 4 \<le> quad + pads + 1 then Some []
         else a2b_base64 quad (if 2 \<le> quad then pads + 1 else pads) left cs)
      else (case b64_value c of
          None \<Rightarrow> a2b_base64 quad pads left cs
        | Some v \<Rightarrow>
            if quad = 0 then a2b_base64 1 0 v cs
            else if quad = 1 then map_option ((#) (left * 4 + v div 16)) (a2b_base64 2 0 (v mod 16) cs)
            else if quad = 2 then map_option ((#) (left * 16 + v div 4)) (a2b_base64 3 0 (v mod 4) cs)
            else map_option ((#) (left * 64 + v)) (a2b_base64 0 0 0 cs)))"

definition urlsafe_b64decode :: "string \<Rightarrow> int list option" where
  "urlsafe_b64decode s = (if list_all (\<lambda>c. (of_char c :: int) < 128) s then a2b_base64 0 0 0 s else None)"

definition bytes_hex :: "int list \<Rightarrow> string" where
  "bytes_hex bs = concat (map (hex_fixed 2) bs)"

definition b64_padding :: "string \<Rightarrow> string" where
  "b64_padding s = replicate (nat ((- int (length s)) mod 4)) (CHR ''='')"

definition certificate_digest_hex :: "json \<Rightarrow> string option" where
  "certificate_digest_hex value = (case value of
       JStr s \<Rightarrow> (case urlsafe_b64decode (s @ b64_padding s) of
           None \<Rightarrow> None
         | Some decoded \<Rightarrow> if length decoded = 32 then Some (bytes_hex decoded) else None)
     | _ \<Rightarrow> None)"

subsection \<open>Google credentials\<close>

definition aws_credential_broker_url :: string where
  "aws_credential_broker_url = ''http://169.254.170.2:51679/v2/credentials''"

definition aws_subject_token_type :: string where
  "aws_subject_token_type = ''urn:ietf:params:aws:token-type:aws4_request''"

definition wif_impersonation_url :: string where
  "wif_impersonation_url = ''https://iamcredentials.googleapis.com/v1/projects/-/serviceAccounts/play-integrity-decoder@healthy-wares-506910-g5.iam.gserviceaccount.com:generateAccessToken''"

definition is_slug_char :: "char \<Rightarrow> bool" where
  "is_slug_char c = (let n = (of_char c :: int) in (97 \<le> n \<and> n \<le> 122) \<or> (48 \<le> n \<and> n \<le> 57) \<or> n = 45)"

text \<open>The regular expression \<open>prefix [a-z0-9-]+ /providers/ [a-z0-9-]+\<close>.\<close>

definition audience_matches :: "string \<Rightarrow> string \<Rightarrow> bool" where
  "audience_matches prefix audience =
     (let rest = drop (length prefix) audience;
          tail = dropWhile is_slug_char rest;
          provider = drop (length ''/providers/'') tail
      in startswith audience prefix \<and> takeWhile is_slug_char rest \<noteq> [] \<and> startswith tail ''/providers/''
         \<and> provider \<noteq> [] \<and> list_all is_slug_char provider)"

definition expected_audience :: "settings \<Rightarrow> string" where
  "expected_audience st = ''//iam.googleapis.com/projects/'' @ st_play_integrity_project_number st
     @ ''/locations/global/workloadIdentityPools/''"

definition expected_source :: "(string \<times> string) list" where
  "expected_source =
     [(''environment_id'', ''aws1''),
      (''imdsv2_session_token_url'', ''http://169.254.169.254/latest/api/token''),
      (''region_url'', ''http://169.254.169.254/latest/meta-data/placement/availability-zone''),
      (''regional_cred_verification_url'',
        ''https://sts.{region}.amazonaws.com?Action=GetCallerIdentity&Version=2011-06-15''),
      (''url'', ''http://169.254.169.254/latest/meta-data/iam/security-credentials'')]"

definition is_expected_source :: "json \<Rightarrow> bool" where
  "is_expected_source v = (case v of
       JObj p \<Rightarrow> keys_exactly p (map fst expected_source)
         \<and> list_all (\<lambda>(k, w). jget p k = JStr w) expected_source
     | _ \<Rightarrow> False)"

definition missing_fields :: "string list \<Rightarrow> payload \<Rightarrow> string list" where
  "missing_fields sorted_required p = filter (\<lambda>k. k \<notin> set (jkeys p)) sorted_required"

definition validate_service_account :: "payload \<Rightarrow> payload result" where
  "validate_service_account p =
     (let missing = missing_fields [''client_email'', ''private_key'', ''project_id''] p in
      if missing \<noteq> [] then Inl (ImproperlyConfigured (''Play Integrity credentials are missing: '' @ join '', '' missing))
      else Inr p)"

definition validate_external_account :: "settings \<Rightarrow> payload \<Rightarrow> payload result" where
  "validate_external_account st p =
     (let missing = missing_fields [''audience'', ''credential_source'', ''service_account_impersonation_url'',
            ''subject_token_type'', ''token_url''] p in
      if missing \<noteq> [] then Inl (ImproperlyConfigured (''AWS federation credentials are missing: '' @ join '', '' missing))
      else if jget p ''subject_token_type'' \<noteq> JStr aws_subject_token_type
        then Inl (ImproperlyConfigured ''AWS federation credentials must use the AWS SigV4 subject-token type.'')
      else if jget p ''token_url'' \<noteq> JStr ''https://sts.googleapis.com/v1/token''
        then Inl (ImproperlyConfigured ''AWS federation credentials must use the Google STS endpoint.'')
      else if (case jget p ''audience'' of JStr a \<Rightarrow> \<not> audience_matches (expected_audience st) a | _ \<Rightarrow> True)
        then Inl (ImproperlyConfigured ''AWS federation audience does not match the configured Play Integrity project.'')
      else if jget p ''service_account_impersonation_url'' \<noteq> JStr wif_impersonation_url
        then Inl (ImproperlyConfigured ''AWS federation must impersonate the approved Play Integrity service account.'')
      else if \<not> is_expected_source (jget p ''credential_source'')
        then Inl (ImproperlyConfigured ''AWS federation credential-source endpoints are not the approved AWS endpoints.'')
      else Inr p)"

definition validate_play_integrity_credentials :: "settings \<Rightarrow> json \<Rightarrow> payload result" where
  "validate_play_integrity_credentials st info = (case info of
       JObj p \<Rightarrow>
         if jget p ''type'' = JStr ''service_account'' then validate_service_account p
         else if jget p ''type'' \<noteq> JStr ''external_account''
           then Inl (ImproperlyConfigured ''Play Integrity credentials must be a service account or AWS external account.'')
         else validate_external_account st p
     | _ \<Rightarrow> Inl (ImproperlyConfigured ''PLAY_INTEGRITY_SERVICE_ACCOUNT_JSON must contain a JSON object.''))"

text \<open>\<open>loads\<close> is the JSON reader; \<open>None\<close> is its decoding error.\<close>

definition credentials_info :: "settings \<Rightarrow> (string \<Rightarrow> json option) \<Rightarrow> payload result" where
  "credentials_info st loads = (let raw = st_play_integrity_service_account_json st in
     if raw = [] then Inl (ImproperlyConfigured ''PLAY_INTEGRITY_SERVICE_ACCOUNT_JSON is required in production.'')
     else (case loads raw of
         None \<Rightarrow> Inl (ImproperlyConfigured ''PLAY_INTEGRITY_SERVICE_ACCOUNT_JSON must be valid JSON.'')
       | Some info \<Rightarrow> validate_play_integrity_credentials st info))"

subsection \<open>The AWS credential broker\<close>

record broker_file =
  bf_regular :: bool
  bf_owner :: int
  bf_mode :: int
  bf_text :: "string option"

definition refresh_error :: "string \<Rightarrow> error" where
  "refresh_error m = ServerError (''RefreshError: '' @ m)"

text \<open>The broker's address and token file of the constructor.\<close>

definition broker_supplier :: "environ \<Rightarrow> (string \<times> string) result" where
  "broker_supplier env =
     (let url = strip (env_str env ''AWS_CONTAINER_CREDENTIALS_FULL_URI'' []);
          path = strip (env_str env ''AWS_CONTAINER_AUTHORIZATION_TOKEN_FILE'' [])
      in if url \<noteq> aws_credential_broker_url \<or> path = []
         then Inl (ImproperlyConfigured ''The AWS credential broker is not configured for Play Integrity federation.'')
         else Inr (url, path))"

definition lower_hexdigit :: "char \<Rightarrow> bool" where
  "lower_hexdigit c = (c \<in> set hex_chars)"

text \<open>\<open>None\<close> is a file that cannot be opened without following a link; \<open>bf_text\<close> is \<open>None\<close>
  when the content is not ASCII.\<close>

definition authorization_token :: "int \<Rightarrow> broker_file option \<Rightarrow> string result" where
  "authorization_token uid file =
     (let unsafe = refresh_error ''The AWS credential broker authorization file is unsafe.'' in
      case file of
        None \<Rightarrow> Inl unsafe
      | Some f \<Rightarrow>
          if \<not> bf_regular f \<or> bf_owner f \<noteq> uid \<or> bf_mode f \<noteq> 256 then Inl unsafe
          else (case bf_text f of
              None \<Rightarrow> Inl unsafe
            | Some content \<Rightarrow> (let token = strip content in
                if length token \<noteq> 64 \<or> \<not> list_all lower_hexdigit token
                then Inl (refresh_error ''The AWS credential broker authorization token is invalid.'')
                else Inr token)))"

definition get_aws_region :: "environ \<Rightarrow> string result" where
  "get_aws_region env =
     (case filter (\<lambda>r. r \<noteq> []) (map (\<lambda>name. strip (env_str env name []))
        [''AWS_REGION'', ''AWS_DEFAULT_REGION'', ''AWS_S3_REGION_NAME'']) of
        [] \<Rightarrow> Inl (refresh_error ''The AWS region is not configured.'')
      | region # rest \<Rightarrow> Inr region)"

text \<open>The broker's answer: its status and the JSON value of its body, if it is one.\<close>

definition get_aws_security_credentials ::
  "string result \<Rightarrow> (string \<Rightarrow> int \<times> json option) \<Rightarrow> (string \<times> string \<times> string option) result" where
  "get_aws_security_credentials token request =
     bind_result token (\<lambda>t.
     let (status, body) = request t;
         bad = Inl (refresh_error ''The AWS credential broker did not return valid credentials.'')
     in if status \<noteq> 200 then bad
        else (case body of
            Some (JObj p) \<Rightarrow>
              (case (jget p ''AccessKeyId'', jget p ''SecretAccessKey'', jget p ''Token'') of
                 (JStr key, JStr secret, JNull) \<Rightarrow> if key = [] \<or> secret = [] then bad else Inr (key, secret, None)
               | (JStr key, JStr secret, JStr session) \<Rightarrow>
                   if key = [] \<or> secret = [] then bad else Inr (key, secret, Some session)
               | _ \<Rightarrow> bad)
          | _ \<Rightarrow> bad))"

text \<open>Whether Google's library accepts a service account is an argument.\<close>

definition google_credentials :: "environ \<Rightarrow> (payload \<Rightarrow> unit result) \<Rightarrow> payload \<Rightarrow> unit result" where
  "google_credentials env service_account info =
     (if jget info ''type'' = JStr ''external_account''
      then bind_result (broker_supplier env) (\<lambda>b. Inr ())
      else service_account info)"

subsection \<open>The verdict\<close>

text \<open>
  The answer to the decoding request: \<open>RequestFailed\<close> for a transport error or an error status,
  otherwise the JSON body. A value of the wrong shape raises an error no handler catches.
\<close>

datatype decode_answer = RequestFailed | Answered json

definition type_error :: "'a result" where
  "type_error = Inl (ServerError ''TypeError or AttributeError'')"

definition as_object :: "json \<Rightarrow> payload result" where
  "as_object v = (case v of JObj p \<Rightarrow> Inr p | _ \<Rightarrow> type_error)"

definition decode_integrity_token ::
  "settings \<Rightarrow> environ \<Rightarrow> (string \<Rightarrow> json option) \<Rightarrow> (payload \<Rightarrow> unit result)
    \<Rightarrow> (string \<Rightarrow> string \<Rightarrow> decode_answer) \<Rightarrow> string \<Rightarrow> json result" where
  "decode_integrity_token st env loads service_account post token =
     bind_result (credentials_info st loads) (\<lambda>info.
     bind_result (google_credentials env service_account info) (\<lambda>u.
     let url = ''https://playintegrity.googleapis.com/v1/'' @ st_play_integrity_package_name st
                 @ '':decodeIntegrityToken'' in
     case post url token of
       RequestFailed \<Rightarrow> Inl (AuthenticationFailed ''Device integrity could not be verified.'')
     | Answered body \<Rightarrow> bind_result (as_object body) (\<lambda>p.
         Inr (jget_default p ''tokenPayloadExternal'' (JObj [])))))"

fun is_substring :: "string \<Rightarrow> string \<Rightarrow> bool" where
  "is_substring p [] = (p = [])"
| "is_substring p (c # cs) = (startswith (c # cs) p \<or> is_substring p cs)"

text \<open>\<open>word in value\<close>.\<close>

definition json_contains :: "string \<Rightarrow> json \<Rightarrow> bool result" where
  "json_contains word v = (case v of
       JArr xs \<Rightarrow> Inr (JStr word \<in> set xs)
     | JObj p \<Rightarrow> Inr (word \<in> set (jkeys p))
     | JStr s \<Rightarrow> Inr (is_substring word s)
     | _ \<Rightarrow> type_error)"

text \<open>
  \<open>datetime.fromtimestamp(ms / 1000)\<close>: years 1 to 9999; a time outside the range of \<open>time_t\<close>
  raises \<open>OverflowError\<close>, which the handler does not catch.
\<close>

definition token_time :: "payload \<Rightarrow> time result" where
  "token_time request = (case json_int (jget request ''timestampMillis'') of
       None \<Rightarrow> Inl (AuthenticationFailed ''Device integrity requirements failed.'')
     | Some ms \<Rightarrow>
         if -62135596800000 \<le> ms \<and> ms < 253402300800000 then Inr (ms * 1000)
         else if \<bar>ms\<bar> div 1000 < 2 ^ 63 then Inl (AuthenticationFailed ''Device integrity requirements failed.'')
         else Inl (ServerError ''OverflowError''))"

text \<open>\<open>verify_integrity_token\<close> after the decoding. Comparing a hash that is not ASCII raises.\<close>

definition check_request :: "settings \<Rightarrow> time \<Rightarrow> payload \<Rightarrow> string \<Rightarrow> unit result" where
  "check_request st now payload expected =
     bind_result (as_object (jget_default payload ''requestDetails'' (JObj []))) (\<lambda>request.
     bind_result (require (jget request ''requestPackageName'' = JStr (st_play_integrity_package_name st))
        (AuthenticationFailed ''Device integrity requirements failed.'')) (\<lambda>u1.
     let h = json_str (jget_default request ''requestHash'' (JStr [])) in
     if \<not> list_all (\<lambda>c. (of_char c :: int) < 128) (h @ expected) then type_error
     else bind_result (require (h = expected)
        (AuthenticationFailed ''Device integrity requirements failed.'')) (\<lambda>u2.
     bind_result (token_time request) (\<lambda>t.
     require (\<bar>now - t\<bar> \<le> seconds (st_play_integrity_max_token_age_seconds st))
        (AuthenticationFailed ''Device integrity token expired.'')))))"

definition check_device_verdict :: "payload \<Rightarrow> unit result" where
  "check_device_verdict payload =
     bind_result (as_object (jget_default payload ''deviceIntegrity'' (JObj []))) (\<lambda>device.
     bind_result (json_contains ''MEETS_DEVICE_INTEGRITY''
        (jget_default device ''deviceRecognitionVerdict'' (JArr []))) (\<lambda>ok.
     require ok (PermissionDenied ''Device integrity requirements failed.'')))"

definition token_fingerprints :: "json list \<Rightarrow> string list" where
  "token_fingerprints xs = List.map_filter certificate_digest_hex xs"

definition is_container :: "json \<Rightarrow> bool" where
  "is_container v = (case v of JArr xs \<Rightarrow> True | JObj p \<Rightarrow> True | _ \<Rightarrow> False)"

definition check_app_verdict :: "settings \<Rightarrow> payload \<Rightarrow> unit result" where
  "check_app_verdict st payload =
     (let failed = AuthenticationFailed ''Device integrity requirements failed.'' in
      case jget_default payload ''appIntegrity'' (JObj []) of
        JObj app \<Rightarrow>
          bind_result (require (jget app ''packageName'' = JStr (st_play_integrity_package_name st)) failed) (\<lambda>u1.
          let verdict = jget app ''appRecognitionVerdict'' in
          if is_container verdict then type_error
          else bind_result (require (verdict = JStr ''PLAY_RECOGNIZED'' \<or> verdict = JStr ''UNRECOGNIZED_VERSION'') failed) (\<lambda>u2.
          case jget_default app ''certificateSha256Digest'' (JArr []) of
            JArr digests \<Rightarrow>
              bind_result (configured_certificate_fingerprints st) (\<lambda>approved.
              require (list_ex (\<lambda>f. f \<in> set approved) (token_fingerprints digests)) failed)
          | _ \<Rightarrow> Inl failed))
      | _ \<Rightarrow> Inl failed)"

definition verify_integrity_token :: "settings \<Rightarrow> time \<Rightarrow> json result \<Rightarrow> string \<Rightarrow> payload result" where
  "verify_integrity_token st now decoded expected =
     bind_result decoded (\<lambda>v. bind_result (as_object v) (\<lambda>payload.
     bind_result (check_request st now payload expected) (\<lambda>u1.
     bind_result (check_device_verdict payload) (\<lambda>u2.
     bind_result (check_app_verdict st payload) (\<lambda>u3. Inr payload)))))"

subsection \<open>Certificate digests and fingerprints\<close>

text \<open>URL-safe Base64 without padding, the form of the digests in a verdict.\<close>

definition b64_char :: "int \<Rightarrow> char" where
  "b64_char v = (if v < 26 then char_of (65 + v) else if v < 52 then char_of (71 + v)
     else if v < 62 then char_of (v - 4) else if v = 62 then CHR ''-'' else CHR ''_'')"

fun b64_encode :: "int list \<Rightarrow> string" where
  "b64_encode [] = []"
| "b64_encode [a] = [b64_char (a div 4), b64_char (a mod 4 * 16)]"
| "b64_encode [a, b] = [b64_char (a div 4), b64_char (a mod 4 * 16 + b div 16), b64_char (b mod 16 * 4)]"
| "b64_encode (a # b # c # bs) = b64_char (a div 4) # b64_char (a mod 4 * 16 + b div 16)
     # b64_char (b mod 16 * 4 + c div 64) # b64_char (c mod 64) # b64_encode bs"

definition is_byte :: "int \<Rightarrow> bool" where
  "is_byte b = (0 \<le> b \<and> b < 256)"

lemma b64_char_value:
  assumes "0 \<le> v" and "v < 64"
  shows "b64_value (b64_char v) = Some v" and "b64_char v \<noteq> CHR ''=''"
    and "(of_char (b64_char v) :: int) < 128"
proof -
  have all: "list_all (\<lambda>v. b64_value (b64_char v) = Some v \<and> b64_char v \<noteq> CHR ''=''
      \<and> (of_char (b64_char v) :: int) < 128) [0..63]"
    by code_simp
  have "v \<in> set [0..63]" using assms by simp
  with all show "b64_value (b64_char v) = Some v" and "b64_char v \<noteq> CHR ''=''"
    and "(of_char (b64_char v) :: int) < 128"
    unfolding list_all_iff by blast+
qed

lemma byte_parts:
  assumes "is_byte a"
  shows "0 \<le> a div 4" "a div 4 < 64" "0 \<le> a div 16" "a div 16 < 16" "0 \<le> a div 64" "a div 64 < 4"
    "0 \<le> a mod 4" "a mod 4 < 4" "0 \<le> a mod 16" "a mod 16 < 16" "0 \<le> a mod 64" "a mod 64 < 64"
  using assms unfolding is_byte_def by presburger+

lemma sextets:
  assumes "is_byte a" and "is_byte b"
  shows "0 \<le> a div 4" "a div 4 < 64" "0 \<le> a mod 4 * 16" "a mod 4 * 16 < 64"
    "0 \<le> a mod 4 * 16 + b div 16" "a mod 4 * 16 + b div 16 < 64"
    "0 \<le> b mod 16 * 4" "b mod 16 * 4 < 64" "0 \<le> a mod 16 * 4 + b div 64" "a mod 16 * 4 + b div 64 < 64"
    "0 \<le> a mod 64" "a mod 64 < 64"
  using byte_parts [OF assms(1)] byte_parts [OF assms(2)] by linarith+

lemma regroup:
  assumes "is_byte b"
  shows "b div 16 div 16 = 0" "b div 16 mod 16 = b div 16" "b div 64 div 4 = 0" "b div 64 mod 4 = b div 64"
  using byte_parts [OF assms] by simp_all

lemma b64_padding_4: "length s = n + 4 \<Longrightarrow> length t = n \<Longrightarrow> b64_padding s = b64_padding t"
proof -
  assume a: "length s = n + 4" "length t = n"
  have "(- int (n + 4)) mod 4 = (- int n) mod 4"
    using mod_mult_self1 [of "- int n" "-1" "4"] by simp
  with a show ?thesis by (simp add: b64_padding_def)
qed

lemma decode_encode:
  "list_all is_byte bs \<Longrightarrow> a2b_base64 0 0 0 (b64_encode bs @ b64_padding (b64_encode bs)) = Some bs"
proof (induction bs rule: b64_encode.induct)
  case 1
  then show ?case by (simp add: b64_padding_def)
next
  case (2 a)
  then have a: "is_byte a" "is_byte 0" by (simp_all add: is_byte_def)
  have "b64_padding (b64_encode [a]) = ''==''" by (simp add: b64_padding_def numeral_2_eq_2)
  then show ?case
    using a by (simp add: b64_char_value byte_parts sextets regroup)
next
  case (3 a b)
  then have a: "is_byte a" "is_byte b" by simp_all
  have "b64_padding (b64_encode [a, b]) = ''=''" by (simp add: b64_padding_def)
  then show ?case
    using a by (simp add: b64_char_value byte_parts sextets regroup)
next
  case (4 a b c bs)
  then have a: "is_byte a" "is_byte b" "is_byte c" by simp_all
  have "b64_padding (b64_encode (a # b # c # bs)) = b64_padding (b64_encode bs)"
    by (rule b64_padding_4) simp_all
  moreover have "a2b_base64 0 0 0 (b64_encode bs @ b64_padding (b64_encode bs)) = Some bs"
    using 4 by simp
  ultimately show ?case
    using a by (simp add: b64_char_value byte_parts sextets regroup)
qed

lemma b64_ascii: "list_all is_byte bs \<Longrightarrow> list_all (\<lambda>c. (of_char c :: int) < 128) (b64_encode bs)"
proof (induction bs rule: b64_encode.induct)
  case (2 a)
  then have "is_byte a" "is_byte 0" by (simp_all add: is_byte_def)
  then show ?case by (simp add: b64_char_value(3) byte_parts sextets)
qed (simp_all add: b64_char_value(3) byte_parts sextets)

lemma digest_of_encoding:
  assumes "list_all is_byte bs" and "length bs = 32"
  shows "certificate_digest_hex (JStr (b64_encode bs)) = Some (bytes_hex bs)"
proof -
  have "list_all (\<lambda>c. (of_char c :: int) < 128) (b64_encode bs @ b64_padding (b64_encode bs))"
    using b64_ascii [OF assms(1)] by (auto simp: b64_padding_def list_all_iff)
  then show ?thesis
    using assms by (simp add: certificate_digest_hex_def urlsafe_b64decode_def decode_encode)
qed

lemma hex_fixed_inj:
  assumes "hex_fixed 2 a = hex_fixed 2 b" and "is_byte a" and "is_byte b"
  shows "a = b"
proof -
  have read: "parse_digits hex_digit 16 0 False (hex_fixed 2 x) = Some x" if "is_byte x" for x
  proof (rule parse_hex_fixed)
    show "0 \<le> x" and "x < 16 ^ 2" using that by (simp_all add: is_byte_def)
  qed simp
  have "Some a = Some b"
    unfolding read [OF assms(2), symmetric] read [OF assms(3), symmetric] assms(1) ..
  then show ?thesis by simp
qed

lemma bytes_hex_inj:
  "bytes_hex as = bytes_hex bs \<Longrightarrow> list_all is_byte as \<Longrightarrow> list_all is_byte bs \<Longrightarrow> as = bs"
proof (induction as arbitrary: bs)
  case Nil
  then show ?case by (cases bs) (auto simp: bytes_hex_def dest: arg_cong [where f = length])
next
  case (Cons a as)
  then obtain b bs' where bs: "bs = b # bs'"
    by (cases bs) (auto simp: bytes_hex_def dest: arg_cong [where f = length])
  with Cons.prems have "hex_fixed 2 a @ bytes_hex as = hex_fixed 2 b @ bytes_hex bs'"
    by (simp add: bytes_hex_def)
  then have "hex_fixed 2 a = hex_fixed 2 b" and "bytes_hex as = bytes_hex bs'"
    by (simp_all add: append_eq_append_conv)
  with Cons bs show ?case using hex_fixed_inj by auto
qed

text \<open>The digest of a signing certificate in a verdict, 32 bytes in URL-safe Base64, is read as the
  hexadecimal fingerprint of the same bytes, so that it equals a configured fingerprint only when
  the two certificates have the same digest.\<close>
theorem certificate_digest_roundtrip:
  assumes "list_all is_byte bs" and "length bs = 32"
  shows "certificate_digest_hex (JStr (b64_encode bs)) = Some (bytes_hex bs)
    \<and> (list_all is_byte cs \<longrightarrow> certificate_digest_hex (JStr (b64_encode bs)) = Some (bytes_hex cs) \<longrightarrow> cs = bs)"
  using digest_of_encoding [OF assms] bytes_hex_inj [of bs cs] assms(1) by auto

theorem certificate_digest_roundtrip_witness:
  "certificate_digest_hex (JStr (b64_encode [1..32])) = Some (bytes_hex [1..32])"
proof -
  have "list_all is_byte [1..32]" and "length [1..32] = 32" by code_simp+
  from certificate_digest_roundtrip [OF this] show ?thesis by blast
qed

subsection \<open>What an accepted verdict says\<close>

lemma as_object_Inr [simp]: "as_object v = Inr p \<longleftrightarrow> v = JObj p"
  by (auto simp: as_object_def type_error_def split: json.splits)

lemma type_error_Inr [simp]: "type_error = Inr x \<longleftrightarrow> False"
  by (simp add: type_error_def)

lemma check_request_ok:
  assumes "check_request st now payload expected = Inr u"
  shows "\<exists>request ms. jget_default payload ''requestDetails'' (JObj []) = JObj request
    \<and> jget request ''requestPackageName'' = JStr (st_play_integrity_package_name st)
    \<and> json_str (jget_default request ''requestHash'' (JStr [])) = expected
    \<and> json_int (jget request ''timestampMillis'') = Some ms
    \<and> \<bar>now - ms * 1000\<bar> \<le> seconds (st_play_integrity_max_token_age_seconds st)"
  using assms
  by (auto simp: check_request_def token_time_def bind_result_Inr_iff Let_def
      split: if_splits option.splits)

lemma check_device_ok:
  assumes "check_device_verdict payload = Inr u"
  shows "\<exists>device. jget_default payload ''deviceIntegrity'' (JObj []) = JObj device
    \<and> json_contains ''MEETS_DEVICE_INTEGRITY'' (jget_default device ''deviceRecognitionVerdict'' (JArr [])) = Inr True"
  using assms by (auto simp: check_device_verdict_def bind_result_Inr_iff)

lemma map_filter_mem: "f \<in> set (List.map_filter g xs) \<longleftrightarrow> (\<exists>x\<in>set xs. g x = Some f)"
  by (force simp: List.map_filter_def)

lemma check_app_ok:
  assumes "check_app_verdict st payload = Inr u"
  shows "\<exists>app digests f entry raw. jget_default payload ''appIntegrity'' (JObj []) = JObj app
    \<and> jget app ''packageName'' = JStr (st_play_integrity_package_name st)
    \<and> jget_default app ''certificateSha256Digest'' (JArr []) = JArr digests
    \<and> entry \<in> set digests \<and> certificate_digest_hex entry = Some f
    \<and> raw \<in> set (st_play_integrity_app_certificate_sha256 st) \<and> clean_fingerprint raw = f"
proof -
  from assms obtain app where app: "jget_default payload ''appIntegrity'' (JObj []) = JObj app"
    by (auto simp: check_app_verdict_def Let_def split: json.splits)
  with assms have pk: "jget app ''packageName'' = JStr (st_play_integrity_package_name st)"
    and c: "(case jget_default app ''certificateSha256Digest'' (JArr []) of
            JArr digests \<Rightarrow>
              bind_result (configured_certificate_fingerprints st) (\<lambda>approved.
              require (list_ex (\<lambda>f. f \<in> set approved) (token_fingerprints digests))
                 (AuthenticationFailed ''Device integrity requirements failed.''))
          | _ \<Rightarrow> Inl (AuthenticationFailed ''Device integrity requirements failed.'')) = Inr u"
    by (simp_all add: check_app_verdict_def Let_def bind_result_Inr_iff split: if_splits)
  from c obtain digests approved f where d: "jget_default app ''certificateSha256Digest'' (JArr []) = JArr digests"
    and a: "configured_certificate_fingerprints st = Inr approved"
    and f: "f \<in> set approved" "f \<in> set (token_fingerprints digests)"
    by (auto simp: bind_result_Inr_iff list_ex_iff split: json.splits)
  from f(2) obtain entry where v: "entry \<in> set digests" "certificate_digest_hex entry = Some f"
    by (auto simp: token_fingerprints_def map_filter_mem)
  from a obtain raw where "raw \<in> set (st_play_integrity_app_certificate_sha256 st)" "clean_fingerprint raw = f"
    using f(1) by (auto simp: configured_certificate_fingerprints_def bind_result_Inr_iff Let_def
        split: if_splits dest!: map_result_mem)
  with app pk d v show ?thesis by blast
qed

text \<open>C35: A verdict is accepted only when it is for this application and this request: the package
  names, the request hash, an age within the configured limit in either direction, the device
  recognition verdict and the digest of a certificate among the configured fingerprints all match.
  Any other verdict is an error.\<close>
theorem accepted_verdict_is_genuine:
  assumes "verify_integrity_token st now decoded expected = Inr payload"
  shows "decoded = Inr (JObj payload)
    \<and> (\<exists>request ms. jget_default payload ''requestDetails'' (JObj []) = JObj request
        \<and> jget request ''requestPackageName'' = JStr (st_play_integrity_package_name st)
        \<and> json_str (jget_default request ''requestHash'' (JStr [])) = expected
        \<and> json_int (jget request ''timestampMillis'') = Some ms
        \<and> \<bar>now - ms * 1000\<bar> \<le> seconds (st_play_integrity_max_token_age_seconds st))
    \<and> (\<exists>device. jget_default payload ''deviceIntegrity'' (JObj []) = JObj device
        \<and> json_contains ''MEETS_DEVICE_INTEGRITY'' (jget_default device ''deviceRecognitionVerdict'' (JArr [])) = Inr True)
    \<and> (\<exists>app digests f entry raw. jget_default payload ''appIntegrity'' (JObj []) = JObj app
        \<and> jget app ''packageName'' = JStr (st_play_integrity_package_name st)
        \<and> jget_default app ''certificateSha256Digest'' (JArr []) = JArr digests
        \<and> entry \<in> set digests \<and> certificate_digest_hex entry = Some f
        \<and> raw \<in> set (st_play_integrity_app_certificate_sha256 st) \<and> clean_fingerprint raw = f)"
proof -
  from assms have "decoded = Inr (JObj payload)" and r: "check_request st now payload expected = Inr ()"
    and d: "check_device_verdict payload = Inr ()" and a: "check_app_verdict st payload = Inr ()"
    by (auto simp: verify_integrity_token_def bind_result_Inr_iff)
  with check_request_ok [OF r] check_device_ok [OF d] check_app_ok [OF a] show ?thesis by blast
qed

definition example_integrity :: settings where
  "example_integrity = default_settings\<lparr>st_deployment_env := ''production'',
     st_play_integrity_app_certificate_sha256 := [bytes_hex [1..32]]\<rparr>"

definition example_verdict :: "string \<Rightarrow> payload" where
  "example_verdict h =
    [(''requestDetails'', JObj [(''requestPackageName'', JStr ''com.duducar.signage''),
        (''requestHash'', JStr h), (''timestampMillis'', JStr ''1000'')]),
     (''deviceIntegrity'', JObj [(''deviceRecognitionVerdict'', JArr [JStr ''MEETS_DEVICE_INTEGRITY''])]),
     (''appIntegrity'', JObj [(''packageName'', JStr ''com.duducar.signage''),
        (''appRecognitionVerdict'', JStr ''UNRECOGNIZED_VERSION''),
        (''certificateSha256Digest'', JArr [JStr (b64_encode [1..32])])])]"

theorem accepted_verdict_is_genuine_witness:
  "\<exists>p. verify_integrity_token example_integrity 1500000 (Inr (JObj (example_verdict ''h''))) ''h'' = Inr p
     \<and> Inr (JObj (example_verdict ''h'')) = (Inr (JObj p) :: json result)"
proof -
  have "(case verify_integrity_token example_integrity 1500000 (Inr (JObj (example_verdict ''h''))) ''h''
     of Inl e \<Rightarrow> False | Inr p \<Rightarrow> True)"
    by code_simp
  then obtain p where p: "verify_integrity_token example_integrity 1500000 (Inr (JObj (example_verdict ''h''))) ''h'' = Inr p"
    by (auto split: sum.splits)
  show ?thesis using accepted_verdict_is_genuine [OF p] p by blast
qed

end
