(* ===== verification/Requests.thy ===== *)
theory Requests
  imports Models Settings
begin

section \<open>Reading requests\<close>

text \<open>
  The helpers at the start of \<open>api.py\<close> that read request bodies: required and optional fields,
  timestamps, and the bounded reader and gzip parser of playback batches. Request bodies are the
  parsed JSON objects. The text of a timestamp is read by Django's \<open>parse_datetime\<close>, an argument;
  so are the inflating of a gzip stream and the JSON reader.
\<close>

subsection \<open>Fields\<close>

definition required_short_string :: "payload \<Rightarrow> string \<Rightarrow> nat \<Rightarrow> string result" where
  "required_short_string data field maximum = (case jget data field of
       JStr v \<Rightarrow> (let t = strip v in
          if t = [] \<or> maximum < length t
          then Inl (ValidationError field (''Use a non-empty string of at most '' @ int_str (int maximum) @ '' characters.''))
          else Inr t)
     | _ \<Rightarrow> Inl (ValidationError field ''Use a non-empty string.''))"

definition optional_json_boolean :: "payload \<Rightarrow> string \<Rightarrow> bool option result" where
  "optional_json_boolean data field = (case jget data field of
       JNull \<Rightarrow> Inr None
     | JBool b \<Rightarrow> Inr (Some b)
     | _ \<Rightarrow> Inl (ValidationError field ''Use a JSON boolean or null.''))"

definition required_json_boolean :: "payload \<Rightarrow> string \<Rightarrow> bool result" where
  "required_json_boolean data field = (case jget data field of
       JBool b \<Rightarrow> Inr b
     | _ \<Rightarrow> Inl (ValidationError field ''Use a JSON boolean.''))"

text \<open>\<open>str(data.get(key, ''))\<close>.\<close>

definition text_field :: "payload \<Rightarrow> string \<Rightarrow> string" where
  "text_field data key = json_str (jget_default data key (JStr []))"

text \<open>
  What \<open>parse_datetime\<close> gives for a text: an aware time, or a wall-clock time without an offset,
  which is read in the current time zone, Asia/Kuala_Lumpur, at its offset to UTC since 1982.
\<close>

datatype parsed_time = Aware time | Naive time

type_synonym datetime_reader = "string \<Rightarrow> parsed_time option"

definition local_offset :: time where
  "local_offset = hours 8"

definition make_aware :: "parsed_time \<Rightarrow> time" where
  "make_aware p = (case p of Aware t \<Rightarrow> t | Naive t \<Rightarrow> t - local_offset)"

definition max_device_timestamp_future_skew :: time where
  "max_device_timestamp_future_skew = minutes 5"

definition parse_required_datetime :: "datetime_reader \<Rightarrow> time \<Rightarrow> time \<Rightarrow> json \<Rightarrow> string \<Rightarrow> time result" where
  "parse_required_datetime read now skew v field =
     (case (case v of JStr s \<Rightarrow> map_option make_aware (read s) | _ \<Rightarrow> None) of
        None \<Rightarrow> Inl (ValidationError field ''Use an ISO-8601 timestamp.'')
      | Some t \<Rightarrow> if now + skew < t then Inl (ValidationError field ''Timestamp is too far ahead of server time.'')
                  else Inr t)"

definition parse_required_uuid :: "json \<Rightarrow> string \<Rightarrow> id result" where
  "parse_required_uuid v field =
     (case v of
        JStr s \<Rightarrow> (case parse_uuid s of
            None \<Rightarrow> Inl (ValidationError field ''Use a valid UUID string.'') | Some i \<Rightarrow> Inr i)
      | _ \<Rightarrow> Inl (ValidationError field ''Use a UUID string.''))"

definition required_value :: "payload \<Rightarrow> string \<Rightarrow> string \<Rightarrow> json result" where
  "required_value data field location =
     (case map_of data field of
        None \<Rightarrow> Inl (ValidationError (if location = [] then field else location @ ''.'' @ field) ''This field is required.'')
      | Some v \<Rightarrow> Inr v)"

text \<open>A key of a \<open>UUIDField\<close> lookup: text or an integer; anything else raises.\<close>

definition uuid_key :: "json \<Rightarrow> id result" where
  "uuid_key v = (let bad = Inl (ServerError ''django ValidationError: not a valid UUID'') in
     case v of
       JStr s \<Rightarrow> (case parse_uuid s of None \<Rightarrow> bad | Some i \<Rightarrow> Inr i)
     | JInt i \<Rightarrow> if 0 \<le> i \<and> i < 2 ^ 128 then Inr i else bad
     | JBool b \<Rightarrow> Inr (if b then 1 else 0)
     | _ \<Rightarrow> bad)"

subsection \<open>The error body\<close>

text \<open>
  \<open>exception_handler\<close>: the framework's answer, if it handles the exception, is wrapped with the code
  of the exception class.
\<close>

definition exception_handler :: "string option \<Rightarrow> json option \<Rightarrow> json option" where
  "exception_handler default_code response = (case response of
       None \<Rightarrow> None
     | Some body \<Rightarrow>
         (let detail = (case body of JObj p \<Rightarrow> jget_default p ''detail'' body | _ \<Rightarrow> body) in
          Some (JObj [(''error'', JObj [(''code'', JStr (case default_code of None \<Rightarrow> ''request_error'' | Some c \<Rightarrow> c)),
                                     (''detail'', detail)])])))"

subsection \<open>Bounded bodies\<close>

text \<open>
  A request stream is the list of the pieces the server hands out; a read returns at most the
  bytes asked for and an empty piece means the end. An inflated stream is the output of its first
  gzip member, whether the data is corrupt after that output, whether the member is complete, and
  the bytes behind it.
\<close>

type_synonym bytes = "int list"

fun read_some :: "nat \<Rightarrow> bytes list \<Rightarrow> bytes \<times> bytes list" where
  "read_some n [] = ([], [])"
| "read_some n (p # ps) = (if length p \<le> n then (p, ps) else (take n p, drop n p # ps))"

lemma read_some_length: "length (fst (read_some n ps)) \<le> n"
  by (cases ps) auto

function read_chunks :: "nat \<Rightarrow> bytes list \<Rightarrow> bytes" where
  "read_chunks remaining ps =
     (if remaining = 0 then []
      else (case read_some (min (64 * 1024) remaining) ps of
          (chunk, rest) \<Rightarrow> if chunk = [] then [] else chunk @ read_chunks (remaining - length chunk) rest))"
  by pat_completeness auto
termination
  by (relation "measure fst") auto

declare read_chunks.simps [simp del]

definition read_limited :: "bytes list \<Rightarrow> nat \<Rightarrow> bytes result" where
  "read_limited stream maximum =
     (let data = read_chunks (maximum + 1) stream
      in if maximum < length data then Inl PayloadTooLarge else Inr data)"

record gzip_stream =
  gz_output :: bytes
  gz_corrupt :: bool
  gz_eof :: bool
  gz_unused :: bytes

definition decompress_gzip_limited :: "gzip_stream \<Rightarrow> nat \<Rightarrow> bytes result" where
  "decompress_gzip_limited z maximum =
     (if maximum < length (gz_output z) then Inl PayloadTooLarge
      else if gz_corrupt z then Inl (ParseError ''Playback batch is not valid gzip data.'')
      else if \<not> gz_eof z \<or> gz_unused z \<noteq> [] then Inl (ParseError ''Playback batch is truncated or malformed gzip data.'')
      else Inr (gz_output z))"

text \<open>
  \<open>GzipPlaybackBatchJSONParser.parse\<close> for the header values \<open>encoding\<close> and \<open>content_length\<close>.
\<close>

definition parse_playback_body ::
  "settings \<Rightarrow> (bytes \<Rightarrow> gzip_stream) \<Rightarrow> (bytes \<Rightarrow> json option) \<Rightarrow> string \<Rightarrow> string \<Rightarrow> bytes list \<Rightarrow> payload result" where
  "parse_playback_body st inflate loads encoding content_length stream =
     (if lower (strip encoding) \<noteq> ''gzip'' then Inl UnsupportedEncoding
      else (let limit = st_playback_batch_max_compressed_bytes st in
        if (case parse_int content_length of None \<Rightarrow> False | Some n \<Rightarrow> limit < n) then Inl PayloadTooLarge
        else bind_result (read_limited stream (nat limit)) (\<lambda>compressed.
          bind_result (decompress_gzip_limited (inflate compressed)
             (nat (st_playback_batch_max_decompressed_bytes st))) (\<lambda>decoded.
          case loads decoded of
            None \<Rightarrow> Inl (ParseError ''JSON parse error'')
          | Some (JObj p) \<Rightarrow> Inr p
          | Some v \<Rightarrow> Inl (ParseError ''Playback batch JSON must be an object.'')))))"

lemma concat_read_some: "fst (read_some n ps) @ concat (snd (read_some n ps)) = concat ps"
  by (cases ps) auto

lemma read_some_pieces:
  "\<forall>p\<in>set ps. p \<noteq> [] \<Longrightarrow> \<forall>p\<in>set (snd (read_some n ps)). p \<noteq> []"
  by (cases ps) auto

lemma read_some_empty:
  assumes "\<forall>p\<in>set ps. p \<noteq> []" and "0 < n" and "fst (read_some n ps) = []"
  shows "concat ps = []"
  using assms by (cases ps) (auto split: if_splits)

text \<open>However the stream is cut into pieces, reading gives its first bytes.\<close>

lemma read_chunks_take: "\<forall>p\<in>set ps. p \<noteq> [] \<Longrightarrow> read_chunks n ps = take n (concat ps)"
proof (induction n ps rule: read_chunks.induct)
  case (1 n ps)
  obtain c r where cr: "read_some (min (64 * 1024) n) ps = (c, r)" by (metis surj_pair)
  have cat: "concat ps = c @ concat r" using concat_read_some [of "min (64 * 1024) n" ps] unfolding cr by simp
  have len: "length c \<le> n" using read_some_length [of "min (64 * 1024) n" ps] unfolding cr by simp
  show ?case
  proof (cases "n = 0 \<or> c = []")
    case True
    then show ?thesis
      using read_some_empty [OF 1(2), of "min (64 * 1024) n"] cr
      by (subst read_chunks.simps) auto
  next
    case False
    have "\<forall>p\<in>set r. p \<noteq> []" using read_some_pieces [OF 1(2), of "min (64 * 1024) n"] unfolding cr by simp
    with 1(1) [OF _ cr [symmetric]] False have "read_chunks (n - length c) r = take (n - length c) (concat r)"
      by simp
    then show ?thesis
      using False len by (subst read_chunks.simps) (simp add: cr [simplified] cat)
  qed
qed

lemma read_limited_spec:
  assumes "\<forall>p\<in>set ps. p \<noteq> []"
  shows "read_limited ps m = (if m < length (concat ps) then Inl PayloadTooLarge else Inr (concat ps))"
  unfolding read_limited_def Let_def read_chunks_take [OF assms] by (simp del: length_concat)

text \<open>A playback body is accepted exactly when it is declared as gzip, neither the declared nor the
  real compressed length exceeds the limit, the data is one complete gzip member whose output
  stays within the limit for decompressed bytes, and the output is a JSON object; the object is
  the result. However the server cuts the stream into pieces makes no difference.\<close>
theorem playback_body_bounded:
  assumes "\<forall>p\<in>set stream. p \<noteq> []"
  shows "parse_playback_body st inflate loads encoding content_length stream = Inr p \<longleftrightarrow>
    (let body = concat stream; z = inflate body in
      lower (strip encoding) = ''gzip''
      \<and> (case parse_int content_length of None \<Rightarrow> True | Some n \<Rightarrow> n \<le> st_playback_batch_max_compressed_bytes st)
      \<and> length body \<le> nat (st_playback_batch_max_compressed_bytes st)
      \<and> length (gz_output z) \<le> nat (st_playback_batch_max_decompressed_bytes st)
      \<and> \<not> gz_corrupt z \<and> gz_eof z \<and> gz_unused z = [] \<and> loads (gz_output z) = Some (JObj p))"
  unfolding parse_playback_body_def read_limited_spec [OF assms] Let_def decompress_gzip_limited_def
  by (cases "lower (strip encoding) = ''gzip''"; cases "parse_int content_length";
      cases "nat (st_playback_batch_max_compressed_bytes st) < length (concat stream)";
      cases "loads (gz_output (inflate (concat stream)))")
    (auto simp del: length_concat split: json.splits)

theorem playback_body_bounded_witness:
  "parse_playback_body (default_settings\<lparr>st_playback_batch_max_compressed_bytes := 8,
       st_playback_batch_max_decompressed_bytes := 16\<rparr>) (\<lambda>b. \<lparr>gz_output = b, gz_corrupt = False, gz_eof = True, gz_unused = []\<rparr>)
     (\<lambda>b. Some (JObj [])) '' GZIP'' ''3'' [[1, 2], [3]] = Inr []"
proof -
  have "\<forall>p\<in>set [[1, 2], [3::int]]. p \<noteq> []" by simp
  show ?thesis
    by (rule playback_body_bounded [THEN iffD2, OF \<open>\<forall>p\<in>set [[1, 2], [3::int]]. p \<noteq> []\<close>]) code_simp
qed

end
