(* ===== verification/Enrollment.thy ===== *)
theory Enrollment
  imports Devices Throttles Integrity Requests
begin

section \<open>Enrollment, credentials and device authentication\<close>

text \<open>
  The enrollment challenge, enrollment itself, the issue and refresh of tokens (\<open>api.py\<close>, the
  \<open>issue\<close> methods of \<open>models.py\<close>) and the two authentication classes (\<open>authentication.py\<close>). The
  hash of tokens, random values, the decoding of integrity tokens and what other requests do
  between the check and the locked re-check of an enrollment are arguments.
\<close>

type_synonym hash = "string \<Rightarrow> string"

subsection \<open>Device details and qualification\<close>

record device_details =
  dd_android_id :: string
  dd_android_version :: string
  dd_app_version :: string
  dd_hardware_model :: string
  dd_firmware_version :: string
  dd_security_patch :: string

definition enrollment_device_details :: "payload \<Rightarrow> bool \<Rightarrow> device_details result" where
  "enrollment_device_details data require_hardware =
     bind_result (required_short_string data ''android_id'' 255) (\<lambda>android_id.
     bind_result (required_short_string data ''android_version'' 32) (\<lambda>android_version.
     bind_result (required_short_string data ''app_version'' 32) (\<lambda>app_version.
     case parse_int (takeWhile (\<lambda>c. c \<noteq> CHR ''.'') android_version) of
       None \<Rightarrow> Inl (ValidationError ''android_version'' ''Invalid Android version.'')
     | Some major \<Rightarrow>
         bind_result (require (12 \<le> major) (PermissionDenied ''Device integrity requirements were not met.'')) (\<lambda>u.
         if \<not> require_hardware
         then Inr \<lparr>dd_android_id = android_id, dd_android_version = android_version, dd_app_version = app_version,
                dd_hardware_model = [], dd_firmware_version = [], dd_security_patch = []\<rparr>
         else bind_result (required_short_string data ''hardware_model'' 160) (\<lambda>model.
              bind_result (required_short_string data ''firmware_version'' 100) (\<lambda>firmware.
              bind_result (required_short_string data ''security_patch_level'' 32) (\<lambda>patch.
              Inr \<lparr>dd_android_id = android_id, dd_android_version = android_version, dd_app_version = app_version,
                dd_hardware_model = model, dd_firmware_version = firmware, dd_security_patch = patch\<rparr>)))))))"

definition production :: "settings \<Rightarrow> bool" where
  "production st = (st_deployment_env st = ''production'')"

definition require_current_app_version :: "settings \<Rightarrow> string \<Rightarrow> unit result" where
  "require_current_app_version st version =
     require (\<not> production st \<or> version = st_required_app_version st)
       (PermissionDenied ''This application version is not approved for the pilot.'')"

definition is_enrollment_eligible :: "hardware_qualification \<Rightarrow> bool" where
  "is_enrollment_eligible q =
     (strip (hq_model_name q) \<noteq> [] \<and> strip (hq_firmware_version q) \<noteq> []
      \<and> strip (hq_security_patch_level q) \<noteq> []
      \<and> (case hq_display_diagonal q of None \<Rightarrow> False | Some n \<Rightarrow> 900 \<le> n \<and> n \<le> 1200))"

definition device_matches_qualification :: "device \<Rightarrow> string \<Rightarrow> string \<Rightarrow> string \<Rightarrow> db \<Rightarrow> bool" where
  "device_matches_qualification d model firmware patch s =
     (case dv_hardware_qualification d of
        None \<Rightarrow> False
      | Some q \<Rightarrow> (case lookup_by hq_id q (qualifications s) of
            None \<Rightarrow> False
          | Some h \<Rightarrow> is_enrollment_eligible h \<and> hq_model_name h = model
              \<and> hq_firmware_version h = firmware \<and> hq_security_patch_level h = patch))"

subsection \<open>The challenge\<close>

text \<open>The code of a row together with the device it is for.\<close>

definition code_device :: "string \<Rightarrow> db \<Rightarrow> (enrollment_code \<times> device) option" where
  "code_device code_hash s =
     (case lookup_by ec_code_hash code_hash (enrollment_codes s) of
        None \<Rightarrow> None
      | Some c \<Rightarrow> (case find_device (ec_device c) s of None \<Rightarrow> None | Some d \<Rightarrow> Some (c, d)))"

definition mismatch :: error where
  "mismatch = PermissionDenied ''This device does not match its enrollment-eligible hardware record.''"

definition invalid_code :: error where
  "invalid_code = AuthenticationFailed ''Invalid or expired enrollment code.''"

definition challenge_text :: "hash \<Rightarrow> id \<Rightarrow> string \<Rightarrow> device_details \<Rightarrow> string \<Rightarrow> string" where
  "challenge_text hash uuid secret dd code_hash =
     uuid_str uuid @ '':'' @ secret @ '':'' @ hash (dd_android_id dd) @ '':'' @ dd_app_version dd @ '':''
       @ dd_hardware_model dd @ '':'' @ dd_firmware_version dd @ '':'' @ dd_security_patch dd @ '':'' @ code_hash"

text \<open>The body of \<open>enrollment_challenge\<close> after the throttle; \<open>uuid\<close> and \<open>secret\<close> are drawn at random.\<close>

definition create_challenge ::
  "settings \<Rightarrow> hash \<Rightarrow> clock \<Rightarrow> id \<Rightarrow> string \<Rightarrow> payload \<Rightarrow> db \<Rightarrow> (enrollment_challenge \<times> db) result" where
  "create_challenge st hash clk uuid secret data s =
     (let code = strip (text_field data ''code'') in
      bind_result (require (code \<noteq> []) (ValidationError [] ''Enrollment code is required.'')) (\<lambda>u1.
      bind_result (enrollment_device_details data (production st)) (\<lambda>dd.
      bind_result (require_current_app_version st (dd_app_version dd)) (\<lambda>u2.
      case code_device (hash code) s of
        None \<Rightarrow> Inl invalid_code
      | Some (c, d) \<Rightarrow>
          bind_result (require (code_usable (clk 0) c d s) invalid_code) (\<lambda>u3.
          bind_result (require (\<not> production st \<or> device_matches_qualification d (dd_hardware_model dd)
              (dd_firmware_version dd) (dd_security_patch dd) s) mismatch) (\<lambda>u4.
          bind_result (require (assigned (dv_id d) s)
              (ValidationError [] ''Device must have an active assignment.'')) (\<lambda>u5.
          let request_hash = hash (challenge_text hash uuid secret dd (ec_code_hash c));
              ch = \<lparr>ch_id = uuid, ch_enrollment = ec_id c, ch_request_hash = request_hash,
                    ch_android_id_hash = hash (dd_android_id dd), ch_android_version = dd_android_version dd,
                    ch_app_version = dd_app_version dd, ch_hardware_model = dd_hardware_model dd,
                    ch_firmware_version = dd_firmware_version dd, ch_security_patch_level = dd_security_patch dd,
                    ch_expires_at = clk 1 + seconds (st_enrollment_challenge_ttl_seconds st), ch_used_at = None\<rparr>
          in if exists_row (\<lambda>x. ch_request_hash x = request_hash) (challenges s)
             then Inl (IntegrityError ''request_hash'')
             else Inr (ch, s\<lparr>challenges := challenges s @ [ch]\<rparr>))))))))"

text \<open>A request behind a throttle: a refused request changes the throttle only.\<close>

definition throttled :: "clock \<Rightarrow> string \<Rightarrow> int \<Rightarrow> (db \<Rightarrow> 'a result \<times> db) \<Rightarrow> db \<Rightarrow> 'a result \<times> db" where
  "throttled clk key limit body s =
     (case enforce_api_throttle clk key limit 900 s of
        (Inl e, t) \<Rightarrow> (Inl e, t)
      | (Inr u, t) \<Rightarrow> body t)"

definition request_challenge ::
  "settings \<Rightarrow> hash \<Rightarrow> clock \<Rightarrow> clock \<Rightarrow> string \<Rightarrow> id \<Rightarrow> string \<Rightarrow> payload \<Rightarrow> db \<Rightarrow> enrollment_challenge result \<times> db" where
  "request_challenge st hash tclk clk ip uuid secret data s =
     throttled tclk (throttle_key hash st ''enrollment_challenge'' ip) 10
       (atomic (create_challenge st hash clk uuid secret data)) s"

subsection \<open>Issuing credentials\<close>

definition issue_credential :: "hash \<Rightarrow> time \<Rightarrow> string \<Rightarrow> id \<Rightarrow> db \<Rightarrow> (device_credential \<times> db) result" where
  "issue_credential hash now raw d s =
     (if exists_row (\<lambda>c. cr_refresh_hash c = hash raw) (credentials s) then Inl (IntegrityError ''refresh_hash'')
      else (let c = \<lparr>cr_id = next_pk s, cr_device = d, cr_refresh_hash = hash raw, cr_revoked_at = None,
                     cr_created_at = now\<rparr>
            in Inr (c, s\<lparr>credentials := credentials s @ [c], next_pk := next_pk s + 1\<rparr>)))"

definition issue_access_token :: "settings \<Rightarrow> hash \<Rightarrow> time \<Rightarrow> string \<Rightarrow> id \<Rightarrow> db \<Rightarrow> (access_token \<times> db) result" where
  "issue_access_token st hash now raw credential s =
     (if exists_row (\<lambda>t. tk_token_hash t = hash raw) (access_tokens s) then Inl (IntegrityError ''token_hash'')
      else (let t = \<lparr>tk_id = next_pk s, tk_credential = credential, tk_token_hash = hash raw,
                     tk_expires_at = now + seconds (st_device_access_token_ttl_seconds st)\<rparr>
            in Inr (t, s\<lparr>access_tokens := access_tokens s @ [t], next_pk := next_pk s + 1\<rparr>)))"

text \<open>One management credential per device: the row is replaced or inserted.\<close>

definition issue_management_credential :: "hash \<Rightarrow> string \<Rightarrow> id \<Rightarrow> db \<Rightarrow> db result" where
  "issue_management_credential hash raw d s =
     (let m = \<lparr>mc_device = d, mc_token_hash = hash raw\<rparr> in
      if exists_row (\<lambda>x. mc_device x \<noteq> d \<and> mc_token_hash x = hash raw) (management_credentials s)
      then Inl (IntegrityError ''token_hash'')
      else if lookup_by mc_device d (management_credentials s) = None
      then Inr (s\<lparr>management_credentials := management_credentials s @ [m], next_pk := next_pk s + 1\<rparr>)
      else Inr (s\<lparr>management_credentials := save_by mc_device m (management_credentials s)\<rparr>))"

record raw_tokens =
  rt_refresh :: string
  rt_access :: string
  rt_management :: string

text \<open>What enrollment records of the device.\<close>

definition enrolled_device :: "device \<Rightarrow> string \<Rightarrow> device_details \<Rightarrow> device" where
  "enrolled_device d android_hash dd = d\<lparr>dv_android_id_hash := Some android_hash,
     dv_android_version := dd_android_version dd, dv_app_version := dd_app_version dd,
     dv_hardware_model := dd_hardware_model dd, dv_hardware_firmware_version := dd_firmware_version dd,
     dv_hardware_security_patch := dd_security_patch dd, dv_status := Active\<rparr>"

text \<open>\<open>_issue_device_credentials\<close>; \<open>dd\<close> carries the details of the challenge or of the request.\<close>

definition issue_device_credentials ::
  "settings \<Rightarrow> hash \<Rightarrow> clock \<Rightarrow> raw_tokens \<Rightarrow> enrollment_code \<Rightarrow> device \<Rightarrow> string \<Rightarrow> device_details \<Rightarrow> db
    \<Rightarrow> ((device \<times> access_token) \<times> db) result" where
  "issue_device_credentials st hash clk raws c d android_hash dd s =
     bind_result (require (dv_status d \<noteq> Disabled \<and> dv_kiosk_pin_hash d \<noteq> []) invalid_code) (\<lambda>u1.
     bind_result (require_current_app_version st (dd_app_version dd)) (\<lambda>u2.
     bind_result (require (\<not> production st \<or> device_matches_qualification d (dd_hardware_model dd)
         (dd_firmware_version dd) (dd_security_patch dd) s) mismatch) (\<lambda>u3.
     bind_result (require (assigned (dv_id d) s)
         (ValidationError [] ''Device must have an active assignment.'')) (\<lambda>u4.
     bind_result (require (\<not> exists_row (\<lambda>x. dv_id x \<noteq> dv_id d \<and> dv_android_id_hash x = Some android_hash) (devices s))
         (PermissionDenied ''This Android device is already enrolled.'')) (\<lambda>u5.
     let e = enrolled_device d android_hash dd;
         s1 = save_device e s;
         s2 = s1\<lparr>enrollment_codes := save_by ec_id (c\<lparr>ec_used_at := Some (clk 5)\<rparr>) (enrollment_codes s1)\<rparr>;
         s3 = s2\<lparr>credentials := update_where (\<lambda>x. cr_device x = dv_id d \<and> cr_revoked_at x = None)
                    (\<lambda>x. x\<lparr>cr_revoked_at := Some (clk 6)\<rparr>) (credentials s2)\<rparr>
     in bind_result (issue_credential hash (clk 7) (rt_refresh raws) (dv_id d) s3) (\<lambda>(cr, s4).
        bind_result (issue_access_token st hash (clk 8) (rt_access raws) (cr_id cr) s4) (\<lambda>(tk, s5).
        bind_result (issue_management_credential hash (rt_management raws) (dv_id d) s5) (\<lambda>s6.
        Inr ((e, tk), s6)))))))))"

subsection \<open>Enrollment\<close>

definition challenge_usable :: "time \<Rightarrow> enrollment_challenge \<Rightarrow> bool" where
  "challenge_usable now ch = (ch_used_at ch = None \<and> now < ch_expires_at ch)"

definition challenge_details :: "enrollment_challenge \<Rightarrow> device_details" where
  "challenge_details ch = \<lparr>dd_android_id = [], dd_android_version = ch_android_version ch,
     dd_app_version = ch_app_version ch, dd_hardware_model = ch_hardware_model ch,
     dd_firmware_version = ch_firmware_version ch, dd_security_patch = ch_security_patch_level ch\<rparr>"

definition invalid_challenge :: error where
  "invalid_challenge = AuthenticationFailed ''Invalid or expired enrollment challenge.''"

definition missing_row :: "'a result" where
  "missing_row = Inl (ServerError ''DoesNotExist'')"

text \<open>The first, unlocked check of the attested path, up to the verified verdict.\<close>

definition check_challenge ::
  "settings \<Rightarrow> (string \<Rightarrow> json result) \<Rightarrow> clock \<Rightarrow> json \<Rightarrow> string \<Rightarrow> db \<Rightarrow> enrollment_challenge result" where
  "check_challenge st decode clk challenge_id token s =
     bind_result (uuid_key challenge_id) (\<lambda>k.
     case lookup_by ch_id k (challenges s) of
       None \<Rightarrow> Inl invalid_challenge
     | Some ch \<Rightarrow>
         (case lookup_by ec_id (ch_enrollment ch) (enrollment_codes s) of
            None \<Rightarrow> Inl invalid_challenge
          | Some c \<Rightarrow> (case find_device (ec_device c) s of
                None \<Rightarrow> Inl invalid_challenge
              | Some d \<Rightarrow>
                  bind_result (require (challenge_usable (clk 0) ch \<and> code_usable (clk 1) c d s) invalid_challenge) (\<lambda>u.
                  bind_result (verify_integrity_token st (clk 2) (decode token) (ch_request_hash ch)) (\<lambda>p.
                  Inr ch)))))"

text \<open>
  The transaction of the attested path: device, challenge and code are read again under lock.
  \<open>first\<close> is the challenge of the first check and \<open>device_id\<close> the device its code named then.
  Reading 9 of the clock, for the challenge, comes just before reading 3, for its code.
\<close>

definition redeem_challenge ::
  "settings \<Rightarrow> hash \<Rightarrow> clock \<Rightarrow> raw_tokens \<Rightarrow> id \<Rightarrow> enrollment_challenge \<Rightarrow> db
    \<Rightarrow> ((device \<times> access_token) \<times> db) result" where
  "redeem_challenge st hash clk raws device_id first s =
     (case find_device device_id s of
        None \<Rightarrow> missing_row
      | Some d \<Rightarrow> (case lookup_by ch_id (ch_id first) (challenges s) of
          None \<Rightarrow> missing_row
        | Some ch \<Rightarrow> (case lookup_by ec_id (ch_enrollment ch) (enrollment_codes s) of
            None \<Rightarrow> missing_row
          | Some c \<Rightarrow>
              bind_result (require (challenge_usable (clk 9) ch \<and> code_usable (clk 3) c d s) invalid_challenge) (\<lambda>u.
              let s1 = s\<lparr>challenges := save_by ch_id (ch\<lparr>ch_used_at := Some (clk 4)\<rparr>) (challenges s)\<rparr> in
              issue_device_credentials st hash clk raws c d (ch_android_id_hash ch) (challenge_details ch) s1))))"

text \<open>The path without attestation, outside production.\<close>

definition check_code :: "settings \<Rightarrow> hash \<Rightarrow> payload \<Rightarrow> db \<Rightarrow> (device_details \<times> enrollment_code) result" where
  "check_code st hash data s =
     bind_result (enrollment_device_details data False) (\<lambda>dd.
     bind_result (require (\<not> truthy (jget_default data ''integrity_compromised'' (JBool False)))
        (PermissionDenied ''Device integrity requirements were not met.'')) (\<lambda>u.
     case lookup_by ec_code_hash (hash (strip (text_field data ''code''))) (enrollment_codes s) of
       None \<Rightarrow> Inl invalid_code
     | Some c \<Rightarrow> Inr (dd, c)))"

definition redeem_code ::
  "settings \<Rightarrow> hash \<Rightarrow> clock \<Rightarrow> raw_tokens \<Rightarrow> device_details \<Rightarrow> enrollment_code \<Rightarrow> db
    \<Rightarrow> ((device \<times> access_token) \<times> db) result" where
  "redeem_code st hash clk raws dd first s =
     (case find_device (ec_device first) s of
        None \<Rightarrow> missing_row
      | Some d \<Rightarrow> (case lookup_by ec_id (ec_id first) (enrollment_codes s) of
          None \<Rightarrow> missing_row
        | Some c \<Rightarrow>
            bind_result (require (code_usable (clk 3) c d s) invalid_code) (\<lambda>u.
            issue_device_credentials st hash clk raws c d (hash (dd_android_id dd)) dd s)))"

definition challenge_device :: "enrollment_challenge \<Rightarrow> db \<Rightarrow> id" where
  "challenge_device ch s = (case lookup_by ec_id (ch_enrollment ch) (enrollment_codes s) of
     None \<Rightarrow> 0 | Some c \<Rightarrow> ec_device c)"

text \<open>
  \<open>enroll\<close>. \<open>others\<close> is what concurrent requests do between the check and the transaction.
\<close>

definition enroll_body ::
  "settings \<Rightarrow> hash \<Rightarrow> (string \<Rightarrow> json result) \<Rightarrow> clock \<Rightarrow> raw_tokens \<Rightarrow> (db \<Rightarrow> db) \<Rightarrow> payload \<Rightarrow> db
    \<Rightarrow> (device \<times> access_token) result \<times> db" where
  "enroll_body st hash decode clk raws others data s =
     (let challenge_id = jget data ''challenge_id''; token = text_field data ''integrity_token'' in
      if truthy challenge_id \<and> token \<noteq> [] then
        (case check_challenge st decode clk challenge_id token s of
           Inl e \<Rightarrow> (Inl e, s)
         | Inr ch \<Rightarrow> atomic (redeem_challenge st hash clk raws (challenge_device ch s) ch) (others s))
      else if \<not> production st then
        (case check_code st hash data s of
           Inl e \<Rightarrow> (Inl e, s)
         | Inr (dd, c) \<Rightarrow> atomic (redeem_code st hash clk raws dd c) (others s))
      else (Inl (ValidationError [] ''A verified enrollment challenge and integrity token are required.''), s))"

definition enroll ::
  "settings \<Rightarrow> hash \<Rightarrow> (string \<Rightarrow> json result) \<Rightarrow> clock \<Rightarrow> clock \<Rightarrow> string \<Rightarrow> raw_tokens \<Rightarrow> (db \<Rightarrow> db) \<Rightarrow> payload \<Rightarrow> db
    \<Rightarrow> (device \<times> access_token) result \<times> db" where
  "enroll st hash decode tclk clk ip raws others data s =
     throttled tclk (throttle_key hash st ''enroll'' ip) 10 (enroll_body st hash decode clk raws others data) s"

subsection \<open>Authentication\<close>

definition credential_device :: "access_token \<Rightarrow> db \<Rightarrow> (device_credential \<times> device) option" where
  "credential_device t s =
     (case lookup_by cr_id (tk_credential t) (credentials s) of
        None \<Rightarrow> None
      | Some c \<Rightarrow> (case find_device (cr_device c) s of None \<Rightarrow> None | Some d \<Rightarrow> Some (c, d)))"

definition invalid_token :: error where
  "invalid_token = AuthenticationFailed ''Invalid or expired device token.''"

text \<open>The alert after too many bad requests from one address.\<close>

definition note_bad_request :: "settings \<Rightarrow> hash \<Rightarrow> clock \<Rightarrow> string \<Rightarrow> string \<Rightarrow> string \<Rightarrow> error \<Rightarrow> db \<Rightarrow> 'a result \<times> db" where
  "note_bad_request st hash clk ip action message e s =
     (let (wait, t) = throttle_wait clk (throttle_key hash st action ip) 5 900 s in
      if wait \<noteq> 0 then
        (case raise_alert (clk 4) None ''repeated_device_authentication'' Warning message t of
           Inl f \<Rightarrow> (Inl f, t)
         | Inr u \<Rightarrow> (Inl e, u))
      else (Inl e, t))"

definition token_matches :: "hash \<Rightarrow> string \<Rightarrow> time \<Rightarrow> db \<Rightarrow> access_token \<Rightarrow> bool" where
  "token_matches hash raw now s t =
     (tk_token_hash t = hash raw \<and> now < tk_expires_at t \<and> credential_device t s \<noteq> None)"

text \<open>\<open>DeviceAccessTokenAuthentication.authenticate\<close>; \<open>None\<close> is an anonymous request.\<close>

definition authenticate_access ::
  "settings \<Rightarrow> hash \<Rightarrow> clock \<Rightarrow> string \<Rightarrow> string \<Rightarrow> db \<Rightarrow> (device \<times> access_token) option result \<times> db" where
  "authenticate_access st hash clk ip authorization s =
     (case split_ws authorization of
        [] \<Rightarrow> (Inr None, s)
      | [keyword, raw] \<Rightarrow>
          if keyword \<noteq> ''Bearer'' then (Inl (AuthenticationFailed ''Invalid authorization header.''), s)
          else (case find (token_matches hash raw (clk 5) s) (access_tokens s) of
              None \<Rightarrow> note_bad_request st hash clk ip ''invalid_device_access_token''
                        ''Repeated device API requests used invalid credentials.'' invalid_token s
            | Some t \<Rightarrow> (case credential_device t s of
                  None \<Rightarrow> (Inl invalid_token, s)
                | Some (c, d) \<Rightarrow>
                    if dv_status d = Disabled then (Inl invalid_token, s)
                    else if cr_revoked_at c \<noteq> None then (Inl invalid_token, s)
                    else (Inr (Some (d, t)), s)))
      | _ \<Rightarrow> (Inl (AuthenticationFailed ''Invalid authorization header.''), s))"

text \<open>\<open>DeviceManagementTokenAuthentication.authenticate\<close>.\<close>

definition authenticate_management :: "hash \<Rightarrow> string \<Rightarrow> db \<Rightarrow> device result" where
  "authenticate_management hash authorization s =
     (case split_ws authorization of
        [keyword, raw] \<Rightarrow>
          if keyword \<noteq> ''Bearer'' then Inl (AuthenticationFailed ''Invalid management authorization.'')
          else (case find (\<lambda>m. mc_token_hash m = hash raw \<and> find_device (mc_device m) s \<noteq> None)
                   (management_credentials s) of
              None \<Rightarrow> Inl (AuthenticationFailed ''Invalid management credential.'')
            | Some m \<Rightarrow> (case find_device (mc_device m) s of
                  None \<Rightarrow> Inl (AuthenticationFailed ''Invalid management credential.'')
                | Some d \<Rightarrow> Inr d))
      | _ \<Rightarrow> Inl (AuthenticationFailed ''Invalid management authorization.''))"

definition management_bootstrap :: "hash \<Rightarrow> string \<Rightarrow> device \<Rightarrow> db \<Rightarrow> db result" where
  "management_bootstrap hash raw d s = issue_management_credential hash raw (dv_id d) s"

text \<open>\<open>token_refresh\<close> for an authenticated request.\<close>

definition refresh_body ::
  "settings \<Rightarrow> hash \<Rightarrow> clock \<Rightarrow> string \<Rightarrow> string \<Rightarrow> payload \<Rightarrow> db \<Rightarrow> access_token result \<times> db" where
  "refresh_body st hash clk ip raw data s =
     (let refuse = note_bad_request st hash clk ip ''invalid_device_refresh''
            ''Repeated device token refresh requests used invalid credentials.''
            (AuthenticationFailed ''Invalid device credential.'') s
      in case lookup_by cr_refresh_hash (hash (text_field data ''refresh_token'')) (credentials s) of
           None \<Rightarrow> refuse
         | Some c \<Rightarrow> (case find_device (cr_device c) s of
               None \<Rightarrow> refuse
             | Some d \<Rightarrow>
                 if cr_revoked_at c \<noteq> None \<or> dv_status d = Disabled then refuse
                 else atomic (issue_access_token st hash (clk 5) raw (cr_id c)) s))"

definition token_refresh ::
  "settings \<Rightarrow> hash \<Rightarrow> clock \<Rightarrow> clock \<Rightarrow> string \<Rightarrow> string \<Rightarrow> payload \<Rightarrow> db \<Rightarrow> access_token result \<times> db" where
  "token_refresh st hash tclk clk ip raw data s =
     throttled tclk (throttle_key hash st ''token_refresh'' ip) 20 (refresh_body st hash clk ip raw data) s"

subsection \<open>What is read back\<close>

definition auth_ok :: "db \<Rightarrow> bool" where
  "auth_ok s = (distinct (map cr_id (credentials s)) \<and> distinct (map ec_id (enrollment_codes s))
     \<and> distinct (map tk_token_hash (access_tokens s)) \<and> distinct (map ec_code_hash (enrollment_codes s)) \<and> distinct (map ch_id (challenges s))
     \<and> list_all (\<lambda>c. cr_id c < next_pk s) (credentials s)
     \<and> list_all (\<lambda>t. tk_credential t < next_pk s) (access_tokens s))"

text \<open>The device a token stands for, if the row is live at the given time.\<close>

definition token_grants :: "time \<Rightarrow> access_token \<Rightarrow> device \<Rightarrow> db \<Rightarrow> bool" where
  "token_grants now t d s = (t \<in> set (access_tokens s) \<and> now < tk_expires_at t \<and> dv_status d \<noteq> Disabled
     \<and> (\<exists>c. credential_device t s = Some (c, d) \<and> cr_revoked_at c = None))"

lemma credential_device_SomeD:
  "credential_device t s = Some (c, d) \<Longrightarrow>
   c \<in> set (credentials s) \<and> cr_id c = tk_credential t \<and> find_device (cr_device c) s = Some d"
  by (auto simp: credential_device_def split: option.splits dest: lookup_by_SomeD)

lemma note_bad_request_Inr [simp]: "note_bad_request st hash clk ip action message e s = (Inr x, t) \<longleftrightarrow> False"
  by (auto simp: note_bad_request_def Let_def split: prod.splits sum.splits)

lemma authenticate_access_Inr:
  assumes "authenticate_access st hash clk ip h s = (Inr (Some (d, t)), u)"
  shows "u = s" and "token_grants (clk 5) t d s" and "\<exists>raw. split_ws h = [''Bearer'', raw] \<and> tk_token_hash t = hash raw"
proof -
  from assms obtain keyword raw where h: "split_ws h = [keyword, raw]"
    by (auto simp: authenticate_access_def split: list.splits)
  with assms have k: "keyword = ''Bearer''" by (auto simp: authenticate_access_def split: if_splits)
  define P where "P = token_matches hash raw (clk 5) s"
  show "u = s" and "token_grants (clk 5) t d s" and "\<exists>raw. split_ws h = [''Bearer'', raw] \<and> tk_token_hash t = hash raw"
  proof (atomize(full), cases "find P (access_tokens s)")
    case None
    then show "u = s \<and> token_grants (clk 5) t d s \<and> (\<exists>raw. split_ws h = [''Bearer'', raw] \<and> tk_token_hash t = hash raw)"
      using assms h k by (auto simp: authenticate_access_def P_def [symmetric])
  next
    case (Some x)
    then have x: "x \<in> set (access_tokens s)" "P x" by (auto simp: find_Some_iff)
    then obtain c e where ce: "credential_device x s = Some (c, e)" by (auto simp: P_def token_matches_def)
    have "u = s \<and> t = x \<and> e = d \<and> dv_status d \<noteq> Disabled \<and> cr_revoked_at c = None"
      using assms h k Some ce by (auto simp: authenticate_access_def P_def [symmetric] split: if_splits)
    then show "u = s \<and> token_grants (clk 5) t d s \<and> (\<exists>raw. split_ws h = [''Bearer'', raw] \<and> tk_token_hash t = hash raw)"
      using x ce h k by (auto simp: token_grants_def P_def token_matches_def)
  qed
qed

lemma authenticate_access_complete:
  assumes "token_grants (clk 5) t d s" and "split_ws h = [''Bearer'', raw]" and "tk_token_hash t = hash raw"
    and "distinct (map tk_token_hash (access_tokens s))"
  shows "authenticate_access st hash clk ip h s = (Inr (Some (d, t)), s)"
proof -
  from assms(1) obtain c where t: "t \<in> set (access_tokens s)" "clk 5 < tk_expires_at t" "dv_status d \<noteq> Disabled"
    and c: "credential_device t s = Some (c, d)" "cr_revoked_at c = None"
    by (auto simp: token_grants_def)
  have "find (token_matches hash raw (clk 5) s) (access_tokens s) = Some t"
  proof (cases "find (token_matches hash raw (clk 5) s) (access_tokens s)")
    case None
    with t c assms(3) show ?thesis by (auto simp: find_None_iff token_matches_def)
  next
    case (Some x)
    then have "x \<in> set (access_tokens s)" "tk_token_hash x = tk_token_hash t" using assms(3) by (auto simp: find_Some_iff token_matches_def)
    with t(1) assms(4) have "x = t" by (metis distinct_map_unique)
    with Some show ?thesis by simp
  qed
  then show ?thesis using assms(2) t c by (simp add: authenticate_access_def)
qed

lemma authenticate_management_Inr:
  assumes "authenticate_management hash h s = Inr d"
  shows "\<exists>m\<in>set (management_credentials s). find_device (mc_device m) s = Some d"
  using assms
  by (auto simp: authenticate_management_def find_Some_iff split: list.splits if_splits option.splits)

text \<open>A device without live credentials gets through neither authentication nor refresh.\<close>

lemma no_live_no_token: "live_credentials (dv_id d) s = [] \<Longrightarrow> \<not> token_grants now t d s"
  by (auto simp: token_grants_def live_credentials_empty dest!: credential_device_SomeD find_device_id)

lemma token_refresh_Inr:
  assumes "token_refresh st hash tclk clk ip raw data s = (Inr tk, t)"
  shows "\<exists>c d. c \<in> set (credentials s) \<and> cr_refresh_hash c = hash (text_field data ''refresh_token'')
     \<and> cr_revoked_at c = None \<and> find_device (cr_device c) s = Some d \<and> dv_status d \<noteq> Disabled \<and> tk_credential tk = cr_id c"
proof -
  from assms obtain s1 where th: "enforce_api_throttle tclk (throttle_key hash st ''token_refresh'' ip) 20 900 s = (Inr (), s1)"
    and r: "refresh_body st hash clk ip raw data s1 = (Inr tk, t)"
    by (auto simp: token_refresh_def throttled_def split: prod.splits sum.splits)
  have f: "credentials s1 = credentials s" "devices s1 = devices s"
    using th by (auto simp: enforce_api_throttle_def throttle_wait_def get_or_create_throttle_def Let_def
        split: prod.splits if_splits option.splits)
  define refuse :: "access_token result \<times> db" where "refuse = note_bad_request st hash clk ip ''invalid_device_refresh''
       ''Repeated device token refresh requests used invalid credentials.'' (AuthenticationFailed ''Invalid device credential.'') s1"
  have ref: "refuse \<noteq> (Inr tk, t)" by (simp add: refuse_def)
  obtain c where c: "lookup_by cr_refresh_hash (hash (text_field data ''refresh_token'')) (credentials s1) = Some c"
    using r ref by (cases "lookup_by cr_refresh_hash (hash (text_field data ''refresh_token'')) (credentials s1)")
      (auto simp: refresh_body_def refuse_def [symmetric])
  obtain d where d: "find_device (cr_device c) s1 = Some d"
    using r ref c by (cases "find_device (cr_device c) s1") (auto simp: refresh_body_def refuse_def [symmetric])
  have "cr_revoked_at c = None \<and> dv_status d \<noteq> Disabled \<and> tk_credential tk = cr_id c"
    using r ref c d by (auto simp: refresh_body_def refuse_def [symmetric] atomic_Inr_iff issue_access_token_def Let_def
        split: if_splits)
  then show ?thesis using lookup_by_SomeD [OF c] d f by (auto simp: find_device_def)
qed

lemma throttle_only:
  assumes "enforce_api_throttle clk key limit w s = (r, t)"
  shows "t = s\<lparr>api_throttles := api_throttles t\<rparr>"
  using assms
  by (auto simp: enforce_api_throttle_def throttle_wait_def get_or_create_throttle_def Let_def
      split: prod.splits if_splits option.splits)


subsection \<open>Issuing credentials\<close>

lemma issue_credential_Inr:
  assumes "issue_credential hash now raw d s = Inr (c, t)"
  shows "t = s\<lparr>credentials := credentials s @ [c], next_pk := next_pk s + 1\<rparr>"
    and "cr_id c = next_pk s" and "cr_device c = d" and "cr_revoked_at c = None"
  using assms by (auto simp: issue_credential_def Let_def split: if_splits)

lemma issue_access_token_Inr:
  assumes "issue_access_token st hash now raw c s = Inr (k, t)"
  shows "t = s\<lparr>access_tokens := access_tokens s @ [k], next_pk := next_pk s + 1\<rparr>"
    and "tk_credential k = c" and "tk_token_hash k = hash raw"
    and "tk_expires_at k = now + seconds (st_device_access_token_ttl_seconds st)"
    and "hash raw \<notin> tk_token_hash ` set (access_tokens s)"
  using assms by (auto simp: issue_access_token_def Let_def split: if_splits)

lemma issue_management_frame:
  assumes "issue_management_credential hash raw d s = Inr t"
  shows "credentials t = credentials s" and "access_tokens t = access_tokens s"
    and "enrollment_codes t = enrollment_codes s" and "challenges t = challenges s"
    and "devices t = devices s" and "next_pk s \<le> next_pk t" and "assignments t = assignments s"
    and "qualifications t = qualifications s"
  using assms by (auto simp: issue_management_credential_def Let_def split: if_splits)

lemma live_after_revoke:
  "filter (\<lambda>c. cr_device c = j \<and> cr_revoked_at c = None)
     (update_where (\<lambda>x. cr_device x = i \<and> cr_revoked_at x = None) (\<lambda>x. x\<lparr>cr_revoked_at := Some now\<rparr>) rows)
   = (if j = i then [] else filter (\<lambda>c. cr_device c = j \<and> cr_revoked_at c = None) rows)"
  by (induction rows) (auto simp: table_simps)

lemma device_matches_cong:
  "qualifications s = qualifications t \<Longrightarrow>
   device_matches_qualification d m f p s = device_matches_qualification d m f p t"
  by (simp add: device_matches_qualification_def cong: option.case_cong)

lemma issue_device_credentials_checks:
  assumes "issue_device_credentials st hash clk raws c d ah dd s = Inr ((e, tk), t)"
  shows "dv_status d \<noteq> Disabled" and "dv_kiosk_pin_hash d \<noteq> []"
    and "production st \<Longrightarrow> dd_app_version dd = st_required_app_version st"
    and "production st \<Longrightarrow> device_matches_qualification d (dd_hardware_model dd) (dd_firmware_version dd) (dd_security_patch dd) s"
    and "assigned (dv_id d) s"
    and "x \<in> set (devices s) \<Longrightarrow> dv_id x \<noteq> dv_id d \<Longrightarrow> dv_android_id_hash x \<noteq> Some ah"
    and "e = enrolled_device d ah dd"
  using assms
  by (auto simp: issue_device_credentials_def bind_result_Inr_iff require_current_app_version_def Let_def)

lemma issue_device_credentials_effect:
  assumes r: "issue_device_credentials st hash clk raws c d ah dd s = Inr ((e, tk), t)"
    and ok: "auth_ok s" and d: "find_device i s = Some d" and c: "c \<in> set (enrollment_codes s)"
  shows "find_device j t = (if j = i then Some e else find_device j s)"
    and "enrollment_codes t = save_by ec_id (c\<lparr>ec_used_at := Some (clk 5)\<rparr>) (enrollment_codes s)"
    and "challenges t = challenges s"
    and "\<exists>n. live_credentials i t = [n] \<and> cr_id n = tk_credential tk"
    and "j \<noteq> i \<Longrightarrow> live_credentials j t = live_credentials j s"
    and "access_tokens t = access_tokens s @ [tk]" and "tk_token_hash tk = hash (rt_access raws)"
    and "tk_expires_at tk = clk 8 + seconds (st_device_access_token_ttl_seconds st)"
    and "auth_ok t" and "\<forall>k\<in>set (access_tokens s). tk_credential k \<noteq> tk_credential tk"
proof -
  have i: "dv_id d = i" using d by (rule find_device_id)
  have e: "e = enrolled_device d ah dd" using issue_device_credentials_checks(7) [OF r] .
  then have ei: "dv_id e = i" by (simp add: enrolled_device_def i)
  define s3 where "s3 = (save_device e s)\<lparr>
     enrollment_codes := save_by ec_id (c\<lparr>ec_used_at := Some (clk 5)\<rparr>) (enrollment_codes s),
     credentials := update_where (\<lambda>x. cr_device x = i \<and> cr_revoked_at x = None)
        (\<lambda>x. x\<lparr>cr_revoked_at := Some (clk 6)\<rparr>) (credentials s)\<rparr>"
  from r obtain n s4 s5 where 4: "issue_credential hash (clk 7) (rt_refresh raws) i s3 = Inr (n, s4)"
    and 5: "issue_access_token st hash (clk 8) (rt_access raws) (cr_id n) s4 = Inr (tk, s5)"
    and 6: "issue_management_credential hash (rt_management raws) i s5 = Inr t"
    by (auto simp: issue_device_credentials_def bind_result_Inr_iff Let_def s3_def e i)
  note A = issue_credential_Inr [OF 4] and B = issue_access_token_Inr [OF 5] and C = issue_management_frame [OF 6]
  have pk: "next_pk s3 = next_pk s" by (simp add: s3_def save_device_def)
  have dv: "devices t = devices (save_device e s)" by (simp add: C B(1) A(1) s3_def)
  show "find_device j t = (if j = i then Some e else find_device j s)"
    using d ei by (simp add: find_device_cong [OF dv] find_save_device)
  show codes: "enrollment_codes t = save_by ec_id (c\<lparr>ec_used_at := Some (clk 5)\<rparr>) (enrollment_codes s)"
    by (simp add: C B(1) A(1) s3_def)
  show ch: "challenges t = challenges s" by (simp add: C B(1) A(1) s3_def save_device_def)
  have cr: "credentials t = credentials s3 @ [n]" by (simp add: C B(1) A(1))
  have live3: "live_credentials j s3 = (if j = i then [] else live_credentials j s)" for j
    unfolding live_credentials_def s3_def by (simp add: live_after_revoke)
  have live: "live_credentials j t = live_credentials j s3 @ (if j = i then [n] else [])" for j
    using A(3,4) by (auto simp: live_credentials_def cr)
  show "\<exists>n. live_credentials i t = [n] \<and> cr_id n = tk_credential tk" using live [of i] live3 [of i] B(2) by simp
  show "j \<noteq> i \<Longrightarrow> live_credentials j t = live_credentials j s" using live [of j] live3 [of j] by simp
  show tok: "access_tokens t = access_tokens s @ [tk]" by (simp add: C B(1) A(1) s3_def)
  show "tk_token_hash tk = hash (rt_access raws)"
    and "tk_expires_at tk = clk 8 + seconds (st_device_access_token_ttl_seconds st)" by (fact B(3), fact B(4))
  have ids: "map cr_id (credentials s3) = map cr_id (credentials s)" by (simp add: s3_def keys_update_where)
  have less: "\<forall>x\<in>set (credentials s3). cr_id x < next_pk s"
  proof
    fix x assume "x \<in> set (credentials s3)"
    then have "cr_id x \<in> set (map cr_id (credentials s3))" by simp
    then have "cr_id x \<in> cr_id ` set (credentials s)" unfolding ids by simp
    then show "cr_id x < next_pk s" using ok by (auto simp: auth_ok_def list_all_iff)
  qed
  have pkt: "next_pk s + 2 \<le> next_pk t" using C(6) by (simp add: B(1) A(1) pk)
  show "\<forall>k\<in>set (access_tokens s). tk_credential k \<noteq> tk_credential tk"
    using ok A(2) B(2) pk by (auto simp: auth_ok_def list_all_iff)
  have hashes: "distinct (map tk_token_hash (access_tokens t))"
    using ok B(3,5) by (simp add: tok auth_ok_def) (simp add: A(1) s3_def)
  have cids: "map ec_id (enrollment_codes t) = map ec_id (enrollment_codes s)"
    by (simp add: codes keys_save_by)
  have ch_codes: "map ec_code_hash (enrollment_codes t) = map ec_code_hash (enrollment_codes s)"
    using ok c unfolding codes by (intro save_by_map_eq) (auto simp: auth_ok_def dest: distinct_map_unique)
  have "distinct (map cr_id (credentials t))"
    using ok less A(2) pk by (auto simp: cr ids auth_ok_def list_all_iff)
  moreover have "list_all (\<lambda>c. cr_id c < next_pk t) (credentials t)"
    using less A(2) pk pkt by (auto simp: cr list_all_iff)
  moreover have "list_all (\<lambda>k. tk_credential k < next_pk t) (access_tokens t)"
    using ok A(2) B(2) pk pkt by (auto simp: tok list_all_iff auth_ok_def)
  ultimately show "auth_ok t"
    using ok hashes by (simp add: auth_ok_def cids ch_codes ch)
qed


subsection \<open>Enrollment as a whole\<close>

definition same_auth :: "db \<Rightarrow> db \<Rightarrow> bool" where
  "same_auth s t = (t = s\<lparr>api_throttles := api_throttles t\<rparr>)"

lemma same_auth_fields:
  assumes "same_auth s t"
  shows "devices t = devices s" and "enrollment_codes t = enrollment_codes s" and "challenges t = challenges s"
    and "credentials t = credentials s" and "access_tokens t = access_tokens s" and "assignments t = assignments s"
    and "qualifications t = qualifications s" and "auth_ok t = auth_ok s"
proof -
  have t: "t = s\<lparr>api_throttles := api_throttles t\<rparr>" using assms by (simp add: same_auth_def)
  show "devices t = devices s" "enrollment_codes t = enrollment_codes s" "challenges t = challenges s"
    "credentials t = credentials s" "access_tokens t = access_tokens s" "assignments t = assignments s"
    "qualifications t = qualifications s" "auth_ok t = auth_ok s"
    by (subst t, simp add: auth_ok_def)+
qed

lemma throttled_Inr:
  assumes "throttled clk key limit body s = (Inr x, t)"
  shows "\<exists>s1. same_auth s s1 \<and> body s1 = (Inr x, t)"
  using assms throttle_only [of clk key limit 900 s]
  by (auto simp: throttled_def same_auth_def split: prod.splits sum.splits)

lemma enroll_Inr:
  assumes "enroll st hash decode tclk clk ip raws others data s = (Inr x, t)"
  shows "\<exists>s1. same_auth s s1 \<and> enroll_body st hash decode clk raws others data s1 = (Inr x, t)"
  using assms unfolding enroll_def by (rule throttled_Inr)


text \<open>A successful enrollment went through one of the two transactions.\<close>

lemma enroll_body_Inr:
  assumes "enroll_body st hash decode clk raws others data s = (Inr (e, tk), t)"
  obtains (challenge) k ch c d where "truthy (jget data ''challenge_id'')" and "text_field data ''integrity_token'' \<noteq> []"
      and "check_challenge st decode clk (jget data ''challenge_id'') (text_field data ''integrity_token'') s = Inr ch"
      and "lookup_by ch_id (ch_id ch) (challenges (others s)) = Some k"
      and "lookup_by ec_id (ch_enrollment k) (enrollment_codes (others s)) = Some c"
      and "find_device (challenge_device ch s) (others s) = Some d"
      and "challenge_usable (clk 9) k" and "code_usable (clk 3) c d (others s)"
      and "issue_device_credentials st hash clk raws c d (ch_android_id_hash k) (challenge_details k)
         ((others s)\<lparr>challenges := save_by ch_id (k\<lparr>ch_used_at := Some (clk 4)\<rparr>) (challenges (others s))\<rparr>) = Inr ((e, tk), t)"
  | (code) dd c0 c d where "\<not> (truthy (jget data ''challenge_id'') \<and> text_field data ''integrity_token'' \<noteq> [])"
      and "\<not> production st"
      and "check_code st hash data s = Inr (dd, c0)"
      and "lookup_by ec_id (ec_id c0) (enrollment_codes (others s)) = Some c"
      and "find_device (ec_device c0) (others s) = Some d" and "code_usable (clk 3) c d (others s)"
      and "issue_device_credentials st hash clk raws c d (hash (dd_android_id dd)) dd (others s) = Inr ((e, tk), t)"
proof (cases "truthy (jget data ''challenge_id'') \<and> text_field data ''integrity_token'' \<noteq> []")
  case True
  with assms obtain ch where ch: "check_challenge st decode clk (jget data ''challenge_id'') (text_field data ''integrity_token'') s = Inr ch"
    and r: "redeem_challenge st hash clk raws (challenge_device ch s) ch (others s) = Inr ((e, tk), t)"
    by (auto simp: enroll_body_def Let_def atomic_Inr_iff split: sum.splits)
  from r show thesis
    by (auto simp: redeem_challenge_def missing_row_def bind_result_Inr_iff Let_def split: option.splits
        intro: challenge [OF conjunct1 [OF True] conjunct2 [OF True] ch])
next
  case False
  with assms obtain dd c0 where pr: "\<not> production st" and ch: "check_code st hash data s = Inr (dd, c0)"
    and r: "redeem_code st hash clk raws dd c0 (others s) = Inr ((e, tk), t)"
    by (auto simp: enroll_body_def Let_def atomic_Inr_iff split: sum.splits if_splits)
  from r show thesis
    by (auto simp: redeem_code_def missing_row_def bind_result_Inr_iff Let_def split: option.splits
        intro: code [OF False pr ch])
qed

lemma check_challenge_Inr:
  assumes "check_challenge st decode clk cid token s = Inr ch"
  shows "\<exists>k c d p. uuid_key cid = Inr k \<and> lookup_by ch_id k (challenges s) = Some ch
     \<and> lookup_by ec_id (ch_enrollment ch) (enrollment_codes s) = Some c \<and> find_device (ec_device c) s = Some d
     \<and> challenge_usable (clk 0) ch \<and> code_usable (clk 1) c d s
     \<and> verify_integrity_token st (clk 2) (decode token) (ch_request_hash ch) = Inr p"
proof (cases "uuid_key cid")
  case (Inl f)
  then show ?thesis using assms by (simp add: check_challenge_def)
next
  case k: (Inr k)
  then obtain x where x: "lookup_by ch_id k (challenges s) = Some x"
    using assms by (cases "lookup_by ch_id k (challenges s)") (auto simp: check_challenge_def)
  then obtain c where c: "lookup_by ec_id (ch_enrollment x) (enrollment_codes s) = Some c"
    using assms k by (cases "lookup_by ec_id (ch_enrollment x) (enrollment_codes s)") (auto simp: check_challenge_def)
  then obtain d where d: "find_device (ec_device c) s = Some d"
    using assms k x by (cases "find_device (ec_device c) s") (auto simp: check_challenge_def)
  show ?thesis using assms k x c d by (auto simp: check_challenge_def bind_result_Inr_iff)
qed

text \<open>After an enrollment: the device is active and the new token is the only one it has.\<close>

lemma only_new_token:
  assumes live: "\<exists>n. live_credentials i t = [n] \<and> cr_id n = tk_credential tk" and ok: "auth_ok t"
    and tok: "access_tokens t = access_tokens s @ [tk]"
    and new: "\<forall>k\<in>set (access_tokens s). tk_credential k \<noteq> tk_credential tk"
    and g: "token_grants now k x t" and x: "dv_id x = i"
  shows "k = tk"
proof -
  from g obtain c where k: "k \<in> set (access_tokens t)" and c: "credential_device k t = Some (c, x)" "cr_revoked_at c = None"
    by (auto simp: token_grants_def)
  then have "c \<in> set (credentials t)" "cr_id c = tk_credential k" "cr_device c = i"
    using credential_device_SomeD [OF c(1)] x find_device_id by auto
  with c(2) have "c \<in> set (live_credentials i t)" by (simp add: live_credentials_def)
  with live have "tk_credential k = tk_credential tk" using \<open>cr_id c = tk_credential k\<close> by auto
  with k new tok show ?thesis by auto
qed

lemma new_token_grants:
  assumes live: "\<exists>n. live_credentials i t = [n] \<and> cr_id n = tk_credential tk" and ok: "auth_ok t"
    and tok: "tk \<in> set (access_tokens t)" and e: "find_device i t = Some e" "dv_status e \<noteq> Disabled"
    and now: "now < tk_expires_at tk"
  shows "token_grants now tk e t"
proof -
  from live obtain n where n: "n \<in> set (live_credentials i t)" "cr_id n = tk_credential tk" by (metis list.set_intros(1))
  then have c: "n \<in> set (credentials t)" "cr_device n = i" "cr_revoked_at n = None" by (auto simp: live_credentials_def)
  have "lookup_by cr_id (tk_credential tk) (credentials t) = Some n"
    using ok c(1) n(2) by (metis auth_ok_def lookup_by_distinct)
  then show ?thesis using c e tok now by (auto simp: token_grants_def credential_device_def)
qed


lemma redeemed_state:
  assumes "enroll_body st hash decode clk raws others data s = (Inr (e, tk), t)" and ok: "auth_ok (others s)"
  shows "\<exists>c d v ah dd. issue_device_credentials st hash clk raws c d ah dd v = Inr ((e, tk), t) \<and> auth_ok v
     \<and> find_device (dv_id e) v = Some d \<and> c \<in> set (enrollment_codes v) \<and> dv_id d = dv_id e
     \<and> access_tokens v = access_tokens (others s)"
  using assms(1)
proof (cases rule: enroll_body_Inr)
  case (challenge k ch c d)
  let ?v = "(others s)\<lparr>challenges := save_by ch_id (k\<lparr>ch_used_at := Some (clk 4)\<rparr>) (challenges (others s))\<rparr>"
  have "auth_ok ?v" using ok by (simp add: auth_ok_def keys_save_by)
  moreover have "dv_id e = dv_id d" using issue_device_credentials_checks(7) [OF challenge(9)] by (simp add: enrolled_device_def)
  moreover have "find_device (dv_id d) ?v = Some d"
    using challenge(6) find_device_id [OF challenge(6)] by (simp add: find_device_def)
  moreover have "c \<in> set (enrollment_codes ?v)" using lookup_by_SomeD [OF challenge(5)] by simp
  moreover have "access_tokens ?v = access_tokens (others s)" by simp
  ultimately show ?thesis using challenge(9) by metis
next
  case (code dd c0 c d)
  have "dv_id e = dv_id d" using issue_device_credentials_checks(7) [OF code(7)] by (simp add: enrolled_device_def)
  moreover have "find_device (dv_id d) (others s) = Some d"
    using code(5) find_device_id [OF code(5)] by simp
  moreover have "c \<in> set (enrollment_codes (others s))" using lookup_by_SomeD [OF code(4)] by simp
  ultimately show ?thesis using code(7) ok by metis
qed

subsection \<open>Properties\<close>

text \<open>C12: A successful enrollment leaves the device active with exactly one live credential. The new
  access token authenticates as the device until it expires, and it is the only token that does:
  whatever was issued to the device before is refused from then on. What concurrent requests do
  between the check and the locked transaction makes no difference, as long as they keep the keys
  of the tables distinct.\<close>
theorem enrollment_renews_credentials:
  assumes "enroll st hash decode tclk clk ip raws others data s = (Inr (e, tk), t)"
    and "auth_ok s" and "\<forall>x. auth_ok x \<longrightarrow> auth_ok (others x)"
  shows "dv_status e = Active \<and> find_device (dv_id e) t = Some e \<and> length (live_credentials (dv_id e) t) = 1 \<and> auth_ok t
    \<and> (\<forall>now h. now < tk_expires_at tk \<longrightarrow> split_ws h = [''Bearer'', rt_access raws] \<longrightarrow>
         authenticate_access st hash (\<lambda>n. now) ip h t = (Inr (Some (e, tk)), t))
    \<and> (\<forall>clk2 ip2 h x k u. authenticate_access st hash clk2 ip2 h t = (Inr (Some (x, k)), u) \<longrightarrow>
         dv_id x = dv_id e \<longrightarrow> k = tk)"
proof -
  obtain s1 where s1: "same_auth s s1" and b: "enroll_body st hash decode clk raws others data s1 = (Inr (e, tk), t)"
    using enroll_Inr [OF assms(1)] by blast
  have "auth_ok (others s1)" using assms(2,3) same_auth_fields(8) [OF s1] by simp
  from redeemed_state [OF b this] obtain c d v ah dd
    where r: "issue_device_credentials st hash clk raws c d ah dd v = Inr ((e, tk), t)" and ok: "auth_ok v"
      and d: "find_device (dv_id e) v = Some d" and c: "c \<in> set (enrollment_codes v)"
      and id: "dv_id d = dv_id e"
    by blast
  note eff = issue_device_credentials_effect [OF r ok d c]
  have act: "dv_status e = Active" using issue_device_credentials_checks(7) [OF r] by (simp add: enrolled_device_def)
  have e: "find_device (dv_id e) t = Some e" using eff(1) by simp
  have live: "length (live_credentials (dv_id e) t) = 1" using eff(4) by auto
  have tk: "tk \<in> set (access_tokens t)" by (simp add: eff(6))
  have "authenticate_access st hash (\<lambda>n. now) ip h t = (Inr (Some (e, tk)), t)"
    if "now < tk_expires_at tk" and "split_ws h = [''Bearer'', rt_access raws]" for now h
    using new_token_grants [OF eff(4,9) tk e _ that(1)] act that(2) eff(7,9)
    by (intro authenticate_access_complete) (auto simp: auth_ok_def)
  moreover have "k = tk" if "authenticate_access st hash clk2 ip2 h t = (Inr (Some (x, k)), u)" "dv_id x = dv_id e"
    for clk2 ip2 h x k u
    using only_new_token [OF eff(4,9,6,10) authenticate_access_Inr(2) [OF that(1)] that(2)] .
  ultimately show ?thesis using act e live eff(9) by blast
qed










lemma enroll_needs_fresh_code:
  assumes "enroll_body st hash decode clk raws (\<lambda>x. x) data s = (Inr (e, tk), t)"
    and dist: "distinct (map ec_id (enrollment_codes s))"
  shows "\<exists>c\<in>set (enrollment_codes s). ec_device c = dv_id e \<and> \<not> code_spent (clk 3) c"
  using assms(1)
proof (cases rule: enroll_body_Inr)
  case (challenge k ch c d)
  obtain kk where kk: "lookup_by ch_id kk (challenges s) = Some ch"
    using check_challenge_Inr [OF challenge(3)] by blast
  then have "k = ch" using challenge(4) lookup_by_SomeD [OF kk] by simp
  then have "challenge_device ch s = ec_device c" using challenge(5) by (simp add: challenge_device_def)
  then have "dv_id d = ec_device c" using find_device_id [OF challenge(6)] by simp
  moreover have "dv_id e = dv_id d" using issue_device_credentials_checks(7) [OF challenge(9)] by (simp add: enrolled_device_def)
  moreover have "\<not> code_spent (clk 3) c" using challenge(8) by (auto simp: code_usable_def code_spent_def)
  ultimately show ?thesis using lookup_by_SomeD [OF challenge(5)] by auto
next
  case (code dd c0 c d)
  have c0: "c0 \<in> set (enrollment_codes s)" using code(3)
    by (auto simp: check_code_def bind_result_Inr_iff split: option.splits dest: lookup_by_SomeD)
  have "c = c0" using lookup_by_SomeD [OF code(4)] c0 dist by (auto dest: distinct_map_unique)
  moreover have "dv_id d = ec_device c0" using find_device_id [OF code(5)] .
  moreover have "dv_id e = dv_id d" using issue_device_credentials_checks(7) [OF code(7)] by (simp add: enrolled_device_def)
  moreover have "\<not> code_spent (clk 3) c" using code(6) by (auto simp: code_usable_def code_spent_def)
  ultimately show ?thesis using c0 by auto
qed

lemma revocation_code_ids:
  "disable_device clk actor i s = Inr t \<Longrightarrow> map ec_id (enrollment_codes t) = map ec_id (enrollment_codes s)"
  "revoke_device_credentials clk actor i s = Inr (n, t) \<Longrightarrow> map ec_id (enrollment_codes t) = map ec_id (enrollment_codes s)"
  by (auto simp: disable_device_def revoke_device_credentials_def bind_result_Inr_iff Let_def
      revoke_active_device_credentials_def expire_unused_enrollment_codes_def keys_update_where split: prod.splits if_splits)

lemma spent_no_enroll:
  assumes spent: "\<And>c. c \<in> set (enrollment_codes t) \<Longrightarrow> ec_device c = i \<longrightarrow> code_spent now c"
    and dist: "distinct (map ec_id (enrollment_codes t))" and now: "now \<le> clk 3"
    and e: "enroll st hash decode tclk clk ip raws (\<lambda>x. x) data t = (Inr (e, k), u)"
  shows "dv_id e \<noteq> i"
proof
  assume i: "dv_id e = i"
  obtain s1 where s1: "same_auth t s1" and b: "enroll_body st hash decode clk raws (\<lambda>x. x) data s1 = (Inr (e, k), u)"
    using enroll_Inr [OF e] by blast
  have codes: "enrollment_codes s1 = enrollment_codes t" using same_auth_fields(2) [OF s1] .
  then have "distinct (map ec_id (enrollment_codes s1))" using dist by simp
  from enroll_needs_fresh_code [OF b this] obtain c where "c \<in> set (enrollment_codes t)" "ec_device c = i" "\<not> code_spent (clk 3) c"
    using i codes by auto
  with spent [of c] now show False by (auto simp: code_spent_def)
qed

text \<open>C14: A disabled device, and a device whose credentials were revoked, is locked out. From then on no
  access token authenticates as the device, no refresh token gives it a new one and no code or
  challenge issued before enrolls it again; after a revocation its management token is refused as
  well, and other devices keep their credentials.\<close>
theorem locked_out:
  assumes "disable_device clk actor i s = Inr t \<or> revoke_device_credentials clk actor i s = Inr (n, t)"
    and "auth_ok s"
  shows "(\<forall>st hash clk2 ip h d k u. authenticate_access st hash clk2 ip h t = (Inr (Some (d, k)), u) \<longrightarrow> dv_id d \<noteq> i)
    \<and> (\<forall>st hash tclk clk2 ip raw data k u. token_refresh st hash tclk clk2 ip raw data t = (Inr k, u) \<longrightarrow>
         (\<exists>c\<in>set (credentials t). tk_credential k = cr_id c \<and> cr_device c \<noteq> i))
    \<and> (\<forall>st hash decode tclk clk2 ip raws data e k u. clk 1 \<le> clk2 3 \<longrightarrow> clk 2 \<le> clk2 3 \<longrightarrow>
         enroll st hash decode tclk clk2 ip raws (\<lambda>x. x) data t = (Inr (e, k), u) \<longrightarrow> dv_id e \<noteq> i)
    \<and> (revoke_device_credentials clk actor i s = Inr (n, t) \<longrightarrow>
         (\<forall>hash h d. authenticate_management hash h t = Inr d \<longrightarrow> dv_id d \<noteq> i))
    \<and> (\<forall>j. j \<noteq> i \<longrightarrow> live_credentials j t = live_credentials j s)"
proof -
  have dc: "distinct (map cr_id (credentials s))" and de: "distinct (map ec_id (enrollment_codes s))"
    using assms(2) by (simp_all add: auth_ok_def)
  have live: "live_credentials i t = []"
    using assms(1) disable_device_effect(2) revoke_device_effect(1) by blast
  have other: "live_credentials j t = live_credentials j s" if "j \<noteq> i" for j
    using assms(1) disable_device_effect(4) [OF _ dc that] revoke_device_effect(5) [OF _ dc that] by blast
  have ids: "distinct (map ec_id (enrollment_codes t))"
    using assms(1) de by (auto simp: revocation_code_ids)
  have spent: "\<exists>now. (now = clk 1 \<or> now = clk 2) \<and> (\<forall>c\<in>set (enrollment_codes t). ec_device c = i \<longrightarrow> code_spent now c)"
    using assms(1)
  proof
    assume r: "disable_device clk actor i s = Inr t"
    show ?thesis by (rule exI [of _ "clk 2"]) (use disable_device_effect(3) [OF r] in auto)
  next
    assume r: "revoke_device_credentials clk actor i s = Inr (n, t)"
    show ?thesis by (rule exI [of _ "clk 1"]) (use revoke_device_effect(3) [OF r] in auto)
  qed
  have access: "dv_id d \<noteq> i" if "authenticate_access st hash clk2 ip h t = (Inr (Some (d, k)), u)" for st hash clk2 ip h d k u
    using authenticate_access_Inr(2) [OF that] no_live_no_token live by blast
  have refresh: "\<exists>c\<in>set (credentials t). tk_credential k = cr_id c \<and> cr_device c \<noteq> i"
    if "token_refresh st hash tclk clk2 ip raw data t = (Inr k, u)" for st hash tclk clk2 ip raw data k u
    using token_refresh_Inr [OF that] live unfolding live_credentials_empty by metis
  have code: "dv_id e \<noteq> i" if "clk 1 \<le> clk2 3" "clk 2 \<le> clk2 3"
    "enroll st hash decode tclk clk2 ip raws (\<lambda>x. x) data t = (Inr (e, k), u)" for st hash decode tclk clk2 ip raws data e k u
    using spent
  proof (elim exE conjE)
    fix now assume n: "now = clk 1 \<or> now = clk 2" and sp: "\<forall>c\<in>set (enrollment_codes t). ec_device c = i \<longrightarrow> code_spent now c"
    have "now \<le> clk2 3" using n that(1,2) by auto
    then show ?thesis using spent_no_enroll [OF _ ids _ that(3)] sp by blast
  qed
  have mg: "dv_id d \<noteq> i" if r: "revoke_device_credentials clk actor i s = Inr (n, t)" and a: "authenticate_management hash h t = Inr d"
    for hash h d
  proof -
    obtain m where m: "m \<in> set (management_credentials t)" "find_device (mc_device m) t = Some d"
      using authenticate_management_Inr [OF a] by blast
    show ?thesis using revoke_device_effect(4) [OF r m(1)] find_device_id [OF m(2)] by simp
  qed
  show ?thesis
  proof (intro conjI allI impI)
  qed (use access refresh code mg other in \<open>simp_all\<close>)
qed

text \<open>C37: In production a device enrolls only with a verified attestation of the request it was
  challenged with: the integrity verdict carries the hash of a stored challenge, the challenge and
  its code are still usable under lock, the application version is the required one, the hardware
  the challenge recorded is the qualified hardware of the device, the device is assigned, and no
  other device holds the Android identity.\<close>
theorem production_enrollment_attested:
  assumes "enroll st hash decode tclk clk ip raws others data s = (Inr (e, tk), t)" and "production st"
  shows "\<exists>s1 ch k c d p. same_auth s s1 \<and> ch \<in> set (challenges s)
    \<and> verify_integrity_token st (clk 2) (decode (text_field data ''integrity_token'')) (ch_request_hash ch) = Inr p
    \<and> k \<in> set (challenges (others s1)) \<and> ch_id k = ch_id ch \<and> challenge_usable (clk 9) k
    \<and> c \<in> set (enrollment_codes (others s1)) \<and> ec_id c = ch_enrollment k \<and> code_usable (clk 3) c d (others s1)
    \<and> find_device (dv_id e) (others s1) = Some d \<and> assigned (dv_id d) (others s1)
    \<and> ch_app_version k = st_required_app_version st
    \<and> device_matches_qualification d (ch_hardware_model k) (ch_firmware_version k) (ch_security_patch_level k) (others s1)
    \<and> (\<forall>x\<in>set (devices (others s1)). dv_id x \<noteq> dv_id d \<longrightarrow> dv_android_id_hash x \<noteq> Some (ch_android_id_hash k))"
proof -
  obtain s1 where s1: "same_auth s s1" and b: "enroll_body st hash decode clk raws others data s1 = (Inr (e, tk), t)"
    using enroll_Inr [OF assms(1)] by blast
  from b show ?thesis
  proof (cases rule: enroll_body_Inr)
    case (challenge k ch c d)
    obtain kk p where "lookup_by ch_id kk (challenges s1) = Some ch"
      and p: "verify_integrity_token st (clk 2) (decode (text_field data ''integrity_token'')) (ch_request_hash ch) = Inr p"
      using check_challenge_Inr [OF challenge(3)] by blast
    then have ch: "ch \<in> set (challenges s)" using same_auth_fields(3) [OF s1] by (auto dest: lookup_by_SomeD)
    note chk = issue_device_credentials_checks [OF challenge(9)]
    have id: "dv_id e = dv_id d" using chk(7) by (simp add: enrolled_device_def)
    have fd: "find_device (dv_id e) (others s1) = Some d"
      using challenge(6) find_device_id [OF challenge(6)] id by simp
    have q: "device_matches_qualification d (ch_hardware_model k) (ch_firmware_version k) (ch_security_patch_level k) (others s1)"
      using chk(4) [OF assms(2)] device_matches_cong [of "others s1\<lparr>challenges := save_by ch_id (k\<lparr>ch_used_at := Some (clk 4)\<rparr>) (challenges (others s1))\<rparr>" "others s1"]
      by (simp add: challenge_details_def)
    have a: "assigned (dv_id d) (others s1)" using challenge(8) by (simp add: code_usable_def)
    have v: "ch_app_version k = st_required_app_version st" using chk(3) [OF assms(2)] by (simp add: challenge_details_def)
    have u: "\<forall>x\<in>set (devices (others s1)). dv_id x \<noteq> dv_id d \<longrightarrow> dv_android_id_hash x \<noteq> Some (ch_android_id_hash k)"
      using chk(6) by simp
    show ?thesis
      using s1 ch p lookup_by_SomeD [OF challenge(4)] challenge(7,8) lookup_by_SomeD [OF challenge(5)] fd a v q u by metis
  next
    case (code dd c0 c d)
    then show ?thesis using assms(2) by simp
  qed
qed


subsection \<open>Witnesses\<close>

definition code_db :: db where
  "code_db = (case issue_code default_settings (\<lambda>x. x) 100 [''123456''] 7 1 fleet_db of
     Inl e \<Rightarrow> empty_db | Inr (raw, t) \<Rightarrow> t)"

definition enroll_request :: payload where
  "enroll_request = [(''code'', JStr ''123456''), (''android_id'', JStr ''a1''), (''android_version'', JStr ''13''),
     (''app_version'', JStr ''0.1.0'')]"

definition example_tokens :: raw_tokens where
  "example_tokens = \<lparr>rt_refresh = ''r'', rt_access = ''a'', rt_management = ''m''\<rparr>"

definition example_enroll :: "db \<Rightarrow> (device \<times> access_token) result \<times> db" where
  "example_enroll s = enroll default_settings (\<lambda>x. x) (\<lambda>t. Inl Http404) (\<lambda>n. 200) (\<lambda>n. 200) ''ip'' example_tokens (\<lambda>x. x) enroll_request s"

definition enrolled_db :: db where
  "enrolled_db = snd (example_enroll code_db)"

lemma example_enroll_ok: "\<exists>e tk. example_enroll code_db = (Inr (e, tk), enrolled_db)"
proof -
  have "(case fst (example_enroll code_db) of Inl e \<Rightarrow> False | Inr p \<Rightarrow> True)" by code_simp
  then show ?thesis
    by (cases "example_enroll code_db") (auto simp: enrolled_db_def split: sum.splits)
qed

lemma code_db_ok: "auth_ok code_db" "auth_ok enrolled_db"
  by code_simp+

theorem enrollment_renews_credentials_witness:
  "\<exists>e tk. example_enroll code_db = (Inr (e, tk), enrolled_db) \<and> dv_status e = Active
     \<and> length (live_credentials (dv_id e) enrolled_db) = 1"
proof -
  obtain e tk where e: "example_enroll code_db = (Inr (e, tk), enrolled_db)" using example_enroll_ok by blast
  from enrollment_renews_credentials [OF e [unfolded example_enroll_def] code_db_ok(1)] e show ?thesis by blast
qed






theorem locked_out_witness:
  "\<exists>t. disable_device (\<lambda>n. 300) 1 7 enrolled_db = Inr t \<and>
     (\<forall>st hash clk2 ip h d k u. authenticate_access st hash clk2 ip h t = (Inr (Some (d, k)), u) \<longrightarrow> dv_id d \<noteq> 7)"
proof -
  have "(case disable_device (\<lambda>n. 300) 1 7 enrolled_db of Inl e \<Rightarrow> False | Inr t \<Rightarrow> True)" by code_simp
  then obtain t where t: "disable_device (\<lambda>n. 300) 1 7 enrolled_db = Inr t" by (auto split: sum.splits)
  from locked_out [where n = 0, OF disjI1 [OF t] code_db_ok(2)]
  have "\<forall>st hash clk2 ip h d k u. authenticate_access st hash clk2 ip h t = (Inr (Some (d, k)), u) \<longrightarrow> dv_id d \<noteq> 7"
    by (rule conjunct1)
  with t show ?thesis by blast
qed

definition qualified_db :: db where
  "qualified_db = code_db\<lparr>qualifications := [\<lparr>hq_id = 3, hq_model_name = ''M'', hq_firmware_version = ''F'',
      hq_android_version = ''13'', hq_security_patch_level = ''P'', hq_display_diagonal = Some 1000, hq_tested_by = 1,
      hq_test_date = 0, hq_evidence_reference = [], hq_legacy_passes = [], hq_recorded_passes = (\<lambda>n. True),
      hq_approved_for_pilot = False, hq_approved_at = None\<rparr>],
    devices := map (\<lambda>d. d\<lparr>dv_hardware_qualification := Some 3\<rparr>) (devices code_db)\<rparr>"

definition challenge_request :: payload where
  "challenge_request = enroll_request @ [(''hardware_model'', JStr ''M''), (''firmware_version'', JStr ''F''),
     (''security_patch_level'', JStr ''P'')]"

definition challenge_db :: db where
  "challenge_db = snd (request_challenge example_integrity (\<lambda>x. x) (\<lambda>n. 200) (\<lambda>n. 200) ''ip'' 5 ''s'' challenge_request qualified_db)"

definition attested_enroll :: "(device \<times> access_token) result \<times> db" where
  "attested_enroll = enroll example_integrity (\<lambda>x. x)
     (\<lambda>t. Inr (JObj (example_verdict (ch_request_hash (hd (challenges challenge_db)))))) (\<lambda>n. 300) (\<lambda>n. 300) ''ip''
     example_tokens (\<lambda>x. x) [(''challenge_id'', JStr (uuid_str 5)), (''integrity_token'', JStr ''t'')] challenge_db"

theorem production_enrollment_attested_witness:
  "\<exists>e tk t ch. attested_enroll = (Inr (e, tk), t) \<and> ch \<in> set (challenges challenge_db)"
proof -
  have p: "production example_integrity" by code_simp
  have "(case fst attested_enroll of Inl e \<Rightarrow> False | Inr p \<Rightarrow> True)" by code_simp
  then obtain e tk where f: "fst attested_enroll = Inr (e, tk)" by (auto split: sum.splits)
  define t where "t = snd attested_enroll"
  have e: "attested_enroll = (Inr (e, tk), t)" by (simp add: t_def f [symmetric])
  from production_enrollment_attested [OF e [unfolded attested_enroll_def] p] e show ?thesis by blast
qed

end
