(* ===== verification/Evidence.thy ===== *)
theory Evidence
  imports Devices Requests
begin

section \<open>Evidence that devices submit more than once\<close>

text \<open>
  A device repeats a submission until it is acknowledged: playback batches, operational events
  and location points all carry an identifier the device chose. The contract the three handlers
  share is a locale; each of their theories interprets it. This theory also holds what they share
  with each other, the assignment that was in force at a time.
\<close>

subsection \<open>The contract of idempotent submissions\<close>

text \<open>
  \<open>submit e\<close> answers with the duplicate flag or refuses. \<open>stored e s\<close> says that the store holds
  exactly this evidence, \<open>same\<close> when two submissions of one key say the same.
\<close>

locale idempotent_store =
  fixes ok :: "'s \<Rightarrow> bool"
    and key :: "'e \<Rightarrow> 'k"
    and wf :: "'e \<Rightarrow> bool"
    and same :: "'e \<Rightarrow> 'e \<Rightarrow> bool"
    and stored :: "'e \<Rightarrow> 's \<Rightarrow> bool"
    and submit :: "'e \<Rightarrow> 's \<Rightarrow> ('x + bool) \<times> 's"
  assumes submit_ok: "ok s \<Longrightarrow> wf e \<Longrightarrow> ok (snd (submit e s))"
    and submit_keeps: "ok s \<Longrightarrow> wf e \<Longrightarrow> stored e' s \<Longrightarrow> stored e' (snd (submit e s))"
    and submit_stores: "ok s \<Longrightarrow> wf e \<Longrightarrow> fst (submit e s) = Inr b \<Longrightarrow> stored e (snd (submit e s))"
    and submit_duplicate: "stored e s \<Longrightarrow> submit e s = (Inr True, s)"
    and submit_refused: "stored e s \<Longrightarrow> key e' = key e \<Longrightarrow> fst (submit e' s) = Inl x \<Longrightarrow> snd (submit e' s) = s"
    and stored_same: "ok s \<Longrightarrow> stored e s \<Longrightarrow> stored e' s \<Longrightarrow> wf e \<Longrightarrow> wf e' \<Longrightarrow> key e = key e' \<Longrightarrow> same e e'"
begin

lemma run_ok: "ok s \<Longrightarrow> list_all wf es \<Longrightarrow> ok (fold (\<lambda>e s. snd (submit e s)) es s)"
  by (induction es arbitrary: s) (auto simp: submit_ok)

lemma run_keeps:
  "ok s \<Longrightarrow> list_all wf es \<Longrightarrow> stored e s \<Longrightarrow> stored e (fold (\<lambda>e s. snd (submit e s)) es s)"
  by (induction es arbitrary: s) (auto simp: submit_ok submit_keeps)

text \<open>Once acknowledged, a submission is a duplicate for ever, whatever comes in between.\<close>

lemma replay:
  assumes "ok s" and "wf e" and "list_all wf es" and "submit e s = (Inr b, t)"
  shows "submit e (fold (\<lambda>e s. snd (submit e s)) es t) = (Inr True, fold (\<lambda>e s. snd (submit e s)) es t)"
proof -
  have "stored e t" using submit_stores [OF assms(1,2), of b] assms(4) by simp
  moreover have "ok t" using submit_ok [OF assms(1,2)] assms(4) by simp
  ultimately show ?thesis using run_keeps [OF _ assms(3)] submit_duplicate by blast
qed

text \<open>An identifier is never used for two different pieces of evidence.\<close>

lemma conflict:
  assumes "ok s" and "wf e" and "list_all wf es" and "submit e s = (Inr b, t)"
    and "wf e'" and "key e' = key e" and "\<not> same e e'"
  shows "\<exists>x. submit e' (fold (\<lambda>e s. snd (submit e s)) es t) = (Inl x, fold (\<lambda>e s. snd (submit e s)) es t)"
proof -
  let ?u = "fold (\<lambda>e s. snd (submit e s)) es t"
  have "stored e t" using submit_stores [OF assms(1,2), of b] assms(4) by simp
  moreover have "ok t" using submit_ok [OF assms(1,2)] assms(4) by simp
  ultimately have u: "ok ?u" "stored e ?u" using run_keeps run_ok assms(3) by blast+
  show ?thesis
  proof (cases "fst (submit e' ?u)")
    case (Inl x)
    then show ?thesis using submit_refused [OF u(2) assms(6) Inl] by (metis prod.collapse)
  next
    case (Inr c)
    have "ok (snd (submit e' ?u))" using submit_ok [OF u(1) assms(5)] .
    moreover have "stored e (snd (submit e' ?u))" using submit_keeps [OF u(1) assms(5) u(2)] .
    moreover have "stored e' (snd (submit e' ?u))" using submit_stores [OF u(1) assms(5) Inr] .
    ultimately show ?thesis using stored_same assms(2,5,6,7) by metis
  qed
qed

end

subsection \<open>The assignment in force at a time\<close>

definition assignment_at :: "id \<Rightarrow> time \<Rightarrow> db \<Rightarrow> device_assignment option" where
  "assignment_at d at s =
     order_first (\<lambda>a. - da_assigned_at a)
       (filter (\<lambda>a. da_device a = d \<and> da_assigned_at a \<le> at
                    \<and> (case da_unassigned_at a of None \<Rightarrow> True | Some u \<Rightarrow> at < u)) (assignments s))"

lemma assignment_at_SomeD:
  assumes "assignment_at d at s = Some a"
  shows "a \<in> set (assignments s)" and "da_device a = d" and "da_assigned_at a \<le> at"
    and "da_unassigned_at a = Some u \<Longrightarrow> at < u"
  using order_first_SomeD(1) [OF assms [unfolded assignment_at_def]] by auto

end
