(* ===== verification/Playlists.thy ===== *)
theory Playlists
  imports Media
begin

section \<open>Playlists\<close>

text \<open>
  Draft playlists and their items, publication and the effective playlist: the guards of
  \<open>Playlist\<close> and \<open>PlaylistItem\<close> in \<open>models.py\<close>, the playlist views, \<open>publish_playlist\<close>,
  \<open>active_playlist\<close> and \<open>next_playlist_transition_at\<close> of \<open>services.py\<close>, and the command
  \<open>evaluate_playlists\<close>. Queries whose ordering leaves ties open take the first row in table
  order; a missing \<open>published_at\<close> sorts as PostgreSQL sorts it.
\<close>

subsection \<open>Version guards\<close>

definition find_playlist :: "id \<Rightarrow> db \<Rightarrow> playlist option" where
  "find_playlist i s = lookup_by pl_id i (playlists s)"

definition published_or_cancelled :: "playlist_status \<Rightarrow> bool" where
  "published_or_cancelled t = (t = Published \<or> t = Cancelled)"

definition locked_fields_changed :: "playlist \<Rightarrow> playlist \<Rightarrow> bool" where
  "locked_fields_changed original p =
     (pl_name original \<noteq> pl_name p \<or> pl_version original \<noteq> pl_version p
      \<or> pl_starts_at original \<noteq> pl_starts_at p \<or> pl_ends_at original \<noteq> pl_ends_at p
      \<or> pl_published_at original \<noteq> pl_published_at p \<or> pl_is_urgent original \<noteq> pl_is_urgent p
      \<or> pl_created_by original \<noteq> pl_created_by p)"

definition valid_replacement :: "playlist \<Rightarrow> playlist \<Rightarrow> bool" where
  "valid_replacement original r =
     (pl_status r = Published \<and> pl_name r = pl_name original \<and> pl_version original < pl_version r
      \<and> pl_starts_at r = pl_starts_at original \<and> pl_ends_at r = pl_ends_at original)"

definition validate_locked_version :: "playlist \<Rightarrow> playlist \<Rightarrow> db \<Rightarrow> unit result" where
  "validate_locked_version original p s =
     (if pl_status original = Cancelled then
        require (\<not> (locked_fields_changed original p \<or> pl_status p \<noteq> pl_status original
                      \<or> pl_superseded_by p \<noteq> pl_superseded_by original))
          (ValidationError [] ''Cancelled playlist versions are immutable.'')
      else if pl_status original \<noteq> Published then Inr ()
      else bind_result (require (\<not> locked_fields_changed original p)
             (ValidationError [] ''Published playlist versions are immutable.'')) (\<lambda>u1.
           if pl_status p = Published then
             require (pl_superseded_by p = pl_superseded_by original)
               (ValidationError [] ''Published playlist versions are immutable.'')
           else bind_result (require (pl_status p = Cancelled \<and> pl_superseded_by p \<noteq> None)
                  (ValidationError [] ''Published playlists can only be cancelled by a correction.'')) (\<lambda>u2.
                require (case pl_superseded_by p of None \<Rightarrow> False | Some k \<Rightarrow>
                           (case find_playlist k s of None \<Rightarrow> False | Some r \<Rightarrow> valid_replacement original r))
                  (ValidationError [] ''A correction must link to a newer published version of the same playlist window.''))))"

text \<open>\<open>Playlist.clean\<close>.\<close>

definition playlist_clean :: "playlist \<Rightarrow> db \<Rightarrow> unit result" where
  "playlist_clean p s = (case find_playlist (pl_id p) s of
       None \<Rightarrow> Inr () | Some original \<Rightarrow> validate_locked_version original p s)"

text \<open>The constraints of the table, which \<open>full_clean\<close> checks as well.\<close>

definition playlist_constraints :: "playlist \<Rightarrow> db \<Rightarrow> bool" where
  "playlist_constraints p s =
     (pl_starts_at p < pl_ends_at p
      \<and> \<not> exists_row (\<lambda>q. pl_id q \<noteq> pl_id p \<and> pl_name q = pl_name p \<and> pl_version q = pl_version p) (playlists s))"

definition playlist_full_clean :: "playlist \<Rightarrow> db \<Rightarrow> unit result" where
  "playlist_full_clean p s =
     bind_result (require (pl_name p \<noteq> [] \<and> length (pl_name p) \<le> 160 \<and> 0 \<le> pl_version p)
       (ValidationError ''name'' ''Enter a valid value.'')) (\<lambda>u1.
     bind_result (playlist_clean p s) (\<lambda>u2.
     require (playlist_constraints p s) (ValidationError [] ''Constraint is violated.'')))"

text \<open>
  \<open>Playlist.save\<close>. With \<open>update_fields\<close> only the named columns are written, otherwise the
  whole row; a playlist that is not in the table is inserted.
\<close>

definition write_columns :: "string list option \<Rightarrow> playlist \<Rightarrow> playlist \<Rightarrow> playlist" where
  "write_columns columns p row = (case columns of None \<Rightarrow> p
     | Some fs \<Rightarrow> row\<lparr>
         pl_status := if ''status'' \<in> set fs then pl_status p else pl_status row,
         pl_published_at := if ''published_at'' \<in> set fs then pl_published_at p else pl_published_at row,
         pl_is_urgent := if ''is_urgent'' \<in> set fs then pl_is_urgent p else pl_is_urgent row,
         pl_superseded_by := if ''superseded_by'' \<in> set fs then pl_superseded_by p else pl_superseded_by row\<rparr>)"

definition playlist_save :: "string list option \<Rightarrow> playlist \<Rightarrow> db \<Rightarrow> db result" where
  "playlist_save columns p s =
     (case find_playlist (pl_id p) s of
        None \<Rightarrow> bind_result (require (playlist_constraints p s) (IntegrityError ''playlist'')) (\<lambda>u.
                  Inr (s\<lparr>playlists := playlists s @ [p]\<rparr>))
      | Some original \<Rightarrow>
          bind_result (validate_locked_version original p s) (\<lambda>u1.
          bind_result (require (pl_status original \<noteq> Cancelled)
            (ValidationError [] ''Cancelled playlist versions are immutable.'')) (\<lambda>u2.
          bind_result (require (\<not> (pl_status original = Published \<and> pl_status p = Published))
            (ValidationError [] ''Published playlist versions are immutable.'')) (\<lambda>u3.
          bind_result (require (\<not> (pl_status original = Published \<and> pl_status p = Cancelled
                 \<and> (case columns of None \<Rightarrow> False | Some fs \<Rightarrow> \<not> set [''status'', ''superseded_by''] \<subseteq> set fs)))
            (ValidationError [] ''A correction must update status and replacement together.'')) (\<lambda>u4.
          let row = write_columns columns p original in
          bind_result (require (playlist_constraints row s) (IntegrityError ''playlist'')) (\<lambda>u5.
          Inr (s\<lparr>playlists := save_by pl_id row (playlists s)\<rparr>)))))))"

definition playlist_delete :: "playlist \<Rightarrow> db \<Rightarrow> db result" where
  "playlist_delete p s =
     bind_result (require (\<not> published_or_cancelled (pl_status p))
       (ValidationError [] ''Published playlist versions cannot be deleted.'')) (\<lambda>u1.
     bind_result (require (\<not> exists_row (\<lambda>i. pi_playlist i = pl_id p) (playlist_items s)
                      \<and> \<not> exists_row (\<lambda>q. pl_superseded_by q = Some (pl_id p)) (playlists s)
                      \<and> \<not> exists_row (\<lambda>d. dv_current_playlist d = Some (pl_id p)) (devices s)
                      \<and> \<not> exists_row (\<lambda>b. pb_playlist b = pl_id p) (playback_batches s))
       (IntegrityError ''protected'')) (\<lambda>u2.
     Inr (s\<lparr>playlists := delete_where (\<lambda>q. pl_id q = pl_id p) (playlists s)\<rparr>)))"

subsection \<open>Items\<close>

definition items_of :: "id \<Rightarrow> db \<Rightarrow> playlist_item list" where
  "items_of p s = sort_key pi_position (filter (\<lambda>i. pi_playlist i = p) (playlist_items s))"

definition playlist_is_locked :: "playlist_item \<Rightarrow> db \<Rightarrow> bool result" where
  "playlist_is_locked i s = (case find_playlist (pi_playlist i) s of
       None \<Rightarrow> Inl (ServerError ''Playlist matching query does not exist.'')
     | Some p \<Rightarrow> Inr (published_or_cancelled (pl_status p)))"

definition position_taken :: "playlist_item \<Rightarrow> db \<Rightarrow> bool" where
  "position_taken i s = exists_row (\<lambda>j. pi_id j \<noteq> pi_id i \<and> pi_playlist j = pi_playlist i
     \<and> pi_position j = pi_position i) (playlist_items s)"

definition write_item :: "playlist_item \<Rightarrow> db \<Rightarrow> db result" where
  "write_item i s =
     bind_result (require (\<not> position_taken i s) (IntegrityError ''unique_playlist_position'')) (\<lambda>u.
     Inr (s\<lparr>playlist_items :=
            if exists_row (\<lambda>j. pi_id j = pi_id i) (playlist_items s)
            then save_by pi_id i (playlist_items s) else playlist_items s @ [i]\<rparr>))"

definition item_save :: "playlist_item \<Rightarrow> db \<Rightarrow> db result" where
  "item_save i s =
     bind_result (playlist_is_locked i s) (\<lambda>locked.
     bind_result (require (\<not> locked) (ValidationError [] ''Published playlist items are immutable.'')) (\<lambda>u.
     write_item i s))"

definition item_delete :: "playlist_item \<Rightarrow> db \<Rightarrow> db result" where
  "item_delete i s =
     bind_result (playlist_is_locked i s) (\<lambda>locked.
     bind_result (require (\<not> locked) (ValidationError [] ''Published playlist items are immutable.'')) (\<lambda>u1.
     bind_result (require (\<not> exists_row (\<lambda>e. pe_playlist_item e = pi_id i) (playback_events s))
       (IntegrityError ''protected'')) (\<lambda>u2.
     Inr (s\<lparr>playlist_items := delete_where (\<lambda>j. pi_id j = pi_id i) (playlist_items s)\<rparr>))))"

subsection \<open>Editing a draft\<close>

text \<open>
  The actions of \<open>playlist_detail\<close>; the identifiers are the texts of the request, absent when
  the field is missing.
\<close>

datatype detail_action =
    AddItem "string option"
  | RemoveItem "string option"
  | ReorderItems string
  | OtherAction

definition parse_pk :: "string option \<Rightarrow> id result" where
  "parse_pk v = (case v of None \<Rightarrow> Inl Http404
     | Some t \<Rightarrow> (case parse_uuid t of None \<Rightarrow> Inl (ServerError ''is not a valid UUID.'') | Some i \<Rightarrow> Inr i))"

fun renumber :: "int \<Rightarrow> playlist_item list \<Rightarrow> db \<Rightarrow> db result" where
  "renumber position [] s = Inr s"
| "renumber position (i # is) s =
     bind_result (if pi_position i = position then Inr s else item_save (i\<lparr>pi_position := position\<rparr>) s)
       (renumber (position + 1) is)"

definition add_item :: "id \<Rightarrow> string option \<Rightarrow> playlist \<Rightarrow> db \<Rightarrow> (id \<times> db) result" where
  "add_item uuid media_id p s =
     bind_result (parse_pk media_id) (\<lambda>m.
     bind_result (require (exists_row (\<lambda>a. ma_id a = m \<and> ma_status a = Ready) (media_assets s)) Http404) (\<lambda>u.
     let position = int (length (items_of (pl_id p) s)) + 1 in
     bind_result (item_save \<lparr>pi_id = uuid, pi_playlist = pl_id p, pi_media = m, pi_position = position\<rparr> s) (\<lambda>s'.
     Inr (uuid, s'))))"

definition remove_item :: "string option \<Rightarrow> playlist \<Rightarrow> db \<Rightarrow> (id \<times> db) result" where
  "remove_item item_id p s =
     bind_result (parse_pk item_id) (\<lambda>i.
     case find (\<lambda>j. pi_id j = i \<and> pi_playlist j = pl_id p) (playlist_items s) of
       None \<Rightarrow> Inl Http404
     | Some item \<Rightarrow>
         bind_result (item_delete item s) (\<lambda>s1.
         bind_result (renumber 1 (items_of (pl_id p) s1) s1) (\<lambda>s2. Inr (i, s2))))"

fun set_positions :: "int \<Rightarrow> string list \<Rightarrow> id \<Rightarrow> db \<Rightarrow> db result" where
  "set_positions position [] p s = Inr s"
| "set_positions position (t # ts) p s =
     bind_result (case find (\<lambda>j. parse_uuid t = Some (pi_id j) \<and> pi_playlist j = p) (playlist_items s) of
         None \<Rightarrow> Inr s
       | Some j \<Rightarrow> write_item (j\<lparr>pi_position := position\<rparr>) s)
       (set_positions (position + 1) ts p)"

definition shift_positions :: "id \<Rightarrow> db \<Rightarrow> db result" where
  "shift_positions p s =
     fold_result (\<lambda>i. write_item (i\<lparr>pi_position := pi_position i + 10000\<rparr>))
       (filter (\<lambda>i. pi_playlist i = p) (playlist_items s)) s"

definition reorder_items :: "string \<Rightarrow> playlist \<Rightarrow> db \<Rightarrow> db result" where
  "reorder_items order p s =
     (let ordered_ids = filter (\<lambda>v. v \<noteq> []) (split_on (CHR '','') order);
          current_ids = map (\<lambda>i. uuid_str (pi_id i)) (items_of (pl_id p) s)
      in bind_result (require (distinct ordered_ids \<and> set ordered_ids = set current_ids)
           (ValidationError [] ''Order must contain every playlist item once.'')) (\<lambda>u.
         bind_result (shift_positions (pl_id p) s) (\<lambda>s1.
         set_positions 1 ordered_ids (pl_id p) s1)))"

definition playlist_detail :: "time \<Rightarrow> id \<Rightarrow> id \<Rightarrow> id \<Rightarrow> detail_action \<Rightarrow> db \<Rightarrow> db result" where
  "playlist_detail now user uuid playlist_id action s =
     (case find_playlist playlist_id s of
        None \<Rightarrow> Inl Http404
      | Some p \<Rightarrow>
          bind_result (require (pl_status p = Draft) (PermissionDenied ''Published playlists are immutable.'')) (\<lambda>u.
          let note = (\<lambda>name metadata. audit now (Some user) name ''signage.playlist'' (uuid_str playlist_id) metadata) in
          case action of
            AddItem media_id \<Rightarrow>
              bind_result (add_item uuid media_id p s) (\<lambda>(i, s').
              Inr (note ''playlist.item.add'' [(''item'', JStr (uuid_str i))] s'))
          | RemoveItem item_id \<Rightarrow>
              bind_result (remove_item item_id p s) (\<lambda>(i, s').
              Inr (note ''playlist.item.remove'' [(''item'', JStr (uuid_str i))] s'))
          | ReorderItems order \<Rightarrow>
              bind_result (reorder_items order p s) (\<lambda>s'. Inr (note ''playlist.reorder'' [] s'))
          | OtherAction \<Rightarrow> Inr s))"

text \<open>
  \<open>playlist_create\<close> after the form is valid: the media come in the order of the form's
  query. \<open>uuids\<close> gives the identifiers of the new rows.
\<close>

fun create_items :: "(nat \<Rightarrow> id) \<Rightarrow> nat \<Rightarrow> id \<Rightarrow> id list \<Rightarrow> db \<Rightarrow> db result" where
  "create_items uuids k p [] s = Inr s"
| "create_items uuids k p (m # ms) s =
     bind_result (item_save \<lparr>pi_id = uuids k, pi_playlist = p, pi_media = m, pi_position = int k\<rparr> s)
       (create_items uuids (k + 1) p ms)"

definition new_playlist :: "id \<Rightarrow> string \<Rightarrow> int \<Rightarrow> time \<Rightarrow> time \<Rightarrow> id \<Rightarrow> playlist" where
  "new_playlist uuid name version starts ends user =
     \<lparr>pl_id = uuid, pl_name = name, pl_version = version, pl_status = Draft, pl_starts_at = starts,
      pl_ends_at = ends, pl_published_at = None, pl_is_urgent = False, pl_created_by = user,
      pl_superseded_by = None\<rparr>"

definition playlist_create ::
  "time \<Rightarrow> (nat \<Rightarrow> id) \<Rightarrow> id \<Rightarrow> string \<Rightarrow> int \<Rightarrow> time \<Rightarrow> time \<Rightarrow> id list \<Rightarrow> db \<Rightarrow> db result" where
  "playlist_create now uuids user name version starts ends media s =
     bind_result (playlist_save None (new_playlist (uuids 0) name version starts ends user) s) (\<lambda>s1.
     bind_result (create_items uuids 1 (uuids 0) media s1) (\<lambda>s2.
     Inr (audit now (Some user) ''playlist.create'' ''signage.playlist'' (uuid_str (uuids 0)) [] s2)))"

text \<open>\<open>playlist_clone\<close>: \<open>bulk_create\<close> bypasses \<open>PlaylistItem.save\<close>, not the constraint.\<close>

definition latest_version :: "string \<Rightarrow> db \<Rightarrow> int option" where
  "latest_version name s = map_option pl_version
     (order_first (\<lambda>p. - pl_version p) (filter (\<lambda>p. pl_name p = name) (playlists s)))"

fun clone_items :: "(nat \<Rightarrow> id) \<Rightarrow> nat \<Rightarrow> id \<Rightarrow> playlist_item list \<Rightarrow> db \<Rightarrow> db result" where
  "clone_items uuids k p [] s = Inr s"
| "clone_items uuids k p (i # is) s =
     bind_result (write_item \<lparr>pi_id = uuids k, pi_playlist = p, pi_media = pi_media i, pi_position = pi_position i\<rparr> s)
       (clone_items uuids (k + 1) p is)"

definition playlist_clone :: "time \<Rightarrow> (nat \<Rightarrow> id) \<Rightarrow> id \<Rightarrow> id \<Rightarrow> db \<Rightarrow> (playlist \<times> db) result" where
  "playlist_clone now uuids user source_id s =
     (case find_playlist source_id s of
        None \<Rightarrow> Inl Http404
      | Some source \<Rightarrow>
          (let latest = (case latest_version (pl_name source) s of
                 Some v \<Rightarrow> if v = 0 then pl_version source else v | None \<Rightarrow> pl_version source);
               clone = new_playlist (uuids 0) (pl_name source) (latest + 1) (pl_starts_at source) (pl_ends_at source) user
           in bind_result (playlist_save None clone s) (\<lambda>s1.
              bind_result (clone_items uuids 1 (uuids 0) (items_of source_id s) s1) (\<lambda>s2.
              Inr (clone, audit now (Some user) ''playlist.clone_version'' ''signage.playlist'' (uuid_str (uuids 0))
                            [(''source'', JStr (uuid_str source_id))] s2)))))"

subsection \<open>Publication\<close>

definition items_media :: "playlist_item list \<Rightarrow> db \<Rightarrow> media_asset list" where
  "items_media items s = List.map_filter (\<lambda>i. find_asset (pi_media i) s) items"

text \<open>
  Each image is checked once, in the order of the items. An error of the store or of the
  decoder is not a validation error and leaves the handler.
\<close>

definition raise_job :: "unit job \<Rightarrow> unit result" where
  "raise_job r = (case r of Inr u \<Rightarrow> Inr ()
     | Inl (Invalid message) \<Rightarrow> Inl (ValidationError [] message)
     | Inl e \<Rightarrow> Inl (ServerError (error_text e)))"

fun verify_images :: "settings \<Rightarrow> (string \<Rightarrow> media_file job) \<Rightarrow> id list \<Rightarrow> media_asset list \<Rightarrow> unit result" where
  "verify_images st stored verified [] = Inr ()"
| "verify_images st stored verified (a # as) =
     (if ma_kind a = Image \<and> ma_id a \<notin> set verified
      then bind_result (raise_job (validate_ready_media_delivery st stored a)) (\<lambda>u.
           verify_images st stored (ma_id a # verified) as)
      else verify_images st stored verified as)"

definition overlapping :: "playlist \<Rightarrow> db \<Rightarrow> playlist list" where
  "overlapping p s = filter (\<lambda>q. pl_status q = Published \<and> pl_starts_at q < pl_ends_at p
     \<and> pl_starts_at p < pl_ends_at q \<and> pl_id q \<noteq> pl_id p) (playlists s)"

definition superseded_by :: "bool \<Rightarrow> playlist \<Rightarrow> db \<Rightarrow> playlist list" where
  "superseded_by urgent p s =
     sort_key (\<lambda>q. (- pl_starts_at q, - pl_version q))
       (filter (\<lambda>q. pl_name q = pl_name p \<and> pl_version q < pl_version p \<and> pl_starts_at q = pl_starts_at p
                  \<and> pl_ends_at q = pl_ends_at p \<and> pl_is_urgent q = urgent) (overlapping p s))"

fun cancel_superseded :: "time \<Rightarrow> id \<Rightarrow> id \<Rightarrow> playlist list \<Rightarrow> db \<Rightarrow> db result" where
  "cancel_superseded now actor replacement [] s = Inr s"
| "cancel_superseded now actor replacement (q # qs) s =
     bind_result (playlist_save (Some [''status'', ''superseded_by'', ''updated_at''])
         (q\<lparr>pl_status := Cancelled, pl_superseded_by := Some replacement\<rparr>) s) (\<lambda>s1.
     cancel_superseded now actor replacement qs
       (audit now (Some actor) ''playlist.cancelled_by_correction'' ''signage.playlist'' (uuid_str (pl_id q))
          [(''replacement'', JStr (uuid_str replacement))] s1))"

text \<open>The sync commands for the active devices that have no pending one.\<close>

definition pending_sync_devices :: "time \<Rightarrow> db \<Rightarrow> id list" where
  "pending_sync_devices now s =
     map dc_device (filter (\<lambda>c. exists_row (\<lambda>d. dv_id d = dc_device c \<and> dv_status d = Active) (devices s)
       \<and> dc_kind c = SyncNow \<and> dc_acknowledged_at c = None \<and> now < dc_expires_at c) (commands s))"

definition sync_targets :: "time \<Rightarrow> db \<Rightarrow> device list" where
  "sync_targets now s =
     filter (\<lambda>d. dv_status d = Active \<and> exists_row (\<lambda>m. mc_device m = dv_id d) (management_credentials s)
       \<and> dv_id d \<notin> set (pending_sync_devices now s)) (devices s)"

definition new_command :: "time \<Rightarrow> command_kind \<Rightarrow> id \<Rightarrow> time \<Rightarrow> id \<Rightarrow> id \<Rightarrow> device_command" where
  "new_command now kind actor expires key d =
     \<lparr>dc_id = key, dc_device = d, dc_kind = kind, dc_requested_by = actor, dc_expires_at = expires,
      dc_delivered_at = None, dc_acknowledged_at = None, dc_created_at = now\<rparr>"

fun create_sync_commands :: "time \<Rightarrow> id \<Rightarrow> (nat \<Rightarrow> id) \<Rightarrow> nat \<Rightarrow> device list \<Rightarrow> db \<Rightarrow> db" where
  "create_sync_commands now actor uuids k [] s = s"
| "create_sync_commands now actor uuids k (d # ds) s =
     create_sync_commands now actor uuids (k + 1) ds
       (s\<lparr>commands := commands s @ [new_command now SyncNow actor (now + minutes 10) (uuids k) (dv_id d)]\<rparr>)"

definition publish_checks ::
  "settings \<Rightarrow> (string \<Rightarrow> media_file job) \<Rightarrow> playlist \<Rightarrow> platform_settings \<Rightarrow> db \<Rightarrow> unit result" where
  "publish_checks st stored p limits s =
     (let items = items_of (pl_id p) s; media = items_media items s in
      bind_result (require (items \<noteq> []) (ValidationError [] ''A playlist cannot be empty.'')) (\<lambda>u1.
      bind_result (require (int (length items) \<le> ps_playlist_max_entries limits)
        (ValidationError [] ''Playlist exceeds the configured entry limit.'')) (\<lambda>u2.
      bind_result (require (\<forall>a\<in>set media. ma_status a = Ready)
        (ValidationError [] ''Every media item must be validated before publishing.'')) (\<lambda>u3.
      bind_result (verify_images st stored [] media) (\<lambda>u4.
      require (sum_list (map ma_duration_ms media) \<le> ps_playlist_max_duration_seconds limits * 1000)
        (ValidationError [] ''Playlist exceeds the configured duration limit.''))))))"

definition urgent_checks :: "time \<Rightarrow> bool \<Rightarrow> playlist \<Rightarrow> db \<Rightarrow> unit result" where
  "urgent_checks now urgent p s =
     bind_result (require (urgent \<longrightarrow> pl_starts_at p \<le> now \<and> now < pl_ends_at p)
       (ValidationError [] ''An urgent replacement must cover the current time.'')) (\<lambda>u.
     require (\<not> (urgent \<and> exists_row (\<lambda>q. pl_is_urgent q \<and> pl_id q \<notin> pl_id ` set (superseded_by urgent p s)) (overlapping p s)))
       (ValidationError [] ''An urgent replacement already overlaps this schedule; create its next version to correct it.''))"

definition publish_playlist ::
  "settings \<Rightarrow> (string \<Rightarrow> media_file job) \<Rightarrow> time \<Rightarrow> (nat \<Rightarrow> id) \<Rightarrow> id \<Rightarrow> bool \<Rightarrow> id \<Rightarrow> db \<Rightarrow> (playlist \<times> db) result" where
  "publish_playlist st stored now uuids actor urgent playlist_id s =
     (case find_playlist playlist_id s of
        None \<Rightarrow> Inl (ServerError ''Playlist matching query does not exist.'')
      | Some p \<Rightarrow>
          bind_result (require (pl_status p = Draft)
            (ValidationError [] ''Only a draft playlist can be published.'')) (\<lambda>u1.
          bind_result (playlist_full_clean p s) (\<lambda>u2.
          let (limits, s0) = load_platform s in
          bind_result (publish_checks st stored p limits s0) (\<lambda>u3.
          bind_result (urgent_checks now urgent p s0) (\<lambda>u4.
          let superseded = superseded_by urgent p s0;
              q = p\<lparr>pl_status := Published, pl_published_at := Some now, pl_is_urgent := urgent\<rparr> in
          bind_result (playlist_save (Some [''status'', ''published_at'', ''is_urgent'', ''updated_at'']) q s0) (\<lambda>s1.
          bind_result (cancel_superseded now actor playlist_id superseded s1) (\<lambda>s2.
          let s3 = audit now (Some actor) ''playlist.publish'' ''signage.playlist'' (uuid_str playlist_id)
                     [(''urgent'', JBool urgent)] s2
          in Inr (q, create_sync_commands now actor uuids 0 (sync_targets now s3) s3))))))))"

text \<open>\<open>playlist_publish\<close> of the dashboard.\<close>

datatype publish_page = PublishNotFound | PublishRefused string | PublishDone | PublishCrashed

definition playlist_publish ::
  "settings \<Rightarrow> (string \<Rightarrow> media_file job) \<Rightarrow> time \<Rightarrow> (nat \<Rightarrow> id) \<Rightarrow> id \<Rightarrow> string \<Rightarrow> id \<Rightarrow> db \<Rightarrow> publish_page \<times> db" where
  "playlist_publish st stored now uuids actor urgent playlist_id s =
     (if find_playlist playlist_id s = None then (PublishNotFound, s)
      else (case publish_playlist st stored now uuids actor (urgent = ''true'') playlist_id s of
              Inr (p, s') \<Rightarrow> (PublishDone, s')
            | Inl (ValidationError field message) \<Rightarrow> (PublishRefused message, s)
            | Inl e \<Rightarrow> (PublishCrashed, s)))"

subsection \<open>The effective playlist\<close>

definition published_by :: "time \<Rightarrow> playlist \<Rightarrow> bool" where
  "published_by now p = (case pl_published_at p of None \<Rightarrow> False | Some t \<Rightarrow> t \<le> now)"

definition in_window :: "time \<Rightarrow> playlist \<Rightarrow> bool" where
  "in_window now p = (pl_starts_at p \<le> now \<and> now < pl_ends_at p)"

definition publication :: "playlist \<Rightarrow> time" where
  "publication p = (case pl_published_at p of None \<Rightarrow> 0 | Some t \<Rightarrow> t)"

definition urgent_candidates :: "time \<Rightarrow> db \<Rightarrow> playlist list" where
  "urgent_candidates now s = filter (\<lambda>p. pl_status p = Published \<and> pl_is_urgent p
     \<and> published_by now p \<and> in_window now p) (playlists s)"

definition scheduled_candidates :: "time \<Rightarrow> db \<Rightarrow> playlist list" where
  "scheduled_candidates now s = filter (\<lambda>p. pl_status p = Published \<and> in_window now p) (playlists s)"

definition fallback_candidates :: "time \<Rightarrow> db \<Rightarrow> playlist list" where
  "fallback_candidates now s = filter (\<lambda>p. pl_status p = Published \<and> published_by now p
     \<and> pl_starts_at p \<le> now) (playlists s)"

definition scheduled_key :: "playlist \<Rightarrow> time \<times> bool \<times> time \<times> id" where
  "scheduled_key p = (- pl_starts_at p, pl_published_at p \<noteq> None, - publication p, - pl_id p)"

definition active_playlist :: "time \<Rightarrow> db \<Rightarrow> playlist option" where
  "active_playlist now s =
     (case order_first (\<lambda>p. - publication p) (urgent_candidates now s) of
        Some p \<Rightarrow> Some p
      | None \<Rightarrow>
          (case order_first scheduled_key (scheduled_candidates now s) of
             Some p \<Rightarrow> Some p
           | None \<Rightarrow> order_first (\<lambda>p. - publication p) (fallback_candidates now s)))"

definition next_start :: "time \<Rightarrow> db \<Rightarrow> time option" where
  "next_start now s = order_first (\<lambda>t. t)
     (map pl_starts_at (filter (\<lambda>p. pl_status p = Published \<and> now < pl_starts_at p) (playlists s)))"

text \<open>The clock is read here and once more inside \<open>active_playlist\<close>.\<close>

definition next_playlist_transition_at :: "clock \<Rightarrow> db \<Rightarrow> time option" where
  "next_playlist_transition_at clk s =
     (let current = active_playlist (clk 1) s;
          starts = (case next_start (clk 0) s of None \<Rightarrow> [] | Some t \<Rightarrow> [t]);
          ends = (case current of None \<Rightarrow> [] | Some p \<Rightarrow> if clk 0 < pl_ends_at p then [pl_ends_at p] else [])
      in case starts @ ends of [] \<Rightarrow> None | t # ts \<Rightarrow> Some (fold min ts t))"

definition window_state :: "time \<Rightarrow> playlist \<Rightarrow> string" where
  "window_state now p = (case pl_status p of
       Draft \<Rightarrow> ''Draft'' | Cancelled \<Rightarrow> ''Cancelled'' | PlaylistArchived \<Rightarrow> ''Archived''
     | Published \<Rightarrow> (if in_window now p then ''Active now''
                     else if now < pl_starts_at p then ''Scheduled'' else ''Ended''))"

text \<open>The command \<open>evaluate_playlists\<close>.\<close>

definition evaluate_playlists :: "time \<Rightarrow> db \<Rightarrow> db result" where
  "evaluate_playlists now s =
     (case order_first (\<lambda>p. (- pl_starts_at p, - pl_version p))
             (filter (\<lambda>p. \<not> pl_is_urgent p) (scheduled_candidates now s)) of
        None \<Rightarrow> Inr s
      | Some active \<Rightarrow>
          if \<not> exists_row (\<lambda>p. pl_status p = Published \<and> pl_ends_at active \<le> pl_starts_at p \<and> \<not> pl_is_urgent p) (playlists s)
             \<and> pl_ends_at active \<le> now + days 2
          then raise_alert now None ''missing_playlist_replacement'' Warning
                 ''No published scheduled replacement exists; current content will continue.'' s
          else Inr s)"

subsection \<open>Published versions are immutable\<close>

lemma find_playlistD: "find_playlist i s = Some p \<Longrightarrow> p \<in> set (playlists s) \<and> pl_id p = i"
  by (auto simp: find_playlist_def dest: lookup_by_SomeD)

definition same_playlist_data :: "playlist \<Rightarrow> playlist \<Rightarrow> bool" where
  "same_playlist_data p q = (pl_id p = pl_id q \<and> \<not> locked_fields_changed p q)"

lemma write_columns_id: "pl_id (write_columns columns p row) = (if columns = None then pl_id p else pl_id row)"
  by (auto simp: write_columns_def split: option.split)

text \<open>C2: A published or cancelled version cannot be edited: no save of a cancelled playlist
  succeeds; the only save of a published one that succeeds cancels it, together with a link
  to a newer published version of the same name and window, and leaves its name, version, window,
  publication time and urgency as they were; deleting it is refused, and so is saving or deleting
  any of its items.\<close>

theorem published_versions_immutable:
  assumes row: "find_playlist (pl_id p) s = Some original" and locked: "published_or_cancelled (pl_status original)"
  shows "(case playlist_save columns p s of
       Inl e \<Rightarrow> True
     | Inr s' \<Rightarrow> pl_status original = Published \<and>
         (\<exists>q r k. find_playlist (pl_id p) s' = Some q \<and> pl_status q = Cancelled \<and> same_playlist_data original q
            \<and> pl_superseded_by q = Some k \<and> find_playlist k s = Some r \<and> valid_replacement original r))
    \<and> (\<exists>m. playlist_delete original s = Inl (ValidationError [] m))
    \<and> (\<forall>i. pi_playlist i = pl_id p \<longrightarrow> (\<exists>m. item_save i s = Inl (ValidationError [] m))
          \<and> (\<exists>m. item_delete i s = Inl (ValidationError [] m)))"
proof (intro conjI allI impI)
  have id: "pl_id original = pl_id p" using find_playlistD [OF row] by simp
  show "case playlist_save columns p s of
       Inl e \<Rightarrow> True
     | Inr s' \<Rightarrow> pl_status original = Published \<and>
         (\<exists>q r k. find_playlist (pl_id p) s' = Some q \<and> pl_status q = Cancelled \<and> same_playlist_data original q
            \<and> pl_superseded_by q = Some k \<and> find_playlist k s = Some r \<and> valid_replacement original r)"
  proof (cases "playlist_save columns p s")
    case (Inr s')
    then have v: "validate_locked_version original p s = Inr ()" and nc: "pl_status original \<noteq> Cancelled"
      and pp: "\<not> (pl_status original = Published \<and> pl_status p = Published)"
      and cols: "\<not> (pl_status original = Published \<and> pl_status p = Cancelled
                 \<and> (case columns of None \<Rightarrow> False | Some fs \<Rightarrow> \<not> set [''status'', ''superseded_by''] \<subseteq> set fs))"
      and s': "s' = s\<lparr>playlists := save_by pl_id (write_columns columns p original) (playlists s)\<rparr>"
      using row by (auto simp: playlist_save_def bind_result_Inr_iff Let_def)
    have pub: "pl_status original = Published" using locked nc by (simp add: published_or_cancelled_def)
    have lf: "\<not> locked_fields_changed original p" and c: "pl_status p = Cancelled"
      and rep: "case pl_superseded_by p of None \<Rightarrow> False | Some k \<Rightarrow>
                 (case find_playlist k s of None \<Rightarrow> False | Some r \<Rightarrow> valid_replacement original r)"
      using v pub pp by (auto simp: validate_locked_version_def bind_result_Inr_iff split: if_splits)
    obtain k r where k: "pl_superseded_by p = Some k" "find_playlist k s = Some r" "valid_replacement original r"
      using rep by (auto split: option.splits)
    let ?q = "write_columns columns p original"
    have "pl_status ?q = Cancelled \<and> pl_superseded_by ?q = Some k \<and> pl_id ?q = pl_id p \<and> same_playlist_data original ?q"
      using cols pub c k(1) lf id
      by (auto simp: write_columns_def same_playlist_data_def locked_fields_changed_def split: option.splits)
    moreover from this have "find_playlist (pl_id p) s' = Some ?q"
      using row by (simp add: s' find_playlist_def table_simps)
    ultimately show ?thesis using Inr pub k by auto
  qed simp
  show "\<exists>m. playlist_delete original s = Inl (ValidationError [] m)"
    using locked by (simp add: playlist_delete_def require_def)
next
  fix i :: playlist_item assume "pi_playlist i = pl_id p"
  then show "\<exists>m. item_save i s = Inl (ValidationError [] m)" "\<exists>m. item_delete i s = Inl (ValidationError [] m)"
    using row locked by (simp_all add: item_save_def item_delete_def playlist_is_locked_def require_def)
qed

definition example_playlist :: "id \<Rightarrow> int \<Rightarrow> playlist_status \<Rightarrow> playlist" where
  "example_playlist i v t = (new_playlist i ''week'' v 100 200 1)\<lparr>pl_status := t,
     pl_published_at := if t = Draft then None else Some 50\<rparr>"

theorem published_versions_immutable_witness:
  "find_playlist 7 (empty_db\<lparr>playlists := [example_playlist 7 1 Published, example_playlist 8 2 Published]\<rparr>) \<noteq> None
   \<and> (\<exists>s'. playlist_save None ((example_playlist 7 1 Published)\<lparr>pl_status := Cancelled, pl_superseded_by := Some 8\<rparr>)
       (empty_db\<lparr>playlists := [example_playlist 7 1 Published, example_playlist 8 2 Published]\<rparr>) = Inr s'
     \<and> (\<exists>q. find_playlist 7 s' = Some q \<and> pl_status q = Cancelled \<and> pl_superseded_by q = Some 8))
   \<and> (\<exists>m. playlist_delete (example_playlist 7 1 Published)
        (empty_db\<lparr>playlists := [example_playlist 7 1 Published, example_playlist 8 2 Published]\<rparr>) = Inl (ValidationError [] m))"
proof -
  let ?s = "empty_db\<lparr>playlists := [example_playlist 7 1 Published, example_playlist 8 2 Published]\<rparr>"
  let ?p = "(example_playlist 7 1 Published)\<lparr>pl_status := Cancelled, pl_superseded_by := Some 8\<rparr>"
  have row: "find_playlist (pl_id ?p) ?s = Some (example_playlist 7 1 Published)"
    by (simp add: find_playlist_def table_simps example_playlist_def new_playlist_def)
  have lock: "published_or_cancelled (pl_status (example_playlist 7 1 Published))"
    by (simp add: published_or_cancelled_def example_playlist_def)
  have save: "playlist_save None ?p ?s = Inr (?s\<lparr>playlists := [?p, example_playlist 8 2 Published]\<rparr>)"
    by (simp add: playlist_save_def find_playlist_def table_simps example_playlist_def new_playlist_def
        validate_locked_version_def locked_fields_changed_def valid_replacement_def write_columns_def
        playlist_constraints_def require_def)
  show ?thesis
    using published_versions_immutable [OF row lock, of None] save row
    by (auto simp: find_playlist_def table_simps example_playlist_def new_playlist_def)
qed

subsection \<open>Publication\<close>

definition playlists_ok :: "db \<Rightarrow> bool" where
  "playlists_ok s = (distinct (map pl_id (playlists s)) \<and> (\<forall>p\<in>set (playlists s). playlist_constraints p s))"

definition cancelled_by :: "id \<Rightarrow> playlist \<Rightarrow> playlist" where
  "cancelled_by i r = r\<lparr>pl_status := Cancelled, pl_superseded_by := Some i\<rparr>"

lemma find_playlist_in: "playlists_ok s \<Longrightarrow> p \<in> set (playlists s) \<Longrightarrow> find_playlist (pl_id p) s = Some p"
  by (simp add: playlists_ok_def find_playlist_def lookup_by_distinct)

lemma find_playlist_save:
  "find_playlist k (s\<lparr>playlists := save_by pl_id q (playlists s)\<rparr>) =
     (if pl_id q = k \<and> find_playlist k s \<noteq> None then Some q else find_playlist k s)"
  by (simp add: find_playlist_def table_simps)

lemma playlists_ok_save:
  assumes ok: "playlists_ok s" and p: "find_playlist (pl_id q) s = Some p"
    and same: "pl_name q = pl_name p" "pl_version q = pl_version p" "pl_starts_at q = pl_starts_at p"
      "pl_ends_at q = pl_ends_at p"
  shows "playlists_ok (s\<lparr>playlists := save_by pl_id q (playlists s)\<rparr>)"
proof -
  let ?rows = "save_by pl_id q (playlists s)"
  have p': "p \<in> set (playlists s)" "pl_id p = pl_id q" using find_playlistD [OF p] by auto
  have old: "\<exists>y\<in>set (playlists s). pl_id x = pl_id y \<and> pl_name x = pl_name y \<and> pl_version x = pl_version y
      \<and> pl_starts_at x = pl_starts_at y \<and> pl_ends_at x = pl_ends_at y" if "x \<in> set ?rows" for x
    using save_by_mem [OF that] p' same by metis
  have "playlist_constraints x (s\<lparr>playlists := ?rows\<rparr>)" if x: "x \<in> set ?rows" for x
  proof -
    obtain y where y: "y \<in> set (playlists s)" "pl_id x = pl_id y" "pl_name x = pl_name y" "pl_version x = pl_version y"
      "pl_starts_at x = pl_starts_at y" "pl_ends_at x = pl_ends_at y" using old [OF x] by blast
    have yc: "playlist_constraints y s" using ok y by (simp add: playlists_ok_def)
    have "\<not> (pl_id z \<noteq> pl_id x \<and> pl_name z = pl_name x \<and> pl_version z = pl_version x)" if "z \<in> set ?rows" for z
      using old [OF that] yc y unfolding playlist_constraints_def exists_row_iff by metis
    then show ?thesis using yc y by (simp add: playlist_constraints_def)
  qed
  then show ?thesis using ok by (simp add: playlists_ok_def table_simps)
qed

lemma cancel_step:
  assumes ok: "playlists_ok s" and r: "find_playlist (pl_id r) s = Some r" "pl_status r = Published"
    and q: "find_playlist i s = Some q" "valid_replacement r q"
  shows "playlist_save (Some [''status'', ''superseded_by'', ''updated_at'']) (cancelled_by i r) s
     = Inr (s\<lparr>playlists := save_by pl_id (cancelled_by i r) (playlists s)\<rparr>)"
proof -
  have w: "write_columns (Some [''status'', ''superseded_by'', ''updated_at'']) (cancelled_by i r) r = cancelled_by i r"
    by (simp add: write_columns_def cancelled_by_def)
  have "playlist_constraints r s" using ok find_playlistD [OF r(1)] by (simp add: playlists_ok_def)
  then have c: "playlist_constraints (cancelled_by i r) s" by (simp add: playlist_constraints_def cancelled_by_def)
  have v: "validate_locked_version r (cancelled_by i r) s = Inr ()"
    using r q by (simp add: validate_locked_version_def cancelled_by_def locked_fields_changed_def require_def)
  have id: "pl_id (cancelled_by i r) = pl_id r" "pl_status (cancelled_by i r) = Cancelled" by (simp_all add: cancelled_by_def)
  show ?thesis using r v w c by (simp add: playlist_save_def id require_def)
qed

definition only_playlists :: "db \<Rightarrow> db \<Rightarrow> bool" where
  "only_playlists s s' = (\<exists>rows as n. s' = s\<lparr>playlists := rows, audits := as, next_pk := n\<rparr>)"

lemma cancel_all:
  assumes "playlists_ok s" and "distinct (map pl_id rs)" and "find_playlist i s = Some q"
    and "\<forall>r\<in>set rs. find_playlist (pl_id r) s = Some r \<and> pl_status r = Published \<and> pl_id r \<noteq> i \<and> valid_replacement r q"
  shows "\<exists>s'. cancel_superseded now actor i rs s = Inr s' \<and> playlists_ok s'
     \<and> (\<forall>k. find_playlist k s' = (if k \<in> pl_id ` set rs then map_option (cancelled_by i) (find_playlist k s) else find_playlist k s))"
  using assms
proof (induction rs arbitrary: s)
  case Nil
  then show ?case by simp
next
  case (Cons r rs)
  let ?t = "s\<lparr>playlists := save_by pl_id (cancelled_by i r) (playlists s)\<rparr>"
  let ?u = "audit now (Some actor) ''playlist.cancelled_by_correction'' ''signage.playlist'' (uuid_str (pl_id r))
          [(''replacement'', JStr (uuid_str i))] ?t"
  have r: "find_playlist (pl_id r) s = Some r" "pl_status r = Published" "pl_id r \<noteq> i" "valid_replacement r q"
    using Cons.prems(4) by auto
  have step: "playlist_save (Some [''status'', ''superseded_by'', ''updated_at'']) (cancelled_by i r) s = Inr ?t"
    by (rule cancel_step [OF Cons.prems(1) r(1,2) Cons.prems(3) r(4)])
  have cid: "pl_id (cancelled_by i x) = pl_id x" for x by (simp add: cancelled_by_def)
  have "playlists_ok ?t"
    by (rule playlists_ok_save [OF Cons.prems(1), of _ r]) (use r in \<open>auto simp: cancelled_by_def\<close>)
  then have ok: "playlists_ok ?u" by (simp add: playlists_ok_def playlist_constraints_def)
  have fu: "find_playlist k ?u = (if pl_id r = k then Some (cancelled_by i r) else find_playlist k s)" for k
    using r(1) by (auto simp: find_playlist_def table_simps cid)
  have "find_playlist i ?u = Some q" using fu r(3) Cons.prems(3) by simp
  moreover have "\<forall>x\<in>set rs. find_playlist (pl_id x) ?u = Some x \<and> pl_status x = Published \<and> pl_id x \<noteq> i \<and> valid_replacement x q"
    using Cons.prems(2,4) fu by auto
  ultimately obtain s' where s': "cancel_superseded now actor i rs ?u = Inr s'" "playlists_ok s'"
    "\<forall>k. find_playlist k s' = (if k \<in> pl_id ` set rs then map_option (cancelled_by i) (find_playlist k ?u) else find_playlist k ?u)"
    using Cons.IH [OF ok] Cons.prems(2) by auto
  have "cancel_superseded now actor i (r # rs) s = Inr s'"
    using step s'(1) by (simp add: cancelled_by_def)
  moreover have "find_playlist k s' = (if k \<in> pl_id ` set (r # rs) then map_option (cancelled_by i) (find_playlist k s) else find_playlist k s)" for k
    using s'(3) fu [of k] r(1) Cons.prems(2) by auto
  ultimately show ?case using s'(2) by blast
qed


lemma create_sync_commands_frame [simp]:
  "playlists (create_sync_commands now actor uuids k ds s) = playlists s"
  "devices (create_sync_commands now actor uuids k ds s) = devices s"
  by (induction ds arbitrary: k s) auto

lemma superseded_mem:
  "set (superseded_by urgent p s) = {q \<in> set (playlists s). pl_status q = Published \<and> pl_id q \<noteq> pl_id p
     \<and> pl_starts_at q < pl_ends_at p \<and> pl_starts_at p < pl_ends_at q
     \<and> pl_name q = pl_name p \<and> pl_version q < pl_version p \<and> pl_starts_at q = pl_starts_at p
     \<and> pl_ends_at q = pl_ends_at p \<and> pl_is_urgent q = urgent}"
  by (auto simp: superseded_by_def overlapping_def)

lemma superseded_distinct: "distinct (map pl_id (playlists s)) \<Longrightarrow> distinct (map pl_id (superseded_by urgent p s))"
  by (simp add: superseded_by_def overlapping_def distinct_map inj_on_def)

lemma publish_save:
  assumes ok: "playlists_ok s" and p: "find_playlist i s = Some p" "pl_status p = Draft"
  shows "playlist_save (Some [''status'', ''published_at'', ''is_urgent'', ''updated_at''])
      (p\<lparr>pl_status := Published, pl_published_at := Some now, pl_is_urgent := urgent\<rparr>) s
     = Inr (s\<lparr>playlists := save_by pl_id (p\<lparr>pl_status := Published, pl_published_at := Some now, pl_is_urgent := urgent\<rparr>) (playlists s)\<rparr>)"
proof -
  have "playlist_constraints p s" using ok find_playlistD [OF p(1)] by (simp add: playlists_ok_def)
  then show ?thesis using p find_playlistD [OF p(1)]
    by (simp add: playlist_save_def validate_locked_version_def write_columns_def require_def playlist_constraints_def)
qed

definition published_row :: "time \<Rightarrow> bool \<Rightarrow> playlist \<Rightarrow> playlist" where
  "published_row now urgent p = p\<lparr>pl_status := Published, pl_published_at := Some now, pl_is_urgent := urgent\<rparr>"

lemma publish_effect:
  assumes ok: "playlists_ok s" and p: "find_playlist i s = Some p"
  shows "(case publish_playlist st stored now uuids actor urgent i s of
       Inl e \<Rightarrow> \<not> (pl_status p = Draft \<and> playlist_full_clean p s = Inr ()
          \<and> publish_checks st stored p (fst (load_platform s)) (snd (load_platform s)) = Inr ()
          \<and> urgent_checks now urgent p (snd (load_platform s)) = Inr ())
     | Inr (q, s') \<Rightarrow> pl_status p = Draft \<and> playlist_full_clean p s = Inr ()
          \<and> publish_checks st stored p (fst (load_platform s)) (snd (load_platform s)) = Inr ()
          \<and> urgent_checks now urgent p (snd (load_platform s)) = Inr ()
          \<and> q = published_row now urgent p \<and> playlists_ok s'
          \<and> (\<forall>k. find_playlist k s' = (if k = i then Some q
               else map_option (\<lambda>r. if r \<in> set (superseded_by urgent p s) then cancelled_by i r else r) (find_playlist k s))))"
proof -
  define s0 where "s0 = snd (load_platform s)"
  have s0: "playlists s0 = playlists s" by (simp add: s0_def)
  have ok0: "playlists_ok s0" using ok by (simp add: playlists_ok_def playlist_constraints_def s0)
  have p0: "find_playlist i s0 = Some p" using p by (simp add: find_playlist_def s0)
  have sup: "superseded_by urgent p s0 = superseded_by urgent p s" by (simp add: superseded_by_def overlapping_def s0)
  let ?q = "published_row now urgent p"
  have pid: "pl_id p = i" using find_playlistD [OF p] by simp
  show ?thesis
  proof (cases "pl_status p = Draft \<and> playlist_full_clean p s = Inr ()
          \<and> publish_checks st stored p (fst (load_platform s)) s0 = Inr () \<and> urgent_checks now urgent p s0 = Inr ()")
    case True
    let ?s1 = "s0\<lparr>playlists := save_by pl_id ?q (playlists s0)\<rparr>"
    have qid: "pl_id ?q = i" by (simp add: published_row_def pid)
    have f1: "find_playlist k ?s1 = (if k = i then Some ?q else find_playlist k s0)" for k
      using p0 by (auto simp: find_playlist_def table_simps qid)
    have ok1: "playlists_ok ?s1"
      by (rule playlists_ok_save [OF ok0, of _ p]) (use p0 pid in \<open>auto simp: published_row_def\<close>)
    have sv: "find_playlist (pl_id r) ?s1 = Some r \<and> pl_status r = Published \<and> pl_id r \<noteq> i \<and> valid_replacement r ?q"
      if "r \<in> set (superseded_by urgent p s)" for r
    proof -
      have r: "r \<in> set (playlists s)" "pl_status r = Published" "pl_id r \<noteq> i" "valid_replacement r ?q"
        using that pid by (auto simp: superseded_mem valid_replacement_def published_row_def)
      then have "find_playlist (pl_id r) s0 = Some r" using find_playlist_in [OF ok0, of r] s0 by simp
      then show ?thesis using r f1 [of "pl_id r"] by simp
    qed
    have dist: "distinct (map pl_id (superseded_by urgent p s))" using ok by (intro superseded_distinct) (simp add: playlists_ok_def)
    have fq: "find_playlist i ?s1 = Some ?q" by (simp add: f1)
    obtain s2 where s2: "cancel_superseded now actor i (superseded_by urgent p s) ?s1 = Inr s2" "playlists_ok s2"
      and f2: "\<forall>k. find_playlist k s2 = (if k \<in> pl_id ` set (superseded_by urgent p s)
           then map_option (cancelled_by i) (find_playlist k ?s1) else find_playlist k ?s1)"
      using cancel_all [OF ok1 dist fq] sv by blast
    define s3 where "s3 = audit now (Some actor) ''playlist.publish'' ''signage.playlist'' (uuid_str i) [(''urgent'', JBool urgent)] s2"
    define s' where "s' = create_sync_commands now actor uuids 0 (sync_targets now s3) s3"
    have pl: "playlists s' = playlists s2" by (simp add: s'_def s3_def)
    have res: "publish_playlist st stored now uuids actor urgent i s = Inr (?q, s')"
      using True p publish_save [OF ok0 p0] s2(1)
      by (simp add: publish_playlist_def require_def Let_def s0_def [symmetric] sup published_row_def s3_def s'_def
          case_prod_beta)
    have "find_playlist k s' = (if k = i then Some ?q
               else map_option (\<lambda>r. if r \<in> set (superseded_by urgent p s) then cancelled_by i r else r) (find_playlist k s))" for k
    proof (cases "k \<in> pl_id ` set (superseded_by urgent p s)")
      case in_sup: True
      then obtain r where r: "r \<in> set (superseded_by urgent p s)" "k = pl_id r" by auto
      have "find_playlist k ?s1 = Some r" "k \<noteq> i" using sv [OF r(1)] r(2) by auto
      moreover have "find_playlist k s = Some r"
        using r find_playlist_in [OF ok, of r] by (simp add: superseded_mem)
      moreover have "find_playlist k s' = find_playlist k s2" by (simp add: find_playlist_def pl)
      ultimately show ?thesis using f2 in_sup r(1) by simp
    next
      case False
      have "r \<notin> set (superseded_by urgent p s)" if "find_playlist k s = Some r" for r
        using False find_playlistD [OF that] by auto
      then show ?thesis using False f2 f1 [of k]
        by (cases "find_playlist k s") (auto simp: find_playlist_def pl s0)
    qed
    moreover have "playlists_ok s'" using s2(2) by (simp add: playlists_ok_def playlist_constraints_def pl)
    ultimately show ?thesis using True res by (simp add: s0_def)
  next
    case False
    have "\<exists>e. publish_playlist st stored now uuids actor urgent i s = Inl e"
      using False p
      by (auto simp: publish_playlist_def bind_result_def s0_def [symmetric] require_def case_prod_beta Let_def
          split: sum.splits)
    then show ?thesis using False by (auto simp: s0_def)
  qed
qed

text \<open>C38: Publishing a draft succeeds exactly when the playlist is valid, its items pass the
  checks (non-empty, within the entry and duration limits, all ready, image bytes verified) and
  an urgent one covers the present without another urgent schedule in its window; the saves
  inside never fail. Then the draft is published now, exactly the older versions of the same
  name, window and urgency are cancelled with a link to it, and no other playlist changes.\<close>

theorem publish_playlist_effect:
  assumes ok: "playlists_ok s" and p: "find_playlist i s = Some p"
  shows "(case publish_playlist st stored now uuids actor urgent i s of
       Inl e \<Rightarrow> \<not> (pl_status p = Draft \<and> playlist_full_clean p s = Inr ()
          \<and> publish_checks st stored p (fst (load_platform s)) (snd (load_platform s)) = Inr ()
          \<and> urgent_checks now urgent p (snd (load_platform s)) = Inr ())
     | Inr (q, s') \<Rightarrow> pl_status p = Draft \<and> playlist_full_clean p s = Inr ()
          \<and> publish_checks st stored p (fst (load_platform s)) (snd (load_platform s)) = Inr ()
          \<and> urgent_checks now urgent p (snd (load_platform s)) = Inr ()
          \<and> q = published_row now urgent p \<and> playlists_ok s'
          \<and> (\<forall>k. find_playlist k s' = (if k = i then Some q
               else map_option (\<lambda>r. if r \<in> set (superseded_by urgent p s) then cancelled_by i r else r) (find_playlist k s))))"
  using publish_effect [OF assms] .

definition png_store :: "string \<Rightarrow> media_file job" where
  "png_store name = Inr example_png"

definition ready_video :: "id \<Rightarrow> media_asset" where
  "ready_video i = (new_media_asset 0 i ''shop'' ''clip'' Video ''quarantine/a.mp4'' 1)\<lparr>ma_status := Ready,
     ma_normalized_file := ''validated/a.mp4''\<rparr>"

definition draft_db :: db where
  "draft_db = empty_db\<lparr>playlists := [example_playlist 7 1 Published, example_playlist 8 2 Draft],
     playlist_items := [\<lparr>pi_id = 31, pi_playlist = 8, pi_media = 3, pi_position = 1\<rparr>],
     media_assets := [ready_video 3]\<rparr>"

lemma draft_db_ok: "playlists_ok draft_db" "find_playlist 8 draft_db = Some (example_playlist 8 2 Draft)"
  by (simp_all add: playlists_ok_def playlist_constraints_def draft_db_def example_playlist_def new_playlist_def
      find_playlist_def table_simps)

lemma draft_db_publishes:
  "\<exists>q s'. publish_playlist default_settings png_store 120 (\<lambda>n. 40) 1 False 8 draft_db = Inr (q, s')"
proof -
  have "case publish_playlist default_settings png_store 120 (\<lambda>n. 40) 1 False 8 draft_db of Inr r \<Rightarrow> True | Inl e \<Rightarrow> False"
    by code_simp
  then show ?thesis by (auto split: sum.splits)
qed

theorem publish_playlist_effect_witness:
  "\<exists>q s'. publish_playlist default_settings png_store 120 (\<lambda>n. 40) 1 False 8 draft_db = Inr (q, s')
     \<and> q = published_row 120 False (example_playlist 8 2 Draft)
     \<and> find_playlist 7 s' = Some (cancelled_by 8 (example_playlist 7 1 Published))"
proof -
  obtain q s' where r: "publish_playlist default_settings png_store 120 (\<lambda>n. 40) 1 False 8 draft_db = Inr (q, s')"
    using draft_db_publishes by blast
  have f: "find_playlist 7 draft_db = Some (example_playlist 7 1 Published)"
    by (simp add: draft_db_def find_playlist_def table_simps example_playlist_def new_playlist_def)
  have "example_playlist 7 1 Published \<in> set (superseded_by False (example_playlist 8 2 Draft) draft_db)"
    by (simp add: superseded_mem draft_db_def example_playlist_def new_playlist_def)
  then show ?thesis
    using publish_playlist_effect [OF draft_db_ok, where st = default_settings and stored = png_store and now = 120 and uuids = "\<lambda>n. 40" and actor = 1 and urgent = False] r f by auto
qed

subsection \<open>Urgent schedules\<close>

definition windows_overlap :: "playlist \<Rightarrow> playlist \<Rightarrow> bool" where
  "windows_overlap p q = (pl_starts_at p < pl_ends_at q \<and> pl_starts_at q < pl_ends_at p)"

definition urgent_disjoint :: "db \<Rightarrow> bool" where
  "urgent_disjoint s = (\<forall>p\<in>set (playlists s). \<forall>q\<in>set (playlists s).
     pl_status p = Published \<and> pl_is_urgent p \<and> pl_status q = Published \<and> pl_is_urgent q \<and> pl_id p \<noteq> pl_id q
     \<longrightarrow> \<not> windows_overlap p q)"

text \<open>C28: Publication keeps the urgent schedules apart: if no two published urgent playlists
  overlap before, none do afterwards, whichever playlist is published and whether or not it is
  urgent.\<close>

theorem urgent_schedules_disjoint:
  assumes ok: "playlists_ok s" and dis: "urgent_disjoint s"
    and pub: "publish_playlist st stored now uuids actor urgent i s = Inr (q, s')"
  shows "playlists_ok s' \<and> urgent_disjoint s'"
proof -
  obtain p where p: "find_playlist i s = Some p" "pl_id p = i"
    using pub by (auto simp: publish_playlist_def dest: find_playlistD split: option.splits)
  have urg: "urgent_checks now urgent p (snd (load_platform s)) = Inr ()" and q: "q = published_row now urgent p"
    and ok': "playlists_ok s'"
    and f: "\<And>k. find_playlist k s' = (if k = i then Some q
         else map_option (\<lambda>r. if r \<in> set (superseded_by urgent p s) then cancelled_by i r else r) (find_playlist k s))"
    using publish_effect [OF ok p(1), where st = st and stored = stored and now = now and uuids = uuids and actor = actor and urgent = urgent] pub by simp_all
  have row: "x = q \<or> (x \<in> set (playlists s) \<and> pl_id x \<noteq> i \<and> x \<notin> set (superseded_by urgent p s)) \<or> pl_status x = Cancelled"
    if mem: "x \<in> set (playlists s')" for x
  proof (cases "pl_id x = i")
    case True
    then show ?thesis using find_playlist_in [OF ok' mem] f [of "pl_id x"] by simp
  next
    case False
    then have m: "map_option (\<lambda>r. if r \<in> set (superseded_by urgent p s) then cancelled_by i r else r)
        (find_playlist (pl_id x) s) = Some x"
      using find_playlist_in [OF ok' mem] f [of "pl_id x"] by simp
    then obtain r where r: "find_playlist (pl_id x) s = Some r"
      "(if r \<in> set (superseded_by urgent p s) then cancelled_by i r else r) = x"
      unfolding map_option_eq_Some by blast
    show ?thesis
    proof (cases "r \<in> set (superseded_by urgent p s)")
      case True
      then have "pl_status x = Cancelled" unfolding r(2) [symmetric] by (simp add: cancelled_by_def)
      then show ?thesis by blast
    next
      case other: False
      then have "r = x" using r(2) by simp
      then show ?thesis using find_playlistD [OF r(1)] other False by blast
    qed
  qed
  have clear: "\<not> windows_overlap p x"
    if "urgent" "x \<in> set (playlists s)" "pl_id x \<noteq> i" "x \<notin> set (superseded_by urgent p s)"
      "pl_status x = Published" "pl_is_urgent x" for x
  proof
    assume "windows_overlap p x"
    then have "x \<in> set (overlapping p s)" using that p(2) by (auto simp: overlapping_def windows_overlap_def)
    moreover have sup: "superseded_by urgent p (snd (load_platform s)) = superseded_by urgent p s"
        "overlapping p (snd (load_platform s)) = overlapping p s"
      by (simp_all add: superseded_by_def overlapping_def)
    ultimately have "pl_id x \<in> pl_id ` set (superseded_by urgent p s)"
      using urg that by (auto simp: urgent_checks_def bind_result_Inr_iff)
    then obtain y where "y \<in> set (superseded_by urgent p s)" "pl_id x = pl_id y" by auto
    then show False
      using that ok distinct_map_unique [of pl_id "playlists s" x y] by (auto simp: playlists_ok_def superseded_mem)
  qed
  have sym: "windows_overlap a b \<longleftrightarrow> windows_overlap b a" for a b by (auto simp: windows_overlap_def)
  have qp: "windows_overlap q x = windows_overlap p x" "pl_id q = i" "pl_is_urgent q = urgent" for x
    by (auto simp: q published_row_def windows_overlap_def p(2))
  have "urgent_disjoint s'"
    unfolding urgent_disjoint_def
  proof (intro ballI impI)
    fix x y assume xy: "x \<in> set (playlists s')" "y \<in> set (playlists s')"
      and u: "pl_status x = Published \<and> pl_is_urgent x \<and> pl_status y = Published \<and> pl_is_urgent y \<and> pl_id x \<noteq> pl_id y"
    then consider (a) "x = q" "y \<in> set (playlists s)" "pl_id y \<noteq> i" "y \<notin> set (superseded_by urgent p s)"
      | (b) "y = q" "x \<in> set (playlists s)" "pl_id x \<noteq> i" "x \<notin> set (superseded_by urgent p s)"
      | (c) "x \<in> set (playlists s)" "y \<in> set (playlists s)"
      using row [OF xy(1)] row [OF xy(2)] by auto
    then show "\<not> windows_overlap x y"
    proof cases
      case a
      then show ?thesis using clear [of y] u qp by auto
    next
      case b
      then show ?thesis using clear [of x] u qp sym [of x y] by auto
    next
      case c
      then show ?thesis using dis u by (simp add: urgent_disjoint_def)
    qed
  qed
  then show ?thesis using ok' by blast
qed

theorem urgent_schedules_disjoint_witness:
  "\<exists>q s'. publish_playlist default_settings png_store 120 (\<lambda>n. 40) 1 False 8 draft_db = Inr (q, s')
     \<and> playlists_ok s' \<and> urgent_disjoint s'"
proof -
  obtain q s' where r: "publish_playlist default_settings png_store 120 (\<lambda>n. 40) 1 False 8 draft_db = Inr (q, s')"
    using draft_db_publishes by blast
  have "urgent_disjoint draft_db"
    by (simp add: urgent_disjoint_def draft_db_def example_playlist_def new_playlist_def)
  then show ?thesis using urgent_schedules_disjoint [OF draft_db_ok(1) _ r] r by blast
qed

subsection \<open>The effective playlist\<close>

text \<open>The effective playlist is always published. While an urgent playlist is in its window
  it is one with the latest publication; otherwise one in its window with the latest start;
  and when nothing is in its window, the last published playlist that has started goes on.
  Nothing is effective only when no published playlist has started.\<close>

theorem active_playlist_precedence:
  "(case active_playlist now s of
      None \<Rightarrow> (\<forall>q\<in>set (playlists s). pl_status q = Published \<longrightarrow> published_by now q \<longrightarrow> now < pl_starts_at q)
        \<and> scheduled_candidates now s = []
    | Some p \<Rightarrow> p \<in> set (playlists s) \<and> pl_status p = Published \<and> pl_starts_at p \<le> now
        \<and> (if urgent_candidates now s \<noteq> []
           then pl_is_urgent p \<and> in_window now p \<and> (\<forall>q\<in>set (urgent_candidates now s). publication q \<le> publication p)
           else if scheduled_candidates now s \<noteq> []
           then in_window now p \<and> (\<forall>q\<in>set (scheduled_candidates now s). pl_starts_at q \<le> pl_starts_at p)
           else published_by now p \<and> (\<forall>q\<in>set (fallback_candidates now s). publication q \<le> publication p)))"
proof (cases "urgent_candidates now s = []")
  case False
  then obtain p where p: "order_first (\<lambda>p. - publication p) (urgent_candidates now s) = Some p"
    using order_first_ex by blast
  have "p \<in> set (urgent_candidates now s)" "\<forall>q\<in>set (urgent_candidates now s). publication q \<le> publication p"
    using order_first_SomeD [OF p] by auto
  then show ?thesis using p False by (auto simp: active_playlist_def urgent_candidates_def in_window_def)
next
  case none: True
  show ?thesis
  proof (cases "scheduled_candidates now s = []")
    case False
    then obtain p where p: "order_first scheduled_key (scheduled_candidates now s) = Some p"
      using order_first_ex by blast
    have "p \<in> set (scheduled_candidates now s)" "\<forall>q\<in>set (scheduled_candidates now s). scheduled_key p \<le> scheduled_key q"
      using order_first_SomeD [OF p] by auto
    then show ?thesis using p none False
      by (auto simp: active_playlist_def scheduled_candidates_def in_window_def scheduled_key_def)
  next
    case True
    show ?thesis
    proof (cases "order_first (\<lambda>p. - publication p) (fallback_candidates now s)")
      case None
      then have "fallback_candidates now s = []" by simp
      then show ?thesis using None none True
        by (auto simp: active_playlist_def fallback_candidates_def filter_empty_conv not_le)
    next
      case (Some p)
      have "p \<in> set (fallback_candidates now s)" "\<forall>q\<in>set (fallback_candidates now s). publication q \<le> publication p"
        using order_first_SomeD [OF Some] by auto
      then show ?thesis using Some none True by (auto simp: active_playlist_def fallback_candidates_def)
    qed
  qed
qed

lemma order_first_filter:
  assumes "order_first key rows = Some r" and "P r"
  shows "order_first key (filter P rows) = Some r"
proof -
  obtain rs where "sort_key key rows = r # rs"
    using assms(1) by (auto simp: order_first_def split: list.splits)
  then have "sort_key key (filter P rows) = r # filter P rs"
    using assms(2) by (simp flip: filter_sort)
  then show ?thesis by (simp add: order_first_def)
qed

lemma fold_min_start: "fold min ts t \<le> (t :: int)"
proof (induction ts arbitrary: t)
  case (Cons a ts)
  then show ?case using order_trans [OF Cons [of "min a t"], of t] by simp
qed simp

lemma fold_min_mem: "x \<in> set ts \<Longrightarrow> fold min ts t \<le> (x :: int)"
proof (induction ts arbitrary: t)
  case (Cons a ts)
  then show ?case using order_trans [OF fold_min_start [of ts "min a t"], of a] by auto
qed simp

lemma transition_bounds:
  assumes bound: "\<forall>T. next_playlist_transition_at clk s = Some T \<longrightarrow> t < T"
  shows "p \<in> set (playlists s) \<Longrightarrow> pl_status p = Published \<Longrightarrow> clk 0 < pl_starts_at p \<Longrightarrow> t < pl_starts_at p"
    and "active_playlist (clk 1) s = Some p \<Longrightarrow> clk 0 < pl_ends_at p \<Longrightarrow> t < pl_ends_at p"
proof -
  let ?starts = "case next_start (clk 0) s of None \<Rightarrow> [] | Some t \<Rightarrow> [t]"
  let ?ends = "case active_playlist (clk 1) s of None \<Rightarrow> [] | Some p \<Rightarrow> if clk 0 < pl_ends_at p then [pl_ends_at p] else []"
  define cand where "cand = ?starts @ ?ends"
  have next_cand: "next_playlist_transition_at clk s = (case cand of [] \<Rightarrow> None | y # ys \<Rightarrow> Some (fold min ys y))"
    by (simp add: next_playlist_transition_at_def cand_def Let_def)
  have less: "t < x" if x: "x \<in> set cand" for x
  proof (cases cand)
    case Nil
    then show ?thesis using x by simp
  next
    case (Cons y ys)
    then have "t < fold min ys y" using bound next_cand by simp
    moreover have "fold min ys y \<le> x" using x Cons fold_min_start [of ys y] fold_min_mem [of x ys y] by auto
    ultimately show ?thesis by simp
  qed
  show "t < pl_starts_at p" if "p \<in> set (playlists s)" "pl_status p = Published" "clk 0 < pl_starts_at p" for p
  proof -
    let ?l = "map pl_starts_at (filter (\<lambda>p. pl_status p = Published \<and> clk 0 < pl_starts_at p) (playlists s))"
    have mem: "pl_starts_at p \<in> set ?l" using that by auto
    then obtain u where u: "next_start (clk 0) s = Some u"
      unfolding next_start_def using order_first_ex [of ?l "\<lambda>t. t"] by fastforce
    then have "u \<le> pl_starts_at p" using order_first_SomeD(2) [of "\<lambda>t. t" ?l u, OF _ mem] by (simp add: next_start_def)
    moreover have "t < u" using less [of u] u by (simp add: cand_def)
    ultimately show ?thesis by simp
  qed
  show "t < pl_ends_at p" if "active_playlist (clk 1) s = Some p" "clk 0 < pl_ends_at p" for p
    using less [of "pl_ends_at p"] that by (simp add: cand_def)
qed

text \<open>The transition time given to the devices is sound: while the playlists do not change, the
  effective playlist stays the same from the moment it was computed until that time, and for
  ever when there is none. (Published playlists carry a publication time that has passed.)\<close>

theorem transition_sound:
  assumes pub: "\<forall>p\<in>set (playlists s). pl_status p = Published \<longrightarrow> published_by (clk 1) p"
    and clocks: "clk 0 \<le> clk 1" "clk 1 \<le> t"
    and bound: "\<forall>T. next_playlist_transition_at clk s = Some T \<longrightarrow> t < T"
  shows "active_playlist t s = active_playlist (clk 1) s"
proof -
  let ?n = "clk 1"
  note b = transition_bounds [OF bound]
  have start: "pl_starts_at p \<le> t \<longleftrightarrow> pl_starts_at p \<le> ?n" if "p \<in> set (playlists s)" "pl_status p = Published" for p
    using b(1) [OF that] clocks by (cases "clk 0 < pl_starts_at p") auto
  have pby: "published_by t p \<and> published_by ?n p" if "p \<in> set (playlists s)" "pl_status p = Published" for p
    using pub that clocks by (auto simp: published_by_def split: option.splits)
  have urg: "urgent_candidates t s = filter (\<lambda>p. t < pl_ends_at p) (urgent_candidates ?n s)"
    unfolding urgent_candidates_def filter_filter
    by (rule filter_cong) (use start pby clocks in \<open>auto simp: in_window_def\<close>)
  have sch: "scheduled_candidates t s = filter (\<lambda>p. t < pl_ends_at p) (scheduled_candidates ?n s)"
    unfolding scheduled_candidates_def filter_filter
    by (rule filter_cong) (use start clocks in \<open>auto simp: in_window_def\<close>)
  have fall: "fallback_candidates t s = fallback_candidates ?n s"
    unfolding fallback_candidates_def by (rule filter_cong) (use start pby in auto)
  show ?thesis
  proof (cases "order_first (\<lambda>p. - publication p) (urgent_candidates ?n s)")
    case (Some p)
    have "?n < pl_ends_at p" using order_first_SomeD(1) [OF Some] by (simp add: urgent_candidates_def in_window_def)
    then have "t < pl_ends_at p" using b(2) Some clocks by (simp add: active_playlist_def)
    then show ?thesis using order_first_filter [OF Some, of "\<lambda>p. t < pl_ends_at p"] Some
      by (simp add: active_playlist_def urg)
  next
    case None
    then have urg0: "urgent_candidates ?n s = []" by simp
    show ?thesis
    proof (cases "order_first scheduled_key (scheduled_candidates ?n s)")
      case (Some p)
      have "?n < pl_ends_at p" using order_first_SomeD(1) [OF Some] by (simp add: scheduled_candidates_def in_window_def)
      then have "t < pl_ends_at p" using b(2) Some urg0 clocks by (simp add: active_playlist_def)
      then show ?thesis using order_first_filter [OF Some, of "\<lambda>p. t < pl_ends_at p"] Some urg0
        by (simp add: active_playlist_def urg sch)
    next
      case none: None
      then have "scheduled_candidates ?n s = []" by simp
      then show ?thesis using urg0 by (simp add: active_playlist_def urg sch fall)
    qed
  qed
qed

theorem active_playlist_precedence_witness:
  "scheduled_candidates 150 draft_db \<noteq> []
   \<and> in_window 150 (example_playlist 7 1 Published)
   \<and> active_playlist 150 draft_db = Some (example_playlist 7 1 Published)"
proof -
  have a: "active_playlist 150 draft_db = Some (example_playlist 7 1 Published)"
    and u: "urgent_candidates 150 draft_db = []" and c: "scheduled_candidates 150 draft_db \<noteq> []"
    by code_simp+
  show ?thesis using active_playlist_precedence [where now = 150 and s = draft_db] a u c by simp
qed

theorem transition_sound_witness:
  "next_playlist_transition_at (\<lambda>n. 150) draft_db = Some 200
   \<and> active_playlist 199 draft_db = active_playlist 150 draft_db
   \<and> active_playlist 150 draft_db = Some (example_playlist 7 1 Published)"
proof (intro conjI)
  show tr: "next_playlist_transition_at (\<lambda>n. 150) draft_db = Some 200" by code_simp
  have "\<forall>p\<in>set (playlists draft_db). pl_status p = Published \<longrightarrow> published_by 150 p"
    by (simp add: draft_db_def example_playlist_def new_playlist_def published_by_def)
  then show "active_playlist 199 draft_db = active_playlist 150 draft_db"
    using transition_sound [of draft_db "\<lambda>n. 150" 199] tr by simp
  show "active_playlist 150 draft_db = Some (example_playlist 7 1 Published)" by code_simp
qed

end
