(* ===== verification/Py_Float.thy ===== *)
theory Py_Float
  imports Py_Std
begin

section \<open>Rounding to double precision\<close>

text \<open>
  Python divides two integers into the nearest double and multiplies a double by an integer into
  the nearest double, ties to even. A positive double is a pair \<open>(m, k)\<close> for \<open>m * 2 ^ k\<close> with at
  most 53 bits in \<open>m\<close>; the exponents in question are far from the limits of the format. The result
  used by the code is the number of milliseconds in a time difference, which takes two roundings
  and a truncation.
\<close>

function bit_length :: "int \<Rightarrow> nat" where
  "bit_length n = (if n \<le> 0 then 0 else Suc (bit_length (n div 2)))"
  by pat_completeness auto
termination
  by (relation "measure nat") auto

declare bit_length.simps [simp del]

definition scale :: "int \<Rightarrow> int \<Rightarrow> int \<Rightarrow> int \<times> int" where
  "scale n d e = (if 0 \<le> e then (n, d * 2 ^ nat e) else (n * 2 ^ nat (- e), d))"

definition round_exponent :: "int \<Rightarrow> int \<Rightarrow> int" where
  "round_exponent n d = (let e = int (bit_length n) - int (bit_length d) - 53 in
     case scale n d e of (a, b) \<Rightarrow> if a < 2 ^ 53 * b then e else e + 1)"

definition round_double :: "int \<Rightarrow> int \<Rightarrow> int \<times> int" where
  "round_double n d = (if n = 0 then (0, 0) else
     let e = round_exponent n d in case scale n d e of (a, b) \<Rightarrow> (round_half_even a b, e))"

text \<open>\<open>int(delta.total_seconds() * 1000)\<close> for a difference of \<open>us \<ge> 0\<close> microseconds.\<close>

definition total_milliseconds :: "time \<Rightarrow> int" where
  "total_milliseconds us =
     (case round_double us 1000000 of (m, k) \<Rightarrow>
      case (if 0 \<le> k then round_double (m * 2 ^ nat k * 1000) 1
            else round_double (m * 1000) (2 ^ nat (- k))) of (m2, k2) \<Rightarrow>
      if 0 \<le> k2 then m2 * 2 ^ nat k2 else m2 div 2 ^ nat (- k2))"

lemma bit_length_bounds: "0 < n \<Longrightarrow> n < 2 ^ bit_length n \<and> 2 ^ bit_length n \<le> 2 * n"
proof (induction n rule: bit_length.induct)
  case (1 n)
  show ?case
  proof (cases "n = 1")
    case True
    then show ?thesis by (simp add: bit_length.simps)
  next
    case False
    with 1(2) have "0 < n div 2" by simp
    with 1 have "n div 2 < 2 ^ bit_length (n div 2)" "2 ^ bit_length (n div 2) \<le> 2 * (n div 2)" by auto
    moreover have "bit_length n = Suc (bit_length (n div 2))"
      using 1(2) by (subst bit_length.simps) simp
    ultimately show ?thesis by auto
  qed
qed

lemma bit_length_le: "0 < n \<Longrightarrow> n < 2 ^ k \<Longrightarrow> bit_length n \<le> k"
proof (rule ccontr)
  assume n: "0 < n" "n < 2 ^ k" and "\<not> bit_length n \<le> k"
  then have "(2::int) ^ Suc k \<le> 2 ^ bit_length n" by (intro power_increasing) auto
  with n bit_length_bounds [OF n(1)] show False by simp
qed

lemma scale_range:
  assumes "0 < n" and "0 < d"
  shows "case scale n d (int (bit_length n) - int (bit_length d) - 53 + 1) of (a, b) \<Rightarrow> a < 2 ^ 53 * b"
proof -
  let ?e = "int (bit_length n) - int (bit_length d) - 52"
  have n: "n < 2 ^ bit_length n" and d: "2 ^ bit_length d \<le> 2 * d"
    using bit_length_bounds assms by auto
  show ?thesis
  proof (cases "0 \<le> ?e")
    case True
    then have "bit_length n = bit_length d + 52 + nat ?e" by auto
    then have "(2::int) ^ bit_length n = 2 ^ bit_length d * 2 ^ 52 * 2 ^ nat ?e" by (metis power_add)
    also have "\<dots> \<le> 2 * d * 2 ^ 52 * 2 ^ nat ?e" using d by (intro mult_right_mono) auto
    finally show ?thesis using n True by (simp add: scale_def algebra_simps)
  next
    case False
    then have "bit_length n + nat (- ?e) = bit_length d + 52" by auto
    then have "(2::int) ^ bit_length n * 2 ^ nat (- ?e) = 2 ^ bit_length d * 2 ^ 52" by (metis power_add)
    moreover have "n * 2 ^ nat (- ?e) < 2 ^ bit_length n * 2 ^ nat (- ?e)" using n by simp
    moreover have "(2::int) ^ bit_length d * 2 ^ 52 \<le> 2 * d * 2 ^ 52" using d by (intro mult_right_mono) auto
    ultimately have "n * 2 ^ nat (- ?e) < 2 ^ 53 * d" by simp
    then show ?thesis using False by (simp add: scale_def)
  qed
qed

lemma scale_pos: "0 < n \<Longrightarrow> 0 < d \<Longrightarrow> scale n d e = (a, b) \<Longrightarrow> 0 < a \<and> 0 < b"
  by (auto simp: scale_def split: if_splits)

text \<open>A rounded quotient has at most 53 bits, and is at most half a unit above the quotient.\<close>

lemma round_double_bounds:
  assumes "0 < n" and "0 < d" and "round_double n d = (m, k)"
  shows "m \<le> 2 ^ 53" and "k \<le> int (bit_length n) - int (bit_length d) - 52"
    and "k < 0 \<Longrightarrow> 2 * (m * d) \<le> 2 * (n * 2 ^ nat (- k)) + d"
proof -
  obtain a b where s: "scale n d k = (a, b)" by (metis surj_pair)
  have k: "k = round_exponent n d" and m: "m = round_half_even a b"
    using assms s by (auto simp: round_double_def Let_def split: prod.splits)
  have pos: "0 < a" "0 < b" using scale_pos [OF assms(1,2) s] by auto
  have "a < 2 ^ 53 * b"
    using s scale_range [OF assms(1,2)] k
    by (auto simp: round_exponent_def Let_def algebra_simps split: prod.splits if_splits)
  then show "m \<le> 2 ^ 53"
    unfolding m using pos by (intro round_half_even_mono_bound) auto
  show "k \<le> int (bit_length n) - int (bit_length d) - 52"
    unfolding k by (auto simp: round_exponent_def Let_def split: prod.splits)
  assume "k < 0"
  then have "a = n * 2 ^ nat (- k)" "b = d" using s by (auto simp: scale_def)
  with round_half_even_bounds(2) [OF pos(2), of a] m
  show "2 * (m * d) \<le> 2 * (n * 2 ^ nat (- k)) + d"
    by (simp add: algebra_simps)
qed

lemma bit_length_power: "bit_length (2 ^ j) = Suc j"
proof (induction j)
  case 0
  then show ?case by (simp add: bit_length.simps)
next
  case (Suc j)
  then show ?case by (subst bit_length.simps) simp
qed

text \<open>The arithmetic of the two roundings: two scales are so fine that their errors do not reach the
  next whole millisecond.\<close>

lemma two_roundings:
  fixes us m q D1 m2 D2 :: int
  assumes "2 * (m * 1000000) \<le> 2 * (us * D1) + 1000000" and "2 * (m2 * D1) \<le> 2 * (m * 1000 * D2) + D1"
    and "8388608 \<le> D1" and "8192 \<le> D2" and "us \<le> 1000 * q + 999"
  shows "m2 < D2 * (q + 1)"
proof (rule ccontr)
  assume "\<not> m2 < D2 * (q + 1)"
  then have "D2 * (q + 1) * D1 \<le> m2 * D1" using assms(3) by (intro mult_right_mono) auto
  then have 1: "D1 * D2 + q * (D1 * D2) \<le> m2 * D1" by (simp add: algebra_simps)
  have "(2 * (m * 1000000)) * D2 \<le> (2 * (us * D1) + 1000000) * D2"
    using assms(1,4) by (intro mult_right_mono) auto
  then have 2: "2000000 * (m * D2) \<le> 2 * (us * (D1 * D2)) + 1000000 * D2" by (simp add: algebra_simps)
  have "us * (D1 * D2) \<le> (1000 * q + 999) * (D1 * D2)"
    using assms(3,4,5) by (intro mult_right_mono) auto
  then have 3: "us * (D1 * D2) \<le> 1000 * (q * (D1 * D2)) + 999 * (D1 * D2)" by (simp add: algebra_simps)
  have 4: "8388608 * D2 \<le> D1 * D2" and 5: "8192 * D1 \<le> D1 * D2"
    using assms(3,4) by (auto intro: mult_right_mono)
  have 6: "2 * (m2 * D1) \<le> 2000 * (m * D2) + D1" using assms(2) by (simp add: algebra_simps)
  from 1 2 3 4 5 6 assms(3,4) show False by linarith
qed

lemma round_double_nonneg:
  assumes "0 < n" and "0 < d" and "round_double n d = (m, k)"
  shows "0 \<le> m"
proof -
  obtain a b where s: "scale n d k = (a, b)" by (metis surj_pair)
  then have "0 < a" "0 < b" using scale_pos [OF assms(1,2) s] by auto
  moreover have "m = round_half_even a b"
    using assms s by (auto simp: round_double_def Let_def split: prod.splits)
  ultimately show ?thesis using round_half_even_mono_bound_lower [of b 0 a] by simp
qed

lemma less_quotient:
  fixes a b c :: int
  assumes "0 < b" and "a < b * (c + 1)"
  shows "a div b \<le> c"
proof (rule ccontr)
  assume "\<not> a div b \<le> c"
  then have "b * (c + 1) \<le> b * (a div b)" using assms(1) by (intro mult_left_mono) auto
  also have "\<dots> \<le> a" using assms(1) pos_mod_sign [of b a] by (simp add: minus_mod_eq_mult_div [symmetric])
  finally show False using assms(2) by simp
qed

text \<open>Below \<open>2 ^ 49\<close> microseconds, almost eighteen years, rounding never adds a millisecond.\<close>

lemma total_milliseconds_le:
  assumes "0 \<le> us" and "us < 2 ^ 49"
  shows "total_milliseconds us \<le> us div 1000"
proof (cases "us = 0")
  case True
  then show ?thesis by (simp add: total_milliseconds_def round_double_def)
next
  case False
  then have us: "0 < us" using assms by simp
  obtain m k where mk: "round_double us 1000000 = (m, k)" by (metis surj_pair)
  note r1 = round_double_bounds [OF us _ mk]
  have "bit_length 1000000 = 20" by code_simp
  then have k: "k \<le> - 23" using r1(2) bit_length_le [OF us assms(2)] by simp
  show ?thesis
  proof (cases "0 < m")
    case False
    then have "m = 0" using round_double_nonneg [OF us _ mk] by simp
    then show ?thesis using mk k us by (simp add: total_milliseconds_def round_double_def)
  next
    case True
    define D1 :: int where "D1 = 2 ^ nat (- k)"
    obtain m2 k2 where mk2: "round_double (m * 1000) D1 = (m2, k2)" by (metis surj_pair)
    note r2 = round_double_bounds [OF _ _ mk2]
    have "m * 1000 < 2 ^ 63" using r1(1) by simp
    then have k2: "k2 \<le> - 13" using r2(2) bit_length_le [of "m * 1000" 63] True k
      by (simp add: D1_def bit_length_power)
    define D2 :: int where "D2 = 2 ^ nat (- k2)"
    have "(2::int) ^ 23 \<le> D1" unfolding D1_def using k by (intro power_increasing) auto
    moreover have "(2::int) ^ 13 \<le> D2" unfolding D2_def using k2 by (intro power_increasing) auto
    ultimately have "m2 < D2 * (us div 1000 + 1)"
      using r1(3) r2(3) True k k2 D1_def D2_def
      by (intro two_roundings [where m = m and ?D1.0 = D1 and us = us]) (auto simp: algebra_simps)
    moreover have "0 < D2" by (simp add: D2_def)
    ultimately have "m2 div D2 \<le> us div 1000"
      by (simp add: less_quotient)
    then show ?thesis
      using mk mk2 k k2 by (simp add: total_milliseconds_def D1_def D2_def)
  qed
qed

end
