(* ===== verification/Playback.thy ===== *)
theory Playback
  imports Evidence Playlists Py_Float
begin

section \<open>Proof of play\<close>

text \<open>
  \<open>validate_event\<close>, \<open>validate_playback_batch_payload\<close>, \<open>playback_batch_matches\<close> and the endpoint
  \<open>playback_batch\<close> of \<open>api.py\<close>. A batch is the evidence of one loop of a playlist: one result for
  every entry. The state other requests leave between the lookup and the insertion is given by a
  function. The result of an accepted batch is the duplicate flag of the answer.
\<close>

subsection \<open>Events\<close>

record submitted_event =
  se_id :: id
  se_item :: id
  se_started :: time
  se_ended :: "time option"
  se_duration :: int
  se_status :: playback_status
  se_failure :: string

definition playback_tolerance :: time where
  "playback_tolerance = seconds 5"

definition max_playback_event_duration :: int where
  "max_playback_event_duration = 2147483647"

definition status_values :: "(string \<times> playback_status) list" where
  "status_values = [(''completed'', Completed), (''interrupted'', Interrupted), (''failed'', Failed)]"

definition failure_reasons :: "playback_status \<Rightarrow> string list" where
  "failure_reasons p = (case p of
       Failed \<Rightarrow> [''decode_failure'', ''missing_file'', ''playback_timeout'', ''start_timeout'']
     | Interrupted \<Rightarrow>
         [''administrator_session'', ''app_restart_or_power_loss'', ''app_restart_or_unexpected_exit'',
          ''app_update'', ''credential_rejected'', ''device_disabled'', ''device_owner_removed'',
          ''external_power_lost'', ''external_power_unavailable'', ''fallback_mode'',
          ''loop_interrupted_before_entry'', ''planned_shutdown'', ''server_forbidden'',
          ''scheduled_playlist_replacement'', ''urgent_playlist_replacement'']
     | Completed \<Rightarrow> [])"

definition outside :: "time \<Rightarrow> time \<Rightarrow> time \<Rightarrow> bool" where
  "outside t start stop = ((t < start \<and> playback_tolerance < start - t) \<or> (stop < t \<and> playback_tolerance < t - stop))"

text \<open>The ids of an event: its own and the entry it is about, which must be in the playlist.\<close>

type_synonym entries = "(playlist_item \<times> media_asset) list"

definition entry :: "id \<Rightarrow> entries \<Rightarrow> (playlist_item \<times> media_asset) option" where
  "entry i items = find (\<lambda>x. pi_id (fst x) = i) items"

definition event_ids :: "payload \<Rightarrow> entries \<Rightarrow> string \<Rightarrow> (id \<times> id \<times> media_asset) result" where
  "event_ids ev items loc =
     bind_result (bind_result (required_value ev ''id'' loc) (\<lambda>v. parse_required_uuid v (loc @ ''.id''))) (\<lambda>event_id.
     bind_result (bind_result (required_value ev ''playlist_item_id'' loc)
        (\<lambda>v. parse_required_uuid v (loc @ ''.playlist_item_id''))) (\<lambda>item_id.
     case entry item_id items of
       None \<Rightarrow> Inl (ValidationError (loc @ ''.playlist_item_id'') ''Playback item is not in the playlist.'')
     | Some x \<Rightarrow> Inr (event_id, item_id, snd x)))"

definition event_status :: "payload \<Rightarrow> string \<Rightarrow> playback_status result" where
  "event_status ev loc = bind_result (required_value ev ''status'' loc) (\<lambda>v. case v of
       JStr s \<Rightarrow> (case map_of status_values s of
           None \<Rightarrow> Inl (ValidationError (loc @ ''.status'') ''Invalid playback status.'') | Some p \<Rightarrow> Inr p)
     | _ \<Rightarrow> Inl (ValidationError (loc @ ''.status'') ''Playback status must be a string.''))"

definition event_duration :: "payload \<Rightarrow> string \<Rightarrow> int result" where
  "event_duration ev loc =
     (let bad = Inl (ValidationError (loc @ ''.duration_ms'') ''Use an integer between 0 and 2147483647.'') in
      bind_result (required_value ev ''duration_ms'' loc) (\<lambda>v. case v of
        JInt n \<Rightarrow> if 0 \<le> n \<and> n \<le> max_playback_event_duration then Inr n else bad
      | _ \<Rightarrow> bad))"

text \<open>The two timestamps of an event; the clock is read once for each.\<close>

definition event_times ::
  "datetime_reader \<Rightarrow> time \<Rightarrow> time \<Rightarrow> payload \<Rightarrow> string \<Rightarrow> time \<Rightarrow> time \<Rightarrow> (time \<times> time option) result" where
  "event_times read now1 now2 ev loc loop_start loop_end =
     bind_result (bind_result (required_value ev ''started_at'' loc)
        (\<lambda>v. parse_required_datetime read now1 max_device_timestamp_future_skew v (loc @ ''.started_at''))) (\<lambda>started.
     bind_result (if jget ev ''ended_at'' = JNull then Inr None
        else bind_result (parse_required_datetime read now2 max_device_timestamp_future_skew (jget ev ''ended_at'')
               (loc @ ''.ended_at'')) (\<lambda>t. Inr (Some t))) (\<lambda>ended.
     bind_result (require (case ended of None \<Rightarrow> True | Some e \<Rightarrow> started \<le> e)
        (ValidationError (loc @ ''.ended_at'') ''Event end cannot precede event start.'')) (\<lambda>u1.
     bind_result (require (\<not> outside started loop_start loop_end)
        (ValidationError (loc @ ''.started_at'') ''Event start falls outside the batch loop window.'')) (\<lambda>u2.
     bind_result (require (case ended of None \<Rightarrow> True | Some e \<Rightarrow> \<not> outside e loop_start loop_end)
        (ValidationError (loc @ ''.ended_at'') ''Event end falls outside the batch loop window.'')) (\<lambda>u3.
     Inr (started, ended))))))"

definition event_failure_reason :: "payload \<Rightarrow> string \<Rightarrow> string result" where
  "event_failure_reason ev loc =
     (let bad = Inl (ValidationError (loc @ ''.failure_reason'') ''Failure reason must be a string of at most 64 characters.'') in
      case jget_default ev ''failure_reason'' (JStr []) of
        JStr s \<Rightarrow> if length s \<le> 64 then Inr s else bad
      | _ \<Rightarrow> bad)"

definition outcome_checks :: "playback_status \<Rightarrow> media_asset \<Rightarrow> int \<Rightarrow> time option \<Rightarrow> string \<Rightarrow> string \<Rightarrow> unit result" where
  "outcome_checks p m duration ended reason loc =
     (if p = Completed then
        (let tolerance = (if ma_kind m = Video then 500 else 0) in
         bind_result (require (max 0 (ma_duration_ms m - tolerance) \<le> duration \<and> duration \<le> ma_duration_ms m + tolerance)
            (ValidationError (loc @ ''.duration_ms'') ''Completed playback duration does not match the media duration.'')) (\<lambda>u1.
         bind_result (require (ended \<noteq> None)
            (ValidationError (loc @ ''.ended_at'') ''Completed playback requires an end timestamp.'')) (\<lambda>u2.
         require (reason = [])
            (ValidationError (loc @ ''.failure_reason'') ''Completed playback cannot include a failure reason.''))))
      else require (reason \<in> set (failure_reasons p))
        (ValidationError (loc @ ''.failure_reason'')
           ''Interrupted and failed playback require a recognized failure category.''))"

definition validate_event ::
  "datetime_reader \<Rightarrow> time \<Rightarrow> time \<Rightarrow> json \<Rightarrow> entries \<Rightarrow> nat \<Rightarrow> time \<Rightarrow> time \<Rightarrow> submitted_event result" where
  "validate_event read now1 now2 event items index loop_start loop_end =
     (let loc = ''events['' @ int_str (int index) @ '']'' in
      case event of
        JObj ev \<Rightarrow>
          bind_result (event_ids ev items loc) (\<lambda>(event_id, item_id, m).
          bind_result (event_status ev loc) (\<lambda>p.
          bind_result (event_duration ev loc) (\<lambda>duration.
          bind_result (event_times read now1 now2 ev loc loop_start loop_end) (\<lambda>(started, ended).
          bind_result (event_failure_reason ev loc) (\<lambda>reason.
          bind_result (outcome_checks p m duration ended reason loc) (\<lambda>u1.
          bind_result (require (case ended of None \<Rightarrow> True
                | Some e \<Rightarrow> duration \<le> total_milliseconds (e - started) + 5000)
             (ValidationError (loc @ ''.duration_ms'') ''Playback duration exceeds the event timestamp interval.'')) (\<lambda>u2.
          Inr \<lparr>se_id = event_id, se_item = item_id, se_started = started, se_ended = ended,
               se_duration = duration, se_status = p, se_failure = reason\<rparr>)))))))
      | _ \<Rightarrow> Inl (ValidationError loc ''Each event must be an object.''))"

subsection \<open>Batches\<close>

record normalized_batch =
  nb_id :: id
  nb_playlist :: id
  nb_loop_started :: time
  nb_loop_ended :: time
  nb_offline :: bool
  nb_events :: "submitted_event list"

text \<open>The entries of a playlist together with their media.\<close>

definition playlist_entries :: "id \<Rightarrow> db \<Rightarrow> entries" where
  "playlist_entries p s =
     concat (map (\<lambda>i. case lookup_by ma_id (pi_media i) (media_assets s) of None \<Rightarrow> [] | Some m \<Rightarrow> [(i, m)])
       (items_of p s))"

definition entry_ids :: "entries \<Rightarrow> id list" where
  "entry_ids items = map (\<lambda>x. pi_id (fst x)) items"

definition loop_times :: "datetime_reader \<Rightarrow> clock \<Rightarrow> payload \<Rightarrow> playlist \<Rightarrow> (time \<times> time) result" where
  "loop_times read clk data p =
     bind_result (bind_result (required_value data ''loop_started_at'' [])
        (\<lambda>v. parse_required_datetime read (clk 0) max_device_timestamp_future_skew v ''loop_started_at'')) (\<lambda>a.
     bind_result (bind_result (required_value data ''loop_ended_at'' [])
        (\<lambda>v. parse_required_datetime read (clk 1) max_device_timestamp_future_skew v ''loop_ended_at'')) (\<lambda>b.
     bind_result (require (a \<le> b) (ValidationError ''loop_ended_at'' ''Loop end cannot precede loop start.'')) (\<lambda>u1.
     bind_result (require (\<not> (a < pl_starts_at p \<and> playback_tolerance < pl_starts_at p - a))
        (ValidationError ''loop_started_at'' ''Playback cannot precede the playlist start time.'')) (\<lambda>u2.
     Inr (a, b)))))"

definition validate_playback_batch_payload ::
  "datetime_reader \<Rightarrow> clock \<Rightarrow> payload \<Rightarrow> playlist \<Rightarrow> id \<Rightarrow> id \<Rightarrow> db \<Rightarrow> normalized_batch result" where
  "validate_playback_batch_payload read clk data p batch_id playlist_id s =
     bind_result (loop_times read clk data p) (\<lambda>(loop_start, loop_end).
     bind_result (bind_result (required_value data ''captured_offline'' []) (\<lambda>v. case v of
        JBool b \<Rightarrow> Inr b | _ \<Rightarrow> Inl (ValidationError ''captured_offline'' ''Use a JSON boolean.''))) (\<lambda>offline.
     bind_result (bind_result (required_value data ''events'' []) (\<lambda>v. case v of
        JArr es \<Rightarrow> Inr es | _ \<Rightarrow> Inl (ValidationError ''events'' ''Events must be a JSON array.''))) (\<lambda>raw.
     let items = playlist_entries (pl_id p) s;
         incomplete = ValidationError ''events'' ''A batch must contain exactly one result for every playlist entry.'' in
     bind_result (require (items \<noteq> []) (ValidationError ''events'' ''Playback evidence requires a non-empty playlist.'')) (\<lambda>u1.
     bind_result (require (length raw = length items) incomplete) (\<lambda>u2.
     bind_result (map_result (\<lambda>(i, e). validate_event read (clk (2 * i + 2)) (clk (2 * i + 3)) e items i loop_start loop_end)
        (List.enumerate 0 raw)) (\<lambda>events.
     bind_result (require (distinct (map se_id events))
        (ValidationError ''events'' ''A batch cannot contain duplicate event identifiers.'')) (\<lambda>u3.
     bind_result (require (distinct (map se_item events))
        (ValidationError ''events'' ''A batch cannot contain duplicate playlist entries.'')) (\<lambda>u4.
     bind_result (require (set (map se_item events) = set (entry_ids items)) incomplete) (\<lambda>u5.
     Inr \<lparr>nb_id = batch_id, nb_playlist = playlist_id, nb_loop_started = loop_start, nb_loop_ended = loop_end,
          nb_offline = offline, nb_events = events\<rparr>)))))))))"

subsection \<open>The stored evidence\<close>

definition event_agrees :: "submitted_event \<Rightarrow> playback_event \<Rightarrow> bool" where
  "event_agrees e r = (pe_playlist_item r = se_item e \<and> pe_started_at r = se_started e \<and> pe_ended_at r = se_ended e
     \<and> pe_duration_ms r = se_duration e \<and> pe_status r = se_status e \<and> pe_failure_reason r = se_failure e)"

definition batch_events :: "id \<Rightarrow> db \<Rightarrow> playback_event list" where
  "batch_events b s = filter (\<lambda>r. pe_batch r = b) (playback_events s)"

definition playback_batch_matches :: "playback_batch_row \<Rightarrow> normalized_batch \<Rightarrow> db \<Rightarrow> bool" where
  "playback_batch_matches b n s =
     (pb_playlist b = nb_playlist n \<and> pb_loop_started_at b = nb_loop_started n
      \<and> pb_loop_ended_at b = Some (nb_loop_ended n) \<and> pb_captured_offline b = nb_offline n
      \<and> set (map se_id (nb_events n)) = set (map pe_id (batch_events (pb_id b) s))
      \<and> list_all (\<lambda>e. case lookup_by pe_id (se_id e) (batch_events (pb_id b) s) of
            None \<Rightarrow> False | Some r \<Rightarrow> event_agrees e r) (nb_events n))"

definition event_row :: "id \<Rightarrow> submitted_event \<Rightarrow> playback_event" where
  "event_row b e = \<lparr>pe_id = se_id e, pe_batch = b, pe_playlist_item = se_item e, pe_started_at = se_started e,
     pe_ended_at = se_ended e, pe_duration_ms = se_duration e, pe_status = se_status e, pe_failure_reason = se_failure e\<rparr>"

text \<open>
  The transaction: the batch, its events and the time of the last playback of the device; an
  identifier that is taken raises. \<open>received\<close> and \<open>now\<close> are the readings of the clock for
  \<open>received_at\<close> and \<open>last_playback_at\<close>.
\<close>

definition store_batch :: "time \<Rightarrow> time \<Rightarrow> id \<Rightarrow> id option \<Rightarrow> normalized_batch \<Rightarrow> db \<Rightarrow> db result" where
  "store_batch received now d assignment n s =
     (if lookup_by pb_id (nb_id n) (playback_batches s) \<noteq> None then Inl (IntegrityError ''playbackbatch_pkey'')
      else if \<not> distinct (map se_id (nb_events n)) \<or> (\<exists>e\<in>set (nb_events n). exists_row (\<lambda>r. pe_id r = se_id e) (playback_events s))
      then Inl (IntegrityError ''playbackevent_pkey'')
      else Inr (s\<lparr>playback_batches := playback_batches s @
             [\<lparr>pb_id = nb_id n, pb_device = d, pb_playlist = nb_playlist n, pb_assignment = assignment,
               pb_loop_started_at = nb_loop_started n, pb_loop_ended_at = Some (nb_loop_ended n),
               pb_captured_offline = nb_offline n, pb_received_at = received\<rparr>],
           playback_events := playback_events s @ map (event_row (nb_id n)) (nb_events n),
           devices := update_where (\<lambda>x. dv_id x = d) (\<lambda>x. x\<lparr>dv_last_playback_at := Some now\<rparr>) (devices s)\<rparr>))"

definition batch_collision :: error where
  "batch_collision = PermissionDenied ''Playback batch identifier collision.''"

definition create_batch ::
  "time \<Rightarrow> time \<Rightarrow> id \<Rightarrow> id option \<Rightarrow> normalized_batch \<Rightarrow> db \<Rightarrow> bool result \<times> db" where
  "create_batch received now d assignment n s =
     (case store_batch received now d assignment n s of
        Inr t \<Rightarrow> (Inr False, t)
      | Inl e \<Rightarrow>
         (let refused = ValidationError [] ''Playback evidence identifier collision; the batch was not accepted.'' in
          case lookup_by pb_id (nb_id n) (playback_batches s) of
            None \<Rightarrow> (Inl refused, s)
          | Some b \<Rightarrow> if pb_device b \<noteq> d then (Inl batch_collision, s)
              else if playback_batch_matches b n s then (Inr True, s) else (Inl refused, s)))"

definition answer_existing :: "playback_batch_row \<Rightarrow> normalized_batch \<Rightarrow> db \<Rightarrow> bool result" where
  "answer_existing b n s = (if playback_batch_matches b n s then Inr True
     else Inl (ValidationError [] ''Playback batch identifier was already used for different evidence.''))"

text \<open>
  What the endpoint establishes before it stores anything: the batch that has the identifier, if
  any, and the normalized request.
\<close>

definition playback_checks ::
  "datetime_reader \<Rightarrow> clock \<Rightarrow> device \<Rightarrow> payload \<Rightarrow> db \<Rightarrow> (playback_batch_row option \<times> normalized_batch) result" where
  "playback_checks read clk d data s =
     bind_result (require (dv_status d \<noteq> Disabled) (PermissionDenied ''Disabled devices cannot submit playback.'')) (\<lambda>u1.
     bind_result (bind_result (required_value data ''id'' []) (\<lambda>v. parse_required_uuid v ''id'')) (\<lambda>batch_id.
     bind_result (bind_result (required_value data ''playlist_id'' []) (\<lambda>v. parse_required_uuid v ''playlist_id'')) (\<lambda>playlist_id.
     let existing = lookup_by pb_id batch_id (playback_batches s) in
     bind_result (require (case existing of None \<Rightarrow> True | Some b \<Rightarrow> pb_device b = dv_id d) batch_collision) (\<lambda>u2.
     case find_playlist playlist_id s of
       None \<Rightarrow> Inl (ValidationError [] ''Unknown playlist.'')
     | Some p \<Rightarrow>
        bind_result (require (existing \<noteq> None \<or> published_or_cancelled (pl_status p))
          (ValidationError [] ''Playback evidence is accepted only for a published playlist version.'')) (\<lambda>u3.
        bind_result (validate_playback_batch_payload read clk data p batch_id playlist_id s) (\<lambda>n.
        Inr (existing, n)))))))"

definition playback_batch ::
  "datetime_reader \<Rightarrow> clock \<Rightarrow> time \<Rightarrow> time \<Rightarrow> (db \<Rightarrow> db) \<Rightarrow> device \<Rightarrow> payload \<Rightarrow> db \<Rightarrow> bool result \<times> db" where
  "playback_batch read clk received now others d data s =
     (case playback_checks read clk d data s of
        Inl e \<Rightarrow> (Inl e, s)
      | Inr (Some b, n) \<Rightarrow> (answer_existing b n s, s)
      | Inr (None, n) \<Rightarrow>
          create_batch received now (dv_id d) (map_option da_id (assignment_at (dv_id d) (nb_loop_started n) s)) n (others s))"

subsection \<open>What is stored\<close>

text \<open>The evidence tables: identifiers are unique and every event belongs to a batch.\<close>

definition evidence_ok :: "db \<Rightarrow> bool" where
  "evidence_ok s = (distinct (map pb_id (playback_batches s)) \<and> distinct (map pe_id (playback_events s))
     \<and> list_all (\<lambda>r. pe_batch r \<in> set (map pb_id (playback_batches s))) (playback_events s))"

text \<open>A submission after the checks, with the values the server adds to it.\<close>

type_synonym submission = "time \<times> time \<times> id option \<times> id \<times> normalized_batch"

fun submission_key :: "submission \<Rightarrow> id" where
  "submission_key (r, now, a, d, n) = nb_id n"

fun submission_wf :: "submission \<Rightarrow> bool" where
  "submission_wf (r, now, a, d, n) = distinct (map se_id (nb_events n))"

definition same_batch :: "normalized_batch \<Rightarrow> normalized_batch \<Rightarrow> bool" where
  "same_batch n m = (nb_playlist n = nb_playlist m \<and> nb_loop_started n = nb_loop_started m
     \<and> nb_loop_ended n = nb_loop_ended m \<and> nb_offline n = nb_offline m \<and> set (nb_events n) = set (nb_events m))"

fun same_submission :: "submission \<Rightarrow> submission \<Rightarrow> bool" where
  "same_submission (r, now, a, d, n) (r', now', a', d', n') = (d = d' \<and> same_batch n n')"

fun submission_stored :: "submission \<Rightarrow> db \<Rightarrow> bool" where
  "submission_stored (r, now, a, d, n) s = (case lookup_by pb_id (nb_id n) (playback_batches s) of
     None \<Rightarrow> False | Some b \<Rightarrow> pb_device b = d \<and> playback_batch_matches b n s)"

fun submit_batch :: "submission \<Rightarrow> db \<Rightarrow> bool result \<times> db" where
  "submit_batch (r, now, a, d, n) s = (case lookup_by pb_id (nb_id n) (playback_batches s) of
     Some b \<Rightarrow> (if pb_device b \<noteq> d then Inl batch_collision else answer_existing b n s, s)
   | None \<Rightarrow> create_batch r now d a n s)"

lemma event_row_simps [simp]:
  "pe_id (event_row b e) = se_id e" "pe_batch (event_row b e) = b"
  by (simp_all add: event_row_def)

lemma event_row_ids [simp]: "pe_id \<circ> event_row b = se_id"
  by auto

lemma event_row_inj: "event_row b e = event_row b e' \<longleftrightarrow> e = e'"
  by (cases e; cases e') (auto simp: event_row_def)

lemma event_agrees_iff: "pe_id r = se_id e \<Longrightarrow> pe_batch r = b \<Longrightarrow> event_agrees e r \<longleftrightarrow> r = event_row b e"
  by (cases r) (auto simp: event_agrees_def event_row_def)

lemma batch_events_ids: "r \<in> set (batch_events b s) \<Longrightarrow> pe_batch r = b \<and> r \<in> set (playback_events s)"
  by (simp add: batch_events_def)

text \<open>The comparison of the code is equality of the stored events, whatever their order.\<close>

lemma matches_iff:
  assumes "distinct (map pe_id (playback_events s))"
  shows "playback_batch_matches b n s \<longleftrightarrow>
    pb_playlist b = nb_playlist n \<and> pb_loop_started_at b = nb_loop_started n
    \<and> pb_loop_ended_at b = Some (nb_loop_ended n) \<and> pb_captured_offline b = nb_offline n
    \<and> event_row (pb_id b) ` set (nb_events n) = set (batch_events (pb_id b) s)"
proof -
  let ?R = "batch_events (pb_id b) s" and ?E = "nb_events n" and ?row = "event_row (pb_id b)"
  have dist: "distinct (map pe_id ?R)" using assms by (simp add: batch_events_def distinct_map_filter)
  have mem: "(case lookup_by pe_id (se_id e) ?R of None \<Rightarrow> False | Some r \<Rightarrow> event_agrees e r) \<longleftrightarrow> ?row e \<in> set ?R" for e
  proof (cases "lookup_by pe_id (se_id e) ?R")
    case None
    then have "?row e \<notin> set ?R" unfolding lookup_by_None by (metis event_row_simps(1))
    then show ?thesis by (simp add: None)
  next
    case (Some r)
    have r: "r \<in> set ?R" "pe_id r = se_id e" using lookup_by_SomeD [OF Some] by auto
    then have "event_agrees e r \<longleftrightarrow> r = ?row e" using batch_events_ids by (intro event_agrees_iff) auto
    moreover have "?row e \<in> set ?R \<Longrightarrow> ?row e = r" using r dist by (auto intro: distinct_map_unique)
    ultimately show ?thesis using r Some by auto
  qed
  have "(set (map se_id ?E) = set (map pe_id ?R) \<and> (\<forall>e\<in>set ?E. ?row e \<in> set ?R)) \<longleftrightarrow> ?row ` set ?E = set ?R"
  proof
    assume l: "set (map se_id ?E) = set (map pe_id ?R) \<and> (\<forall>e\<in>set ?E. ?row e \<in> set ?R)"
    have "r \<in> ?row ` set ?E" if r: "r \<in> set ?R" for r
    proof -
      have "pe_id r \<in> set (map se_id ?E)" using l r by simp
      then obtain e where e: "e \<in> set ?E" "se_id e = pe_id r" by auto
      then have "?row e = r" using l r dist by (auto intro: distinct_map_unique)
      then show ?thesis using e by blast
    qed
    then show "?row ` set ?E = set ?R" using l by blast
  next
    assume r: "?row ` set ?E = set ?R"
    have "set (map pe_id ?R) = pe_id ` ?row ` set ?E" by (simp add: r)
    also have "\<dots> = set (map se_id ?E)" by (simp add: image_image)
    finally show "set (map se_id ?E) = set (map pe_id ?R) \<and> (\<forall>e\<in>set ?E. ?row e \<in> set ?R)" using r by auto
  qed
  then show ?thesis
    unfolding playback_batch_matches_def list_all_iff mem by blast
qed

lemma store_batch_Inr:
  assumes "store_batch received now d a n s = Inr t"
  shows "lookup_by pb_id (nb_id n) (playback_batches s) = None" and "distinct (map se_id (nb_events n))"
    and "\<forall>e\<in>set (nb_events n). \<forall>r\<in>set (playback_events s). pe_id r \<noteq> se_id e"
    and "\<exists>b. playback_batches t = playback_batches s @ [b] \<and> pb_id b = nb_id n \<and> pb_device b = d
      \<and> pb_playlist b = nb_playlist n \<and> pb_assignment b = a \<and> pb_loop_started_at b = nb_loop_started n
      \<and> pb_loop_ended_at b = Some (nb_loop_ended n) \<and> pb_captured_offline b = nb_offline n"
    and "playback_events t = playback_events s @ map (event_row (nb_id n)) (nb_events n)"
  using assms by (auto simp: store_batch_def split: if_splits)

lemma batch_events_store:
  "store_batch received now d a n s = Inr t \<Longrightarrow>
   batch_events b t = batch_events b s @ (if b = nb_id n then map (event_row b) (nb_events n) else [])"
  by (auto simp: batch_events_def store_batch_Inr(5) filter_empty_conv intro!: filter_True)

lemma store_batch_ok:
  assumes "evidence_ok s" and "store_batch received now d a n s = Inr t"
  shows "evidence_ok t"
proof -
  note st = store_batch_Inr [OF assms(2)]
  obtain b where b: "playback_batches t = playback_batches s @ [b]" "pb_id b = nb_id n" using st(4) by blast
  have "map pe_id (playback_events t) = map pe_id (playback_events s) @ map se_id (nb_events n)"
    by (simp add: st(5))
  then show ?thesis
    using assms(1) st(1,2,3) b unfolding evidence_ok_def
    by (auto simp: list_all_iff st(5) lookup_by_None)
qed

lemma fresh_batch_events:
  "evidence_ok s \<Longrightarrow> lookup_by pb_id i (playback_batches s) = None \<Longrightarrow> batch_events i s = []"
  by (fastforce simp: evidence_ok_def batch_events_def filter_empty_conv list_all_iff lookup_by_None)

lemma create_batch_cases:
  obtains (stored) t where "store_batch received now d a n s = Inr t" "create_batch received now d a n s = (Inr False, t)"
  | (duplicate) b where "lookup_by pb_id (nb_id n) (playback_batches s) = Some b" "pb_device b = d" "playback_batch_matches b n s"
      "create_batch received now d a n s = (Inr True, s)"
  | (refused) e where "create_batch received now d a n s = (Inl e, s)"
proof (cases "store_batch received now d a n s")
  case (Inr t)
  then show ?thesis by (intro stored [of t]) (simp_all add: create_batch_def)
next
  case (Inl e)
  show ?thesis
  proof (cases "lookup_by pb_id (nb_id n) (playback_batches s)")
    case None
    then show ?thesis using Inl by (intro refused) (simp add: create_batch_def)
  next
    case (Some b)
    show ?thesis
    proof (cases "pb_device b = d \<and> playback_batch_matches b n s")
      case True
      then show ?thesis using Inl Some by (intro duplicate [of b]) (simp_all add: create_batch_def)
    next
      case False
      then have "\<exists>e. create_batch received now d a n s = (Inl e, s)"
        using Inl Some by (auto simp: create_batch_def)
      then show ?thesis using refused by blast
    qed
  qed
qed

lemma stored_after_store:
  assumes "evidence_ok s" and "store_batch r now d a n s = Inr t"
  shows "submission_stored (r, now, a, d, n) t"
proof -
  note st = store_batch_Inr [OF assms(2)]
  obtain b where b: "playback_batches t = playback_batches s @ [b]" "pb_id b = nb_id n" "pb_device b = d"
      "pb_playlist b = nb_playlist n" "pb_loop_started_at b = nb_loop_started n"
      "pb_loop_ended_at b = Some (nb_loop_ended n)" "pb_captured_offline b = nb_offline n"
    using st(4) by blast
  have "batch_events (nb_id n) t = map (event_row (nb_id n)) (nb_events n)"
    using fresh_batch_events [OF assms(1) st(1)] batch_events_store [OF assms(2), of "nb_id n"] by simp
  moreover have "distinct (map pe_id (playback_events t))"
    using store_batch_ok [OF assms] by (simp add: evidence_ok_def)
  ultimately have "playback_batch_matches b n t" using b by (simp add: matches_iff)
  moreover have "lookup_by pb_id (nb_id n) (playback_batches t) = Some b"
    using st(1) b by (simp add: lookup_by_append lookup_by_Cons)
  ultimately show ?thesis using b by simp
qed

lemma stored_kept:
  assumes "evidence_ok s" and "store_batch r now d a n s = Inr t" and "submission_stored e s"
  shows "submission_stored e t"
proof -
  obtain r' now' a' d' m where e: "e = (r', now', a', d', m)" by (metis surj_pair)
  obtain b where b: "lookup_by pb_id (nb_id m) (playback_batches s) = Some b" "pb_device b = d'" "playback_batch_matches b m s"
    using assms(3) by (auto simp: e split: option.splits)
  note st = store_batch_Inr [OF assms(2)]
  have id: "pb_id b = nb_id m" using lookup_by_SomeD [OF b(1)] by simp
  then have "nb_id n \<noteq> nb_id m" using st(1) b(1) by auto
  then have "batch_events (pb_id b) t = batch_events (pb_id b) s" using batch_events_store [OF assms(2)] id by simp
  moreover have "distinct (map pe_id (playback_events t))" "distinct (map pe_id (playback_events s))"
    using store_batch_ok [OF assms(1,2)] assms(1) by (simp_all add: evidence_ok_def)
  ultimately have "playback_batch_matches b m t" using b(3) by (simp add: matches_iff)
  moreover have "lookup_by pb_id (nb_id m) (playback_batches t) = Some b"
    using st(4) b(1) by (auto simp: lookup_by_append)
  ultimately show ?thesis using b by (simp add: e)
qed

lemma submit_batch_cases:
  obtains (same) "submit_batch (r, now, a, d, n) s = (Inr True, s)" "submission_stored (r, now, a, d, n) s"
  | (stored) t where "store_batch r now d a n s = Inr t" "submit_batch (r, now, a, d, n) s = (Inr False, t)"
  | (refused) e where "submit_batch (r, now, a, d, n) s = (Inl e, s)"
proof (cases "lookup_by pb_id (nb_id n) (playback_batches s)")
  case (Some b)
  show ?thesis
  proof (cases "pb_device b = d \<and> playback_batch_matches b n s")
    case True
    then show ?thesis using Some by (intro same) (simp_all add: answer_existing_def)
  next
    case False
    then have "\<exists>e. submit_batch (r, now, a, d, n) s = (Inl e, s)" using Some by (auto simp: answer_existing_def)
    then show ?thesis using refused by blast
  qed
next
  case None
  then have c: "submit_batch (r, now, a, d, n) s = create_batch r now d a n s" by simp
  show ?thesis
    by (rule create_batch_cases [of r now d a n s]) (use c None stored refused in auto)
qed

lemma submission_cases:
  obtains (same) "submit_batch e s = (Inr True, s)" "submission_stored e s"
  | (stored) r now a d n t where "e = (r, now, a, d, n)" "store_batch r now d a n s = Inr t" "submit_batch e s = (Inr False, t)"
  | (refused) x where "submit_batch e s = (Inl x, s)"
proof -
  obtain r now a d n where e: "e = (r, now, a, d, n)" by (metis surj_pair)
  show ?thesis
    unfolding e by (rule submit_batch_cases [of r now a d n s]) (use e same stored refused in auto)
qed

lemma stored_same_batch:
  assumes "evidence_ok s" and "submission_stored e s" and "submission_stored e' s" and "submission_key e = submission_key e'"
  shows "same_submission e e'"
proof -
  obtain r now a d n where e: "e = (r, now, a, d, n)" by (metis surj_pair)
  obtain r' now' a' d' n' where e': "e' = (r', now', a', d', n')" by (metis surj_pair)
  obtain b where b: "pb_device b = d" "playback_batch_matches b n s" "pb_device b = d'" "playback_batch_matches b n' s"
    using assms(2-4) by (auto simp: e e' split: option.splits)
  have dist: "distinct (map pe_id (playback_events s))" using assms(1) by (simp add: evidence_ok_def)
  have "event_row (pb_id b) ` set (nb_events n) = event_row (pb_id b) ` set (nb_events n')"
    using b by (simp add: matches_iff [OF dist])
  then have "set (nb_events n) = set (nb_events n')"
    by (simp add: inj_image_eq_iff inj_def event_row_inj)
  then show ?thesis using b by (simp add: e e' same_batch_def matches_iff [OF dist])
qed

interpretation playback_store:
  idempotent_store evidence_ok submission_key submission_wf same_submission submission_stored submit_batch
proof
  fix s e
  assume "evidence_ok s" "submission_wf e"
  then show "evidence_ok (snd (submit_batch e s))"
    by (cases rule: submission_cases [of e s]) (auto dest: store_batch_ok)
next
  fix s e e'
  assume "evidence_ok s" "submission_wf e" "submission_stored e' s"
  then show "submission_stored e' (snd (submit_batch e s))"
    by (cases rule: submission_cases [of e s]) (auto dest: stored_kept)
next
  fix s e b
  assume "evidence_ok s" "submission_wf e" "fst (submit_batch e s) = Inr b"
  then show "submission_stored e (snd (submit_batch e s))"
    by (cases rule: submission_cases [of e s]) (auto dest: stored_after_store)
next
  fix s e
  assume "submission_stored e s"
  then show "submit_batch e s = (Inr True, s)"
    by (cases e) (auto simp: answer_existing_def split: option.splits)
next
  fix e s e' x
  assume "fst (submit_batch e' s) = Inl x"
  then show "snd (submit_batch e' s) = s"
    by (cases rule: submission_cases [of e' s]) auto
next
  fix s e e'
  assume "evidence_ok s" "submission_stored e s" "submission_stored e' s" "submission_key e = submission_key e'"
  then show "same_submission e e'" by (rule stored_same_batch)
qed

subsection \<open>What the checks establish\<close>

lemma playback_checks_Inr:
  assumes "playback_checks read clk d data s = Inr (x, n)"
  shows "x = lookup_by pb_id (nb_id n) (playback_batches s)" and "x = Some b \<Longrightarrow> pb_device b = dv_id d"
    and "dv_status d \<noteq> Disabled"
    and "\<exists>p. find_playlist (nb_playlist n) s = Some p \<and> (x = None \<longrightarrow> published_or_cancelled (pl_status p))
      \<and> validate_playback_batch_payload read clk data p (nb_id n) (nb_playlist n) s = Inr n"
proof -
  from assms obtain i pid where st: "dv_status d \<noteq> Disabled"
    and dev: "case lookup_by pb_id i (playback_batches s) of None \<Rightarrow> True | Some b \<Rightarrow> pb_device b = dv_id d"
    and rest: "(case find_playlist pid s of None \<Rightarrow> Inl (ValidationError [] ''Unknown playlist.'')
      | Some p \<Rightarrow> bind_result (require (lookup_by pb_id i (playback_batches s) \<noteq> None \<or> published_or_cancelled (pl_status p))
          (ValidationError [] ''Playback evidence is accepted only for a published playlist version.'')) (\<lambda>u3.
        bind_result (validate_playback_batch_payload read clk data p i pid s) (\<lambda>n.
        Inr (lookup_by pb_id i (playback_batches s), n)))) = Inr (x, n)"
    unfolding playback_checks_def bind_result_Inr_iff Let_def require_Inr by blast
  from rest obtain p where *: "x = lookup_by pb_id i (playback_batches s)"
      "find_playlist pid s = Some p" "x = None \<longrightarrow> published_or_cancelled (pl_status p)"
      "validate_playback_batch_payload read clk data p i pid s = Inr n"
    by (auto simp: bind_result_Inr_iff split: option.split_asm)
  have "nb_id n = i" "nb_playlist n = pid"
    using *(4) by (auto simp: validate_playback_batch_payload_def bind_result_Inr_iff Let_def)
  then show "x = lookup_by pb_id (nb_id n) (playback_batches s)" and "x = Some b \<Longrightarrow> pb_device b = dv_id d"
    and "dv_status d \<noteq> Disabled"
    and "\<exists>p. find_playlist (nb_playlist n) s = Some p \<and> (x = None \<longrightarrow> published_or_cancelled (pl_status p))
      \<and> validate_playback_batch_payload read clk data p (nb_id n) (nb_playlist n) s = Inr n"
    using * st dev by auto
qed

lemma playback_batch_submit:
  assumes "playback_checks read clk d data s = Inr (x, n)"
  shows "playback_batch read clk r now (\<lambda>x. x) d data s =
     submit_batch (r, now, map_option da_id (assignment_at (dv_id d) (nb_loop_started n) s), dv_id d, n) s"
proof (cases x)
  case None
  then show ?thesis using playback_checks_Inr(1) [OF assms] assms by (simp add: playback_batch_def)
next
  case (Some b)
  then show ?thesis using playback_checks_Inr(1,2) [OF assms] assms by (simp add: playback_batch_def)
qed

lemma payload_events:
  assumes "validate_playback_batch_payload read clk data p i pid s = Inr n"
  shows "playlist_entries (pl_id p) s \<noteq> []" and "distinct (map se_id (nb_events n))" and "distinct (map se_item (nb_events n))"
    and "set (map se_item (nb_events n)) = set (entry_ids (playlist_entries (pl_id p) s))"
    and "e \<in> set (nb_events n) \<Longrightarrow> \<exists>now1 now2 j k. validate_event read now1 now2 j (playlist_entries (pl_id p) s) k
           (nb_loop_started n) (nb_loop_ended n) = Inr e"
    and "nb_loop_started n \<le> nb_loop_ended n" and "pl_starts_at p - playback_tolerance \<le> nb_loop_started n"
proof -
  obtain raw where m: "map_result (\<lambda>(i, e). validate_event read (clk (2 * i + 2)) (clk (2 * i + 3)) e
      (playlist_entries (pl_id p) s) i (nb_loop_started n) (nb_loop_ended n)) (List.enumerate 0 raw) = Inr (nb_events n)"
    and *: "playlist_entries (pl_id p) s \<noteq> []" "distinct (map se_id (nb_events n))" "distinct (map se_item (nb_events n))"
     "set (map se_item (nb_events n)) = set (entry_ids (playlist_entries (pl_id p) s))"
    and l: "loop_times read clk data p = Inr (nb_loop_started n, nb_loop_ended n)"
    using assms by (auto simp: validate_playback_batch_payload_def bind_result_Inr_iff Let_def split: prod.splits)
  show "playlist_entries (pl_id p) s \<noteq> []" "distinct (map se_id (nb_events n))" "distinct (map se_item (nb_events n))"
     "set (map se_item (nb_events n)) = set (entry_ids (playlist_entries (pl_id p) s))" by (fact *)+
  show "\<exists>now1 now2 j k. validate_event read now1 now2 j (playlist_entries (pl_id p) s) k
           (nb_loop_started n) (nb_loop_ended n) = Inr e" if e: "e \<in> set (nb_events n)"
  proof -
    obtain x where x: "(case x of (i, e) \<Rightarrow> validate_event read (clk (2 * i + 2)) (clk (2 * i + 3)) e
      (playlist_entries (pl_id p) s) i (nb_loop_started n) (nb_loop_ended n)) = Inr e"
      using map_result_mem [OF m e] by blast
    obtain k j where "x = (k, j)" by (cases x) blast
    with x have "validate_event read (clk (2 * k + 2)) (clk (2 * k + 3)) j
      (playlist_entries (pl_id p) s) k (nb_loop_started n) (nb_loop_ended n) = Inr e" by (simp only: prod.case)
    then show ?thesis by blast
  qed
  show "nb_loop_started n \<le> nb_loop_ended n" "pl_starts_at p - playback_tolerance \<le> nb_loop_started n"
    using l by (auto simp: loop_times_def bind_result_Inr_iff playback_tolerance_def)
qed

text \<open>An accepted event is about an entry of the playlist, lies in the loop up to the tolerance, and
  claims no more playing time than its timestamps leave room for.\<close>

definition event_sound :: "entries \<Rightarrow> time \<Rightarrow> time \<Rightarrow> submitted_event \<Rightarrow> bool" where
  "event_sound items loop_start loop_end e = (case entry (se_item e) items of
     None \<Rightarrow> False
   | Some (i, m) \<Rightarrow>
       loop_start - playback_tolerance \<le> se_started e \<and> se_started e \<le> loop_end + playback_tolerance
       \<and> 0 \<le> se_duration e \<and> se_duration e \<le> max_playback_event_duration \<and> length (se_failure e) \<le> 64
       \<and> (case se_ended e of None \<Rightarrow> se_status e \<noteq> Completed
          | Some t \<Rightarrow> se_started e \<le> t \<and> loop_start - playback_tolerance \<le> t \<and> t \<le> loop_end + playback_tolerance
              \<and> se_duration e \<le> (t - se_started e) div 1000 + 5000)
       \<and> (se_status e = Completed \<longrightarrow> se_failure e = [] \<and>
            \<bar>se_duration e - ma_duration_ms m\<bar> \<le> (if ma_kind m = Video then 500 else 0))
       \<and> (se_status e \<noteq> Completed \<longrightarrow> se_failure e \<in> set (failure_reasons (se_status e))))"

lemma timestamp_bound:
  assumes "duration \<le> max_playback_event_duration" and "0 \<le> us" and "duration \<le> total_milliseconds us + 5000"
  shows "duration \<le> us div 1000 + 5000"
proof (cases "us < 2 ^ 49")
  case True
  then show ?thesis using total_milliseconds_le [OF assms(2)] assms(3) by simp
next
  case False
  then have "2 ^ 49 div 1000 \<le> us div 1000" by (intro zdiv_mono1) auto
  then show ?thesis using assms(1) by (simp add: max_playback_event_duration_def)
qed

lemma validate_event_sound:
  assumes "validate_event read now1 now2 j items k loop_start loop_end = Inr e"
  shows "event_sound items loop_start loop_end e"
proof -
  obtain ev where j: "j = JObj ev" using assms by (cases j) (simp_all add: validate_event_def Let_def)
  define loc where "loc = ''events['' @ int_str (int k) @ '']''"
  obtain m where ids: "event_ids ev items loc = Inr (se_id e, se_item e, m)"
    and st: "event_status ev loc = Inr (se_status e)" and du: "event_duration ev loc = Inr (se_duration e)"
    and ti: "event_times read now1 now2 ev loc loop_start loop_end = Inr (se_started e, se_ended e)"
    and fa: "event_failure_reason ev loc = Inr (se_failure e)"
    and oc: "outcome_checks (se_status e) m (se_duration e) (se_ended e) (se_failure e) loc = Inr ()"
    and ms: "case se_ended e of None \<Rightarrow> True | Some t \<Rightarrow> se_duration e \<le> total_milliseconds (t - se_started e) + 5000"
    using assms unfolding validate_event_def j loc_def [symmetric]
    by (auto simp: bind_result_Inr_iff simp del: append.simps cong: option.case_cong)
  obtain i where en: "entry (se_item e) items = Some (i, m)"
    using ids by (auto simp: event_ids_def bind_result_Inr_iff split: option.splits)
  have d: "0 \<le> se_duration e \<and> se_duration e \<le> max_playback_event_duration"
    using du unfolding event_duration_def Let_def bind_result_Inr_iff
  proof (elim exE conjE)
    fix v
    assume "(case v of JInt n \<Rightarrow> if 0 \<le> n \<and> n \<le> max_playback_event_duration then Inr n
        else Inl (ValidationError (loc @ ''.duration_ms'') ''Use an integer between 0 and 2147483647.'')
      | _ \<Rightarrow> Inl (ValidationError (loc @ ''.duration_ms'') ''Use an integer between 0 and 2147483647.'')) = Inr (se_duration e)"
    then show ?thesis by (cases v) (auto split: if_splits)
  qed
  have f: "length (se_failure e) \<le> 64"
    using fa by (auto simp: event_failure_reason_def Let_def split: json.split_asm if_splits)
  have t: "loop_start - playback_tolerance \<le> se_started e" "se_started e \<le> loop_end + playback_tolerance"
    "\<And>x. se_ended e = Some x \<Longrightarrow> se_started e \<le> x \<and> loop_start - playback_tolerance \<le> x \<and> x \<le> loop_end + playback_tolerance"
    using ti by (auto simp: event_times_def bind_result_Inr_iff outside_def playback_tolerance_def)
  have "se_duration e \<le> (x - se_started e) div 1000 + 5000" if "se_ended e = Some x" for x
    using timestamp_bound [OF d [THEN conjunct2], of "x - se_started e"] ms t(3) [OF that] that by simp
  then show ?thesis
    using en d f t oc
    by (auto simp: event_sound_def outcome_checks_def bind_result_Inr_iff Let_def split: option.splits if_splits)
qed

subsection \<open>Properties\<close>

text \<open>C6: Accepted playback evidence is complete and plausible. The batch is stored with one event for
  each entry of a published or cancelled playlist, in whatever order they were sent; every event
  lies within the loop up to five seconds, a completed one played the length of its medium and
  ended, any other gives a recognised reason, and none claims more time than its timestamps leave;
  the batch is booked on the assignment in force when the loop started. Every other answer leaves
  the database alone, and the answer for a duplicate is given only if exactly this evidence of
  this device is stored, also when a concurrent request stored it first.\<close>
theorem playback_evidence_complete:
  assumes "playback_batch read clk received now others d data s = (res, t)"
  shows "(res = Inr False \<longrightarrow> (\<exists>n p b. playback_checks read clk d data s = Inr (None, n)
        \<and> dv_status d \<noteq> Disabled \<and> find_playlist (nb_playlist n) s = Some p \<and> published_or_cancelled (pl_status p)
        \<and> pl_starts_at p - playback_tolerance \<le> nb_loop_started n \<and> nb_loop_started n \<le> nb_loop_ended n
        \<and> nb_events n \<noteq> [] \<and> distinct (map se_item (nb_events n))
        \<and> set (map se_item (nb_events n)) = set (entry_ids (playlist_entries (pl_id p) s))
        \<and> list_all (event_sound (playlist_entries (pl_id p) s) (nb_loop_started n) (nb_loop_ended n)) (nb_events n)
        \<and> playback_batches t = playback_batches (others s) @ [b] \<and> pb_id b = nb_id n \<and> pb_device b = dv_id d
        \<and> pb_playlist b = nb_playlist n
        \<and> pb_assignment b = map_option da_id (assignment_at (dv_id d) (nb_loop_started n) s)
        \<and> playback_events t = playback_events (others s) @ map (event_row (nb_id n)) (nb_events n)))
    \<and> (res \<noteq> Inr False \<longrightarrow> t = s \<or> t = others s)
    \<and> (res = Inr True \<longrightarrow> (\<exists>x n b. playback_checks read clk d data s = Inr (x, n) \<and> b \<in> set (playback_batches t)
        \<and> pb_id b = nb_id n \<and> pb_device b = dv_id d \<and> playback_batch_matches b n t))"
proof (cases "playback_checks read clk d data s")
  case (Inl e)
  then show ?thesis using assms by (auto simp: playback_batch_def)
next
  case (Inr p)
  obtain x n where c: "playback_checks read clk d data s = Inr (x, n)" using Inr by (cases p) simp
  show ?thesis
  proof (cases x)
    case (Some b)
    have b: "b \<in> set (playback_batches s)" "pb_id b = nb_id n" "pb_device b = dv_id d"
      using lookup_by_SomeD [OF playback_checks_Inr(1) [OF c, unfolded Some, symmetric]] playback_checks_Inr(2) [OF c Some] by auto
    have r: "res = answer_existing b n s" "t = s" using assms c Some by (auto simp: playback_batch_def)
    show ?thesis using b c unfolding r answer_existing_def by auto
  next
    case None
    let ?a = "map_option da_id (assignment_at (dv_id d) (nb_loop_started n) s)"
    have cr: "create_batch received now (dv_id d) ?a n (others s) = (res, t)"
      using assms c None by (simp add: playback_batch_def)
    show ?thesis
    proof (cases rule: create_batch_cases [of received now "dv_id d" ?a n "others s"])
      case (stored u)
      then have ut: "res = Inr False" "store_batch received now (dv_id d) ?a n (others s) = Inr t" using cr by auto
      obtain p where p: "find_playlist (nb_playlist n) s = Some p" "published_or_cancelled (pl_status p)"
        and v: "validate_playback_batch_payload read clk data p (nb_id n) (nb_playlist n) s = Inr n"
        using playback_checks_Inr(4) [OF c] None by blast
      have "list_all (event_sound (playlist_entries (pl_id p) s) (nb_loop_started n) (nb_loop_ended n)) (nb_events n)"
        unfolding list_all_iff using payload_events(5) [OF v] validate_event_sound by blast
      moreover have "nb_events n \<noteq> []" using payload_events(1,4) [OF v] by (auto simp: entry_ids_def)
      ultimately show ?thesis
        using c None p payload_events(3,4,6,7) [OF v] playback_checks_Inr(3) [OF c] store_batch_Inr(4,5) [OF ut(2)] ut(1)
        by fastforce
    next
      case (duplicate b)
      then have "res = Inr True" "t = others s" "b \<in> set (playback_batches t)" "pb_id b = nb_id n"
        using cr by (auto dest: lookup_by_SomeD)
      then show ?thesis using c duplicate by blast
    next
      case (refused e)
      then show ?thesis using cr by simp
    qed
  qed
qed

text \<open>C7: Playback batches may be sent again and again. Once a batch was acknowledged, and whatever other
  batches were submitted since, the same device sending the same identifier gets the answer for a
  duplicate if the evidence is the same and an error if it is not; neither changes the database, and
  another device with that identifier is refused.\<close>
theorem playback_idempotent:
  assumes "playback_batch read clk received now (\<lambda>x. x) d data s = (Inr b, t)" and "evidence_ok s"
    and "list_all submission_wf es" and "u = fold (\<lambda>e s. snd (submit_batch e s)) es t"
  shows "\<exists>x n. playback_checks read clk d data s = Inr (x, n) \<and>
    (\<forall>read2 clk2 r2 now2 others d2 data2 x2 n2.
       playback_checks read2 clk2 d2 data2 u = Inr (x2, n2) \<and> nb_id n2 = nb_id n \<longrightarrow>
       dv_id d2 = dv_id d \<and> snd (playback_batch read2 clk2 r2 now2 others d2 data2 u) = u \<and>
       (fst (playback_batch read2 clk2 r2 now2 others d2 data2 u) = Inr True \<longleftrightarrow> same_batch n n2))"
proof -
  obtain x n where c: "playback_checks read clk d data s = Inr (x, n)"
    using assms(1) by (auto simp: playback_batch_def split: sum.splits)
  define e where "e = (received, now, map_option da_id (assignment_at (dv_id d) (nb_loop_started n) s), dv_id d, n)"
  have wf: "submission_wf e"
    using playback_checks_Inr(4) [OF c] payload_events(2) by (auto simp: e_def)
  have sub: "submit_batch e s = (Inr b, t)" using playback_batch_submit [OF c] assms(1) by (simp add: e_def)
  have ok: "evidence_ok t" "submission_stored e t"
    using playback_store.submit_ok [OF assms(2) wf] playback_store.submit_stores [OF assms(2) wf, of b] sub by auto
  have oku: "evidence_ok u" and su: "submission_stored e u"
    using playback_store.run_ok [OF ok(1) assms(3)] playback_store.run_keeps [OF ok(1) assms(3) ok(2)] assms(4) by auto
  then obtain q where q: "lookup_by pb_id (nb_id n) (playback_batches u) = Some q" "pb_device q = dv_id d" "playback_batch_matches q n u"
    by (auto simp: e_def split: option.splits)
  have dist: "distinct (map pe_id (playback_events u))" using oku by (simp add: evidence_ok_def)
  have "dv_id d2 = dv_id d \<and> playback_batch read2 clk2 r2 now2 others d2 data2 u = (answer_existing q n2 u, u)"
    if "playback_checks read2 clk2 d2 data2 u = Inr (x2, n2)" "nb_id n2 = nb_id n" for read2 clk2 r2 now2 others d2 data2 x2 n2
    using playback_checks_Inr(1,2) [OF that(1)] that q(1,2) by (simp add: playback_batch_def)
  moreover have "answer_existing q n2 u = Inr True \<longleftrightarrow> same_batch n n2" for n2
  proof -
    have "event_row (pb_id q) ` set (nb_events n2) = event_row (pb_id q) ` set (nb_events n) \<longleftrightarrow> set (nb_events n2) = set (nb_events n)"
      by (simp add: inj_image_eq_iff inj_def event_row_inj)
    then show ?thesis
      using q(3) unfolding answer_existing_def matches_iff [OF dist] same_batch_def by auto
  qed
  ultimately show ?thesis using c by (intro exI [of _ x] exI [of _ n]) auto
qed

subsection \<open>Witnesses\<close>

definition play_db :: db where
  "play_db = fleet_db\<lparr>media_assets := [\<lparr>ma_id = 11, ma_business_name = [], ma_title = [], ma_kind = Image, ma_status = Ready,
      ma_source_file = [], ma_normalized_file = [], ma_sha256 = [], ma_mime_type = [], ma_file_size = 1, ma_duration_ms = 15000,
      ma_width = None, ma_height = None, ma_rejection_reason = [], ma_uploaded_by = 1, ma_archived_at = None,
      ma_dispatch_attempts = 0, ma_last_dispatch_attempt_at = None, ma_dispatched_at = None, ma_processing_attempts = 0,
      ma_processing_token = None, ma_processing_started_at = None, ma_processing_lease_expires_at = None,
      ma_processing_finished_at = None, ma_created_at = 0\<rparr>],
    playlists := [\<lparr>pl_id = 5, pl_name = ''P'', pl_version = 1, pl_status = Published, pl_starts_at = 0, pl_ends_at = 900000000,
      pl_published_at = Some 0, pl_is_urgent = False, pl_created_by = 1, pl_superseded_by = None\<rparr>],
    playlist_items := [\<lparr>pi_id = 6, pi_playlist = 5, pi_media = 11, pi_position = 1\<rparr>]\<rparr>"

definition play_device :: device where
  "play_device = hd (devices play_db)"

definition play_reader :: datetime_reader where
  "play_reader x = (if x = ''a'' then Some (Aware 10000000) else if x = ''b'' then Some (Aware 25000000) else None)"

definition play_request :: payload where
  "play_request = [(''id'', JStr (uuid_str 9)), (''playlist_id'', JStr (uuid_str 5)), (''loop_started_at'', JStr ''a''),
     (''loop_ended_at'', JStr ''b''), (''captured_offline'', JBool True),
     (''events'', JArr [JObj [(''id'', JStr (uuid_str 10)), (''playlist_item_id'', JStr (uuid_str 6)),
        (''status'', JStr ''completed''), (''duration_ms'', JInt 15000), (''started_at'', JStr ''a''), (''ended_at'', JStr ''b'')]])]"

definition play_once :: "db \<Rightarrow> bool result \<times> db" where
  "play_once s = playback_batch play_reader (\<lambda>i. 30000000) 30000000 30000000 (\<lambda>x. x) play_device play_request s"

definition played_db :: db where
  "played_db = snd (play_once play_db)"

lemma play_once_ok: "play_once play_db = (Inr False, played_db)"
proof -
  have "fst (play_once play_db) = Inr False" by code_simp
  then show ?thesis by (simp add: played_db_def prod_eq_iff)
qed

theorem playback_evidence_complete_witness:
  "\<exists>b. playback_batches played_db = playback_batches play_db @ [b] \<and> pb_id b = 9"
proof -
  obtain n b where "playback_checks play_reader (\<lambda>i. 30000000) play_device play_request play_db = Inr (None, n)"
    and b: "playback_batches played_db = playback_batches play_db @ [b]" "pb_id b = nb_id n"
    using playback_evidence_complete [OF play_once_ok [unfolded play_once_def]] by blast
  moreover have "(case playback_checks play_reader (\<lambda>i. 30000000) play_device play_request play_db of
      Inl e \<Rightarrow> False | Inr p \<Rightarrow> nb_id (snd p) = 9)" by code_simp
  ultimately show ?thesis by auto
qed

theorem playback_idempotent_witness:
  "play_once played_db = (Inr True, played_db)"
proof -
  have ok: "evidence_ok play_db" by code_simp
  have wf: "list_all submission_wf []" by simp
  have u: "played_db = fold (\<lambda>e s. snd (submit_batch e s)) [] played_db" by simp
  define sel where "sel r = (case r of Inl e \<Rightarrow> None | Inr p \<Rightarrow> Some (snd p))" for r :: "(playback_batch_row option \<times> normalized_batch) result"
  have "sel (playback_checks play_reader (\<lambda>i. 30000000) play_device play_request play_db) \<noteq> None"
    and "sel (playback_checks play_reader (\<lambda>i. 30000000) play_device play_request play_db)
       = sel (playback_checks play_reader (\<lambda>i. 30000000) play_device play_request played_db)"
    unfolding sel_def by code_simp+
  then obtain x n x2 where c: "playback_checks play_reader (\<lambda>i. 30000000) play_device play_request play_db = Inr (x, n)"
      "playback_checks play_reader (\<lambda>i. 30000000) play_device play_request played_db = Inr (x2, n)"
    by (auto simp: sel_def split: sum.splits)
  have r: "snd (play_once played_db) = played_db \<and> (fst (play_once played_db) = Inr True \<longleftrightarrow> same_batch n n)"
    using playback_idempotent [OF play_once_ok [unfolded play_once_def] ok wf u] c unfolding play_once_def by fastforce
  moreover have "same_batch n n" by (simp add: same_batch_def)
  ultimately show ?thesis by (metis prod.collapse)
qed

end
