(* ===== verification/Py_Url.thy ===== *)
theory Py_Url
  imports Py_Std
begin

section \<open>URLs and addresses as the standard library reads them\<close>

text \<open>
  \<open>urllib.parse.urlsplit\<close> of Python 3.12 with the attributes of its result, and the syntax checks
  of \<open>ipaddress.ip_address\<close>. \<open>None\<close> stands for a \<open>ValueError\<close>. The check of host names against
  compatibility forms is empty for the first 256 code points, over which text is modelled.
\<close>

subsection \<open>Addresses\<close>

definition is_octet :: "string \<Rightarrow> bool" where
  "is_octet s = (s \<noteq> [] \<and> list_all (\<lambda>c. dec_digit c \<noteq> None) s \<and> length s \<le> 3
     \<and> (s = ''0'' \<or> hd s \<noteq> CHR ''0'')
     \<and> (case parse_digits dec_digit 10 0 False s of None \<Rightarrow> False | Some n \<Rightarrow> n \<le> 255))"

definition is_ipv4 :: "string \<Rightarrow> bool" where
  "is_ipv4 s = (let octets = split_on (CHR ''.'') s in length octets = 4 \<and> list_all is_octet octets)"

definition is_hextet :: "string \<Rightarrow> bool" where
  "is_hextet s = (s \<noteq> [] \<and> list_all (\<lambda>c. hex_digit c \<noteq> None) s \<and> length s \<le> 4)"

definition partition_at :: "char \<Rightarrow> string \<Rightarrow> string \<times> bool \<times> string" where
  "partition_at c s = (takeWhile (\<lambda>x. x \<noteq> c) s, c \<in> set s, drop 1 (dropWhile (\<lambda>x. x \<noteq> c) s))"

text \<open>The last component of \<open>s.rpartition(c)\<close>, and the first one when \<open>c\<close> occurs.\<close>

definition after_last :: "char \<Rightarrow> string \<Rightarrow> string" where
  "after_last c s = rev (takeWhile (\<lambda>x. x \<noteq> c) (rev s))"

definition before_last :: "char \<Rightarrow> string \<Rightarrow> string" where
  "before_last c s = rev (drop 1 (dropWhile (\<lambda>x. x \<noteq> c) (rev s)))"

definition ipv6_groups :: "string \<Rightarrow> string list option" where
  "ipv6_groups s = (let parts = split_on (CHR '':'') s in
     if s = [] \<or> length parts < 3 then None
     else if CHR ''.'' \<in> set (last parts)
       then (if is_ipv4 (last parts) then Some (butlast parts @ [''0'', ''0'']) else None)
     else Some parts)"

definition is_ipv6 :: "string \<Rightarrow> bool" where
  "is_ipv6 text = (let (addr, scoped, scope) = partition_at (CHR ''%'') text in
     CHR ''/'' \<notin> set text \<and> (scoped \<longrightarrow> scope \<noteq> [] \<and> CHR ''%'' \<notin> set scope)
     \<and> (case ipv6_groups addr of None \<Rightarrow> False
        | Some parts \<Rightarrow>
           (let n = length parts; gaps = filter (\<lambda>i. parts ! i = []) [1..<n - 1] in
            n \<le> 9 \<and>
            (case gaps of
               [] \<Rightarrow> n = 8 \<and> list_all is_hextet parts
             | [k] \<Rightarrow>
                (let hi = (if parts ! 0 = [] then k - 1 else k);
                     lo = (if parts ! (n - 1) = [] then n - k - 2 else n - k - 1)
                 in (parts ! 0 = [] \<longrightarrow> hi = 0) \<and> (parts ! (n - 1) = [] \<longrightarrow> lo = 0) \<and> hi + lo < 8
                    \<and> list_all is_hextet (take hi parts) \<and> list_all is_hextet (drop (n - lo) parts))
             | _ \<Rightarrow> False))))"

subsection \<open>Splitting\<close>

record split_url =
  su_scheme :: string
  su_netloc :: string
  su_path :: string
  su_query :: string
  su_fragment :: string

definition is_ascii_alpha :: "char \<Rightarrow> bool" where
  "is_ascii_alpha c = (let n = (of_char c :: nat) in (65 \<le> n \<and> n \<le> 90) \<or> (97 \<le> n \<and> n \<le> 122))"

definition is_ascii_digit :: "char \<Rightarrow> bool" where
  "is_ascii_digit c = (let n = (of_char c :: nat) in 48 \<le> n \<and> n \<le> 57)"

definition is_scheme_char :: "char \<Rightarrow> bool" where
  "is_scheme_char c = (is_ascii_alpha c \<or> is_ascii_digit c \<or> c \<in> set ''+-.'')"

text \<open>Leading control characters and spaces go, tabs and line breaks go everywhere.\<close>

definition clean_url :: "string \<Rightarrow> string" where
  "clean_url url = filter (\<lambda>c. (of_char c :: nat) \<notin> {9, 10, 13}) (dropWhile (\<lambda>c. (of_char c :: nat) \<le> 32) url)"

definition split_scheme :: "string \<Rightarrow> string \<times> string" where
  "split_scheme url = (let pre = takeWhile (\<lambda>c. c \<noteq> CHR '':'') url in
     if CHR '':'' \<in> set url \<and> pre \<noteq> [] \<and> is_ascii_alpha (hd pre) \<and> list_all is_scheme_char pre
     then (lower pre, drop (length pre + 1) url) else ([], url))"

definition is_delim :: "char \<Rightarrow> bool" where
  "is_delim c = (c \<in> set ''/?#'')"

definition split_netloc :: "string \<Rightarrow> string \<times> string" where
  "split_netloc url = (if take 2 url = ''//'' then
       (takeWhile (\<lambda>c. \<not> is_delim c) (drop 2 url), dropWhile (\<lambda>c. \<not> is_delim c) (drop 2 url))
     else ([], url))"

definition ipv_future :: "string \<Rightarrow> bool" where
  "ipv_future s = (case s of [] \<Rightarrow> False | v # t \<Rightarrow>
     v = CHR ''v'' \<and> (let (ver, dot, rest) = partition_at (CHR ''.'') t in
        dot \<and> ver \<noteq> [] \<and> list_all (\<lambda>c. hex_digit c \<noteq> None) ver \<and> rest \<noteq> []))"

definition bracketed_host_ok :: "string \<Rightarrow> bool" where
  "bracketed_host_ok h = (if startswith h ''v'' then ipv_future h else \<not> is_ipv4 h \<and> is_ipv6 h)"

definition open_bracket :: char where
  "open_bracket = CHR ''[''"

definition close_bracket :: char where
  "close_bracket = CHR '']''"

definition bracketed_netloc_ok :: "string \<Rightarrow> bool" where
  "bracketed_netloc_ok netloc =
     (let hp = after_last (CHR ''@'') netloc; (front, opened, bracketed) = partition_at open_bracket hp in
      if opened then
        (let (host, closed, port) = partition_at close_bracket bracketed in
         front = [] \<and> (port = [] \<or> startswith port '':'') \<and> bracketed_host_ok host)
      else bracketed_host_ok (fst (partition_at (CHR '':'') hp)))"

definition urlsplit :: "string \<Rightarrow> split_url option" where
  "urlsplit url =
     (let (scheme, u1) = split_scheme (clean_url url); (netloc, u2) = split_netloc u1;
          (u3, f, fragment) = partition_at (CHR ''#'') u2; (path, q, query) = partition_at (CHR ''?'') u3
      in if (open_bracket \<in> set netloc) \<noteq> (close_bracket \<in> set netloc) then None
         else if open_bracket \<in> set netloc \<and> \<not> bracketed_netloc_ok netloc then None
         else Some \<lparr>su_scheme = scheme, su_netloc = netloc, su_path = path, su_query = query, su_fragment = fragment\<rparr>)"

subsection \<open>The parts of the network location\<close>

definition hostinfo :: "split_url \<Rightarrow> string \<times> string" where
  "hostinfo u = (let hp = after_last (CHR ''@'') (su_netloc u); (front, opened, bracketed) = partition_at open_bracket hp in
     if opened then (let (host, closed, rest) = partition_at close_bracket bracketed in
                     (host, snd (snd (partition_at (CHR '':'') rest))))
     else (let (host, colon, port) = partition_at (CHR '':'') hp in (host, port)))"

definition url_hostname :: "split_url \<Rightarrow> string option" where
  "url_hostname u = (let h = fst (hostinfo u); (name, percent, zone) = partition_at (CHR ''%'') h in
     if h = [] then None else Some (lower name @ (if percent then ''%'' else []) @ zone))"

text \<open>The outer option is the \<open>ValueError\<close> of a bad port.\<close>

definition url_port :: "split_url \<Rightarrow> int option option" where
  "url_port u = (let port = snd (hostinfo u) in
     if port = [] then Some None
     else if list_all is_ascii_digit port
       then (case parse_digits dec_digit 10 0 False port of
               None \<Rightarrow> None | Some n \<Rightarrow> if n \<le> 65535 then Some (Some n) else None)
     else None)"

definition url_username :: "split_url \<Rightarrow> string option" where
  "url_username u = (if CHR ''@'' \<in> set (su_netloc u)
     then Some (fst (partition_at (CHR '':'') (before_last (CHR ''@'') (su_netloc u)))) else None)"

definition url_password :: "split_url \<Rightarrow> string option" where
  "url_password u = (if CHR ''@'' \<in> set (su_netloc u)
     then (let (name, colon, password) = partition_at (CHR '':'') (before_last (CHR ''@'') (su_netloc u)) in
           if colon then Some password else None)
     else None)"

lemma partition_at_split: "partition_at c s = (a, b, d) \<Longrightarrow> s = (if b then a @ c # d else a) \<and> c \<notin> set a \<and> (\<not> b \<longrightarrow> d = [])"
proof (induction s arbitrary: a b d)
  case Nil
  then show ?case by (simp add: partition_at_def)
next
  case (Cons x s)
  show ?case
  proof (cases "x = c")
    case True
    then show ?thesis using Cons.prems by (auto simp: partition_at_def)
  next
    case False
    obtain a' b' d' where p: "partition_at c s = (a', b', d')" by (metis surj_pair)
    then have "a = x # a'" "b = b'" "d = d'" using Cons.prems False by (auto simp: partition_at_def)
    then show ?thesis using Cons.IH [OF p] False by auto
  qed
qed

lemma after_last_none: "c \<notin> set s \<Longrightarrow> after_last c s = s"
proof -
  assume "c \<notin> set s"
  then have "takeWhile (\<lambda>x. x \<noteq> c) (rev s) = rev s" by (auto simp: takeWhile_eq_all_conv)
  then show ?thesis by (simp only: after_last_def rev_rev_ident)
qed

lemma lower_append: "lower (a @ b) = lower a @ lower b"
  by (simp add: lower_def)

lemma lower_Nil [simp]: "lower [] = []" "lower s = [] \<longleftrightarrow> s = []"
  by (simp_all add: lower_def)

end
