(* ===== verification/Sync.thy ===== *)
theory Sync
  imports Enrollment Playback Py_Url
begin

section \<open>Manifest and application update\<close>

text \<open>
  The media origin and URL checks, \<open>configured_app_update\<close> and the endpoint \<open>sync_manifest\<close> of
  \<open>api.py\<close>. The SHA-256 digest and the storage backend's \<open>url\<close> are arguments; \<open>None\<close> is a backend
  that raises. The device is the one the authentication returned.
\<close>

subsection \<open>The media origin\<close>

definition media_unavailable :: error where
  "media_unavailable = APIException ''Media delivery is unavailable.''"

definition configured_media_origin :: "settings \<Rightarrow> string result" where
  "configured_media_origin st =
     (let domain = lower (strip (st_aws_s3_custom_domain st)) in
      case urlsplit (''https://'' @ domain) of
        None \<Rightarrow> Inl media_unavailable
      | Some parsed \<Rightarrow> (case url_hostname parsed of
            None \<Rightarrow> Inl media_unavailable
          | Some origin \<Rightarrow>
             (let port = (case url_port parsed of None \<Rightarrow> None | Some p \<Rightarrow> p) in
              if su_netloc parsed \<noteq> domain \<or> origin \<noteq> domain \<or> port \<noteq> None \<or> origin = ''localhost''
                 \<or> endswith origin ''.'' \<or> CHR ''.'' \<notin> set origin \<or> is_ipv4 origin \<or> is_ipv6 origin
              then Inl media_unavailable else Inr origin)))"

definition media_url_uses_origin :: "string \<Rightarrow> string \<Rightarrow> bool" where
  "media_url_uses_origin url origin = (case urlsplit url of
       None \<Rightarrow> False
     | Some parsed \<Rightarrow> su_scheme parsed = ''https'' \<and> url_hostname parsed = Some origin \<and> url_port parsed = Some None
         \<and> url_username parsed = None \<and> url_password parsed = None \<and> su_fragment parsed = []
         \<and> startswith (su_path parsed) ''/'')"

subsection \<open>The application update\<close>

record app_update =
  up_version_code :: int
  up_version_name :: string
  up_download_url :: string
  up_sha256 :: string
  up_size_bytes :: int

definition is_ascii_word :: "char \<Rightarrow> bool" where
  "is_ascii_word c = (is_ascii_alpha c \<or> is_ascii_digit c)"

text \<open>\<open>[0-9]+\.[0-9]+\.[0-9]+(?:[-+][0-9A-Za-z.-]+)?\<close>\<close>

definition version_name_ok :: "string \<Rightarrow> bool" where
  "version_name_ok s =
     (let a = takeWhile is_ascii_digit s; r1 = dropWhile is_ascii_digit s;
          b = takeWhile is_ascii_digit (drop 1 r1); r2 = dropWhile is_ascii_digit (drop 1 r1);
          c = takeWhile is_ascii_digit (drop 1 r2); r3 = dropWhile is_ascii_digit (drop 1 r2)
      in a \<noteq> [] \<and> startswith r1 ''.'' \<and> b \<noteq> [] \<and> startswith r2 ''.'' \<and> c \<noteq> []
         \<and> (r3 = [] \<or> (hd r3 \<in> set ''-+'' \<and> tl r3 \<noteq> []
                \<and> list_all (\<lambda>x. is_ascii_word x \<or> x \<in> set ''.-'') (tl r3))))"

text \<open>\<open>[0-9a-f]{64}\<close>\<close>

definition sha256_ok :: "string \<Rightarrow> bool" where
  "sha256_ok s = (length s = 64 \<and> list_all (\<lambda>c. c \<in> set ''0123456789abcdef'') s)"

text \<open>\<open>updates/[A-Za-z0-9._/-]+\.apk\<close>\<close>

definition storage_name_ok :: "string \<Rightarrow> bool" where
  "storage_name_ok s = (startswith s ''updates/'' \<and> endswith s ''.apk'' \<and> 13 \<le> length s
     \<and> list_all (\<lambda>x. is_ascii_word x \<or> x \<in> set ''._/-'') (drop 8 (take (length s - 4) s)))"

definition update_misconfigured :: error where
  "update_misconfigured = APIException ''Application update configuration is unavailable.''"

definition update_undeliverable :: error where
  "update_undeliverable = APIException ''Application update delivery is unavailable.''"

definition rollout_bucket :: "(string \<Rightarrow> string) \<Rightarrow> id \<Rightarrow> int result" where
  "rollout_bucket sha pk = (case parse_int16 (take 8 (sha (''duducar-app-update-v1:'' @ uuid_str pk))) of
       None \<Rightarrow> Inl (ServerError ''invalid literal for int'') | Some n \<Rightarrow> Inr (n mod 100))"

definition configured_app_update ::
  "settings \<Rightarrow> (string \<Rightarrow> string) \<Rightarrow> (string \<Rightarrow> string option) \<Rightarrow> device \<Rightarrow> app_update option result" where
  "configured_app_update st sha storage_url d =
     (let code = st_app_update_version_code st in
      if code = 0 then
        (if st_app_update_version_name st \<noteq> [] \<or> st_app_update_storage_name st \<noteq> [] \<or> st_app_update_sha256 st \<noteq> []
            \<or> st_app_update_size_bytes st \<noteq> 0 \<or> st_app_update_rollout_percent st \<noteq> 0
         then Inl update_misconfigured else Inr None)
      else
        bind_result (require (1 \<le> code \<and> code \<le> 2147483647) update_misconfigured) (\<lambda>u1.
        bind_result (require (version_name_ok (st_app_update_version_name st)) update_misconfigured) (\<lambda>u2.
        bind_result (require (sha256_ok (st_app_update_sha256 st)) update_misconfigured) (\<lambda>u3.
        bind_result (require (1 \<le> st_app_update_size_bytes st \<and> st_app_update_size_bytes st \<le> 200 * 1024 * 1024) update_misconfigured) (\<lambda>u4.
        bind_result (require (1 \<le> st_app_update_rollout_percent st \<and> st_app_update_rollout_percent st \<le> 100) update_misconfigured) (\<lambda>u5.
        bind_result (require (storage_name_ok (st_app_update_storage_name st)) update_misconfigured) (\<lambda>u6.
        bind_result (rollout_bucket sha (dv_id d)) (\<lambda>bucket.
        if st_app_update_rollout_percent st \<le> bucket then Inr None else
        (case storage_url (st_app_update_storage_name st) of
           None \<Rightarrow> Inl update_undeliverable
         | Some url \<Rightarrow>
            bind_result (if production st
                then bind_result (configured_media_origin st) (\<lambda>origin. require (media_url_uses_origin url origin) update_undeliverable)
                else Inr ()) (\<lambda>u7.
            Inr (Some \<lparr>up_version_code = code, up_version_name = st_app_update_version_name st, up_download_url = url,
                  up_sha256 = st_app_update_sha256 st, up_size_bytes = st_app_update_size_bytes st\<rparr>)))))))))))"

subsection \<open>The manifest\<close>

record manifest_item =
  mi_entry :: id
  mi_position :: int
  mi_media :: id
  mi_kind :: media_kind
  mi_sha256 :: string
  mi_size_bytes :: int
  mi_duration_ms :: int
  mi_download_url :: string

record manifest_playlist =
  mp_id :: id
  mp_name :: string
  mp_version :: int
  mp_urgent :: bool
  mp_starts_at :: time
  mp_ends_at :: time
  mp_required_app_version :: string
  mp_media_cache_bytes :: int
  mp_event_queue_bytes :: int
  mp_minimum_free_bytes :: int
  mp_media_origin :: string
  mp_items :: "manifest_item list"

datatype sync_mode = Maintenance | Fallback | Play manifest_playlist

record sync_response =
  sr_mode :: sync_mode
  sr_pin_verifier :: string
  sr_app_update :: "app_update option"
  sr_next_transition :: "time option"

definition manifest_entry :: "(string \<Rightarrow> string option) \<Rightarrow> string \<Rightarrow> playlist_item \<times> media_asset \<Rightarrow> manifest_item result" where
  "manifest_entry storage_url origin x =
     (case x of (i, m) \<Rightarrow>
      if ma_status m \<noteq> Ready \<or> ma_normalized_file m = []
      then Inl (APIException ''Published playlist contains unavailable media.'')
      else (case storage_url (ma_normalized_file m) of
          None \<Rightarrow> Inl (ServerError ''storage backend'')
        | Some url \<Rightarrow>
            if \<not> media_url_uses_origin url origin then Inl media_unavailable
            else Inr \<lparr>mi_entry = pi_id i, mi_position = pi_position i, mi_media = ma_id m, mi_kind = ma_kind m,
                   mi_sha256 = ma_sha256 m, mi_size_bytes = ma_file_size m, mi_duration_ms = ma_duration_ms m,
                   mi_download_url = url\<rparr>))"

definition play_manifest :: "settings \<Rightarrow> (string \<Rightarrow> string option) \<Rightarrow> playlist \<Rightarrow> db \<Rightarrow> manifest_playlist result" where
  "play_manifest st storage_url p s =
     bind_result (configured_media_origin st) (\<lambda>origin.
     bind_result (map_result (manifest_entry storage_url origin) (playlist_entries (pl_id p) s)) (\<lambda>items.
     Inr \<lparr>mp_id = pl_id p, mp_name = pl_name p, mp_version = pl_version p, mp_urgent = pl_is_urgent p,
          mp_starts_at = pl_starts_at p, mp_ends_at = pl_ends_at p, mp_required_app_version = st_required_app_version st,
          mp_media_cache_bytes = st_device_media_cache_bytes st, mp_event_queue_bytes = st_device_event_queue_bytes st,
          mp_minimum_free_bytes = st_device_min_free_bytes st, mp_media_origin = origin, mp_items = items\<rparr>))"

definition mark_successful_sync :: "time \<Rightarrow> id \<Rightarrow> db \<Rightarrow> db" where
  "mark_successful_sync now i s =
     s\<lparr>devices := update_where (\<lambda>x. dv_id x = i) (\<lambda>x. x\<lparr>dv_last_sync_at := Some now\<rparr>) (devices s)\<rparr>"

definition in_maintenance :: "settings \<Rightarrow> device \<Rightarrow> db \<Rightarrow> bool" where
  "in_maintenance st d s =
     (production st \<and> ((dv_status d = Active \<and> \<not> device_matches_qualification d (dv_hardware_model d)
          (dv_hardware_firmware_version d) (dv_hardware_security_patch d) s)
        \<or> dv_app_version d \<noteq> st_required_app_version st))"

definition sync_manifest ::
  "settings \<Rightarrow> (string \<Rightarrow> string) \<Rightarrow> (string \<Rightarrow> string option) \<Rightarrow> clock \<Rightarrow> device \<Rightarrow> db \<Rightarrow> sync_response result \<times> db" where
  "sync_manifest st sha storage_url clk d s =
     (let next_transition = next_playlist_transition_at clk s in
      if dv_status d = Disabled then (Inl (AuthenticationFailed ''Invalid or expired device token.''), s)
      else (case configured_app_update st sha storage_url d of
          Inl e \<Rightarrow> (Inl e, s)
        | Inr update \<Rightarrow>
           (let answer = (\<lambda>mode. \<lparr>sr_mode = mode, sr_pin_verifier = dv_kiosk_pin_hash d, sr_app_update = update,
                            sr_next_transition = next_transition\<rparr>) in
            if in_maintenance st d s then (Inr (answer Maintenance), mark_successful_sync (clk 2) (dv_id d) s)
            else (case active_playlist (clk 2) s of
                None \<Rightarrow> (Inr (answer Fallback), mark_successful_sync (clk 3) (dv_id d) s)
              | Some p \<Rightarrow> (case play_manifest st storage_url p s of
                    Inl e \<Rightarrow> (Inl e, s)
                  | Inr m \<Rightarrow> (Inr (answer (Play m)), mark_successful_sync (clk 3) (dv_id d) s))))))"

subsection \<open>Confinement of URLs\<close>

lemma lower_char_idem [simp]: "lower_char (lower_char c) = lower_char c"
  by (auto simp: lower_char_def Let_def)

lemma lower_idem [simp]: "lower (lower s) = lower s"
  by (simp add: lower_def)

lemma split_scheme_Some:
  assumes "split_scheme url = (scheme, u1)" and "scheme \<noteq> []"
  shows "\<exists>raw. url = raw @ CHR '':'' # u1 \<and> lower raw = scheme"
proof -
  let ?pre = "takeWhile (\<lambda>c. c \<noteq> CHR '':'') url"
  have c: "CHR '':'' \<in> set url" "scheme = lower ?pre" "u1 = drop (length ?pre + 1) url"
    using assms by (auto simp: split_scheme_def Let_def split: if_splits)
  then have "dropWhile (\<lambda>c. c \<noteq> CHR '':'') url \<noteq> []" by (auto simp: dropWhile_eq_Nil_conv)
  then obtain x r where d: "dropWhile (\<lambda>c. c \<noteq> CHR '':'') url = x # r" by (cases "dropWhile (\<lambda>c. c \<noteq> CHR '':'') url") auto
  then have "x = CHR '':''" using hd_dropWhile [of "\<lambda>c. c \<noteq> CHR '':''" url] by simp
  moreover have "url = ?pre @ x # r" using d by (metis takeWhile_dropWhile_id)
  moreover from this have "u1 = r" using c(3) by (metis append_eq_conv_conj drop_drop drop_Suc_Cons drop_0 add.commute plus_1_eq_Suc)
  ultimately show ?thesis using c(2) by metis
qed

lemma take2: "take 2 u = ''//'' \<Longrightarrow> u = ''//'' @ drop 2 u"
  by (metis append_take_drop_id)

lemma urlsplit_https:
  assumes "urlsplit url = Some p" and "su_scheme p = ''https''" and "su_netloc p \<noteq> []"
  shows "\<exists>raw rest. clean_url url = raw @ ''://'' @ su_netloc p @ rest \<and> lower raw = ''https''
    \<and> su_netloc p = takeWhile (\<lambda>c. \<not> is_delim c) (su_netloc p @ rest) \<and> (su_path p \<noteq> [] \<longrightarrow> take 1 rest = take 1 (su_path p))"
proof -
  obtain scheme u1 where s: "split_scheme (clean_url url) = (scheme, u1)" by (metis surj_pair)
  obtain netloc u2 where n: "split_netloc u1 = (netloc, u2)" by (metis surj_pair)
  obtain u3 f fragment where f: "partition_at (CHR ''#'') u2 = (u3, f, fragment)" by (metis surj_pair)
  obtain path q query where q: "partition_at (CHR ''?'') u3 = (path, q, query)" by (metis surj_pair)
  have p: "su_scheme p = scheme" "su_netloc p = netloc" "su_path p = path"
    using assms(1) by (auto simp: urlsplit_def s n f q split: if_splits)
  obtain raw where raw: "clean_url url = raw @ CHR '':'' # u1" "lower raw = scheme"
    using split_scheme_Some [OF s] assms(2) p(1) by auto
  have n2: "take 2 u1 = ''//''" "netloc = takeWhile (\<lambda>c. \<not> is_delim c) (drop 2 u1)" "u2 = dropWhile (\<lambda>c. \<not> is_delim c) (drop 2 u1)"
    using n assms(3) p(2) by (auto simp: split_netloc_def split: if_splits)
  then have nu: "netloc @ u2 = drop 2 u1" by simp
  have u: "u1 = ''//'' @ netloc @ u2" "netloc = takeWhile (\<lambda>c. \<not> is_delim c) (netloc @ u2)"
    using take2 [OF n2(1)] n2(2) unfolding nu by simp_all
  have "path \<noteq> [] \<longrightarrow> take 1 u2 = take 1 path"
    using partition_at_split [OF f] partition_at_split [OF q] by (cases path) (auto split: if_splits)
  then show ?thesis
    using raw u p assms(2) by (intro exI [of _ raw] exI [of _ u2]) auto
qed

lemma hostname_lower:
  assumes "url_hostname p = Some h" and "lower h = h"
  shows "lower (fst (hostinfo p)) = h" and "fst (hostinfo p) \<noteq> []"
proof -
  obtain a b c where pt: "partition_at (CHR ''%'') (fst (hostinfo p)) = (a, b, c)" by (metis surj_pair)
  have h: "fst (hostinfo p) \<noteq> []" "h = lower a @ (if b then ''%'' else []) @ c"
    using assms(1) by (auto simp: url_hostname_def pt split: if_splits)
  have pc: "lower ''%'' = ''%''" by code_simp
  have "lower c = c" using assms(2) h(2) pc by (auto simp: lower_append split: if_splits)
  moreover have "fst (hostinfo p) = a @ (if b then ''%'' else []) @ c" using partition_at_split [OF pt] by (cases b) auto
  ultimately show "lower (fst (hostinfo p)) = h" and "fst (hostinfo p) \<noteq> []" using h pc by (auto simp: lower_append)
qed

text \<open>Without user information and with no port, the network location is the host.\<close>

lemma netloc_host:
  assumes "CHR ''@'' \<notin> set (su_netloc p)" and "snd (hostinfo p) = []"
    and "open_bracket \<in> set (su_netloc p) \<longrightarrow> bracketed_netloc_ok (su_netloc p)"
    and "(open_bracket \<in> set (su_netloc p)) = (close_bracket \<in> set (su_netloc p))"
    and h: "h = fst (hostinfo p)"
  shows "su_netloc p \<in> {h, h @ '':'', open_bracket # h @ [close_bracket], open_bracket # h @ [close_bracket] @ '':''}"
  proof -
  let ?n = "su_netloc p"
  have hp: "after_last (CHR ''@'') ?n = ?n" by (rule after_last_none [OF assms(1)])
  obtain a b c where ab: "partition_at open_bracket ?n = (a, b, c)" by (metis surj_pair)
  note A = partition_at_split [OF ab]
  show ?thesis
  proof (cases b)
    case False
    then have "?n = a" using A by simp
    obtain host colon port where pc: "partition_at (CHR '':'') ?n = (host, colon, port)" by (metis surj_pair)
    have "hostinfo p = (host, port)" using False by (simp add: hostinfo_def Let_def hp ab pc)
    then show ?thesis using h assms(2) partition_at_split [OF pc] by (auto split: if_splits)
  next
    case True
    obtain host closed rest where pc: "partition_at close_bracket c = (host, closed, rest)" by (metis surj_pair)
    note C = partition_at_split [OF pc]
    have "bracketed_netloc_ok ?n" using assms(3) A True by simp
    then have ok: "a = []" "rest = [] \<or> startswith rest '':''"
      unfolding bracketed_netloc_ok_def Let_def hp ab prod.case pc using True by simp_all
    have n: "?n = open_bracket # c" using A True ok(1) by simp
    then have "close_bracket \<in> set c" using assms(4) by (auto simp: open_bracket_def close_bracket_def)
    then have cl: "closed" using pc by (auto simp: partition_at_def)
    obtain x y z where xy: "partition_at (CHR '':'') rest = (x, y, z)" by (metis surj_pair)
    have hi: "hostinfo p = (host, z)" using True by (simp add: hostinfo_def Let_def hp ab pc xy)
    have "rest = [] \<or> rest = '':''"
    proof (cases rest)
      case (Cons r rs)
      then have "r = CHR '':''" using ok(2) by (auto simp: startswith_def)
      then have "x = []" "y" "z = rs" using xy Cons by (auto simp: partition_at_def)
      then show ?thesis using hi assms(2) Cons \<open>r = CHR '':''\<close> by simp
    qed simp
    then show ?thesis using n C cl hi h by auto
  qed
qed

lemma urlsplit_brackets:
  assumes "urlsplit url = Some p"
  shows "(open_bracket \<in> set (su_netloc p)) = (close_bracket \<in> set (su_netloc p))"
    and "open_bracket \<in> set (su_netloc p) \<longrightarrow> bracketed_netloc_ok (su_netloc p)"
  using assms by (auto simp: urlsplit_def Let_def split: prod.splits if_splits)

lemma partition_at_length:
  "partition_at c s = (a, b, d) \<Longrightarrow> length s = length a + (if b then Suc (length d) else 0)"
  using partition_at_split [of c s a b d] by (auto split: if_splits)

lemma hostinfo_length:
  assumes "h = fst (hostinfo p)" and "length (su_netloc p) \<le> length h"
  shows "CHR ''@'' \<notin> set (su_netloc p)" and "CHR '':'' \<notin> set (su_netloc p)" and "open_bracket \<notin> set (su_netloc p)"
proof -
  let ?hp = "after_last (CHR ''@'') (su_netloc p)"
  obtain a b c where ab: "partition_at open_bracket ?hp = (a, b, c)" by (metis surj_pair)
  obtain host closed rest where pc: "partition_at close_bracket c = (host, closed, rest)" by (metis surj_pair)
  obtain host2 colon port where pd: "partition_at (CHR '':'') ?hp = (host2, colon, port)" by (metis surj_pair)
  note P = partition_at_split [OF ab] partition_at_split [OF pc] partition_at_split [OF pd]
  have hp: "length ?hp \<le> length (su_netloc p)"
    using length_takeWhile_le [of "\<lambda>x. x \<noteq> CHR ''@''" "rev (su_netloc p)"] by (simp add: after_last_def)
  have h: "h = (if b then host else host2)" using assms(1) by (simp add: hostinfo_def Let_def ab pc pd)
  note L = partition_at_length [OF ab] partition_at_length [OF pc] partition_at_length [OF pd]
  have "length h \<le> length ?hp" using L h by (cases b) auto
  then have eq: "length ?hp = length (su_netloc p)" using hp assms(2) by simp
  have "takeWhile (\<lambda>x. x \<noteq> CHR ''@'') (rev (su_netloc p)) = rev (su_netloc p)"
    using eq takeWhile_eq_take [of "\<lambda>x. x \<noteq> CHR ''@''" "rev (su_netloc p)"] by (simp add: after_last_def)
  then have at: "\<forall>x\<in>set (su_netloc p). x \<noteq> CHR ''@''" by (simp add: takeWhile_eq_all_conv)
  then show "CHR ''@'' \<notin> set (su_netloc p)" by blast
  then have n: "?hp = su_netloc p" by (rule after_last_none)
  have "\<not> b" using L(1,2) h assms(2) eq by (cases b) auto
  then have nb: "open_bracket \<notin> set (su_netloc p)" using P(1) n by simp
  have "\<not> colon" using L(3) h assms(2) eq \<open>\<not> b\<close> by (cases colon) auto
  then have "CHR '':'' \<notin> set (su_netloc p)" using P(3) n by simp
  with nb show "CHR '':'' \<notin> set (su_netloc p)" and "open_bracket \<notin> set (su_netloc p)" by auto
qed

lemma split_netloc_delim: "split_netloc u = (n, r) \<Longrightarrow> c \<in> set n \<Longrightarrow> \<not> is_delim c"
  by (auto simp: split_netloc_def dest: set_takeWhileD split: if_splits)

text \<open>What a configured origin looks like.\<close>

lemma configured_origin_shape:
  assumes "configured_media_origin st = Inr orig"
  shows "lower orig = orig" and "CHR ''.'' \<in> set orig" and "orig = lower (strip (st_aws_s3_custom_domain st))"
    and "\<forall>c\<in>set orig. c \<notin> set ''/?#@:'' \<and> c \<noteq> open_bracket \<and> c \<noteq> close_bracket"
    and "\<not> is_ipv4 orig" and "\<not> is_ipv6 orig"
proof -
  define domain where "domain = lower (strip (st_aws_s3_custom_domain st))"
  obtain p where p1: "urlsplit (''https://'' @ domain) = Some p"
    using assms unfolding configured_media_origin_def domain_def [symmetric] Let_def
    by (cases "urlsplit (''https://'' @ domain)") simp_all
  obtain h where p2: "url_hostname p = Some h"
    using assms unfolding configured_media_origin_def domain_def [symmetric] Let_def p1 option.case
    by (cases "url_hostname p") simp_all
  have p3: "su_netloc p = domain \<and> h = domain \<and> CHR ''.'' \<in> set h \<and> \<not> is_ipv4 h \<and> \<not> is_ipv6 h \<and> orig = h"
    using assms unfolding configured_media_origin_def domain_def [symmetric] Let_def p1 option.case p2
    by (simp only: split: if_splits) auto
  have p: "urlsplit (''https://'' @ domain) = Some p" "url_hostname p = Some orig" "su_netloc p = domain" "orig = domain"
      "CHR ''.'' \<in> set orig" "\<not> is_ipv4 orig" "\<not> is_ipv6 orig"
    using p1 p2 p3 by auto
  show dom: "orig = lower (strip (st_aws_s3_custom_domain st))" using p(4) by (simp add: domain_def)
  show low: "lower orig = orig" unfolding dom by simp
  show "CHR ''.'' \<in> set orig" "\<not> is_ipv4 orig" "\<not> is_ipv6 orig" by (fact p)+
  have len: "length (su_netloc p) \<le> length (fst (hostinfo p))"
    using hostname_lower(1) [OF p(2) low] p(3,4) by (metis length_map lower_def order_refl)
  note no = hostinfo_length [OF refl len]
  have "close_bracket \<notin> set orig" using urlsplit_brackets(1) [OF p(1)] no(3) p(3,4) by simp
  moreover have "\<not> is_delim c" if c: "c \<in> set orig" for c
  proof -
    obtain u2 where "split_netloc (snd (split_scheme (clean_url (''https://'' @ domain)))) = (su_netloc p, u2)"
      using p(1) by (auto simp: urlsplit_def Let_def split: prod.splits if_splits)
    then show ?thesis using split_netloc_delim c p(3,4) by metis
  qed
  ultimately show "\<forall>c\<in>set orig. c \<notin> set ''/?#@:'' \<and> c \<noteq> open_bracket \<and> c \<noteq> close_bracket"
    using no p(3,4) by (auto simp: is_delim_def)
qed

text \<open>A media URL that passes the check leads to the configured origin and nowhere else. The origin
  is a lower-case name with a dot, no address, and without any character that separates the parts
  of a URL. An accepted URL, once the characters every parser drops are gone, is the scheme https,
  the origin up to letter case, brackets and an empty port, and a path from the root: no user
  information, no other port, no other host.\<close>
theorem media_url_confined:
  assumes "configured_media_origin st = Inr orig" and "media_url_uses_origin url orig"
  shows "(\<forall>c\<in>set orig. c \<notin> set ''/?#@:'' \<and> c \<noteq> open_bracket \<and> c \<noteq> close_bracket)
    \<and> CHR ''.'' \<in> set orig \<and> lower orig = orig \<and> \<not> is_ipv4 orig \<and> \<not> is_ipv6 orig
    \<and> (\<exists>scheme netloc rest. clean_url url = scheme @ ''://'' @ netloc @ rest \<and> lower scheme = ''https''
        \<and> lower netloc \<in> {orig, orig @ '':'', open_bracket # orig @ [close_bracket], open_bracket # orig @ [close_bracket] @ '':''}
        \<and> take 1 rest = ''/'')"
proof -
  note o = configured_origin_shape [OF assms(1)]
  obtain p where p: "urlsplit url = Some p" "su_scheme p = ''https''" "url_hostname p = Some orig" "url_port p = Some None"
      "url_username p = None" "startswith (su_path p) ''/''"
    using assms(2) by (auto simp: media_url_uses_origin_def split: option.splits)
  have user: "CHR ''@'' \<notin> set (su_netloc p)" using p(5) by (auto simp: url_username_def split: if_splits)
  have port: "snd (hostinfo p) = []" using p(4) by (auto simp: url_port_def Let_def split: if_splits option.splits)
  have host: "lower (fst (hostinfo p)) = orig" using hostname_lower(1) [OF p(3) o(1)] .
  define h where "h = fst (hostinfo p)"
  have br: "lower [open_bracket] = [open_bracket]" "lower [close_bracket] = [close_bracket]" "lower '':'' = '':''"
    "lower ([close_bracket] @ '':'') = [close_bracket] @ '':''" by code_simp+
  have "su_netloc p \<in> {h, h @ '':'', open_bracket # h @ [close_bracket], open_bracket # h @ [close_bracket] @ '':''}"
    using netloc_host [OF user port urlsplit_brackets(2,1) [OF p(1)] h_def] .
  then have net: "lower (su_netloc p) \<in> {orig, orig @ '':'', open_bracket # orig @ [close_bracket], open_bracket # orig @ [close_bracket] @ '':''}"
    using host br lower_append [of "[open_bracket]"] unfolding h_def [symmetric] by (auto simp: lower_append)
  then have "su_netloc p \<noteq> []" using o(2) by auto
  then obtain raw rest where u: "clean_url url = raw @ ''://'' @ su_netloc p @ rest" "lower raw = ''https''"
      "su_path p \<noteq> [] \<longrightarrow> take 1 rest = take 1 (su_path p)"
    using urlsplit_https [OF p(1,2)] by blast
  have "take 1 (su_path p) = ''/''" using p(6) by (simp add: startswith_def)
  then have "take 1 rest = ''/''" using u(3) by (cases "su_path p") auto
  then show ?thesis using o u net by blast
qed

theorem media_url_confined_witness:
  "configured_media_origin (default_settings\<lparr>st_aws_s3_custom_domain := ''CDN.example.com''\<rparr>) = Inr ''cdn.example.com''
   \<and> media_url_uses_origin ''HTTPS://cdn.Example.com:/a.jpg?x=1'' ''cdn.example.com''
   \<and> lower ''cdn.example.com'' = ''cdn.example.com''"
proof -
  have a: "configured_media_origin (default_settings\<lparr>st_aws_s3_custom_domain := ''CDN.example.com''\<rparr>) = Inr ''cdn.example.com''"
    and b: "media_url_uses_origin ''HTTPS://cdn.Example.com:/a.jpg?x=1'' ''cdn.example.com''" by code_simp+
  from media_url_confined [OF a b] a b show ?thesis by blast
qed

subsection \<open>What a manifest contains\<close>

lemma configured_app_update_Some:
  assumes "configured_app_update st sha storage_url d = Inr (Some u)"
  shows "1 \<le> up_version_code u" and "up_version_code u \<le> 2147483647" and "version_name_ok (up_version_name u)"
    and "sha256_ok (up_sha256 u)" and "1 \<le> up_size_bytes u" and "up_size_bytes u \<le> 200 * 1024 * 1024"
    and "\<exists>b. rollout_bucket sha (dv_id d) = Inr b \<and> b < st_app_update_rollout_percent st"
    and "storage_url (st_app_update_storage_name st) = Some (up_download_url u)"
    and "production st \<Longrightarrow> \<exists>orig. configured_media_origin st = Inr orig \<and> media_url_uses_origin (up_download_url u) orig"
  using assms
  by (auto simp: configured_app_update_def Let_def bind_result_Inr_iff split: if_splits option.splits)

lemma manifest_entry_Inr:
  assumes "manifest_entry storage_url orig (i, m) = Inr e"
  shows "ma_status m = Ready" and "media_url_uses_origin (mi_download_url e) orig"
    and "mi_entry e = pi_id i" and "mi_position e = pi_position i" and "mi_media e = ma_id m"
    and "mi_sha256 e = ma_sha256 m" and "mi_size_bytes e = ma_file_size m"
    and "storage_url (ma_normalized_file m) = Some (mi_download_url e)"
  using assms by (auto simp: manifest_entry_def split: if_splits option.splits)

lemma playlist_entries_mem:
  assumes "(i, m) \<in> set (playlist_entries (pl_id p) s)"
  shows "i \<in> set (items_of (pl_id p) s)" and "m \<in> set (media_assets s)" and "ma_id m = pi_media i"
  using assms by (auto simp: playlist_entries_def split: option.splits dest: lookup_by_SomeD [OF sym])

lemma playlist_entries_sorted: "sorted (map (\<lambda>x. pi_position (fst x)) (playlist_entries (pl_id p) s))"
proof -
  let ?f = "\<lambda>i. case lookup_by ma_id (pi_media i) (media_assets s) of None \<Rightarrow> [] | Some m \<Rightarrow> [(i, m)]"
  have sub: "\<forall>x\<in>set (concat (map ?f is)). fst x \<in> set is" for "is"
    by (induction "is") (auto split: option.splits)
  have "sorted (map pi_position is) \<Longrightarrow> sorted (map (\<lambda>x. pi_position (fst x)) (concat (map ?f is)))" for "is"
  proof (induction "is")
    case (Cons i "is")
    then show ?case using sub [of "is"] by (cases "lookup_by ma_id (pi_media i) (media_assets s)") auto
  qed simp
  moreover have "sorted (map pi_position (items_of (pl_id p) s))" by (simp add: items_of_def)
  ultimately show ?thesis unfolding playlist_entries_def by blast
qed

definition offered :: "settings \<Rightarrow> (string \<Rightarrow> string) \<Rightarrow> id \<Rightarrow> app_update \<Rightarrow> bool" where
  "offered st sha i u = (1 \<le> up_version_code u \<and> up_version_code u \<le> 2147483647 \<and> version_name_ok (up_version_name u)
     \<and> sha256_ok (up_sha256 u) \<and> 1 \<le> up_size_bytes u \<and> up_size_bytes u \<le> 200 * 1024 * 1024
     \<and> (\<exists>b. rollout_bucket sha i = Inr b \<and> b < st_app_update_rollout_percent st)
     \<and> (production st \<longrightarrow> (\<exists>orig. configured_media_origin st = Inr orig \<and> media_url_uses_origin (up_download_url u) orig)))"

text \<open>C17: What a device may show and install. A play manifest is given only to an enabled device that, in
  production, runs the required version on qualified hardware; it is the manifest of the effective
  playlist and lists its entries in order, each with a medium that is ready, the digest the server
  stored for it and a URL on the configured origin. An application update is offered only to the
  devices in the rollout, with a digest, at most 200 MB and, in production, a URL on that origin.
  The answer notes the synchronisation of this device and changes nothing else, and an error
  changes nothing.\<close>
theorem sync_manifest_safe:
  assumes "sync_manifest st sha storage_url clk d s = (res, t)"
  shows "(case res of Inl e \<Rightarrow> t = s | Inr r \<Rightarrow> dv_status d \<noteq> Disabled \<and> (\<exists>now. t = mark_successful_sync now (dv_id d) s)
      \<and> (case sr_app_update r of None \<Rightarrow> True | Some u \<Rightarrow> offered st sha (dv_id d) u)
      \<and> (case sr_mode r of
           Maintenance \<Rightarrow> in_maintenance st d s
         | Fallback \<Rightarrow> \<not> in_maintenance st d s \<and> active_playlist (clk 2) s = None
         | Play m \<Rightarrow> \<not> in_maintenance st d s \<and> (\<exists>p. active_playlist (clk 2) s = Some p \<and> mp_id m = pl_id p
             \<and> configured_media_origin st = Inr (mp_media_origin m)
             \<and> map mi_entry (mp_items m) = map (\<lambda>x. pi_id (fst x)) (playlist_entries (pl_id p) s)
             \<and> sorted (map mi_position (mp_items m))
             \<and> (\<forall>e\<in>set (mp_items m). media_url_uses_origin (mi_download_url e) (mp_media_origin m)
                  \<and> (\<exists>a\<in>set (media_assets s). ma_id a = mi_media e \<and> ma_status a = Ready \<and> ma_sha256 a = mi_sha256 e
                       \<and> storage_url (ma_normalized_file a) = Some (mi_download_url e))))))"
proof (cases res)
  case (Inl e)
  then show ?thesis using assms by (auto simp: sync_manifest_def Let_def split: if_splits sum.splits option.splits)
next
  case (Inr r)
  obtain up where dis: "dv_status d \<noteq> Disabled" and up: "configured_app_update st sha storage_url d = Inr up"
    using assms Inr by (auto simp: sync_manifest_def Let_def split: if_splits sum.splits)
  have offer: "case up of None \<Rightarrow> True | Some u \<Rightarrow> offered st sha (dv_id d) u"
    using configured_app_update_Some [of st sha storage_url d] up by (auto simp: offered_def split: option.splits)
  consider (maint) "in_maintenance st d s" | (fall) "\<not> in_maintenance st d s" "active_playlist (clk 2) s = None"
    | (play) p where "\<not> in_maintenance st d s" "active_playlist (clk 2) s = Some p" by fastforce
  then show ?thesis
  proof cases
    case maint
    then show ?thesis using assms Inr dis up offer by (auto simp: sync_manifest_def Let_def)
  next
    case fall
    then show ?thesis using assms Inr dis up offer by (auto simp: sync_manifest_def Let_def)
  next
    case play
    then obtain m where m: "play_manifest st storage_url p s = Inr m"
      and r: "sr_mode r = Play m" "sr_app_update r = up" "t = mark_successful_sync (clk 3) (dv_id d) s"
      using assms Inr dis up by (cases "play_manifest st storage_url p s") (auto simp: sync_manifest_def Let_def)
    obtain items where o: "configured_media_origin st = Inr (mp_media_origin m)" and mi: "mp_items m = items" "mp_id m = pl_id p"
      and it: "map_result (manifest_entry storage_url (mp_media_origin m)) (playlist_entries (pl_id p) s) = Inr items"
      using m by (auto simp: play_manifest_def bind_result_Inr_iff)
    have l2: "list_all2 (\<lambda>x e. manifest_entry storage_url (mp_media_origin m) x = Inr e) (playlist_entries (pl_id p) s) items"
      using it by (simp add: map_result_Inr_iff)
    then have ids: "map mi_entry items = map (\<lambda>x. pi_id (fst x)) (playlist_entries (pl_id p) s)
        \<and> map mi_position items = map (\<lambda>x. pi_position (fst x)) (playlist_entries (pl_id p) s)"
      by (induction rule: list_all2_induct) (auto dest: manifest_entry_Inr(3,4) split: prod.splits)
    have "sorted (map (\<lambda>x. pi_position (fst x)) (playlist_entries (pl_id p) s))" by (rule playlist_entries_sorted)
    then have sorted: "sorted (map mi_position items)" using ids by simp
    have good: "media_url_uses_origin (mi_download_url e) (mp_media_origin m)
        \<and> (\<exists>a\<in>set (media_assets s). ma_id a = mi_media e \<and> ma_status a = Ready \<and> ma_sha256 a = mi_sha256 e
             \<and> storage_url (ma_normalized_file a) = Some (mi_download_url e))" if e: "e \<in> set items" for e
    proof -
      obtain i a where x: "(i, a) \<in> set (playlist_entries (pl_id p) s)" "manifest_entry storage_url (mp_media_origin m) (i, a) = Inr e"
        using map_result_mem [OF it e] by auto
      show ?thesis using manifest_entry_Inr [OF x(2)] playlist_entries_mem(2) [OF x(1)] by auto
    qed
    show ?thesis
      using Inr r dis offer play o mi ids sorted good by auto
  qed
qed

text \<open>A production device on qualified hardware with one published playlist.\<close>

definition sync_settings :: settings where
  "sync_settings = example_integrity\<lparr>st_aws_s3_custom_domain := ''cdn.example.com''\<rparr>"

definition sync_db :: db where
  "sync_db = qualified_db\<lparr>media_assets := [\<lparr>ma_id = 11, ma_business_name = [], ma_title = [], ma_kind = Image, ma_status = Ready,
      ma_source_file = [], ma_normalized_file = ''n.jpg'', ma_sha256 = ''ab'', ma_mime_type = [], ma_file_size = 1, ma_duration_ms = 15000,
      ma_width = None, ma_height = None, ma_rejection_reason = [], ma_uploaded_by = 1, ma_archived_at = None,
      ma_dispatch_attempts = 0, ma_last_dispatch_attempt_at = None, ma_dispatched_at = None, ma_processing_attempts = 0,
      ma_processing_token = None, ma_processing_started_at = None, ma_processing_lease_expires_at = None,
      ma_processing_finished_at = None, ma_created_at = 0\<rparr>],
    playlists := [\<lparr>pl_id = 5, pl_name = ''P'', pl_version = 1, pl_status = Published, pl_starts_at = 0, pl_ends_at = 900,
      pl_published_at = Some 0, pl_is_urgent = False, pl_created_by = 1, pl_superseded_by = None\<rparr>],
    playlist_items := [\<lparr>pi_id = 6, pi_playlist = 5, pi_media = 11, pi_position = 1\<rparr>]\<rparr>"

definition sync_device :: device where
  "sync_device = (hd (devices sync_db))\<lparr>dv_status := Active, dv_hardware_model := ''M'', dv_hardware_firmware_version := ''F'',
     dv_hardware_security_patch := ''P'', dv_app_version := st_required_app_version sync_settings\<rparr>"

definition sync_once :: "sync_response result \<times> db" where
  "sync_once = sync_manifest sync_settings (\<lambda>x. ''00000000'') (\<lambda>n. Some (''https://cdn.example.com/'' @ n)) (\<lambda>n. 500) sync_device sync_db"

theorem sync_manifest_safe_witness:
  "\<exists>r m t. sync_once = (Inr r, t) \<and> sr_mode r = Play m \<and> mp_media_origin m = ''cdn.example.com''
     \<and> \<not> in_maintenance sync_settings sync_device sync_db"
proof -
  have "(case fst sync_once of Inl e \<Rightarrow> False | Inr r \<Rightarrow>
      (case sr_mode r of Play m \<Rightarrow> mp_media_origin m = ''cdn.example.com'' | _ \<Rightarrow> False))" by code_simp
  then obtain r m where r: "fst sync_once = Inr r" "sr_mode r = Play m" "mp_media_origin m = ''cdn.example.com''"
    by (auto split: sum.splits sync_mode.splits)
  define t where "t = snd sync_once"
  have s: "sync_once = (Inr r, t)" by (simp add: t_def r(1) [symmetric])
  from sync_manifest_safe [OF s [unfolded sync_once_def]] r(2) have "\<not> in_maintenance sync_settings sync_device sync_db" by simp
  with s r show ?thesis by blast
qed

end
