(* ===== verification/Telemetry.thy ===== *)
theory Telemetry
  imports Evidence Playlists Py_Float Alerts "HOL-Library.Option_ord" "HOL-Library.Multiset"
begin

section \<open>Operational events and heartbeats\<close>

text \<open>
  The endpoints \<open>operational_event\<close> and \<open>heartbeat\<close> of \<open>api.py\<close>. The device is the one the
  authentication returned; the function \<open>others\<close> is what concurrent requests do between the
  checks of a request and its writes. Alerts are raised through the alert component.
\<close>

subsection \<open>The details of an operational event\<close>

definition event_kind_values :: "(string \<times> event_kind) list" where
  "event_kind_values = [(''forced_queue_loss'', ForcedQueueLoss), (''replacement_failed'', ReplacementFailed),
     (''planned_shutdown'', PlannedShutdown), (''abnormal_app_exit'', AbnormalAppExit),
     (''location_queue_loss'', LocationQueueLoss), (''location_point_rejected'', LocationPointRejected)]"

definition abnormal_app_exit_reasons :: "string list" where
  "abnormal_app_exit_reasons = [''crash'', ''native_crash'', ''anr'', ''initialization_failure'', ''low_memory'',
     ''excessive_resource_usage'', ''freezer_termination'']"

definition replacement_failure_stages :: "string list" where
  "replacement_failure_stages = [''preparation'', ''activation'']"

definition nonneg_int :: "json \<Rightarrow> bool" where
  "nonneg_int v = (case v of JInt n \<Rightarrow> 0 \<le> n | _ \<Rightarrow> False)"

definition uuid_text :: "json \<Rightarrow> bool" where
  "uuid_text v = (case v of JStr s \<Rightarrow> parse_uuid s \<noteq> None | _ \<Rightarrow> False)"

definition str_in :: "string list \<Rightarrow> json \<Rightarrow> bool" where
  "str_in xs v = (case v of JStr s \<Rightarrow> s \<in> set xs | _ \<Rightarrow> False)"

definition counters :: "payload \<Rightarrow> string list \<Rightarrow> bool" where
  "counters details expected = (keys_exactly details expected \<and> list_all (\<lambda>f. nonneg_int (jget details f)) expected)"

definition validate_operational_event_details :: "event_kind \<Rightarrow> payload \<Rightarrow> payload result" where
  "validate_operational_event_details kind data =
     (case jget_default data ''details'' (JObj []) of
        JObj details \<Rightarrow>
         bind_result
          (case kind of
             ForcedQueueLoss \<Rightarrow>
               require (counters details [''removed_batches'', ''estimated_removed_bytes'', ''target_removed_bytes''])
                 (ValidationError ''details'' ''Forced queue loss details must contain non-negative integer removed_batches, estimated_removed_bytes, and target_removed_bytes values.'')
           | ReplacementFailed \<Rightarrow>
               bind_result (require (keys_exactly details [''playlist_id'', ''stage''])
                 (ValidationError ''details'' ''Replacement failure details must contain only playlist_id and stage.'')) (\<lambda>u1.
               bind_result (require (uuid_text (jget details ''playlist_id''))
                 (ValidationError ''details.playlist_id'' ''Use a playlist UUID.'')) (\<lambda>u2.
               require (str_in replacement_failure_stages (jget details ''stage''))
                 (ValidationError ''details.stage'' ''Use a recognized replacement stage.'')))
           | PlannedShutdown \<Rightarrow>
               require (map_of data ''details'' \<noteq> None \<and> details = [])
                 (ValidationError ''details'' ''Planned shutdown details must be exactly an empty object.'')
           | AbnormalAppExit \<Rightarrow>
               bind_result (require (keys_exactly details [''reason''])
                 (ValidationError ''details'' ''Abnormal application exit details must contain only a reason.'')) (\<lambda>u1.
               require (str_in abnormal_app_exit_reasons (jget details ''reason''))
                 (ValidationError ''details.reason'' ''Use a recognized abnormal exit reason.''))
           | LocationQueueLoss \<Rightarrow>
               require (counters details [''removed_points'', ''estimated_removed_bytes'', ''retained_points''])
                 (ValidationError ''details'' ''Location queue loss details must contain non-negative integer removed_points, estimated_removed_bytes, and retained_points.'')
           | LocationPointRejected \<Rightarrow>
               bind_result (require (keys_exactly details [''point_id'', ''reason''])
                 (ValidationError ''details'' ''Location point rejection details are invalid.'')) (\<lambda>u1.
               bind_result (require (parse_uuid (json_str (jget details ''point_id'')) \<noteq> None)
                 (ValidationError ''details.point_id'' ''Use a location point UUID.'')) (\<lambda>u2.
               require (case jget details ''reason'' of JStr r \<Rightarrow> r \<noteq> [] \<and> length r \<le> 64 | _ \<Rightarrow> False)
                 (ValidationError ''details.reason'' ''Use a short rejection reason.''))))
          (\<lambda>u. Inr details)
      | _ \<Rightarrow> Inl (ValidationError ''details'' ''Details must be a JSON object.''))"

subsection \<open>Storing an operational event\<close>

text \<open>Objects are equal when they give every key the same value, in whatever order they list them.\<close>

definition same_object :: "payload \<Rightarrow> payload \<Rightarrow> bool" where
  "same_object p q = list_all (\<lambda>k. map_of p k = map_of q k) (jkeys p @ jkeys q)"

record event_report =
  er_id :: id
  er_device :: id
  er_kind :: event_kind
  er_recorded_at :: time
  er_details :: payload

definition operational_event_matches :: "operational_event_row \<Rightarrow> event_report \<Rightarrow> bool" where
  "operational_event_matches r e =
     (oe_kind r = er_kind e \<and> oe_recorded_at r = er_recorded_at e \<and> same_object (oe_details r) (er_details e))"

definition event_alerts :: "event_report \<Rightarrow> alert_request list" where
  "event_alerts e = (case er_kind e of
       LocationQueueLoss \<Rightarrow>
         [AlertRequest (Some (er_device e)) ''location_queue_loss'' Critical ''Location queue overflow evicted unsent points.'']
     | LocationPointRejected \<Rightarrow>
         [AlertRequest (Some (er_device e)) ''location_point_rejected'' Critical
            ''The server permanently rejected a location point.'']
     | _ \<Rightarrow> [])"

definition event_collision :: error where
  "event_collision = PermissionDenied ''Operational event identifier collision.''"

definition store_event :: "time \<Rightarrow> event_report \<Rightarrow> db \<Rightarrow> db result" where
  "store_event received e s =
     (if lookup_by oe_id (er_id e) (operational_events s) \<noteq> None then Inl (IntegrityError ''deviceoperationalevent_pkey'')
      else Inr (s\<lparr>operational_events := operational_events s @
             [\<lparr>oe_id = er_id e, oe_device = er_device e, oe_kind = er_kind e, oe_recorded_at = er_recorded_at e,
               oe_received_at = received, oe_details = er_details e\<rparr>]\<rparr>))"

text \<open>
  From the lookup on: \<open>existing\<close> was read before other requests changed the state. The event is
  stored on its own; the alert is raised afterwards.
\<close>

definition create_event :: "time \<Rightarrow> time \<Rightarrow> event_report \<Rightarrow> db \<Rightarrow> bool result \<times> db" where
  "create_event received now e s =
     (case store_event received e s of
        Inr t \<Rightarrow> (case raise_all now (event_alerts e) t of Inl x \<Rightarrow> (Inl x, t) | Inr u \<Rightarrow> (Inr False, u))
      | Inl x \<Rightarrow>
         (let refused = ValidationError [] ''Operational event identifier collision.'' in
          case lookup_by oe_id (er_id e) (operational_events s) of
            None \<Rightarrow> (Inl refused, s)
          | Some r \<Rightarrow> if oe_device r \<noteq> er_device e then (Inl event_collision, s)
              else if operational_event_matches r e then (Inr True, s) else (Inl refused, s)))"

definition submit_event :: "time \<Rightarrow> time \<Rightarrow> (db \<Rightarrow> db) \<Rightarrow> event_report \<Rightarrow> db \<Rightarrow> bool result \<times> db" where
  "submit_event received now others e s =
     (case lookup_by oe_id (er_id e) (operational_events s) of
        Some r \<Rightarrow>
          (if oe_device r \<noteq> er_device e then Inl event_collision
           else if operational_event_matches r e then Inr True
           else Inl (ValidationError [] ''Operational event identifier was already used for different evidence.''), s)
      | None \<Rightarrow> create_event received now e (others s))"

definition read_event :: "datetime_reader \<Rightarrow> time \<Rightarrow> device \<Rightarrow> payload \<Rightarrow> event_report result" where
  "read_event read now d data =
     bind_result (require (dv_status d \<noteq> Disabled) (PermissionDenied ''Disabled devices cannot submit events.'')) (\<lambda>u1.
     bind_result (require (keys_within data [''id'', ''kind'', ''recorded_at'', ''details''])
       (ValidationError [] ''Operational event contains unknown fields.'')) (\<lambda>u2.
     case (case jget data ''kind'' of JStr k \<Rightarrow> map_of event_kind_values k | _ \<Rightarrow> None) of
       None \<Rightarrow> Inl (ValidationError [] ''Invalid operational event kind.'')
     | Some kind \<Rightarrow>
       (case parse_uuid (json_str (jget data ''id'')) of
          None \<Rightarrow> Inl (ValidationError [] ''A valid operational event ID is required.'')
        | Some i \<Rightarrow>
          bind_result (parse_required_datetime read now max_device_timestamp_future_skew (jget data ''recorded_at'') ''recorded_at'') (\<lambda>at.
          bind_result (validate_operational_event_details kind data) (\<lambda>details.
          Inr \<lparr>er_id = i, er_device = dv_id d, er_kind = kind, er_recorded_at = at, er_details = details\<rparr>)))))"

definition operational_event ::
  "datetime_reader \<Rightarrow> clock \<Rightarrow> (db \<Rightarrow> db) \<Rightarrow> device \<Rightarrow> payload \<Rightarrow> db \<Rightarrow> bool result \<times> db" where
  "operational_event read clk others d data s = (case read_event read (clk 0) d data of
       Inl e \<Rightarrow> (Inl e, s)
     | Inr e \<Rightarrow> submit_event (clk 1) (clk 2) others e s)"

subsection \<open>Reading a heartbeat\<close>

record heartbeat_report =
  hr_recorded_at :: time
  hr_free_storage :: int
  hr_app_version :: string
  hr_android_version :: string
  hr_screen_on :: bool
  hr_playback_active :: bool
  hr_battery :: "int option"
  hr_temperature :: "(int \<times> int) option"
  hr_playlist :: "id option"
  hr_last_sync :: "time option"
  hr_last_playback :: "time option"

definition read_battery :: "json \<Rightarrow> int option result" where
  "read_battery v = (if v = JNull then Inr None else
     (case json_int v of
        None \<Rightarrow> Inl (ValidationError [] ''Invalid battery percentage.'')
      | Some n \<Rightarrow> if 0 \<le> n \<and> n \<le> 100 then Inr (Some n)
          else Inl (ValidationError [] ''Battery percentage must be between 0 and 100.'')))"

definition read_temperature :: "json \<Rightarrow> (int \<times> int) option result" where
  "read_temperature v = (if v = JNull then Inr None else
     (case json_decimal v of
        None \<Rightarrow> Inl (ValidationError [] ''Invalid temperature value.'')
      | Some x \<Rightarrow> (case x of
            DFin m e \<Rightarrow> if int_le_dec (- 50) m e \<and> dec_le_int m e 150 then Inr (Some (m, e))
              else Inl (ValidationError [] ''Temperature is outside safe bounds.'')
          | _ \<Rightarrow> Inl (ValidationError [] ''Temperature is outside safe bounds.''))))"

definition read_active_playlist :: "json \<Rightarrow> db \<Rightarrow> id option result" where
  "read_active_playlist v s = (if \<not> truthy v then Inr None else
     (case parse_uuid (json_str v) of
        None \<Rightarrow> Inl (ValidationError [] ''Invalid active playlist ID.'')
      | Some i \<Rightarrow> if find_playlist i s = None then Inl (ValidationError [] ''Unknown active playlist ID.'')
          else Inr (Some i)))"

definition read_optional_time :: "datetime_reader \<Rightarrow> time \<Rightarrow> payload \<Rightarrow> string \<Rightarrow> time option result" where
  "read_optional_time read now data field = (if \<not> truthy (jget data field) then Inr None
     else bind_result (parse_required_datetime read now max_device_timestamp_future_skew (jget data field) field)
       (\<lambda>t. Inr (Some t)))"

definition read_heartbeat :: "datetime_reader \<Rightarrow> clock \<Rightarrow> payload \<Rightarrow> db \<Rightarrow> heartbeat_report result" where
  "read_heartbeat read clk data s =
     bind_result (parse_required_datetime read (clk 0) max_device_timestamp_future_skew (jget data ''recorded_at'') ''recorded_at'') (\<lambda>at.
     bind_result (case json_int (jget_default data ''free_storage_bytes'' (JInt 0)) of
         None \<Rightarrow> Inl (ValidationError [] ''Invalid free storage value.'') | Some n \<Rightarrow> Inr n) (\<lambda>free.
     bind_result (require (0 \<le> free) (ValidationError [] ''Free storage cannot be negative.'')) (\<lambda>u1.
     bind_result (required_short_string data ''app_version'' 32) (\<lambda>app.
     bind_result (required_short_string data ''android_version'' 32) (\<lambda>android.
     bind_result (required_json_boolean data ''screen_on'') (\<lambda>screen.
     bind_result (required_json_boolean data ''playback_active'') (\<lambda>active.
     bind_result (read_battery (jget data ''battery_percent'')) (\<lambda>battery.
     bind_result (read_temperature (jget data ''temperature_celsius'')) (\<lambda>temperature.
     bind_result (read_active_playlist (jget data ''active_playlist_id'') s) (\<lambda>pl.
     bind_result (read_optional_time read (clk 1) data ''last_successful_sync_at'') (\<lambda>sync.
     bind_result (read_optional_time read (clk 2) data ''last_playback_at'') (\<lambda>play.
     Inr \<lparr>hr_recorded_at = at, hr_free_storage = free, hr_app_version = app, hr_android_version = android,
          hr_screen_on = screen, hr_playback_active = active, hr_battery = battery, hr_temperature = temperature,
          hr_playlist = pl, hr_last_sync = sync, hr_last_playback = play\<rparr>))))))))))))"

subsection \<open>Storing a heartbeat\<close>

text \<open>A reported time replaces the stored one only when it is later.\<close>

definition later :: "time option \<Rightarrow> time option \<Rightarrow> time option" where
  "later reported stored = (case reported of None \<Rightarrow> stored
     | Some t \<Rightarrow> (case stored of None \<Rightarrow> Some t | Some u \<Rightarrow> if u < t then Some t else stored))"

definition apply_heartbeat :: "heartbeat_report \<Rightarrow> time \<Rightarrow> device \<Rightarrow> device" where
  "apply_heartbeat h received d =
     (let d1 = d\<lparr>dv_last_seen_at := Some received\<rparr>;
          d2 = (if (case dv_last_heartbeat_recorded_at d1 of None \<Rightarrow> True | Some t \<Rightarrow> t \<le> hr_recorded_at h)
                then d1\<lparr>dv_last_heartbeat_recorded_at := Some (hr_recorded_at h), dv_app_version := hr_app_version h,
                        dv_android_version := hr_android_version h, dv_current_playlist := hr_playlist h\<rparr>
                else d1)
      in d2\<lparr>dv_last_sync_at := later (hr_last_sync h) (dv_last_sync_at d2),
            dv_last_playback_at := later (hr_last_playback h) (dv_last_playback_at d2)\<rparr>)"

text \<open>\<open>float(temperature)\<close> against the configured threshold: both are rounded to doubles.\<close>

definition decimal_double :: "int \<Rightarrow> int \<Rightarrow> int \<times> int" where
  "decimal_double m e =
     (case (if 0 \<le> e then round_double (\<bar>m\<bar> * 10 ^ nat e) 1 else round_double \<bar>m\<bar> (10 ^ nat (- e))) of
        (c, k) \<Rightarrow> (if m < 0 then - c else c, k))"

definition double_le :: "int \<times> int \<Rightarrow> int \<times> int \<Rightarrow> bool" where
  "double_le x y = (fst x * 2 ^ nat (snd x - min (snd x) (snd y)) \<le> fst y * 2 ^ nat (snd y - min (snd x) (snd y)))"

definition overheated :: "settings \<Rightarrow> int \<times> int \<Rightarrow> bool" where
  "overheated st temperature = (case st_device_overheat_celsius st of
       DFin m e \<Rightarrow> double_le (decimal_double m e) (decimal_double (fst temperature) (snd temperature))
     | DInf neg \<Rightarrow> neg
     | DNaN \<Rightarrow> False)"

definition thermally_qualified :: "device \<Rightarrow> db \<Rightarrow> bool" where
  "thermally_qualified d s = (case dv_hardware_qualification d of None \<Rightarrow> False
     | Some q \<Rightarrow> (case lookup_by hq_id q (qualifications s) of None \<Rightarrow> False
         | Some h \<Rightarrow> hq_approved_for_pilot h \<and> hq_recorded_passes h ''thermal_passed''))"

definition heartbeat_alerts :: "settings \<Rightarrow> heartbeat_report \<Rightarrow> device \<Rightarrow> db \<Rightarrow> alert_request list" where
  "heartbeat_alerts st h d s =
     (if hr_free_storage h < 2 * 1024 * 1024 * 1024
      then [AlertRequest (Some (dv_id d)) ''low_storage'' Warning ''Device has less than 2 GB of free storage.''] else [])
     @ (case hr_battery h of None \<Rightarrow> [] | Some b \<Rightarrow>
          if b \<le> 10 then [AlertRequest (Some (dv_id d)) ''low_battery'' Critical ''Device battery is at or below 10%.'']
          else if b \<le> 20 then [AlertRequest (Some (dv_id d)) ''low_battery'' Warning ''Device battery is at or below 20%.'']
          else [])
     @ (if hr_app_version h \<noteq> st_required_app_version st
        then [AlertRequest (Some (dv_id d)) ''outdated_app'' Warning
                ''Device application version does not match the required version.''] else [])
     @ (case hr_temperature h of None \<Rightarrow> [] | Some t \<Rightarrow>
          if thermally_qualified d s \<and> overheated st t
          then [AlertRequest (Some (dv_id d)) ''overheating'' Critical
                  ''Device reported a temperature above the safe threshold.''] else [])"

definition max_bigint :: int where
  "max_bigint = 9223372036854775807"

definition store_heartbeat ::
  "settings \<Rightarrow> time \<Rightarrow> time \<Rightarrow> id \<Rightarrow> heartbeat_report \<Rightarrow> payload \<Rightarrow> db \<Rightarrow> (unit \<times> db) result" where
  "store_heartbeat st received now i h data s =
     bind_result (get_device i s) (\<lambda>d.
     bind_result (optional_json_boolean data ''external_power'') (\<lambda>power.
     bind_result (optional_json_boolean data ''charging'') (\<lambda>charging.
     bind_result (require (hr_free_storage h \<le> max_bigint) (ServerError ''value out of range for the column'')) (\<lambda>u.
     let row = \<lparr>hb_id = next_pk s, hb_device = i, hb_recorded_at = hr_recorded_at h, hb_received_at = received,
           hb_screen_on = hr_screen_on h, hb_external_power = power, hb_charging = charging,
           hb_battery_percent = hr_battery h, hb_free_storage_bytes = hr_free_storage h,
           hb_temperature_celsius = hr_temperature h, hb_app_version = hr_app_version h,
           hb_android_version = hr_android_version h, hb_active_playlist = hr_playlist h,
           hb_playback_active = hr_playback_active h, hb_last_successful_sync_at = hr_last_sync h,
           hb_last_playback_at = hr_last_playback h\<rparr>;
         s1 = save_device (apply_heartbeat h received d) (s\<lparr>heartbeats := heartbeats s @ [row], next_pk := next_pk s + 1\<rparr>)
     in bind_result (raise_all now (heartbeat_alerts st h d s1) s1) (\<lambda>t. Inr ((), t))))))"

definition heartbeat ::
  "datetime_reader \<Rightarrow> settings \<Rightarrow> clock \<Rightarrow> (db \<Rightarrow> db) \<Rightarrow> device \<Rightarrow> payload \<Rightarrow> db \<Rightarrow> unit result \<times> db" where
  "heartbeat read st clk others d data s = (case read_heartbeat read clk data s of
       Inl e \<Rightarrow> (Inl e, s)
     | Inr h \<Rightarrow> atomic (store_heartbeat st (clk 3) (clk 4) (dv_id d) h data) (others s))"

subsection \<open>Operational events as an idempotent store\<close>

lemma same_object_iff: "same_object p q \<longleftrightarrow> map_of p = map_of q"
proof
  assume s: "same_object p q"
  show "map_of p = map_of q"
  proof
    fix k
    show "map_of p k = map_of q k"
    proof (cases "k \<in> set (jkeys p @ jkeys q)")
      case True
      then show ?thesis using s by (auto simp: same_object_def list_all_iff)
    next
      case False
      then have "map_of p k = None" "map_of q k = None" by (auto simp: jkeys_def map_of_eq_None_iff)
      then show ?thesis by simp
    qed
  qed
qed (simp add: same_object_def list_all_iff)

type_synonym event_submission = "time \<times> time \<times> event_report"

definition same_report :: "event_report \<Rightarrow> event_report \<Rightarrow> bool" where
  "same_report e e' = (er_device e = er_device e' \<and> er_kind e = er_kind e' \<and> er_recorded_at e = er_recorded_at e'
     \<and> same_object (er_details e) (er_details e'))"

fun event_key :: "event_submission \<Rightarrow> id" where
  "event_key (r, now, e) = er_id e"

fun event_same :: "event_submission \<Rightarrow> event_submission \<Rightarrow> bool" where
  "event_same (r, now, e) (r', now', e') = same_report e e'"

fun event_stored :: "event_submission \<Rightarrow> db \<Rightarrow> bool" where
  "event_stored (r, now, e) s = (case lookup_by oe_id (er_id e) (operational_events s) of None \<Rightarrow> False
     | Some row \<Rightarrow> oe_device row = er_device e \<and> operational_event_matches row e)"

fun event_submit :: "event_submission \<Rightarrow> db \<Rightarrow> bool result \<times> db" where
  "event_submit (r, now, e) s = submit_event r now (\<lambda>x. x) e s"

text \<open>Storing an event with a fresh identifier; the alert that follows touches only alerts.\<close>

lemma create_event_fresh:
  assumes "lookup_by oe_id (er_id e) (operational_events s) = None" and "create_event r now e s = (res, t)"
  shows "\<exists>row. operational_events t = operational_events s @ [row] \<and> oe_id row = er_id e
      \<and> oe_device row = er_device e \<and> operational_event_matches row e"
    and "res = Inr b \<Longrightarrow> \<exists>u. alerts u = alerts s \<and> next_pk u = next_pk s \<and> raise_all now (event_alerts e) u = Inr t"
proof -
  define row where "row = \<lparr>oe_id = er_id e, oe_device = er_device e, oe_kind = er_kind e, oe_recorded_at = er_recorded_at e,
               oe_received_at = r, oe_details = er_details e\<rparr>"
  define u where "u = s\<lparr>operational_events := operational_events s @ [row]\<rparr>"
  have c: "(case raise_all now (event_alerts e) u of Inl x \<Rightarrow> (Inl x, u) | Inr v \<Rightarrow> (Inr False, v)) = (res, t)"
    using assms unfolding u_def row_def by (simp add: create_event_def store_event_def)
  have "operational_events t = operational_events u"
    using c by (auto split: sum.splits dest!: raise_all_frame only_alertsD(10))
  then show "\<exists>row. operational_events t = operational_events s @ [row] \<and> oe_id row = er_id e
      \<and> oe_device row = er_device e \<and> operational_event_matches row e"
    by (intro exI [of _ row]) (simp add: u_def row_def operational_event_matches_def same_object_iff)
  have "alerts u = alerts s" "next_pk u = next_pk s" by (simp_all add: u_def)
  then show "res = Inr b \<Longrightarrow> \<exists>u. alerts u = alerts s \<and> next_pk u = next_pk s \<and> raise_all now (event_alerts e) u = Inr t"
    using c by (intro exI [of _ u]) (auto split: sum.splits)
qed

lemma event_submit_None:
  "lookup_by oe_id (er_id e) (operational_events s) = None \<Longrightarrow> event_submit (r, now, e) s = create_event r now e s"
  by (simp add: submit_event_def)

lemma event_submit_Some:
  "lookup_by oe_id (er_id e) (operational_events s) = Some row \<Longrightarrow>
   snd (event_submit (r, now, e) s) = s \<and>
   (fst (event_submit (r, now, e) s) = Inr b \<longleftrightarrow> b \<and> oe_device row = er_device e \<and> operational_event_matches row e)"
  by (auto simp: submit_event_def)

lemma event_submit_rows:
  obtains (kept) "operational_events (snd (event_submit (r, now, e) s)) = operational_events s"
  | (added) row where "lookup_by oe_id (er_id e) (operational_events s) = None" "oe_id row = er_id e"
      "operational_events (snd (event_submit (r, now, e) s)) = operational_events s @ [row]"
      "event_stored (r, now, e) (snd (event_submit (r, now, e) s))"
proof (cases "lookup_by oe_id (er_id e) (operational_events s)")
  case (Some row)
  then show ?thesis using event_submit_Some [of e s row r now True] kept by simp
next
  case None
  let ?t = "snd (event_submit (r, now, e) s)"
  obtain row where row: "operational_events ?t = operational_events s @ [row]" "oe_id row = er_id e"
      "oe_device row = er_device e" "operational_event_matches row e"
    using create_event_fresh(1) [OF None, of r now _ ?t] event_submit_None [OF None] by (metis prod.collapse)
  moreover have "lookup_by oe_id (er_id e) (operational_events ?t) = Some row"
    using None row by (simp add: lookup_by_append lookup_by_Cons)
  ultimately show ?thesis using None added by simp
qed

interpretation event_store:
  idempotent_store "\<lambda>s. True" event_key "\<lambda>e. True" event_same event_stored event_submit
proof
  fix s and e e' :: event_submission
  assume st: "event_stored e' s"
  obtain r now x where e: "e = (r, now, x)" by (metis surj_pair)
  obtain r' now' x' where e': "e' = (r', now', x')" by (metis surj_pair)
  show "event_stored e' (snd (event_submit e s))"
    unfolding e using st
    by (cases rule: event_submit_rows [of r now x s]) (auto simp: e' lookup_by_append split: option.splits)
next
  fix s b and e :: event_submission
  assume f: "fst (event_submit e s) = Inr b"
  obtain r now x where e: "e = (r, now, x)" by (metis surj_pair)
  show "event_stored e (snd (event_submit e s))"
  proof (cases "lookup_by oe_id (er_id x) (operational_events s)")
    case (Some row)
    then show ?thesis using f event_submit_Some [OF Some, of r now b] by (simp add: e)
  next
    case None
    then show ?thesis unfolding e
      by (cases rule: event_submit_rows [of r now x s])
        (use create_event_fresh(1) [OF None, of r now] event_submit_None [OF None] in \<open>metis append_self_conv list.discI prod.collapse\<close>, simp)
  qed
next
  fix s and e :: event_submission
  assume st: "event_stored e s"
  obtain r now x where e: "e = (r, now, x)" by (metis surj_pair)
  then show "event_submit e s = (Inr True, s)" using st by (auto simp: submit_event_def split: option.splits)
next
  fix s x and e e' :: event_submission
  assume st: "event_stored e s" and k: "event_key e' = event_key e"
  obtain r now y where e: "e = (r, now, y)" by (metis surj_pair)
  obtain r' now' y' where e': "e' = (r', now', y')" by (metis surj_pair)
  obtain row where "lookup_by oe_id (er_id y') (operational_events s) = Some row"
    using st k by (auto simp: e e' split: option.splits)
  then show "snd (event_submit e' s) = s" using event_submit_Some by (simp add: e')
next
  fix s and e e' :: event_submission
  assume "event_stored e s" "event_stored e' s" "event_key e = event_key e'"
  then show "event_same e e'"
    by (cases e; cases e') (auto simp: same_report_def operational_event_matches_def same_object_iff split: option.splits)
qed simp_all

lemma raised_level:
  assumes "alerts_ok s" and "raise_all now rs s = Inr t" and "a \<in> set rs"
  shows "\<exists>v. alert_level t (request_key a) = Some v \<and> request_severity a \<le> v"
  using sink.run_requested [OF assms(1) assms(2) [unfolded raise_all_def] assms(3)] .

lemma event_alerts_critical: "a \<in> set (event_alerts e) \<Longrightarrow> request_severity a = Critical"
  by (auto simp: event_alerts_def split: event_kind.splits)

lemma critical_top: "Critical \<le> v \<longleftrightarrow> v = Critical" for v :: severity
  by (cases v) (simp_all add: less_eq_severity_def)

text \<open>Operational events may be sent again and again. After an event was acknowledged, and whatever
  other events were submitted since, a request with its identifier changes nothing and is answered
  as a duplicate exactly if it comes from the same device and reports the same kind, time and
  details. The first acknowledgement of a lost queue or a rejected point leaves a critical alert
  for the device open.\<close>
theorem operational_event_idempotent:
  assumes "operational_event read clk (\<lambda>x. x) d data s = (Inr b, t)" and "alerts_ok s"
    and "u = fold (\<lambda>e s. snd (event_submit e s)) es t"
  shows "\<exists>e. read_event read (clk 0) d data = Inr e \<and> er_device e = dv_id d
    \<and> (\<not> b \<longrightarrow> (\<forall>a\<in>set (event_alerts e). alert_level t (request_key a) = Some Critical))
    \<and> (\<forall>read2 clk2 others d2 data2 e2. read_event read2 (clk2 0) d2 data2 = Inr e2 \<and> er_id e2 = er_id e \<longrightarrow>
         snd (operational_event read2 clk2 others d2 data2 u) = u
         \<and> (fst (operational_event read2 clk2 others d2 data2 u) = Inr True \<longleftrightarrow> same_report e e2))"
proof -
  obtain e where e: "read_event read (clk 0) d data = Inr e"
    and sub: "event_submit (clk 1, clk 2, e) s = (Inr b, t)"
    using assms(1) by (auto simp: operational_event_def split: sum.splits)
  have dev: "er_device e = dv_id d"
    using e by (auto simp: read_event_def bind_result_Inr_iff split: option.splits)
  have al: "alert_level t (request_key a) = Some Critical" if nb: "\<not> b" and a: "a \<in> set (event_alerts e)" for a
  proof -
    have None: "lookup_by oe_id (er_id e) (operational_events s) = None"
      using sub nb event_submit_Some [of e s _ "clk 1" "clk 2" b] by (cases "lookup_by oe_id (er_id e) (operational_events s)") auto
    obtain w where w: "alerts w = alerts s" "next_pk w = next_pk s" "raise_all (clk 2) (event_alerts e) w = Inr t"
      using create_event_fresh(2) [OF None] sub event_submit_None [OF None] by metis
    then have "alerts_ok w" using assms(2) by (simp add: alerts_ok_def)
    from raised_level [OF this w(3) a] event_alerts_critical [OF a] show ?thesis by (auto simp: critical_top)
  qed
  have "event_stored (clk 1, clk 2, e) t"
    using event_store.submit_stores [of "(clk 1, clk 2, e)" s b] sub by simp
  then have st: "event_stored (clk 1, clk 2, e) u"
    unfolding assms(3) by (intro event_store.run_keeps) (simp_all add: list_all_iff)
  then obtain row where row: "lookup_by oe_id (er_id e) (operational_events u) = Some row" "oe_device row = er_device e"
      "operational_event_matches row e"
    by (auto split: option.splits)
  have "snd (operational_event read2 clk2 others d2 data2 u) = u
      \<and> (fst (operational_event read2 clk2 others d2 data2 u) = Inr True \<longleftrightarrow> same_report e e2)"
    if r2: "read_event read2 (clk2 0) d2 data2 = Inr e2" "er_id e2 = er_id e" for read2 clk2 others d2 data2 e2
  proof -
    have "operational_event_matches row e2 \<longleftrightarrow> er_kind e = er_kind e2 \<and> er_recorded_at e = er_recorded_at e2
        \<and> same_object (er_details e) (er_details e2)"
      using row(3) by (auto simp: operational_event_matches_def same_object_iff)
    then show ?thesis
      using row r2 by (auto simp: operational_event_def submit_event_def same_report_def)
  qed
  then show ?thesis using e dev al by blast
qed

definition loss_request :: payload where
  "loss_request = [(''id'', JStr (uuid_str 9)), (''kind'', JStr ''location_queue_loss''), (''recorded_at'', JStr ''a''),
     (''details'', JObj [(''removed_points'', JInt 3), (''estimated_removed_bytes'', JInt 300), (''retained_points'', JInt 0)])]"

definition report_loss :: "db \<Rightarrow> bool result \<times> db" where
  "report_loss s = operational_event (\<lambda>x. Some (Aware 1000)) (\<lambda>n. 2000) (\<lambda>x. x) (hd (devices fleet_db)) loss_request s"

definition loss_db :: db where
  "loss_db = snd (report_loss fleet_db)"

theorem operational_event_idempotent_witness:
  "report_loss loss_db = (Inr True, loss_db) \<and> alert_level loss_db (Some 7, ''location_queue_loss'') = Some Critical"
proof -
  have "fst (report_loss fleet_db) = Inr False" by code_simp
  then have r: "report_loss fleet_db = (Inr False, loss_db)" by (simp add: loss_db_def prod_eq_iff)
  have ok: "alerts_ok fleet_db" by code_simp
  have u: "loss_db = fold (\<lambda>e s. snd (event_submit e s)) [] loss_db" by simp
  obtain e where e: "read_event (\<lambda>x. Some (Aware 1000)) 2000 (hd (devices fleet_db)) loss_request = Inr e"
    and al: "\<forall>a\<in>set (event_alerts e). alert_level loss_db (request_key a) = Some Critical"
    and again: "snd (report_loss loss_db) = loss_db \<and> (fst (report_loss loss_db) = Inr True \<longleftrightarrow> same_report e e)"
    using operational_event_idempotent [OF r [unfolded report_loss_def] ok u] unfolding report_loss_def by fastforce
  have "same_report e e" by (simp add: same_report_def same_object_iff)
  moreover have "(case read_event (\<lambda>x. Some (Aware 1000)) 2000 (hd (devices fleet_db)) loss_request of Inl x \<Rightarrow> False
      | Inr e \<Rightarrow> map request_key (event_alerts e) = [(Some 7, ''location_queue_loss'')])" by code_simp
  then have "map request_key (event_alerts e) = [(Some 7, ''location_queue_loss'')]" using e by simp
  then obtain a where a: "event_alerts e = [a]" "request_key a = (Some 7, ''location_queue_loss'')" by auto
  have "alert_level loss_db (request_key a) = Some Critical" using al a(1) by simp
  then have "alert_level loss_db (Some 7, ''location_queue_loss'') = Some Critical" using a(2) by simp
  ultimately show ?thesis using again by (metis prod.collapse)
qed

subsection \<open>What a heartbeat does to its device\<close>

lemma later_max: "later r s = max r s"
  by (cases r; cases s) (auto simp: later_def max_def)

lemma newer_iff: "(case r of None \<Rightarrow> True | Some t \<Rightarrow> t \<le> x) \<longleftrightarrow> r \<le> Some x"
  by (cases r) auto

lemma apply_heartbeat_simps:
  "dv_id (apply_heartbeat h r d) = dv_id d"
  "dv_last_seen_at (apply_heartbeat h r d) = Some r"
  "dv_last_heartbeat_recorded_at (apply_heartbeat h r d) = max (dv_last_heartbeat_recorded_at d) (Some (hr_recorded_at h))"
  "dv_last_sync_at (apply_heartbeat h r d) = max (dv_last_sync_at d) (hr_last_sync h)"
  "dv_last_playback_at (apply_heartbeat h r d) = max (dv_last_playback_at d) (hr_last_playback h)"
  "dv_last_heartbeat_recorded_at d \<le> Some (hr_recorded_at h) \<Longrightarrow>
     dv_current_playlist (apply_heartbeat h r d) = hr_playlist h \<and> dv_app_version (apply_heartbeat h r d) = hr_app_version h"
  "\<not> dv_last_heartbeat_recorded_at d \<le> Some (hr_recorded_at h) \<Longrightarrow>
     dv_current_playlist (apply_heartbeat h r d) = dv_current_playlist d \<and> dv_app_version (apply_heartbeat h r d) = dv_app_version d"
  by (auto simp: apply_heartbeat_def Let_def later_max newer_iff max_def)

definition forget_seen :: "device \<Rightarrow> device" where
  "forget_seen d = d\<lparr>dv_last_seen_at := None\<rparr>"

lemma apply_heartbeat_forget: "forget_seen (apply_heartbeat h r d) = forget_seen (apply_heartbeat h 0 (forget_seen d))"
  by (auto simp: apply_heartbeat_def Let_def forget_seen_def newer_iff)

text \<open>Two heartbeats of different times leave the same aggregated state in either order.\<close>

lemma apply_heartbeat_commute:
  assumes "hr_recorded_at h \<noteq> hr_recorded_at k"
  shows "forget_seen (apply_heartbeat h 0 (forget_seen (apply_heartbeat k 0 d)))
       = forget_seen (apply_heartbeat k 0 (forget_seen (apply_heartbeat h 0 d)))"
proof -
  have ord: "max (max a b) c = max (max a c) b" for a b c :: "time option" by (metis max.assoc max.commute)
  show ?thesis
    using assms ord [of "dv_last_sync_at d" "hr_last_sync h"] ord [of "dv_last_playback_at d" "hr_last_playback h"]
    by (cases "dv_last_heartbeat_recorded_at d"; cases d)
      (auto simp: apply_heartbeat_def Let_def forget_seen_def later_max max.left_commute max.commute)
qed

lemma store_heartbeat_Inr:
  assumes "store_heartbeat st received now i h data s = Inr (u, t)"
  obtains d row s1 where "find_device i s = Some d" "hb_device row = i" "hb_recorded_at row = hr_recorded_at h"
    "heartbeats s1 = heartbeats s @ [row]" "devices s1 = save_by dv_id (apply_heartbeat h received d) (devices s)"
    "alerts s1 = alerts s" "next_pk s1 = next_pk s + 1" "qualifications s1 = qualifications s"
    "raise_all now (heartbeat_alerts st h d s1) s1 = Inr t"
proof -
  from assms obtain d power charging where d: "get_device i s = Inr d"
    and r: "(let row = \<lparr>hb_id = next_pk s, hb_device = i, hb_recorded_at = hr_recorded_at h, hb_received_at = received,
           hb_screen_on = hr_screen_on h, hb_external_power = power, hb_charging = charging,
           hb_battery_percent = hr_battery h, hb_free_storage_bytes = hr_free_storage h,
           hb_temperature_celsius = hr_temperature h, hb_app_version = hr_app_version h,
           hb_android_version = hr_android_version h, hb_active_playlist = hr_playlist h,
           hb_playback_active = hr_playback_active h, hb_last_successful_sync_at = hr_last_sync h,
           hb_last_playback_at = hr_last_playback h\<rparr>;
         s1 = save_device (apply_heartbeat h received d) (s\<lparr>heartbeats := heartbeats s @ [row], next_pk := next_pk s + 1\<rparr>)
     in raise_all now (heartbeat_alerts st h d s1) s1) = Inr t"
    unfolding store_heartbeat_def bind_result_Inr_iff Let_def by blast
  from d have fd: "find_device i s = Some d" by (simp add: get_device_def split: option.splits)
  show ?thesis
    by (rule that [OF fd _ _ _ _ _ _ _ r [unfolded Let_def]]) (simp_all add: save_device_def)
qed

lemma store_heartbeat_devices:
  assumes "store_heartbeat st received now i h data s = Inr (u, t)"
  shows "\<exists>d. find_device i s = Some d \<and> find_device i t = Some (apply_heartbeat h received d)"
    and "j \<noteq> i \<Longrightarrow> find_device j t = find_device j s"
proof -
  obtain d row s1 where d: "find_device i s = Some d" and dv: "devices s1 = save_by dv_id (apply_heartbeat h received d) (devices s)"
    and al: "raise_all now (heartbeat_alerts st h d s1) s1 = Inr t"
    using store_heartbeat_Inr [OF assms] by metis
  have id: "dv_id (apply_heartbeat h received d) = i" using find_device_id [OF d] by (simp add: apply_heartbeat_simps)
  have t: "devices t = devices s1" using raise_all_frame [OF al] by (rule only_alertsD)
  show "\<exists>d. find_device i s = Some d \<and> find_device i t = Some (apply_heartbeat h received d)"
    using d by (simp add: find_device_def t dv lookup_by_save id)
  show "j \<noteq> i \<Longrightarrow> find_device j t = find_device j s"
    by (auto simp: find_device_def t dv lookup_by_save id)
qed

lemma heartbeat_alerts_cong:
  "qualifications s = qualifications t \<Longrightarrow> heartbeat_alerts st h d s = heartbeat_alerts st h d t"
  by (simp add: heartbeat_alerts_def thermally_qualified_def cong: option.case_cong)

text \<open>A heartbeat is recorded and moves the state of its device only forward. The device counts as
  seen when the server received it; the times of the newest heartbeat, synchronisation and playback
  become the maximum of the stored and the reported ones, and the current playlist and the versions
  follow the newest heartbeat. Other devices keep their state, and each alert the readings call for
  is open with at least its severity.\<close>
theorem heartbeat_effect:
  assumes "heartbeat read st clk others d data s = (Inr (), t)" and "alerts_ok (others s)"
  shows "\<exists>h d0 d1 row. read_heartbeat read clk data s = Inr h
    \<and> find_device (dv_id d) (others s) = Some d0 \<and> find_device (dv_id d) t = Some d1
    \<and> dv_last_seen_at d1 = Some (clk 3)
    \<and> dv_last_heartbeat_recorded_at d1 = max (dv_last_heartbeat_recorded_at d0) (Some (hr_recorded_at h))
    \<and> dv_last_sync_at d1 = max (dv_last_sync_at d0) (hr_last_sync h)
    \<and> dv_last_playback_at d1 = max (dv_last_playback_at d0) (hr_last_playback h)
    \<and> (if dv_last_heartbeat_recorded_at d0 \<le> Some (hr_recorded_at h)
       then dv_current_playlist d1 = hr_playlist h \<and> dv_app_version d1 = hr_app_version h
       else dv_current_playlist d1 = dv_current_playlist d0 \<and> dv_app_version d1 = dv_app_version d0)
    \<and> (\<forall>j. j \<noteq> dv_id d \<longrightarrow> find_device j t = find_device j (others s))
    \<and> heartbeats t = heartbeats (others s) @ [row] \<and> hb_device row = dv_id d \<and> hb_recorded_at row = hr_recorded_at h
    \<and> (\<forall>a\<in>set (heartbeat_alerts st h d0 (others s)).
         \<exists>v. alert_level t (request_key a) = Some v \<and> request_severity a \<le> v)"
proof -
  obtain h where h: "read_heartbeat read clk data s = Inr h"
    and st: "store_heartbeat st (clk 3) (clk 4) (dv_id d) h data (others s) = Inr ((), t)"
    using assms(1) by (auto simp: heartbeat_def atomic_Inr_iff split: sum.splits)
  obtain d0 row s1 where d0: "find_device (dv_id d) (others s) = Some d0" and row: "hb_device row = dv_id d" "hb_recorded_at row = hr_recorded_at h"
      "heartbeats s1 = heartbeats (others s) @ [row]"
    and s1: "alerts s1 = alerts (others s)" "next_pk s1 = next_pk (others s) + 1" "qualifications s1 = qualifications (others s)"
    and al: "raise_all (clk 4) (heartbeat_alerts st h d0 s1) s1 = Inr t"
    using store_heartbeat_Inr [OF st] by metis
  have hb: "heartbeats t = heartbeats (others s) @ [row]"
    using row(3) only_alertsD(3) [OF raise_all_frame [OF al]] by simp
  obtain d0' where "find_device (dv_id d) (others s) = Some d0'" "find_device (dv_id d) t = Some (apply_heartbeat h (clk 3) d0')"
    using store_heartbeat_devices(1) [OF st] by blast
  then have d1: "find_device (dv_id d) t = Some (apply_heartbeat h (clk 3) d0)" using d0 by simp
  have "alerts_ok s1" using assms(2) s1(1,2) by (auto simp: alerts_ok_def)
  then have lv: "\<forall>a\<in>set (heartbeat_alerts st h d0 (others s)).
      \<exists>v. alert_level t (request_key a) = Some v \<and> request_severity a \<le> v"
    using raised_level [OF _ al] heartbeat_alerts_cong [OF s1(3)] by simp
  show ?thesis
    using h d0 d1 row hb lv store_heartbeat_devices(2) [OF st]
    by (intro exI [of _ h] exI [of _ d0] exI [of _ "apply_heartbeat h (clk 3) d0"] exI [of _ row])
      (simp add: apply_heartbeat_simps)
qed

subsection \<open>The order of heartbeats\<close>

type_synonym heartbeat_arrival = "time \<times> time \<times> heartbeat_report \<times> payload"

fun arrival :: "settings \<Rightarrow> id \<Rightarrow> heartbeat_arrival \<Rightarrow> db \<Rightarrow> db result" where
  "arrival st i (received, now, h, data) s =
     bind_result (store_heartbeat st received now i h data s) (\<lambda>r. Inr (snd r))"

fun arrival_report :: "heartbeat_arrival \<Rightarrow> heartbeat_report" where
  "arrival_report (received, now, h, data) = h"

definition aggregate :: "heartbeat_arrival \<Rightarrow> device \<Rightarrow> device" where
  "aggregate a d = forget_seen (apply_heartbeat (arrival_report a) 0 d)"

lemma aggregate_forget: "aggregate a (forget_seen d) = forget_seen (apply_heartbeat (arrival_report a) r d)"
  using apply_heartbeat_forget [of "arrival_report a" r d] by (simp add: aggregate_def)

lemma arrivals_aggregate:
  "fold_result (arrival st i) as s = Inr t \<Longrightarrow> find_device i s = Some d \<Longrightarrow>
   \<exists>e. find_device i t = Some e \<and> forget_seen e = fold aggregate as (forget_seen d)"
proof (induction as arbitrary: s d)
  case Nil
  then show ?case by simp
next
  case (Cons a as)
  obtain received now h data where a: "a = (received, now, h, data)" by (metis surj_pair)
  from Cons.prems(1) obtain u s1 where s1: "store_heartbeat st received now i h data s = Inr (u, s1)"
    and rest: "fold_result (arrival st i) as s1 = Inr t"
    by (auto simp: a bind_result_Inr_iff)
  obtain d' where "find_device i s = Some d'" "find_device i s1 = Some (apply_heartbeat h received d')"
    using store_heartbeat_devices(1) [OF s1] by blast
  then have "find_device i s1 = Some (apply_heartbeat h received d)" using Cons.prems(2) by simp
  from Cons.IH [OF rest this] show ?case
    using aggregate_forget [of a d received] by (simp add: a)
qed

text \<open>C29: The state a device ends up in does not depend on the order in which its heartbeats arrive:
  two runs over the same heartbeats, each of a different time, agree on everything but the time the
  server last saw the device.\<close>
theorem heartbeats_any_order:
  assumes "fold_result (arrival st i) as s = Inr t" and "fold_result (arrival st i) bs s = Inr u"
    and "mset bs = mset as" and "distinct (map (\<lambda>a. hr_recorded_at (arrival_report a)) as)"
  shows "map_option forget_seen (find_device i t) = map_option forget_seen (find_device i u)"
proof (cases "find_device i s")
  case (Some d)
  have "aggregate x \<circ> aggregate y = aggregate y \<circ> aggregate x" if "x \<in> set as" "y \<in> set as" for x y
  proof (cases "x = y")
    case False
    then have "hr_recorded_at (arrival_report x) \<noteq> hr_recorded_at (arrival_report y)"
      using assms(4) that by (auto simp: distinct_map inj_on_def)
    then show ?thesis
      using apply_heartbeat_commute by (simp add: fun_eq_iff aggregate_def)
  qed simp
  then have "fold aggregate as = fold aggregate bs"
    using assms(3) by (intro fold_multiset_equiv) auto
  then show ?thesis
    using arrivals_aggregate [OF assms(1) Some] arrivals_aggregate [OF assms(2) Some] by auto
next
  case None
  have "as = [] \<or> (\<exists>a as'. as = a # as')" by (cases as) auto
  moreover have False if "as = a # as'" for a as'
    using assms(1) None that store_heartbeat_devices(1) by (cases a) (fastforce simp: bind_result_Inr_iff)
  ultimately have "as = []" by blast
  then show ?thesis using assms by simp
qed

subsection \<open>Witnesses\<close>

definition beat_request :: "string \<Rightarrow> int \<Rightarrow> payload" where
  "beat_request at battery = [(''recorded_at'', JStr at), (''free_storage_bytes'', JInt 5000000000), (''app_version'', JStr ''1''),
     (''android_version'', JStr ''13''), (''screen_on'', JBool True), (''playback_active'', JBool True),
     (''battery_percent'', JInt battery)]"

definition beat_reader :: datetime_reader where
  "beat_reader x = (if x = ''a'' then Some (Aware 1000) else Some (Aware 2000))"

definition beat :: "db \<Rightarrow> unit result \<times> db" where
  "beat s = heartbeat beat_reader default_settings (\<lambda>n. 3000) (\<lambda>x. x) (hd (devices fleet_db)) (beat_request ''a'' 5) s"

theorem heartbeat_effect_witness:
  "\<exists>t d. beat fleet_db = (Inr (), t) \<and> find_device 7 t = Some d \<and> dv_last_seen_at d = Some 3000"
proof -
  have b: "beat fleet_db = (Inr (), snd (beat fleet_db))"
  proof -
    have "fst (beat fleet_db) = Inr ()" by code_simp
    then show ?thesis by (simp add: prod_eq_iff)
  qed
  have ok: "alerts_ok fleet_db" by code_simp
  have i: "dv_id (hd (devices fleet_db)) = 7" by code_simp
  obtain d where "find_device 7 (snd (beat fleet_db)) = Some d" "dv_last_seen_at d = Some 3000"
    using heartbeat_effect [OF b [unfolded beat_def [of fleet_db]]] ok i unfolding beat_def by auto
  with b show ?thesis by blast
qed

definition beat_report :: "string \<Rightarrow> int \<Rightarrow> heartbeat_report" where
  "beat_report at battery = (case read_heartbeat beat_reader (\<lambda>n. 3000) (beat_request at battery) fleet_db of Inr h \<Rightarrow> h
     | Inl e \<Rightarrow> undefined)"

definition beat_arrivals :: "heartbeat_arrival list" where
  "beat_arrivals = [(3000, 3000, beat_report ''a'' 5, []), (4000, 4000, beat_report ''b'' 50, [])]"

theorem heartbeats_any_order_witness:
  "\<exists>t u. fold_result (arrival default_settings 7) beat_arrivals fleet_db = Inr t
     \<and> fold_result (arrival default_settings 7) (rev beat_arrivals) fleet_db = Inr u
     \<and> map_option forget_seen (find_device 7 t) = map_option forget_seen (find_device 7 u)"
proof -
  have "(case fold_result (arrival default_settings 7) beat_arrivals fleet_db of Inl e \<Rightarrow> False | Inr t \<Rightarrow> True)"
    and "(case fold_result (arrival default_settings 7) (rev beat_arrivals) fleet_db of Inl e \<Rightarrow> False | Inr t \<Rightarrow> True)"
    by code_simp+
  then obtain t u where "fold_result (arrival default_settings 7) beat_arrivals fleet_db = Inr t"
      "fold_result (arrival default_settings 7) (rev beat_arrivals) fleet_db = Inr u"
    by (auto split: sum.splits)
  moreover have "mset (rev beat_arrivals) = mset beat_arrivals" by simp
  moreover have "distinct (map (\<lambda>a. hr_recorded_at (arrival_report a)) beat_arrivals)" by code_simp
  ultimately show ?thesis using heartbeats_any_order by blast
qed

end
