(* ===== verification/Locations.thy ===== *)
theory Locations
  imports Evidence Alerts "HOL-Library.Sublist" "HOL-Library.Option_ord"
begin

section \<open>Location batches\<close>

text \<open>
  The endpoint \<open>location_batch\<close> of \<open>api.py\<close>: the current location state of a device and up to 500
  location points. A point that is no object or has no identifier refuses the whole batch, a point
  with bad values is rejected alone. Coordinates are in millionths of a degree and accuracies in
  hundredths of a metre. The function \<open>others\<close> gives what concurrent requests do between the lookup
  of a point and its insertion, by the position of the point.
\<close>

subsection \<open>Reading a point\<close>

record location_fix =
  fx_id :: id
  fx_recorded_at :: time
  fx_device_recorded_at :: time
  fx_latitude :: int
  fx_longitude :: int
  fx_accuracy :: int
  fx_provider :: string
  fx_source :: string

definition max_location_age :: time where
  "max_location_age = days 30"

definition max_planned_gap_future_skew :: time where
  "max_planned_gap_future_skew = minutes 10"

definition max_location_points_per_batch :: nat where
  "max_location_points_per_batch = 500"

definition location_states :: "string list" where
  "location_states = [''initializing'', ''fresh'', ''stale'', ''unavailable'', ''planned_gap'', ''shutdown'',
     ''permission_disabled'', ''location_disabled'', ''mock'']"

definition location_providers :: "string list" where
  "location_providers = [''gps'', ''network'']"

definition location_source :: string where
  "location_source = ''location_manager''"

definition location_decimal :: "json \<Rightarrow> string \<Rightarrow> int \<Rightarrow> int \<Rightarrow> nat \<Rightarrow> int result" where
  "location_decimal v field lo hi places =
     (case json_decimal v of
        None \<Rightarrow> Inl (ValidationError field ''Use a finite number.'')
      | Some (DFin m e) \<Rightarrow>
          (if \<not> int_le_dec lo m e \<or> \<not> dec_le_int m e hi
           then Inl (ValidationError field ''Value is outside the allowed range.'')
           else (case quantize places m e of
               None \<Rightarrow> Inl (ValidationError field ''Number precision is invalid.'') | Some n \<Rightarrow> Inr n))
      | Some _ \<Rightarrow> Inl (ValidationError field ''Value is outside the allowed range.''))"

definition read_fix :: "datetime_reader \<Rightarrow> time \<Rightarrow> time \<Rightarrow> time \<Rightarrow> id \<Rightarrow> payload \<Rightarrow> location_fix result" where
  "read_fix read now now1 now2 i raw =
     bind_result (require (keys_within raw [''id'', ''recorded_at'', ''device_recorded_at'', ''latitude'', ''longitude'',
         ''accuracy_m'', ''provider'', ''source'']) (ValidationError [] ''Point contains unknown fields.'')) (\<lambda>u1.
     bind_result (parse_required_datetime read now1 max_device_timestamp_future_skew (jget raw ''recorded_at'') ''recorded_at'') (\<lambda>at.
     bind_result (parse_required_datetime read now2 max_device_timestamp_future_skew (jget raw ''device_recorded_at'')
         ''device_recorded_at'') (\<lambda>dev_at.
     bind_result (require (now - max_location_age \<le> at) (ValidationError [] ''Point is older than 30 days.'')) (\<lambda>u2.
     bind_result (required_short_string raw ''provider'' 16) (\<lambda>p.
     let provider = lower p in
     bind_result (require (provider \<in> set location_providers) (ValidationError [] ''Unsupported location provider.'')) (\<lambda>u3.
     bind_result (required_short_string raw ''source'' 32) (\<lambda>source.
     bind_result (require (source = location_source) (ValidationError [] ''Unsupported location source.'')) (\<lambda>u4.
     bind_result (location_decimal (jget raw ''latitude'') ''latitude'' (- 90) 90 6) (\<lambda>lat.
     bind_result (location_decimal (jget raw ''longitude'') ''longitude'' (- 180) 180 6) (\<lambda>lon.
     bind_result (location_decimal (jget raw ''accuracy_m'') ''accuracy_m'' 0 100 2) (\<lambda>acc.
     Inr \<lparr>fx_id = i, fx_recorded_at = at, fx_device_recorded_at = dev_at, fx_latitude = lat, fx_longitude = lon,
          fx_accuracy = acc, fx_provider = provider, fx_source = source\<rparr>)))))))))))"

text \<open>An element of the array: its identifier, and its values unless they are bad.\<close>

definition read_point :: "datetime_reader \<Rightarrow> time \<Rightarrow> time \<Rightarrow> time \<Rightarrow> json \<Rightarrow> (id \<times> location_fix option) result" where
  "read_point read now now1 now2 raw = (case raw of
       JObj p \<Rightarrow> (case parse_required_uuid (jget p ''id'') ''id'' of
           Inl e \<Rightarrow> Inl (ValidationError ''points'' ''Each point needs a UUID id.'')
         | Inr i \<Rightarrow> Inr (i, case read_fix read now now1 now2 i p of Inl e \<Rightarrow> None | Inr x \<Rightarrow> Some x))
     | _ \<Rightarrow> Inl (ValidationError ''points'' ''Each point must be an object.''))"

text \<open>The first point of each identifier is kept; a different one with the same identifier collides.\<close>

fun collect_points ::
  "(id \<times> location_fix option) list \<Rightarrow> location_fix list \<Rightarrow> location_fix list \<times> (id \<times> string) list" where
  "collect_points [] seen = ([], [])"
| "collect_points ((i, None) # ps) seen =
     (let (ok, bad) = collect_points ps seen in (ok, (i, ''invalid_point'') # bad))"
| "collect_points ((i, Some p) # ps) seen =
     (case lookup_by fx_id i seen of
        Some prior \<Rightarrow>
          (let (ok, bad) = collect_points ps seen
           in (ok, if prior \<noteq> p then (i, ''id_collision'') # bad else bad))
      | None \<Rightarrow> (let (ok, bad) = collect_points ps (seen @ [p]) in (p # ok, bad)))"

subsection \<open>The current state\<close>

record location_state =
  lc_state :: string
  lc_reported_at :: time
  lc_planned_gap_until :: "time option"

definition read_state :: "datetime_reader \<Rightarrow> clock \<Rightarrow> payload \<Rightarrow> location_state result" where
  "read_state read clk current =
     bind_result (require (keys_within current [''state'', ''reported_at'', ''planned_gap_until''])
        (ValidationError [] ''Location state contains unknown fields.'')) (\<lambda>u1.
     bind_result (required_short_string current ''state'' 32) (\<lambda>state.
     bind_result (require (state \<in> set location_states) (ValidationError ''current.state'' ''Unknown location state.'')) (\<lambda>u2.
     bind_result (parse_required_datetime read (clk 1) max_device_timestamp_future_skew (jget current ''reported_at'') ''reported_at'') (\<lambda>at.
     bind_result (require (clk 0 - max_location_age \<le> at) (ValidationError ''reported_at'' ''State is older than 30 days.'')) (\<lambda>u3.
     bind_result (if \<not> truthy (jget current ''planned_gap_until'') then Inr None
        else bind_result (parse_required_datetime read (clk 2) max_planned_gap_future_skew (jget current ''planned_gap_until'')
               ''planned_gap_until'') (\<lambda>t.
             bind_result (require (t \<le> clk 0 + max_planned_gap_future_skew)
               (ValidationError ''planned_gap_until'' ''Planned gaps may not exceed ten minutes.'')) (\<lambda>u. Inr (Some t)))) (\<lambda>gap.
     bind_result (require (\<not> (state = ''planned_gap'' \<and> gap = None))
        (ValidationError ''planned_gap_until'' ''Planned gaps require an end time.'')) (\<lambda>u4.
     Inr \<lparr>lc_state = state, lc_reported_at = at, lc_planned_gap_until = gap\<rparr>)))))))"

definition read_current :: "datetime_reader \<Rightarrow> clock \<Rightarrow> json \<Rightarrow> location_state option result" where
  "read_current read clk v = (case v of
       JNull \<Rightarrow> Inr None
     | JObj p \<Rightarrow> bind_result (read_state read clk p) (\<lambda>c. Inr (Some c))
     | _ \<Rightarrow> Inl (ValidationError ''current'' ''Use a JSON object.''))"

definition state_alerts :: "location_state \<Rightarrow> id \<Rightarrow> alert_request list" where
  "state_alerts c d =
     (if lc_state c = ''permission_disabled''
      then [AlertRequest (Some d) ''location_permission_disabled'' Critical ''Device precise-location permission is disabled.'']
      else if lc_state c = ''location_disabled''
      then [AlertRequest (Some d) ''location_disabled'' Critical ''Device location services are disabled.'']
      else if lc_state c = ''mock''
      then [AlertRequest (Some d) ''location_mock'' Critical ''Device reported a mock location source.'']
      else if lc_state c = ''stale''
      then [AlertRequest (Some d) ''location_stale'' Warning ''Device location report is stale.'']
      else if lc_state c = ''unavailable''
      then [AlertRequest (Some d) ''location_unavailable'' Critical ''Device has no fresh valid location fix.'']
      else [])"

subsection \<open>Storing points\<close>

definition location_point_matches :: "location_point \<Rightarrow> id \<Rightarrow> location_fix \<Rightarrow> bool" where
  "location_point_matches r d p =
     (lp_device r = d \<and> lp_recorded_at r = fx_recorded_at p \<and> lp_device_recorded_at r = fx_device_recorded_at p
      \<and> lp_latitude r = fx_latitude p \<and> lp_longitude r = fx_longitude p \<and> lp_accuracy_m r = fx_accuracy p
      \<and> lp_provider r = fx_provider p \<and> lp_source r = fx_source p)"

definition fix_row :: "id \<Rightarrow> id option \<Rightarrow> location_fix \<Rightarrow> location_point" where
  "fix_row d a p = \<lparr>lp_id = fx_id p, lp_device = d, lp_assignment = a, lp_recorded_at = fx_recorded_at p,
     lp_device_recorded_at = fx_device_recorded_at p, lp_latitude = fx_latitude p, lp_longitude = fx_longitude p,
     lp_accuracy_m = fx_accuracy p, lp_provider = fx_provider p, lp_source = fx_source p\<rparr>"

datatype point_outcome = Stored | Known | Collision

definition record_point :: "(db \<Rightarrow> db) \<Rightarrow> id \<Rightarrow> location_fix \<Rightarrow> db \<Rightarrow> point_outcome \<times> db" where
  "record_point others d p s =
     (case lookup_by lp_id (fx_id p) (location_points s) of
        Some r \<Rightarrow> (if lp_device r \<noteq> d then Collision else if location_point_matches r d p then Known else Collision, s)
      | None \<Rightarrow>
         (let a = map_option da_id (assignment_at d (fx_recorded_at p) s); s1 = others s in
          case lookup_by lp_id (fx_id p) (location_points s1) of
            None \<Rightarrow> (Stored, s1\<lparr>location_points := location_points s1 @ [fix_row d a p]\<rparr>)
          | Some r \<Rightarrow> (if lp_device r = d \<and> location_point_matches r d p then Known else Collision, s1)))"

fun record_points :: "(nat \<Rightarrow> db \<Rightarrow> db) \<Rightarrow> nat \<Rightarrow> id \<Rightarrow> location_fix list \<Rightarrow> db \<Rightarrow> (id \<times> point_outcome) list \<times> db" where
  "record_points others k d [] s = ([], s)"
| "record_points others k d (p # ps) s =
     (let (r, s1) = record_point (others k) d p s; (rs, s2) = record_points others (k + 1) d ps s1
      in ((fx_id p, r) # rs, s2))"

subsection \<open>The batch\<close>

record location_response =
  ls_acknowledged :: "id list"
  ls_rejected :: "(id \<times> string) list"
  ls_state_accepted :: bool

definition state_is_newer :: "location_state option \<Rightarrow> device \<Rightarrow> bool" where
  "state_is_newer current d = (case current of None \<Rightarrow> False
     | Some c \<Rightarrow> (case dv_location_state_updated_at d of None \<Rightarrow> True | Some t \<Rightarrow> t \<le> lc_reported_at c))"

definition apply_state :: "time \<Rightarrow> location_state option \<Rightarrow> bool \<Rightarrow> device \<Rightarrow> device" where
  "apply_state now current fresh d =
     (let d1 = (case current of None \<Rightarrow> d
                | Some c \<Rightarrow> if state_is_newer current d
                    then d\<lparr>dv_location_state := lc_state c, dv_location_state_updated_at := Some (lc_reported_at c),
                           dv_location_planned_gap_until := lc_planned_gap_until c\<rparr> else d)
      in if state_is_newer current d \<or> fresh then d1\<lparr>dv_last_location_reported_at := Some now\<rparr> else d1)"

definition store_locations ::
  "time \<Rightarrow> time \<Rightarrow> (nat \<Rightarrow> db \<Rightarrow> db) \<Rightarrow> id \<Rightarrow> location_state option \<Rightarrow> location_fix list \<Rightarrow> db
   \<Rightarrow> ((id \<times> point_outcome) list \<times> db) result" where
  "store_locations now alert_now others i current points s =
     bind_result (get_device i s) (\<lambda>d.
     let (rs, s1) = record_points others 0 i points s;
         s2 = save_device (apply_state now current (list_ex (\<lambda>r. snd r = Stored) rs) d) s1
     in bind_result (case current of None \<Rightarrow> Inr s2
          | Some c \<Rightarrow> if state_is_newer current d then raise_all alert_now (state_alerts c i) s2 else Inr s2) (\<lambda>s3.
        Inr (rs, s3)))"

definition read_batch ::
  "datetime_reader \<Rightarrow> clock \<Rightarrow> device \<Rightarrow> payload \<Rightarrow> (location_state option \<times> (id \<times> location_fix option) list) result" where
  "read_batch read clk d data =
     bind_result (require (dv_status d \<noteq> Disabled) (PermissionDenied ''Disabled devices cannot submit locations.'')) (\<lambda>u1.
     bind_result (require (keys_within data [''current'', ''points'']) (ValidationError [] ''Location batch contains unknown fields.'')) (\<lambda>u2.
     bind_result (case jget_default data ''points'' (JArr []) of
         JArr ps \<Rightarrow> Inr ps | _ \<Rightarrow> Inl (ValidationError ''points'' ''Use a JSON array.'')) (\<lambda>points.
     bind_result (require (length points \<le> max_location_points_per_batch)
        (ValidationError ''points'' ''A location batch may contain at most 500 points.'')) (\<lambda>u3.
     bind_result (read_current read clk (jget data ''current'')) (\<lambda>current.
     bind_result (map_result (\<lambda>(k, raw). read_point read (clk 0) (clk (2 * k + 3)) (clk (2 * k + 4)) raw) (List.enumerate 0 points)) (\<lambda>ps.
     Inr (current, ps)))))))"

definition location_batch ::
  "datetime_reader \<Rightarrow> clock \<Rightarrow> time \<Rightarrow> (nat \<Rightarrow> db \<Rightarrow> db) \<Rightarrow> device \<Rightarrow> payload \<Rightarrow> db \<Rightarrow> location_response result \<times> db" where
  "location_batch read clk alert_now others d data s =
     (case read_batch read clk d data of
        Inl e \<Rightarrow> (Inl e, s)
      | Inr (current, ps) \<Rightarrow>
         (let (points, rejected) = collect_points ps [] in
          case atomic (store_locations (clk 0) alert_now others (dv_id d) current points) s of
            (Inl e, t) \<Rightarrow> (Inl e, t)
          | (Inr rs, t) \<Rightarrow>
             (Inr \<lparr>ls_acknowledged = map fst (filter (\<lambda>r. snd r \<noteq> Collision) rs),
                   ls_rejected = rejected @ map (\<lambda>r. (fst r, ''id_collision'')) (filter (\<lambda>r. snd r = Collision) rs),
                   ls_state_accepted = (current \<noteq> None)\<rparr>, t)))"

subsection \<open>Points as an idempotent store\<close>

type_synonym point_submission = "id \<times> location_fix"

fun point_key :: "point_submission \<Rightarrow> id" where
  "point_key (d, p) = fx_id p"

fun point_stored :: "point_submission \<Rightarrow> db \<Rightarrow> bool" where
  "point_stored (d, p) s = (case lookup_by lp_id (fx_id p) (location_points s) of None \<Rightarrow> False
     | Some r \<Rightarrow> location_point_matches r d p)"

fun point_submit :: "point_submission \<Rightarrow> db \<Rightarrow> (unit + bool) \<times> db" where
  "point_submit (d, p) s = (case record_point (\<lambda>x. x) d p s of
     (r, t) \<Rightarrow> (case r of Collision \<Rightarrow> Inl () | Known \<Rightarrow> Inr True | Stored \<Rightarrow> Inr False, t))"

lemma matches_row_iff: "location_point_matches (fix_row d a p) d' p' \<and> fx_id p = fx_id p' \<longleftrightarrow> d = d' \<and> p = p'"
  by (cases p; cases p') (auto simp: location_point_matches_def fix_row_def)

lemma matches_unique:
  "location_point_matches r d p \<Longrightarrow> location_point_matches r d' p' \<Longrightarrow> fx_id p = fx_id p' \<Longrightarrow> d = d' \<and> p = p'"
  by (cases p; cases p') (auto simp: location_point_matches_def)

lemma matches_self [simp]: "location_point_matches (fix_row d a p) d p" "lp_id (fix_row d a p) = fx_id p"
  by (simp_all add: location_point_matches_def fix_row_def)

lemma record_point_stored:
  "point_stored (d, p) s \<Longrightarrow> record_point others d p s = (Known, s)"
  by (auto simp: record_point_def location_point_matches_def split: option.splits)

lemma record_point_present:
  assumes "lookup_by lp_id (fx_id p) (location_points s) = Some r"
  shows "snd (record_point others d p s) = s" and "fst (record_point others d p s) \<noteq> Collision \<Longrightarrow> point_stored (d, p) s"
  using assms by (auto simp: record_point_def split: if_splits)

text \<open>With what others did first, a point is either stored behind all rows or found among them.\<close>

lemma record_point_cases:
  obtains (kept) "location_points (snd (record_point others d p s)) = location_points s"
      "fst (record_point others d p s) \<noteq> Stored"
      "fst (record_point others d p s) = Known \<Longrightarrow> point_stored (d, p) (snd (record_point others d p s))"
  | (raced) "location_points (snd (record_point others d p s)) = location_points (others s)"
      "fst (record_point others d p s) \<noteq> Stored"
      "fst (record_point others d p s) = Known \<Longrightarrow> point_stored (d, p) (snd (record_point others d p s))"
  | (stored) a where "location_points (snd (record_point others d p s)) = location_points (others s) @ [fix_row d a p]"
      "lookup_by lp_id (fx_id p) (location_points (others s)) = None" "fst (record_point others d p s) = Stored"
proof (cases "lookup_by lp_id (fx_id p) (location_points s)")
  case (Some r)
  then show ?thesis by (intro kept) (auto simp: record_point_def split: if_splits)
next
  case None
  show ?thesis
  proof (cases "lookup_by lp_id (fx_id p) (location_points (others s))")
    case None': None
    then show ?thesis using None by (intro stored) (auto simp: record_point_def Let_def)
  next
    case (Some r)
    then show ?thesis using None by (intro raced) (auto simp: record_point_def Let_def split: if_splits)
  qed
qed

lemma record_point_acked:
  assumes "fst (record_point others d p s) \<noteq> Collision"
  shows "point_stored (d, p) (snd (record_point others d p s))"
proof (cases rule: record_point_cases [of others d p s])
  case (stored a)
  then show ?thesis by (simp add: lookup_by_append lookup_by_Cons)
next
  case kept
  then show ?thesis using assms by (cases "fst (record_point others d p s)") auto
next
  case raced
  then show ?thesis using assms by (cases "fst (record_point others d p s)") auto
qed

lemma stored_prefix: "point_stored e s \<Longrightarrow> prefix (location_points s) (location_points t) \<Longrightarrow> point_stored e t"
  by (cases e) (auto simp: prefix_def lookup_by_append split: option.splits)

lemma record_point_prefix:
  assumes "prefix (location_points s) (location_points (others s))"
  shows "prefix (location_points s) (location_points (snd (record_point others d p s)))"
  by (rule record_point_cases [of others d p s]) (use assms in auto)

lemma point_submit_snd: "snd (point_submit (d, p) s) = snd (record_point (\<lambda>x. x) d p s)"
  by (simp split: prod.splits)

lemma point_submit_Inr: "fst (point_submit (d, p) s) = Inr b \<Longrightarrow> fst (record_point (\<lambda>x. x) d p s) \<noteq> Collision"
  by (auto split: prod.splits)

interpretation point_store:
  idempotent_store "\<lambda>s. True" point_key "\<lambda>e. True" "(=)" point_stored point_submit
proof
  fix s and e e' :: point_submission
  assume "point_stored e' s"
  then show "point_stored e' (snd (point_submit e s))"
    by (cases e) (auto simp only: point_submit_snd intro: stored_prefix record_point_prefix)
next
  fix s b and e :: point_submission
  assume "fst (point_submit e s) = Inr b"
  then show "point_stored e (snd (point_submit e s))"
    using point_submit_Inr record_point_acked by (cases e) (metis point_submit_snd)
next
  fix s and e :: point_submission
  assume "point_stored e s"
  then show "point_submit e s = (Inr True, s)" by (cases e) (simp add: record_point_stored)
next
  fix s x and e e' :: point_submission
  assume "point_stored e s" "point_key e' = point_key e"
  then show "snd (point_submit e' s) = s"
    by (cases e; cases e') (auto simp only: point_submit_snd point_stored.simps point_key.simps
        intro!: record_point_present(1) split: option.splits)
next
  fix s and e e' :: point_submission
  assume "point_stored e s" "point_stored e' s" "point_key e = point_key e'"
  then show "e = e'" by (cases e; cases e') (auto dest: matches_unique split: option.splits)
qed simp_all

text \<open>A location point is stored once. After it was acknowledged, and whatever other points were
  submitted since, the same point of the same device is acknowledged again without being stored,
  and its identifier with any other content or from any other device is a collision.\<close>
theorem location_point_idempotent:
  assumes "record_point (\<lambda>x. x) d p s = (r, t)" and "r \<noteq> Collision"
    and "u = fold (\<lambda>e s. snd (point_submit e s)) es t"
  shows "record_point others d p u = (Known, u)
    \<and> (\<forall>d' p'. fx_id p' = fx_id p \<and> (d', p') \<noteq> (d, p) \<longrightarrow> record_point others d' p' u = (Collision, u))"
proof -
  have "point_stored (d, p) t" using record_point_acked [of "\<lambda>x. x" d p s] assms(1,2) by simp
  then have st: "point_stored (d, p) u"
    unfolding assms(3) by (intro point_store.run_keeps) (simp_all add: list_all_iff)
  then obtain row where row: "lookup_by lp_id (fx_id p) (location_points u) = Some row" "location_point_matches row d p"
    by (auto split: option.splits)
  have "record_point others d' p' u = (Collision, u)" if "fx_id p' = fx_id p" "(d', p') \<noteq> (d, p)" for d' p'
  proof -
    have "\<not> location_point_matches row d' p'" using matches_unique [OF row(2), of d' p'] that by auto
    then show ?thesis using row(1) that(1) by (simp add: record_point_def)
  qed
  then show ?thesis using record_point_stored [OF st] by blast
qed

subsection \<open>Batches\<close>

lemma collect_points_sound:
  assumes "collect_points ps seen = (ok, bad)" and "\<And>i q. (i, Some q) \<in> set ps \<Longrightarrow> fx_id q = i"
  shows "fst ` set ps \<subseteq> fx_id ` set (ok @ seen) \<union> fst ` set bad" and "fst ` set bad \<subseteq> fst ` set ps"
    and "p \<in> set ok \<Longrightarrow> (fx_id p, Some p) \<in> set ps"
proof -
  have "fst ` set ps \<subseteq> fx_id ` set (ok @ seen) \<union> fst ` set bad \<and> fst ` set bad \<subseteq> fst ` set ps
     \<and> (\<forall>p\<in>set ok. (fx_id p, Some p) \<in> set ps)"
    using assms
  proof (induction ps seen arbitrary: ok bad rule: collect_points.induct)
    case (3 i p ps seen)
    have ps: "fx_id q = j" if "(j, Some q) \<in> set ps" for j q using 3(4) [of j q] that by simp
    have i: "fx_id p = i" using 3(4) [of i p] by simp
    show ?case
    proof (cases "lookup_by fx_id i seen")
      case (Some prior)
      obtain ok1 bad1 where c: "collect_points ps seen = (ok1, bad1)" by (metis surj_pair)
      have "ok = ok1" "bad = (if prior \<noteq> p then (i, ''id_collision'') # bad1 else bad1)"
        using 3(3) by (auto simp: Some c)
      moreover have "i \<in> fx_id ` set seen" using lookup_by_SomeD [OF Some] by (metis imageI)
      ultimately show ?thesis using 3(2) [OF Some c ps] by (auto split: if_splits)
    next
      case None
      obtain ok1 bad1 where c: "collect_points ps (seen @ [p]) = (ok1, bad1)" by (metis surj_pair)
      have "ok = p # ok1" "bad = bad1" using 3(3) by (auto simp: None c)
      then show ?thesis using 3(1) [OF None c ps] i by auto
    qed
  next
    case (2 i ps seen)
    have ps: "fx_id q = j" if "(j, Some q) \<in> set ps" for j q using 2(3) [of j q] that by simp
    obtain ok1 bad1 where c: "collect_points ps seen = (ok1, bad1)" by (metis surj_pair)
    have "ok = ok1" "bad = (i, ''invalid_point'') # bad1" using 2(2) by (auto simp: c)
    then show ?case using 2(1) [OF c ps] by auto
  qed simp
  then show "fst ` set ps \<subseteq> fx_id ` set (ok @ seen) \<union> fst ` set bad" and "fst ` set bad \<subseteq> fst ` set ps"
    and "p \<in> set ok \<Longrightarrow> (fx_id p, Some p) \<in> set ps"
    by blast+
qed

lemma quantize_units:
  assumes x_def: "x = e + int places" and "int_le_dec lo m e" and "dec_le_int m e hi"
    and n: "n = (if 0 \<le> x then m * 10 ^ nat x else round_half_even m (10 ^ nat (- x)))"
  shows "lo * 10 ^ places \<le> n \<and> n \<le> hi * 10 ^ places"
proof -
  consider (up) "0 \<le> e" | (mid) "e < 0" "0 \<le> x" | (down) "e < 0" "x < 0" by linarith
  then show ?thesis
  proof cases
    case up
    then have "nat x = nat e + places" by (simp add: x_def nat_add_distrib)
    then have nx: "n = m * 10 ^ nat e * 10 ^ places" using n up by (simp add: x_def power_add)
    have "lo \<le> m * 10 ^ nat e" "m * 10 ^ nat e \<le> hi" using assms(2,3) up by (simp_all add: int_le_dec_def dec_le_int_def)
    then show ?thesis unfolding nx by (auto intro: mult_right_mono)
  next
    case mid
    then have "places = nat (- e) + nat x" by (simp add: x_def)
    then have p: "(10::int) ^ places = 10 ^ nat (- e) * 10 ^ nat x" by (metis power_add)
    have "lo * 10 ^ nat (- e) \<le> m" "m \<le> hi * 10 ^ nat (- e)" using assms(2,3) mid by (simp_all add: int_le_dec_def dec_le_int_def)
    then have "lo * 10 ^ nat (- e) * 10 ^ nat x \<le> m * 10 ^ nat x" "m * 10 ^ nat x \<le> hi * 10 ^ nat (- e) * 10 ^ nat x"
      by (auto intro: mult_right_mono)
    then show ?thesis using n mid by (simp add: p mult.assoc)
  next
    case down
    then have "nat (- e) = places + nat (- x)" by (simp add: x_def)
    then have p: "(10::int) ^ nat (- e) = 10 ^ places * 10 ^ nat (- x)" by (metis power_add)
    have "lo * 10 ^ places * 10 ^ nat (- x) \<le> m" "m \<le> hi * 10 ^ places * 10 ^ nat (- x)"
      using assms(2,3) down by (simp_all add: int_le_dec_def dec_le_int_def p mult.assoc)
    then show ?thesis
      using n down by (simp add: round_half_even_mono_bound round_half_even_mono_bound_lower)
  qed
qed

lemma quantize_bounds:
  assumes "int_le_dec lo m e" and "dec_le_int m e hi" and "quantize places m e = Some n"
  shows "lo * 10 ^ places \<le> n \<and> n \<le> hi * 10 ^ places"
  using quantize_units [OF refl assms(1,2) refl, of places] assms(3) by (auto simp: quantize_def Let_def split: if_splits)

lemma location_decimal_bounds:
  assumes "location_decimal v f lo hi places = Inr n"
  shows "lo * 10 ^ places \<le> n \<and> n \<le> hi * 10 ^ places"
proof -
  obtain m e where "int_le_dec lo m e" "dec_le_int m e hi" "quantize places m e = Some n"
    using assms by (auto simp: location_decimal_def split: option.splits pydec.splits if_splits)
  then show ?thesis by (rule quantize_bounds)
qed

text \<open>What holds of every point that is accepted for storing.\<close>

definition fix_plausible :: "time \<Rightarrow> location_fix \<Rightarrow> bool" where
  "fix_plausible now p = (\<bar>fx_latitude p\<bar> \<le> 90000000 \<and> \<bar>fx_longitude p\<bar> \<le> 180000000
     \<and> 0 \<le> fx_accuracy p \<and> fx_accuracy p \<le> 10000 \<and> now - max_location_age \<le> fx_recorded_at p
     \<and> fx_provider p \<in> set location_providers \<and> fx_source p = location_source)"

lemma read_fix_plausible:
  assumes "read_fix read now now1 now2 i raw = Inr p"
  shows "fx_id p = i" and "fix_plausible now p"
proof -
  have d: "location_decimal (jget raw ''latitude'') ''latitude'' (- 90) 90 6 = Inr (fx_latitude p)"
    "location_decimal (jget raw ''longitude'') ''longitude'' (- 180) 180 6 = Inr (fx_longitude p)"
    "location_decimal (jget raw ''accuracy_m'') ''accuracy_m'' 0 100 2 = Inr (fx_accuracy p)"
    and r: "fx_id p = i" "now - max_location_age \<le> fx_recorded_at p" "fx_provider p \<in> set location_providers" "fx_source p = location_source"
    using assms by (auto simp: read_fix_def bind_result_Inr_iff Let_def)
  show "fx_id p = i" by (fact r(1))
  show "fix_plausible now p"
    using location_decimal_bounds [OF d(1)] location_decimal_bounds [OF d(2)] location_decimal_bounds [OF d(3)] r
    by (auto simp: fix_plausible_def abs_le_iff)
qed

lemma read_point_plausible:
  "read_point read now now1 now2 raw = Inr (i, Some p) \<Longrightarrow> fx_id p = i \<and> fix_plausible now p"
  by (auto simp: read_point_def split: json.splits sum.splits dest: read_fix_plausible)

lemma read_batch_points:
  assumes "read_batch read clk d data = Inr (current, ps)" and "(i, Some p) \<in> set ps"
  shows "fx_id p = i \<and> fix_plausible (clk 0) p"
proof -
  obtain points where m: "map_result (\<lambda>(k, raw). read_point read (clk 0) (clk (2 * k + 3)) (clk (2 * k + 4)) raw)
      (List.enumerate 0 points) = Inr ps"
    using assms(1) by (auto simp: read_batch_def bind_result_Inr_iff)
  obtain x where x: "(case x of (k, raw) \<Rightarrow> read_point read (clk 0) (clk (2 * k + 3)) (clk (2 * k + 4)) raw) = Inr (i, Some p)"
    using map_result_mem [OF m assms(2)] by blast
  obtain k raw where "x = (k, raw)" by (cases x) blast
  with x have "read_point read (clk 0) (clk (2 * k + 3)) (clk (2 * k + 4)) raw = Inr (i, Some p)" by (simp only: prod.case)
  then show ?thesis by (rule read_point_plausible)
qed

lemma record_points_effect:
  assumes "record_points others k d ps s = (rs, t)"
    and "\<And>k x. prefix (location_points x) (location_points (others k x))"
    and "\<And>k x. find_device d (others k x) = find_device d x"
  shows "map fst rs = map fx_id ps" and "prefix (location_points s) (location_points t)"
    and "(i, r) \<in> set rs \<Longrightarrow> r \<noteq> Collision \<Longrightarrow> \<exists>p\<in>set ps. fx_id p = i \<and> point_stored (d, p) t"
    and "find_device d t = find_device d s"
proof -
  have "map fst rs = map fx_id ps \<and> prefix (location_points s) (location_points t)
     \<and> (\<forall>i r. (i, r) \<in> set rs \<longrightarrow> r \<noteq> Collision \<longrightarrow> (\<exists>p\<in>set ps. fx_id p = i \<and> point_stored (d, p) t))
     \<and> find_device d t = find_device d s"
    using assms(1)
  proof (induction ps arbitrary: k s rs)
    case Nil
    then show ?case by simp
  next
    case (Cons p ps)
    obtain r1 s1 where r1: "record_point (others k) d p s = (r1, s1)" by (metis surj_pair)
    obtain rs1 t1 where rs1: "record_points others (Suc k) d ps s1 = (rs1, t1)" by (metis surj_pair)
    have rs: "rs = (fx_id p, r1) # rs1" "t = t1" using Cons.prems by (auto simp: r1 rs1)
    note IH = Cons.IH [OF rs1 [folded rs(2)]]
    have px: "prefix (location_points s) (location_points s1)"
      using record_point_prefix [of s "others k" d p] assms(2) r1 by simp
    have st: "r1 \<noteq> Collision \<Longrightarrow> point_stored (d, p) t"
      using record_point_acked [of "others k" d p s] r1 IH stored_prefix [of "(d, p)" s1 t] by simp
    have dv: "find_device d s1 = find_device d s"
      using r1 assms(3) by (auto simp: record_point_def Let_def find_device_def split: option.splits if_splits)
    show ?case
      using IH px st dv rs by (auto intro: prefix_order.trans)
  qed
  then show "map fst rs = map fx_id ps" and "prefix (location_points s) (location_points t)"
    and "(i, r) \<in> set rs \<Longrightarrow> r \<noteq> Collision \<Longrightarrow> \<exists>p\<in>set ps. fx_id p = i \<and> point_stored (d, p) t"
    and "find_device d t = find_device d s" by blast+
qed

lemma apply_state_id [simp]: "dv_id (apply_state now current fresh d) = dv_id d"
  by (auto simp: apply_state_def Let_def split: option.splits)

text \<open>C32: A processed batch of location points answers for every point and keeps what it acknowledges.
  Each identifier sent is acknowledged or rejected. An acknowledged one is stored for this device
  with the values sent: coordinates on the globe, an accuracy of at most a hundred metres, from the
  last thirty days, from a known provider. Points stored before stay as they are, and the location
  state of the device moves only forward in the time it was reported.\<close>
theorem location_batch_sound:
  assumes "location_batch read clk alert_now others d data s = (Inr r, t)"
    and "\<And>k x. prefix (location_points x) (location_points (others k x))"
    and "\<And>k x. find_device (dv_id d) (others k x) = find_device (dv_id d) x"
  shows "\<exists>current ps. read_batch read clk d data = Inr (current, ps)
    \<and> set (ls_acknowledged r) \<union> fst ` set (ls_rejected r) = fst ` set ps
    \<and> prefix (location_points s) (location_points t)
    \<and> (\<forall>i\<in>set (ls_acknowledged r). \<exists>p. (i, Some p) \<in> set ps \<and> fix_plausible (clk 0) p \<and> point_stored (dv_id d, p) t)
    \<and> (\<exists>d0 fresh. find_device (dv_id d) s = Some d0 \<and> find_device (dv_id d) t = Some (apply_state (clk 0) current fresh d0)
        \<and> dv_location_state_updated_at d0 \<le> dv_location_state_updated_at (apply_state (clk 0) current fresh d0))"
proof -
  obtain current ps where b: "read_batch read clk d data = Inr (current, ps)"
    using assms(1) by (auto simp: location_batch_def split: sum.splits)
  obtain points bad where cp: "collect_points ps [] = (points, bad)" by (metis surj_pair)
  obtain rs where st: "store_locations (clk 0) alert_now others (dv_id d) current points s = Inr (rs, t)"
    and r: "ls_acknowledged r = map fst (filter (\<lambda>r. snd r \<noteq> Collision) rs)"
       "ls_rejected r = bad @ map (\<lambda>r. (fst r, ''id_collision'')) (filter (\<lambda>r. snd r = Collision) rs)"
    using assms(1) unfolding location_batch_def b
    by (auto simp: cp atomic_def split: sum.splits prod.splits)
  obtain rs1 s1 where rp: "record_points others 0 (dv_id d) points s = (rs1, s1)" by (metis surj_pair)
  note eff = record_points_effect [OF rp assms(2,3)]
  obtain d0 where d0: "find_device (dv_id d) s = Some d0"
    and al: "bind_result (case current of None \<Rightarrow> Inr (save_device (apply_state (clk 0) current (list_ex (\<lambda>r. snd r = Stored) rs1) d0) s1)
       | Some c \<Rightarrow> if state_is_newer current d0
           then raise_all alert_now (state_alerts c (dv_id d)) (save_device (apply_state (clk 0) current (list_ex (\<lambda>r. snd r = Stored) rs1) d0) s1)
           else Inr (save_device (apply_state (clk 0) current (list_ex (\<lambda>r. snd r = Stored) rs1) d0) s1)) (\<lambda>s3. Inr (rs1, s3)) = Inr (rs, t)"
    using st by (cases "find_device (dv_id d) s") (simp_all add: store_locations_def get_device_def rp Let_def)
  let ?d1 = "apply_state (clk 0) current (list_ex (\<lambda>r. snd r = Stored) rs1) d0"
  have oa: "only_alerts (save_device ?d1 s1) t" and rs: "rs = rs1"
    using al by (auto simp: bind_result_Inr_iff split: option.splits if_splits dest: raise_all_frame)
  have t: "rs = rs1" "location_points t = location_points s1" "devices t = save_by dv_id ?d1 (devices s1)"
    using rs only_alertsD(2,7) [OF oa] by (simp_all add: save_device_def)
  have fid: "fx_id q = i" "fix_plausible (clk 0) q" if "(i, Some q) \<in> set ps" for i q
    using read_batch_points [OF b that] by auto
  have cs: "fst ` set ps \<subseteq> fx_id ` set (points @ []) \<union> fst ` set bad" "fst ` set bad \<subseteq> fst ` set ps"
    "p \<in> set points \<Longrightarrow> (fx_id p, Some p) \<in> set ps" for p
    using collect_points_sound [OF cp] fid(1) by blast+
  have ids: "fst ` set rs = fx_id ` set points" using eff(1) t(1) by (metis list.set_map)
  have split_rs: "fst ` {x \<in> set rs. snd x \<noteq> Collision} \<union> fst ` {x \<in> set rs. snd x = Collision} = fst ` set rs" by auto
  have sub: "fx_id ` set points \<subseteq> fst ` set ps" using cs(3) by force
  have answered: "set (ls_acknowledged r) \<union> fst ` set (ls_rejected r) = fst ` set ps"
  proof -
    have gen: "A \<union> (C \<union> B) = Q" if "A \<union> B = P" "P \<subseteq> Q" "Q \<subseteq> P \<union> C" "C \<subseteq> Q" for A B C P Q :: "id set"
      using that by blast
    have ack: "set (ls_acknowledged r) = fst ` {x \<in> set rs. snd x \<noteq> Collision}" by (auto simp: r)
    have rej: "fst ` set (ls_rejected r) = fst ` set bad \<union> fst ` {x \<in> set rs. snd x = Collision}"
      by (simp add: r image_Un image_image)
    have "fst ` set ps \<subseteq> fx_id ` set points \<union> fst ` set bad" using cs(1) by simp
    with split_rs [unfolded ids] sub show ?thesis unfolding ack rej using cs(2) by (rule gen)
  qed
  have stored: "\<exists>p. (i, Some p) \<in> set ps \<and> fix_plausible (clk 0) p \<and> point_stored (dv_id d, p) t" if i: "i \<in> set (ls_acknowledged r)" for i
  proof -
    obtain o1 where "(i, o1) \<in> set rs1" "o1 \<noteq> Collision" using i t(1) by (auto simp: r)
    then obtain p where p: "p \<in> set points" "fx_id p = i" "point_stored (dv_id d, p) s1" using eff(3) by blast
    have "point_stored (dv_id d, p) t" using p(3) t(2) by simp
    moreover have "(i, Some p) \<in> set ps" using cs(3) [OF p(1)] p(2) by simp
    ultimately show ?thesis using fid(2) by blast
  qed
  have id: "dv_id d0 = dv_id d" using find_device_id [OF d0] .
  have "find_device (dv_id d) t = Some ?d1"
    using d0 eff(4) id by (simp add: find_device_def t(3) lookup_by_save)
  moreover have "dv_location_state_updated_at d0 \<le> dv_location_state_updated_at ?d1"
    by (cases "dv_location_state_updated_at d0") (auto simp: apply_state_def state_is_newer_def Let_def split: option.splits)
  ultimately show ?thesis
    using b answered eff(2) t(2) stored d0 by auto
qed


subsection \<open>Witnesses\<close>

definition point_json :: "id \<Rightarrow> int \<Rightarrow> json" where
  "point_json i accuracy = JObj [(''id'', JStr (uuid_str i)), (''recorded_at'', JStr ''a''), (''device_recorded_at'', JStr ''a''),
     (''latitude'', JFloat 3139003 (- 6)), (''longitude'', JFloat 101686855 (- 6)), (''accuracy_m'', JInt accuracy),
     (''provider'', JStr ''GPS''), (''source'', JStr ''location_manager'')]"

definition location_request :: payload where
  "location_request = [(''current'', JObj [(''state'', JStr ''fresh''), (''reported_at'', JStr ''a'')]),
     (''points'', JArr [point_json 21 12, point_json 22 500])]"

definition locate :: "db \<Rightarrow> location_response result \<times> db" where
  "locate s = location_batch (\<lambda>x. Some (Aware 1000)) (\<lambda>n. 2000) 2000 (\<lambda>k x. x) (hd (devices fleet_db)) location_request s"

theorem location_batch_sound_witness:
  "\<exists>r t. locate fleet_db = (Inr r, t) \<and> ls_acknowledged r = [21] \<and> (\<exists>p. fix_plausible 2000 p \<and> point_stored (7, p) t)"
proof -
  have "(case fst (locate fleet_db) of Inl e \<Rightarrow> False | Inr r \<Rightarrow> ls_acknowledged r = [21])" by code_simp
  then obtain r where "fst (locate fleet_db) = Inr r" "ls_acknowledged r = [21]" by (auto split: sum.splits)
  then obtain t where t: "locate fleet_db = (Inr r, t)" "ls_acknowledged r = [21]" by (metis prod.collapse)
  have i: "dv_id (hd (devices fleet_db)) = 7" by code_simp
  have "\<forall>i\<in>set (ls_acknowledged r). \<exists>p. fix_plausible 2000 p \<and> point_stored (dv_id (hd (devices fleet_db)), p) t"
    using location_batch_sound [OF t(1) [unfolded locate_def]] by auto
  then show ?thesis using t i by auto
qed

definition example_fix :: location_fix where
  "example_fix = \<lparr>fx_id = 21, fx_recorded_at = 1, fx_device_recorded_at = 1, fx_latitude = 0, fx_longitude = 0,
     fx_accuracy = 500, fx_provider = ''gps'', fx_source = ''location_manager''\<rparr>"

theorem location_point_idempotent_witness:
  "\<exists>t. record_point (\<lambda>x. x) 7 example_fix fleet_db = (Stored, t) \<and> record_point (\<lambda>x. x) 7 example_fix t = (Known, t)"
proof -
  have "fst (record_point (\<lambda>x. x) 7 example_fix fleet_db) = Stored" by code_simp
  then obtain t where t: "record_point (\<lambda>x. x) 7 example_fix fleet_db = (Stored, t)" by (metis prod.collapse)
  have "t = fold (\<lambda>e s. snd (point_submit e s)) [] t" by simp
  from location_point_idempotent [OF t _ this] t show ?thesis by blast
qed

end
