(* ===== verification/Health.thy ===== *)
theory Health
  imports Devices Alerts
begin

section \<open>Fleet health\<close>

text \<open>
  The management command \<open>evaluate_device_health\<close>. It reads the active devices once and raises
  alerts device by device, each alert in a transaction of its own: an error ends the run and keeps
  the alerts raised so far. The readings of the clock at which the alerts are created are taken to
  be the one the run starts with. The lemmas show that the run is one list of requests made up
  from the state it starts in.
\<close>

subsection \<open>The checks on one device\<close>

definition max_time :: "time list \<Rightarrow> time option" where
  "max_time ts = (case ts of [] \<Rightarrow> None | t # rest \<Rightarrow> Some (fold max rest t))"

definition latest_credential_issued_at :: "id \<Rightarrow> db \<Rightarrow> time option" where
  "latest_credential_issued_at d s = max_time (map cr_created_at (filter (\<lambda>c. cr_device c = d) (credentials s)))"

definition first_time :: "time option \<Rightarrow> time option \<Rightarrow> time \<Rightarrow> time" where
  "first_time a b c = (case a of Some t \<Rightarrow> t | None \<Rightarrow> (case b of Some t \<Rightarrow> t | None \<Rightarrow> c))"

definition unavailable_alerts :: "time \<Rightarrow> time option \<Rightarrow> device \<Rightarrow> alert_request list" where
  "unavailable_alerts now issued d =
     (let unavailable_for = now - first_time (dv_last_seen_at d) issued (dv_created_at d) in
      if hours 24 \<le> unavailable_for then
        (if hours 48 \<le> unavailable_for
         then [AlertRequest (Some (dv_id d)) ''device_unavailable'' Critical ''Device has not sent a heartbeat for 48 hours.'']
         else [AlertRequest (Some (dv_id d)) ''device_unavailable'' Warning ''Device has not sent a heartbeat for 24 hours.''])
      else [])"

definition location_alerts :: "time \<Rightarrow> time option \<Rightarrow> device \<Rightarrow> alert_request list" where
  "location_alerts now issued d =
     (if dv_location_state d = ''shutdown'' then []
      else if dv_location_state d = ''planned_gap''
              \<and> (case dv_location_planned_gap_until d of None \<Rightarrow> True | Some t \<Rightarrow> now < t) then []
      else
       (let age = now - first_time (dv_last_location_reported_at d) issued (dv_created_at d) in
        if dv_location_state d = ''permission_disabled''
        then [AlertRequest (Some (dv_id d)) ''location_permission_disabled'' Critical
                ''Device precise-location permission is disabled.'']
        else if dv_location_state d = ''location_disabled''
        then [AlertRequest (Some (dv_id d)) ''location_disabled'' Critical ''Device location services are disabled.'']
        else if dv_location_state d = ''mock''
        then [AlertRequest (Some (dv_id d)) ''location_mock'' Critical ''Device reported a mock location source.'']
        else if minutes 10 \<le> age
        then [AlertRequest (Some (dv_id d)) ''location_unavailable'' Critical
                ''Device has not reported a valid location for ten minutes.'']
        else if minutes 3 \<le> age
        then [AlertRequest (Some (dv_id d)) ''location_stale'' Warning ''Device location report is stale.'']
        else []))"

definition sync_alerts :: "time \<Rightarrow> device \<Rightarrow> alert_request list" where
  "sync_alerts now d =
     (if (case dv_last_sync_at d of None \<Rightarrow> True | Some t \<Rightarrow> t < now - days 1) then
        (if (case dv_last_sync_at d of None \<Rightarrow> True | Some t \<Rightarrow> t < now - days 3)
         then [AlertRequest (Some (dv_id d)) ''sync_missing_3d'' Critical ''Retrieve device: no sync for three days.'']
         else [AlertRequest (Some (dv_id d)) ''sync_missing_1d'' Warning ''Device has not synchronized for one day.''])
      else [])"

text \<open>The acknowledgement of the last alert about failures: only later failures count.\<close>

definition last_failure_acknowledgement :: "id \<Rightarrow> db \<Rightarrow> time option" where
  "last_failure_acknowledgement d s =
     max_time (concat (map (\<lambda>a. case al_acknowledged_at a of None \<Rightarrow> [] | Some t \<Rightarrow> [t])
       (filter (\<lambda>a. al_device a = Some d \<and> al_code a = ''three_ad_failures'') (alerts s))))"

definition failures :: "id \<Rightarrow> db \<Rightarrow> playback_event list" where
  "failures d s = filter (\<lambda>e. pe_status e = Failed
       \<and> exists_row (\<lambda>b. pb_id b = pe_batch e \<and> pb_device b = d) (playback_batches s)
       \<and> (case last_failure_acknowledgement d s of None \<Rightarrow> True | Some t \<Rightarrow> t < pe_started_at e)) (playback_events s)"

definition failure_alerts :: "device \<Rightarrow> db \<Rightarrow> alert_request list" where
  "failure_alerts d s = (if 3 \<le> length (failures (dv_id d) s)
     then [AlertRequest (Some (dv_id d)) ''three_ad_failures'' Warning ''Device reported at least three advertisement failures.'']
     else [])"

definition exit_alerts :: "time \<Rightarrow> device \<Rightarrow> db \<Rightarrow> alert_request list" where
  "exit_alerts now d s =
     (let exits = filter (\<lambda>e. oe_device e = dv_id d \<and> oe_kind e = AbnormalAppExit \<and> now - hours 24 \<le> oe_received_at e)
                    (operational_events s)
      in if 3 \<le> length (remdups (map oe_id exits))
         then [AlertRequest (Some (dv_id d)) ''repeated_abnormal_app_exit'' Warning
                 ''Device reported at least three abnormal application exits within 24 hours.'']
         else [])"

subsection \<open>The run\<close>

text \<open>Alerts raised one after the other, each on its own; the first error ends the run.\<close>

fun raise_each :: "time \<Rightarrow> alert_request list \<Rightarrow> db \<Rightarrow> unit result \<times> db" where
  "raise_each now [] s = (Inr (), s)"
| "raise_each now (r # rs) s = (case raise_request now r s of
       Inl e \<Rightarrow> (Inl e, s) | Inr t \<Rightarrow> raise_each now rs t)"

definition then_do :: "unit result \<times> db \<Rightarrow> (db \<Rightarrow> unit result \<times> db) \<Rightarrow> unit result \<times> db" where
  "then_do r f = (case r of (Inl e, s) \<Rightarrow> (Inl e, s) | (Inr u, s) \<Rightarrow> f s)"

definition evaluate_device :: "time \<Rightarrow> time option \<Rightarrow> device \<Rightarrow> db \<Rightarrow> unit result \<times> db" where
  "evaluate_device now issued d s =
     then_do (raise_each now (unavailable_alerts now issued d) s) (\<lambda>s1.
     then_do (raise_each now (location_alerts now issued d) s1) (\<lambda>s2.
     then_do (raise_each now (sync_alerts now d) s2) (\<lambda>s3.
     then_do (raise_each now (failure_alerts d s3) s3) (\<lambda>s4.
     raise_each now (exit_alerts now d s4) s4))))"

fun evaluate_devices :: "time \<Rightarrow> (device \<times> time option) list \<Rightarrow> db \<Rightarrow> unit result \<times> db" where
  "evaluate_devices now [] s = (Inr (), s)"
| "evaluate_devices now ((d, issued) # ds) s = then_do (evaluate_device now issued d s) (evaluate_devices now ds)"

definition active_devices :: "db \<Rightarrow> (device \<times> time option) list" where
  "active_devices s = map (\<lambda>d. (d, latest_credential_issued_at (dv_id d) s)) (filter (\<lambda>d. dv_status d = Active) (devices s))"

definition evaluate_device_health :: "time \<Rightarrow> db \<Rightarrow> unit result \<times> db" where
  "evaluate_device_health now s = evaluate_devices now (active_devices s) s"

subsection \<open>The requests of a run\<close>

definition resolved_alerts :: "db \<Rightarrow> alert list" where
  "resolved_alerts s = filter (\<lambda>a. \<not> unresolved a) (alerts s)"

definition device_requests :: "time \<Rightarrow> time option \<Rightarrow> device \<Rightarrow> db \<Rightarrow> alert_request list" where
  "device_requests now issued d s =
     unavailable_alerts now issued d @ location_alerts now issued d @ sync_alerts now d
     @ failure_alerts d s @ exit_alerts now d s"

definition fleet_requests :: "time \<Rightarrow> db \<Rightarrow> alert_request list" where
  "fleet_requests now s = concat (map (\<lambda>(d, issued). device_requests now issued d s) (active_devices s))"

lemma escalate_resolved:
  assumes u: "unique_open (alerts s)" and a: "a \<in> set (alerts s)" "unresolved a"
    and e: "escalate a sev m s = (b, t)"
  shows "resolved_alerts t = resolved_alerts s"
proof -
  have same: "r = a" if "r \<in> set (alerts s)" "al_id r = al_id a" for r
    using u that a(1) distinct_map_unique [of al_id "alerts s" r a] by (auto simp: unique_open_def)
  consider "t = s" | "al_id b = al_id a" "unresolved b" "t = s\<lparr>alerts := save_by al_id b (alerts s)\<rparr>"
    using escalate_simps [OF e] a(2) by auto
  then show ?thesis
  proof cases
    case 2
    then show ?thesis unfolding resolved_alerts_def
      by simp (rule filter_save_by_same; use same a(2) in auto)
  qed simp
qed

lemma raise_request_resolved:
  assumes ok: "alerts_ok s" and run: "raise_request now r s = Inr t"
  shows "resolved_alerts t = resolved_alerts s"
proof -
  obtain d c sev m where r: "r = AlertRequest d c sev m" by (cases r)
  obtain a created where o: "open_or_escalate_racing [] now d c sev m s = Inr ((a, created), t)"
    using run by (auto simp: r raise_alert_def open_or_escalate_alert_def bind_result_Inr_iff)
  have u: "unique_open (alerts s)" using ok by (simp add: alerts_ok_def)
  from o consider a0 where "find_open_alert d c (alerts s) = Some a0" "escalate a0 sev m s = (a, t)"
    | "insert_alert now d c sev m s = Inr (a, t)"
    by (auto simp: open_or_escalate_racing_def Let_def insert_alert_def find_open_None
        split: if_splits option.splits sum.splits prod.splits)
  then show ?thesis
  proof cases
    case 1
    then show ?thesis using escalate_resolved [OF u] find_open_SomeD [OF 1(1)] by auto
  next
    case 2
    then show ?thesis
      by (auto simp: insert_alert_def Let_def resolved_alerts_def unresolved_def split: if_splits)
  qed
qed

text \<open>What the requests of a device read of the state.\<close>

definition same_history :: "db \<Rightarrow> db \<Rightarrow> bool" where
  "same_history s t = (only_alerts s t \<and> resolved_alerts t = resolved_alerts s)"

lemma same_history_refl [simp]: "same_history s s"
  by (simp add: same_history_def)

lemma same_history_trans: "same_history s t \<Longrightarrow> same_history t u \<Longrightarrow> same_history s u"
  by (auto simp: same_history_def intro: only_alerts_trans)

lemma last_failure_acknowledgement_resolved:
  "last_failure_acknowledgement d s =
     max_time (map (\<lambda>a. the (al_acknowledged_at a))
       (filter (\<lambda>a. al_device a = Some d \<and> al_code a = ''three_ad_failures'') (resolved_alerts s)))"
proof -
  have "concat (map (\<lambda>a. case al_acknowledged_at a of None \<Rightarrow> [] | Some t \<Rightarrow> [t]) (filter P rows))
      = map (\<lambda>a. the (al_acknowledged_at a)) (filter P (filter (\<lambda>a. \<not> unresolved a) rows))" for P rows
    by (induction rows) (auto simp: unresolved_def)
  then show ?thesis by (simp add: last_failure_acknowledgement_def resolved_alerts_def)
qed

lemma device_requests_same:
  "same_history s t \<Longrightarrow> failure_alerts d t = failure_alerts d s \<and> exit_alerts now d t = exit_alerts now d s"
proof -
  assume h: "same_history s t"
  then have o: "only_alerts s t" and "resolved_alerts t = resolved_alerts s" by (simp_all add: same_history_def)
  then show ?thesis
    by (simp add: failure_alerts_def failures_def exit_alerts_def last_failure_acknowledgement_resolved
        only_alertsD [OF o])
qed

subsection \<open>The run as one list of requests\<close>

lemma then_do_simps [simp]:
  "then_do (Inl e, s) f = (Inl e, s)" "then_do (Inr u, s) f = f s"
  by (simp_all add: then_do_def)

lemma raise_each_raise_all: "raise_all now rs s = Inr t \<Longrightarrow> raise_each now rs s = (Inr (), t)"
  by (induction rs arbitrary: s) (auto simp: raise_all_def bind_result_Inr_iff)

lemma raise_all_append:
  "raise_all now (xs @ ys) s = bind_result (raise_all now xs s) (raise_all now ys)"
  by (simp add: raise_all_def [abs_def] fold_result_append)

lemma raise_all_history:
  assumes "alerts_ok s" and "raise_all now rs s = Inr t"
  shows "alerts_ok t" and "same_history s t"
proof -
  have "alerts_ok t \<and> same_history s t"
    using assms(2) unfolding raise_all_def
  proof (rule fold_result_invariant)
    show "alerts_ok s \<and> same_history s s" using assms(1) by simp
    fix r u u'
    assume u: "alerts_ok u \<and> same_history s u" and r: "raise_request now r u = Inr u'"
    have "only_alerts u u'" using r by (cases r) (auto dest: raise_alert_frame)
    moreover have "resolved_alerts u' = resolved_alerts u" using raise_request_resolved u r by blast
    ultimately have "same_history u u'" by (simp add: same_history_def)
    then show "alerts_ok u' \<and> same_history s u'"
      using u r raise_request_ok(1) same_history_trans by blast
  qed
  then show "alerts_ok t" and "same_history s t" by simp_all
qed

definition for_known :: "alert_request list \<Rightarrow> db \<Rightarrow> bool" where
  "for_known rs s = (\<forall>r\<in>set rs. \<exists>d. fst (request_key r) = Some d \<and> lookup_by dv_id d (devices s) \<noteq> None)"

lemma for_known_append [simp]: "for_known (xs @ ys) s = (for_known xs s \<and> for_known ys s)"
  by (auto simp: for_known_def)

lemma raise_known:
  assumes "alerts_ok s" and "for_known rs s"
  obtains t where "raise_all now rs s = Inr t" "raise_each now rs s = (Inr (), t)" "alerts_ok t" "same_history s t"
proof -
  obtain t where t: "raise_all now rs s = Inr t"
    using raise_all_total [of rs s now] assms(2) by (force simp: for_known_def)
  show thesis
    by (rule that [OF t raise_each_raise_all [OF t] raise_all_history [OF assms(1) t]])
qed

lemma same_history_known: "same_history s t \<Longrightarrow> for_known rs t = for_known rs s"
  by (auto simp: same_history_def for_known_def dest: only_alertsD(2))

lemma raise_then:
  assumes "alerts_ok s" and "for_known rs s" and "for_known qs s"
    and next_step: "\<And>t. alerts_ok t \<Longrightarrow> same_history s t \<Longrightarrow> for_known qs t \<Longrightarrow> f t = raise_each now qs t"
  shows "then_do (raise_each now rs s) f = raise_each now (rs @ qs) s"
proof -
  obtain t where t: "raise_all now rs s = Inr t" "raise_each now rs s = (Inr (), t)" "alerts_ok t" "same_history s t"
    by (rule raise_known [OF assms(1,2)])
  have kt: "for_known qs t" using assms(3) t(4) by (simp add: same_history_known)
  obtain u where u: "raise_all now qs t = Inr u" "raise_each now qs t = (Inr (), u)"
    by (rule raise_known [OF t(3) kt])
  have "raise_all now (rs @ qs) s = Inr u" using t(1) u(1) by (simp add: raise_all_append)
  then have "raise_each now (rs @ qs) s = (Inr (), u)" by (rule raise_each_raise_all)
  then show ?thesis using t(2) u(2) next_step [OF t(3,4) kt] by simp
qed

lemmas request_lists = unavailable_alerts_def location_alerts_def sync_alerts_def failure_alerts_def exit_alerts_def Let_def

lemma requests_of_device:
  "r \<in> set (device_requests now issued d s) \<Longrightarrow> fst (request_key r) = Some (dv_id d)"
  by (auto simp: device_requests_def request_lists split: if_splits)

lemma device_requests_known: "d \<in> set (devices s) \<Longrightarrow> for_known (device_requests now issued d s) s"
  by (auto simp: for_known_def lookup_by_None dest!: requests_of_device)

lemma evaluate_device_requests:
  assumes ok: "alerts_ok s" and d: "d \<in> set (devices s)"
  shows "evaluate_device now issued d s = raise_each now (device_requests now issued d s) s"
  unfolding evaluate_device_def device_requests_def
proof -
  have k: "for_known (unavailable_alerts now issued d) s" "for_known (location_alerts now issued d) s"
    "for_known (sync_alerts now d) s" "for_known (failure_alerts d s) s" "for_known (exit_alerts now d s) s"
    using device_requests_known [OF d, of now issued] by (simp_all add: device_requests_def)
  show "then_do (raise_each now (unavailable_alerts now issued d) s) (\<lambda>s1.
     then_do (raise_each now (location_alerts now issued d) s1) (\<lambda>s2.
     then_do (raise_each now (sync_alerts now d) s2) (\<lambda>s3.
     then_do (raise_each now (failure_alerts d s3) s3) (\<lambda>s4.
     raise_each now (exit_alerts now d s4) s4))))
    = raise_each now (unavailable_alerts now issued d @ location_alerts now issued d @ sync_alerts now d
       @ failure_alerts d s @ exit_alerts now d s) s"
    apply (rule raise_then [OF ok]; (simp add: k)?)
    apply (rule raise_then; (simp add: k same_history_known)?)
    apply (rule raise_then; (simp add: k same_history_known)?)
    subgoal for s1 s2 s3
    proof -
      assume a: "alerts_ok s3" "same_history s s1" "same_history s1 s2" "same_history s2 s3"
      then have h: "same_history s s3" using same_history_trans by blast
      have "then_do (raise_each now (failure_alerts d s) s3) (\<lambda>s4. raise_each now (exit_alerts now d s4) s4)
          = raise_each now (failure_alerts d s @ exit_alerts now d s) s3"
      proof (rule raise_then [OF a(1)])
        show "raise_each now (exit_alerts now d t) t = raise_each now (exit_alerts now d s) t"
          if "same_history s3 t" for t
          using device_requests_same [OF same_history_trans [OF h that]] by simp
      qed (use k h in \<open>simp_all add: same_history_known\<close>)
      then show ?thesis using device_requests_same [OF h] by simp
    qed
    done
qed

lemma evaluate_devices_requests:
  assumes "alerts_ok s" and "\<forall>(d, i)\<in>set ds. d \<in> set (devices s)"
  shows "evaluate_devices now ds s =
     raise_each now (concat (map (\<lambda>(d, i). device_requests now i d s) ds)) s"
  using assms
proof (induction ds arbitrary: s)
  case Nil
  then show ?case by simp
next
  case (Cons p ds)
  obtain d i where p: "p = (d, i)" by (cases p)
  have d: "d \<in> set (devices s)" using Cons.prems p by simp
  have rest: "for_known (concat (map (\<lambda>(d, i). device_requests now i d s) ds)) s"
    using Cons.prems(2) device_requests_known by (fastforce simp: for_known_def)
  have "then_do (raise_each now (device_requests now i d s) s) (evaluate_devices now ds)
      = raise_each now (device_requests now i d s @ concat (map (\<lambda>(d, i). device_requests now i d s) ds)) s"
  proof (rule raise_then [OF Cons.prems(1) device_requests_known [OF d] rest])
    fix t assume t: "alerts_ok t" "same_history s t"
    have dv: "devices t = devices s" using t(2) by (simp add: same_history_def only_alertsD(2))
    have "device_requests now i e t = device_requests now i e s" for e i
      using device_requests_same [OF t(2)] by (simp add: device_requests_def)
    then show "evaluate_devices now ds t = raise_each now (concat (map (\<lambda>(d, i). device_requests now i d s) ds)) t"
      using Cons.IH [OF t(1)] Cons.prems(2) dv by simp
  qed
  then show ?case using evaluate_device_requests [OF Cons.prems(1) d] by (simp add: p)
qed

lemma active_devices_mem: "(d, i) \<in> set (active_devices s) \<Longrightarrow> d \<in> set (devices s)"
  by (auto simp: active_devices_def)

lemma fleet_run:
  assumes "alerts_ok s"
  obtains t where "evaluate_device_health now s = (Inr (), t)" "raise_all now (fleet_requests now s) s = Inr t"
    "alerts_ok t" "same_history s t"
proof -
  have ds: "\<forall>(d, i)\<in>set (active_devices s). d \<in> set (devices s)" using active_devices_mem by fast
  have e: "evaluate_device_health now s = raise_each now (fleet_requests now s) s"
    unfolding evaluate_device_health_def fleet_requests_def by (rule evaluate_devices_requests [OF assms ds])
  have "for_known (fleet_requests now s) s"
    using ds device_requests_known by (fastforce simp: for_known_def fleet_requests_def)
  then show thesis using raise_known [OF assms, of "fleet_requests now s" now] that e by metis
qed

subsection \<open>The levels after a run\<close>

definition raised_to :: "severity option \<Rightarrow> severity \<Rightarrow> severity option" where
  "raised_to level wanted = Some (case level of None \<Rightarrow> wanted | Some v \<Rightarrow> max v wanted)"

definition wanted_severities :: "alert_request list \<Rightarrow> id option \<times> string \<Rightarrow> severity list" where
  "wanted_severities rs k = map request_severity (filter (\<lambda>r. request_key r = k) rs)"

lemma raise_all_levels:
  "alerts_ok s \<Longrightarrow> raise_all now rs s = Inr t \<Longrightarrow>
   alert_level t k = foldl raised_to (alert_level s k) (wanted_severities rs k)"
proof (induction rs arbitrary: s)
  case Nil
  then show ?case by (simp add: raise_all_def wanted_severities_def)
next
  case (Cons r rs)
  then obtain u where u: "raise_request now r s = Inr u" "raise_all now rs u = Inr t"
    by (auto simp: raise_all_def bind_result_Inr_iff)
  note o = raise_request_ok [OF Cons.prems(1) u(1)]
  have "alert_level u k = (if request_key r = k then raised_to (alert_level s k) (request_severity r) else alert_level s k)"
    using o(2,3) by (auto simp: raised_to_def)
  then show ?case using Cons.IH [OF o(1) u(2)] by (simp add: wanted_severities_def)
qed

lemma wanted_severities_append [simp]:
  "wanted_severities (xs @ ys) k = wanted_severities xs k @ wanted_severities ys k"
  by (simp add: wanted_severities_def)

lemma wanted_severities_other:
  "\<forall>r\<in>set rs. request_key r \<noteq> k \<Longrightarrow> wanted_severities rs k = []"
  by (auto simp: wanted_severities_def filter_empty_conv)

text \<open>The requests about one device are those its own checks make.\<close>

lemma fleet_requests_of:
  assumes dist: "distinct (map dv_id (devices s))" and d: "d \<in> set (devices s)" "dv_status d = Active"
  shows "wanted_severities (fleet_requests now s) (Some (dv_id d), c) =
     wanted_severities (device_requests now (latest_credential_issued_at (dv_id d) s) d s) (Some (dv_id d), c)"
proof -
  let ?w = "\<lambda>ds. wanted_severities (concat (map (\<lambda>d. device_requests now (latest_credential_issued_at (dv_id d) s) d s) ds))
      (Some (dv_id d), c)"
  have other: "wanted_severities (device_requests now i e s) (Some (dv_id d), c) = []" if "dv_id e \<noteq> dv_id d" for e i
    by (rule wanted_severities_other) (use that in \<open>auto dest!: requests_of_device\<close>)
  have "?w ds = ?w [d]" if "distinct (map dv_id ds)" "d \<in> set ds" for ds
    using that
  proof (induction ds)
    case Nil
    then show ?case by simp
  next
    case (Cons e ds)
    have none: "?w ds = []" if "dv_id d \<notin> dv_id ` set ds"
      using that by (induction ds) (auto simp: wanted_severities_def other [unfolded wanted_severities_def])
    show ?case
    proof (cases "e = d")
      case True
      then show ?thesis using none Cons.prems by simp
    next
      case False
      then have "dv_id e \<noteq> dv_id d" "d \<in> set ds" using Cons.prems by (auto simp: image_iff)
      then show ?thesis using Cons.IH Cons.prems by (simp add: other)
    qed
  qed
  moreover have "fleet_requests now s = concat (map (\<lambda>d. device_requests now (latest_credential_issued_at (dv_id d) s) d s)
      (filter (\<lambda>d. dv_status d = Active) (devices s)))"
    by (simp add: fleet_requests_def active_devices_def comp_def)
  ultimately show ?thesis using d distinct_map_filter [OF dist] by simp
qed

subsection \<open>Properties\<close>

lemma raised_to_Critical [simp]: "raised_to v Critical = Some Critical"
  by (cases v) (simp_all add: raised_to_def max_def less_eq_severity_def)

lemmas severities = wanted_severities_def device_requests_def request_lists

lemma unavailable_severities:
  "wanted_severities (device_requests now issued d s) (Some (dv_id d), ''device_unavailable'') =
     (let silent = now - first_time (dv_last_seen_at d) issued (dv_created_at d)
      in if hours 48 \<le> silent then [Critical] else if hours 24 \<le> silent then [Warning] else [])"
  by (simp add: severities)

lemma sync_severities:
  "wanted_severities (device_requests now issued d s) (Some (dv_id d), ''sync_missing_3d'') =
     (if \<forall>u. dv_last_sync_at d = Some u \<longrightarrow> u < now - days 3 then [Critical] else [])"
  by (cases "dv_last_sync_at d") (auto simp: severities)

lemma failure_severities:
  "wanted_severities (device_requests now issued d s) (Some (dv_id d), ''three_ad_failures'') =
     (if 3 \<le> length (failures (dv_id d) s) then [Warning] else [])"
  by (simp add: severities)

text \<open>C25: A run of the health evaluation always completes, changes nothing but unacknowledged
  alerts, keeps one unacknowledged alert per device and code, and refines the levels it is meant to
  compute: the level of every device and code after the run is its level before, raised by each
  request the checks make on the state the run starts in. In particular the alerts it raises on
  the way never change what it raises next.\<close>

theorem fleet_health_refines_levels:
  assumes "alerts_ok s"
  shows "\<exists>t. evaluate_device_health now s = (Inr (), t) \<and> only_alerts s t \<and> alerts_ok t
     \<and> resolved_alerts t = resolved_alerts s
     \<and> (\<forall>k. alert_level t k = foldl raised_to (alert_level s k) (wanted_severities (fleet_requests now s) k))"
proof -
  obtain t where t: "evaluate_device_health now s = (Inr (), t)" "raise_all now (fleet_requests now s) s = Inr t"
    "alerts_ok t" "same_history s t"
    by (rule fleet_run [OF assms])
  have "\<forall>k. alert_level t k = foldl raised_to (alert_level s k) (wanted_severities (fleet_requests now s) k)"
    using raise_all_levels [OF assms t(2)] by blast
  then show ?thesis using t(1,3,4) unfolding same_history_def by blast
qed

text \<open>C24: For every active device the evaluation raises exactly what the thresholds say. A device
  whose last heartbeat (or, before the first one, its last credential or its creation) is 48 hours
  old has a critical alert, one 24 hours old has at least a warning, and the level of a device
  heard from since is left alone. Without a sync in three days there is a critical alert. Three
  advertisement failures after the last acknowledgement raise a warning, fewer do not.\<close>

theorem health_thresholds:
  assumes ok: "alerts_ok s" and dist: "distinct (map dv_id (devices s))"
    and d: "d \<in> set (devices s)" "dv_status d = Active"
    and run: "evaluate_device_health now s = (r, t)"
  defines "silent \<equiv> now - first_time (dv_last_seen_at d) (latest_credential_issued_at (dv_id d) s) (dv_created_at d)"
  shows "r = Inr () \<and>
     alert_level t (Some (dv_id d), ''device_unavailable'') =
       (if hours 48 \<le> silent then Some Critical
        else if hours 24 \<le> silent then raised_to (alert_level s (Some (dv_id d), ''device_unavailable'')) Warning
        else alert_level s (Some (dv_id d), ''device_unavailable'')) \<and>
     alert_level t (Some (dv_id d), ''sync_missing_3d'') =
       (if \<forall>u. dv_last_sync_at d = Some u \<longrightarrow> u < now - days 3 then Some Critical
        else alert_level s (Some (dv_id d), ''sync_missing_3d'')) \<and>
     alert_level t (Some (dv_id d), ''three_ad_failures'') =
       (if 3 \<le> length (failures (dv_id d) s)
        then raised_to (alert_level s (Some (dv_id d), ''three_ad_failures'')) Warning
        else alert_level s (Some (dv_id d), ''three_ad_failures''))"
proof -
  obtain u where u: "evaluate_device_health now s = (Inr (), u)" "raise_all now (fleet_requests now s) s = Inr u"
    by (rule fleet_run [OF ok])
  have level: "alert_level u (Some (dv_id d), c) = foldl raised_to (alert_level s (Some (dv_id d), c))
      (wanted_severities (device_requests now (latest_credential_issued_at (dv_id d) s) d s) (Some (dv_id d), c))" for c
    using raise_all_levels [OF ok u(2), of "(Some (dv_id d), c)"] fleet_requests_of [OF dist d] by simp
  show ?thesis
    using u(1) run by (auto simp: level unavailable_severities sync_severities failure_severities silent_def Let_def)
qed

definition health_db :: db where
  "health_db = empty_db\<lparr>devices :=
     [(new_device 10 7 ''Van'' (Some 3))\<lparr>dv_status := Active, dv_last_seen_at := Some 20\<rparr>]\<rparr>"

theorem health_thresholds_witness:
  "\<exists>t. evaluate_device_health (hours 30) health_db = (Inr (), t)
     \<and> alert_level t (Some 7, ''device_unavailable'') = Some Warning
     \<and> alert_level t (Some 7, ''sync_missing_3d'') = Some Critical
     \<and> alert_level t (Some 7, ''three_ad_failures'') = None"
proof -
  let ?d = "hd (devices health_db)"
  have facts: "alerts_ok health_db" "distinct (map dv_id (devices health_db))" "?d \<in> set (devices health_db)"
    "dv_status ?d = Active" "dv_id ?d = 7" "dv_last_seen_at ?d = Some 20" "dv_last_sync_at ?d = None"
    "failures 7 health_db = []" "alert_level health_db (Some 7, ''device_unavailable'') = None"
    "alert_level health_db (Some 7, ''three_ad_failures'') = None"
    by code_simp+
  obtain r t where run: "evaluate_device_health (hours 30) health_db = (r, t)"
    by (cases "evaluate_device_health (hours 30) health_db")
  show ?thesis
    using health_thresholds [OF facts(1-4) run] run facts(5-)
    by (simp add: first_time_def raised_to_def)
qed

theorem fleet_health_refines_levels_witness:
  "\<exists>t. evaluate_device_health (hours 50) health_db = (Inr (), t)
     \<and> alert_level t (Some 7, ''device_unavailable'') = Some Critical"
proof -
  have ok: "alerts_ok health_db" by code_simp
  have "foldl raised_to (alert_level health_db (Some 7, ''device_unavailable''))
      (wanted_severities (fleet_requests (hours 50) health_db) (Some 7, ''device_unavailable'')) = Some Critical"
    by code_simp
  then show ?thesis using fleet_health_refines_levels [OF ok, of "hours 50"] by auto
qed

end
