(* ===== verification/Py_Date.thy ===== *)
theory Py_Date
  imports Py_Std
begin

section \<open>Dates of Python's datetime\<close>

text \<open>
  The texts of dates and times that the code writes: \<open>date.isoformat()\<close> and \<open>datetime.isoformat()\<close> of
  a time in UTC, by the Gregorian calendar. A day is a number of days since 1970-01-01.
\<close>

definition civil_date :: "int \<Rightarrow> int \<times> int \<times> int" where
  "civil_date day =
     (let z = day + 719468; era = z div 146097; doe = z mod 146097;
          yoe = (doe - doe div 1460 + doe div 36524 - doe div 146096) div 365;
          doy = doe - (365 * yoe + yoe div 4 - yoe div 100);
          mp = (5 * doy + 2) div 153;
          d = doy - (153 * mp + 2) div 5 + 1;
          m = (if mp < 10 then mp + 3 else mp - 9);
          y = yoe + era * 400 + (if m \<le> 2 then 1 else 0)
      in (y, m, d))"

definition padded :: "nat \<Rightarrow> int \<Rightarrow> string" where
  "padded n i = (let t = int_str i in replicate (n - length t) CHR ''0'' @ t)"

definition date_iso :: "time \<Rightarrow> string" where
  "date_iso t = (case civil_date (t div days 1) of (y, m, d) \<Rightarrow>
     padded 4 y @ ''-'' @ padded 2 m @ ''-'' @ padded 2 d)"

text \<open>Microseconds are written only when there are any.\<close>

definition datetime_iso :: "time \<Rightarrow> string" where
  "datetime_iso t =
     (let us = t mod days 1; s = us div seconds 1; frac = us mod seconds 1 in
      date_iso t @ ''T'' @ padded 2 (s div 3600) @ '':'' @ padded 2 (s div 60 mod 60) @ '':'' @ padded 2 (s mod 60)
      @ (if frac = 0 then [] else ''.'' @ padded 6 frac) @ ''+00:00'')"

lemma civil_dates:
  "date_iso 0 = ''1970-01-01''"
  "date_iso (days 19782) = ''2024-02-29''"
  "date_iso (days 20454 - 1) = ''2025-12-31''"
  "datetime_iso (days 19782 + hours 5 + seconds 7 + 250) = ''2024-02-29T05:00:07.000250+00:00''"
  by code_simp+

end
