(* ===== verification/Retention.thy ===== *)
theory Retention
  imports Health Playback Py_Date "HOL-Library.List_Lexorder"
begin

section \<open>Retention\<close>

text \<open>
  The management command \<open>apply_retention\<close>: personal data of drivers and vehicles released more than
  a year ago is anonymised, and old evidence is deleted in batches, each batch in a transaction of
  its own. A run is modelled alone; the checks that the code repeats under a lock are kept. A
  loop over batches is a partial function with the value \<open>None\<close> when it does not return. The
  locale \<open>purge\<close> is what the loops need of a deletion; in it the loop over batches is shown to
  return, and to be one deletion of all the old rows. The sessions of the framework are an argument.
\<close>

definition delete_batch_size :: nat where
  "delete_batch_size = 5000"

subsection \<open>Loops over batches\<close>

partial_function (option) batch_loop :: "('s \<Rightarrow> 'i list) \<Rightarrow> ('i list \<Rightarrow> 's \<Rightarrow> 's) \<Rightarrow> 's \<Rightarrow> 's option" where
  "batch_loop page step s = (if page s = [] then Some s else batch_loop page step (step (page s) s))"

declare batch_loop.simps [code]

text \<open>The rows of a filter are read by key and deleted by filter and key; the state counts.\<close>

type_synonym counted = "nat \<times> db"

definition batch_ids :: "('r \<Rightarrow> 'k::linorder) \<Rightarrow> ('r \<Rightarrow> bool) \<Rightarrow> 'r list \<Rightarrow> 'k list" where
  "batch_ids key old rows = take delete_batch_size (sort (map key (filter old rows)))"

definition delete_in_batches ::
  "('r \<Rightarrow> 'k::linorder) \<Rightarrow> ('r \<Rightarrow> bool) \<Rightarrow> (db \<Rightarrow> 'r list) \<Rightarrow> (('r \<Rightarrow> bool) \<Rightarrow> counted \<Rightarrow> counted) \<Rightarrow> db \<Rightarrow> counted option" where
  "delete_in_batches key old rows_of delete s =
     batch_loop (\<lambda>c. batch_ids key old (rows_of (snd c)))
       (\<lambda>ids. delete (\<lambda>r. old r \<and> key r \<in> set ids)) (0, s)"

subsection \<open>Deletions, with the rows they cascade to\<close>

definition count_where :: "('r \<Rightarrow> bool) \<Rightarrow> 'r list \<Rightarrow> nat" where
  "count_where P rows = length (filter P rows)"

fun delete_heartbeats :: "(device_heartbeat \<Rightarrow> bool) \<Rightarrow> counted \<Rightarrow> counted" where
  "delete_heartbeats P (n, s) =
     (n + count_where P (heartbeats s), s\<lparr>heartbeats := delete_where P (heartbeats s)\<rparr>)"

fun delete_location_points :: "(location_point \<Rightarrow> bool) \<Rightarrow> counted \<Rightarrow> counted" where
  "delete_location_points P (n, s) =
     (n + count_where P (location_points s), s\<lparr>location_points := delete_where P (location_points s)\<rparr>)"

fun delete_operational_events :: "(operational_event_row \<Rightarrow> bool) \<Rightarrow> counted \<Rightarrow> counted" where
  "delete_operational_events P (n, s) =
     (n + count_where P (operational_events s), s\<lparr>operational_events := delete_where P (operational_events s)\<rparr>)"

fun delete_alerts :: "(alert \<Rightarrow> bool) \<Rightarrow> counted \<Rightarrow> counted" where
  "delete_alerts P (n, s) = (n + count_where P (alerts s), s\<lparr>alerts := delete_where P (alerts s)\<rparr>)"

fun delete_audits :: "(audit_event \<Rightarrow> bool) \<Rightarrow> counted \<Rightarrow> counted" where
  "delete_audits P (n, s) = (n + count_where P (audits s), s\<lparr>audits := delete_where P (audits s)\<rparr>)"

fun delete_access_tokens :: "(access_token \<Rightarrow> bool) \<Rightarrow> counted \<Rightarrow> counted" where
  "delete_access_tokens P (n, s) =
     (n + count_where P (access_tokens s), s\<lparr>access_tokens := delete_where P (access_tokens s)\<rparr>)"

text \<open>A credential takes its access tokens with it, a code its challenges.\<close>

definition belongs :: "('c \<Rightarrow> 'k) \<Rightarrow> ('r \<Rightarrow> 'k) \<Rightarrow> ('r \<Rightarrow> bool) \<Rightarrow> 'r list \<Rightarrow> 'c \<Rightarrow> bool" where
  "belongs parent key P rows c = exists_row (\<lambda>r. P r \<and> key r = parent c) rows"

fun delete_credentials :: "(device_credential \<Rightarrow> bool) \<Rightarrow> counted \<Rightarrow> counted" where
  "delete_credentials P (n, s) =
     (let orphan = belongs tk_credential cr_id P (credentials s) in
      (n + count_where orphan (access_tokens s) + count_where P (credentials s),
       s\<lparr>access_tokens := delete_where orphan (access_tokens s), credentials := delete_where P (credentials s)\<rparr>))"

fun delete_challenges :: "(enrollment_challenge \<Rightarrow> bool) \<Rightarrow> counted \<Rightarrow> counted" where
  "delete_challenges P (n, s) =
     (n + count_where P (challenges s), s\<lparr>challenges := delete_where P (challenges s)\<rparr>)"

fun delete_codes :: "(enrollment_code \<Rightarrow> bool) \<Rightarrow> counted \<Rightarrow> counted" where
  "delete_codes P (n, s) =
     (let orphan = belongs ch_enrollment ec_id P (enrollment_codes s) in
      (n + count_where orphan (challenges s) + count_where P (enrollment_codes s),
       s\<lparr>challenges := delete_where orphan (challenges s), enrollment_codes := delete_where P (enrollment_codes s)\<rparr>))"

fun delete_login_throttles :: "(login_throttle \<Rightarrow> bool) \<Rightarrow> counted \<Rightarrow> counted" where
  "delete_login_throttles P (n, s) =
     (n + count_where P (login_throttles s), s\<lparr>login_throttles := delete_where P (login_throttles s)\<rparr>)"

fun delete_api_throttles :: "(api_throttle \<Rightarrow> bool) \<Rightarrow> counted \<Rightarrow> counted" where
  "delete_api_throttles P (n, s) =
     (n + count_where P (api_throttles s), s\<lparr>api_throttles := delete_where P (api_throttles s)\<rparr>)"

subsection \<open>Playback evidence\<close>

record playback_counts =
  pd_corrections :: nat
  pd_events :: nat
  pd_batches :: nat

type_synonym evidence_state = "playback_counts \<times> db"

definition old_event :: "time \<Rightarrow> playback_status \<Rightarrow> playback_event \<Rightarrow> bool" where
  "old_event cutoff status e = (pe_status e = status \<and> pe_started_at e < cutoff)"

fun event_page :: "time \<Rightarrow> playback_status \<Rightarrow> evidence_state \<Rightarrow> id list" where
  "event_page cutoff status (c, s) =
     take delete_batch_size (map pe_id (sort_key pe_started_at (filter (old_event cutoff status) (playback_events s))))"

fun delete_event_page :: "id list \<Rightarrow> evidence_state \<Rightarrow> evidence_state" where
  "delete_event_page candidates (c, s) =
     (let locked = map pe_id (filter (\<lambda>e. pe_id e \<in> set candidates) (playback_events s)) in
      if locked = [] then (c, s)
      else (c\<lparr>pd_corrections := pd_corrections c + count_where (\<lambda>x. pc_event x \<in> set locked) (corrections s),
              pd_events := pd_events c + count_where (\<lambda>e. pe_id e \<in> set locked) (playback_events s)\<rparr>,
            s\<lparr>corrections := delete_where (\<lambda>x. pc_event x \<in> set locked) (corrections s),
              playback_events := delete_where (\<lambda>e. pe_id e \<in> set locked) (playback_events s)\<rparr>))"

definition old_batch :: "time \<Rightarrow> db \<Rightarrow> playback_batch_row \<Rightarrow> bool" where
  "old_batch cutoff s b = (pb_loop_started_at b < cutoff \<and> \<not> exists_row (\<lambda>e. pe_batch e = pb_id b) (playback_events s))"

fun batch_page :: "time \<Rightarrow> evidence_state \<Rightarrow> id list" where
  "batch_page cutoff (c, s) =
     take delete_batch_size (map pb_id (sort_key pb_loop_started_at (filter (old_batch cutoff s) (playback_batches s))))"

fun delete_batch_page :: "id list \<Rightarrow> evidence_state \<Rightarrow> evidence_state" where
  "delete_batch_page candidates (c, s) =
     (let locked = map pb_id (filter (\<lambda>b. pb_id b \<in> set candidates
                        \<and> \<not> exists_row (\<lambda>e. pe_batch e = pb_id b) (playback_events s)) (playback_batches s)) in
      (c\<lparr>pd_batches := pd_batches c + length locked\<rparr>,
       s\<lparr>playback_batches := delete_where (\<lambda>b. pb_id b \<in> set locked) (playback_batches s)\<rparr>))"

definition event_status_values :: "playback_status list" where
  "event_status_values = [Completed, Interrupted, Failed]"

fun delete_events_by_status :: "time \<Rightarrow> playback_status list \<Rightarrow> evidence_state \<Rightarrow> evidence_state option" where
  "delete_events_by_status cutoff [] e = Some e"
| "delete_events_by_status cutoff (status # rest) e =
     Option.bind (batch_loop (event_page cutoff status) delete_event_page e) (delete_events_by_status cutoff rest)"

definition delete_expired_playback_evidence :: "time \<Rightarrow> db \<Rightarrow> evidence_state option" where
  "delete_expired_playback_evidence cutoff s =
     Option.bind (delete_events_by_status cutoff event_status_values
         (\<lparr>pd_corrections = 0, pd_events = 0, pd_batches = 0\<rparr>, s))
       (batch_loop (batch_page cutoff) delete_batch_page)"

subsection \<open>Anonymisation\<close>

text \<open>
  The assignments of a driver or a vehicle (\<open>who\<close> reads it from the assignment): none is open and
  the last one ended before the cutoff.
\<close>

definition assignments_of :: "(device_assignment \<Rightarrow> id) \<Rightarrow> id \<Rightarrow> db \<Rightarrow> device_assignment list" where
  "assignments_of who pk s = filter (\<lambda>a. who a = pk) (assignments s)"

definition latest_unassignment :: "(device_assignment \<Rightarrow> id) \<Rightarrow> id \<Rightarrow> db \<Rightarrow> time option" where
  "latest_unassignment who pk s =
     max_time (concat (map (\<lambda>a. case da_unassigned_at a of None \<Rightarrow> [] | Some t \<Rightarrow> [t]) (assignments_of who pk s)))"

definition released :: "(device_assignment \<Rightarrow> id) \<Rightarrow> time \<Rightarrow> id \<Rightarrow> db \<Rightarrow> bool" where
  "released who cutoff pk s =
     (\<not> exists_row (\<lambda>a. da_unassigned_at a = None) (assignments_of who pk s)
      \<and> (case latest_unassignment who pk s of None \<Rightarrow> False | Some t \<Rightarrow> t < cutoff))"

definition driver_candidates :: "time \<Rightarrow> db \<Rightarrow> id list" where
  "driver_candidates cutoff s =
     map dr_id (filter (\<lambda>d. released da_driver cutoff (dr_id d) s \<and> dr_anonymized_at d = None) (drivers s))"

definition anonymize_driver :: "time \<Rightarrow> time \<Rightarrow> id \<Rightarrow> db \<Rightarrow> (bool \<times> db) result" where
  "anonymize_driver now cutoff pk s =
     (case lookup_by dr_id pk (drivers s) of
        None \<Rightarrow> Inl (ServerError ''Driver matching query does not exist.'')
      | Some d \<Rightarrow>
          if dr_anonymized_at d \<noteq> None \<or> \<not> released da_driver cutoff pk s then Inr (False, s)
          else Inr (True, s\<lparr>drivers := save_by dr_id
                 (d\<lparr>dr_name := ''Anonymized driver'', dr_anonymized_at := Some now\<rparr>) (drivers s)\<rparr>))"

text \<open>\<open>tokens\<close> are the random suffixes of the ten attempts.\<close>

fun anonymize_vehicle :: "string list \<Rightarrow> time \<Rightarrow> time \<Rightarrow> id \<Rightarrow> db \<Rightarrow> (bool \<times> db) result" where
  "anonymize_vehicle [] now cutoff pk s =
     Inl (ServerError ''Could not allocate a unique anonymized registration.'')"
| "anonymize_vehicle (token # tokens) now cutoff pk s =
     (case lookup_by ve_id pk (vehicles s) of
        None \<Rightarrow> Inl (ServerError ''Vehicle matching query does not exist.'')
      | Some v \<Rightarrow>
          if ve_anonymized_at v \<noteq> None \<or> \<not> released da_vehicle cutoff pk s then Inr (False, s)
          else (let registration = ''ANON-'' @ int_str (ve_id v) @ ''-'' @ token in
                if exists_row (\<lambda>w. ve_registration w = registration) (vehicles s)
                then anonymize_vehicle tokens now cutoff pk s
                else Inr (True, s\<lparr>vehicles := save_by ve_id
                       (v\<lparr>ve_registration := registration, ve_anonymized_at := Some now\<rparr>) (vehicles s)\<rparr>)))"

definition vehicle_candidates :: "time \<Rightarrow> db \<Rightarrow> id list" where
  "vehicle_candidates cutoff s =
     map ve_id (filter (\<lambda>v. released da_vehicle cutoff (ve_id v) s \<and> ve_anonymized_at v = None) (vehicles s))"

text \<open>The candidates one after the other, each in a transaction; \<open>n\<close> counts the successes.\<close>

fun anonymize_each :: "(nat \<Rightarrow> id \<Rightarrow> db \<Rightarrow> (bool \<times> db) result) \<Rightarrow> id list \<Rightarrow> nat \<Rightarrow> db \<Rightarrow> nat result \<times> db" where
  "anonymize_each one [] n s = (Inr n, s)"
| "anonymize_each one (pk # pks) n s = (case one n pk s of
       Inl e \<Rightarrow> (Inl e, s)
     | Inr (changed, t) \<Rightarrow> anonymize_each one pks (if changed then n + 1 else n) t)"

definition anonymize_drivers :: "clock \<Rightarrow> time \<Rightarrow> db \<Rightarrow> nat result \<times> db" where
  "anonymize_drivers clk cutoff s =
     anonymize_each (\<lambda>n. anonymize_driver (clk n) cutoff) (driver_candidates cutoff s) 0 s"

definition anonymize_vehicles :: "(id \<Rightarrow> nat \<Rightarrow> string) \<Rightarrow> clock \<Rightarrow> time \<Rightarrow> db \<Rightarrow> nat result \<times> db" where
  "anonymize_vehicles token_hex clk cutoff s =
     anonymize_each (\<lambda>n pk. anonymize_vehicle (map (token_hex pk) [0..<10]) (clk n) cutoff pk)
       (vehicle_candidates cutoff s) 0 s"

definition old_sim :: "time \<Rightarrow> device_assignment \<Rightarrow> bool" where
  "old_sim cutoff a = ((case da_unassigned_at a of None \<Rightarrow> False | Some t \<Rightarrow> t < cutoff) \<and> da_sim_card_number a \<noteq> [])"

definition anonymize_sim_card_numbers :: "time \<Rightarrow> db \<Rightarrow> counted" where
  "anonymize_sim_card_numbers cutoff s =
     (count_where (old_sim cutoff) (assignments s),
      s\<lparr>assignments := update_where (old_sim cutoff) (\<lambda>a. a\<lparr>da_sim_card_number := []\<rparr>) (assignments s)\<rparr>)"

subsection \<open>The run\<close>

definition optional_before :: "time \<Rightarrow> time option \<Rightarrow> bool" where
  "optional_before cutoff at = (case at of None \<Rightarrow> False | Some t \<Rightarrow> t < cutoff)"

text \<open>
  The deletions after the playback evidence, in order; \<open>and_count\<close> runs one and keeps its count
  under its name. \<open>sessions\<close> is the number of expired sessions at a time.
\<close>

definition and_count ::
  "string \<Rightarrow> (db \<Rightarrow> counted option) \<Rightarrow> payload \<times> db \<Rightarrow> (payload \<times> db) option" where
  "and_count name delete r = (case r of (counts, s) \<Rightarrow>
     (case delete s of None \<Rightarrow> None | Some (n, t) \<Rightarrow> Some (counts @ [(name, JInt (int n))], t)))"

definition delete_operational_records :: "time \<Rightarrow> time \<Rightarrow> db \<Rightarrow> (payload \<times> db) option" where
  "delete_operational_records cutoff location_cutoff s =
     Option.bind (and_count ''heartbeats_deleted''
         (delete_in_batches hb_id (\<lambda>h. hb_recorded_at h < cutoff) heartbeats delete_heartbeats) ([], s)) (\<lambda>r.
     Option.bind (and_count ''location_points_deleted''
         (delete_in_batches lp_id (\<lambda>p. lp_recorded_at p < location_cutoff) location_points delete_location_points) r) (\<lambda>r.
     and_count ''operational_events_deleted''
         (delete_in_batches oe_id (\<lambda>e. oe_recorded_at e < cutoff) operational_events delete_operational_events) r))"

definition delete_alerts_and_audits :: "time \<Rightarrow> db \<Rightarrow> (payload \<times> db) option" where
  "delete_alerts_and_audits cutoff s =
     Option.bind (and_count ''alerts_deleted''
         (delete_in_batches al_id (\<lambda>a. al_created_at a < cutoff) alerts delete_alerts) ([], s)) (\<lambda>r.
     and_count ''audit_events_deleted''
         (delete_in_batches au_id (\<lambda>a. au_occurred_at a < cutoff) audits delete_audits) r)"

definition delete_expired_auth_artifacts :: "settings \<Rightarrow> (time \<Rightarrow> nat) \<Rightarrow> time \<Rightarrow> db \<Rightarrow> (payload \<times> db) option" where
  "delete_expired_auth_artifacts st sessions now s =
     (let stale_before = now - days (st_auth_artifact_retention_days st) in
      Option.bind (and_count ''access_tokens_deleted''
         (delete_in_batches tk_id (\<lambda>t. tk_expires_at t < now) access_tokens delete_access_tokens) ([], s)) (\<lambda>r.
      Option.bind (and_count ''revoked_credentials_deleted''
         (delete_in_batches cr_id (\<lambda>c. optional_before stale_before (cr_revoked_at c)) credentials delete_credentials) r) (\<lambda>r.
      Option.bind (and_count ''enrollment_challenges_deleted''
         (delete_in_batches ch_id (\<lambda>c. ch_expires_at c < stale_before) challenges delete_challenges) r) (\<lambda>r.
      Option.bind (and_count ''enrollment_codes_deleted''
         (delete_in_batches ec_id (\<lambda>c. ec_expires_at c < stale_before) enrollment_codes delete_codes) r) (\<lambda>r.
      Option.bind (and_count ''login_throttles_deleted''
         (delete_in_batches lt_key_hash (\<lambda>t. lt_updated_at t < stale_before) login_throttles delete_login_throttles) r) (\<lambda>r.
      Option.bind (and_count ''api_throttles_deleted''
         (delete_in_batches at_key_hash (\<lambda>t. at_updated_at t < stale_before) api_throttles delete_api_throttles) r) (\<lambda>r.
      and_count ''sessions_deleted'' (\<lambda>s. Some (sessions now, s)) r)))))))"

definition playback_metadata :: "playback_counts \<Rightarrow> payload" where
  "playback_metadata c = [(''playback_corrections_deleted'', JInt (int (pd_corrections c))),
     (''playback_events_deleted'', JInt (int (pd_events c))), (''playback_batches_deleted'', JInt (int (pd_batches c)))]"

text \<open>
  The command: the first two readings of the clock are the cutoffs, then one for each anonymised row,
  one for the tokens and one for the audit event. The deletions are only reached when the
  anonymisation did not raise.
\<close>

definition delete_expired ::
  "settings \<Rightarrow> (time \<Rightarrow> nat) \<Rightarrow> time \<Rightarrow> time \<Rightarrow> time \<Rightarrow> db \<Rightarrow> (payload \<times> db) option" where
  "delete_expired st sessions cutoff location_cutoff now s =
     Option.bind (delete_expired_playback_evidence cutoff s) (\<lambda>(c, s1).
     Option.bind (delete_operational_records cutoff location_cutoff s1) (\<lambda>(operational, s2).
     Option.bind (delete_alerts_and_audits cutoff s2) (\<lambda>(alerts_audits, s3).
     Option.bind (delete_expired_auth_artifacts st sessions now s3) (\<lambda>(auth, s4).
     Some (operational @ playback_metadata c @ alerts_audits @ auth, s4)))))"

definition apply_retention ::
  "settings \<Rightarrow> (id \<Rightarrow> nat \<Rightarrow> string) \<Rightarrow> (time \<Rightarrow> nat) \<Rightarrow> clock \<Rightarrow> db \<Rightarrow> (unit result \<times> db) option" where
  "apply_retention st token_hex sessions clk s =
     (let cutoff = clk 0 - days 365; location_cutoff = clk 1 - days 30 in
      case anonymize_drivers (\<lambda>n. clk (2 + n)) cutoff s of
        (Inl e, s1) \<Rightarrow> Some (Inl e, s1)
      | (Inr driver_count, s1) \<Rightarrow>
      (case anonymize_vehicles token_hex (\<lambda>n. clk (2 + driver_count + n)) cutoff s1 of
        (Inl e, s2) \<Rightarrow> Some (Inl e, s2)
      | (Inr vehicle_count, s2) \<Rightarrow>
        (let (sim_card_count, s3) = anonymize_sim_card_numbers cutoff s2; k = 2 + driver_count + vehicle_count in
         Option.bind (delete_expired st sessions cutoff location_cutoff (clk k) s3) (\<lambda>(counts, s4).
         Some (Inr (), audit (clk (k + 1)) None ''retention.apply'' ''retention_window'' (date_iso cutoff)
           ([(''drivers_anonymized'', JInt (int driver_count)), (''vehicles_anonymized'', JInt (int vehicle_count)),
             (''sim_card_numbers_anonymized'', JInt (int sim_card_count))] @ counts) s4)))))"

subsection \<open>Batches and one deletion\<close>

text \<open>
  A deletion over a table: what it leaves in the table, that two deletions are one of both filters,
  and that only the filter's values on the rows matter.
\<close>

locale purge =
  fixes rows_of :: "'s \<Rightarrow> 'r list"
    and delete :: "('r \<Rightarrow> bool) \<Rightarrow> 's \<Rightarrow> 's"
  assumes rows_delete: "rows_of (delete P s) = delete_where P (rows_of s)"
    and delete_delete: "delete Q (delete P s) = delete (\<lambda>r. P r \<or> Q r) s"
    and delete_none: "delete (\<lambda>r. False) s = s"
    and delete_cong: "(\<And>r. r \<in> set (rows_of s) \<Longrightarrow> P r = Q r) \<Longrightarrow> delete P s = delete Q s"
begin

text \<open>
  A loop whose page lists keys of old rows, and none only when there are none, and whose step is
  the deletion of the old rows of the page, returns the state after the deletion of all old rows.
\<close>

lemma batches:
  assumes inv: "I s"
    and page: "\<And>s. I s \<Longrightarrow> set (page s) \<subseteq> key ` {r \<in> set (rows_of s). old r}"
    and none: "\<And>s. I s \<Longrightarrow> page s = [] \<Longrightarrow> \<forall>r\<in>set (rows_of s). \<not> old r"
    and step: "\<And>s. I s \<Longrightarrow> page s \<noteq> [] \<Longrightarrow>
      I (step (page s) s) \<and> step (page s) s = delete (\<lambda>r. old r \<and> key r \<in> set (page s)) s"
  shows "batch_loop page step s = Some (delete old s) \<and> I (delete old s)"
  using inv
proof (induction "length (filter old (rows_of s))" arbitrary: s rule: less_induct)
  case less
  show ?case
  proof (cases "page s = []")
    case True
    then have "delete old s = delete (\<lambda>r. False) s"
      using none [OF less.prems] by (intro delete_cong) auto
    then show ?thesis using True less.prems by (simp add: batch_loop.simps delete_none)
  next
    case False
    let ?P = "\<lambda>r. old r \<and> key r \<in> set (page s)"
    have st: "I (step (page s) s)" "step (page s) s = delete ?P s" using step [OF less.prems False] by auto
    obtain k where "k \<in> set (page s)" using False by (cases "page s") auto
    then obtain r where r: "r \<in> set (rows_of s)" "old r" "key r \<in> set (page s)"
      using page [OF less.prems] by auto
    have f: "filter old (rows_of (delete ?P s)) = filter (\<lambda>r. \<not> ?P r) (filter old (rows_of s))"
      by (auto simp: rows_delete delete_where_def intro: filter_cong)
    have "length (filter old (rows_of (delete ?P s))) < length (filter old (rows_of s))"
      unfolding f by (rule length_filter_less [of r]) (use r in auto)
    then have "batch_loop page step (delete ?P s) = Some (delete old (delete ?P s)) \<and> I (delete old (delete ?P s))"
      using less.hyps [of "delete ?P s"] st by simp
    moreover have "delete old (delete ?P s) = delete old s"
      unfolding delete_delete by (rule delete_cong) auto
    ultimately show ?thesis using False st(2) by (subst batch_loop.simps) simp
  qed
qed

lemma take_page:
  assumes "set ids = key ` {r \<in> set (rows_of s). old r}" and "0 < (n::nat)"
  shows "set (take n ids) \<subseteq> key ` {r \<in> set (rows_of s). old r}"
    and "take n ids = [] \<Longrightarrow> \<forall>r\<in>set (rows_of s). \<not> old r"
  using assms set_take_subset [of n ids] by auto

end

lemma delete_where_twice: "delete_where Q (delete_where P rows) = delete_where (\<lambda>r. P r \<or> Q r) rows"
  by (auto simp: delete_where_def intro: filter_cong)

lemma delete_where_False [simp]: "delete_where (\<lambda>r. False) rows = rows"
  by (simp add: delete_where_def)

lemma delete_where_cong:
  "rows = qs \<Longrightarrow> (\<And>r. r \<in> set qs \<Longrightarrow> P r = Q r) \<Longrightarrow> delete_where P rows = delete_where Q qs"
  by (auto simp: delete_where_def intro: filter_cong)

lemma count_where_twice:
  "count_where P rows + count_where Q (delete_where P rows) = count_where (\<lambda>r. P r \<or> Q r) rows"
  by (induction rows) (auto simp: count_where_def delete_where_def)

lemma count_where_False [simp]: "count_where (\<lambda>r. False) rows = 0"
  by (simp add: count_where_def)

lemma count_where_cong:
  "rows = qs \<Longrightarrow> (\<And>r. r \<in> set qs \<Longrightarrow> P r = Q r) \<Longrightarrow> count_where P rows = count_where Q qs"
  by (metis count_where_def filter_cong)

lemma belongs_twice:
  "belongs parent key P rows c \<or> belongs parent key Q (delete_where P rows) c
     \<longleftrightarrow> belongs parent key (\<lambda>r. P r \<or> Q r) rows c"
  by (auto simp: belongs_def)

lemma belongs_False [simp]: "belongs parent key (\<lambda>r. False) rows = (\<lambda>c. False)"
  by (simp add: belongs_def fun_eq_iff)

lemma belongs_cong:
  "rows = qs \<Longrightarrow> (\<And>r. r \<in> set qs \<Longrightarrow> P r = Q r) \<Longrightarrow> belongs parent key P rows = belongs parent key Q qs"
  by (auto simp: belongs_def fun_eq_iff)

lemmas purge_laws = delete_where_twice count_where_twice belongs_twice add.assoc

text \<open>Both filters on a table give the count and the rows of their union.\<close>

interpretation heartbeat_purge: purge "\<lambda>c. heartbeats (snd c)" delete_heartbeats
  by unfold_locales (auto simp: purge_laws cong: delete_where_cong count_where_cong)

interpretation location_purge: purge "\<lambda>c. location_points (snd c)" delete_location_points
  by unfold_locales (auto simp: purge_laws cong: delete_where_cong count_where_cong)

interpretation operational_purge: purge "\<lambda>c. operational_events (snd c)" delete_operational_events
  by unfold_locales (auto simp: purge_laws cong: delete_where_cong count_where_cong)

interpretation alert_purge: purge "\<lambda>c. alerts (snd c)" delete_alerts
  by unfold_locales (auto simp: purge_laws cong: delete_where_cong count_where_cong)

interpretation audit_purge: purge "\<lambda>c. audits (snd c)" delete_audits
  by unfold_locales (auto simp: purge_laws cong: delete_where_cong count_where_cong)

interpretation token_purge: purge "\<lambda>c. access_tokens (snd c)" delete_access_tokens
  by unfold_locales (auto simp: purge_laws cong: delete_where_cong count_where_cong)

interpretation challenge_purge: purge "\<lambda>c. challenges (snd c)" delete_challenges
  by unfold_locales (auto simp: purge_laws cong: delete_where_cong count_where_cong)

interpretation login_purge: purge "\<lambda>c. login_throttles (snd c)" delete_login_throttles
  by unfold_locales (auto simp: purge_laws cong: delete_where_cong count_where_cong)

interpretation api_purge: purge "\<lambda>c. api_throttles (snd c)" delete_api_throttles
  by unfold_locales (auto simp: purge_laws cong: delete_where_cong count_where_cong)

interpretation credential_purge: purge "\<lambda>c. credentials (snd c)" delete_credentials
proof unfold_locales
  fix P Q :: "device_credential \<Rightarrow> bool" and s :: counted
  obtain n t where s: "s = (n, t)" by (cases s)
  let ?a = "belongs tk_credential cr_id P (credentials t)"
  let ?b = "belongs tk_credential cr_id Q (delete_where P (credentials t))"
  have ab: "(\<lambda>c. ?a c \<or> ?b c) = belongs tk_credential cr_id (\<lambda>r. P r \<or> Q r) (credentials t)"
    by (simp add: belongs_twice)
  have "delete_where ?b (delete_where ?a (access_tokens t)) = delete_where (\<lambda>c. ?a c \<or> ?b c) (access_tokens t)"
    and "count_where ?a (access_tokens t) + count_where ?b (delete_where ?a (access_tokens t))
       = count_where (\<lambda>c. ?a c \<or> ?b c) (access_tokens t)"
    by (simp_all only: delete_where_twice count_where_twice)
  then show "delete_credentials Q (delete_credentials P s) = delete_credentials (\<lambda>r. P r \<or> Q r) s"
    using count_where_twice [of P "credentials t" Q] unfolding ab by (simp add: s Let_def delete_where_twice)
qed (auto simp: Let_def cong: delete_where_cong count_where_cong belongs_cong)

interpretation code_purge: purge "\<lambda>c. enrollment_codes (snd c)" delete_codes
proof unfold_locales
  fix P Q :: "enrollment_code \<Rightarrow> bool" and s :: counted
  obtain n t where s: "s = (n, t)" by (cases s)
  let ?a = "belongs ch_enrollment ec_id P (enrollment_codes t)"
  let ?b = "belongs ch_enrollment ec_id Q (delete_where P (enrollment_codes t))"
  have ab: "(\<lambda>c. ?a c \<or> ?b c) = belongs ch_enrollment ec_id (\<lambda>r. P r \<or> Q r) (enrollment_codes t)"
    by (simp add: belongs_twice)
  have "delete_where ?b (delete_where ?a (challenges t)) = delete_where (\<lambda>c. ?a c \<or> ?b c) (challenges t)"
    and "count_where ?a (challenges t) + count_where ?b (delete_where ?a (challenges t))
       = count_where (\<lambda>c. ?a c \<or> ?b c) (challenges t)"
    by (simp_all only: delete_where_twice count_where_twice)
  then show "delete_codes Q (delete_codes P s) = delete_codes (\<lambda>r. P r \<or> Q r) s"
    using count_where_twice [of P "enrollment_codes t" Q] unfolding ab by (simp add: s Let_def delete_where_twice)
qed (auto simp: Let_def cong: delete_where_cong count_where_cong belongs_cong)

lemma batch_size_pos [simp]: "0 < delete_batch_size"
  by (simp add: delete_batch_size_def)

text \<open>The loop of the command over any of its tables is one deletion of the old rows.\<close>

lemma delete_in_batches_purge:
  assumes p: "purge (\<lambda>c. rows_of (snd c)) delete"
  shows "delete_in_batches key old rows_of delete s = Some (delete old (0, s))"
proof -
  let ?page = "\<lambda>c. batch_ids key old (rows_of (snd c))"
  have ids: "set (sort (map key (filter old rows))) = key ` {r \<in> set rows. old r}" for rows
    by auto
  have "batch_loop ?page (\<lambda>ids. delete (\<lambda>r. old r \<and> key r \<in> set ids)) (0, s) = Some (delete old (0, s)) \<and> True"
    by (rule purge.batches [OF p, where I = "\<lambda>c. True" and key = key])
      (use purge.take_page [OF p ids batch_size_pos] in \<open>simp_all only: batch_ids_def simp_thms HOL.TrueI\<close>)
  then show ?thesis by (simp add: delete_in_batches_def)
qed

lemmas purged_in_batches =
  delete_in_batches_purge [OF heartbeat_purge.purge_axioms]
  delete_in_batches_purge [OF location_purge.purge_axioms]
  delete_in_batches_purge [OF operational_purge.purge_axioms]
  delete_in_batches_purge [OF alert_purge.purge_axioms]
  delete_in_batches_purge [OF audit_purge.purge_axioms]
  delete_in_batches_purge [OF token_purge.purge_axioms]
  delete_in_batches_purge [OF credential_purge.purge_axioms]
  delete_in_batches_purge [OF challenge_purge.purge_axioms]
  delete_in_batches_purge [OF code_purge.purge_axioms]
  delete_in_batches_purge [OF login_purge.purge_axioms]
  delete_in_batches_purge [OF api_purge.purge_axioms]

subsection \<open>The playback evidence as two deletions\<close>

fun purge_events :: "(playback_event \<Rightarrow> bool) \<Rightarrow> evidence_state \<Rightarrow> evidence_state" where
  "purge_events P (c, s) =
     (let orphan = belongs pc_event pe_id P (playback_events s) in
      (c\<lparr>pd_corrections := pd_corrections c + count_where orphan (corrections s),
         pd_events := pd_events c + count_where P (playback_events s)\<rparr>,
       s\<lparr>corrections := delete_where orphan (corrections s), playback_events := delete_where P (playback_events s)\<rparr>))"

fun purge_batches :: "(playback_batch_row \<Rightarrow> bool) \<Rightarrow> evidence_state \<Rightarrow> evidence_state" where
  "purge_batches P (c, s) =
     (c\<lparr>pd_batches := pd_batches c + count_where P (playback_batches s)\<rparr>,
      s\<lparr>playback_batches := delete_where P (playback_batches s)\<rparr>)"

interpretation batch_purge: purge "\<lambda>e. playback_batches (snd e)" purge_batches
  by unfold_locales (auto simp: purge_laws cong: delete_where_cong count_where_cong)

interpretation event_purge: purge "\<lambda>e. playback_events (snd e)" purge_events
proof unfold_locales
  fix P Q :: "playback_event \<Rightarrow> bool" and e :: evidence_state
  obtain c s where e: "e = (c, s)" by (cases e)
  let ?a = "belongs pc_event pe_id P (playback_events s)"
  let ?b = "belongs pc_event pe_id Q (delete_where P (playback_events s))"
  have ab: "(\<lambda>c. ?a c \<or> ?b c) = belongs pc_event pe_id (\<lambda>r. P r \<or> Q r) (playback_events s)"
    by (simp add: belongs_twice)
  have "delete_where ?b (delete_where ?a (corrections s)) = delete_where (\<lambda>c. ?a c \<or> ?b c) (corrections s)"
    and "count_where ?a (corrections s) + count_where ?b (delete_where ?a (corrections s))
       = count_where (\<lambda>c. ?a c \<or> ?b c) (corrections s)"
    by (simp_all only: delete_where_twice count_where_twice)
  then show "purge_events Q (purge_events P e) = purge_events (\<lambda>r. P r \<or> Q r) e"
    using count_where_twice [of P "playback_events s" Q] unfolding ab
    by (simp add: e Let_def delete_where_twice)
qed (auto simp: Let_def cong: delete_where_cong count_where_cong belongs_cong)

definition events_distinct :: "evidence_state \<Rightarrow> bool" where
  "events_distinct e = distinct (map pe_id (playback_events (snd e)))"

lemma events_distinct_purge: "events_distinct e \<Longrightarrow> events_distinct (purge_events P e)"
  by (cases e) (simp add: events_distinct_def Let_def delete_where_def distinct_map_filter)

lemma event_page_old:
  "set (event_page cutoff status e) \<subseteq> pe_id ` {r \<in> set (playback_events (snd e)). old_event cutoff status r}"
  "event_page cutoff status e = [] \<Longrightarrow> \<forall>r\<in>set (playback_events (snd e)). \<not> old_event cutoff status r"
proof -
  obtain c s where e: "e = (c, s)" by (cases e)
  let ?ids = "map pe_id (sort_key pe_started_at (filter (old_event cutoff status) (playback_events s)))"
  have ids: "set ?ids = pe_id ` {r \<in> set (playback_events (snd e)). old_event cutoff status r}"
    unfolding e by auto
  have page: "event_page cutoff status e = take delete_batch_size ?ids" by (simp only: e event_page.simps)
  show "set (event_page cutoff status e) \<subseteq> pe_id ` {r \<in> set (playback_events (snd e)). old_event cutoff status r}"
    and "event_page cutoff status e = [] \<Longrightarrow> \<forall>r\<in>set (playback_events (snd e)). \<not> old_event cutoff status r"
    unfolding page by (rule event_purge.take_page [OF ids batch_size_pos])+
qed

lemma delete_event_page_purge:
  assumes d: "distinct (map pe_id (playback_events s))"
    and sub: "set ids \<subseteq> pe_id ` {r \<in> set (playback_events s). old r}" and page: "ids \<noteq> []"
  shows "delete_event_page ids (c, s) = purge_events (\<lambda>r. old r \<and> pe_id r \<in> set ids) (c, s)"
proof -
  let ?ev = "playback_events s"
  let ?P = "\<lambda>r. old r \<and> pe_id r \<in> set ids"
  let ?locked = "map pe_id (filter (\<lambda>r. pe_id r \<in> set ids) ?ev)"
  have old: "?P r" if r: "r \<in> set ?ev" "pe_id r \<in> set ids" for r
  proof -
    obtain q where "q \<in> set ?ev" "old q" "pe_id q = pe_id r" using sub r(2) by auto
    then show ?thesis using distinct_map_unique [OF d, of q r] r by simp
  qed
  have locked: "x \<in> set ?locked \<longleftrightarrow> (\<exists>r\<in>set ?ev. ?P r \<and> pe_id r = x)" for x
    using old by auto
  have mem: "pe_id r \<in> set ?locked \<longleftrightarrow> ?P r" if "r \<in> set ?ev" for r
    using old that by auto
  have orphan: "(\<lambda>x. pc_event x \<in> set ?locked) = belongs pc_event pe_id ?P ?ev"
    by (rule ext) (simp only: locked belongs_def exists_row_iff)
  have "set ids \<subseteq> set ?locked" using sub by auto
  then have "?locked \<noteq> []" using page by (metis set_empty subset_empty)
  moreover have "delete_where (\<lambda>r. pe_id r \<in> set ?locked) ?ev = delete_where ?P ?ev"
    and "count_where (\<lambda>r. pe_id r \<in> set ?locked) ?ev = count_where ?P ?ev"
    by (rule delete_where_cong [OF refl mem], assumption, rule count_where_cong [OF refl mem], assumption)
  ultimately show ?thesis
    by (simp only: delete_event_page.simps purge_events.simps Let_def orphan if_False)
qed

lemma event_page_step:
  assumes "events_distinct e" and "event_page cutoff status e \<noteq> []"
  shows "delete_event_page (event_page cutoff status e) e =
     purge_events (\<lambda>r. old_event cutoff status r \<and> pe_id r \<in> set (event_page cutoff status e)) e"
  using delete_event_page_purge [OF _ event_page_old(1) [of cutoff status e] assms(2), of "fst e"] assms(1)
  by (simp only: events_distinct_def prod.collapse)

lemma events_of_status:
  assumes "events_distinct e"
  shows "batch_loop (event_page cutoff status) delete_event_page e = Some (purge_events (old_event cutoff status) e)"
proof -
  have "batch_loop (event_page cutoff status) delete_event_page e = Some (purge_events (old_event cutoff status) e)
     \<and> events_distinct (purge_events (old_event cutoff status) e)"
  proof (rule event_purge.batches [where key = pe_id])
    fix e :: evidence_state
    show "set (event_page cutoff status e) \<subseteq> pe_id ` {r \<in> set (playback_events (snd e)). old_event cutoff status r}"
      and "event_page cutoff status e = [] \<Longrightarrow> \<forall>r\<in>set (playback_events (snd e)). \<not> old_event cutoff status r"
      by (rule event_page_old; assumption?)+
    show "events_distinct (delete_event_page (event_page cutoff status e) e) \<and>
      delete_event_page (event_page cutoff status e) e =
        purge_events (\<lambda>r. old_event cutoff status r \<and> pe_id r \<in> set (event_page cutoff status e)) e"
      if "events_distinct e" "event_page cutoff status e \<noteq> []"
      using that by (simp only: event_page_step events_distinct_purge simp_thms)
  qed (rule assms)
  then show ?thesis by simp
qed

lemma events_of_statuses:
  "events_distinct e \<Longrightarrow> delete_events_by_status cutoff statuses e =
     Some (purge_events (\<lambda>r. pe_status r \<in> set statuses \<and> pe_started_at r < cutoff) e)"
proof (induction statuses arbitrary: e)
  case Nil
  then show ?case by (simp add: event_purge.delete_none)
next
  case (Cons status rest)
  have "purge_events (\<lambda>r. pe_status r \<in> set rest \<and> pe_started_at r < cutoff) (purge_events (old_event cutoff status) e)
      = purge_events (\<lambda>r. pe_status r \<in> set (status # rest) \<and> pe_started_at r < cutoff) e"
    unfolding event_purge.delete_delete by (rule event_purge.delete_cong) (auto simp: old_event_def)
  then show ?case using Cons events_of_status [OF Cons.prems] events_distinct_purge by simp
qed

subsection \<open>Batches without events\<close>

lemma batch_page_old:
  "set (batch_page cutoff e) \<subseteq> pb_id ` {b \<in> set (playback_batches (snd e)). old_batch cutoff (snd e) b}"
  "batch_page cutoff e = [] \<Longrightarrow> \<forall>b\<in>set (playback_batches (snd e)). \<not> old_batch cutoff (snd e) b"
proof -
  obtain c s where e: "e = (c, s)" by (cases e)
  let ?ids = "map pb_id (sort_key pb_loop_started_at (filter (old_batch cutoff s) (playback_batches s)))"
  have ids: "set ?ids = pb_id ` {b \<in> set (playback_batches (snd e)). old_batch cutoff (snd e) b}"
    unfolding e by auto
  have page: "batch_page cutoff e = take delete_batch_size ?ids" by (simp only: e batch_page.simps)
  show "set (batch_page cutoff e) \<subseteq> pb_id ` {b \<in> set (playback_batches (snd e)). old_batch cutoff (snd e) b}"
    and "batch_page cutoff e = [] \<Longrightarrow> \<forall>b\<in>set (playback_batches (snd e)). \<not> old_batch cutoff (snd e) b"
    unfolding page by (rule batch_purge.take_page [OF ids batch_size_pos])+
qed

lemma delete_batch_page_purge:
  assumes d: "distinct (map pb_id (playback_batches s))"
    and sub: "set ids \<subseteq> pb_id ` {b \<in> set (playback_batches s). old_batch cutoff s b}"
  shows "delete_batch_page ids (c, s) = purge_batches (\<lambda>b. old_batch cutoff s b \<and> pb_id b \<in> set ids) (c, s)"
proof -
  let ?rows = "playback_batches s"
  let ?P = "\<lambda>b. old_batch cutoff s b \<and> pb_id b \<in> set ids"
  let ?found = "\<lambda>b. pb_id b \<in> set ids \<and> \<not> exists_row (\<lambda>e. pe_batch e = pb_id b) (playback_events s)"
  have old: "old_batch cutoff s b" if b: "b \<in> set ?rows" "pb_id b \<in> set ids" for b
  proof -
    obtain q where "q \<in> set ?rows" "old_batch cutoff s q" "pb_id q = pb_id b" using sub b(2) by auto
    then show ?thesis using distinct_map_unique [OF d, of q b] b by simp
  qed
  have found: "?found b \<longleftrightarrow> ?P b" if "b \<in> set ?rows" for b
    using old [OF that] unfolding old_batch_def by blast
  have locked: "pb_id b \<in> set (map pb_id (filter ?found ?rows)) \<longleftrightarrow> ?P b" if b: "b \<in> set ?rows" for b
  proof
    assume "pb_id b \<in> set (map pb_id (filter ?found ?rows))"
    then obtain q where "q \<in> set ?rows" "?found q" "pb_id q = pb_id b" by auto
    then show "?P b" using distinct_map_unique [OF d, of q b] b found by blast
  next
    assume "?P b"
    then have "b \<in> set (filter ?found ?rows)" using b found by auto
    then show "pb_id b \<in> set (map pb_id (filter ?found ?rows))" by simp
  qed
  have "length (map pb_id (filter ?found ?rows)) = count_where ?P ?rows"
    unfolding count_where_def length_map by (rule arg_cong [where f = length], rule filter_cong [OF refl found])
  moreover have "delete_where (\<lambda>b. pb_id b \<in> set (map pb_id (filter ?found ?rows))) ?rows = delete_where ?P ?rows"
    by (rule delete_where_cong [OF refl locked])
  ultimately show ?thesis by (simp only: delete_batch_page.simps purge_batches.simps Let_def)
qed

definition batches_of :: "playback_event list \<Rightarrow> evidence_state \<Rightarrow> bool" where
  "batches_of events e = (playback_events (snd e) = events \<and> distinct (map pb_id (playback_batches (snd e))))"

lemma old_batch_events: "playback_events s = playback_events t \<Longrightarrow> old_batch cutoff s = old_batch cutoff t"
  by (simp add: old_batch_def fun_eq_iff)

lemma batches_without_events:
  assumes d: "distinct (map pb_id (playback_batches s))"
  shows "batch_loop (batch_page cutoff) delete_batch_page (c, s) = Some (purge_batches (old_batch cutoff s) (c, s))"
proof -
  let ?I = "batches_of (playback_events s)"
  have same: "old_batch cutoff (snd e) = old_batch cutoff s" if "?I e" for e
    using that by (intro old_batch_events) (simp add: batches_of_def)
  have keep: "?I (purge_batches P e)" if "?I e" for P e
    using that by (cases e) (simp add: batches_of_def delete_where_def distinct_map_filter)
  have "batch_loop (batch_page cutoff) delete_batch_page (c, s) = Some (purge_batches (old_batch cutoff s) (c, s))
     \<and> ?I (purge_batches (old_batch cutoff s) (c, s))"
  proof (rule batch_purge.batches [where key = pb_id])
    show "?I (c, s)" using d by (simp add: batches_of_def)
  next
    fix e assume I: "?I e"
    show "set (batch_page cutoff e) \<subseteq> pb_id ` {b \<in> set (playback_batches (snd e)). old_batch cutoff s b}"
      and "batch_page cutoff e = [] \<Longrightarrow> \<forall>b\<in>set (playback_batches (snd e)). \<not> old_batch cutoff s b"
      using batch_page_old [of cutoff e] unfolding same [OF I] by blast+
    have de: "distinct (map pb_id (playback_batches (snd e)))" using I by (simp add: batches_of_def)
    have "delete_batch_page (batch_page cutoff e) e =
        purge_batches (\<lambda>b. old_batch cutoff s b \<and> pb_id b \<in> set (batch_page cutoff e)) e"
      using delete_batch_page_purge [OF de batch_page_old(1) [of cutoff], where c = "fst e"] by (simp add: same [OF I])
    then show "?I (delete_batch_page (batch_page cutoff e) e) \<and> delete_batch_page (batch_page cutoff e) e =
        purge_batches (\<lambda>b. old_batch cutoff s b \<and> pb_id b \<in> set (batch_page cutoff e)) e"
      using keep [OF I] by simp
  qed
  then show ?thesis by simp
qed

text \<open>The evidence of a year ago: events, their corrections, then the batches left empty.\<close>

definition expired_event :: "time \<Rightarrow> playback_event \<Rightarrow> bool" where
  "expired_event cutoff e = (pe_started_at e < cutoff)"

definition no_counts :: playback_counts where
  "no_counts = \<lparr>pd_corrections = 0, pd_events = 0, pd_batches = 0\<rparr>"

lemma playback_evidence_deletion:
  assumes "distinct (map pe_id (playback_events s))" and "distinct (map pb_id (playback_batches s))"
  shows "\<exists>c t. purge_events (expired_event cutoff) (no_counts, s) = (c, t)
     \<and> delete_expired_playback_evidence cutoff s = Some (purge_batches (old_batch cutoff t) (c, t))"
proof -
  obtain c t where ct: "purge_events (expired_event cutoff) (no_counts, s) = (c, t)"
    by (cases "purge_events (expired_event cutoff) (no_counts, s)")
  have "(\<lambda>r. pe_status r \<in> set event_status_values \<and> pe_started_at r < cutoff) = expired_event cutoff"
    by (rule ext, rename_tac r, case_tac "pe_status r") (simp_all add: event_status_values_def expired_event_def)
  then have "delete_events_by_status cutoff event_status_values (no_counts, s) = Some (c, t)"
    using events_of_statuses [of "(no_counts, s)" cutoff event_status_values] assms(1) ct
    by (simp add: events_distinct_def)
  moreover have "playback_batches t = playback_batches s" using ct by (auto simp: Let_def)
  ultimately have "delete_expired_playback_evidence cutoff s = Some (purge_batches (old_batch cutoff t) (c, t))"
    using batches_without_events [of t cutoff c] assms(2)
    by (simp add: delete_expired_playback_evidence_def no_counts_def)
  then show ?thesis using ct by blast
qed

subsection \<open>Anonymisation of the released rows\<close>

lemma released_frame [simp]:
  "released who cutoff pk (s\<lparr>drivers := ds\<rparr>) = released who cutoff pk s"
  "released who cutoff pk (s\<lparr>vehicles := vs\<rparr>) = released who cutoff pk s"
  by (simp_all add: released_def latest_unassignment_def assignments_of_def)

definition anonymized_driver :: "time \<Rightarrow> driver \<Rightarrow> driver" where
  "anonymized_driver now d = d\<lparr>dr_name := ''Anonymized driver'', dr_anonymized_at := Some now\<rparr>"

definition driver_due :: "time \<Rightarrow> db \<Rightarrow> driver \<Rightarrow> bool" where
  "driver_due cutoff s d = (released da_driver cutoff (dr_id d) s \<and> dr_anonymized_at d = None)"

definition vehicle_due :: "time \<Rightarrow> db \<Rightarrow> vehicle \<Rightarrow> bool" where
  "vehicle_due cutoff s v = (released da_vehicle cutoff (ve_id v) s \<and> ve_anonymized_at v = None)"

lemma drivers_run:
  assumes "distinct pks" and "\<forall>pk\<in>set pks. \<exists>d. lookup_by dr_id pk (drivers s) = Some d \<and> driver_due cutoff s d"
  shows "\<exists>rows. anonymize_each (\<lambda>n. anonymize_driver (clk n) cutoff) pks n s = (Inr (n + length pks), s\<lparr>drivers := rows\<rparr>)
     \<and> map dr_id rows = map dr_id (drivers s)
     \<and> (\<forall>i. i \<notin> set pks \<longrightarrow> lookup_by dr_id i rows = lookup_by dr_id i (drivers s))
     \<and> (\<forall>i\<in>set pks. \<exists>k. lookup_by dr_id i rows = map_option (anonymized_driver (clk k)) (lookup_by dr_id i (drivers s)))"
  using assms
proof (induction pks arbitrary: n s)
  case Nil
  then show ?case by (intro exI [of _ "drivers s"]) simp
next
  case (Cons pk pks)
  obtain d where d: "lookup_by dr_id pk (drivers s) = Some d" "driver_due cutoff s d" using Cons.prems(2) by auto
  have pk: "dr_id d = pk" using lookup_by_SomeD [OF d(1)] by simp
  let ?rows = "save_by dr_id (anonymized_driver (clk n) d) (drivers s)"
  let ?t = "s\<lparr>drivers := ?rows\<rparr>"
  have one: "anonymize_driver (clk n) cutoff pk s = Inr (True, ?t)"
    using d pk by (simp add: anonymize_driver_def driver_due_def anonymized_driver_def)
  have look: "lookup_by dr_id i ?rows = (if i = pk then Some (anonymized_driver (clk n) d) else lookup_by dr_id i (drivers s))" for i
    using d(1) pk by (simp add: table_simps anonymized_driver_def)
  have "\<exists>d. lookup_by dr_id i (drivers ?t) = Some d \<and> driver_due cutoff ?t d" if "i \<in> set pks" for i
    using Cons.prems that by (auto simp: look driver_due_def)
  then obtain rows where rows: "anonymize_each (\<lambda>n. anonymize_driver (clk n) cutoff) pks (n + 1) ?t =
        (Inr (n + 1 + length pks), ?t\<lparr>drivers := rows\<rparr>)"
      "map dr_id rows = map dr_id ?rows"
      "\<forall>i. i \<notin> set pks \<longrightarrow> lookup_by dr_id i rows = lookup_by dr_id i ?rows"
      "\<forall>i\<in>set pks. \<exists>k. lookup_by dr_id i rows = map_option (anonymized_driver (clk k)) (lookup_by dr_id i ?rows)"
    using Cons.IH [of ?t "n + 1"] Cons.prems(1) by auto
  show ?case
  proof (intro exI [of _ rows] conjI allI ballI impI)
    show "anonymize_each (\<lambda>n. anonymize_driver (clk n) cutoff) (pk # pks) n s =
        (Inr (n + length (pk # pks)), s\<lparr>drivers := rows\<rparr>)"
      using rows(1) by (simp add: one)
    show "map dr_id rows = map dr_id (drivers s)" using rows(2) by (simp add: table_simps)
    show "lookup_by dr_id i rows = lookup_by dr_id i (drivers s)" if "i \<notin> set (pk # pks)" for i
      using rows(3) that by (simp add: look)
    show "\<exists>k. lookup_by dr_id i rows = map_option (anonymized_driver (clk k)) (lookup_by dr_id i (drivers s))"
      if i: "i \<in> set (pk # pks)" for i
    proof (cases "i = pk")
      case True
      then have "lookup_by dr_id i rows = Some (anonymized_driver (clk n) d)"
        using rows(3) Cons.prems(1) by (simp add: look)
      then show ?thesis using d(1) True by auto
    next
      case False
      then show ?thesis using bspec [OF rows(4), of i] i False by (simp add: look)
    qed
  qed
qed

definition anonymized_vehicle :: "string \<Rightarrow> time \<Rightarrow> vehicle \<Rightarrow> vehicle" where
  "anonymized_vehicle token now v = v\<lparr>ve_registration := ''ANON-'' @ int_str (ve_id v) @ ''-'' @ token,
     ve_anonymized_at := Some now\<rparr>"

definition no_registration :: error where
  "no_registration = ServerError ''Could not allocate a unique anonymized registration.''"

lemma registration_taken:
  "(\<exists>r\<in>set rows. ve_registration r = x) = (x \<in> ve_registration ` set rows)"
  by auto

lemma anonymize_vehicle_cases:
  assumes "lookup_by ve_id pk (vehicles s) = Some v" and "vehicle_due cutoff s v"
  shows "anonymize_vehicle tokens now cutoff pk s = Inl no_registration
     \<or> (\<exists>token\<in>set tokens. ve_registration (anonymized_vehicle token now v) \<notin> ve_registration ` set (vehicles s)
         \<and> anonymize_vehicle tokens now cutoff pk s =
             Inr (True, s\<lparr>vehicles := save_by ve_id (anonymized_vehicle token now v) (vehicles s)\<rparr>))"
proof (induction tokens)
  case Nil
  then show ?case by (simp add: no_registration_def)
next
  case (Cons token tokens)
  let ?reg = "ve_registration (anonymized_vehicle token now v)"
  have pk: "ve_id v = pk" using lookup_by_SomeD [OF assms(1)] by simp
  have st: "anonymize_vehicle (token # tokens) now cutoff pk s =
      (if ?reg \<in> ve_registration ` set (vehicles s) then anonymize_vehicle tokens now cutoff pk s
       else Inr (True, s\<lparr>vehicles := save_by ve_id (anonymized_vehicle token now v) (vehicles s)\<rparr>))"
    using assms pk by (simp add: vehicle_due_def anonymized_vehicle_def Let_def registration_taken)
  show ?case unfolding st using Cons by auto
qed

lemma distinct_registration_save:
  assumes d: "distinct (map ve_registration rows)" "distinct (map ve_id rows)"
    and v: "ve_registration v \<notin> ve_registration ` set rows"
  shows "distinct (map ve_registration (save_by ve_id v rows))"
  using d v
proof (induction rows)
  case (Cons r rows)
  show ?case
  proof (cases "ve_id r = ve_id v")
    case True
    then have "save_by ve_id v rows = rows" using Cons.prems(2) by (intro save_by_fresh) auto
    then show ?thesis using Cons.prems True by (simp add: table_simps)
  next
    case False
    have "ve_registration r \<notin> ve_registration ` set (save_by ve_id v rows)"
      using Cons.prems by (auto dest!: save_by_mem)
    then show ?thesis using Cons False by (simp add: table_simps)
  qed
qed simp

definition registrations_ok :: "vehicle list \<Rightarrow> bool" where
  "registrations_ok rows = (distinct (map ve_id rows) \<and> distinct (map ve_registration rows))"

lemma vehicles_run:
  assumes "distinct pks" and "\<forall>pk\<in>set pks. \<exists>v. lookup_by ve_id pk (vehicles s) = Some v \<and> vehicle_due cutoff s v"
    and "registrations_ok (vehicles s)"
  shows "\<exists>r rows. anonymize_each (\<lambda>n pk. anonymize_vehicle (tokens pk) (clk n) cutoff pk) pks n s = (r, s\<lparr>vehicles := rows\<rparr>)
     \<and> registrations_ok rows \<and> map ve_id rows = map ve_id (vehicles s)
     \<and> (\<forall>i. i \<notin> set pks \<longrightarrow> lookup_by ve_id i rows = lookup_by ve_id i (vehicles s))
     \<and> (r = Inl no_registration \<or> r = Inr (n + length pks) \<and> (\<forall>i\<in>set pks. \<exists>k. \<exists>token\<in>set (tokens i).
          lookup_by ve_id i rows = map_option (anonymized_vehicle token (clk k)) (lookup_by ve_id i (vehicles s))))"
  using assms
proof (induction pks arbitrary: n s)
  case Nil
  then show ?case by (intro exI [of _ "Inr n"] exI [of _ "vehicles s"]) simp
next
  case (Cons pk pks)
  obtain v where v: "lookup_by ve_id pk (vehicles s) = Some v" "vehicle_due cutoff s v" using Cons.prems(2) by auto
  have pk: "ve_id v = pk" using lookup_by_SomeD [OF v(1)] by simp
  consider (fail) "anonymize_vehicle (tokens pk) (clk n) cutoff pk s = Inl no_registration"
    | (ok) token where "token \<in> set (tokens pk)"
        "ve_registration (anonymized_vehicle token (clk n) v) \<notin> ve_registration ` set (vehicles s)"
        "anonymize_vehicle (tokens pk) (clk n) cutoff pk s =
           Inr (True, s\<lparr>vehicles := save_by ve_id (anonymized_vehicle token (clk n) v) (vehicles s)\<rparr>)"
    using anonymize_vehicle_cases [OF v] by blast
  then show ?case
  proof cases
    case fail
    then show ?thesis using Cons.prems(3)
      by (intro exI [of _ "Inl no_registration"] exI [of _ "vehicles s"]) simp
  next
    case ok
    let ?w = "anonymized_vehicle token (clk n) v"
    let ?rows = "save_by ve_id ?w (vehicles s)"
    let ?t = "s\<lparr>vehicles := ?rows\<rparr>"
    have w: "ve_id ?w = pk" by (simp add: anonymized_vehicle_def pk)
    have look: "lookup_by ve_id i ?rows = (if i = pk then Some ?w else lookup_by ve_id i (vehicles s))" for i
      using v(1) w by (simp add: table_simps)
    have regs: "registrations_ok (vehicles ?t)"
      using Cons.prems(3) ok(2) by (simp add: registrations_ok_def table_simps distinct_registration_save)
    have due: "\<forall>i\<in>set pks. \<exists>v. lookup_by ve_id i (vehicles ?t) = Some v \<and> vehicle_due cutoff ?t v"
      using Cons.prems(1,2) by (auto simp: look vehicle_due_def)
    have "distinct pks" using Cons.prems(1) by simp
    from Cons.IH [OF this due regs, of "n + 1"] obtain r rows where
      run: "anonymize_each (\<lambda>n pk. anonymize_vehicle (tokens pk) (clk n) cutoff pk) pks (n + 1) ?t = (r, ?t\<lparr>vehicles := rows\<rparr>)"
      and rows: "registrations_ok rows" "map ve_id rows = map ve_id ?rows"
        "\<forall>i. i \<notin> set pks \<longrightarrow> lookup_by ve_id i rows = lookup_by ve_id i ?rows"
      and r: "r = Inl no_registration \<or> r = Inr (n + 1 + length pks) \<and> (\<forall>i\<in>set pks. \<exists>k. \<exists>token\<in>set (tokens i).
          lookup_by ve_id i rows = map_option (anonymized_vehicle token (clk k)) (lookup_by ve_id i ?rows))"
      by auto
    have whole: "anonymize_each (\<lambda>n pk. anonymize_vehicle (tokens pk) (clk n) cutoff pk) (pk # pks) n s = (r, s\<lparr>vehicles := rows\<rparr>)"
      using run by (simp add: ok(3))
    show ?thesis
    proof (intro exI [of _ r] exI [of _ rows] conjI)
      show "\<forall>i. i \<notin> set (pk # pks) \<longrightarrow> lookup_by ve_id i rows = lookup_by ve_id i (vehicles s)"
        using rows(3) by (simp add: look)
      show "map ve_id rows = map ve_id (vehicles s)" using rows(2) by (simp add: table_simps)
      show "r = Inl no_registration \<or> r = Inr (n + length (pk # pks)) \<and> (\<forall>i\<in>set (pk # pks). \<exists>k. \<exists>token\<in>set (tokens i).
          lookup_by ve_id i rows = map_option (anonymized_vehicle token (clk k)) (lookup_by ve_id i (vehicles s)))"
        using r
      proof (elim disjE conjE)
        assume ri: "r = Inr (n + 1 + length pks)" and all: "\<forall>i\<in>set pks. \<exists>k. \<exists>token\<in>set (tokens i).
          lookup_by ve_id i rows = map_option (anonymized_vehicle token (clk k)) (lookup_by ve_id i ?rows)"
        have "\<exists>k. \<exists>token\<in>set (tokens i).
          lookup_by ve_id i rows = map_option (anonymized_vehicle token (clk k)) (lookup_by ve_id i (vehicles s))"
          if i: "i \<in> set (pk # pks)" for i
        proof (cases "i = pk")
          case True
          have "lookup_by ve_id i rows = Some ?w" using rows(3) Cons.prems(1) True by (simp add: look)
          then show ?thesis using ok(1) v(1) True by auto
        next
          case False
          then show ?thesis using bspec [OF all, of i] i False by (simp add: look)
        qed
        then show ?thesis using ri by simp
      qed simp
    qed (rule whole rows)+
  qed
qed

subsection \<open>The deletions of a run\<close>

lemma operational_deletion:
  "\<exists>counts. delete_operational_records cutoff location_cutoff s = Some (counts,
     s\<lparr>heartbeats := delete_where (\<lambda>h. hb_recorded_at h < cutoff) (heartbeats s),
       location_points := delete_where (\<lambda>p. lp_recorded_at p < location_cutoff) (location_points s),
       operational_events := delete_where (\<lambda>e. oe_recorded_at e < cutoff) (operational_events s)\<rparr>)"
  by (simp add: delete_operational_records_def and_count_def purged_in_batches)

lemma alert_audit_deletion:
  "\<exists>counts. delete_alerts_and_audits cutoff s = Some (counts,
     s\<lparr>alerts := delete_where (\<lambda>a. al_created_at a < cutoff) (alerts s),
       audits := delete_where (\<lambda>a. au_occurred_at a < cutoff) (audits s)\<rparr>)"
  by (simp add: delete_alerts_and_audits_def and_count_def purged_in_batches)

definition stale_credential :: "time \<Rightarrow> device_credential \<Rightarrow> bool" where
  "stale_credential before c = optional_before before (cr_revoked_at c)"

definition dead_token :: "time \<Rightarrow> time \<Rightarrow> db \<Rightarrow> access_token \<Rightarrow> bool" where
  "dead_token now stale s t = (tk_expires_at t < now
     \<or> (\<exists>c\<in>set (credentials s). stale_credential stale c \<and> cr_id c = tk_credential t))"

definition dead_challenge :: "time \<Rightarrow> db \<Rightarrow> enrollment_challenge \<Rightarrow> bool" where
  "dead_challenge stale s h = (ch_expires_at h < stale
     \<or> (\<exists>c\<in>set (enrollment_codes s). ec_expires_at c < stale \<and> ec_id c = ch_enrollment h))"

lemma auth_deletion:
  fixes st now
  defines "stale \<equiv> now - days (st_auth_artifact_retention_days st)"
  shows "\<exists>counts. delete_expired_auth_artifacts st sessions now s = Some (counts,
     s\<lparr>access_tokens := delete_where (dead_token now stale s) (access_tokens s),
       credentials := delete_where (stale_credential stale) (credentials s),
       challenges := delete_where (dead_challenge stale s) (challenges s),
       enrollment_codes := delete_where (\<lambda>c. ec_expires_at c < stale) (enrollment_codes s),
       login_throttles := delete_where (\<lambda>t. lt_updated_at t < stale) (login_throttles s),
       api_throttles := delete_where (\<lambda>t. at_updated_at t < stale) (api_throttles s)\<rparr>)"
  by (simp add: delete_expired_auth_artifacts_def and_count_def purged_in_batches stale_def [symmetric]
      delete_where_twice belongs_def dead_token_def [abs_def] dead_challenge_def [abs_def]
      stale_credential_def [abs_def] Let_def del: days_def)

definition expired_batch :: "time \<Rightarrow> db \<Rightarrow> playback_batch_row \<Rightarrow> bool" where
  "expired_batch cutoff s b = (pb_loop_started_at b < cutoff
     \<and> \<not> (\<exists>e\<in>set (playback_events s). \<not> expired_event cutoff e \<and> pe_batch e = pb_id b))"

definition expired_correction :: "time \<Rightarrow> db \<Rightarrow> playback_correction \<Rightarrow> bool" where
  "expired_correction cutoff s x = (\<exists>e\<in>set (playback_events s). expired_event cutoff e \<and> pe_id e = pc_event x)"

lemma evidence_deletion:
  assumes "evidence_ok s"
  shows "\<exists>c. delete_expired_playback_evidence cutoff s = Some (c,
     s\<lparr>corrections := delete_where (expired_correction cutoff s) (corrections s),
       playback_events := delete_where (expired_event cutoff) (playback_events s),
       playback_batches := delete_where (expired_batch cutoff s) (playback_batches s)\<rparr>)"
proof -
  have "distinct (map pe_id (playback_events s))" "distinct (map pb_id (playback_batches s))"
    using assms by (simp_all add: evidence_ok_def)
  from playback_evidence_deletion [OF this, of cutoff] obtain c t where
    ct: "purge_events (expired_event cutoff) (no_counts, s) = (c, t)"
    and run: "delete_expired_playback_evidence cutoff s = Some (purge_batches (old_batch cutoff t) (c, t))"
    by blast
  have orphan: "belongs pc_event pe_id (expired_event cutoff) (playback_events s) = expired_correction cutoff s"
    by (simp add: belongs_def expired_correction_def fun_eq_iff)
  have t: "t = s\<lparr>corrections := delete_where (expired_correction cutoff s) (corrections s),
      playback_events := delete_where (expired_event cutoff) (playback_events s)\<rparr>"
    using ct by (auto simp: Let_def orphan)
  have "old_batch cutoff t = expired_batch cutoff s"
    by (auto simp: t old_batch_def expired_batch_def fun_eq_iff)
  then show ?thesis using run by (simp add: t)
qed

text \<open>The database after all deletions of a run, as one filter per table.\<close>

definition without_expired :: "settings \<Rightarrow> time \<Rightarrow> time \<Rightarrow> time \<Rightarrow> db \<Rightarrow> db" where
  "without_expired st cutoff location_cutoff now s =
     (let stale = now - days (st_auth_artifact_retention_days st) in
      s\<lparr>corrections := delete_where (expired_correction cutoff s) (corrections s),
        playback_events := delete_where (expired_event cutoff) (playback_events s),
        playback_batches := delete_where (expired_batch cutoff s) (playback_batches s),
        heartbeats := delete_where (\<lambda>h. hb_recorded_at h < cutoff) (heartbeats s),
        location_points := delete_where (\<lambda>p. lp_recorded_at p < location_cutoff) (location_points s),
        operational_events := delete_where (\<lambda>e. oe_recorded_at e < cutoff) (operational_events s),
        alerts := delete_where (\<lambda>a. al_created_at a < cutoff) (alerts s),
        audits := delete_where (\<lambda>a. au_occurred_at a < cutoff) (audits s),
        access_tokens := delete_where (dead_token now stale s) (access_tokens s),
        credentials := delete_where (stale_credential stale) (credentials s),
        challenges := delete_where (dead_challenge stale s) (challenges s),
        enrollment_codes := delete_where (\<lambda>c. ec_expires_at c < stale) (enrollment_codes s),
        login_throttles := delete_where (\<lambda>t. lt_updated_at t < stale) (login_throttles s),
        api_throttles := delete_where (\<lambda>t. at_updated_at t < stale) (api_throttles s)\<rparr>)"

lemma delete_expired_eq:
  assumes ok: "evidence_ok s"
  shows "\<exists>counts. delete_expired st sessions cutoff location_cutoff now s =
     Some (counts, without_expired st cutoff location_cutoff now s)"
proof -
  obtain c s1 where s1: "delete_expired_playback_evidence cutoff s = Some (c, s1)"
    "s1 = s\<lparr>corrections := delete_where (expired_correction cutoff s) (corrections s),
       playback_events := delete_where (expired_event cutoff) (playback_events s),
       playback_batches := delete_where (expired_batch cutoff s) (playback_batches s)\<rparr>"
    using evidence_deletion [OF ok] by blast
  obtain n2 s2 where s2: "delete_operational_records cutoff location_cutoff s1 = Some (n2, s2)"
    "s2 = s1\<lparr>heartbeats := delete_where (\<lambda>h. hb_recorded_at h < cutoff) (heartbeats s1),
       location_points := delete_where (\<lambda>p. lp_recorded_at p < location_cutoff) (location_points s1),
       operational_events := delete_where (\<lambda>e. oe_recorded_at e < cutoff) (operational_events s1)\<rparr>"
    using operational_deletion by blast
  obtain n3 s3 where s3: "delete_alerts_and_audits cutoff s2 = Some (n3, s3)"
    "s3 = s2\<lparr>alerts := delete_where (\<lambda>a. al_created_at a < cutoff) (alerts s2),
       audits := delete_where (\<lambda>a. au_occurred_at a < cutoff) (audits s2)\<rparr>"
    using alert_audit_deletion by blast
  obtain n4 where s4: "delete_expired_auth_artifacts st sessions now s3 = Some (n4, without_expired st cutoff location_cutoff now s)"
    using auth_deletion [of st sessions now s3] unfolding s3(2) s2(2) s1(2) without_expired_def
    by (auto simp: dead_token_def [abs_def] dead_challenge_def [abs_def] Let_def simp del: days_def)
  show ?thesis unfolding delete_expired_def using s1(1) s2(1) s3(1) s4 by simp
qed

lemma evidence_ok_frame [simp]:
  "evidence_ok (s\<lparr>drivers := ds\<rparr>) = evidence_ok s"
  "evidence_ok (s\<lparr>vehicles := vs\<rparr>) = evidence_ok s"
  "evidence_ok (s\<lparr>assignments := as\<rparr>) = evidence_ok s"
  by (simp_all add: evidence_ok_def)

text \<open>The two outcomes of a run.\<close>

definition cleared_sims :: "time \<Rightarrow> device_assignment list \<Rightarrow> device_assignment list" where
  "cleared_sims cutoff rows = update_where (old_sim cutoff) (\<lambda>a. a\<lparr>da_sim_card_number := []\<rparr>) rows"

definition anonymized_rows :: "db \<Rightarrow> driver list \<Rightarrow> vehicle list \<Rightarrow> time \<Rightarrow> bool \<Rightarrow> bool" where
  "anonymized_rows s ds vs cutoff finished =
     (map dr_id ds = map dr_id (drivers s) \<and> map ve_id vs = map ve_id (vehicles s) \<and> registrations_ok vs
      \<and> (\<forall>d\<in>set (drivers s). if driver_due cutoff s d
           then \<exists>now. lookup_by dr_id (dr_id d) ds = Some (anonymized_driver now d)
           else lookup_by dr_id (dr_id d) ds = Some d)
      \<and> (\<forall>v\<in>set (vehicles s). if vehicle_due cutoff s v
           then finished \<longrightarrow> (\<exists>token now. lookup_by ve_id (ve_id v) vs = Some (anonymized_vehicle token now v))
           else lookup_by ve_id (ve_id v) vs = Some v))"

lemma retention_cases:
  fixes clk :: clock
  assumes ok: "evidence_ok s" and ds: "distinct (map dr_id (drivers s))" and vs: "registrations_ok (vehicles s)"
  defines "cutoff \<equiv> clk 0 - days 365"
  obtains (failed) ds vs where "anonymized_rows s ds vs cutoff False"
      "apply_retention st token_hex sessions clk s = Some (Inl no_registration, s\<lparr>drivers := ds, vehicles := vs\<rparr>)"
  | (finished) ds vs k meta where "anonymized_rows s ds vs cutoff True"
      "apply_retention st token_hex sessions clk s = Some (Inr (),
         audit (clk (k + 1)) None ''retention.apply'' ''retention_window'' (date_iso cutoff) meta
           (without_expired st cutoff (clk 1 - days 30) (clk k)
             (s\<lparr>drivers := ds, vehicles := vs, assignments := cleared_sims cutoff (assignments s)\<rparr>)))"
proof -
  let ?dp = "driver_candidates cutoff s"
  have dvs: "distinct (map ve_id (vehicles s))" using vs by (simp add: registrations_ok_def)
  have dp: "i \<in> set ?dp \<longleftrightarrow> (\<exists>d\<in>set (drivers s). driver_due cutoff s d \<and> dr_id d = i)" for i
    by (auto simp: driver_candidates_def driver_due_def)
  have "distinct ?dp" unfolding driver_candidates_def by (rule distinct_map_filter [OF ds])
  moreover have "\<forall>pk\<in>set ?dp. \<exists>d. lookup_by dr_id pk (drivers s) = Some d \<and> driver_due cutoff s d"
    using lookup_by_distinct [OF ds] by (force simp: dp)
  ultimately obtain drs where
    drun: "anonymize_drivers (\<lambda>n. clk (2 + n)) cutoff s = (Inr (length ?dp), s\<lparr>drivers := drs\<rparr>)"
    and dkeys: "map dr_id drs = map dr_id (drivers s)"
    and dsame: "\<forall>i. i \<notin> set ?dp \<longrightarrow> lookup_by dr_id i drs = lookup_by dr_id i (drivers s)"
    and dnew: "\<forall>i\<in>set ?dp. \<exists>k. lookup_by dr_id i drs = map_option (anonymized_driver (clk (2 + k))) (lookup_by dr_id i (drivers s))"
    using drivers_run [of ?dp s cutoff "\<lambda>n. clk (2 + n)" 0] unfolding anonymize_drivers_def by auto
  let ?s1 = "s\<lparr>drivers := drs\<rparr>" and ?vclk = "\<lambda>n. clk (2 + length ?dp + n)"
  let ?vp = "vehicle_candidates cutoff ?s1"
  have vp: "i \<in> set ?vp \<longleftrightarrow> (\<exists>v\<in>set (vehicles s). vehicle_due cutoff s v \<and> ve_id v = i)" for i
    by (auto simp: vehicle_candidates_def vehicle_due_def)
  have "distinct ?vp" unfolding vehicle_candidates_def by (rule distinct_map_filter) (use dvs in simp)
  moreover have "\<forall>pk\<in>set ?vp. \<exists>v. lookup_by ve_id pk (vehicles ?s1) = Some v \<and> vehicle_due cutoff ?s1 v"
    using lookup_by_distinct [OF dvs] by (force simp: vp vehicle_due_def)
  moreover have "registrations_ok (vehicles ?s1)" using vs by simp
  ultimately obtain r ves where
    vrun: "anonymize_vehicles token_hex ?vclk cutoff ?s1 = (r, ?s1\<lparr>vehicles := ves\<rparr>)"
    and vkeys: "registrations_ok ves" "map ve_id ves = map ve_id (vehicles s)"
    and vsame: "\<forall>i. i \<notin> set ?vp \<longrightarrow> lookup_by ve_id i ves = lookup_by ve_id i (vehicles s)"
    and vr: "r = Inl no_registration \<or> r = Inr (length ?vp) \<and> (\<forall>i\<in>set ?vp. \<exists>k. \<exists>token\<in>set (map (token_hex i) [0..<10]).
          lookup_by ve_id i ves = map_option (anonymized_vehicle token (?vclk k)) (lookup_by ve_id i (vehicles s)))"
    using vehicles_run [of ?vp ?s1 cutoff "\<lambda>i. map (token_hex i) [0..<10]" ?vclk 0] unfolding anonymize_vehicles_def by auto
  have dlook: "if driver_due cutoff s d then \<exists>now. lookup_by dr_id (dr_id d) drs = Some (anonymized_driver now d)
      else lookup_by dr_id (dr_id d) drs = Some d" if d: "d \<in> set (drivers s)" for d
  proof (cases "driver_due cutoff s d")
    case True
    then have "dr_id d \<in> set ?dp" using dp d by blast
    then obtain k where "lookup_by dr_id (dr_id d) drs = Some (anonymized_driver (clk (2 + k)) d)"
      using dnew lookup_by_distinct [OF ds d] by auto
    then show ?thesis using True by auto
  next
    case False
    then have "dr_id d \<notin> set ?dp" using dp distinct_map_unique [OF ds] d by blast
    then show ?thesis using False dsame lookup_by_distinct [OF ds d] by simp
  qed
  have vlook: "if vehicle_due cutoff s v
      then r \<noteq> Inl no_registration \<longrightarrow> (\<exists>token now. lookup_by ve_id (ve_id v) ves = Some (anonymized_vehicle token now v))
      else lookup_by ve_id (ve_id v) ves = Some v" if v: "v \<in> set (vehicles s)" for v
  proof (cases "vehicle_due cutoff s v")
    case True
    then have "ve_id v \<in> set ?vp" using vp v by blast
    then have "r \<noteq> Inl no_registration \<Longrightarrow> \<exists>token now. lookup_by ve_id (ve_id v) ves = Some (anonymized_vehicle token now v)"
      using vr lookup_by_distinct [OF dvs v] by fastforce
    then show ?thesis using True by auto
  next
    case False
    then have "ve_id v \<notin> set ?vp" using vp distinct_map_unique [OF dvs] v by blast
    then show ?thesis using False vsame lookup_by_distinct [OF dvs v] by simp
  qed
  have rows: "anonymized_rows s drs ves cutoff (r \<noteq> Inl no_registration)"
    unfolding anonymized_rows_def using dkeys vkeys dlook vlook by simp
  show thesis
  proof (cases "r = Inl no_registration")
    case True
    then have "apply_retention st token_hex sessions clk s = Some (Inl no_registration, s\<lparr>drivers := drs, vehicles := ves\<rparr>)"
      using drun vrun by (simp add: apply_retention_def cutoff_def Let_def)
    then show thesis using failed rows True by simp
  next
    case False
    then have r: "r = Inr (length ?vp)" using vr by blast
    let ?s3 = "s\<lparr>drivers := drs, vehicles := ves, assignments := cleared_sims cutoff (assignments s)\<rparr>"
    let ?k = "2 + length ?dp + length ?vp"
    have "evidence_ok ?s3" using ok by simp
    then obtain counts where "delete_expired st sessions cutoff (clk 1 - days 30) (clk ?k) ?s3 =
        Some (counts, without_expired st cutoff (clk 1 - days 30) (clk ?k) ?s3)"
      using delete_expired_eq by blast
    then have "apply_retention st token_hex sessions clk s = Some (Inr (),
         audit (clk (?k + 1)) None ''retention.apply'' ''retention_window'' (date_iso cutoff)
           ([(''drivers_anonymized'', JInt (int (length ?dp))), (''vehicles_anonymized'', JInt (int (length ?vp))),
             (''sim_card_numbers_anonymized'', JInt (int (count_where (old_sim cutoff) (assignments s))))] @ counts)
           (without_expired st cutoff (clk 1 - days 30) (clk ?k) ?s3))"
      using drun vrun r unfolding apply_retention_def cutoff_def [symmetric] Let_def
      by (simp add: anonymize_sim_card_numbers_def cleared_sims_def)
    then show thesis using finished rows False by simp
  qed
qed

subsection \<open>Properties\<close>

text \<open>C36: Deleting in batches of 5000 rows always returns, and returns what one deletion of all old
  rows gives: the old heartbeats are gone, the others are as they were and in their order, and the
  count is their number; a batched deletion of credentials takes the access tokens of all of them
  along, counts these too, and changes nothing else.\<close>

theorem batched_deletion_returns:
  "delete_in_batches hb_id old heartbeats delete_heartbeats s =
     Some (count_where old (heartbeats s), s\<lparr>heartbeats := delete_where old (heartbeats s)\<rparr>)
   \<and> delete_in_batches cr_id stale credentials delete_credentials s =
     (let gone = (\<lambda>t. \<exists>c\<in>set (credentials s). stale c \<and> cr_id c = tk_credential t) in
      Some (count_where gone (access_tokens s) + count_where stale (credentials s),
        s\<lparr>access_tokens := delete_where gone (access_tokens s), credentials := delete_where stale (credentials s)\<rparr>))"
  by (simp add: purged_in_batches belongs_def [abs_def] Let_def)

lemma retained_credential:
  "(\<not> stale_credential stale c) = (\<forall>at. cr_revoked_at c = Some at \<longrightarrow> stale \<le> at)"
  by (auto simp: stale_credential_def optional_before_def split: option.splits)

lemma retained_token:
  "(\<not> dead_token now stale s x) = (now \<le> tk_expires_at x \<and>
     (\<forall>c\<in>set (credentials s). cr_id c = tk_credential x \<longrightarrow> (\<forall>at. cr_revoked_at c = Some at \<longrightarrow> stale \<le> at)))"
  by (auto simp: dead_token_def retained_credential [symmetric])

lemma retained_challenge:
  "(\<not> dead_challenge stale s x) = (stale \<le> ch_expires_at x \<and>
     (\<forall>c\<in>set (enrollment_codes s). ec_id c = ch_enrollment x \<longrightarrow> stale \<le> ec_expires_at c))"
  by (auto simp: dead_challenge_def)

lemma retained_correction:
  "(\<not> expired_correction cutoff s x) =
     (\<forall>e\<in>set (playback_events s). pe_id e = pc_event x \<longrightarrow> cutoff \<le> pe_started_at e)"
  by (auto simp: expired_correction_def expired_event_def)

text \<open>C13: A run of the retention command always returns. Either no free registration was found for a
  vehicle, and then nothing but drivers and vehicles has changed; or every table is left with exactly
  the rows its period keeps (30 days for locations, a year for other evidence, alerts and audit
  events, the configured days for credentials, challenges, codes and throttles, none for expired
  tokens), less the rows that go with their parent: a correction with its event, a token with its
  credential, a challenge with its code. A batch goes only when no event in it is kept, the run is
  recorded in the audit log after the old audit events are gone, and nothing else changes but
  drivers, vehicles and assignments.\<close>

theorem retention_deletes_expired:
  fixes clk :: clock
  assumes "evidence_ok s" and "distinct (map dr_id (drivers s))" and "registrations_ok (vehicles s)"
  defines "cutoff \<equiv> clk 0 - days 365"
  shows "\<exists>r t. apply_retention st token_hex sessions clk s = Some (r, t) \<and>
    (r = Inl no_registration \<and> t = s\<lparr>drivers := drivers t, vehicles := vehicles t\<rparr> \<or>
     r = Inr () \<and>
     playback_events t = filter (\<lambda>e. cutoff \<le> pe_started_at e) (playback_events s) \<and>
     corrections t = filter (\<lambda>x. \<forall>e\<in>set (playback_events s). pe_id e = pc_event x \<longrightarrow> cutoff \<le> pe_started_at e)
       (corrections s) \<and>
     playback_batches t = filter (\<lambda>b. cutoff \<le> pb_loop_started_at b
        \<or> (\<exists>e\<in>set (playback_events t). pe_batch e = pb_id b)) (playback_batches s) \<and>
     heartbeats t = filter (\<lambda>h. cutoff \<le> hb_recorded_at h) (heartbeats s) \<and>
     location_points t = filter (\<lambda>p. clk 1 - days 30 \<le> lp_recorded_at p) (location_points s) \<and>
     operational_events t = filter (\<lambda>e. cutoff \<le> oe_recorded_at e) (operational_events s) \<and>
     alerts t = filter (\<lambda>a. cutoff \<le> al_created_at a) (alerts s) \<and>
     (\<exists>k. let stale = clk k - days (st_auth_artifact_retention_days st) in
        access_tokens t = filter (\<lambda>x. clk k \<le> tk_expires_at x \<and>
           (\<forall>c\<in>set (credentials s). cr_id c = tk_credential x \<longrightarrow> (\<forall>at. cr_revoked_at c = Some at \<longrightarrow> stale \<le> at)))
           (access_tokens s) \<and>
        credentials t = filter (\<lambda>c. \<forall>at. cr_revoked_at c = Some at \<longrightarrow> stale \<le> at) (credentials s) \<and>
        challenges t = filter (\<lambda>x. stale \<le> ch_expires_at x \<and>
           (\<forall>c\<in>set (enrollment_codes s). ec_id c = ch_enrollment x \<longrightarrow> stale \<le> ec_expires_at c)) (challenges s) \<and>
        enrollment_codes t = filter (\<lambda>c. stale \<le> ec_expires_at c) (enrollment_codes s) \<and>
        login_throttles t = filter (\<lambda>x. stale \<le> lt_updated_at x) (login_throttles s) \<and>
        api_throttles t = filter (\<lambda>x. stale \<le> at_updated_at x) (api_throttles s)) \<and>
     (\<exists>e. audits t = filter (\<lambda>a. cutoff \<le> au_occurred_at a) (audits s) @ [e]
        \<and> au_action e = ''retention.apply'' \<and> au_target_id e = date_iso cutoff) \<and>
     t = s\<lparr>drivers := drivers t, vehicles := vehicles t, assignments := assignments t,
        playback_events := playback_events t, corrections := corrections t, playback_batches := playback_batches t,
        heartbeats := heartbeats t, location_points := location_points t, operational_events := operational_events t,
        alerts := alerts t, access_tokens := access_tokens t, credentials := credentials t, challenges := challenges t,
        enrollment_codes := enrollment_codes t, login_throttles := login_throttles t, api_throttles := api_throttles t,
        audits := audits t, next_pk := next_pk t\<rparr>)"
  using assms(1-3)
proof (rule retention_cases [where clk = clk and token_hex = token_hex and st = st and sessions = sessions])
  fix ds vs
  assume "apply_retention st token_hex sessions clk s = Some (Inl no_registration, s\<lparr>drivers := ds, vehicles := vs\<rparr>)"
  then show ?thesis by auto
next
  fix ds vs k meta
  let ?s = "s\<lparr>drivers := ds, vehicles := vs, assignments := cleared_sims (clk 0 - days 365) (assignments s)\<rparr>"
  let ?t = "audit (clk (k + 1)) None ''retention.apply'' ''retention_window'' (date_iso (clk 0 - days 365)) meta
     (without_expired st (clk 0 - days 365) (clk 1 - days 30) (clk k) ?s)"
  assume run: "apply_retention st token_hex sessions clk s = Some (Inr (), ?t)"
  note facts = without_expired_def audit_def Let_def delete_where_def not_less cutoff_def
  show ?thesis
  proof (intro exI [of _ "Inr ()"] exI [of _ ?t] conjI disjI2)
    show "apply_retention st token_hex sessions clk s = Some (Inr (), ?t)" by (rule run)
    show "playback_events ?t = filter (\<lambda>e. cutoff \<le> pe_started_at e) (playback_events s)"
      by (simp add: facts expired_event_def)
    show "corrections ?t = filter (\<lambda>x. \<forall>e\<in>set (playback_events s). pe_id e = pc_event x \<longrightarrow> cutoff \<le> pe_started_at e)
        (corrections s)"
      by (simp add: facts retained_correction)
    show "playback_batches ?t = filter (\<lambda>b. cutoff \<le> pb_loop_started_at b
        \<or> (\<exists>e\<in>set (playback_events ?t). pe_batch e = pb_id b)) (playback_batches s)"
      by (auto simp: facts expired_batch_def expired_event_def intro!: filter_cong)
    show "\<exists>k'. let stale = clk k' - days (st_auth_artifact_retention_days st) in
        access_tokens ?t = filter (\<lambda>x. clk k' \<le> tk_expires_at x \<and>
           (\<forall>c\<in>set (credentials s). cr_id c = tk_credential x \<longrightarrow> (\<forall>at. cr_revoked_at c = Some at \<longrightarrow> stale \<le> at)))
           (access_tokens s) \<and>
        credentials ?t = filter (\<lambda>c. \<forall>at. cr_revoked_at c = Some at \<longrightarrow> stale \<le> at) (credentials s) \<and>
        challenges ?t = filter (\<lambda>x. stale \<le> ch_expires_at x \<and>
           (\<forall>c\<in>set (enrollment_codes s). ec_id c = ch_enrollment x \<longrightarrow> stale \<le> ec_expires_at c)) (challenges s) \<and>
        enrollment_codes ?t = filter (\<lambda>c. stale \<le> ec_expires_at c) (enrollment_codes s) \<and>
        login_throttles ?t = filter (\<lambda>x. stale \<le> lt_updated_at x) (login_throttles s) \<and>
        api_throttles ?t = filter (\<lambda>x. stale \<le> at_updated_at x) (api_throttles s)"
      unfolding Let_def
    proof (intro exI [of _ k] conjI)
      show "access_tokens ?t = filter (\<lambda>x. clk k \<le> tk_expires_at x \<and>
           (\<forall>c\<in>set (credentials s). cr_id c = tk_credential x \<longrightarrow>
              (\<forall>at. cr_revoked_at c = Some at \<longrightarrow> clk k - days (st_auth_artifact_retention_days st) \<le> at)))
           (access_tokens s)"
        by (simp add: facts retained_token del: days_def)
      show "challenges ?t = filter (\<lambda>x. clk k - days (st_auth_artifact_retention_days st) \<le> ch_expires_at x \<and>
           (\<forall>c\<in>set (enrollment_codes s). ec_id c = ch_enrollment x \<longrightarrow>
              clk k - days (st_auth_artifact_retention_days st) \<le> ec_expires_at c)) (challenges s)"
        by (simp add: facts retained_challenge del: days_def)
    qed (simp_all add: facts retained_credential del: days_def)
    show "\<exists>e. audits ?t = filter (\<lambda>a. cutoff \<le> au_occurred_at a) (audits s) @ [e]
        \<and> au_action e = ''retention.apply'' \<and> au_target_id e = date_iso cutoff"
      by (simp add: facts)
    show "?t = s\<lparr>drivers := drivers ?t, vehicles := vehicles ?t, assignments := assignments ?t,
        playback_events := playback_events ?t, corrections := corrections ?t, playback_batches := playback_batches ?t,
        heartbeats := heartbeats ?t, location_points := location_points ?t, operational_events := operational_events ?t,
        alerts := alerts ?t, access_tokens := access_tokens ?t, credentials := credentials ?t, challenges := challenges ?t,
        enrollment_codes := enrollment_codes ?t, login_throttles := login_throttles ?t, api_throttles := api_throttles ?t,
        audits := audits ?t, next_pk := next_pk ?t\<rparr>"
      by (simp add: without_expired_def audit_def Let_def)
  qed (simp_all add: facts)
qed

text \<open>C30: After a run that ends, no personal data is left of drivers and vehicles released for a year:
  the name is gone and the registration replaced, under a registration no other vehicle has, and
  the SIM number of every assignment that ended a year ago is empty. Drivers and vehicles still
  in use or released later keep their rows.\<close>

theorem retention_anonymizes:
  fixes clk :: clock
  assumes "evidence_ok s" and "distinct (map dr_id (drivers s))" and "registrations_ok (vehicles s)"
    and run: "apply_retention st token_hex sessions clk s = Some (Inr (), t)"
  defines "cutoff \<equiv> clk 0 - days 365"
  shows "(\<forall>d\<in>set (drivers s). if released da_driver cutoff (dr_id d) s \<and> dr_anonymized_at d = None
      then \<exists>e. lookup_by dr_id (dr_id d) (drivers t) = Some e \<and> dr_name e = ''Anonymized driver'' \<and> dr_anonymized_at e \<noteq> None
      else lookup_by dr_id (dr_id d) (drivers t) = Some d) \<and>
    (\<forall>v\<in>set (vehicles s). if released da_vehicle cutoff (ve_id v) s \<and> ve_anonymized_at v = None
      then \<exists>w token. lookup_by ve_id (ve_id v) (vehicles t) = Some w \<and> ve_anonymized_at w \<noteq> None
        \<and> ve_registration w = ''ANON-'' @ int_str (ve_id v) @ ''-'' @ token
      else lookup_by ve_id (ve_id v) (vehicles t) = Some v) \<and>
    distinct (map ve_registration (vehicles t)) \<and>
    map da_id (assignments t) = map da_id (assignments s) \<and>
    (\<forall>a\<in>set (assignments t). \<forall>at. da_unassigned_at a = Some at \<and> at < cutoff \<longrightarrow> da_sim_card_number a = []) \<and>
    (\<forall>a\<in>set (assignments s). (\<forall>at. da_unassigned_at a = Some at \<longrightarrow> cutoff \<le> at) \<longrightarrow> a \<in> set (assignments t))"
  using assms(1-3)
proof (rule retention_cases [where clk = clk and token_hex = token_hex and st = st and sessions = sessions])
  fix ds vs
  assume "apply_retention st token_hex sessions clk s = Some (Inl no_registration, s\<lparr>drivers := ds, vehicles := vs\<rparr>)"
  then show ?thesis using run by simp
next
  fix ds vs k meta
  let ?s = "s\<lparr>drivers := ds, vehicles := vs, assignments := cleared_sims (clk 0 - days 365) (assignments s)\<rparr>"
  let ?t = "audit (clk (k + 1)) None ''retention.apply'' ''retention_window'' (date_iso (clk 0 - days 365)) meta
     (without_expired st (clk 0 - days 365) (clk 1 - days 30) (clk k) ?s)"
  assume rows: "anonymized_rows s ds vs (clk 0 - days 365) True"
    and "apply_retention st token_hex sessions clk s = Some (Inr (), ?t)"
  then have t: "t = ?t" using run by simp
  have tables: "drivers t = ds" "vehicles t = vs" "assignments t = cleared_sims cutoff (assignments s)"
    by (simp_all add: t without_expired_def Let_def cutoff_def)
  have drv: "if driver_due cutoff s d
      then \<exists>e. lookup_by dr_id (dr_id d) ds = Some e \<and> dr_name e = ''Anonymized driver'' \<and> dr_anonymized_at e \<noteq> None
      else lookup_by dr_id (dr_id d) ds = Some d" if "d \<in> set (drivers s)" for d
    using rows that by (fastforce simp: anonymized_rows_def cutoff_def anonymized_driver_def)
  have veh: "if vehicle_due cutoff s v
      then \<exists>w token. lookup_by ve_id (ve_id v) vs = Some w \<and> ve_anonymized_at w \<noteq> None
        \<and> ve_registration w = ''ANON-'' @ int_str (ve_id v) @ ''-'' @ token
      else lookup_by ve_id (ve_id v) vs = Some v" if "v \<in> set (vehicles s)" for v
    using rows that by (fastforce simp: anonymized_rows_def cutoff_def anonymized_vehicle_def)
  have "distinct (map ve_registration vs)" using rows by (simp add: anonymized_rows_def registrations_ok_def)
  moreover have "map da_id (cleared_sims cutoff (assignments s)) = map da_id (assignments s)"
    by (simp add: cleared_sims_def table_simps)
  moreover have "\<forall>a\<in>set (cleared_sims cutoff (assignments s)).
      \<forall>at. da_unassigned_at a = Some at \<and> at < cutoff \<longrightarrow> da_sim_card_number a = []"
    by (auto simp: cleared_sims_def set_update_where old_sim_def)
  moreover have "\<forall>a\<in>set (assignments s). (\<forall>at. da_unassigned_at a = Some at \<longrightarrow> cutoff \<le> at)
      \<longrightarrow> a \<in> set (cleared_sims cutoff (assignments s))"
    by (auto simp: cleared_sims_def set_update_where old_sim_def split: option.splits)
  ultimately show ?thesis
    using drv veh unfolding tables driver_due_def vehicle_due_def by blast
qed

definition references_ok :: "db \<Rightarrow> bool" where
  "references_ok s =
     ((\<forall>x\<in>set (corrections s). \<exists>e\<in>set (playback_events s). pe_id e = pc_event x)
      \<and> (\<forall>t\<in>set (access_tokens s). \<exists>c\<in>set (credentials s). cr_id c = tk_credential t)
      \<and> (\<forall>h\<in>set (challenges s). \<exists>c\<in>set (enrollment_codes s). ec_id c = ch_enrollment h))"

lemma without_expired_graph:
  assumes "evidence_ok s" and "references_ok s"
  shows "evidence_ok (without_expired st cutoff location_cutoff now s)"
    and "references_ok (without_expired st cutoff location_cutoff now s)"
proof -
  have "pe_batch e \<in> pb_id ` {b \<in> set (playback_batches s). \<not> expired_batch cutoff s b}"
    if "e \<in> set (playback_events s)" "\<not> expired_event cutoff e" for e
    using assms(1) that by (fastforce simp: evidence_ok_def list_all_iff expired_batch_def)
  then show "evidence_ok (without_expired st cutoff location_cutoff now s)"
    using assms(1)
    by (auto simp: evidence_ok_def without_expired_def Let_def list_all_iff delete_where_def distinct_map_filter)
  have "\<exists>e\<in>set (playback_events s). \<not> expired_event cutoff e \<and> pe_id e = pc_event x"
    if "x \<in> set (corrections s)" "\<not> expired_correction cutoff s x" for x
    using assms(2) that by (fastforce simp: references_ok_def expired_correction_def)
  moreover have "\<exists>c\<in>set (credentials s). \<not> stale_credential stale c \<and> cr_id c = tk_credential t"
    if "t \<in> set (access_tokens s)" "\<not> dead_token now stale s t" for t stale
    using assms(2) that by (fastforce simp: references_ok_def dead_token_def)
  moreover have "\<exists>c\<in>set (enrollment_codes s). \<not> ec_expires_at c < stale \<and> ec_id c = ch_enrollment h"
    if "h \<in> set (challenges s)" "\<not> dead_challenge stale s h" for h stale
    using assms(2) that by (fastforce simp: references_ok_def dead_challenge_def)
  ultimately show "references_ok (without_expired st cutoff location_cutoff now s)"
    unfolding references_ok_def without_expired_def Let_def by (simp del: days_def) blast
qed

text \<open>Retention never tears a graph apart: in either outcome, identifiers of events and batches stay
  unique and every event keeps its batch; and when every correction had its event, every access
  token its credential and every challenge its code, they still do.\<close>

theorem retention_keeps_references:
  assumes "evidence_ok s" and "references_ok s" and "distinct (map dr_id (drivers s))"
    and "registrations_ok (vehicles s)" and run: "apply_retention st token_hex sessions clk s = Some (r, t)"
  shows "evidence_ok t \<and> references_ok t"
  using assms(1,3,4)
proof (rule retention_cases [where clk = clk and token_hex = token_hex and st = st and sessions = sessions])
  fix ds vs
  assume "apply_retention st token_hex sessions clk s = Some (Inl no_registration, s\<lparr>drivers := ds, vehicles := vs\<rparr>)"
  then have "t = s\<lparr>drivers := ds, vehicles := vs\<rparr>" using run by simp
  then show ?thesis using assms(1,2) by (simp add: references_ok_def)
next
  fix ds vs k meta
  let ?s = "s\<lparr>drivers := ds, vehicles := vs, assignments := cleared_sims (clk 0 - days 365) (assignments s)\<rparr>"
  let ?u = "without_expired st (clk 0 - days 365) (clk 1 - days 30) (clk k) ?s"
  assume "apply_retention st token_hex sessions clk s = Some (Inr (),
    audit (clk (k + 1)) None ''retention.apply'' ''retention_window'' (date_iso (clk 0 - days 365)) meta ?u)"
  then have t: "playback_events t = playback_events ?u" "playback_batches t = playback_batches ?u"
    "corrections t = corrections ?u" "access_tokens t = access_tokens ?u" "credentials t = credentials ?u"
    "challenges t = challenges ?u" "enrollment_codes t = enrollment_codes ?u"
    using run by (auto simp: audit_def)
  have "evidence_ok ?s" "references_ok ?s" using assms(1,2) by (simp_all add: references_ok_def)
  then have "evidence_ok ?u" "references_ok ?u" by (rule without_expired_graph)+
  then show ?thesis unfolding evidence_ok_def references_ok_def t by simp
qed

definition old_db :: db where
  "old_db = empty_db\<lparr>next_pk := 10,
     drivers := [\<lparr>dr_id = 1, dr_internal_id = ''d1'', dr_name = ''Ann'', dr_anonymized_at = None\<rparr>],
     vehicles := [\<lparr>ve_id = 2, ve_registration = ''KA 1'', ve_anonymized_at = None\<rparr>],
     assignments := [\<lparr>da_id = 3, da_device = 7, da_driver = 1, da_vehicle = 2, da_sim_card_number = ''89'',
        da_assigned_at = 0, da_unassigned_at = Some 5\<rparr>],
     alerts := [example_alert 4 None ''x'' Warning]\<rparr>"

definition retention_clock :: clock where
  "retention_clock n = days 400 + int n"

definition retention_run :: "(unit result \<times> db) option" where
  "retention_run = apply_retention default_settings (\<lambda>i n. ''0a1b2c'') (\<lambda>t. 0) retention_clock old_db"

lemma retention_run_done: "\<exists>t. retention_run = Some (Inr (), t)"
proof -
  have "(case retention_run of None \<Rightarrow> False | Some (r, t) \<Rightarrow> r = Inr ())"
    by code_simp
  then show ?thesis by (auto split: option.splits)
qed

lemma old_db_ok: "evidence_ok old_db" "distinct (map dr_id (drivers old_db))" "registrations_ok (vehicles old_db)"
  "references_ok old_db"
  by (simp_all add: evidence_ok_def old_db_def empty_db_def registrations_ok_def references_ok_def)

theorem retention_deletes_expired_witness:
  "\<exists>t e. retention_run = Some (Inr (), t) \<and> alerts t = [] \<and> audits t = [e]
     \<and> au_action e = ''retention.apply'' \<and> au_target_id e = ''1970-02-05''"
proof -
  have old: "alerts old_db = [example_alert 4 None ''x'' Warning]" "audits old_db = []"
    "filter (\<lambda>a. retention_clock 0 - days 365 \<le> al_created_at a) [example_alert 4 None ''x'' Warning] = []"
    "date_iso (retention_clock 0 - days 365) = ''1970-02-05''"
    by code_simp+
  obtain t where t: "retention_run = Some (Inr (), t)" using retention_run_done by blast
  have "alerts t = [] \<and> (\<exists>e. audits t = [e] \<and> au_action e = ''retention.apply''
      \<and> au_target_id e = ''1970-02-05'')"
    using retention_deletes_expired [OF old_db_ok(1-3), of default_settings "\<lambda>i n. ''0a1b2c''" "\<lambda>t. 0" retention_clock]
      t [unfolded retention_run_def] old by auto
  then show ?thesis using t by blast
qed

theorem retention_anonymizes_witness:
  "\<exists>t e. retention_run = Some (Inr (), t) \<and> lookup_by dr_id 1 (drivers t) = Some e \<and> dr_name e = ''Anonymized driver''"
proof -
  obtain t where t: "retention_run = Some (Inr (), t)" using retention_run_done by blast
  have due: "hd (drivers old_db) \<in> set (drivers old_db)" "dr_id (hd (drivers old_db)) = 1"
    "dr_anonymized_at (hd (drivers old_db)) = None" "released da_driver (retention_clock 0 - days 365) 1 old_db"
    by code_simp+
  show ?thesis
    using retention_anonymizes [OF old_db_ok(1-3) t [unfolded retention_run_def]] due t by force
qed

theorem retention_keeps_references_witness:
  "\<exists>t. retention_run = Some (Inr (), t) \<and> evidence_ok t \<and> references_ok t"
proof -
  obtain t where t: "retention_run = Some (Inr (), t)" using retention_run_done by blast
  show ?thesis
    using retention_keeps_references [OF old_db_ok(1,4,2,3) t [unfolded retention_run_def]] t by blast
qed

end
