(* ===== verification/Accounts.thy ===== *)
theory Accounts
  imports Throttles Py_Url
begin

section \<open>Accounts and dashboard access\<close>

text \<open>
  Dashboard users: the user model and its manager in \<open>models.py\<close>, the form and views that edit
  users and reset passwords, the permissions of the administration site (\<open>admin.py\<close>), the pilot
  limits, and the middleware that guards sessions and uploads. Django's address syntax and
  normalisation, its password hash and password policy, its reset tokens and its fallback
  permissions are arguments. A validation error carries the first of the messages Django collects.
\<close>

subsection \<open>The user model\<close>

definition is_owner :: "user \<Rightarrow> bool" where
  "is_owner u = (us_role u = Owner)"

definition user_clean :: "(string \<Rightarrow> string) \<Rightarrow> user \<Rightarrow> user result" where
  "user_clean norm_email u =
     (let v = u\<lparr>us_email := norm_email (us_email u)\<rparr> in
      if us_email v \<noteq> [] \<and> \<not> endswith (lower (us_email v)) ''@duducar.co''
      then Inl (ValidationError ''email'' ''Use a @duducar.co email address.'')
      else Inr (v\<lparr>us_is_staff := is_owner v, us_is_superuser := (is_owner v \<and> us_is_superuser v)\<rparr>))"

definition email_taken :: "user \<Rightarrow> db \<Rightarrow> bool" where
  "email_taken u s = exists_row (\<lambda>x. us_email x = us_email u \<and> us_id x \<noteq> us_id u) (users s)"

text \<open>\<open>full_clean\<close>: the fields, the rules of the model, then uniqueness.\<close>

definition user_full_clean ::
  "(string \<Rightarrow> bool) \<Rightarrow> (string \<Rightarrow> string) \<Rightarrow> user \<Rightarrow> db \<Rightarrow> user result" where
  "user_full_clean valid_email norm_email u s =
     bind_result (require (us_email u \<noteq> [] \<and> valid_email (us_email u))
       (ValidationError ''email'' ''Enter a valid email address.'')) (\<lambda>u1.
     bind_result (require (us_password u \<noteq> []) (ValidationError ''password'' ''This field cannot be blank.'')) (\<lambda>u2.
     bind_result (user_clean norm_email u) (\<lambda>v.
     bind_result (require (\<not> email_taken v s)
       (ValidationError ''email'' ''User with this Email already exists.'')) (\<lambda>u3.
     Inr v))))"

definition insert_user :: "user \<Rightarrow> db \<Rightarrow> db" where
  "insert_user u s = s\<lparr>users := users s @ [u], next_pk := next_pk s + 1\<rparr>"

definition save_user :: "user \<Rightarrow> db \<Rightarrow> db" where
  "save_user u s = s\<lparr>users := save_by us_id u (users s)\<rparr>"

subsection \<open>The user manager\<close>

text \<open>The keyword arguments of the manager; a missing one is \<open>None\<close>.\<close>

record user_fields =
  uf_role :: "role option"
  uf_is_staff :: "bool option"
  uf_is_superuser :: "bool option"
  uf_is_active :: "bool option"

definition default_or :: "'a \<Rightarrow> 'a option \<Rightarrow> 'a" where
  "default_or x v = (case v of None \<Rightarrow> x | Some y \<Rightarrow> y)"

definition create_user ::
  "(string \<Rightarrow> bool) \<Rightarrow> (string \<Rightarrow> string) \<Rightarrow> (string option \<Rightarrow> string) \<Rightarrow> string \<Rightarrow> string option \<Rightarrow> user_fields
    \<Rightarrow> db \<Rightarrow> (user \<times> db) result" where
  "create_user valid_email norm_email make_password email password f s =
     (if email = [] then Inl (ServerError ''Email is required.'')
      else bind_result (user_full_clean valid_email norm_email
          \<lparr>us_id = next_pk s, us_email = norm_email email, us_role = default_or Marketing (uf_role f),
           us_is_active = default_or True (uf_is_active f), us_is_staff = default_or False (uf_is_staff f),
           us_is_superuser = default_or False (uf_is_superuser f), us_password = make_password password\<rparr> s)
        (\<lambda>u. Inr (u, insert_user u s)))"

definition create_superuser ::
  "(string \<Rightarrow> bool) \<Rightarrow> (string \<Rightarrow> string) \<Rightarrow> (string option \<Rightarrow> string) \<Rightarrow> string \<Rightarrow> string option \<Rightarrow> user_fields
    \<Rightarrow> db \<Rightarrow> (user \<times> db) result" where
  "create_superuser valid_email norm_email make_password email password f s =
     (let g = f\<lparr>uf_is_staff := Some (default_or True (uf_is_staff f)),
                uf_is_superuser := Some (default_or True (uf_is_superuser f)),
                uf_role := Some (default_or Owner (uf_role f))\<rparr> in
      if uf_is_staff g \<noteq> Some True \<or> uf_is_superuser g \<noteq> Some True
      then Inl (ServerError ''A superuser must have staff and superuser enabled.'')
      else if uf_role g \<noteq> Some Owner then Inl (ServerError ''A superuser must be an account owner.'')
      else create_user valid_email norm_email make_password email password g s)"

text \<open>
  The command \<open>create_initial_owner\<close>: without a password argument it asks twice; the answers are
  \<open>prompts\<close>. The policy is Django's validators.
\<close>

definition create_initial_owner ::
  "(string \<Rightarrow> bool) \<Rightarrow> (string \<Rightarrow> string) \<Rightarrow> (string option \<Rightarrow> string) \<Rightarrow> (string \<Rightarrow> bool) \<Rightarrow> string \<Rightarrow> string
    \<Rightarrow> string \<times> string \<Rightarrow> db \<Rightarrow> (user \<times> db) result" where
  "create_initial_owner valid_email norm_email make_password policy email given prompts s =
     (if users s \<noteq> [] then Inl (CommandError ''Users already exist; create later users through the owner.'')
      else let password = (if given \<noteq> [] then given else fst prompts) in
      if given = [] \<and> fst prompts \<noteq> snd prompts then Inl (CommandError ''Passwords did not match.'')
      else bind_result (require (policy password) (ValidationError ''password'' ''policy'')) (\<lambda>u.
        create_superuser valid_email norm_email make_password (lower (strip email)) (Some password)
          \<lparr>uf_role = Some Owner, uf_is_staff = None, uf_is_superuser = None, uf_is_active = None\<rparr> s))"

subsection \<open>Permissions\<close>

definition has_perm :: "(user \<Rightarrow> string \<Rightarrow> bool) \<Rightarrow> user \<Rightarrow> string \<Rightarrow> bool" where
  "has_perm fallback u perm =
     (if us_is_active u \<and> is_owner u then True
      else if us_is_active u \<and> us_role u = Marketing
      then (let (app_label, dot, codename) = partition_at (CHR ''.'') perm in
            app_label = ''signage'' \<and> \<not> endswith codename ''_user'')
      else fallback u perm)"

definition has_module_perms :: "(user \<Rightarrow> string \<Rightarrow> bool) \<Rightarrow> user \<Rightarrow> string \<Rightarrow> bool" where
  "has_module_perms fallback u app_label =
     (if us_is_active u \<and> us_role u \<in> {Owner, Marketing} then app_label = ''signage''
      else fallback u app_label)"

definition owner_required :: "user \<Rightarrow> unit result" where
  "owner_required u = require (is_owner u) (PermissionDenied [])"

text \<open>
  The administration site. \<open>QualificationAdmin\<close> and \<open>CorrectionAdmin\<close> are the two model pages
  that write; every other page is read-only.
\<close>

datatype admin_page = ReadOnlyAdmin | QualificationAdmin | CorrectionAdmin

datatype admin_action = ViewModule | ViewRow | AddRow | ChangeRow | DeleteRow

definition site_permission :: "user \<Rightarrow> bool" where
  "site_permission u = (us_is_active u \<and> us_is_staff u \<and> is_owner u)"

fun admin_permission :: "admin_page \<Rightarrow> admin_action \<Rightarrow> user \<Rightarrow> bool" where
  "admin_permission p ViewModule u = is_owner u"
| "admin_permission p ViewRow u = is_owner u"
| "admin_permission ReadOnlyAdmin AddRow u = False"
| "admin_permission QualificationAdmin AddRow u = is_owner u"
| "admin_permission CorrectionAdmin AddRow u = is_owner u"
| "admin_permission QualificationAdmin ChangeRow u = is_owner u"
| "admin_permission ReadOnlyAdmin ChangeRow u = False"
| "admin_permission CorrectionAdmin ChangeRow u = False"
| "admin_permission p DeleteRow u = False"

text \<open>\<open>OwnerAdminSite.login\<close>: what a request for the sign-in page gets.\<close>

datatype admin_login_answer = RedirectToIndex | ShowSignIn

definition admin_site_login :: "bool \<Rightarrow> user option \<Rightarrow> admin_login_answer result" where
  "admin_site_login is_get who =
     (let allowed = (case who of None \<Rightarrow> False | Some u \<Rightarrow> site_permission u) in
      if is_get \<and> allowed then Inr RedirectToIndex
      else if who \<noteq> None \<and> \<not> allowed then Inl (PermissionDenied [])
      else Inr ShowSignIn)"

text \<open>\<open>DriverAdmin.change_view\<close>: opening a driver's page is audited.\<close>

definition view_driver :: "time \<Rightarrow> id \<Rightarrow> bool \<Rightarrow> id \<Rightarrow> db \<Rightarrow> db" where
  "view_driver now actor is_get driver_id s =
     (if is_get \<and> lookup_by dr_id driver_id (drivers s) \<noteq> None
      then audit now (Some actor) ''driver.personal_data.view'' ''signage.driver'' (int_str driver_id)
             [(''surface'', JStr ''admin'')] s
      else s)"

subsection \<open>Editing users\<close>

text \<open>The posted fields of \<open>DashboardUserForm\<close>.\<close>

record user_form =
  fo_email :: string
  fo_role :: string
  fo_is_active :: bool
  fo_password :: string

fun role_of :: "string \<Rightarrow> role option" where
  "role_of r = (if r = ''owner'' then Some Owner else if r = ''marketing'' then Some Marketing else None)"

definition role_value :: "role \<Rightarrow> string" where
  "role_value r = (case r of Owner \<Rightarrow> ''owner'' | Marketing \<Rightarrow> ''marketing'')"

text \<open>
  \<open>is_valid\<close>: the fields, the password policy against the row as it was, then the rules of the
  model on the instance with the posted values. \<open>existing\<close> is the stored row.
\<close>

definition clean_password :: "(string \<Rightarrow> user option \<Rightarrow> bool) \<Rightarrow> string \<Rightarrow> user option \<Rightarrow> unit result" where
  "clean_password policy password existing =
     (if password \<noteq> []
      then require (policy password existing \<and> length password \<le> 128) (ValidationError ''password'' ''policy'')
      else require (existing \<noteq> None) (ValidationError ''password'' ''A password is required for new users.''))"

definition form_instance :: "id \<Rightarrow> role \<Rightarrow> user_form \<Rightarrow> user option \<Rightarrow> user" where
  "form_instance i r f existing =
     (case existing of
        None \<Rightarrow> \<lparr>us_id = i, us_email = strip (fo_email f), us_role = r, us_is_active = fo_is_active f,
                  us_is_staff = False, us_is_superuser = False, us_password = fo_password f\<rparr>
      | Some u \<Rightarrow> u\<lparr>us_email := strip (fo_email f), us_role := r, us_is_active := fo_is_active f,
                     us_password := fo_password f\<rparr>)"

definition form_clean ::
  "(string \<Rightarrow> bool) \<Rightarrow> (string \<Rightarrow> string) \<Rightarrow> (string \<Rightarrow> user option \<Rightarrow> bool) \<Rightarrow> user_form \<Rightarrow> user option \<Rightarrow> db \<Rightarrow> user result" where
  "form_clean valid_email norm_email policy f existing s =
     bind_result (require (strip (fo_email f) \<noteq> [] \<and> valid_email (strip (fo_email f)))
       (ValidationError ''email'' ''Enter a valid email address.'')) (\<lambda>u1.
     case role_of (fo_role f) of
       None \<Rightarrow> Inl (ValidationError ''role'' ''Select a valid choice.'')
     | Some r \<Rightarrow>
         bind_result (clean_password policy (fo_password f) existing) (\<lambda>u2.
         bind_result (user_clean norm_email (form_instance (next_pk s) r f existing)) (\<lambda>v.
         bind_result (require (\<not> email_taken v s)
           (ValidationError ''email'' ''User with this Email already exists.'')) (\<lambda>u3.
         Inr v))))"

text \<open>\<open>save\<close>: a blank password keeps the stored hash.\<close>

definition form_save ::
  "(string \<Rightarrow> bool) \<Rightarrow> (string \<Rightarrow> string) \<Rightarrow> (string \<Rightarrow> string) \<Rightarrow> user_form \<Rightarrow> user option \<Rightarrow> user \<Rightarrow> db \<Rightarrow> (user \<times> db) result" where
  "form_save valid_email norm_email make_password f existing v s =
     (let w = v\<lparr>us_password := (if fo_password f \<noteq> [] then make_password (fo_password f)
                 else case existing of None \<Rightarrow> fo_password f | Some u \<Rightarrow> us_password u)\<rparr> in
      bind_result (user_full_clean valid_email norm_email w s) (\<lambda>x.
      Inr (x, if existing = None then insert_user x s else save_user x s)))"

definition active_owner_ids :: "db \<Rightarrow> id list" where
  "active_owner_ids s = map us_id (filter (\<lambda>u. us_role u = Owner \<and> us_is_active u) (users s))"

text \<open>\<open>user_edit\<close> on a POST: \<open>False\<close> when the form is shown again with its errors.\<close>

definition user_edit ::
  "(string \<Rightarrow> bool) \<Rightarrow> (string \<Rightarrow> string) \<Rightarrow> (string \<Rightarrow> user option \<Rightarrow> bool) \<Rightarrow> (string \<Rightarrow> string) \<Rightarrow> time \<Rightarrow> user
    \<Rightarrow> id option \<Rightarrow> user_form \<Rightarrow> db \<Rightarrow> (bool \<times> db) result" where
  "user_edit valid_email norm_email policy make_password now actor user_id f s =
     bind_result (owner_required actor) (\<lambda>u0.
     let owners = active_owner_ids s in
     bind_result (case user_id of None \<Rightarrow> Inr None
        | Some i \<Rightarrow> (case lookup_by us_id i (users s) of None \<Rightarrow> Inl Http404 | Some u \<Rightarrow> Inr (Some u))) (\<lambda>existing.
     let was_active_owner = (case existing of None \<Rightarrow> False | Some u \<Rightarrow> is_owner u \<and> us_is_active u) in
     case form_clean valid_email norm_email policy f existing s of
       Inl e \<Rightarrow> Inr (False, s)
     | Inr v \<Rightarrow>
         if was_active_owner \<and> (us_role v \<noteq> Owner \<or> \<not> us_is_active v) \<and> \<not> list_ex (\<lambda>i. i \<noteq> us_id v) owners
         then Inr (False, s)
         else bind_result (form_save valid_email norm_email make_password f existing v s) (\<lambda>(x, t).
           Inr (True, audit now (Some (us_id actor)) (if user_id = None then ''user.create'' else ''user.update'')
                 ''signage.user'' (int_str (us_id x))
                 [(''role'', JStr (role_value (us_role x))), (''active'', JBool (us_is_active x))] t))))"

subsection \<open>Passwords and sign-out\<close>

definition complete_password_reset ::
  "(user \<Rightarrow> string \<Rightarrow> bool) \<Rightarrow> (string \<Rightarrow> string) \<Rightarrow> time \<Rightarrow> id \<Rightarrow> string \<Rightarrow> string \<Rightarrow> db \<Rightarrow> (user \<times> db) result" where
  "complete_password_reset check_token make_password now user_id token raw s =
     (case lookup_by us_id user_id (users s) of
        None \<Rightarrow> Inl (ServerError ''User matching query does not exist.'')
      | Some u \<Rightarrow>
          if \<not> check_token u token then Inl (ServerError ''InvalidPasswordResetToken'')
          else (let v = u\<lparr>us_password := make_password raw\<rparr> in
                Inr (v, audit now None ''auth.password_reset'' ''signage.user'' (int_str (us_id v)) [] (save_user v s))))"

text \<open>The confirmation page: a token that was used or expired shows the page for an invalid link.\<close>

definition password_reset_confirm ::
  "(user \<Rightarrow> string \<Rightarrow> bool) \<Rightarrow> (string \<Rightarrow> string) \<Rightarrow> time \<Rightarrow> id \<Rightarrow> string \<Rightarrow> string \<Rightarrow> db \<Rightarrow> user option \<times> db" where
  "password_reset_confirm check_token make_password now user_id token raw s =
     (case complete_password_reset check_token make_password now user_id token raw s of
        Inl e \<Rightarrow> (None, s) | Inr (u, t) \<Rightarrow> (Some u, t))"

text \<open>The request for a reset: audited under the digest of the address, throttled, same answer.\<close>

definition password_reset_request ::
  "(string \<Rightarrow> string) \<Rightarrow> settings \<Rightarrow> clock \<Rightarrow> string \<Rightarrow> string \<Rightarrow> db \<Rightarrow> bool \<times> db" where
  "password_reset_request sha256 st clk ip email s =
     (let (wait, t) = throttle_wait clk (throttle_key sha256 st ''password_reset'' ip) 5 900 s in
      (wait = 0, audit (clk 4) None ''auth.password_reset_requested'' ''user'' (sha256 (lower (strip email))) [] t))"

definition password_change :: "(string \<Rightarrow> string) \<Rightarrow> time \<Rightarrow> user \<Rightarrow> string \<Rightarrow> db \<Rightarrow> db" where
  "password_change make_password now u raw s =
     audit now (Some (us_id u)) ''auth.password_change'' ''signage.user'' (int_str (us_id u)) []
       (save_user (u\<lparr>us_password := make_password raw\<rparr>) s)"

definition logout_post :: "time \<Rightarrow> user option \<Rightarrow> db \<Rightarrow> db" where
  "logout_post now who s = (case who of None \<Rightarrow> s
     | Some u \<Rightarrow> audit now (Some (us_id u)) ''auth.logout'' ''signage.user'' (int_str (us_id u)) [] s)"

subsection \<open>Pilot limits\<close>

definition platform_clean :: "platform_settings \<Rightarrow> unit result" where
  "platform_clean p =
     bind_result (require (ps_singleton_id p = 1) (ValidationError [] ''Only one platform settings record is allowed.'')) (\<lambda>u1.
     bind_result (require (1 \<le> ps_playlist_max_entries p) (ValidationError [] ''Playlist entry limit must be positive.'')) (\<lambda>u2.
     require (10 \<le> ps_playlist_max_duration_seconds p)
       (ValidationError [] ''Playlist duration limit must be at least 10 seconds.'')))"

text \<open>\<open>settings_edit\<close> on a POST with the two posted integers (\<open>PositiveIntegerField\<close>).\<close>

definition form_integer :: "int \<Rightarrow> bool" where
  "form_integer n = (0 \<le> n \<and> n \<le> 2147483647)"

definition settings_edit :: "time \<Rightarrow> user \<Rightarrow> int \<Rightarrow> int \<Rightarrow> db \<Rightarrow> (bool \<times> db) result" where
  "settings_edit now actor entries duration s =
     bind_result (owner_required actor) (\<lambda>u0.
     let (p, s1) = load_platform s;
         q = p\<lparr>ps_playlist_max_entries := entries, ps_playlist_max_duration_seconds := duration\<rparr>
     in if \<not> form_integer entries \<or> \<not> form_integer duration then Inr (False, s1)
        else (case platform_clean q of
            Inl e \<Rightarrow> Inr (False, s1)
          | Inr u \<Rightarrow> Inr (True, audit now (Some (us_id actor)) ''settings.update'' ''signage.platformsettings''
                (int_str (ps_singleton_id q)) [] (s1\<lparr>platform := Some q\<rparr>))))"

subsection \<open>Middleware\<close>

text \<open>
  \<open>SessionIdleTimeoutMiddleware\<close>: the stored time of the last activity, in seconds; a missing one
  and zero start the session anew.
\<close>

datatype session_step = LogOut | Proceed "int option"

definition idle_timeout :: "settings \<Rightarrow> time \<Rightarrow> bool \<Rightarrow> int option \<Rightarrow> session_step" where
  "idle_timeout st now authenticated last_activity =
     (if \<not> authenticated then Proceed last_activity
      else (let t = int_seconds now in
            if (case last_activity of None \<Rightarrow> False
                | Some l \<Rightarrow> l \<noteq> 0 \<and> st_session_idle_timeout_seconds st < t - l)
            then LogOut else Proceed (Some t)))"

definition upload_too_large :: "settings \<Rightarrow> string \<Rightarrow> string \<Rightarrow> string \<Rightarrow> bool" where
  "upload_too_large st request_method path content_length =
     (request_method = ''POST'' \<and> path = ''/media/upload/'' \<and>
      (case parse_int content_length of None \<Rightarrow> False | Some n \<Rightarrow> st_media_max_request_bytes st < n))"

text \<open>\<open>HealthCheckMiddleware\<close>: the status of the two probes, or no answer of its own.\<close>

definition health_probe :: "string \<Rightarrow> bool \<Rightarrow> int option" where
  "health_probe path database_answers =
     (if path = ''/health/live/'' then Some 200
      else if path = ''/health/ready/'' then Some (if database_answers then 200 else 503)
      else None)"

definition set_default :: "string \<Rightarrow> string \<Rightarrow> (string \<times> string) list \<Rightarrow> (string \<times> string) list" where
  "set_default name value headers =
     (if list_ex (\<lambda>h. lower (fst h) = lower name) headers then headers else headers @ [(name, value)])"

definition security_headers :: "(string \<times> string) list \<Rightarrow> (string \<times> string) list" where
  "security_headers headers =
     set_default ''Cross-Origin-Opener-Policy'' ''same-origin''
       (set_default ''Permissions-Policy'' ''camera=(), microphone=(), geolocation=(), payment=(), usb=()''
         (set_default ''Content-Security-Policy''
           (''default-src 'self'; img-src 'self' data: https:; '' @ ''media-src 'self' https:; style-src 'self' 'unsafe-inline'; ''
            @ ''script-src 'self'; connect-src 'self'; '' @ ''worker-src 'self' blob:; frame-ancestors 'none'; base-uri 'self'; ''
            @ ''form-action 'self'' @ [CHR 0x27]) headers))"

lemma distinct_map_save_by:
  "distinct (map key rows) \<Longrightarrow> distinct (map f rows) \<Longrightarrow>
   (\<And>r. r \<in> set rows \<Longrightarrow> key r \<noteq> key x \<Longrightarrow> f r \<noteq> f x) \<Longrightarrow> distinct (map f (save_by key x rows))"
proof (induction rows)
  case (Cons r rows)
  show ?case
  proof (cases "key r = key x")
    case True
    then have "save_by key x rows = rows" using Cons.prems(1) by (intro save_by_fresh) auto
    moreover have "f x \<notin> f ` set rows"
    proof
      assume "f x \<in> f ` set rows"
      then obtain y where y: "y \<in> set rows" "f y = f x" by auto
      have "key y \<noteq> key x" using Cons.prems(1) True imageI [OF y(1), of key] by auto
      then show False using Cons.prems(3) y by auto
    qed
    ultimately show ?thesis using Cons.prems(2) True by (auto simp: table_simps)
  next
    case False
    have "f r \<notin> f ` set (save_by key x rows)"
      using Cons.prems(2,3) False by (auto dest!: save_by_mem)
    then show ?thesis using Cons False by (simp add: table_simps)
  qed
qed simp

subsection \<open>The invariant of the accounts\<close>

definition account_ok :: "user \<Rightarrow> bool" where
  "account_ok u = (us_is_staff u = is_owner u \<and> (us_is_superuser u \<longrightarrow> is_owner u)
     \<and> endswith (lower (us_email u)) ''@duducar.co'')"

definition accounts_ok :: "db \<Rightarrow> bool" where
  "accounts_ok s = (distinct (map us_id (users s)) \<and> (\<forall>u\<in>set (users s). us_id u < next_pk s)
     \<and> distinct (map us_email (users s)) \<and> (\<forall>u\<in>set (users s). account_ok u))"

definition has_active_owner :: "db \<Rightarrow> bool" where
  "has_active_owner s = (\<exists>u\<in>set (users s). is_owner u \<and> us_is_active u)"

definition keeps_address :: "(string \<Rightarrow> string) \<Rightarrow> bool" where
  "keeps_address norm_email = (\<forall>x. x \<noteq> [] \<longrightarrow> norm_email x \<noteq> [])"

lemma user_clean_Inr:
  assumes "user_clean norm_email u = Inr v" and "keeps_address norm_email" and "us_email u \<noteq> []"
  shows "account_ok v" and "us_id v = us_id u" and "us_role v = us_role u" and "us_is_active v = us_is_active u"
    and "us_password v = us_password u" and "us_email v \<noteq> []"
proof -
  have n: "norm_email (us_email u) \<noteq> []" using assms(2,3) by (simp add: keeps_address_def)
  have v: "v = u\<lparr>us_email := norm_email (us_email u), us_is_staff := is_owner u,
       us_is_superuser := (is_owner u \<and> us_is_superuser u)\<rparr>"
    and e: "endswith (lower (norm_email (us_email u))) ''@duducar.co''"
    using assms(1) n by (simp_all add: user_clean_def Let_def is_owner_def split: if_splits)
  show "account_ok v" and "us_id v = us_id u" and "us_role v = us_role u" and "us_is_active v = us_is_active u"
    and "us_password v = us_password u" and "us_email v \<noteq> []"
    using n e by (simp_all add: v account_ok_def is_owner_def)
qed

lemma user_full_clean_Inr:
  assumes "user_full_clean valid_email norm_email u s = Inr v" and "keeps_address norm_email"
  shows "account_ok v" and "us_id v = us_id u" and "us_role v = us_role u" and "us_is_active v = us_is_active u"
    and "us_password v = us_password u" and "\<not> email_taken v s"
proof -
  have c: "user_clean norm_email u = Inr v" "us_email u \<noteq> []" "\<not> email_taken v s"
    using assms(1) by (auto simp: user_full_clean_def bind_result_Inr_iff)
  show "account_ok v" and "us_id v = us_id u" and "us_role v = us_role u" and "us_is_active v = us_is_active u"
    and "us_password v = us_password u" and "\<not> email_taken v s"
    by (rule user_clean_Inr [OF c(1) assms(2) c(2)] c(3))+
qed

lemma insert_user_ok:
  assumes "accounts_ok s" and "account_ok u" and "us_id u = next_pk s" and "\<not> email_taken u s"
  shows "accounts_ok (insert_user u s)"
proof -
  have ids: "\<forall>x\<in>set (users s). us_id x < next_pk s" using assms(1) by (simp add: accounts_ok_def)
  then have fresh: "us_id u \<notin> us_id ` set (users s)" using assms(3) by auto
  then have "us_id x \<noteq> us_id u" if "x \<in> set (users s)" for x using that by (metis imageI)
  then have "us_email u \<notin> us_email ` set (users s)" using assms(4) by (auto simp: email_taken_def)
  moreover have "us_id x < next_pk s + 1" if "x \<in> set (users s @ [u])" for x
    using ids assms(3) that by auto
  ultimately show ?thesis using assms(1,2) fresh by (simp add: accounts_ok_def insert_user_def)
qed

lemma save_user_ok:
  assumes "accounts_ok s" and "account_ok u" and "us_id u < next_pk s" and "\<not> email_taken u s"
  shows "accounts_ok (save_user u s)"
proof -
  have "distinct (map us_email (save_by us_id u (users s)))"
    by (rule distinct_map_save_by [where key = us_id])
      (use assms in \<open>auto simp: accounts_ok_def email_taken_def\<close>)
  moreover have "us_id x < next_pk s \<and> account_ok x" if "x \<in> set (save_by us_id u (users s))" for x
    using save_by_mem [OF that] assms(1-3) by (auto simp: accounts_ok_def)
  ultimately show ?thesis using assms(1) by (simp add: accounts_ok_def save_user_def table_simps)
qed

lemma accounts_ok_users:
  "accounts_ok s \<Longrightarrow> users t = users s \<Longrightarrow> next_pk s \<le> next_pk t \<Longrightarrow> accounts_ok t"
  by (auto simp: accounts_ok_def)

lemma has_active_owner_users: "users t = users s \<Longrightarrow> has_active_owner t = has_active_owner s"
  by (simp add: has_active_owner_def)

lemma save_user_owner:
  assumes "has_active_owner s" and "distinct (map us_id (users s))" and "lookup_by us_id (us_id u) (users s) = Some old"
    and "is_owner old \<and> us_is_active old \<longrightarrow> is_owner u \<and> us_is_active u \<or> list_ex (\<lambda>i. i \<noteq> us_id u) (active_owner_ids s)"
  shows "has_active_owner (save_user u s)"
proof -
  obtain w where w: "w \<in> set (users s)" "is_owner w" "us_is_active w" using assms(1) by (auto simp: has_active_owner_def)
  have old: "old \<in> set (users s)" "us_id old = us_id u" using lookup_by_SomeD [OF assms(3)] by auto
  have stays: "has_active_owner (save_user u s)" if "x \<in> set (users s)" "is_owner x" "us_is_active x" "us_id x \<noteq> us_id u" for x
    using that by (auto simp: has_active_owner_def save_user_def set_save_by)
  show ?thesis
  proof (cases "us_id w = us_id u")
    case True
    then have "w = old" using lookup_by_distinct [OF assms(2) w(1)] assms(3) by simp
    then consider "is_owner u" "us_is_active u" | i where "i \<in> set (active_owner_ids s)" "i \<noteq> us_id u"
      using assms(4) w by (auto simp: list_ex_iff)
    then show ?thesis
    proof cases
      case 1
      have "us_id u \<in> us_id ` set (users s)" using old by (metis image_eqI)
      then have "u \<in> set (users (save_user u s))" by (simp add: save_user_def set_save_by)
      then show ?thesis using 1 by (auto simp: has_active_owner_def)
    next
      case 2
      then show ?thesis using stays by (auto simp: active_owner_ids_def is_owner_def)
    qed
  qed (use stays w in blast)
qed

subsection \<open>Every operation on accounts\<close>

text \<open>
  The steps that write the user table, and the sign-in and sign-out requests around them. A step
  reads its user from the state it starts in.
\<close>

inductive account_step :: "(string \<Rightarrow> string) \<Rightarrow> db \<Rightarrow> db \<Rightarrow> bool" for norm_email where
  edit: "user_edit valid norm_email policy mk now actor i f s = Inr (saved, t) \<Longrightarrow> account_step norm_email s t"
| create: "create_user valid norm_email mk2 email password g s = Inr (u, t) \<Longrightarrow> account_step norm_email s t"
| superuser: "create_superuser valid norm_email mk2 email password g s = Inr (u, t) \<Longrightarrow> account_step norm_email s t"
| reset: "password_reset_confirm check mk now i token raw s = (r, t) \<Longrightarrow> account_step norm_email s t"
| reset_request: "password_reset_request sha st clk ip email s = (r, t) \<Longrightarrow> account_step norm_email s t"
| change: "u \<in> set (users s) \<Longrightarrow> account_step norm_email s (password_change mk now u raw s)"
| sign_in: "account_step norm_email s (login_succeeded now key u s)"
| sign_out: "account_step norm_email s (logout_post now who s)"

lemma form_clean_Inr:
  assumes "form_clean valid norm_email policy f existing s = Inr v" and "keeps_address norm_email"
  shows "us_id v = (case existing of None \<Rightarrow> next_pk s | Some u \<Rightarrow> us_id u)"
proof -
  obtain r where "user_clean norm_email (form_instance (next_pk s) r f existing) = Inr v"
    and "strip (fo_email f) \<noteq> []"
    using assms(1) by (auto simp: form_clean_def bind_result_Inr_iff split: option.splits)
  then have "us_id v = us_id (form_instance (next_pk s) r f existing)"
    by (intro user_clean_Inr(2) [OF _ assms(2)]) (auto simp: form_instance_def split: option.splits)
  then show ?thesis by (simp add: form_instance_def split: option.splits)
qed

lemma form_save_Inr:
  assumes "form_save valid norm_email mk f existing v s = Inr (x, t)" and "keeps_address norm_email"
  shows "account_ok x" and "us_id x = us_id v" and "us_role x = us_role v" and "us_is_active x = us_is_active v"
    and "\<not> email_taken x s" and "t = (if existing = None then insert_user x s else save_user x s)"
proof -
  let ?w = "v\<lparr>us_password := (if fo_password f \<noteq> [] then mk (fo_password f)
      else case existing of None \<Rightarrow> fo_password f | Some u \<Rightarrow> us_password u)\<rparr>"
  have c: "user_full_clean valid norm_email ?w s = Inr x"
    and "t = (if existing = None then insert_user x s else save_user x s)"
    using assms(1) by (auto simp: form_save_def Let_def bind_result_Inr_iff)
  then show "account_ok x" and "us_id x = us_id v" and "us_role x = us_role v" and "us_is_active x = us_is_active v"
    and "\<not> email_taken x s" and "t = (if existing = None then insert_user x s else save_user x s)"
    using user_full_clean_Inr [OF c assms(2)] by simp_all
qed

lemma user_edit_cases:
  assumes "user_edit valid norm_email policy mk now actor i f s = Inr (saved, t)"
  obtains (shown) "t = s"
  | (saved) existing v x u where "case existing of None \<Rightarrow> i = None | Some e \<Rightarrow> \<exists>k. i = Some k \<and> lookup_by us_id k (users s) = Some e"
      "form_clean valid norm_email policy f existing s = Inr v"
      "\<not> ((case existing of None \<Rightarrow> False | Some e \<Rightarrow> is_owner e \<and> us_is_active e)
          \<and> (us_role v \<noteq> Owner \<or> \<not> us_is_active v) \<and> \<not> list_ex (\<lambda>k. k \<noteq> us_id v) (active_owner_ids s))"
      "form_save valid norm_email mk f existing v s = Inr (x, u)" "users t = users u" "next_pk u \<le> next_pk t"
proof -
  obtain existing where ex: "(case i of None \<Rightarrow> Inl Http404 | Some k \<Rightarrow> (case lookup_by us_id k (users s) of
       None \<Rightarrow> Inl Http404 | Some u \<Rightarrow> Inr (Some u))) = Inr existing \<or> i = None \<and> existing = None"
    and body: "(case form_clean valid norm_email policy f existing s of
       Inl e \<Rightarrow> Inr (False, s)
     | Inr v \<Rightarrow>
         if (case existing of None \<Rightarrow> False | Some u \<Rightarrow> is_owner u \<and> us_is_active u)
            \<and> (us_role v \<noteq> Owner \<or> \<not> us_is_active v) \<and> \<not> list_ex (\<lambda>i. i \<noteq> us_id v) (active_owner_ids s)
         then Inr (False, s)
         else bind_result (form_save valid norm_email mk f existing v s) (\<lambda>(x, t).
           Inr (True, audit now (Some (us_id actor)) (if i = None then ''user.create'' else ''user.update'')
                 ''signage.user'' (int_str (us_id x))
                 [(''role'', JStr (role_value (us_role x))), (''active'', JBool (us_is_active x))] t)))
       = Inr (saved, t)"
    using assms unfolding user_edit_def bind_result_Inr_iff Let_def by (cases i) (auto split: option.splits)
  have e: "case existing of None \<Rightarrow> i = None | Some e \<Rightarrow> \<exists>k. i = Some k \<and> lookup_by us_id k (users s) = Some e"
    using ex by (cases i; cases existing) (auto split: option.splits)
  show thesis
  proof (cases "form_clean valid norm_email policy f existing s")
    case (Inl x)
    then show ?thesis using body shown by simp
  next
    case (Inr v)
    let ?refused = "(case existing of None \<Rightarrow> False | Some u \<Rightarrow> is_owner u \<and> us_is_active u)
        \<and> (us_role v \<noteq> Owner \<or> \<not> us_is_active v) \<and> \<not> list_ex (\<lambda>i. i \<noteq> us_id v) (active_owner_ids s)"
    show ?thesis
    proof (cases ?refused)
      case True
      have "t = s" using body unfolding Inr sum.case if_P [OF True] by simp
      then show ?thesis by (rule shown)
    next
      case False
      obtain x u where xu: "form_save valid norm_email mk f existing v s = Inr (x, u)"
        "users t = users u" "next_pk u \<le> next_pk t"
        using body unfolding Inr sum.case if_not_P [OF False] by (auto simp: bind_result_Inr_iff)
      show ?thesis by (rule saved [OF e Inr False xu])
    qed
  qed
qed

lemma edit_ok:
  assumes run: "user_edit valid norm_email policy mk now actor i f s = Inr (saved, t)" and n: "keeps_address norm_email"
    and ok: "accounts_ok s" and own: "has_active_owner s"
  shows "accounts_ok t \<and> has_active_owner t"
  using run
proof (cases rule: user_edit_cases)
  case shown
  then show ?thesis using ok own by simp
next
  case (saved existing v x u)
  note x = form_save_Inr [OF saved(4) n]
  note id = form_clean_Inr [OF saved(2) n]
  have "accounts_ok u \<and> has_active_owner u"
  proof (cases existing)
    case None
    then show ?thesis using insert_user_ok [OF ok x(1) _ x(5)] x(2,6) id own
      by (auto simp: insert_user_def has_active_owner_def)
  next
    case (Some e)
    then obtain k where k: "lookup_by us_id k (users s) = Some e" using saved(1) by auto
    have e: "e \<in> set (users s)" "us_id e = k" using lookup_by_SomeD [OF k] by auto
    have xe: "us_id x = k" using x(2) id Some e by simp
    then have "us_id x < next_pk s" using ok e by (auto simp: accounts_ok_def)
    then have "accounts_ok u" using save_user_ok [OF ok x(1) _ x(5)] x(6) Some by simp
    moreover have "has_active_owner (save_user x s)"
    proof (rule save_user_owner [OF own])
      show "distinct (map us_id (users s))" using ok by (simp add: accounts_ok_def)
      show "lookup_by us_id (us_id x) (users s) = Some e" using k xe by simp
      show "is_owner e \<and> us_is_active e \<longrightarrow> is_owner x \<and> us_is_active x \<or> list_ex (\<lambda>i. i \<noteq> us_id x) (active_owner_ids s)"
        using saved(3) Some x(2,3,4) by (auto simp: is_owner_def)
    qed
    ultimately show ?thesis using x(6) Some by simp
  qed
  then show ?thesis using accounts_ok_users [of u t] has_active_owner_users [of t u] saved(5,6) by simp
qed

lemma create_ok:
  assumes "create_user valid norm_email mk email password g s = Inr (u, t)" and "keeps_address norm_email"
    and ok: "accounts_ok s" and own: "has_active_owner s"
  shows "accounts_ok t \<and> has_active_owner t"
proof -
  let ?w = "\<lparr>us_id = next_pk s, us_email = norm_email email, us_role = default_or Marketing (uf_role g),
     us_is_active = default_or True (uf_is_active g), us_is_staff = default_or False (uf_is_staff g),
     us_is_superuser = default_or False (uf_is_superuser g), us_password = mk password\<rparr>"
  have w: "us_id ?w = next_pk s" "user_full_clean valid norm_email ?w s = Inr u" "t = insert_user u s"
    using assms(1) by (auto simp: create_user_def bind_result_Inr_iff split: if_splits)
  note u = user_full_clean_Inr [OF w(2) assms(2)]
  show ?thesis using insert_user_ok [OF ok u(1) _ u(6)] u(2) w own
    by (auto simp: insert_user_def has_active_owner_def)
qed

text \<open>A new password changes no other column.\<close>

lemma password_ok:
  assumes ok: "accounts_ok s" and own: "has_active_owner s" and u: "u \<in> set (users s)"
  shows "accounts_ok (save_user (u\<lparr>us_password := p\<rparr>) s) \<and> has_active_owner (save_user (u\<lparr>us_password := p\<rparr>) s)"
proof
  have d: "distinct (map us_id (users s))" "distinct (map us_email (users s))" using ok by (simp_all add: accounts_ok_def)
  have "\<not> email_taken u s"
    using u distinct_map_unique [OF d(2)] by (auto simp: email_taken_def)
  then have "\<not> email_taken (u\<lparr>us_password := p\<rparr>) s" by (simp add: email_taken_def)
  moreover have "account_ok u" "us_id u < next_pk s" using ok u by (simp_all add: accounts_ok_def)
  then have "account_ok (u\<lparr>us_password := p\<rparr>)" "us_id (u\<lparr>us_password := p\<rparr>) < next_pk s"
    by (simp_all add: account_ok_def is_owner_def)
  ultimately show "accounts_ok (save_user (u\<lparr>us_password := p\<rparr>) s)"
    using save_user_ok [OF ok] by blast
  show "has_active_owner (save_user (u\<lparr>us_password := p\<rparr>) s)"
    using lookup_by_distinct [OF d(1) u] by (intro save_user_owner [OF own d(1)]) (auto simp: is_owner_def)
qed

lemma throttle_wait_users: "throttle_wait clk key limit w s = (r, t) \<Longrightarrow> users t = users s \<and> next_pk t = next_pk s"
  by (auto simp: throttle_wait_def get_or_create_throttle_def Let_def split: if_splits option.splits)

lemma reset_cases:
  assumes "password_reset_confirm check mk now i token raw s = (r, t)"
  obtains (invalid) "r = None" "t = s"
  | (reset) u where "lookup_by us_id i (users s) = Some u" "check u token" "r = Some (u\<lparr>us_password := mk raw\<rparr>)"
      "t = audit now None ''auth.password_reset'' ''signage.user'' (int_str (us_id u)) []
         (save_user (u\<lparr>us_password := mk raw\<rparr>) s)"
proof (cases "lookup_by us_id i (users s)")
  case None
  then show ?thesis using assms invalid by (simp add: password_reset_confirm_def complete_password_reset_def)
next
  case (Some u)
  show ?thesis
  proof (cases "check u token")
    case True
    then show ?thesis using assms reset [OF Some] Some
      by (simp add: password_reset_confirm_def complete_password_reset_def Let_def)
  next
    case False
    then show ?thesis using assms invalid Some by (simp add: password_reset_confirm_def complete_password_reset_def)
  qed
qed

lemma account_step_ok:
  assumes "account_step norm_email s t" and n: "keeps_address norm_email" and "accounts_ok s" and "has_active_owner s"
  shows "accounts_ok t \<and> has_active_owner t"
  using assms(1,3,4)
proof cases
  case (superuser valid mk2 email password g u)
  then obtain h where "create_user valid norm_email mk2 email password h s = Inr (u, t)"
    by (auto simp: create_superuser_def Let_def split: if_splits)
  then show ?thesis using create_ok n assms(3,4) by blast
next
  case (reset check mk now i token raw r)
  then show ?thesis
  proof (cases rule: reset_cases)
    case invalid
    then show ?thesis using assms(3,4) by simp
  next
    case (reset u)
    let ?v = "save_user (u\<lparr>us_password := mk raw\<rparr>) s"
    have u: "u \<in> set (users s)" using lookup_by_SomeD [OF reset(1)] by simp
    have "users t = users ?v" "next_pk ?v \<le> next_pk t" using reset(4) by simp_all
    then show ?thesis
      using password_ok [OF assms(3,4) u, of "mk raw"] accounts_ok_users has_active_owner_users by metis
  qed
next
  case (reset_request sha st clk ip email r)
  then have "users t = users s \<and> next_pk s \<le> next_pk t"
    by (auto simp: password_reset_request_def Let_def split: prod.splits dest: throttle_wait_users)
  then show ?thesis using accounts_ok_users has_active_owner_users assms(3,4) by metis
next
  case (change u mk now raw)
  let ?v = "save_user (u\<lparr>us_password := mk raw\<rparr>) s"
  have "users t = users ?v" "next_pk ?v \<le> next_pk t" using change by (simp_all add: password_change_def)
  then show ?thesis
    using password_ok [OF assms(3,4) change(2), of "mk raw"] accounts_ok_users has_active_owner_users by metis
next
  case (sign_in now key u)
  then have "users t = users s \<and> next_pk s \<le> next_pk t" by (simp add: login_succeeded_def)
  then show ?thesis using accounts_ok_users has_active_owner_users assms(3,4) by metis
next
  case (sign_out now who)
  then have "users t = users s \<and> next_pk s \<le> next_pk t" by (simp add: logout_post_def split: option.splits)
  then show ?thesis using accounts_ok_users has_active_owner_users assms(3,4) by metis
qed (use edit_ok create_ok n assms(3,4) in blast)+

lemma account_steps_ok:
  assumes "(account_step norm_email)\<^sup>*\<^sup>* s t" and "keeps_address norm_email"
    and "accounts_ok s" and "has_active_owner s"
  shows "accounts_ok t \<and> has_active_owner t"
  using assms
proof (induction rule: rtranclp_induct)
  case base
  then show ?case by simp
next
  case (step u v)
  then show ?case using account_step_ok by blast
qed

lemma initial_owner_ok:
  assumes "create_initial_owner valid norm_email mk policy email given prompts s = Inr (u, t)" and "keeps_address norm_email"
  shows "accounts_ok t \<and> has_active_owner t \<and> users t = [u]"
proof -
  let ?p = "Some (if given \<noteq> [] then given else fst prompts)"
  let ?w = "\<lparr>us_id = next_pk s, us_email = norm_email (lower (strip email)), us_role = Owner,
     us_is_active = True, us_is_staff = True, us_is_superuser = True, us_password = mk ?p\<rparr>"
  have s: "users s = []" and w: "user_full_clean valid norm_email ?w s = Inr u" "t = insert_user u s"
    using assms(1) by (auto simp: create_initial_owner_def create_superuser_def create_user_def default_or_def Let_def
        bind_result_Inr_iff split: if_splits)
  note u = user_full_clean_Inr [OF w(1) assms(2)]
  have "accounts_ok s" using s by (simp add: accounts_ok_def)
  from insert_user_ok [OF this u(1) _ u(6)] u(2-4) show ?thesis
    by (simp add: w(2) s insert_user_def has_active_owner_def is_owner_def)
qed

subsection \<open>Properties\<close>

text \<open>C8: From the first owner on, whatever accounts are edited, created, promoted, given new passwords,
  signed in and signed out, in any order, the accounts stay in order and never lock everyone out:
  addresses are unique and end in the company domain, staff are exactly the owners, every
  superuser is an owner, and there is always an active owner. Of the normalisation of addresses it
  is only assumed that it does not make one empty.\<close>

theorem accounts_invariant:
  assumes "create_initial_owner valid norm_email mk policy email given prompts s0 = Inr (u, s)"
    and "(account_step norm_email)\<^sup>*\<^sup>* s t" and "keeps_address norm_email"
  shows "accounts_ok t \<and> has_active_owner t"
  using account_steps_ok [OF assms(2,3)] initial_owner_ok [OF assms(1,3)] by blast

definition owner_row :: user where
  "owner_row = \<lparr>us_id = 1, us_email = ''ann@duducar.co'', us_role = Owner, us_is_active = True, us_is_staff = True,
     us_is_superuser = False, us_password = ''h0''\<rparr>"

definition accounts_db :: db where
  "accounts_db = empty_db\<lparr>users := [owner_row], next_pk := 5\<rparr>"

definition demotion :: user_form where
  "demotion = \<lparr>fo_email = ''ann@duducar.co'', fo_role = ''marketing'', fo_is_active = True, fo_password = []\<rparr>"

definition new_marketing :: user_form where
  "new_marketing = \<lparr>fo_email = ''bob@duducar.co'', fo_role = ''marketing'', fo_is_active = True, fo_password = ''pw''\<rparr>"

definition first_owner :: "(user \<times> db) result" where
  "first_owner = create_initial_owner (\<lambda>e. True) (\<lambda>e. e) (\<lambda>p. ''h0'') (\<lambda>p. True) '' Ann@duducar.co'' ''pw'' ([], []) empty_db"

definition hire :: "user \<Rightarrow> db \<Rightarrow> (bool \<times> db) result" where
  "hire u s = user_edit (\<lambda>e. True) (\<lambda>e. e) (\<lambda>p u. True) (\<lambda>p. ''h1'') 7 u None new_marketing s"

theorem accounts_invariant_witness:
  "\<exists>u s t. first_owner = Inr (u, s) \<and> hire u s = Inr (True, t) \<and> length (users t) = 2 \<and> accounts_ok t \<and> has_active_owner t"
proof -
  have "(case first_owner of Inl e \<Rightarrow> False | Inr p \<Rightarrow>
      (case hire (fst p) (snd p) of Inl e \<Rightarrow> False | Inr q \<Rightarrow> fst q \<and> length (users (snd q)) = 2))" by code_simp
  then obtain p q where "first_owner = Inr p" "hire (fst p) (snd p) = Inr q" "fst q" "length (users (snd q)) = 2"
    by (auto simp del: split_paired_Ex split_paired_All split: sum.split_asm)
  then obtain u s t where t: "first_owner = Inr (u, s)" "hire u s = Inr (True, t)" "length (users t) = 2"
    by (cases p; cases q) auto
  have "(account_step (\<lambda>e. e))\<^sup>*\<^sup>* s t" using account_step.edit [OF t(2) [unfolded hire_def]] by blast
  moreover have "keeps_address (\<lambda>e. e)" by (simp add: keeps_address_def)
  ultimately show ?thesis using accounts_invariant [OF t(1) [unfolded first_owner_def], of t] t by blast
qed

text \<open>C16: The last active owner can neither be demoted nor deactivated: whatever is posted, the row stays
  as it was and nothing is written.\<close>

theorem last_owner_kept:
  assumes "user_edit valid norm_email policy mk now actor (Some (us_id u)) f s = Inr (saved, t)"
    and "lookup_by us_id (us_id u) (users s) = Some u" and "is_owner u" and "us_is_active u"
    and "\<forall>w\<in>set (users s). is_owner w \<and> us_is_active w \<longrightarrow> us_id w = us_id u"
    and "fo_role f \<noteq> ''owner'' \<or> \<not> fo_is_active f"
  shows "\<not> saved \<and> t = s"
proof -
  have none: "\<not> list_ex (\<lambda>i. i \<noteq> us_id u) (active_owner_ids s)"
    using assms(5) by (auto simp: list_ex_iff active_owner_ids_def is_owner_def)
  have v: "us_id v = us_id u \<and> (us_role v \<noteq> Owner \<or> \<not> us_is_active v)"
    if "form_clean valid norm_email policy f (Some u) s = Inr v" for v
  proof -
    from that obtain r where r: "role_of (fo_role f) = Some r"
      "user_clean norm_email (form_instance (next_pk s) r f (Some u)) = Inr v"
      by (auto simp: form_clean_def bind_result_Inr_iff split: option.splits)
    then have "us_id v = us_id u" "us_role v = r" "us_is_active v = fo_is_active f"
      by (auto simp: user_clean_def form_instance_def Let_def split: if_splits)
    then show ?thesis using assms(6) r(1) by (auto split: if_splits)
  qed
  show ?thesis
  proof (cases "form_clean valid norm_email policy f (Some u) s")
    case (Inl e)
    then show ?thesis using assms(1) by (simp add: user_edit_def bind_result_Inr_iff assms(2))
  next
    case (Inr w)
    have "(is_owner u \<and> us_is_active u) \<and> (us_role w \<noteq> Owner \<or> \<not> us_is_active w)
        \<and> \<not> list_ex (\<lambda>i. i \<noteq> us_id w) (active_owner_ids s)"
      using v [OF Inr] none assms(3,4) by simp
    note refused = this
    show ?thesis using assms(1)
      unfolding user_edit_def Let_def bind_result_Inr_iff by (simp add: assms(2) Inr refused [simplified])
  qed
qed

theorem last_owner_kept_witness:
  "user_edit (\<lambda>e. True) (\<lambda>e. e) (\<lambda>p u. True) (\<lambda>p. ''h1'') 7 owner_row (Some 1) demotion accounts_db = Inr (False, accounts_db)"
proof -
  have "(case user_edit (\<lambda>e. True) (\<lambda>e. e) (\<lambda>p u. True) (\<lambda>p. ''h1'') 7 owner_row (Some (us_id owner_row)) demotion accounts_db of
      Inl e \<Rightarrow> False | Inr r \<Rightarrow> True)"
    and i: "us_id owner_row = 1" and l: "lookup_by us_id (us_id owner_row) (users accounts_db) = Some owner_row"
    and o: "is_owner owner_row" "us_is_active owner_row" "fo_role demotion \<noteq> ''owner'' \<or> \<not> fo_is_active demotion"
    and u: "\<forall>w\<in>set (users accounts_db). is_owner w \<and> us_is_active w \<longrightarrow> us_id w = us_id owner_row"
    by code_simp+
  then obtain saved t where t: "user_edit (\<lambda>e. True) (\<lambda>e. e) (\<lambda>p u. True) (\<lambda>p. ''h1'') 7 owner_row (Some (us_id owner_row)) demotion accounts_db = Inr (saved, t)"
    by (auto split: sum.splits)
  show ?thesis using last_owner_kept [OF t l o(1,2) u o(3)] t i by simp
qed

lemma reset_refused_keeps: "password_reset_confirm check mk now i token raw s = (None, t) \<Longrightarrow> t = s"
  by (auto simp: password_reset_confirm_def split: sum.splits)

text \<open>C31: A password reset link works once. A reset that succeeds stores the hash of the new password and
  touches no other user. From then on the same token is refused at any time, in any state in which the
  account does not have the old hash: whoever signed in since, whatever else of the row was edited, and
  also after further changes of the password. And no refused reset, of whatever token and account,
  changes anything. Of the tokens it is assumed, as Django documents, that one is valid for at most one
  password hash of an account, whatever the time and the other columns (\<open>check\<close> may depend on the time,
  since links expire).\<close>

theorem password_reset_single_use:
  assumes "password_reset_confirm (check now) mk now i token raw s = (Some u, t)"
    and bound: "\<forall>a b v w. check a v token \<and> check b w token \<and> us_id v = us_id w \<longrightarrow> us_password v = us_password w"
  shows "(\<exists>v. lookup_by us_id i (users s) = Some v \<and> u = v\<lparr>us_password := mk raw\<rparr>
      \<and> users t = save_by us_id u (users s)
      \<and> (\<forall>mk2 now2 raw2 t2. (\<forall>w. lookup_by us_id i (users t2) = Some w \<longrightarrow> us_password w \<noteq> us_password v) \<longrightarrow>
           password_reset_confirm (check now2) mk2 now2 i token raw2 t2 = (None, t2)))
    \<and> (\<forall>check3 mk3 now3 j token3 raw3 s3 t3.
         password_reset_confirm check3 mk3 now3 j token3 raw3 s3 = (None, t3) \<longrightarrow> t3 = s3)"
  using assms(1)
proof (cases rule: reset_cases)
  case (reset v)
  have "password_reset_confirm (check now2) mk2 now2 i token raw2 t2 = (None, t2)"
    if other: "\<forall>w. lookup_by us_id i (users t2) = Some w \<longrightarrow> us_password w \<noteq> us_password v" for mk2 now2 raw2 t2
  proof (cases "lookup_by us_id i (users t2)")
    case (Some w)
    have "us_id v = us_id w" using lookup_by_SomeD [OF reset(1)] lookup_by_SomeD [OF Some] by simp
    then have "\<not> check now2 w token" using bound reset(2) other Some by metis
    then show ?thesis using Some by (simp add: password_reset_confirm_def complete_password_reset_def)
  qed (simp add: password_reset_confirm_def complete_password_reset_def)
  then show ?thesis using reset reset_refused_keeps by (auto simp: save_user_def)
qed simp

text \<open>The account signs in and changes its password again, and the old link is still refused.\<close>

theorem password_reset_single_use_witness:
  "\<exists>u t. password_reset_confirm (\<lambda>v tok. us_password v = tok) (\<lambda>p. ''h1'') 7 1 ''h0'' ''new'' accounts_db = (Some u, t)
     \<and> password_reset_confirm (\<lambda>v tok. us_password v = tok) (\<lambda>p. ''h2'') 8 1 ''h0'' ''other'' t = (None, t)
     \<and> (let t2 = password_change (\<lambda>p. ''h3'') 9 (u\<lparr>us_role := Marketing\<rparr>) ''third'' t in
        password_reset_confirm (\<lambda>v tok. us_password v = tok) (\<lambda>p. ''h4'') 10 1 ''h0'' ''other'' t2 = (None, t2))"
proof -
  let ?c = "\<lambda>v tok. us_password v = tok"
  let ?u = "owner_row\<lparr>us_password := ''h1''\<rparr>"
  have "fst (password_reset_confirm ?c (\<lambda>p. ''h1'') 7 1 ''h0'' ''new'' accounts_db) = Some ?u" by code_simp
  then obtain t where t: "password_reset_confirm ?c (\<lambda>p. ''h1'') 7 1 ''h0'' ''new'' accounts_db = (Some ?u, t)"
    by (cases "password_reset_confirm ?c (\<lambda>p. ''h1'') 7 1 ''h0'' ''new'' accounts_db") auto
  have old: "lookup_by us_id 1 (users accounts_db) = Some owner_row" "us_password owner_row = ''h0''"
    by (simp_all add: accounts_db_def owner_row_def empty_db_def table_simps)
  note r = password_reset_single_use [where check = "\<lambda>n. ?c", OF t, unfolded old(1)]
  have "users t = save_by us_id ?u (users accounts_db)" using r by auto
  then have rows: "users t = [?u]" by (simp add: accounts_db_def owner_row_def empty_db_def table_simps)
  have refused: "password_reset_confirm ?c mk2 now2 1 ''h0'' raw2 t2 = (None, t2)"
    if "\<forall>w. lookup_by us_id 1 (users t2) = Some w \<longrightarrow> us_password w \<noteq> ''h0''" for mk2 now2 raw2 t2
    using r that old(2) by auto
  let ?t2 = "password_change (\<lambda>p. ''h3'') 9 (?u\<lparr>us_role := Marketing\<rparr>) ''third'' t"
  have "users ?t2 = [?u\<lparr>us_role := Marketing, us_password := ''h3''\<rparr>]"
    using rows by (simp add: password_change_def save_user_def audit_def owner_row_def table_simps)
  then show ?thesis
    using t refused [of t "\<lambda>p. ''h2''" 8 "''other''"] refused [of ?t2 "\<lambda>p. ''h4''" 10 "''other''"] rows
    by (auto simp: Let_def table_simps)
qed

text \<open>Marketing users stay out of user administration. No permission about users is granted to an
  active one, every edit of users or of the pilot limits is refused to them, and the administration
  site admits nobody but active owners; there only qualifications can be written and corrections
  added, by owners, and no row of any table can be deleted.\<close>

theorem marketing_confined:
  "(us_role u = Marketing \<longrightarrow>
      \<not> site_permission u
      \<and> (us_is_active u \<longrightarrow> (\<forall>fallback action. \<not> has_perm fallback u (''signage.'' @ action @ ''_user'')))
      \<and> (\<forall>valid norm_email policy mk now i f s. user_edit valid norm_email policy mk now u i f s = Inl (PermissionDenied []))
      \<and> (\<forall>now entries duration s. settings_edit now u entries duration s = Inl (PermissionDenied []))
      \<and> (\<forall>is_get. admin_site_login is_get (Some u) = Inl (PermissionDenied [])))
   \<and> (\<forall>page action. admin_permission page action u \<longrightarrow> is_owner u \<and> action \<noteq> DeleteRow
      \<and> (action = ChangeRow \<longrightarrow> page = QualificationAdmin) \<and> (action = AddRow \<longrightarrow> page \<noteq> ReadOnlyAdmin))"
proof (intro conjI impI allI)
  fix page action
  assume a: "admin_permission page action u"
  show "is_owner u" using a by (cases page; cases action) simp_all
  show "action \<noteq> DeleteRow" using a by (cases page; cases action) simp_all
  show "page = QualificationAdmin" if "action = ChangeRow" using a that by (cases page) simp_all
  show "page \<noteq> ReadOnlyAdmin" if "action = AddRow" using a that by (cases page) simp_all
next
  fix fallback action
  assume m: "us_role u = Marketing" and act: "us_is_active u"
  have "endswith (action @ ''_user'') ''_user''" by (simp add: endswith_def)
  then show "\<not> has_perm fallback u (''signage.'' @ action @ ''_user'')"
    using m act by (simp add: has_perm_def is_owner_def partition_at_def)
qed (simp_all add: site_permission_def is_owner_def user_edit_def settings_edit_def owner_required_def require_def
    admin_site_login_def)

theorem marketing_confined_witness:
  "\<not> has_perm (\<lambda>u p. True) (owner_row\<lparr>us_role := Marketing\<rparr>) ''signage.delete_user''"
proof -
  let ?u = "owner_row\<lparr>us_role := Marketing\<rparr>"
  have "us_role ?u = Marketing" "us_is_active ?u" by (simp_all add: owner_row_def)
  then have "\<not> has_perm (\<lambda>u p. True) ?u (''signage.'' @ ''delete'' @ ''_user'')"
    using marketing_confined [of ?u] by blast
  then show ?thesis by simp
qed

subsection \<open>The idle timeout over a session\<close>

fun session_survives :: "settings \<Rightarrow> int option \<Rightarrow> time list \<Rightarrow> bool" where
  "session_survives st seen [] = True"
| "session_survives st seen (now # rest) = (case idle_timeout st now True seen of
       LogOut \<Rightarrow> False | Proceed t \<Rightarrow> session_survives st t rest)"

lemma session_survives_from:
  "0 < l \<Longrightarrow> \<forall>t\<in>set ts. seconds 1 \<le> t \<Longrightarrow> session_survives st (Some l) ts \<longleftrightarrow>
     successively (\<lambda>a b. b - a \<le> st_session_idle_timeout_seconds st) (l # map int_seconds ts)"
proof (induction ts arbitrary: l)
  case (Cons t ts)
  have "0 < int_seconds t" using Cons.prems(2) by (auto simp: int_seconds_def)
  then show ?case using Cons.IH [of "int_seconds t"] Cons.prems by (simp add: idle_timeout_def Let_def not_less)
qed simp

text \<open>The idle timeout signs out exactly after a pause that is too long: a session whose requests come
  at given times, from the second after the epoch on, is still signed in after the last of them if
  and only if no two requests in a row were further apart than the timeout.\<close>

theorem idle_timeout_exact:
  assumes "\<forall>t\<in>set ts. seconds 1 \<le> t"
  shows "session_survives st None ts \<longleftrightarrow>
     successively (\<lambda>a b. b - a \<le> st_session_idle_timeout_seconds st) (map int_seconds ts)"
proof (cases ts)
  case (Cons t rest)
  have "0 < int_seconds t" using assms Cons by (auto simp: int_seconds_def)
  then show ?thesis using session_survives_from [of "int_seconds t" rest st] assms Cons
    by (simp add: idle_timeout_def Let_def)
qed simp

theorem idle_timeout_exact_witness:
  "session_survives default_settings None [minutes 1, minutes 31] \<and> \<not> session_survives default_settings None [minutes 1, minutes 32]"
  using idle_timeout_exact [of "[minutes 1, minutes 31]" default_settings]
    idle_timeout_exact [of "[minutes 1, minutes 32]" default_settings]
  by (simp add: default_settings_def int_seconds_def)

end
