(* ===== verification/Qualifications.thy ===== *)
theory Qualifications
  imports Accounts Evidence
begin

section \<open>Hardware qualifications and append-only records\<close>

text \<open>
  The rules of \<open>models.py\<close> on what may be written again: a hardware qualification keeps its evidence
  once it was approved, and playback events, their corrections, operational events and audit events
  are only ever added. The pages of \<open>admin.py\<close> that write qualifications and corrections are the
  way to them. Lengths of columns are checked by Django before the rules of the model run
  (\<open>fields_ok\<close>). The display diagonal is in hundredths of an inch.
\<close>

subsection \<open>Qualifications\<close>

definition recorded_pass_fields :: "string list" where
  "recorded_pass_fields =
     [''device_owner_lock_task_passed'', ''screen_state_passed'', ''battery_backed_playback_passed'',
      ''battery_runtime_passed'', ''battery_level_telemetry_passed'', ''planned_shutdown_flow_passed'',
      ''physical_shutdown_recovery_passed'', ''abnormal_exit_recovery_passed'', ''playback_12h_passed'',
      ''image_aspect_passed'', ''cache_capacity_passed'', ''network_reconnect_passed'', ''interrupted_download_passed'',
      ''thermal_passed'', ''mounting_power_safety_passed'', ''kiosk_escape_resistance_passed'',
      ''device_time_change_passed'', ''remote_disable_reboot_passed'', ''factory_reset_revocation_passed'']"

text \<open>The fields of \<open>IMMUTABLE_AFTER_APPROVAL_FIELDS\<close>: what was tested, by whom, and the results.\<close>

definition same_evidence :: "hardware_qualification \<Rightarrow> hardware_qualification \<Rightarrow> bool" where
  "same_evidence a b =
     (hq_model_name a = hq_model_name b \<and> hq_firmware_version a = hq_firmware_version b
      \<and> hq_android_version a = hq_android_version b \<and> hq_security_patch_level a = hq_security_patch_level b
      \<and> hq_display_diagonal a = hq_display_diagonal b \<and> hq_tested_by a = hq_tested_by b
      \<and> hq_test_date a = hq_test_date b \<and> hq_evidence_reference a = hq_evidence_reference b
      \<and> hq_legacy_passes a = hq_legacy_passes b
      \<and> list_all (\<lambda>f. hq_recorded_passes a f = hq_recorded_passes b f) recorded_pass_fields)"

definition diagonal_qualified :: "int option \<Rightarrow> bool" where
  "diagonal_qualified d = (case d of None \<Rightarrow> False | Some n \<Rightarrow> 900 \<le> n \<and> n \<le> 1200)"

definition qualification_clean :: "hardware_qualification option \<Rightarrow> hardware_qualification \<Rightarrow> unit result" where
  "qualification_clean original q =
     bind_result (case original of None \<Rightarrow> Inr () | Some r \<Rightarrow>
        if hq_approved_at r = None then Inr ()
        else bind_result (require (same_evidence r q) (ValidationError []
               ''Approved hardware qualification evidence is immutable; revoke it and create a fresh qualification record.'')) (\<lambda>u.
             require (hq_approved_for_pilot r \<or> \<not> hq_approved_for_pilot q) (ValidationError []
               ''A revoked hardware qualification cannot be re-approved; record fresh qualification evidence.''))) (\<lambda>u1.
     if \<not> hq_approved_for_pilot q then Inr ()
     else bind_result (require (hq_display_diagonal q \<noteq> None) (ValidationError ''measured_display_diagonal_inches''
            ''Approval requires a measured display diagonal.'')) (\<lambda>u2.
          bind_result (require (diagonal_qualified (hq_display_diagonal q)) (ValidationError
            ''measured_display_diagonal_inches'' ''Approval requires a display diagonal from 9.00 to 12.00 inches.'')) (\<lambda>u3.
          require (hq_security_patch_level q \<noteq> []) (ValidationError ''security_patch_level''
            ''Approval requires the verified Android security patch level.''))))"

definition find_qualification :: "id \<Rightarrow> db \<Rightarrow> hardware_qualification option" where
  "find_qualification i s = lookup_by hq_id i (qualifications s)"

text \<open>The check constraint of the table; \<open>full_clean\<close> checks it as well.\<close>

definition approved_display_size :: "hardware_qualification \<Rightarrow> bool" where
  "approved_display_size q = (\<not> hq_approved_for_pilot q \<or> diagonal_qualified (hq_display_diagonal q))"

text \<open>\<open>save\<close>: \<open>adding\<close> for an object that is not yet in the table.\<close>

definition qualification_save ::
  "(hardware_qualification \<Rightarrow> bool) \<Rightarrow> time \<Rightarrow> bool \<Rightarrow> hardware_qualification \<Rightarrow> db \<Rightarrow> (hardware_qualification \<times> db) result" where
  "qualification_save fields_ok now adding q s =
     (let q1 = (if hq_approved_for_pilot q \<and> hq_approved_at q = None then q\<lparr>hq_approved_at := Some now\<rparr> else q);
          q2 = (if \<not> hq_approved_for_pilot q1 \<and> adding then q1\<lparr>hq_approved_at := None\<rparr> else q1)
      in bind_result (require (fields_ok q2) (ValidationError [] ''fields'')) (\<lambda>u1.
         bind_result (qualification_clean (if adding then None else find_qualification (hq_id q2) s) q2) (\<lambda>u2.
         bind_result (require (approved_display_size q2) (ValidationError [] ''signage_hq_approved_display_size'')) (\<lambda>u3.
         Inr (q2, if adding then s\<lparr>qualifications := qualifications s @ [q2], next_pk := next_pk s + 1\<rparr>
                  else s\<lparr>qualifications := save_by hq_id q2 (qualifications s)\<rparr>)))))"

text \<open>
  The administration page: the form starts from the stored row and does not post \<open>approved_at\<close>
  nor the two retired results, which are not editable.
\<close>

definition qualification_admin_save ::
  "(hardware_qualification \<Rightarrow> bool) \<Rightarrow> clock \<Rightarrow> user \<Rightarrow> id option \<Rightarrow> hardware_qualification \<Rightarrow> db \<Rightarrow> db result" where
  "qualification_admin_save fields_ok clk actor change posted s =
     bind_result (require (site_permission actor) (PermissionDenied [])) (\<lambda>u0.
     bind_result (case change of
         None \<Rightarrow> Inr (posted\<lparr>hq_id := next_pk s, hq_approved_at := None, hq_legacy_passes := [False, False]\<rparr>)
       | Some i \<Rightarrow> (case find_qualification i s of None \<Rightarrow> Inl Http404
           | Some r \<Rightarrow> Inr (posted\<lparr>hq_id := i, hq_approved_at := hq_approved_at r, hq_legacy_passes := hq_legacy_passes r\<rparr>)))
       (\<lambda>q. bind_result (qualification_save fields_ok (clk 0) (change = None) q s) (\<lambda>(r, t).
     Inr (audit (clk 1) (Some (us_id actor))
       (if change = None then ''hardware_qualification.create'' else ''hardware_qualification.update'')
       ''signage.hardwarequalification'' (int_str (hq_id r)) [] t))))"

subsection \<open>Append-only records\<close>

text \<open>
  \<open>save\<close> and \<open>delete\<close> of one object; \<open>adding\<close> for an object that was not read from its table. Django
  inserts such an object outright when its key has a default; a playback event has no default key,
  and there a row with the same key is updated.
\<close>

definition playback_event_save :: "bool \<Rightarrow> playback_event \<Rightarrow> db \<Rightarrow> db result" where
  "playback_event_save adding e s =
     (if \<not> adding then Inl (ValidationError [] ''Playback evidence is immutable.'')
      else if lookup_by pe_id (pe_id e) (playback_events s) \<noteq> None
      then Inr (s\<lparr>playback_events := save_by pe_id e (playback_events s)\<rparr>)
      else Inr (s\<lparr>playback_events := playback_events s @ [e]\<rparr>))"

definition playback_event_delete :: "playback_event \<Rightarrow> db \<Rightarrow> db result" where
  "playback_event_delete e s = Inl (ValidationError [] ''Playback evidence cannot be deleted.'')"

definition correction_save :: "bool \<Rightarrow> playback_correction \<Rightarrow> db \<Rightarrow> db result" where
  "correction_save adding c s =
     (if \<not> adding then Inl (ValidationError [] ''Playback corrections are append-only.'')
      else if lookup_by pc_id (pc_id c) (corrections s) \<noteq> None then Inl (IntegrityError ''playbackcorrection_pkey'')
      else if lookup_by pe_id (pc_event c) (playback_events s) = None then Inl (IntegrityError ''playbackcorrection_event'')
      else Inr (s\<lparr>corrections := corrections s @ [c]\<rparr>))"

definition correction_delete :: "playback_correction \<Rightarrow> db \<Rightarrow> db result" where
  "correction_delete c s = Inl (ValidationError [] ''Playback corrections are append-only.'')"

definition operational_event_save :: "bool \<Rightarrow> operational_event_row \<Rightarrow> db \<Rightarrow> db result" where
  "operational_event_save adding e s =
     (if \<not> adding then Inl (ValidationError [] ''Operational events are append-only.'')
      else if lookup_by oe_id (oe_id e) (operational_events s) \<noteq> None then Inl (IntegrityError ''operationalevent_pkey'')
      else Inr (s\<lparr>operational_events := operational_events s @ [e]\<rparr>))"

definition audit_event_save :: "bool \<Rightarrow> audit_event \<Rightarrow> db \<Rightarrow> db result" where
  "audit_event_save adding a s =
     (if \<not> adding then Inl (ValidationError [] ''Audit events are immutable.'')
      else Inr (s\<lparr>audits := audits s @ [a\<lparr>au_id := next_pk s\<rparr>], next_pk := next_pk s + 1\<rparr>))"

definition audit_event_delete :: "audit_event \<Rightarrow> db \<Rightarrow> db result" where
  "audit_event_delete a s = Inl (ValidationError [] ''Audit events cannot be deleted.'')"

text \<open>The page that adds a correction: it is signed by the user who adds it, and audited.\<close>

definition correction_admin_save ::
  "clock \<Rightarrow> user \<Rightarrow> bool \<Rightarrow> playback_correction \<Rightarrow> db \<Rightarrow> db result" where
  "correction_admin_save clk actor change posted s =
     bind_result (require (site_permission actor \<and> \<not> change) (PermissionDenied [])) (\<lambda>u0.
     let c = posted\<lparr>pc_created_by := us_id actor, pc_created_at := clk 0\<rparr> in
     bind_result (correction_save (\<not> change) c s) (\<lambda>t.
     Inr (audit (clk 1) (Some (us_id actor)) ''playback.correction.append'' ''signage.playbackcorrection''
       (uuid_str (pc_id c)) [(''event'', JStr (uuid_str (pc_event c)))] t)))"

subsection \<open>Runs of saves\<close>

type_synonym admin_request = "clock \<times> user \<times> id option \<times> hardware_qualification"

fun admin_request :: "(hardware_qualification \<Rightarrow> bool) \<Rightarrow> admin_request \<Rightarrow> db \<Rightarrow> db" where
  "admin_request fields_ok (clk, actor, change, posted) s =
     (case qualification_admin_save fields_ok clk actor change posted s of Inl e \<Rightarrow> s | Inr t \<Rightarrow> t)"

definition qualification_ok :: "hardware_qualification \<Rightarrow> bool" where
  "qualification_ok q = (hq_approved_for_pilot q \<longrightarrow>
     hq_approved_at q \<noteq> None \<and> diagonal_qualified (hq_display_diagonal q) \<and> hq_security_patch_level q \<noteq> [])"

definition qualifications_ok :: "db \<Rightarrow> bool" where
  "qualifications_ok s = (distinct (map hq_id (qualifications s)) \<and>
     (\<forall>q\<in>set (qualifications s). hq_id q < next_pk s \<and> qualification_ok q))"

text \<open>How an approved row may go on: same evidence, same time of approval, never approved again.\<close>

definition approval_kept :: "hardware_qualification \<Rightarrow> hardware_qualification \<Rightarrow> bool" where
  "approval_kept a b = (same_evidence a b \<and> hq_approved_at b = hq_approved_at a
     \<and> (hq_approved_for_pilot b \<longrightarrow> hq_approved_for_pilot a))"

lemma approval_kept_refl [simp]: "approval_kept a a"
  by (simp add: approval_kept_def same_evidence_def list_all_iff)

lemma approval_kept_trans: "approval_kept a b \<Longrightarrow> approval_kept b c \<Longrightarrow> approval_kept a c"
  by (auto simp: approval_kept_def same_evidence_def list_all_iff)

lemma qualification_clean_Inr:
  assumes "qualification_clean original q = Inr u"
  shows "hq_approved_for_pilot q \<longrightarrow> diagonal_qualified (hq_display_diagonal q) \<and> hq_security_patch_level q \<noteq> []"
    and "original = Some r \<Longrightarrow> hq_approved_at r \<noteq> None \<Longrightarrow>
      same_evidence r q \<and> (hq_approved_for_pilot q \<longrightarrow> hq_approved_for_pilot r)"
  using assms by (auto simp: qualification_clean_def bind_result_Inr_iff split: if_splits option.splits)

lemma qualification_save_Inr:
  assumes "qualification_save fields_ok now adding q s = Inr (r, t)"
  shows "r = q\<lparr>hq_approved_at := hq_approved_at r\<rparr>"
    and "hq_approved_for_pilot q \<Longrightarrow> hq_approved_at r \<noteq> None"
    and "\<not> adding \<Longrightarrow> hq_approved_at q \<noteq> None \<Longrightarrow> hq_approved_at r = hq_approved_at q"
    and "qualification_clean (if adding then None else find_qualification (hq_id r) s) r = Inr ()"
    and "t = (if adding then s\<lparr>qualifications := qualifications s @ [r], next_pk := next_pk s + 1\<rparr>
              else s\<lparr>qualifications := save_by hq_id r (qualifications s)\<rparr>)"
  using assms by (auto simp: qualification_save_def Let_def bind_result_Inr_iff split: if_splits)

lemma admin_save_cases:
  assumes "qualification_admin_save fields_ok clk actor change posted s = Inr t"
  obtains (create) r where "qualifications t = qualifications s @ [r]" "hq_id r = next_pk s" "qualification_ok r"
      "next_pk s < next_pk t"
  | (change) r old where "find_qualification (hq_id r) s = Some old" "qualifications t = save_by hq_id r (qualifications s)"
      "qualification_ok r" "hq_approved_at old \<noteq> None \<longrightarrow> approval_kept old r" "next_pk s \<le> next_pk t"
proof (cases change)
  case None
  let ?q = "posted\<lparr>hq_id := next_pk s, hq_approved_at := None, hq_legacy_passes := [False, False]\<rparr>"
  obtain r u where r: "qualification_save fields_ok (clk 0) True ?q s = Inr (r, u)"
    and t: "qualifications t = qualifications u" "next_pk u < next_pk t"
    using assms None by (auto simp: qualification_admin_save_def bind_result_Inr_iff audit_def)
  note f = qualification_save_Inr [OF r]
  have "hq_id r = next_pk s" "hq_approved_for_pilot r = hq_approved_for_pilot ?q"
    by (subst f(1), simp)+
  moreover have "qualification_ok r"
    using qualification_clean_Inr(1) [OF f(4)] f(2) calculation by (auto simp: qualification_ok_def)
  ultimately show ?thesis using create [of r] f(5) t by simp
next
  case (Some i)
  obtain old where old: "find_qualification i s = Some old"
    using assms Some by (auto simp: qualification_admin_save_def bind_result_Inr_iff split: option.splits)
  let ?q = "posted\<lparr>hq_id := i, hq_approved_at := hq_approved_at old, hq_legacy_passes := hq_legacy_passes old\<rparr>"
  obtain r u where r: "qualification_save fields_ok (clk 0) False ?q s = Inr (r, u)"
    and t: "qualifications t = qualifications u" "next_pk u < next_pk t"
    using assms Some old by (auto simp: qualification_admin_save_def bind_result_Inr_iff audit_def)
  note f = qualification_save_Inr [OF r]
  have q: "hq_id r = i" "hq_approved_for_pilot r = hq_approved_for_pilot ?q" by (subst f(1), simp)+
  have "qualification_ok r"
    using qualification_clean_Inr(1) [OF f(4)] f(2) q by (auto simp: qualification_ok_def)
  moreover have "hq_approved_at old \<noteq> None \<longrightarrow> approval_kept old r"
  proof
    assume a: "hq_approved_at old \<noteq> None"
    then have "hq_approved_at r = hq_approved_at old" using f(3) by simp
    moreover have "same_evidence old r \<and> (hq_approved_for_pilot r \<longrightarrow> hq_approved_for_pilot old)"
      using qualification_clean_Inr(2) [OF f(4)] a old q by simp
    ultimately show "approval_kept old r" by (simp add: approval_kept_def)
  qed
  ultimately show ?thesis using change [of r old] old q f(5) t by simp
qed

lemma admin_request_ok:
  assumes ok: "qualifications_ok s"
  shows "qualifications_ok (admin_request fields_ok req s)"
    and "find_qualification i s = Some q \<Longrightarrow> hq_approved_at q \<noteq> None \<Longrightarrow>
      \<exists>r. find_qualification i (admin_request fields_ok req s) = Some r \<and> approval_kept q r"
proof -
  obtain clk actor ch posted where req: "req = (clk, actor, ch, posted)" by (cases req)
  let ?t = "admin_request fields_ok req s"
  have "qualifications_ok ?t \<and> (\<forall>i q. find_qualification i s = Some q \<longrightarrow> hq_approved_at q \<noteq> None \<longrightarrow>
      (\<exists>r. find_qualification i ?t = Some r \<and> approval_kept q r))"
  proof (cases "qualification_admin_save fields_ok clk actor ch posted s")
    case (Inl e)
    then show ?thesis using ok by (auto simp: req)
  next
    case (Inr t)
    from Inr show ?thesis
    proof (cases rule: admin_save_cases)
      case (create r)
      have "qualifications_ok t" using ok create
        by (auto simp: qualifications_ok_def)
      moreover have "find_qualification i t = Some q" if "find_qualification i s = Some q" for i q
        using that create(1) by (simp add: find_qualification_def table_simps)
      ultimately show ?thesis using Inr by (auto simp: req)
    next
      case (change r old)
      have old: "old \<in> set (qualifications s)" "hq_id old = hq_id r"
        using lookup_by_SomeD change(1) unfolding find_qualification_def by fastforce+
      then have "hq_id r < next_pk s" using ok by (auto simp: qualifications_ok_def)
      then have "qualifications_ok t" using ok change(2,3,5)
        by (auto simp: qualifications_ok_def table_simps dest!: save_by_mem)
      moreover have "\<exists>r. find_qualification i t = Some r \<and> approval_kept q r"
        if "find_qualification i s = Some q" "hq_approved_at q \<noteq> None" for i q
        using that change(1,2,4) by (auto simp: find_qualification_def table_simps)
      ultimately show ?thesis using Inr by (simp add: req)
    qed
  qed
  then show "qualifications_ok ?t"
    and "find_qualification i s = Some q \<Longrightarrow> hq_approved_at q \<noteq> None \<Longrightarrow>
      \<exists>r. find_qualification i ?t = Some r \<and> approval_kept q r"
    by blast+
qed

subsection \<open>Properties\<close>

text \<open>C9: Approved qualification evidence is final. Whatever the owners save on the administration page, in
  any order, a row that was ever approved keeps its evidence and its time of approval, and once
  revoked it is never approved again; every approved row has a time of approval, a display from
  9.00 to 12.00 inches and a security patch level.\<close>

theorem qualification_evidence_final:
  assumes "qualifications_ok s" and "t = fold (admin_request fields_ok) reqs s"
  shows "qualifications_ok t \<and> (\<forall>i q. find_qualification i s = Some q \<and> hq_approved_at q \<noteq> None \<longrightarrow>
     (\<exists>r. find_qualification i t = Some r \<and> approval_kept q r))"
  using assms
proof (induction reqs arbitrary: s)
  case Nil
  then show ?case by auto
next
  case (Cons req reqs)
  let ?u = "admin_request fields_ok req s"
  have ih: "qualifications_ok t" "\<And>i q. find_qualification i ?u = Some q \<Longrightarrow> hq_approved_at q \<noteq> None \<Longrightarrow>
      \<exists>r. find_qualification i t = Some r \<and> approval_kept q r"
    using Cons.IH [OF admin_request_ok(1) [OF Cons.prems(1)]] Cons.prems(2) by auto
  have "\<exists>r. find_qualification i t = Some r \<and> approval_kept q r"
    if q: "find_qualification i s = Some q" "hq_approved_at q \<noteq> None" for i q
  proof -
    obtain v where v: "find_qualification i ?u = Some v" "approval_kept q v"
      using admin_request_ok(2) [OF Cons.prems(1) q] by blast
    then have "hq_approved_at v \<noteq> None" using q(2) by (simp add: approval_kept_def)
    then show ?thesis using ih(2) [OF v(1)] v(2) approval_kept_trans by blast
  qed
  then show ?case using ih(1) by blast
qed

definition tested_build :: hardware_qualification where
  "tested_build = \<lparr>hq_id = 3, hq_model_name = ''M'', hq_firmware_version = ''F'', hq_android_version = ''13'',
     hq_security_patch_level = ''P'', hq_display_diagonal = Some 1000, hq_tested_by = 1, hq_test_date = 0,
     hq_evidence_reference = [], hq_legacy_passes = [False, False], hq_recorded_passes = (\<lambda>f. False),
     hq_approved_for_pilot = True, hq_approved_at = Some 5\<rparr>"

definition build_db :: db where
  "build_db = accounts_db\<lparr>qualifications := [tested_build]\<rparr>"

theorem qualification_evidence_final_witness:
  "\<exists>r. find_qualification 3 (fold (admin_request (\<lambda>q. True))
       [(\<lambda>n. 9, owner_row, Some 3, tested_build\<lparr>hq_firmware_version := ''G''\<rparr>),
        (\<lambda>n. 9, owner_row, Some 3, tested_build\<lparr>hq_approved_for_pilot := False\<rparr>)] build_db) = Some r
     \<and> approval_kept tested_build r"
proof -
  have "qualifications_ok build_db" "find_qualification 3 build_db = Some tested_build" "hq_approved_at tested_build \<noteq> None"
    by (simp_all add: qualifications_ok_def qualification_ok_def build_db_def accounts_db_def empty_db_def
        tested_build_def diagonal_qualified_def find_qualification_def table_simps)
  then show ?thesis using qualification_evidence_final by blast
qed

text \<open>Corrections add to the evidence and never replace it. A correction added on the administration
  page refers to a stored event, is signed by the owner who adds it and audited; all events and all
  earlier corrections stay as they are. Changing or deleting a correction, changing an event that
  was read from the table, deleting one, and changing or deleting an audit event are refused.\<close>

theorem corrections_append_only:
  "(\<forall>clk actor posted t. correction_admin_save clk actor False posted s = Inr t \<longrightarrow>
      (\<exists>c a. corrections t = corrections s @ [c] \<and> pc_created_by c = us_id actor \<and> is_owner actor
        \<and> (\<exists>e\<in>set (playback_events s). pe_id e = pc_event c) \<and> playback_events t = playback_events s
        \<and> audits t = audits s @ [a] \<and> au_actor a = Some (us_id actor) \<and> au_action a = ''playback.correction.append''))
   \<and> (\<forall>clk actor posted. correction_admin_save clk actor True posted s = Inl (PermissionDenied []))
   \<and> (\<forall>c. \<exists>m. correction_save False c s = Inl (ValidationError [] m) \<and> correction_delete c s = Inl (ValidationError [] m))
   \<and> (\<forall>e. \<exists>m n. playback_event_save False e s = Inl (ValidationError [] m) \<and> playback_event_delete e s = Inl (ValidationError [] n))
   \<and> (\<forall>a. \<exists>m n. audit_event_save False a s = Inl (ValidationError [] m) \<and> audit_event_delete a s = Inl (ValidationError [] n))"
proof (intro conjI allI impI)
  fix clk actor posted t
  assume run: "correction_admin_save clk actor False posted s = Inr t"
  let ?c = "posted\<lparr>pc_created_by := us_id actor, pc_created_at := clk 0\<rparr>"
  obtain u where u: "site_permission actor" "correction_save True ?c s = Inr u"
    and t: "t = audit (clk 1) (Some (us_id actor)) ''playback.correction.append'' ''signage.playbackcorrection''
       (uuid_str (pc_id ?c)) [(''event'', JStr (uuid_str (pc_event ?c)))] u"
    using run by (auto simp: correction_admin_save_def bind_result_Inr_iff Let_def)
  have c: "u = s\<lparr>corrections := corrections s @ [?c]\<rparr>" "lookup_by pe_id (pc_event ?c) (playback_events s) \<noteq> None"
    using u(2) by (auto simp: correction_save_def split: if_splits)
  then obtain e where e: "lookup_by pe_id (pc_event ?c) (playback_events s) = Some e" by blast
  show "\<exists>c a. corrections t = corrections s @ [c] \<and> pc_created_by c = us_id actor \<and> is_owner actor
        \<and> (\<exists>e\<in>set (playback_events s). pe_id e = pc_event c) \<and> playback_events t = playback_events s
        \<and> audits t = audits s @ [a] \<and> au_actor a = Some (us_id actor) \<and> au_action a = ''playback.correction.append''"
    using lookup_by_SomeD [OF e] u(1)
    by (intro exI [of _ ?c]) (auto simp: t c(1) audit_def site_permission_def)
qed (simp_all add: correction_admin_save_def correction_save_def correction_delete_def playback_event_save_def
    playback_event_delete_def audit_event_save_def audit_event_delete_def require_def)

definition stored_event :: playback_event where
  "stored_event = \<lparr>pe_id = 10, pe_batch = 9, pe_playlist_item = 6, pe_started_at = 0, pe_ended_at = Some 5,
     pe_duration_ms = 5, pe_status = Failed, pe_failure_reason = ''x''\<rparr>"

definition good_correction :: playback_correction where
  "good_correction = \<lparr>pc_id = 11, pc_event = 10, pc_reason = ''seen'', pc_replacement_status = Some Completed,
     pc_created_by = 0, pc_created_at = 0\<rparr>"

theorem corrections_append_only_witness:
  "\<exists>t c. correction_admin_save (\<lambda>n. 9) owner_row False good_correction (accounts_db\<lparr>playback_events := [stored_event]\<rparr>) = Inr t
     \<and> corrections t = [c] \<and> pc_created_by c = 1"
proof -
  let ?s = "accounts_db\<lparr>playback_events := [stored_event]\<rparr>"
  have "(case correction_admin_save (\<lambda>n. 9) owner_row False good_correction ?s of Inl e \<Rightarrow> False | Inr t \<Rightarrow> True)"
    by code_simp
  then obtain t where t: "correction_admin_save (\<lambda>n. 9) owner_row False good_correction ?s = Inr t"
    by (auto split: sum.splits)
  have "corrections ?s = []" "us_id owner_row = 1" by (simp_all add: accounts_db_def empty_db_def owner_row_def)
  then show ?thesis using corrections_append_only [of ?s] t by fastforce
qed

text \<open>
  The guard of a playback event looks only at whether the object was read from the table: a new
  object under the key of a stored event replaces it.
\<close>

lemma playback_event_overwritten:
  assumes "lookup_by pe_id (pe_id e) (playback_events s) = Some old"
  shows "\<exists>t. playback_event_save True e s = Inr t \<and> lookup_by pe_id (pe_id e) (playback_events t) = Some e"
  using assms by (simp add: playback_event_save_def table_simps)

end
