(* ===== verification/Reports.thy ===== *)
theory Reports
  imports Playback Accounts Py_Date "HOL-Library.List_Lexorder" "HOL-Library.Multiset"
begin

section \<open>Reports and maps\<close>

text \<open>
  The read-only views of the dashboard: the proof-of-play export with its CSV writer, the location
  history and the map tiles, and the counts of the start page. Django's date readers and the tile
  database are arguments. The rows of the export are taken from the state in which it is requested.
  Query parameters are a function that gives the empty text for a missing one.
\<close>

subsection \<open>CSV\<close>

datatype cell = Text string | Number int | Flag bool

definition strip_chars :: "char list" where
  "strip_chars = [CHR '' '', CHR 0x09, CHR 0x0D, CHR 0x0A, CHR 0x0B, CHR 0x0C, CHR 0x00]"

definition formula_start :: "string \<Rightarrow> bool" where
  "formula_start s = (case dropWhile (\<lambda>c. c \<in> set strip_chars) s of
       [] \<Rightarrow> False | c # rest \<Rightarrow> c \<in> set [CHR ''='', CHR ''+'', CHR ''-'', CHR ''@''])"

definition csv_cell :: "cell \<Rightarrow> cell" where
  "csv_cell v = (case v of Text s \<Rightarrow> if formula_start s then Text (CHR 0x27 # s) else v | _ \<Rightarrow> v)"

fun cell_text :: "cell \<Rightarrow> string" where
  "cell_text (Text s) = s"
| "cell_text (Number n) = int_str n"
| "cell_text (Flag b) = (if b then ''True'' else ''False'')"

text \<open>\<open>csv.writer\<close> with its default dialect: minimal quoting, quotes doubled, lines ending in CR LF.\<close>

definition dquote :: char where
  "dquote = CHR 0x22"

definition needs_quotes :: "string \<Rightarrow> bool" where
  "needs_quotes s = list_ex (\<lambda>c. c \<in> set [CHR '','', dquote, CHR 0x0D, CHR 0x0A]) s"

definition quoted :: "string \<Rightarrow> string" where
  "quoted s = dquote # concat (map (\<lambda>c. if c = dquote then [dquote, dquote] else [c]) s) @ [dquote]"

definition csv_field :: "string \<Rightarrow> string" where
  "csv_field s = (if needs_quotes s then quoted s else s)"

definition csv_line :: "string list \<Rightarrow> string" where
  "csv_line cells =
     (if cells = [[]] then quoted [] else join '','' (map csv_field cells)) @ [CHR 0x0D, CHR 0x0A]"

subsection \<open>The proof-of-play export\<close>

type_synonym query = "string \<Rightarrow> string"

text \<open>What \<open>parse_date\<close> does: no date, an exception for a date that does not exist, or a day.\<close>

datatype date_text = NoDate | NoSuchDay | Day int

type_synonym date_reader = "string \<Rightarrow> date_text"

record joined_event =
  je_event :: playback_event
  je_batch :: playback_batch_row
  je_device :: device
  je_used :: "(vehicle \<times> driver) option"
  je_playlist :: playlist
  je_media :: media_asset

definition joined_use :: "id option \<Rightarrow> db \<Rightarrow> (vehicle \<times> driver) option option" where
  "joined_use a s = (case a of None \<Rightarrow> Some None
     | Some i \<Rightarrow> Option.bind (lookup_by da_id i (assignments s)) (\<lambda>x.
         Option.bind (lookup_by ve_id (da_vehicle x) (vehicles s)) (\<lambda>v.
         Option.bind (lookup_by dr_id (da_driver x) (drivers s)) (\<lambda>d. Some (Some (v, d))))))"

definition joined_row :: "db \<Rightarrow> playback_event \<Rightarrow> joined_event option" where
  "joined_row s e =
     Option.bind (lookup_by pb_id (pe_batch e) (playback_batches s)) (\<lambda>b.
     Option.bind (lookup_by dv_id (pb_device b) (devices s)) (\<lambda>d.
     Option.bind (joined_use (pb_assignment b) s) (\<lambda>u.
     Option.bind (lookup_by pl_id (pb_playlist b) (playlists s)) (\<lambda>p.
     Option.bind (lookup_by pi_id (pe_playlist_item e) (playlist_items s)) (\<lambda>i.
     Option.bind (lookup_by ma_id (pi_media i) (media_assets s)) (\<lambda>m.
     Some \<lparr>je_event = e, je_batch = b, je_device = d, je_used = u, je_playlist = p, je_media = m\<rparr>))))))"

definition joined_rows :: "db \<Rightarrow> joined_event list" where
  "joined_rows s = List.map_filter (joined_row s) (playback_events s)"

definition status_text :: "playback_status \<Rightarrow> string" where
  "status_text p = (case p of Completed \<Rightarrow> ''completed'' | Interrupted \<Rightarrow> ''interrupted'' | Failed \<Rightarrow> ''failed'')"

text \<open>The filters on equal values; one for a medium is read as a UUID, which raises when it is none.\<close>

definition value_matches :: "string \<Rightarrow> string \<Rightarrow> joined_event \<Rightarrow> bool" where
  "value_matches parameter v j =
     (if parameter = ''device'' then dv_label (je_device j) = v
      else if parameter = ''vehicle'' then (case je_used j of None \<Rightarrow> False | Some (ve, dr) \<Rightarrow> ve_registration ve = v)
      else if parameter = ''driver'' then (case je_used j of None \<Rightarrow> False | Some (ve, dr) \<Rightarrow> dr_internal_id dr = v)
      else if parameter = ''media'' then parse_uuid v = Some (ma_id (je_media j))
      else if parameter = ''campaign'' then ma_business_name (je_media j) = v
      else status_text (pe_status (je_event j)) = v)"

definition report_parameters :: "string list" where
  "report_parameters = [''device'', ''vehicle'', ''driver'', ''media'', ''campaign'', ''status'']"

definition filter_values :: "query \<Rightarrow> joined_event list \<Rightarrow> joined_event list result" where
  "filter_values q rows =
     fold_result (\<lambda>parameter rs.
        let v = strip (q parameter) in
        if v = [] then Inr rs
        else if parameter = ''media'' \<and> parse_uuid v = None then Inl (ServerError ''not a valid UUID'')
        else Inr (filter (value_matches parameter v) rs)) report_parameters rows"

text \<open>Midnight at the start of a day, or of the day after it; the last day of the calendar has none after it.\<close>

definition local_midnight :: "int \<Rightarrow> time" where
  "local_midnight day = days day - local_offset"

definition last_day :: int where
  "last_day = 2932896"

definition filter_dates :: "date_reader \<Rightarrow> query \<Rightarrow> joined_event list \<Rightarrow> joined_event list result" where
  "filter_dates read_date q rows =
     fold_result (\<lambda>(parameter, is_start) rs.
        let raw = strip (q parameter) in
        if raw = [] then Inr rs
        else (case read_date raw of
            NoDate \<Rightarrow> Inl (ValidationError parameter ''Invalid date; use YYYY-MM-DD.'')
          | NoSuchDay \<Rightarrow> Inl (ServerError ''ValueError'')
          | Day d \<Rightarrow>
              if is_start then Inr (filter (\<lambda>j. local_midnight d \<le> pe_started_at (je_event j)) rs)
              else if last_day \<le> d then Inl (ServerError ''OverflowError'')
              else Inr (filter (\<lambda>j. pe_started_at (je_event j) < local_midnight (d + 1)) rs)))
       [(''date_from'', True), (''date_to'', False)] rows"

definition filter_offline :: "query \<Rightarrow> joined_event list \<Rightarrow> joined_event list" where
  "filter_offline q rows =
     (let offline = lower (q ''offline'') in
      if offline \<in> set [''true'', ''false'']
      then filter (\<lambda>j. pb_captured_offline (je_batch j) = (offline = ''true'')) rows else rows)"

text \<open>The newest first, and at most the configured number.\<close>

definition report_events :: "settings \<Rightarrow> date_reader \<Rightarrow> query \<Rightarrow> db \<Rightarrow> joined_event list result" where
  "report_events st read_date q s =
     bind_result (filter_values q (joined_rows s)) (\<lambda>rs.
     bind_result (filter_dates read_date q rs) (\<lambda>rs.
     bind_result (require (0 \<le> st_csv_export_max_rows st) (ServerError ''Negative indexing is not supported.'')) (\<lambda>u.
     Inr (take (nat (st_csv_export_max_rows st))
            (sort_key (\<lambda>j. - pe_started_at (je_event j)) (filter_offline q rs))))))"

definition latest_correction :: "id \<Rightarrow> db \<Rightarrow> playback_status option" where
  "latest_correction e s =
     (case order_first (\<lambda>c. - pc_created_at c) (filter (\<lambda>c. pc_event c = e) (corrections s)) of
        None \<Rightarrow> None | Some c \<Rightarrow> pc_replacement_status c)"

definition report_state :: "time \<Rightarrow> joined_event \<Rightarrow> string" where
  "report_state exported_at j =
     (if max (pe_started_at (je_event j)) (pb_received_at (je_batch j)) + days 7 \<le> exported_at
      then ''final'' else ''provisional'')"

definition evidence_notice :: string where
  "evidence_notice = ''Commercially useful evidence; not independently audited or tamper-proof.''"

definition report_header :: "string list" where
  "report_header = [''event_id'', ''device'', ''vehicle'', ''driver_internal_id'', ''playlist'', ''media'', ''started_at'',
     ''status'', ''duration_ms'', ''captured_offline'', ''report_state'', ''latest_correction_status'',
     ''failure_category'', ''evidence_notice'']"

definition playlist_text :: "playlist \<Rightarrow> string" where
  "playlist_text p = pl_name p @ '' v'' @ int_str (pl_version p)"

definition report_cells :: "time \<Rightarrow> db \<Rightarrow> joined_event \<Rightarrow> cell list" where
  "report_cells exported_at s j =
     (let e = je_event j in
      map csv_cell
        [Text (uuid_str (pe_id e)), Text (dv_label (je_device j)),
         Text (case je_used j of None \<Rightarrow> [] | Some (ve, dr) \<Rightarrow> ve_registration ve),
         Text (case je_used j of None \<Rightarrow> [] | Some (ve, dr) \<Rightarrow> dr_internal_id dr),
         Text (playlist_text (je_playlist j)), Text (ma_title (je_media j)), Text (datetime_iso (pe_started_at e)),
         Text (status_text (pe_status e)), Number (pe_duration_ms e), Flag (pb_captured_offline (je_batch j)),
         Text (report_state exported_at j),
         Text (case latest_correction (pe_id e) s of None \<Rightarrow> [] | Some p \<Rightarrow> status_text p),
         Text (pe_failure_reason e), Text evidence_notice])"

definition report_metadata :: "settings \<Rightarrow> query \<Rightarrow> payload" where
  "report_metadata st q =
     [(''filters'', JObj (map (\<lambda>p. (p, JStr (q p)))
         (filter (\<lambda>p. q p \<noteq> []) (report_parameters @ [''date_from'', ''date_to'', ''offline''])))),
      (''max_rows'', JInt (st_csv_export_max_rows st))]"

definition playback_report_csv ::
  "settings \<Rightarrow> date_reader \<Rightarrow> clock \<Rightarrow> id \<Rightarrow> query \<Rightarrow> db \<Rightarrow> (string list \<times> db) result" where
  "playback_report_csv st read_date clk actor q s =
     bind_result (report_events st read_date q s) (\<lambda>events.
     Inr (csv_line report_header # map (\<lambda>j. csv_line (map cell_text (report_cells (clk 1) s j))) events,
          audit (clk 0) (Some actor) ''report.playback.export'' ''playback_event'' ''csv'' (report_metadata st q) s))"

subsection \<open>Location history and tiles\<close>

definition local_day :: "time \<Rightarrow> int" where
  "local_day t = (t + local_offset) div days 1"

definition parse_location_query_datetime :: "datetime_reader \<Rightarrow> string \<Rightarrow> time \<Rightarrow> time option" where
  "parse_location_query_datetime read v default_time =
     (if v = [] then Some default_time else map_option make_aware (read v))"

record location_answer =
  la_device :: id
  la_label :: string
  la_start :: time
  la_end :: time
  la_points :: "location_point list"

definition location_history :: "datetime_reader \<Rightarrow> time \<Rightarrow> query \<Rightarrow> db \<Rightarrow> location_answer result" where
  "location_history read now q s =
     (case parse_uuid (q ''device_id'') of
        None \<Rightarrow> Inl (ValidationError ''error'' ''device_id is required.'')
      | Some i \<Rightarrow> (case lookup_by dv_id i (devices s) of
          None \<Rightarrow> Inl Http404
        | Some d \<Rightarrow>
            (case (parse_location_query_datetime read (q ''start'') (local_midnight (local_day now)),
                   parse_location_query_datetime read (q ''end'') now) of
               (Some start, Some ending) \<Rightarrow>
                 if ending \<le> start then Inl (ValidationError ''error'' ''Invalid history time range.'')
                 else if start < now - days 30 \<or> now + minutes 5 < ending
                 then Inl (ValidationError ''error'' ''History must be within the preceding 30 days.'')
                 else if hours 24 < ending - start then Inl (ValidationError ''error'' ''History is limited to 24 hours.'')
                 else Inr \<lparr>la_device = dv_id d, la_label = dv_label d, la_start = start, la_end = ending,
                           la_points = sort_key lp_recorded_at (filter (\<lambda>p. lp_device p = dv_id d
                              \<and> start \<le> lp_recorded_at p \<and> lp_recorded_at p < ending) (location_points s))\<rparr>
             | _ \<Rightarrow> Inl (ValidationError ''error'' ''Invalid history time range.''))))"

text \<open>The last known point of every active device, by label.\<close>

definition location_latest :: "db \<Rightarrow> (device \<times> location_point option) list" where
  "location_latest s =
     map (\<lambda>d. (d, order_first (\<lambda>p. - lp_recorded_at p) (filter (\<lambda>p. lp_device p = dv_id d) (location_points s))))
       (sort_key dv_label (filter (\<lambda>d. dv_status d = Active) (devices s)))"

text \<open>
  A map tile: \<open>installed\<close> whether the database is a regular file, \<open>tiles\<close> its answer for a zoom, a
  column and a row counted from the south, \<open>Inl\<close> when it cannot be read.
\<close>

datatype tile_answer = TileError int string | Tile string bool

definition gzip_magic :: string where
  "gzip_magic = [CHR 0x1F, CHR 0x8B]"

definition location_tile ::
  "settings \<Rightarrow> bool \<Rightarrow> (int \<Rightarrow> int \<Rightarrow> int \<Rightarrow> string option result) \<Rightarrow> int \<Rightarrow> int \<Rightarrow> int \<Rightarrow> tile_answer" where
  "location_tile st installed tiles z x y =
     (if z < 0 \<or> x < 0 \<or> y < 0 \<or> st_openmaptiles_max_zoom st < z \<or> 2 ^ nat z \<le> x \<or> 2 ^ nat z \<le> y
      then TileError 404 ''Map tile is outside the configured bounds.''
      else if \<not> installed then TileError 503 ''Map tiles are not installed.''
      else (case tiles z x (2 ^ nat z - 1 - y) of
          Inl e \<Rightarrow> TileError 503 ''Map tiles are temporarily unavailable.''
        | Inr None \<Rightarrow> TileError 404 ''Map tile not found.''
        | Inr (Some b) \<Rightarrow> Tile b (startswith b gzip_magic)))"

subsection \<open>The start page\<close>

record day_counts =
  ct_day :: int
  ct_completed :: nat
  ct_interrupted :: nat
  ct_failed :: nat

definition events_on :: "int \<Rightarrow> playback_status \<Rightarrow> db \<Rightarrow> nat" where
  "events_on day p s = length (filter (\<lambda>e. local_day (pe_started_at e) = day \<and> pe_status e = p) (playback_events s))"

definition playback_chart :: "time \<Rightarrow> db \<Rightarrow> day_counts list" where
  "playback_chart now s =
     map (\<lambda>offset. let day = local_day now - 6 + offset in
            \<lparr>ct_day = day, ct_completed = events_on day Completed s, ct_interrupted = events_on day Interrupted s,
             ct_failed = events_on day Failed s\<rparr>) [0..6]"

definition chart_max :: "day_counts list \<Rightarrow> nat" where
  "chart_max chart = fold max (map (\<lambda>r. ct_completed r + ct_interrupted r + ct_failed r) chart) 1"

definition today_count :: "time \<Rightarrow> playback_status \<Rightarrow> db \<Rightarrow> nat" where
  "today_count now p s = (let today = local_day now in
     length (filter (\<lambda>e. local_midnight today \<le> pe_started_at e \<and> pe_started_at e < local_midnight (today + 1)
                         \<and> pe_status e = p) (playback_events s)))"

definition offline_count :: "time \<Rightarrow> db \<Rightarrow> nat" where
  "offline_count now s = length (filter (\<lambda>d. case dv_last_seen_at d of None \<Rightarrow> True | Some t \<Rightarrow> t < now - minutes 60) (devices s))"

text \<open>
  Everything the page shows. The open alerts come in the order of the table; the last publication is
  the greatest time, where PostgreSQL puts rows without one first. The clock is read once for the
  offline devices, once for the day and once for the playlist in force.
\<close>

record dashboard_page =
  dp_device_count :: nat
  dp_active_count :: nat
  dp_offline_count :: nat
  dp_unresolved_alerts :: "alert list"
  dp_unresolved_alert_count :: nat
  dp_ready_media_count :: nat
  dp_today :: day_counts
  dp_active_playlist :: "playlist option"
  dp_published_playlist :: "playlist option"
  dp_devices :: "device list"
  dp_playback_chart :: "day_counts list"
  dp_chart_max :: nat

definition unresolved_alerts :: "db \<Rightarrow> alert list" where
  "unresolved_alerts s = filter (\<lambda>a. al_acknowledged_at a = None) (alerts s)"

definition newest_publication :: "playlist \<Rightarrow> int \<times> time" where
  "newest_publication p = (case pl_published_at p of None \<Rightarrow> (0, 0) | Some t \<Rightarrow> (1, - t))"

definition dashboard :: "clock \<Rightarrow> db \<Rightarrow> dashboard_page" where
  "dashboard clk s =
     (let chart = playback_chart (clk 1) s in
      \<lparr>dp_device_count = length (devices s),
       dp_active_count = length (filter (\<lambda>d. dv_status d = Active) (devices s)),
       dp_offline_count = offline_count (clk 0) s,
       dp_unresolved_alerts = take 10 (unresolved_alerts s),
       dp_unresolved_alert_count = length (unresolved_alerts s),
       dp_ready_media_count = length (filter (\<lambda>m. ma_status m = Ready) (media_assets s)),
       dp_today = \<lparr>ct_day = local_day (clk 1), ct_completed = today_count (clk 1) Completed s,
         ct_interrupted = today_count (clk 1) Interrupted s, ct_failed = today_count (clk 1) Failed s\<rparr>,
       dp_active_playlist = active_playlist (clk 2) s,
       dp_published_playlist = order_first newest_publication (filter (\<lambda>p. pl_status p = Published) (playlists s)),
       dp_devices = take 20 (sort_key dv_label (devices s)),
       dp_playback_chart = chart, dp_chart_max = chart_max chart\<rparr>)"

subsection \<open>Lists\<close>

definition media_list :: "db \<Rightarrow> media_asset list" where
  "media_list s = sort_key (\<lambda>m. - ma_created_at m) (media_assets s)"

definition playlist_list :: "db \<Rightarrow> (playlist \<times> playlist_item list) list" where
  "playlist_list s =
     map (\<lambda>p. (p, filter (\<lambda>i. pi_playlist i = pl_id p) (sort_key pi_position (playlist_items s))))
       (sort_key (\<lambda>p. (- pl_starts_at p, - pl_version p)) (filter (\<lambda>p. pl_status p \<noteq> Cancelled) (playlists s)))"

text \<open>An owner who opens the list of devices sees the drivers, which is audited.\<close>

definition device_list :: "time \<Rightarrow> user \<Rightarrow> db \<Rightarrow> (device \<times> device_assignment list) list \<times> db" where
  "device_list now who s =
     (map (\<lambda>d. (d, active_assignments (dv_id d) s)) (sort_key dv_label (devices s)),
      if is_owner who
      then audit now (Some (us_id who)) ''driver.personal_data.view'' ''signage.driver'' ''device-list''
             [(''surface'', JStr ''device_list'')] s
      else s)"

definition unacknowledged_last :: "alert \<Rightarrow> (int \<times> time) \<times> time" where
  "unacknowledged_last a =
     ((case al_acknowledged_at a of None \<Rightarrow> (1, 0) | Some t \<Rightarrow> (0, t)), - al_created_at a)"

definition alert_list :: "db \<Rightarrow> alert list" where
  "alert_list s = take 200 (sort_key unacknowledged_last (alerts s))"

definition user_list :: "user \<Rightarrow> db \<Rightarrow> user list result" where
  "user_list who s = bind_result (owner_required who) (\<lambda>u. Inr (sort_key us_email (users s)))"

subsection \<open>Reading CSV back\<close>

text \<open>
  A reader of the writer's dialect: the state of the current field, the characters and fields read
  so far, and the rest of the text. Every row ends in CR LF.
\<close>

datatype csv_state = StartField | InField | InQuoted | QuoteSeen

fun read_csv :: "csv_state \<Rightarrow> string \<Rightarrow> string list \<Rightarrow> string \<Rightarrow> string list list option" where
  "read_csv st f row [] = (if st = StartField \<and> f = [] \<and> row = [] then Some [] else None)"
| "read_csv StartField f row (c # cs) =
     (if c = dquote then read_csv InQuoted f row cs
      else if c = CHR '','' then read_csv StartField [] (row @ [f]) cs
      else if c = CHR 0x0D then (case cs of [] \<Rightarrow> None | d # ds \<Rightarrow>
             if d = CHR 0x0A then map_option (\<lambda>rows. (row @ [f]) # rows) (read_csv StartField [] [] ds) else None)
      else read_csv InField (f @ [c]) row cs)"
| "read_csv InField f row (c # cs) =
     (if c = CHR '','' then read_csv StartField [] (row @ [f]) cs
      else if c = CHR 0x0D then (case cs of [] \<Rightarrow> None | d # ds \<Rightarrow>
             if d = CHR 0x0A then map_option (\<lambda>rows. (row @ [f]) # rows) (read_csv StartField [] [] ds) else None)
      else read_csv InField (f @ [c]) row cs)"
| "read_csv InQuoted f row (c # cs) =
     (if c = dquote then read_csv QuoteSeen f row cs else read_csv InQuoted (f @ [c]) row cs)"
| "read_csv QuoteSeen f row (c # cs) =
     (if c = dquote then read_csv InQuoted (f @ [c]) row cs
      else if c = CHR '','' then read_csv StartField [] (row @ [f]) cs
      else if c = CHR 0x0D then (case cs of [] \<Rightarrow> None | d # ds \<Rightarrow>
             if d = CHR 0x0A then map_option (\<lambda>rows. (row @ [f]) # rows) (read_csv StartField [] [] ds) else None)
      else None)"

text \<open>After a field, quoted or not, the reader is where a separator or the end of the row ends it.\<close>

definition ends_field :: "string \<Rightarrow> bool" where
  "ends_field rest = (\<exists>cs. rest = CHR '','' # cs \<or> rest = CHR 0x0D # CHR 0x0A # cs)"

definition after_field :: "string \<Rightarrow> string list \<Rightarrow> string \<Rightarrow> string list list option" where
  "after_field f row rest = (case rest of [] \<Rightarrow> None
     | c # cs \<Rightarrow> if c = CHR '','' then read_csv StartField [] (row @ [f]) cs
         else map_option (\<lambda>rows. (row @ [f]) # rows) (read_csv StartField [] [] (tl cs)))"

lemma read_ends:
  assumes "ends_field rest" and "st = StartField \<or> st = InField \<or> st = QuoteSeen"
  shows "read_csv st f row rest = after_field f row rest"
  using assms by (auto simp: ends_field_def after_field_def dquote_def)

lemma needs_quotes_Cons:
  "needs_quotes (c # s) \<longleftrightarrow> c = CHR '','' \<or> c = dquote \<or> c = CHR 0x0D \<or> c = CHR 0x0A \<or> needs_quotes s"
  by (auto simp: needs_quotes_def)

lemma read_plain:
  "\<not> needs_quotes s \<Longrightarrow> read_csv InField f row (s @ rest) = read_csv InField (f @ s) row rest"
proof (induction s arbitrary: f)
  case (Cons c s)
  then show ?case by (simp add: needs_quotes_Cons)
qed simp

lemma read_quoted:
  "read_csv InQuoted f row (concat (map (\<lambda>c. if c = dquote then [dquote, dquote] else [c]) s) @ dquote # rest)
     = read_csv QuoteSeen (f @ s) row rest"
  by (induction s arbitrary: f) simp_all

lemma read_field:
  assumes "ends_field rest"
  shows "read_csv StartField [] row (csv_field s @ rest) = after_field s row rest"
proof (cases "needs_quotes s")
  case True
  then show ?thesis using read_quoted [of "[]" row s rest] read_ends [OF assms] by (simp add: csv_field_def quoted_def)
next
  case False
  show ?thesis
  proof (cases s)
    case Nil
    then show ?thesis using read_ends [OF assms] by (simp add: csv_field_def needs_quotes_def)
  next
    case (Cons c cs)
    then have "read_csv StartField [] row (s @ rest) = read_csv InField ([] @ s) row rest"
      using False read_plain [of cs "[c]" row rest] by (simp add: needs_quotes_Cons)
    then show ?thesis using False read_ends [OF assms] by (simp add: csv_field_def)
  qed
qed

lemma read_fields:
  assumes "cells \<noteq> []"
  shows "read_csv StartField [] row (join '','' (map csv_field cells) @ [CHR 0x0D, CHR 0x0A] @ rest)
     = map_option (\<lambda>rows. (row @ cells) # rows) (read_csv StartField [] [] rest)"
  using assms
proof (induction cells arbitrary: row rule: list_nonempty_induct)
  case (single x)
  show ?case using read_field [of "CHR 0x0D # CHR 0x0A # rest" row x]
    by (simp add: ends_field_def after_field_def)
next
  case (cons x xs)
  have "join '','' (map csv_field (x # xs)) = csv_field x @ CHR '','' # join '','' (map csv_field xs)"
    using cons.hyps by (cases xs) simp_all
  then show ?case
    using read_field [of "CHR '','' # join '','' (map csv_field xs) @ [CHR 0x0D, CHR 0x0A] @ rest" row x]
      cons.IH [of "row @ [x]"] by (simp add: ends_field_def after_field_def)
qed

lemma read_line:
  "cells \<noteq> [] \<Longrightarrow> read_csv StartField [] [] (csv_line cells @ rest) =
     map_option (\<lambda>rows. cells # rows) (read_csv StartField [] [] rest)"
  using read_fields [of cells "[]" rest]
  by (auto simp: csv_line_def quoted_def dquote_def)

lemma read_lines:
  "[] \<notin> set rows \<Longrightarrow> read_csv StartField [] [] (concat (map csv_line rows)) = Some rows"
  by (induction rows) (auto simp: read_line)

subsection \<open>Spreadsheet formulas\<close>

fun safe_cell :: "cell \<Rightarrow> bool" where
  "safe_cell (Text s) = (\<not> formula_start s)"
| "safe_cell c = True"

lemma csv_cell_safe: "safe_cell (csv_cell v)"
  by (cases v) (auto simp: csv_cell_def formula_start_def strip_chars_def)

lemma csv_cell_idem: "safe_cell v \<Longrightarrow> csv_cell v = v"
  by (cases v) (simp_all add: csv_cell_def)

subsection \<open>What an export selects\<close>

lemma le_div_day: "d \<le> t div n \<longleftrightarrow> d * n \<le> t" if "0 < n" for d t n :: int
proof
  assume "d \<le> t div n"
  then have "d * n \<le> t div n * n" using that by (simp add: mult_right_mono)
  moreover have "t div n * n \<le> t" using pos_mod_sign [OF that, of t] div_mult_mod_eq [of t n] by linarith
  ultimately show "d * n \<le> t" by linarith
next
  assume "d * n \<le> t"
  then have "d * n div n \<le> t div n" by (rule zdiv_mono1 [OF _ that])
  then show "d \<le> t div n" using that by simp
qed

lemma local_midnight_le: "local_midnight d \<le> t \<longleftrightarrow> d \<le> local_day t"
  using le_div_day [of "days 1" d "t + local_offset"] by (simp add: local_midnight_def local_day_def algebra_simps)

lemma before_next_midnight: "t < local_midnight (d + 1) \<longleftrightarrow> local_day t \<le> d"
  using local_midnight_le [of "d + 1" t] by linarith

lemma fold_filters:
  assumes "fold_result f ps rows = Inr rs"
    and "\<And>p xs ys. p \<in> set ps \<Longrightarrow> f p xs = Inr ys \<Longrightarrow> ys = filter (Q p) xs"
  shows "rs = filter (\<lambda>j. \<forall>p\<in>set ps. Q p j) rows"
  using assms
proof (induction ps arbitrary: rows)
  case (Cons p ps)
  then obtain xs where step: "f p rows = Inr xs" and more: "fold_result f ps xs = Inr rs"
    by (cases "f p rows") auto
  have "rs = filter (\<lambda>j. \<forall>p\<in>set ps. Q p j) xs" using Cons.IH [OF more] Cons.prems(2) by simp
  moreover have "xs = filter (Q p) rows" using Cons.prems(2) [OF _ step] by simp
  ultimately show ?case by (simp add: conj_commute)
qed simp

definition chosen :: "date_reader \<Rightarrow> query \<Rightarrow> joined_event \<Rightarrow> bool" where
  "chosen read_date q j \<longleftrightarrow>
     (\<forall>p\<in>set report_parameters. strip (q p) = [] \<or> value_matches p (strip (q p)) j)
     \<and> (strip (q ''date_from'') = []
        \<or> (case read_date (strip (q ''date_from'')) of Day d \<Rightarrow> d \<le> local_day (pe_started_at (je_event j)) | _ \<Rightarrow> False))
     \<and> (strip (q ''date_to'') = []
        \<or> (case read_date (strip (q ''date_to'')) of Day d \<Rightarrow> local_day (pe_started_at (je_event j)) \<le> d | _ \<Rightarrow> False))
     \<and> (lower (q ''offline'') = ''true'' \<longrightarrow> pb_captured_offline (je_batch j))
     \<and> (lower (q ''offline'') = ''false'' \<longrightarrow> \<not> pb_captured_offline (je_batch j))"

lemma filter_values_chosen:
  "filter_values q rows = Inr rs \<Longrightarrow>
     rs = filter (\<lambda>j. \<forall>p\<in>set report_parameters. strip (q p) = [] \<or> value_matches p (strip (q p)) j) rows"
  unfolding filter_values_def
  by (erule fold_filters) (auto simp: Let_def split: if_splits)

lemma filter_dates_chosen:
  assumes "filter_dates read_date q rows = Inr rs"
  shows "rs = filter (\<lambda>j. \<forall>p\<in>set [(''date_from'', True), (''date_to'', False)]. strip (q (fst p)) = []
       \<or> (case read_date (strip (q (fst p))) of
            Day d \<Rightarrow> (if snd p then d \<le> local_day (pe_started_at (je_event j)) else local_day (pe_started_at (je_event j)) \<le> d)
          | _ \<Rightarrow> False)) rows"
  using assms unfolding filter_dates_def
  by (rule fold_filters)
    (auto simp: Let_def local_midnight_le before_next_midnight split: if_splits date_text.splits)

lemma filter_offline_chosen:
  "filter_offline q rows = filter (\<lambda>j. (lower (q ''offline'') = ''true'' \<longrightarrow> pb_captured_offline (je_batch j))
     \<and> (lower (q ''offline'') = ''false'' \<longrightarrow> \<not> pb_captured_offline (je_batch j))) rows"
  by (auto simp: filter_offline_def Let_def intro: filter_cong)

lemma report_events_are:
  assumes "report_events st read_date q s = Inr js"
  shows "js = take (nat (st_csv_export_max_rows st))
     (sort_key (\<lambda>j. - pe_started_at (je_event j)) (filter (chosen read_date q) (joined_rows s)))"
proof -
  obtain as bs where vals: "filter_values q (joined_rows s) = Inr as"
    and bounds: "filter_dates read_date q as = Inr bs"
    and js: "js = take (nat (st_csv_export_max_rows st)) (sort_key (\<lambda>j. - pe_started_at (je_event j)) (filter_offline q bs))"
    using assms by (auto simp: report_events_def bind_result_Inr_iff)
  have "filter_offline q bs = filter (chosen read_date q) (joined_rows s)"
    unfolding filter_offline_chosen filter_dates_chosen [OF bounds] filter_values_chosen [OF vals]
    by (auto simp: chosen_def cong: date_text.case_cong intro!: filter_cong)
  then show ?thesis using js by simp
qed

lemma taken_first:
  fixes k :: "'a \<Rightarrow> 'b :: linorder"
  assumes "x \<in> set xs" and "x \<notin> set (take n (sort_key k xs))" and "y \<in> set (take n (sort_key k xs))"
  shows "k y \<le> k x"
proof -
  let ?l = "sort_key k xs"
  have "x \<in> set (drop n ?l)" using assms(1,2) set_append [of "take n ?l" "drop n ?l"] by (auto simp del: set_append)
  moreover have "sorted (map k (take n ?l) @ map k (drop n ?l))"
    by (simp add: sorted_sort_key flip: map_append)
  ultimately show ?thesis using assms(3) by (auto simp: sorted_append)
qed

lemma taken_all:
  "x \<in> set xs \<Longrightarrow> x \<notin> set (take n (sort_key k xs)) \<Longrightarrow> length (take n (sort_key k xs)) = n"
  by (cases "n \<le> length xs") auto

lemma taken_sorted: "sorted (map k (take n (sort_key k xs)))"
  by (metis sorted_sort_key sorted_wrt_take take_map)

lemma report_cells_safe: "c \<in> set (report_cells at s j) \<Longrightarrow> safe_cell c"
  by (auto simp: report_cells_def Let_def csv_cell_safe)

lemma report_cells_some [simp]: "report_cells at s j \<noteq> []"
  by (simp add: report_cells_def Let_def)

subsection \<open>Properties\<close>

text \<open>C18: An export can be read back and is harmless in a spreadsheet: a reader of the CSV dialect
  recovers from the streamed text exactly the header and, for every selected event in order, the
  fourteen cells of its row, whatever commas, quotes and line breaks the labels and titles contain;
  no cell starts a formula, also not behind blanks; and the only change of the state is one audit
  event naming who exported.\<close>

theorem csv_export_readable:
  assumes "playback_report_csv st read_date clk actor q s = Inr (rows, t)"
  shows "\<exists>events. report_events st read_date q s = Inr events
     \<and> read_csv StartField [] [] (concat rows)
         = Some (report_header # map (\<lambda>j. map cell_text (report_cells (clk 1) s j)) events)
     \<and> (\<forall>j. length (report_cells (clk 1) s j) = length report_header
          \<and> (\<forall>c\<in>set (report_cells (clk 1) s j). safe_cell c))
     \<and> t\<lparr>audits := audits s, next_pk := next_pk s\<rparr> = s
     \<and> (\<exists>e. audits t = audits s @ [e] \<and> au_actor e = Some actor \<and> au_action e = ''report.playback.export'')"
proof -
  obtain events where sel: "report_events st read_date q s = Inr events"
    and rows: "rows = map csv_line (report_header # map (\<lambda>j. map cell_text (report_cells (clk 1) s j)) events)"
    and t: "t = audit (clk 0) (Some actor) ''report.playback.export'' ''playback_event'' ''csv'' (report_metadata st q) s"
    using assms by (auto simp: playback_report_csv_def bind_result_Inr_iff comp_def)
  have "[] \<notin> set (report_header # map (\<lambda>j. map cell_text (report_cells (clk 1) s j)) events)"
    by (auto simp: report_header_def)
  then have "read_csv StartField [] [] (concat rows)
      = Some (report_header # map (\<lambda>j. map cell_text (report_cells (clk 1) s j)) events)"
    unfolding rows by (rule read_lines)
  moreover have "length (report_cells (clk 1) s j) = length report_header" for j
    by (simp add: report_cells_def report_header_def Let_def)
  ultimately show ?thesis
    using sel by (auto simp: t audit_def report_cells_safe)
qed

text \<open>C19: The export selects the right events: every one of them is an event that all given filters
  accept, with the dates compared as local days, both ends included; they come newest first and at
  most as many as configured; and an accepted event is left out only when the limit is reached, and
  then it is not newer than any that is in.\<close>

theorem report_selection:
  assumes "report_events st read_date q s = Inr js"
  shows "set js \<subseteq> {j \<in> set (joined_rows s). chosen read_date q j}
     \<and> sorted (map (\<lambda>j. - pe_started_at (je_event j)) js)
     \<and> length js \<le> nat (st_csv_export_max_rows st)
     \<and> (\<forall>j\<in>set (joined_rows s). chosen read_date q j \<longrightarrow> j \<notin> set js \<longrightarrow>
          length js = nat (st_csv_export_max_rows st)
          \<and> (\<forall>k\<in>set js. pe_started_at (je_event j) \<le> pe_started_at (je_event k)))"
proof -
  let ?n = "nat (st_csv_export_max_rows st)" and ?k = "\<lambda>j. - pe_started_at (je_event j)"
  let ?f = "filter (chosen read_date q) (joined_rows s)"
  have js: "js = take ?n (sort_key ?k ?f)" by (rule report_events_are [OF assms])
  have "set js \<subseteq> set ?f" unfolding js using set_take_subset [of ?n "sort_key ?k ?f"] by simp
  moreover have "length js = ?n \<and> (\<forall>k\<in>set js. pe_started_at (je_event j) \<le> pe_started_at (je_event k))"
    if "j \<in> set ?f" "j \<notin> set js" for j
    using that taken_all [of j ?f ?n ?k] taken_first [of j ?f ?n ?k] unfolding js by fastforce
  ultimately show ?thesis using taken_sorted [of ?k ?n ?f] by (auto simp: js)
qed

text \<open>The history of a device shows exactly its own points inside the asked window, oldest
  first, and the window is never empty, longer than a day, older than thirty days or more than five
  minutes in the future; without times it is the local day so far.\<close>

theorem location_history_window:
  assumes "location_history read now q s = Inr a"
  shows "parse_uuid (q ''device_id'') = Some (la_device a) \<and> la_device a \<in> dv_id ` set (devices s)
     \<and> la_start a < la_end a \<and> la_end a \<le> la_start a + hours 24
     \<and> now - days 30 \<le> la_start a \<and> la_end a \<le> now + minutes 5
     \<and> mset (la_points a) = filter_mset (\<lambda>p. lp_device p = la_device a \<and> la_start a \<le> lp_recorded_at p
          \<and> lp_recorded_at p < la_end a) (mset (location_points s))
     \<and> sorted (map lp_recorded_at (la_points a))
     \<and> (q ''start'' = [] \<and> q ''end'' = [] \<longrightarrow> la_end a = now \<and> local_day (la_start a) = local_day now)"
proof -
  obtain i d st en where i: "parse_uuid (q ''device_id'') = Some i" and d: "lookup_by dv_id i (devices s) = Some d"
    and st: "parse_location_query_datetime read (q ''start'') (local_midnight (local_day now)) = Some st"
    and en: "parse_location_query_datetime read (q ''end'') now = Some en"
    and ok: "\<not> en \<le> st" "\<not> (st < now - days 30 \<or> now + minutes 5 < en)" "\<not> hours 24 < en - st"
    and a: "a = \<lparr>la_device = dv_id d, la_label = dv_label d, la_start = st, la_end = en,
        la_points = sort_key lp_recorded_at (filter (\<lambda>p. lp_device p = dv_id d
           \<and> st \<le> lp_recorded_at p \<and> lp_recorded_at p < en) (location_points s))\<rparr>"
    using assms unfolding location_history_def by (auto split: option.splits if_splits)
  have "dv_id d = i" "d \<in> set (devices s)" using lookup_by_SomeD [OF d] by auto
  moreover have "local_day (local_midnight (local_day now)) = local_day now"
    by (simp add: local_day_def local_midnight_def)
  ultimately show ?thesis
    using i ok st en by (auto simp: a mset_filter parse_location_query_datetime_def)
qed

subsection \<open>Witnesses\<close>

text \<open>One event of an unassigned device; the title of its image would be a formula and has a comma.\<close>

definition titled_db :: db where
  "titled_db = empty_db\<lparr>
     devices := [\<lparr>dv_id = 7, dv_label = ''Unit 1'', dv_hardware_qualification = None, dv_status = Active,
        dv_android_id_hash = None, dv_hardware_model = [], dv_hardware_firmware_version = [],
        dv_hardware_security_patch = [], dv_app_version = [], dv_android_version = [], dv_last_seen_at = None,
        dv_last_heartbeat_recorded_at = None, dv_last_location_reported_at = None, dv_location_state = [],
        dv_location_state_updated_at = None, dv_location_planned_gap_until = None, dv_last_sync_at = None,
        dv_last_playback_at = None, dv_current_playlist = None, dv_disabled_at = None, dv_kiosk_pin_hash = [],
        dv_kiosk_pin_reset_at = None, dv_created_at = 0\<rparr>],
     media_assets := map (ma_title_update (\<lambda>t. ''=1,2'')) (media_assets play_db),
     playlists := [\<lparr>pl_id = 5, pl_name = ''P'', pl_version = 1, pl_status = Published, pl_starts_at = 0,
        pl_ends_at = 900000000, pl_published_at = Some 0, pl_is_urgent = False, pl_created_by = 1, pl_superseded_by = None\<rparr>],
     playlist_items := [\<lparr>pi_id = 6, pi_playlist = 5, pi_media = 11, pi_position = 1\<rparr>],
     playback_batches := [\<lparr>pb_id = 9, pb_device = 7, pb_playlist = 5, pb_assignment = None,
        pb_loop_started_at = 10000000, pb_loop_ended_at = Some 25000000, pb_captured_offline = True,
        pb_received_at = 30000000\<rparr>],
     playback_events := [\<lparr>pe_id = 10, pe_batch = 9, pe_playlist_item = 6, pe_started_at = 10000000,
        pe_ended_at = Some 25000000, pe_duration_ms = 15000, pe_status = Completed, pe_failure_reason = []\<rparr>],
     location_points := [\<lparr>lp_id = 3, lp_device = 7, lp_assignment = None, lp_recorded_at = 60000000,
        lp_device_recorded_at = 60000000, lp_latitude = 3, lp_longitude = 101, lp_accuracy_m = 5,
        lp_provider = ''gps'', lp_source = ''x''\<rparr>]\<rparr>"

definition export_query :: query where
  "export_query p = (if p = ''campaign'' \<or> p = ''offline'' then [] else if p = ''date_to'' then ''d'' else [])"

definition export_settings :: settings where
  "export_settings = default_settings\<lparr>st_csv_export_max_rows := 2\<rparr>"

definition export_dates :: date_reader where
  "export_dates x = (if x = ''d'' then Day 0 else NoDate)"

theorem csv_export_readable_witness:
  "\<exists>rows t header row. playback_report_csv export_settings export_dates (\<lambda>i. 40000000) 1 export_query titled_db = Inr (rows, t)
     \<and> read_csv StartField [] [] (concat rows) = Some [header, row] \<and> row ! 5 = CHR 0x27 # ''=1,2''"
proof -
  have run: "(case playback_report_csv export_settings export_dates (\<lambda>i. 40000000) 1 export_query titled_db of
      Inl e \<Rightarrow> False | Inr x \<Rightarrow> True)"
    and sel: "(case report_events export_settings export_dates export_query titled_db of Inl e \<Rightarrow> False
       | Inr js \<Rightarrow> map (\<lambda>j. map cell_text (report_cells 40000000 titled_db j) ! 5) js = [CHR 0x27 # ''=1,2''])"
    by code_simp+
  then obtain rows t where "playback_report_csv export_settings export_dates (\<lambda>i. 40000000) 1 export_query titled_db = Inr (rows, t)"
    by (auto split: sum.splits)
  from csv_export_readable [OF this] this sel show ?thesis by (auto simp: map_eq_Cons_conv)
qed

theorem report_selection_witness:
  "\<exists>j. report_events export_settings export_dates export_query titled_db = Inr [j] \<and> chosen export_dates export_query j"
proof -
  have "(case report_events export_settings export_dates export_query titled_db of Inl e \<Rightarrow> False | Inr js \<Rightarrow> length js = 1)"
    by code_simp
  then obtain j where j: "report_events export_settings export_dates export_query titled_db = Inr [j]"
    by (auto simp: length_Suc_conv split: sum.splits)
  from report_selection [OF j] j show ?thesis by auto
qed

definition history_query :: query where
  "history_query p = (if p = ''device_id'' then uuid_str 7 else [])"

theorem location_history_window_witness:
  "\<exists>a p. location_history (\<lambda>x. None) 70000000 history_query titled_db = Inr a \<and> la_points a = [p] \<and> la_end a = 70000000"
proof -
  have "(case location_history (\<lambda>x. None) 70000000 history_query titled_db of Inl e \<Rightarrow> False | Inr a \<Rightarrow> length (la_points a) = 1)"
    and q: "history_query ''start'' = [] \<and> history_query ''end'' = []" by code_simp+
  then obtain a where a: "location_history (\<lambda>x. None) 70000000 history_query titled_db = Inr a" "length (la_points a) = 1"
    by (auto split: sum.splits)
  then show ?thesis using location_history_window [OF a(1)] q by (auto simp: length_Suc_conv)
qed

subsection \<open>The pages agree\<close>

lemma events_on_today: "events_on (local_day now) p s = today_count now p s"
proof -
  have "local_day t = d \<longleftrightarrow> local_midnight d \<le> t \<and> t < local_midnight (d + 1)" for t d
    unfolding local_midnight_le before_next_midnight by auto
  then show ?thesis by (simp add: events_on_def today_count_def Let_def)
qed

lemma chart_lasts: "last (playback_chart now s) = \<lparr>ct_day = local_day now, ct_completed = events_on (local_day now) Completed s,
    ct_interrupted = events_on (local_day now) Interrupted s, ct_failed = events_on (local_day now) Failed s\<rparr>"
  by (simp add: playback_chart_def upto.simps Let_def)

lemma chart_days: "map ct_day (playback_chart now s) = map (\<lambda>k. local_day now - 6 + k) [0..6]"
  by (simp add: playback_chart_def Let_def)

lemma chart_counts:
  "r \<in> set (playback_chart now s) \<Longrightarrow> ct_completed r = events_on (ct_day r) Completed s
     \<and> ct_interrupted r = events_on (ct_day r) Interrupted s \<and> ct_failed r = events_on (ct_day r) Failed s"
  by (auto simp: playback_chart_def Let_def)

lemma chart_max_bound: "r \<in> set chart \<Longrightarrow> ct_completed r + ct_interrupted r + ct_failed r \<le> chart_max chart"
proof -
  have "x \<in> set xs \<Longrightarrow> x \<le> fold max xs n" and "n \<le> fold max xs n" for x n :: nat and xs
    by (induction xs arbitrary: n) (auto intro: order_trans [OF max.cobounded2] order_trans [OF max.cobounded1])
  then show "r \<in> set chart \<Longrightarrow> ct_completed r + ct_interrupted r + ct_failed r \<le> chart_max chart"
    unfolding chart_max_def by fastforce
qed

text \<open>C40: The list of alerts loses the open ones. PostgreSQL sorts an empty time of acknowledgement after
  all others and the page shows the first 200 rows: once 200 alerts are acknowledged, every alert
  that is shown is acknowledged, and no open alert can be seen or acknowledged there.\<close>

theorem open_alerts_hidden:
  assumes "200 \<le> length (filter (\<lambda>a. al_acknowledged_at a \<noteq> None) (alerts s))" and "a \<in> set (alert_list s)"
  shows "al_acknowledged_at a \<noteq> None"
proof
  let ?done = "\<lambda>a. al_acknowledged_at a \<noteq> None" and ?ys = "sort_key unacknowledged_last (alerts s)"
  assume open_a: "al_acknowledged_at a = None"
  obtain i where i: "i < 200" "i < length ?ys" "?ys ! i = a"
    using assms(2) by (auto simp: alert_list_def in_set_conv_nth)
  have "\<not> ?done x" if "x \<in> set (drop i ?ys)" for x
  proof -
    have "drop i ?ys = a # drop (Suc i) ?ys" using i(2,3) Cons_nth_drop_Suc [of i ?ys] by simp
    moreover have "sorted (map unacknowledged_last (drop i ?ys))"
      by (simp add: sorted_wrt_drop flip: drop_map)
    ultimately have "unacknowledged_last a \<le> unacknowledged_last x" using that by auto
    then show ?thesis using open_a by (auto simp: unacknowledged_last_def less_eq_prod_def split: option.splits)
  qed
  then have none: "filter ?done (drop i ?ys) = []" by (simp add: filter_empty_conv)
  have "filter ?done ?ys = filter ?done (take i ?ys)"
    using filter_append [of ?done "take i ?ys" "drop i ?ys"] none by simp
  then have "length (filter ?done ?ys) \<le> i" using length_filter_le [of ?done "take i ?ys"] by simp
  moreover have "length (filter ?done ?ys) = length (filter ?done (alerts s))"
    by (simp add: filter_sort del: not_None_eq)
  ultimately show False using assms(1) i(1) by simp
qed

text \<open>The start page agrees with itself, although the chart groups by day and the counters select
  by time: the last day of the chart is today and has exactly the counts shown for today, the days
  are the last seven in order, every count is that of the events of its local day, and no bar is
  higher than the scale.\<close>

theorem dashboard_agrees:
  "last (dp_playback_chart (dashboard clk s)) = dp_today (dashboard clk s)
   \<and> map ct_day (dp_playback_chart (dashboard clk s)) = map (\<lambda>k. local_day (clk 1) - 6 + k) [0..6]
   \<and> (\<forall>r \<in> set (dp_playback_chart (dashboard clk s)).
        ct_completed r = events_on (ct_day r) Completed s \<and> ct_interrupted r = events_on (ct_day r) Interrupted s
        \<and> ct_failed r = events_on (ct_day r) Failed s
        \<and> ct_completed r + ct_interrupted r + ct_failed r \<le> dp_chart_max (dashboard clk s))"
  using chart_max_bound [of _ "playback_chart (clk 1) s"] chart_counts [of _ "clk 1" s]
  by (simp add: dashboard_def Let_def chart_lasts events_on_today chart_days)

theorem dashboard_agrees_witness:
  "\<exists>r. last (dp_playback_chart (dashboard (\<lambda>i. days 3) titled_db)) = r \<and> ct_day r = 3"
proof -
  have d: "local_day (days 3) = 3" by (simp add: local_day_def local_offset_def)
  show ?thesis using dashboard_agrees [of "\<lambda>i. days 3" titled_db] d by (simp add: dashboard_def Let_def)
qed

definition busy_db :: db where
  "busy_db = empty_db\<lparr>alerts := map (\<lambda>i. \<lparr>al_id = i, al_device = None, al_code = ''x'', al_severity = Warning, al_message = [],
       al_acknowledged_at = Some i, al_acknowledged_by = Some 1, al_created_at = 0\<rparr>) [1..200]
     @ [\<lparr>al_id = 0, al_device = None, al_code = ''y'', al_severity = Critical, al_message = [],
       al_acknowledged_at = None, al_acknowledged_by = None, al_created_at = 5\<rparr>]\<rparr>"

theorem open_alerts_hidden_witness:
  "last (alerts busy_db) \<in> set (alerts busy_db) \<and> last (alerts busy_db) \<notin> set (alert_list busy_db)"
proof -
  have "200 \<le> length (filter (\<lambda>a. al_acknowledged_at a \<noteq> None) (alerts busy_db))" by (simp add: busy_db_def filter_map comp_def)
  moreover have "al_acknowledged_at (last (alerts busy_db)) = None" by (simp add: busy_db_def)
  moreover have "last (alerts busy_db) \<in> set (alerts busy_db)" by (simp add: busy_db_def)
  ultimately show ?thesis using open_alerts_hidden [of busy_db "last (alerts busy_db)"] by blast
qed

end
