(* ===== verification/Readiness.thy ===== *)
theory Readiness
  imports Dispatch Sync "HOL-Library.List_Lexorder"
begin

section \<open>Deployment readiness\<close>

text \<open>
  The command \<open>check_deployment_readiness\<close>, and the settings that only it reads. The executables that
  \<open>shutil.which\<close> finds, the JSON reader and the reader of a private key are arguments. The checks
  collect their messages in source order. A start-up error of these settings is the first one of
  this group.
\<close>

subsection \<open>The remaining settings\<close>

record deployment =
  dy_allowed_hosts :: "string list"
  dy_csrf_trusted_origins :: "string list"
  dy_middleware :: "string list"
  dy_database_password :: "string option"
  dy_secure_ssl_redirect :: bool
  dy_clamav_timeout_seconds :: int
  dy_ffprobe_timeout_seconds :: int
  dy_ffmpeg_timeout_seconds :: int
  dy_freshclam_timeout_seconds :: int
  dy_worker_timeout_seconds :: int
  dy_ecs_region :: string
  dy_backup_bucket :: string
  dy_email_backend :: string
  dy_default_from_email :: string
  dy_email_host :: string
  dy_email_use_tls :: bool
  dy_email_use_ssl :: bool
  dy_cloudfront_key_id :: string
  dy_cloudfront_key :: string
  dy_storage_bucket :: string
  dy_querystring_auth :: bool
  dy_querystring_expire :: int

definition csv_of :: "string \<Rightarrow> string list" where
  "csv_of s = filter (\<lambda>v. v \<noteq> []) (map strip (split_on (CHR '','') s))"

definition middleware_of :: "bool \<Rightarrow> string list" where
  "middleware_of debug =
     [''signage.middleware.HealthCheckMiddleware''] @ (if debug then [] else [''whitenoise.middleware.WhiteNoiseMiddleware'']) @
     [''django.middleware.security.SecurityMiddleware'', ''signage.middleware.ProductionSecurityHeadersMiddleware'',
      ''signage.middleware.MediaUploadSizeLimitMiddleware'', ''django.contrib.sessions.middleware.SessionMiddleware'',
      ''django.middleware.common.CommonMiddleware'', ''django.middleware.csrf.CsrfViewMiddleware'',
      ''django.contrib.auth.middleware.AuthenticationMiddleware'', ''signage.middleware.SessionIdleTimeoutMiddleware'',
      ''django.contrib.messages.middleware.MessageMiddleware'', ''django.middleware.clickjacking.XFrameOptionsMiddleware'']"

text \<open>The password of the database; a database of its own file has none.\<close>

definition load_database_password :: "environ \<Rightarrow> secret_files \<Rightarrow> string option result" where
  "load_database_password env fs =
     (if env_str env ''DATABASE_URL'' [] \<noteq> []
      then (case urlsplit (env_str env ''DATABASE_URL'' []) of
          None \<Rightarrow> Inl (ServerError ''DATABASE_URL'')
        | Some u \<Rightarrow> if url_port u = None then Inl (ServerError ''DATABASE_URL'') else Inr (url_password u))
      else if env_str env ''DB_HOST'' [] \<noteq> []
      then bind_result (secret_env_or_file env fs ''DB_PASSWORD'' None None []) (\<lambda>pw. Inr (Some pw))
      else Inr None)"

definition load_email_backend :: "environ \<Rightarrow> string" where
  "load_email_backend env =
     (if env_str env ''EMAIL_BACKEND'' [] \<noteq> [] then env_str env ''EMAIL_BACKEND'' []
      else if env_str env ''EMAIL_HOST'' [] \<noteq> [] then ''django.core.mail.backends.smtp.EmailBackend''
      else ''django.core.mail.backends.console.EmailBackend'')"

definition load_deployment :: "environ \<Rightarrow> secret_files \<Rightarrow> settings \<Rightarrow> deployment result" where
  "load_deployment env fs st =
     bind_result (load_database_password env fs) (\<lambda>password.
     bind_result (env_int env ''MEDIA_CLAMAV_TIMEOUT_SECONDS'' 120) (\<lambda>clamav.
     bind_result (env_int env ''MEDIA_FFPROBE_TIMEOUT_SECONDS'' 30) (\<lambda>ffprobe.
     bind_result (env_int env ''MEDIA_FFMPEG_TIMEOUT_SECONDS'' 300) (\<lambda>ffmpeg.
     bind_result (env_int env ''FRESHCLAM_TIMEOUT_SECONDS'' 120) (\<lambda>freshclam.
     bind_result (env_int env ''MEDIA_WORKER_TIMEOUT_SECONDS'' 1200) (\<lambda>worker.
     bind_result (env_int env ''EMAIL_PORT'' 587) (\<lambda>port.
     bind_result (secret_env_or_file env fs ''EMAIL_HOST_USER'' None None []) (\<lambda>email_user.
     bind_result (secret_env_or_file env fs ''EMAIL_HOST_PASSWORD'' None None []) (\<lambda>email_password.
     bind_result (env_int env ''EMAIL_TIMEOUT'' 10) (\<lambda>timeout.
     bind_result (secret_env_or_file env fs ''AWS_CLOUDFRONT_PRIVATE_KEY'' (Some ''AWS_CLOUDFRONT_PRIVATE_KEY_FILE'')
        (Some ''AWS_CLOUDFRONT_KEY'') []) (\<lambda>key.
     let bucket = env_str env ''AWS_STORAGE_BUCKET_NAME'' [] in
     Inr \<lparr>dy_allowed_hosts = csv_of (env_str env ''DJANGO_ALLOWED_HOSTS'' ''localhost,127.0.0.1''),
       dy_csrf_trusted_origins = csv_of (env_str env ''DJANGO_CSRF_TRUSTED_ORIGINS'' []),
       dy_middleware = middleware_of (st_debug st), dy_database_password = password,
       dy_secure_ssl_redirect = env_bool env ''DJANGO_SECURE_SSL_REDIRECT'' (\<not> st_debug st),
       dy_clamav_timeout_seconds = clamav, dy_ffprobe_timeout_seconds = ffprobe, dy_ffmpeg_timeout_seconds = ffmpeg,
       dy_freshclam_timeout_seconds = freshclam, dy_worker_timeout_seconds = worker,
       dy_ecs_region = env_str env ''ECS_MEDIA_REGION'' (env_str env ''AWS_S3_REGION_NAME'' []),
       dy_backup_bucket = env_str env ''PILOT_BACKUP_S3_BUCKET'' [],
       dy_email_backend = load_email_backend env,
       dy_default_from_email = env_str env ''DEFAULT_FROM_EMAIL'' ''no-reply@duducar.co'',
       dy_email_host = env_str env ''EMAIL_HOST'' [],
       dy_email_use_tls = env_bool env ''EMAIL_USE_TLS'' True, dy_email_use_ssl = env_bool env ''EMAIL_USE_SSL'' False,
       dy_cloudfront_key_id = strip (env_str env ''AWS_CLOUDFRONT_KEY_ID'' []), dy_cloudfront_key = key,
       dy_storage_bucket = bucket, dy_querystring_auth = (bucket \<noteq> []),
       dy_querystring_expire = (if bucket \<noteq> [] then 900 else 0)\<rparr>)))))))))))"

subsection \<open>The checks\<close>

definition complain :: "bool \<Rightarrow> string \<Rightarrow> string list" where
  "complain b message = (if b then [message] else [])"

definition check_media_dependencies :: "(string \<Rightarrow> bool) \<Rightarrow> string list" where
  "check_media_dependencies found =
     concat (map (\<lambda>x. complain (\<not> found x) (x @ '' is required for media processing.''))
       [''ffmpeg'', ''ffprobe'', ''clamscan''])"

definition check_database_tools :: "(string \<Rightarrow> bool) \<Rightarrow> string list" where
  "check_database_tools found =
     concat (map (\<lambda>x. complain (\<not> found x) (x @ '' is required for backup and restore.'')) [''pg_dump'', ''pg_restore''])"

definition check_app_update_configuration :: "settings \<Rightarrow> string list" where
  "check_app_update_configuration st =
     (let code = st_app_update_version_code st in
      if \<not> (0 \<le> code \<and> code \<le> 2147483647)
      then [''APP_UPDATE_VERSION_CODE must be zero or a positive 32-bit integer.'']
      else if code = 0
      then complain (st_app_update_version_name st \<noteq> [] \<or> st_app_update_storage_name st \<noteq> [] \<or> st_app_update_sha256 st \<noteq> []
             \<or> st_app_update_size_bytes st \<noteq> 0 \<or> st_app_update_rollout_percent st \<noteq> 0)
             ''Disabled app-update configuration must leave all staged APK fields empty or zero.''
      else complain (\<not> version_name_ok (st_app_update_version_name st))
             ''APP_UPDATE_VERSION_NAME must be an explicit semantic version.''
         @ complain (\<not> storage_name_ok (st_app_update_storage_name st))
             ''APP_UPDATE_STORAGE_NAME must be an updates/*.apk object key.''
         @ complain (\<not> sha256_ok (st_app_update_sha256 st)) ''APP_UPDATE_SHA256 must be a lowercase 64-hex digest.''
         @ complain (\<not> (1 \<le> st_app_update_size_bytes st \<and> st_app_update_size_bytes st \<le> 200 * 1024 * 1024))
             ''APP_UPDATE_SIZE_BYTES must be between 1 and 200 MiB.''
         @ complain (\<not> (1 \<le> st_app_update_rollout_percent st \<and> st_app_update_rollout_percent st \<le> 100))
             ''APP_UPDATE_ROLLOUT_PERCENT must be between 1 and 100.'')"

definition check_backup_limits :: "settings \<Rightarrow> string list" where
  "check_backup_limits st =
     concat (map (\<lambda>(name, v). complain (\<not> (1 \<le> v \<and> v \<le> 30)) (name @ '' must be between 1 and 30.''))
       [(''PILOT_BACKUP_RETENTION_DAYS'', st_pilot_backup_retention_days st),
        (''PILOT_BACKUP_MAX_LOCAL_ARCHIVES'', st_pilot_backup_max_local_archives st)])"

definition positive_checks :: "(string \<times> int) list \<Rightarrow> string list" where
  "positive_checks vs = concat (map (\<lambda>(name, v). complain (v < 1) (name @ '' must be positive.'')) vs)"

definition check_media_processing_limits :: "settings \<Rightarrow> deployment \<Rightarrow> string list" where
  "check_media_processing_limits st dy =
     positive_checks
       [(''MEDIA_MAX_IMAGE_PIXELS'', st_media_max_image_pixels st), (''MEDIA_MAX_IMAGE_DIMENSION'', st_media_max_image_dimension st),
        (''MEDIA_CLAMAV_TIMEOUT_SECONDS'', dy_clamav_timeout_seconds dy), (''MEDIA_FFPROBE_TIMEOUT_SECONDS'', dy_ffprobe_timeout_seconds dy),
        (''MEDIA_FFMPEG_TIMEOUT_SECONDS'', dy_ffmpeg_timeout_seconds dy), (''FRESHCLAM_TIMEOUT_SECONDS'', dy_freshclam_timeout_seconds dy),
        (''MEDIA_WORKER_TIMEOUT_SECONDS'', dy_worker_timeout_seconds dy)]
     @ complain (st_media_max_request_bytes st < st_media_max_video_bytes st + 1024 * 1024)
         ''MEDIA_MAX_REQUEST_BYTES must allow the 50 MiB video limit plus 1 MiB of multipart overhead.''
     @ complain (25000000 < st_media_max_image_pixels st) ''MEDIA_MAX_IMAGE_PIXELS must not exceed 25000000.''
     @ complain (10000 < st_media_max_image_dimension st) ''MEDIA_MAX_IMAGE_DIMENSION must not exceed 10000.''
     @ complain (st_media_processing_lease_seconds st \<le> dy_worker_timeout_seconds dy)
         ''MEDIA_WORKER_TIMEOUT_SECONDS must be shorter than MEDIA_PROCESSING_LEASE_SECONDS.''"

definition check_playback_batch_limits :: "settings \<Rightarrow> string list" where
  "check_playback_batch_limits st =
     (let compressed = st_playback_batch_max_compressed_bytes st; decompressed = st_playback_batch_max_decompressed_bytes st in
      complain (\<not> (1 \<le> compressed \<and> compressed \<le> 256 * 1024))
        ''PLAYBACK_BATCH_MAX_COMPRESSED_BYTES must be between 1 and 262144.''
      @ complain (\<not> (1 \<le> decompressed \<and> decompressed \<le> 1024 * 1024))
        ''PLAYBACK_BATCH_MAX_DECOMPRESSED_BYTES must be between 1 and 1048576.''
      @ complain (decompressed < compressed)
        ''PLAYBACK_BATCH_MAX_COMPRESSED_BYTES must not exceed the decompressed limit.'')"

definition check_cloudfront_signing :: "settings \<Rightarrow> deployment \<Rightarrow> (string \<Rightarrow> bool) \<Rightarrow> string list" where
  "check_cloudfront_signing st dy is_rsa_key =
     (let domain = st_aws_s3_custom_domain st in
      (if domain = [] then [''AWS_S3_CUSTOM_DOMAIN must use the private CloudFront distribution.'']
       else complain (is_substring ''://'' domain \<or> CHR ''/'' \<in> set domain)
              ''AWS_S3_CUSTOM_DOMAIN must be a hostname without a scheme.'')
      @ complain (dy_cloudfront_key_id dy = [] \<or> dy_cloudfront_key dy = [])
          ''CloudFront key ID and private key are required for signed media URLs.''
      @ complain (\<not> dy_querystring_auth dy) ''Signed media URLs must keep AWS_QUERYSTRING_AUTH enabled.''
      @ complain (\<not> (1 \<le> dy_querystring_expire dy \<and> dy_querystring_expire dy \<le> 900))
          ''Signed media URLs must expire within 900 seconds.''
      @ complain (dy_cloudfront_key dy \<noteq> [] \<and> \<not> is_rsa_key (dy_cloudfront_key dy))
          ''CloudFront signing private key must be a valid RSA PEM.'')"

definition check_media_dispatch :: "settings \<Rightarrow> deployment \<Rightarrow> string list" where
  "check_media_dispatch st dy =
     complain (st_media_processing_dispatch_backend st \<noteq> ''ecs'')
       ''Production web media dispatch must use one-off ECS/Fargate tasks.''
     @ concat (map (\<lambda>(name, missing). complain missing (name @ '' is required for one-off media processing.''))
         [(''ECS_MEDIA_REGION'', dy_ecs_region dy = []), (''ECS_MEDIA_CLUSTER'', st_ecs_media_cluster st = []),
          (''ECS_MEDIA_TASK_DEFINITION'', st_ecs_media_task_definition st = []),
          (''ECS_MEDIA_CONTAINER_NAME'', st_ecs_media_container_name st = []),
          (''ECS_MEDIA_SUBNET_IDS'', st_ecs_media_subnet_ids st = []),
          (''ECS_MEDIA_SECURITY_GROUP_IDS'', st_ecs_media_security_group_ids st = [])])
     @ positive_checks
         [(''MEDIA_PROCESSING_LEASE_SECONDS'', st_media_processing_lease_seconds st),
          (''MEDIA_DISPATCH_RETRY_SECONDS'', st_media_dispatch_retry_seconds st),
          (''MEDIA_DISPATCH_AMBIGUITY_REUSE_SECONDS'', st_media_dispatch_ambiguity_reuse_seconds st),
          (''MEDIA_MAX_DISPATCH_ATTEMPTS'', st_media_max_dispatch_attempts st),
          (''MEDIA_RECONCILE_MAX_ASSETS'', st_media_reconcile_max_assets st),
          (''MEDIA_DISPATCH_MAX_CONCURRENT_TASKS'', st_media_dispatch_max_concurrent_tasks st),
          (''MEDIA_DISPATCH_MAX_TASKS_PER_HOUR'', st_media_dispatch_max_tasks_per_hour st),
          (''MEDIA_DISPATCH_STARTUP_GRACE_SECONDS'', st_media_dispatch_startup_grace_seconds st),
          (''MEDIA_DISPATCH_AWS_CONNECT_TIMEOUT_SECONDS'', st_media_dispatch_aws_connect_timeout_seconds st),
          (''MEDIA_DISPATCH_AWS_READ_TIMEOUT_SECONDS'', st_media_dispatch_aws_read_timeout_seconds st)]
     @ complain (3600 < st_media_dispatch_ambiguity_reuse_seconds st) ''MEDIA_DISPATCH_AMBIGUITY_REUSE_SECONDS must not exceed 3600.''
     @ complain (2 < st_media_dispatch_max_concurrent_tasks st)
         ''MEDIA_DISPATCH_MAX_CONCURRENT_TASKS must not exceed the pilot cap of 2.''
     @ complain (6 < st_media_dispatch_max_tasks_per_hour st)
         ''MEDIA_DISPATCH_MAX_TASKS_PER_HOUR must not exceed the pilot budget cap of 6.''"

text \<open>An \<open>ImproperlyConfigured\<close> of a called check becomes a message; any other exception ends the command.\<close>

definition reported :: "'a result \<Rightarrow> string list result" where
  "reported r = (case r of Inr x \<Rightarrow> Inr [] | Inl (ImproperlyConfigured m) \<Rightarrow> Inr [m] | Inl e \<Rightarrow> Inl e)"

definition check_integrity_credentials :: "settings \<Rightarrow> (string \<Rightarrow> json option) \<Rightarrow> string list result" where
  "check_integrity_credentials st loads =
     (let raw = st_play_integrity_service_account_json st in
      if raw = [] then Inr [''PLAY_INTEGRITY_SERVICE_ACCOUNT_JSON is required in production.'']
      else (case loads raw of
          None \<Rightarrow> Inr [''PLAY_INTEGRITY_SERVICE_ACCOUNT_JSON is invalid JSON.'']
        | Some info \<Rightarrow> reported (validate_play_integrity_credentials st info)))"

definition required_hosts :: "string list" where
  "required_hosts = [''api.marketing.duducaradmin.com'', ''marketing.duducaradmin.com'']"

definition check_hosts :: "settings \<Rightarrow> deployment \<Rightarrow> string list" where
  "check_hosts st dy =
     (let missing = filter (\<lambda>h. h \<notin> set (dy_allowed_hosts dy)) required_hosts in
      complain (missing \<noteq> []) (''DJANGO_ALLOWED_HOSTS is missing: '' @ join '', '' missing)
      @ complain (''https://marketing.duducaradmin.com'' \<notin> set (dy_csrf_trusted_origins dy))
          ''CSRF trusted origins must include the dashboard origin.''
      @ complain (\<not> st_session_cookie_secure st \<or> \<not> st_csrf_cookie_secure st) ''Secure cookies must be enabled in production.''
      @ complain (\<not> dy_secure_ssl_redirect dy) ''SECURE_SSL_REDIRECT must be enabled in production.''
      @ complain (\<not> st_secure_proxy_ssl_header st) ''SECURE_PROXY_SSL_HEADER must trust the TLS proxy in production.'')"

definition check_email :: "deployment \<Rightarrow> string list" where
  "check_email dy =
     complain (endswith (dy_email_backend dy) ''console.EmailBackend'') ''Production email backend cannot be console-only.''
     @ (if endswith (dy_email_backend dy) ''smtp.EmailBackend''
        then complain (dy_email_host dy = []) ''EMAIL_HOST must be set for production SMTP email.''
           @ complain (dy_default_from_email dy = []) ''DEFAULT_FROM_EMAIL must be set for production email.''
        else [])
     @ complain (dy_email_use_tls dy \<and> dy_email_use_ssl dy) ''Email cannot enable both TLS and SSL.''"

definition check_web_settings ::
  "settings \<Rightarrow> deployment \<Rightarrow> (string \<Rightarrow> json option) \<Rightarrow> (string \<Rightarrow> bool) \<Rightarrow> string list result" where
  "check_web_settings st dy loads is_rsa_key =
     bind_result (check_integrity_credentials st loads) (\<lambda>credentials.
     bind_result (reported (configured_certificate_fingerprints st)) (\<lambda>fingerprints.
     Inr (check_playback_batch_limits st @ check_hosts st dy @ check_email dy
       @ complain (st_play_integrity_project_number st = []) ''PLAY_INTEGRITY_PROJECT_NUMBER is required in production.''
       @ credentials
       @ complain (st_play_integrity_package_name st \<noteq> ''com.duducar.signage'')
           ''PLAY_INTEGRITY_PACKAGE_NAME must match the Android package.''
       @ fingerprints
       @ complain (''signage.middleware.ProductionSecurityHeadersMiddleware'' \<notin> set (dy_middleware dy))
           ''Production security headers middleware is required.''
       @ check_cloudfront_signing st dy is_rsa_key @ check_media_dispatch st dy
       @ complain (\<not> (1 \<le> st_csv_export_max_rows st \<and> st_csv_export_max_rows st \<le> 10000))
           ''CSV_EXPORT_MAX_ROWS must be between 1 and 10000.''
       @ complain (\<not> (1 \<le> st_auth_artifact_retention_days st \<and> st_auth_artifact_retention_days st \<le> 90))
           ''AUTH_ARTIFACT_RETENTION_DAYS must be between 1 and 90.'')))"

definition check_production_settings ::
  "settings \<Rightarrow> deployment \<Rightarrow> (string \<Rightarrow> json option) \<Rightarrow> (string \<Rightarrow> bool) \<Rightarrow> string \<Rightarrow> string list result" where
  "check_production_settings st dy loads is_rsa_key part =
     bind_result (if part \<in> set [''all'', ''web''] then check_web_settings st dy loads is_rsa_key else Inr []) (\<lambda>web.
     Inr (complain (st_deployment_env st \<noteq> ''production'') ''DEPLOYMENT_ENV must be production for a production check.''
       @ check_app_update_configuration st
       @ complain (st_debug st) ''DJANGO_DEBUG must be false in production.''
       @ complain (startswith (st_secret_key st) ''development-only'' \<or> is_substring ''change-me'' (st_secret_key st))
           ''DJANGO_SECRET_KEY must be a production secret.''
       @ complain (\<not> is_substring ''postgresql'' (st_database_engine st)) ''Production must use PostgreSQL, not SQLite.''
       @ complain (dy_database_password dy = None \<or> dy_database_password dy = Some [])
           ''Production PostgreSQL credentials must include a password.''
       @ complain (dy_storage_bucket dy = []) ''Production media storage must use a private object bucket.''
       @ complain (part \<in> set [''all'', ''scheduled''] \<and> dy_backup_bucket dy = [])
           ''PILOT_BACKUP_S3_BUCKET is required for database backups.''
       @ (if part \<in> set [''all'', ''scheduled''] then check_backup_limits st else [])
       @ (if part \<in> set [''all'', ''web'', ''media-worker''] then check_media_processing_limits st dy else [])
       @ web))"

definition check_development_settings :: "deployment \<Rightarrow> string list" where
  "check_development_settings dy =
     (let configured = filter (\<lambda>h. h \<in> set (dy_allowed_hosts dy)) required_hosts in
      complain (configured \<noteq> [])
        (''Development ALLOWED_HOSTS includes production hostnames: '' @ join '', '' configured))"

text \<open>\<open>handle\<close>: the lines written to the standard output, or the command's error.\<close>

definition check_deployment_readiness ::
  "settings \<Rightarrow> deployment \<Rightarrow> (string \<Rightarrow> bool) \<Rightarrow> (string \<Rightarrow> json option) \<Rightarrow> (string \<Rightarrow> bool) \<Rightarrow> string \<Rightarrow> string
    \<Rightarrow> string list result" where
  "check_deployment_readiness st dy found loads is_rsa_key environment part =
     (if environment \<notin> set [''development'', ''production''] \<or> part \<notin> set [''all'', ''web'', ''media-worker'', ''scheduled'']
      then Inl (CommandError ''invalid choice'')
      else
       let mismatch = complain (environment \<noteq> st_deployment_env st)
             (''--environment must match runtime DEPLOYMENT_ENV ('' @ st_deployment_env st @ '').'');
           media = (if part \<in> set [''all'', ''media-worker''] then check_media_dependencies found else []);
           tools = (if part \<in> set [''all'', ''scheduled''] then check_database_tools found else [])
       in bind_result
            (if environment = ''production''
             then bind_result (check_production_settings st dy loads is_rsa_key part) (\<lambda>errors.
                    Inr (mismatch @ media @ tools @ errors, []))
             else Inr (mismatch, media @ check_development_settings dy))
            (\<lambda>(errors, warnings).
               if errors \<noteq> []
               then Inl (CommandError (''Deployment readiness failed:'' @ [CHR 0x0A] @ ''- '' @ join ([CHR 0x0A] @ ''- '') errors))
               else Inr (warnings @ [environment @ '' deployment readiness checks passed.''])))"

subsection \<open>What a passing check means\<close>

lemma complain_Nil [simp]: "complain b m = [] \<longleftrightarrow> \<not> b"
  by (simp add: complain_def)

lemma positive_checks_Nil [simp]: "positive_checks vs = [] \<longleftrightarrow> (\<forall>(n, v) \<in> set vs. 1 \<le> v)"
  by (auto simp: positive_checks_def)

lemma reported_Nil: "reported r = Inr [] \<longleftrightarrow> (\<exists>x. r = Inr x)"
  by (auto simp: reported_def split: sum.splits error.splits)

lemma update_check_Nil:
  "check_app_update_configuration st = [] \<longleftrightarrow>
     (let code = st_app_update_version_code st in
      code = 0 \<and> st_app_update_version_name st = [] \<and> st_app_update_storage_name st = [] \<and> st_app_update_sha256 st = []
        \<and> st_app_update_size_bytes st = 0 \<and> st_app_update_rollout_percent st = 0
      \<or> 1 \<le> code \<and> code \<le> 2147483647 \<and> version_name_ok (st_app_update_version_name st)
        \<and> storage_name_ok (st_app_update_storage_name st) \<and> sha256_ok (st_app_update_sha256 st)
        \<and> 1 \<le> st_app_update_size_bytes st \<and> st_app_update_size_bytes st \<le> 200 * 1024 * 1024
        \<and> 1 \<le> st_app_update_rollout_percent st \<and> st_app_update_rollout_percent st \<le> 100)"
  by (auto simp: check_app_update_configuration_def Let_def)

lemma media_origin_error: "configured_media_origin st = Inl e \<Longrightarrow> e = media_unavailable"
  by (auto simp: configured_media_origin_def Let_def split: option.splits if_splits)

lemma passed_update_not_misconfigured:
  assumes "check_app_update_configuration st = []"
  shows "configured_app_update st sha storage_url d \<noteq> Inl update_misconfigured"
proof
  assume "configured_app_update st sha storage_url d = Inl update_misconfigured"
  then show False
    using assms unfolding update_check_Nil
    by (auto simp: configured_app_update_def Let_def bind_result_def update_misconfigured_def update_undeliverable_def
        media_unavailable_def rollout_bucket_def require_def
        dest!: media_origin_error split: sum.splits if_splits option.splits)
qed

lemma failed_update_misconfigured:
  assumes "check_app_update_configuration st \<noteq> []"
  shows "configured_app_update st sha storage_url d = Inl update_misconfigured"
  using assms unfolding update_check_Nil
  by (auto simp: configured_app_update_def Let_def bind_result_def require_def)

lemma dispatch_check_Nil:
  assumes "check_media_dispatch st dy = []"
  shows "ecs_configured st \<and> st_media_processing_dispatch_backend st = ''ecs''"
  using assms by (auto simp: check_media_dispatch_def ecs_configured_def missing_settings_def invalid_limits_def)

definition passes ::
  "settings \<Rightarrow> deployment \<Rightarrow> (string \<Rightarrow> bool) \<Rightarrow> (string \<Rightarrow> json option) \<Rightarrow> (string \<Rightarrow> bool) \<Rightarrow> string \<Rightarrow> bool" where
  "passes st dy found loads is_rsa_key part \<longleftrightarrow>
     (\<exists>out. check_deployment_readiness st dy found loads is_rsa_key ''production'' part = Inr out)"

lemma passesD:
  assumes "passes st dy found loads is_rsa_key part"
  shows "check_production_settings st dy loads is_rsa_key part = Inr []" and "st_deployment_env st = ''production''"
    and "part \<in> set [''all'', ''media-worker''] \<Longrightarrow> check_media_dependencies found = []"
    and "part \<in> set [''all'', ''scheduled''] \<Longrightarrow> check_database_tools found = []"
  using assms by (auto simp: passes_def check_deployment_readiness_def Let_def bind_result_Inr_iff split: if_splits)

lemma passes_web:
  assumes "check_production_settings st dy loads is_rsa_key part = Inr []" and "part = ''all'' \<or> part = ''web''"
  shows "check_web_settings st dy loads is_rsa_key = Inr []" and "check_app_update_configuration st = []"
    and "check_media_processing_limits st dy = []" and "\<not> st_debug st"
  using assms by (auto simp: check_production_settings_def bind_result_Inr_iff)

lemma web_parts:
  assumes "check_web_settings st dy loads is_rsa_key = Inr []"
  shows "\<exists>info. credentials_info st loads = Inr info" and "\<exists>fs. configured_certificate_fingerprints st = Inr fs"
    and "check_playback_batch_limits st = []" and "check_hosts st dy = []"
    and "check_cloudfront_signing st dy is_rsa_key = []" and "check_media_dispatch st dy = []"
    and "1 \<le> st_csv_export_max_rows st \<and> st_csv_export_max_rows st \<le> 10000"
    and "1 \<le> st_auth_artifact_retention_days st \<and> st_auth_artifact_retention_days st \<le> 90"
proof -
  have parts: "check_integrity_credentials st loads = Inr []" "reported (configured_certificate_fingerprints st) = Inr []"
    using assms by (auto simp: check_web_settings_def bind_result_Inr_iff)
  show "\<exists>info. credentials_info st loads = Inr info"
    using parts(1) by (auto simp: check_integrity_credentials_def credentials_info_def Let_def reported_Nil split: if_splits option.splits)
  show "\<exists>fs. configured_certificate_fingerprints st = Inr fs" using parts(2) by (simp add: reported_Nil)
qed (use assms in \<open>auto simp: check_web_settings_def bind_result_Inr_iff\<close>)

text \<open>The readiness check of the application update is exact: it reports nothing if and only if no
  device that asks for a manifest can be told that the update configuration is unusable, whatever
  the digest and the storage answer.\<close>

theorem update_check_exact:
  "check_app_update_configuration st = [] \<longleftrightarrow>
     (\<forall>sha storage_url d. configured_app_update st sha storage_url d \<noteq> Inl update_misconfigured)"
  using passed_update_not_misconfigured failed_update_misconfigured by blast

text \<open>C27: What a passing readiness check of a production web process guarantees: debugging is off, the
  cookies are secure, the redirect to HTTPS is on and the required hosts are allowed; task launches
  find a usable ECS configuration; the attestation finds its credentials and certificate fingerprints;
  no device is refused for the update configuration; and the limits of uploads, batches, exports and
  retention are inside their bounds, with workers that end before their lease. The domain the media
  are delivered from is not among it: the lemma \<open>readiness_misses_origin\<close> below shows a value of
  \<open>AWS_S3_CUSTOM_DOMAIN\<close> that passes the check and that the manifest refuses.\<close>

theorem readiness_protects:
  assumes "passes st dy found loads is_rsa_key part" and "part = ''all'' \<or> part = ''web''"
  shows "st_deployment_env st = ''production'' \<and> \<not> st_debug st \<and> st_session_cookie_secure st \<and> st_csrf_cookie_secure st
     \<and> dy_secure_ssl_redirect dy \<and> set required_hosts \<subseteq> set (dy_allowed_hosts dy)
     \<and> st_media_processing_dispatch_backend st = ''ecs'' \<and> ecs_configured st
     \<and> (\<exists>info. credentials_info st loads = Inr info) \<and> (\<exists>fs. configured_certificate_fingerprints st = Inr fs)
     \<and> (\<forall>sha storage_url d. configured_app_update st sha storage_url d \<noteq> Inl update_misconfigured)
     \<and> st_media_max_video_bytes st + 1024 * 1024 \<le> st_media_max_request_bytes st
     \<and> 1 \<le> dy_worker_timeout_seconds dy \<and> dy_worker_timeout_seconds dy < st_media_processing_lease_seconds st
     \<and> 1 \<le> st_playback_batch_max_compressed_bytes st
     \<and> st_playback_batch_max_compressed_bytes st \<le> st_playback_batch_max_decompressed_bytes st
     \<and> st_playback_batch_max_decompressed_bytes st \<le> 1024 * 1024
     \<and> 1 \<le> st_csv_export_max_rows st \<and> st_csv_export_max_rows st \<le> 10000
     \<and> 1 \<le> st_auth_artifact_retention_days st \<and> st_auth_artifact_retention_days st \<le> 90"
proof -
  note web = passes_web [OF passesD(1) [OF assms(1)] assms(2)]
  note parts = web_parts [OF web(1)]
  have "set required_hosts \<subseteq> set (dy_allowed_hosts dy) \<and> st_session_cookie_secure st \<and> st_csrf_cookie_secure st
      \<and> dy_secure_ssl_redirect dy"
    using parts(4) by (auto simp: check_hosts_def Let_def filter_empty_conv)
  moreover have "st_media_max_video_bytes st + 1024 * 1024 \<le> st_media_max_request_bytes st
      \<and> 1 \<le> dy_worker_timeout_seconds dy \<and> dy_worker_timeout_seconds dy < st_media_processing_lease_seconds st"
    using web(3) by (auto simp: check_media_processing_limits_def)
  moreover have "1 \<le> st_playback_batch_max_compressed_bytes st
      \<and> st_playback_batch_max_compressed_bytes st \<le> st_playback_batch_max_decompressed_bytes st
      \<and> st_playback_batch_max_decompressed_bytes st \<le> 1024 * 1024"
    using parts(3) by (auto simp: check_playback_batch_limits_def Let_def)
  ultimately show ?thesis
    using web(4) parts(1,2,7,8) passesD(2) [OF assms(1)] dispatch_check_Nil [OF parts(6)]
      passed_update_not_misconfigured [OF web(2)] by blast
qed

text \<open>
  The check of the delivery domain is weaker than the one the manifest makes: a domain without a dot
  passes it, and then no device gets its media.
\<close>

lemma readiness_misses_origin:
  assumes "check_cloudfront_signing st dy is_rsa_key = []"
  shows "check_cloudfront_signing (st\<lparr>st_aws_s3_custom_domain := ''cdn''\<rparr>) dy is_rsa_key = []
     \<and> configured_media_origin (st\<lparr>st_aws_s3_custom_domain := ''cdn''\<rparr>) = Inl media_unavailable"
proof -
  have "configured_media_origin (st\<lparr>st_aws_s3_custom_domain := ''cdn''\<rparr>)
      = configured_media_origin (default_settings\<lparr>st_aws_s3_custom_domain := ''cdn''\<rparr>)"
    by (simp add: configured_media_origin_def)
  also have "\<dots> = Inl media_unavailable" by code_simp
  finally show ?thesis using assms by (auto simp: check_cloudfront_signing_def Let_def startswith_def)
qed

definition ready_settings :: settings where
  "ready_settings = default_settings\<lparr>st_secret_key := ''0b7c'', st_debug := False, st_deployment_env := ''production'',
     st_database_engine := ''django.db.backends.postgresql'', st_session_cookie_secure := True, st_csrf_cookie_secure := True,
     st_secure_proxy_ssl_header := True, st_play_integrity_project_number := ''12'',
     st_play_integrity_app_certificate_sha256 := [replicate 64 (CHR ''a'')],
     st_play_integrity_service_account_json := ''{}'', st_media_processing_dispatch_backend := ''ecs'',
     st_ecs_media_cluster := ''c'', st_ecs_media_task_definition := ''t'', st_ecs_media_subnet_ids := [''s''],
     st_ecs_media_security_group_ids := [''g''], st_aws_s3_custom_domain := ''cdn.duducaradmin.com''\<rparr>"

definition ready_deployment :: deployment where
  "ready_deployment = \<lparr>dy_allowed_hosts = required_hosts, dy_csrf_trusted_origins = [''https://marketing.duducaradmin.com''],
     dy_middleware = middleware_of False, dy_database_password = Some ''p'', dy_secure_ssl_redirect = True,
     dy_clamav_timeout_seconds = 120, dy_ffprobe_timeout_seconds = 30, dy_ffmpeg_timeout_seconds = 300,
     dy_freshclam_timeout_seconds = 120, dy_worker_timeout_seconds = 1200, dy_ecs_region = ''ap-southeast-1'',
     dy_backup_bucket = ''b'', dy_email_backend = ''django.core.mail.backends.smtp.EmailBackend'',
     dy_default_from_email = ''a'', dy_email_host = ''m'', dy_email_use_tls = True, dy_email_use_ssl = False,
     dy_cloudfront_key_id = ''k'', dy_cloudfront_key = ''-'', dy_storage_bucket = ''b'', dy_querystring_auth = True,
     dy_querystring_expire = 900\<rparr>"

definition ready_account :: json where
  "ready_account = JObj [(''type'', JStr ''service_account''), (''client_email'', JStr ''e''), (''private_key'', JStr ''k''),
     (''project_id'', JStr ''p'')]"

theorem readiness_protects_witness:
  "passes ready_settings ready_deployment (\<lambda>x. True) (\<lambda>x. Some ready_account) (\<lambda>k. True) ''all''
   \<and> ecs_configured ready_settings"
proof -
  have "(case check_deployment_readiness ready_settings ready_deployment (\<lambda>x. True) (\<lambda>x. Some ready_account) (\<lambda>k. True)
       ''production'' ''all'' of Inl e \<Rightarrow> False | Inr w \<Rightarrow> True)" by code_simp
  then have p: "passes ready_settings ready_deployment (\<lambda>x. True) (\<lambda>x. Some ready_account) (\<lambda>k. True) ''all''"
    by (auto simp: passes_def split: sum.splits)
  show ?thesis using readiness_protects [OF p] p by simp
qed

end
