(* ===== verification/Backups.thy ===== *)
theory Backups
  imports Accounts Media_Files Integrity Py_Date "HOL-Library.Multiset"
begin

section \<open>Backups\<close>

text \<open>
  The commands \<open>create_postgres_backup\<close>, \<open>create_pilot_backup\<close> and \<open>verify_pilot_backup\<close>. The directory
  of backups is a list of files with distinct names; bytes are characters. The answers of \<open>pg_dump\<close>,
  \<open>pg_restore\<close>, \<open>dumpdata\<close> and of the object storage are arguments, as are SHA-256, the tar format and
  JSON. What is written is kept when a command fails later. Errors of the local disk are not modelled.
\<close>

subsection \<open>Files\<close>

record backup_file =
  fi_name :: string
  fi_bytes :: string
  fi_mode :: int
  fi_mtime :: time

definition find_file :: "string \<Rightarrow> backup_file list \<Rightarrow> backup_file option" where
  "find_file n fs = lookup_by fi_name n fs"

definition unlink :: "string \<Rightarrow> backup_file list \<Rightarrow> backup_file list" where
  "unlink n fs = delete_where (\<lambda>f. fi_name f = n) fs"

definition put_file :: "backup_file \<Rightarrow> backup_file list \<Rightarrow> backup_file list" where
  "put_file f fs = unlink (fi_name f) fs @ [f]"

text \<open>\<open>os.replace\<close> of a file that exists.\<close>

definition replace_file :: "string \<Rightarrow> string \<Rightarrow> backup_file list \<Rightarrow> backup_file list" where
  "replace_file a b fs = (case find_file a fs of None \<Rightarrow> fs | Some f \<Rightarrow> put_file (f\<lparr>fi_name := b\<rparr>) (unlink a fs))"

text \<open>A time in UTC as \<open>%Y%m%dT%H%M%SZ\<close>.\<close>

definition stamp :: "time \<Rightarrow> string" where
  "stamp t = (case civil_date (t div days 1) of (y, m, d) \<Rightarrow>
     let s = t mod days 1 div seconds 1 in
     padded 4 y @ padded 2 m @ padded 2 d @ ''T'' @ padded 2 (s div 3600) @ padded 2 (s div 60 mod 60)
     @ padded 2 (s mod 60) @ ''Z'')"

subsection \<open>The PostgreSQL backup\<close>

definition backup_prefix :: string where
  "backup_prefix = ''duducar-signage-postgres''"

definition success_receipt :: string where
  "success_receipt = backup_prefix @ ''-last-remote-success.json''"

record object_head =
  oh_length :: "int option"
  oh_metadata :: "(string \<times> string) list"
  oh_checksum :: "string option"
  oh_version :: "string option"

text \<open>
  What one run gets from outside: the executables found, the name of the temporary file, the dump
  or a failure of \<open>pg_dump\<close>, whether \<open>pg_restore\<close> lists the archive, how the uploads end, and
  the answer for an object, \<open>None\<close> for an error of the client. An upload that fails in the client raises
  an error the command catches; a refused transfer raises \<open>S3UploadFailedError\<close>, which it does not.
\<close>

datatype upload_answer = Uploaded | ClientFailure | TransferFailure

record backup_tools =
  bt_found :: "string \<Rightarrow> bool"
  bt_temporary :: string
  bt_dump :: "string option"
  bt_listed :: "string \<Rightarrow> bool"
  bt_upload :: "nat \<Rightarrow> upload_answer"
  bt_head :: "string \<Rightarrow> object_head option"

record backup_options =
  bo_bucket :: string
  bo_retain_days :: int
  bo_max_archives :: int

text \<open>An object sent to the storage: its key, its bytes and the digest in its metadata.\<close>

type_synonym sent_object = "string \<times> string \<times> string"

record backup_world =
  bw_files :: "backup_file list"
  bw_sent :: "sent_object list"

definition archive_name :: "time \<Rightarrow> string" where
  "archive_name t = backup_prefix @ ''-'' @ stamp t @ ''.dump''"

definition digest_name :: "string \<Rightarrow> string" where
  "digest_name archive = archive @ ''.sha256''"

definition digest_text :: "string \<Rightarrow> string \<Rightarrow> string" where
  "digest_text digest archive = digest @ ''  '' @ archive @ [CHR 0x0A]"

fun fromhex :: "string \<Rightarrow> int list" where
  "fromhex (a # b # cs) = (case (hex_digit a, hex_digit b) of (Some i, Some j) \<Rightarrow> i * 16 + j | _ \<Rightarrow> 0) # fromhex cs"
| "fromhex cs = []"

text \<open>Base64 with its standard alphabet and padding.\<close>

definition standard_b64 :: "int list \<Rightarrow> string" where
  "standard_b64 bs = (let s = b64_encode bs in
     map (\<lambda>c. if c = CHR ''-'' then CHR ''+'' else if c = CHR ''_'' then CHR ''/'' else c) s @ b64_padding s)"

definition head_verified :: "(string \<Rightarrow> string) \<Rightarrow> string \<Rightarrow> string \<Rightarrow> object_head \<Rightarrow> bool" where
  "head_verified sha256 digest content head =
     (oh_length head = Some (int (length content))
      \<and> map_of (rev (map (\<lambda>(n, v). (lower n, v)) (oh_metadata head))) ''sha256'' = Some digest
      \<and> oh_checksum head = Some (standard_b64 (fromhex (sha256 content)))
      \<and> oh_version head \<noteq> None \<and> oh_version head \<noteq> Some ''null'')"

definition verification_failed :: error where
  "verification_failed = CommandError ''PostgreSQL backup remote verification failed.''"

definition receipt_object :: "(string \<Rightarrow> string) \<Rightarrow> string \<Rightarrow> string \<Rightarrow> object_head \<Rightarrow> json" where
  "receipt_object sha256 key content head =
     JObj [(''key'', JStr key), (''version_id'', JStr (default_or [] (oh_version head))),
           (''content_length'', JInt (int (length content))), (''sha256'', JStr (sha256 content))]"

text \<open>\<open>_verify_remote_upload\<close> of the two objects with the given keys and local contents.\<close>

definition verify_remote_upload ::
  "(string \<Rightarrow> string) \<Rightarrow> backup_tools \<Rightarrow> time \<Rightarrow> string \<Rightarrow> (string \<times> string) list \<Rightarrow> string \<Rightarrow> json result" where
  "verify_remote_upload sha256 bt now bucket objects digest =
     bind_result (map_result (\<lambda>(key, content). case bt_head bt key of None \<Rightarrow> Inl verification_failed | Some h \<Rightarrow> Inr h) objects) (\<lambda>heads.
     bind_result (map_result (\<lambda>((key, content), head). if head_verified sha256 digest content head
         then Inr (receipt_object sha256 key content head) else Inl verification_failed) (zip objects heads)) (\<lambda>receipts.
     Inr (JObj [(''completed_at'', JStr (datetime_iso now)), (''bucket'', JStr bucket),
                (''archive_sha256'', JStr digest), (''objects'', JArr receipts)])))"

text \<open>\<open>_upload\<close>: the archive, its digest, then the verification.\<close>

definition object_key :: "string \<Rightarrow> string" where
  "object_key n = ''database-backups/'' @ n"

fun upload_error :: "upload_answer \<Rightarrow> error option" where
  "upload_error Uploaded = None"
| "upload_error ClientFailure = Some (CommandError ''PostgreSQL backup upload failed.'')"
| "upload_error TransferFailure = Some (ServerError ''S3UploadFailedError'')"

definition upload_backup ::
  "(string \<Rightarrow> string) \<Rightarrow> backup_tools \<Rightarrow> time \<Rightarrow> string \<Rightarrow> string \<Rightarrow> string \<Rightarrow> string \<Rightarrow> sent_object list \<Rightarrow> json result \<times> sent_object list" where
  "upload_backup sha256 bt now bucket archive content digest sent =
     (let note_name = digest_name archive; note = digest_text digest archive in
      case upload_error (bt_upload bt 0) of
        Some e \<Rightarrow> (Inl e, sent)
      | None \<Rightarrow>
          let sent1 = sent @ [(object_key archive, content, digest)] in
          (case upload_error (bt_upload bt 1) of
            Some e \<Rightarrow> (Inl e, sent1)
          | None \<Rightarrow>
              let sent2 = sent1 @ [(object_key note_name, note, digest)] in
              (verify_remote_upload sha256 bt now bucket [(object_key archive, content), (object_key note_name, note)] digest, sent2)))"

text \<open>
  \<open>_prune_old_backups\<close>: first what is too old, then the archives beyond the newest ones. The retention
  is taken to reach back to a date that Python can represent; beyond it (about 739000 days) the
  subtraction raises \<open>OverflowError\<close>.
\<close>

definition backup_part :: "backup_file \<Rightarrow> bool" where
  "backup_part f = (startswith (fi_name f) (backup_prefix @ ''-'') \<and> path_suffix (fi_name f) \<in> set [''.dump'', ''.sha256''])"

definition is_archive :: "backup_file \<Rightarrow> bool" where
  "is_archive f = (startswith (fi_name f) (backup_prefix @ ''-'') \<and> endswith (fi_name f) ''.dump'')"

definition prune_old_backups :: "time \<Rightarrow> int \<Rightarrow> int \<Rightarrow> backup_file list \<Rightarrow> backup_file list" where
  "prune_old_backups now retain_days max_archives fs =
     (let kept = delete_where (\<lambda>f. backup_part f \<and> fi_mtime f < now - days retain_days) fs;
          archives = sort_key (\<lambda>f. - fi_mtime f) (filter is_archive kept)
      in fold (\<lambda>f. unlink (digest_name (fi_name f)) \<circ> unlink (fi_name f)) (drop (nat max_archives) archives) kept)"

definition option_errors :: "settings \<Rightarrow> backup_tools \<Rightarrow> backup_options \<Rightarrow> unit result" where
  "option_errors st bt opts =
     bind_result (require (is_substring ''postgresql'' (st_database_engine st))
       (CommandError ''PostgreSQL is required for this backup command.'')) (\<lambda>u1.
     bind_result (require (bo_bucket opts \<noteq> []) (CommandError ''An S3 backup bucket is required.'')) (\<lambda>u2.
     bind_result (require (1 \<le> bo_retain_days opts) (CommandError ''Backup retention must be at least one day.'')) (\<lambda>u3.
     bind_result (require (1 \<le> bo_max_archives opts)
       (CommandError ''At least one local backup archive must be retained.'')) (\<lambda>u4.
     require (bt_found bt ''pg_dump'' \<and> bt_found bt ''pg_restore'') (CommandError ''pg_dump and pg_restore are required.'')))))"

text \<open>
  \<open>handle\<close>. The clock is read for the name (0), when the dump is written (1), for the digest (2), the
  receipt (3, 4) and for pruning (5). The temporary file is gone in every case.
\<close>

definition backup_failed :: error where
  "backup_failed = CommandError ''PostgreSQL backup or archive validation failed.''"

definition create_postgres_backup ::
  "settings \<Rightarrow> (string \<Rightarrow> string) \<Rightarrow> (json \<Rightarrow> string) \<Rightarrow> backup_tools \<Rightarrow> backup_options \<Rightarrow> clock \<Rightarrow> backup_world
    \<Rightarrow> unit result \<times> backup_world" where
  "create_postgres_backup st sha256 dumps bt opts clk w =
     (case option_errors st bt opts of
        Inl e \<Rightarrow> (Inl e, w)
      | Inr u \<Rightarrow>
          let archive = archive_name (clk 0); temporary = bt_temporary bt;
              files0 = put_file \<lparr>fi_name = temporary, fi_bytes = [], fi_mode = 384, fi_mtime = clk 0\<rparr> (bw_files w)
          in (case bt_dump bt of
              None \<Rightarrow> (Inl backup_failed, w\<lparr>bw_files := unlink temporary files0\<rparr>)
            | Some content \<Rightarrow>
                let files1 = put_file \<lparr>fi_name = temporary, fi_bytes = content, fi_mode = 384, fi_mtime = clk 1\<rparr> files0 in
                if \<not> bt_listed bt content then (Inl backup_failed, w\<lparr>bw_files := unlink temporary files1\<rparr>)
                else
                  let digest = sha256 content;
                      files2 = replace_file temporary archive files1;
                      files3 = put_file \<lparr>fi_name = digest_name archive, fi_bytes = digest_text digest archive,
                                          fi_mode = 384, fi_mtime = clk 2\<rparr> files2
                  in (case upload_backup sha256 bt (clk 3) (bo_bucket opts) archive content digest (bw_sent w) of
                      (Inl e, sent) \<Rightarrow> (Inl e, \<lparr>bw_files = unlink temporary files3, bw_sent = sent\<rparr>)
                    | (Inr receipt, sent) \<Rightarrow>
                        let files4 = put_file \<lparr>fi_name = success_receipt, fi_bytes = dumps receipt @ [CHR 0x0A],
                                               fi_mode = 384, fi_mtime = clk 4\<rparr> files3;
                            files5 = prune_old_backups (clk 5) (bo_retain_days opts) (bo_max_archives opts) files4
                        in (Inr (), \<lparr>bw_files = unlink temporary files5, bw_sent = sent\<rparr>))))"

subsection \<open>Lemmas on files\<close>

definition names_distinct :: "backup_file list \<Rightarrow> bool" where
  "names_distinct fs = distinct (map fi_name fs)"

lemma find_unlink: "find_file n (unlink m fs) = (if n = m then None else find_file n fs)"
  by (induction fs) (auto simp: find_file_def unlink_def delete_where_def table_simps)

lemma find_put: "find_file n (put_file f fs) = (if n = fi_name f then Some f else find_file n fs)"
  using find_unlink [of n "fi_name f" fs] by (auto simp: put_file_def find_file_def table_simps split: option.splits)

lemma find_replace:
  "find_file n (replace_file a b fs) = (case find_file a fs of None \<Rightarrow> find_file n fs
     | Some f \<Rightarrow> if n = b then Some (f\<lparr>fi_name := b\<rparr>) else if n = a then None else find_file n fs)"
  by (simp add: replace_file_def find_put find_unlink split: option.splits)

lemma find_in: "names_distinct fs \<Longrightarrow> f \<in> set fs \<longleftrightarrow> find_file (fi_name f) fs = Some f"
  using lookup_by_SomeD [of fi_name "fi_name f" fs f] lookup_by_distinct [of fi_name fs f]
  by (auto simp: names_distinct_def find_file_def)

lemma unlink_distinct [simp]: "names_distinct fs \<Longrightarrow> names_distinct (unlink n fs)"
  by (auto simp: names_distinct_def unlink_def delete_where_def distinct_map_filter)

lemma put_distinct [simp]: "names_distinct fs \<Longrightarrow> names_distinct (put_file f fs)"
  using unlink_distinct [of fs "fi_name f"] by (auto simp: names_distinct_def put_file_def unlink_def)

lemma replace_distinct [simp]: "names_distinct fs \<Longrightarrow> names_distinct (replace_file a b fs)"
  by (simp add: replace_file_def split: option.splits)

lemma endswith_append: "endswith (s @ t) u \<Longrightarrow> length u \<le> length t \<Longrightarrow> endswith t u"
  by (auto simp: endswith_def)

lemma digest_not_archive: "\<not> endswith (digest_name n) ''.dump''"
  by (simp add: digest_name_def endswith_def)

lemma prune_filter:
  "fold (\<lambda>f. unlink (digest_name (fi_name f)) \<circ> unlink (fi_name f)) xs fs =
     filter (\<lambda>f. \<forall>x\<in>set xs. fi_name f \<noteq> fi_name x \<and> fi_name f \<noteq> digest_name (fi_name x)) fs"
proof (induction xs arbitrary: fs)
  case (Cons x xs)
  then show ?case by (auto simp: unlink_def delete_where_def intro!: filter_cong)
qed simp

lemma prune_old_backups_filter:
  fixes now d m fs
  defines "kept \<equiv> filter (\<lambda>f. \<not> (backup_part f \<and> fi_mtime f < now - days d)) fs"
  defines "archives \<equiv> sort_key (\<lambda>f. - fi_mtime f) (filter is_archive kept)"
  shows "prune_old_backups now d m fs =
     filter (\<lambda>f. \<forall>x\<in>set (drop (nat m) archives). fi_name f \<noteq> fi_name x \<and> fi_name f \<noteq> digest_name (fi_name x)) kept"
  unfolding prune_old_backups_def Let_def prune_filter kept_def archives_def delete_where_def by simp

text \<open>Pruning keeps what is no backup, nothing too old and no more archives than asked, the newest.\<close>

lemma prune_old_backups_spec:
  assumes "names_distinct fs"
  shows "names_distinct (prune_old_backups now d m fs)"
    and "set (prune_old_backups now d m fs) \<subseteq> set fs"
    and "f \<in> set (prune_old_backups now d m fs) \<Longrightarrow> backup_part f \<Longrightarrow> now - days d \<le> fi_mtime f"
    and "length (filter is_archive (prune_old_backups now d m fs)) \<le> nat m"
    and "f \<in> set fs \<Longrightarrow> \<not> backup_part f \<Longrightarrow> \<not> is_archive f \<Longrightarrow> \<forall>n. fi_name f \<noteq> digest_name n
          \<Longrightarrow> f \<in> set (prune_old_backups now d m fs)"
    and "f \<in> set fs \<Longrightarrow> is_archive f \<Longrightarrow> f \<notin> set (prune_old_backups now d m fs) \<Longrightarrow> fi_mtime f < now - days d
          \<or> length (filter is_archive (prune_old_backups now d m fs)) = nat m
            \<and> (\<forall>g \<in> set (prune_old_backups now d m fs). is_archive g \<longrightarrow> fi_mtime f \<le> fi_mtime g)"
proof -
  define kept where "kept = filter (\<lambda>f. \<not> (backup_part f \<and> fi_mtime f < now - days d)) fs"
  define archives where "archives = sort_key (\<lambda>f. - fi_mtime f) (filter is_archive kept)"
  define gone :: "backup_file \<Rightarrow> bool" where "gone f \<longleftrightarrow> (\<exists>x\<in>set (drop (nat m) archives). fi_name f = fi_name x \<or> fi_name f = digest_name (fi_name x))" for f
  have p: "prune_old_backups now d m fs = filter (\<lambda>f. \<not> gone f) kept"
    unfolding prune_old_backups_filter kept_def [symmetric] archives_def [symmetric] gone_def by (auto intro: filter_cong)
  have dk: "names_distinct kept" using assms by (simp add: kept_def names_distinct_def distinct_map_filter)
  show "names_distinct (prune_old_backups now d m fs)" using dk by (simp add: p names_distinct_def distinct_map_filter)
  show "set (prune_old_backups now d m fs) \<subseteq> set fs" by (auto simp: p kept_def)
  show "f \<in> set (prune_old_backups now d m fs) \<Longrightarrow> backup_part f \<Longrightarrow> now - days d \<le> fi_mtime f"
    by (auto simp: p kept_def)
  have in_a: "x \<in> set archives \<longleftrightarrow> x \<in> set kept \<and> is_archive x" for x by (auto simp: archives_def)
  have da: "distinct (map fi_name archives)"
  proof -
    have "distinct (map fi_name (filter is_archive kept))" using dk by (simp add: names_distinct_def distinct_map_filter)
    then show ?thesis by (simp add: archives_def distinct_map)
  qed
  have gone_a: "gone x \<longleftrightarrow> x \<in> set (drop (nat m) archives)" if "x \<in> set archives" for x
  proof -
    have "\<not> (\<exists>y. fi_name x = digest_name y)" using that digest_not_archive in_a by (auto simp: is_archive_def)
    moreover have "x = y" if "y \<in> set (drop (nat m) archives)" "fi_name x = fi_name y" for y
      using that \<open>x \<in> set archives\<close> da set_drop_subset [of "nat m" archives] by (auto simp: distinct_map dest: inj_onD)
    ultimately show ?thesis by (auto simp: gone_def)
  qed
  have da2: "distinct archives" using da by (simp add: distinct_map)
  have kept_a: "filter (\<lambda>x. \<not> gone x) archives = take (nat m) archives"
  proof -
    have "filter (\<lambda>x. \<not> gone x) archives = filter (\<lambda>x. x \<notin> set (drop (nat m) archives)) archives"
      using gone_a by (auto intro: filter_cong)
    also have "\<dots> = filter (\<lambda>x. x \<notin> set (drop (nat m) archives)) (take (nat m) archives @ drop (nat m) archives)" by simp
    also have "\<dots> = take (nat m) archives"
    proof -
      have "set (take (nat m) archives) \<inter> set (drop (nat m) archives) = {}" using da2 by (rule set_take_disj_set_drop_if_distinct) simp
      then have "filter (\<lambda>x. x \<notin> set (drop (nat m) archives)) (take (nat m) archives) = take (nat m) archives"
        by (auto simp: filter_id_conv)
      moreover have "filter (\<lambda>x. x \<notin> set (drop (nat m) archives)) (drop (nat m) archives) = []" by (simp add: filter_empty_conv)
      ultimately show ?thesis by (simp del: append_take_drop_id)
    qed
    finally show ?thesis .
  qed
  have "mset (filter is_archive (filter (\<lambda>f. \<not> gone f) kept)) = mset (filter (\<lambda>x. \<not> gone x) archives)"
    by (simp add: archives_def filter_filter_mset conj_commute)
  then have n: "mset (filter is_archive (prune_old_backups now d m fs)) = mset (take (nat m) archives)"
    by (simp add: p kept_a)
  then have len: "length (filter is_archive (prune_old_backups now d m fs)) = min (length archives) (nat m)"
    by (metis length_take size_mset)
  then show "length (filter is_archive (prune_old_backups now d m fs)) \<le> nat m" by simp
  show "f \<in> set (prune_old_backups now d m fs)"
    if "f \<in> set fs" "\<not> backup_part f" "\<not> is_archive f" "\<forall>n. fi_name f \<noteq> digest_name n"
  proof -
    have "is_archive f" if "fi_name f = fi_name x" "is_archive x" for x using that by (simp add: is_archive_def)
    then have "\<not> gone f" using that in_a set_drop_subset [of "nat m" archives] by (force simp: gone_def)
    then show ?thesis using that by (simp add: p kept_def)
  qed
  show "fi_mtime f < now - days d
          \<or> length (filter is_archive (prune_old_backups now d m fs)) = nat m
            \<and> (\<forall>g \<in> set (prune_old_backups now d m fs). is_archive g \<longrightarrow> fi_mtime f \<le> fi_mtime g)"
    if f: "f \<in> set fs" "is_archive f" "f \<notin> set (prune_old_backups now d m fs)"
  proof (cases "f \<in> set kept")
    case False
    then show ?thesis using f by (auto simp: kept_def)
  next
    case True
    then have "gone f" "f \<in> set archives" using f by (auto simp: p in_a)
    then have fd: "f \<in> set (drop (nat m) archives)" using gone_a by simp
    then have "nat m < length archives" by (metis drop_all empty_iff empty_set not_le)
    moreover have "fi_mtime f \<le> fi_mtime g" if "g \<in> set (take (nat m) archives)" for g
    proof -
      have "sorted (map (\<lambda>f. - fi_mtime f) (take (nat m) archives @ drop (nat m) archives))" by (simp add: archives_def)
      then have "- fi_mtime g \<le> - fi_mtime f" using that fd unfolding map_append sorted_append by auto
      then show ?thesis by simp
    qed
    moreover have "set (filter is_archive (prune_old_backups now d m fs)) = set (take (nat m) archives)"
      using n by (metis set_mset_mset)
    ultimately show ?thesis using len by auto
  qed
qed

subsection \<open>Runs of the PostgreSQL backup\<close>

definition hidden :: "string \<Rightarrow> bool" where
  "hidden n = startswith n ''.''"

lemma names_apart:
  "hidden n \<Longrightarrow> n \<noteq> archive_name t \<and> n \<noteq> digest_name (archive_name t) \<and> n \<noteq> success_receipt"
  "archive_name t \<noteq> digest_name (archive_name u)" "archive_name t \<noteq> success_receipt"
  "digest_name (archive_name t) \<noteq> success_receipt"
proof -
  show "hidden n \<Longrightarrow> n \<noteq> archive_name t \<and> n \<noteq> digest_name (archive_name t) \<and> n \<noteq> success_receipt"
    by (auto simp: hidden_def startswith_def archive_name_def digest_name_def success_receipt_def backup_prefix_def)
  have a: "endswith (archive_name t) ''.dump''" for t unfolding archive_name_def endswith_def by simp
  have d: "endswith (digest_name m) ''.sha256''" for m unfolding digest_name_def endswith_def by simp
  have r: "\<not> endswith success_receipt ''.dump''" "\<not> endswith success_receipt ''.sha256''" by code_simp+
  show "archive_name t \<noteq> digest_name (archive_name u)" by (rule notI) (use a [of t] digest_not_archive [of "archive_name u"] in simp)
  show "archive_name t \<noteq> success_receipt" by (rule notI) (use a [of t] r(1) in simp)
  show "digest_name (archive_name t) \<noteq> success_receipt" by (rule notI) (use d [of "archive_name t"] r(2) in simp)
qed

text \<open>The files after the archive and its digest are in place.\<close>

definition staged_files :: "(string \<Rightarrow> string) \<Rightarrow> backup_tools \<Rightarrow> clock \<Rightarrow> string \<Rightarrow> backup_file list \<Rightarrow> backup_file list" where
  "staged_files sha256 bt clk content fs =
     (let archive = archive_name (clk 0); temporary = bt_temporary bt;
          files1 = put_file \<lparr>fi_name = temporary, fi_bytes = content, fi_mode = 384, fi_mtime = clk 1\<rparr>
            (put_file \<lparr>fi_name = temporary, fi_bytes = [], fi_mode = 384, fi_mtime = clk 0\<rparr> fs)
      in put_file \<lparr>fi_name = digest_name archive, fi_bytes = digest_text (sha256 content) archive, fi_mode = 384, fi_mtime = clk 2\<rparr>
           (replace_file temporary archive files1))"

lemma find_staged:
  assumes "hidden (bt_temporary bt)"
  shows "find_file n (staged_files sha256 bt clk content fs) =
     (if n = digest_name (archive_name (clk 0)) then Some \<lparr>fi_name = digest_name (archive_name (clk 0)),
         fi_bytes = digest_text (sha256 content) (archive_name (clk 0)), fi_mode = 384, fi_mtime = clk 2\<rparr>
      else if n = archive_name (clk 0) then Some \<lparr>fi_name = archive_name (clk 0), fi_bytes = content, fi_mode = 384, fi_mtime = clk 1\<rparr>
      else if n = bt_temporary bt then None else find_file n fs)"
  using names_apart(1) [OF assms, of "clk 0"] by (auto simp: staged_files_def Let_def find_put find_replace)

lemma staged_distinct: "names_distinct fs \<Longrightarrow> names_distinct (staged_files sha256 bt clk content fs)"
  by (simp add: staged_files_def Let_def)

text \<open>How a run ends: with nothing written, with the files staged but no success, or with all of it.\<close>

lemma backup_run_cases:
  assumes "create_postgres_backup st sha256 dumps bt opts clk w = (r, v)"
  obtains (refused) e where "r = Inl e" and "v = w"
  | (aborted) e fs where "r = Inl e" and "bw_sent v = bw_sent w"
      and "\<forall>n. find_file n (bw_files v) = (if n = bt_temporary bt then None else find_file n (bw_files w))"
  | (unverified) e content where "r = Inl e"
      and "bw_files v = unlink (bt_temporary bt) (staged_files sha256 bt clk content (bw_files w))"
  | (verified) content receipt where "r = Inr ()" and "option_errors st bt opts = Inr ()"
      and "bt_dump bt = Some content" and "bt_listed bt content"
      and "upload_backup sha256 bt (clk 3) (bo_bucket opts) (archive_name (clk 0)) content (sha256 content) (bw_sent w) = (Inr receipt, bw_sent v)"
      and "bw_files v = unlink (bt_temporary bt) (prune_old_backups (clk 5) (bo_retain_days opts) (bo_max_archives opts)
             (put_file \<lparr>fi_name = success_receipt, fi_bytes = dumps receipt @ [CHR 0x0A], fi_mode = 384, fi_mtime = clk 4\<rparr>
               (staged_files sha256 bt clk content (bw_files w))))"
proof (cases "option_errors st bt opts")
  case (Inl e)
  then have "r = Inl e" and "v = w" using assms by (simp_all add: create_postgres_backup_def)
  then show ?thesis by (rule refused)
next
  case (Inr u)
  show ?thesis
  proof (cases "bt_dump bt")
    case None
    then show ?thesis using assms Inr aborted
      by (auto simp: create_postgres_backup_def Let_def find_unlink find_put)
  next
    case (Some content)
    show ?thesis
    proof (cases "bt_listed bt content")
      case False
      then show ?thesis using assms Inr Some aborted
        by (auto simp: create_postgres_backup_def Let_def find_unlink find_put)
    next
      case True
      obtain q sent where up: "upload_backup sha256 bt (clk 3) (bo_bucket opts) (archive_name (clk 0)) content (sha256 content) (bw_sent w) = (q, sent)"
        by fastforce
      show ?thesis
      proof (cases q)
        case (Inl e)
        then show ?thesis using assms Inr Some True up unverified
          by (auto simp: create_postgres_backup_def Let_def staged_files_def)
      next
        case ok: (Inr receipt)
        have "v = \<lparr>bw_files = unlink (bt_temporary bt) (prune_old_backups (clk 5) (bo_retain_days opts) (bo_max_archives opts)
             (put_file \<lparr>fi_name = success_receipt, fi_bytes = dumps receipt @ [CHR 0x0A], fi_mode = 384, fi_mtime = clk 4\<rparr>
               (staged_files sha256 bt clk content (bw_files w)))), bw_sent = sent\<rparr>" "r = Inr ()"
          using assms Inr Some True up ok by (auto simp: create_postgres_backup_def Let_def staged_files_def)
        then show ?thesis using verified [of content receipt] Inr Some True up ok by simp
      qed
    qed
  qed
qed

lemma upload_verified:
  assumes "upload_backup sha256 bt now bucket archive content digest sent = (Inr receipt, sent2)"
  shows "sent2 = sent @ [(object_key archive, content, digest), (object_key (digest_name archive), digest_text digest archive, digest)]
     \<and> (\<exists>h k. bt_head bt (object_key archive) = Some h \<and> head_verified sha256 digest content h
          \<and> bt_head bt (object_key (digest_name archive)) = Some k \<and> head_verified sha256 digest (digest_text digest archive) k
          \<and> receipt = JObj [(''completed_at'', JStr (datetime_iso now)), (''bucket'', JStr bucket),
              (''archive_sha256'', JStr digest),
              (''objects'', JArr [receipt_object sha256 (object_key archive) content h,
                 receipt_object sha256 (object_key (digest_name archive)) (digest_text digest archive) k])])"
  using assms
  by (auto simp: upload_backup_def verify_remote_upload_def Let_def bind_result_Inr_iff split: if_splits option.splits)

lemma in_unlink [simp]: "f \<in> set (unlink n fs) \<longleftrightarrow> f \<in> set fs \<and> fi_name f \<noteq> n"
  by (auto simp: unlink_def)

lemma in_put [simp]: "g \<in> set (put_file f fs) \<longleftrightarrow> g = f \<or> g \<in> set fs \<and> fi_name g \<noteq> fi_name f"
  by (auto simp: put_file_def)

lemma archive_is: "is_archive \<lparr>fi_name = archive_name t, fi_bytes = b, fi_mode = m, fi_mtime = u\<rparr>"
  by (simp add: is_archive_def archive_name_def startswith_def endswith_def)

lemma receipt_no_backup:
  "fi_name f = success_receipt \<Longrightarrow> \<not> backup_part f \<and> \<not> is_archive f \<and> (\<forall>n. fi_name f \<noteq> digest_name n)"
proof -
  assume n: "fi_name f = success_receipt"
  have "path_suffix success_receipt = ''.json''" "\<not> endswith success_receipt ''.dump''" "\<not> endswith success_receipt ''.sha256''"
    by code_simp+
  moreover have "success_receipt \<noteq> digest_name m" for m
  proof
    assume "success_receipt = digest_name m"
    moreover have "endswith (digest_name m) ''.sha256''" unfolding digest_name_def endswith_def by simp
    ultimately show False using \<open>\<not> endswith success_receipt ''.sha256''\<close> by simp
  qed
  ultimately show ?thesis using n by (auto simp: backup_part_def is_archive_def)
qed

lemma archive_not_hidden: "is_archive f \<Longrightarrow> \<not> hidden (fi_name f)"
  by (cases "fi_name f") (auto simp: is_archive_def hidden_def startswith_def backup_prefix_def)

text \<open>The files of a verified run before pruning.\<close>

definition published_files ::
  "(string \<Rightarrow> string) \<Rightarrow> (json \<Rightarrow> string) \<Rightarrow> backup_tools \<Rightarrow> clock \<Rightarrow> string \<Rightarrow> json \<Rightarrow> backup_file list \<Rightarrow> backup_file list" where
  "published_files sha256 dumps bt clk content receipt fs =
     put_file \<lparr>fi_name = success_receipt, fi_bytes = dumps receipt @ [CHR 0x0A], fi_mode = 384, fi_mtime = clk 4\<rparr>
       (staged_files sha256 bt clk content fs)"

lemma in_published:
  assumes "names_distinct fs" and "hidden (bt_temporary bt)"
  shows "f \<in> set (published_files sha256 dumps bt clk content receipt fs) \<longleftrightarrow>
     (if fi_name f = success_receipt
      then f = \<lparr>fi_name = success_receipt, fi_bytes = dumps receipt @ [CHR 0x0A], fi_mode = 384, fi_mtime = clk 4\<rparr>
      else if fi_name f = digest_name (archive_name (clk 0))
      then f = \<lparr>fi_name = digest_name (archive_name (clk 0)), fi_bytes = digest_text (sha256 content) (archive_name (clk 0)),
             fi_mode = 384, fi_mtime = clk 2\<rparr>
      else if fi_name f = archive_name (clk 0)
      then f = \<lparr>fi_name = archive_name (clk 0), fi_bytes = content, fi_mode = 384, fi_mtime = clk 1\<rparr>
      else fi_name f \<noteq> bt_temporary bt \<and> f \<in> set fs)"
proof -
  have "names_distinct (published_files sha256 dumps bt clk content receipt fs)"
    using assms(1) by (simp add: published_files_def staged_distinct)
  from find_in [OF this, of f] show ?thesis
    unfolding published_files_def find_put find_staged [OF assms(2)] using find_in [OF assms(1), of f] by auto
qed

lemma verified_retention:
  fixes now r m sha256 dumps bt clk content receipt fs
  assumes d: "names_distinct fs" and hid: "hidden (bt_temporary bt)" and m: "1 \<le> m"
  defines "result \<equiv> unlink (bt_temporary bt) (prune_old_backups now r m (published_files sha256 dumps bt clk content receipt fs))"
  shows "f \<in> set result \<Longrightarrow> backup_part f \<Longrightarrow> now - days r \<le> fi_mtime f"
    and "length (filter is_archive result) \<le> nat m"
    and "f \<in> set fs \<Longrightarrow> is_archive f \<Longrightarrow> f \<notin> set result \<Longrightarrow> fi_name f \<noteq> archive_name (clk 0) \<Longrightarrow>
           fi_mtime f < now - days r \<or> length (filter is_archive result) = nat m
             \<and> (\<forall>g\<in>set result. is_archive g \<longrightarrow> fi_mtime f \<le> fi_mtime g)"
    and "f \<in> set fs \<Longrightarrow> \<not> backup_part f \<Longrightarrow> \<not> is_archive f \<Longrightarrow> \<forall>n. fi_name f \<noteq> digest_name n \<Longrightarrow> fi_name f \<noteq> success_receipt
           \<Longrightarrow> fi_name f \<noteq> bt_temporary bt \<Longrightarrow> f \<in> set result"
    and "find_file success_receipt result
           = Some \<lparr>fi_name = success_receipt, fi_bytes = dumps receipt @ [CHR 0x0A], fi_mode = 384, fi_mtime = clk 4\<rparr>"
    and "\<forall>g\<in>set fs. is_archive g \<longrightarrow> fi_mtime g < clk 1 \<Longrightarrow> now - days r \<le> clk 1 \<Longrightarrow>
           find_file (archive_name (clk 0)) result
             = Some \<lparr>fi_name = archive_name (clk 0), fi_bytes = content, fi_mode = 384, fi_mtime = clk 1\<rparr>"
proof -
  let ?p = "published_files sha256 dumps bt clk content receipt fs" and ?q = "prune_old_backups now r m (published_files sha256 dumps bt clk content receipt fs)"
  let ?new = "\<lparr>fi_name = archive_name (clk 0), fi_bytes = content, fi_mode = 384, fi_mtime = clk 1\<rparr>"
  let ?receipt = "\<lparr>fi_name = success_receipt, fi_bytes = dumps receipt @ [CHR 0x0A], fi_mode = 384, fi_mtime = clk 4\<rparr>"
  note apart = names_apart(1) [OF hid, of "clk 0"] names_apart(2-4)
  note inp = in_published [OF d hid, of _ sha256 dumps clk content receipt]
  have dp: "names_distinct ?p" using d by (simp add: published_files_def staged_distinct)
  note spec = prune_old_backups_spec [OF dp, where now = now and d = r and m = m]
  have "fi_name f \<noteq> bt_temporary bt" if "f \<in> set ?q" for f
    using that spec(2) inp apart by (auto split: if_splits)
  then have result: "result = ?q" by (auto simp: result_def unlink_def delete_where_def filter_id_conv)
  show "f \<in> set result \<Longrightarrow> backup_part f \<Longrightarrow> now - days r \<le> fi_mtime f" using spec(3) by (simp add: result)
  show "length (filter is_archive result) \<le> nat m" using spec(4) by (simp add: result)
  have archives_stay: "fi_name f \<noteq> success_receipt \<and> fi_name f \<noteq> digest_name (archive_name (clk 0)) \<and> fi_name f \<noteq> bt_temporary bt"
    if "is_archive f" for f
    using that receipt_no_backup [of f] digest_not_archive [of "archive_name (clk 0)"] hid archive_not_hidden [OF that]
    by (auto simp: is_archive_def)
  show "fi_mtime f < now - days r \<or> length (filter is_archive result) = nat m
             \<and> (\<forall>g\<in>set result. is_archive g \<longrightarrow> fi_mtime f \<le> fi_mtime g)"
    if "f \<in> set fs" "is_archive f" "f \<notin> set result" "fi_name f \<noteq> archive_name (clk 0)"
    using that spec(6) [where f = f] archives_stay inp by (simp add: result)
  show "f \<in> set result" if "f \<in> set fs" "\<not> backup_part f" "\<not> is_archive f" "\<forall>n. fi_name f \<noteq> digest_name n"
    "fi_name f \<noteq> success_receipt" "fi_name f \<noteq> bt_temporary bt"
  proof -
    have "fi_name f \<noteq> archive_name (clk 0)" using that(3) by (auto simp: is_archive_def archive_name_def startswith_def endswith_def)
    then show ?thesis using that spec(5) [where f = f] inp by (simp add: result)
  qed
  have dq: "names_distinct result" using spec(1) by (simp add: result)
  have "?receipt \<in> set ?p" using inp by simp
  then have "?receipt \<in> set result" using spec(5) [where f = ?receipt] receipt_no_backup [of ?receipt] by (simp add: result)
  then show "find_file success_receipt result = Some ?receipt" using find_in [OF dq, of ?receipt] by simp
  show "find_file (archive_name (clk 0)) result = Some ?new"
    if old: "\<forall>g\<in>set fs. is_archive g \<longrightarrow> fi_mtime g < clk 1" and recent: "now - days r \<le> clk 1"
  proof -
    have new: "?new \<in> set ?p" "is_archive ?new" using inp apart archive_is by auto
    have "?new \<in> set result"
    proof (rule ccontr)
      assume gone: "?new \<notin> set result"
      then have full: "length (filter is_archive result) = nat m" and newer: "\<forall>g\<in>set result. is_archive g \<longrightarrow> clk 1 \<le> fi_mtime g"
        using spec(6) [OF new] recent by (auto simp: result)
      from full m have "filter is_archive result \<noteq> []" by auto
      then obtain g where g: "g \<in> set result" "is_archive g" by (auto simp: filter_empty_conv)
      then have "g \<in> set ?p" using spec(2) by (auto simp: result)
      then have "g = ?new \<or> g \<in> set fs" using inp archives_stay [OF g(2)] by (auto split: if_splits)
      then show False using g gone newer old by fastforce
    qed
    then show ?thesis using find_in [OF dq, of ?new] by simp
  qed
qed

subsection \<open>Properties of the PostgreSQL backup\<close>

text \<open>C23: A backup that fails does no harm. Whatever fails, the dump, its validation, an upload or the
  verification of the uploaded objects, every file of the directory is as it was, the earlier
  backups and the receipt of the last success among them, except that the new archive and its
  digest may be there; and no temporary file is left.\<close>

theorem backup_failure_harmless:
  assumes "create_postgres_backup st sha256 dumps bt opts clk w = (Inl e, v)"
    and "hidden (bt_temporary bt)" and "find_file (bt_temporary bt) (bw_files w) = None"
  shows "(\<forall>n. find_file n (bw_files v) \<noteq> find_file n (bw_files w) \<longrightarrow>
           n = archive_name (clk 0) \<or> n = digest_name (archive_name (clk 0)))
     \<and> find_file (bt_temporary bt) (bw_files v) = None
     \<and> find_file success_receipt (bw_files v) = find_file success_receipt (bw_files w)"
  using assms(1)
proof (cases rule: backup_run_cases)
  case (unverified e content)
  then show ?thesis using assms(3) names_apart(1) [OF assms(2), of "clk 0"] names_apart(3,4) [of "clk 0"]
    by (auto simp: find_unlink find_staged [OF assms(2)])
qed (use assms(3) names_apart(1) [OF assms(2)] in auto)

text \<open>A backup that succeeds is in the object storage. Exactly the dump that \<open>pg_restore\<close> could
  list and the text with its digest were sent; for both the storage answered with the right size,
  checksum, digest and a version; and the receipt of the directory names these objects.\<close>

theorem backup_success_verified:
  assumes "create_postgres_backup st sha256 dumps bt opts clk w = (Inr (), v)"
    and "hidden (bt_temporary bt)" and "names_distinct (bw_files w)"
  shows "\<exists>content h k f. bt_dump bt = Some content \<and> bt_listed bt content
     \<and> (let a = archive_name (clk 0); b = digest_name a; digest = sha256 content; note = digest_text digest a in
        bw_sent v = bw_sent w @ [(object_key a, content, digest), (object_key b, note, digest)]
        \<and> bt_head bt (object_key a) = Some h \<and> head_verified sha256 digest content h
        \<and> bt_head bt (object_key b) = Some k \<and> head_verified sha256 digest note k
        \<and> find_file success_receipt (bw_files v) = Some f
        \<and> fi_bytes f = dumps (JObj [(''completed_at'', JStr (datetime_iso (clk 3))), (''bucket'', JStr (bo_bucket opts)),
              (''archive_sha256'', JStr digest),
              (''objects'', JArr [receipt_object sha256 (object_key a) content h, receipt_object sha256 (object_key b) note k])])
            @ [CHR 0x0A])"
  using assms(1)
proof (cases rule: backup_run_cases)
  case (verified content receipt)
  have "1 \<le> bo_max_archives opts" using verified(2) by (auto simp: option_errors_def bind_result_Inr_iff)
  from verified_retention(5) [OF assms(3,2) this] verified(6)
  have "find_file success_receipt (bw_files v)
      = Some \<lparr>fi_name = success_receipt, fi_bytes = dumps receipt @ [CHR 0x0A], fi_mode = 384, fi_mtime = clk 4\<rparr>"
    by (simp add: published_files_def)
  then show ?thesis using verified(3,4) upload_verified [OF verified(5)] by (auto simp: Let_def)
qed simp_all

text \<open>After a backup that succeeds the directory is bounded and keeps the best: no part of a backup
  is older than the retention, at most the configured number of archives is left, an archive was
  removed only for its age or when that many are left that are not older, other files stay; and the
  new archive itself is there unless an earlier one carries its time or a later one, or the run
  took longer than the retention.\<close>

theorem backup_retention:
  assumes "create_postgres_backup st sha256 dumps bt opts clk w = (Inr (), v)"
    and "hidden (bt_temporary bt)" and "names_distinct (bw_files w)"
  shows "(\<forall>f\<in>set (bw_files v). backup_part f \<longrightarrow> clk 5 - days (bo_retain_days opts) \<le> fi_mtime f)
     \<and> length (filter is_archive (bw_files v)) \<le> nat (bo_max_archives opts)
     \<and> (\<forall>f\<in>set (bw_files w). is_archive f \<and> f \<notin> set (bw_files v) \<and> fi_name f \<noteq> archive_name (clk 0) \<longrightarrow>
          fi_mtime f < clk 5 - days (bo_retain_days opts)
          \<or> length (filter is_archive (bw_files v)) = nat (bo_max_archives opts)
            \<and> (\<forall>g\<in>set (bw_files v). is_archive g \<longrightarrow> fi_mtime f \<le> fi_mtime g))
     \<and> (\<forall>f\<in>set (bw_files w). \<not> backup_part f \<and> \<not> is_archive f \<and> (\<forall>n. fi_name f \<noteq> digest_name n)
          \<and> fi_name f \<noteq> success_receipt \<and> fi_name f \<noteq> bt_temporary bt \<longrightarrow> f \<in> set (bw_files v))
     \<and> ((\<forall>g\<in>set (bw_files w). is_archive g \<longrightarrow> fi_mtime g < clk 1) \<and> clk 5 - days (bo_retain_days opts) \<le> clk 1 \<longrightarrow>
          (\<exists>f. find_file (archive_name (clk 0)) (bw_files v) = Some f \<and> bt_dump bt = Some (fi_bytes f)))"
  using assms(1)
proof (cases rule: backup_run_cases)
  case (verified content receipt)
  have m: "1 \<le> bo_max_archives opts" using verified(2) by (auto simp: option_errors_def bind_result_Inr_iff)
  have files: "bw_files v = unlink (bt_temporary bt) (prune_old_backups (clk 5) (bo_retain_days opts) (bo_max_archives opts)
      (published_files sha256 dumps bt clk content receipt (bw_files w)))"
    using verified(6) by (simp add: published_files_def)
  note kept = verified_retention [OF assms(3,2) m, where now = "clk 5" and r = "bo_retain_days opts" and ?sha256.0 = sha256
      and dumps = dumps and clk = clk and content = content and receipt = receipt, folded files]
  show ?thesis
    using kept(1,2,3,4,6) verified(3) by (intro conjI ballI impI) (blast, blast, blast, blast, auto)
qed simp_all

definition example_head :: "nat \<Rightarrow> object_head" where
  "example_head n = \<lparr>oh_length = Some (int n), oh_metadata = [(''Sha256'', replicate 64 (CHR ''a''))],
     oh_checksum = Some (standard_b64 (replicate 32 170)), oh_version = Some ''v1''\<rparr>"

definition example_backup :: "bool \<Rightarrow> backup_tools" where
  "example_backup reachable = \<lparr>bt_found = (\<lambda>x. True), bt_temporary = ''.postgres-backup-x.dump'', bt_dump = Some ''PGDMP'',
     bt_listed = (\<lambda>b. True), bt_upload = (\<lambda>n. if reachable then Uploaded else ClientFailure),
     bt_head = (\<lambda>k. if endswith k ''.dump'' then Some (example_head 5) else Some (example_head 113))\<rparr>"

definition example_sha :: "string \<Rightarrow> string" where
  "example_sha x = replicate 64 (CHR ''a'')"

definition postgres_settings :: settings where
  "postgres_settings = default_settings\<lparr>st_database_engine := ''django.db.backends.postgresql''\<rparr>"

definition old_archive :: backup_file where
  "old_archive = \<lparr>fi_name = archive_name 0, fi_bytes = ''PGDMP'', fi_mode = 384, fi_mtime = 0\<rparr>"

definition backup_run :: "bool \<Rightarrow> unit result \<times> backup_world" where
  "backup_run reachable = create_postgres_backup postgres_settings example_sha (\<lambda>j. []) (example_backup reachable)
     \<lparr>bo_bucket = ''b'', bo_retain_days = 3, bo_max_archives = 1\<rparr> (\<lambda>i. days 1 + int i)
     \<lparr>bw_files = [old_archive], bw_sent = []\<rparr>"

lemma backup_run_results: "fst (backup_run True) = Inr ()" "fst (backup_run False) = Inl (CommandError ''PostgreSQL backup upload failed.'')"
  by code_simp+

lemma example_files:
  "hidden (bt_temporary (example_backup b))" "names_distinct [old_archive]"
  "find_file (bt_temporary (example_backup b)) [old_archive] = None"
  by (simp_all add: example_backup_def hidden_def startswith_def names_distinct_def old_archive_def find_file_def
      lookup_by_Cons archive_name_def backup_prefix_def)

theorem backup_failure_harmless_witness:
  "find_file success_receipt (bw_files (snd (backup_run False))) = None"
proof -
  obtain v where v: "backup_run False = (Inl (CommandError ''PostgreSQL backup upload failed.''), v)"
    using backup_run_results(2) by (metis prod.collapse)
  have "find_file success_receipt [old_archive] = None" by code_simp
  then show ?thesis
    using backup_failure_harmless [OF v [unfolded backup_run_def] example_files(1)] example_files(3) v by simp
qed

theorem backup_success_verified_witness:
  "\<exists>f. find_file success_receipt (bw_files (snd (backup_run True))) = Some f \<and> length (bw_sent (snd (backup_run True))) = 2"
proof -
  obtain v where v: "backup_run True = (Inr (), v)" using backup_run_results(1) by (metis prod.collapse)
  from backup_success_verified [OF v [unfolded backup_run_def] example_files(1)] example_files(2) v
  show ?thesis by (auto simp: Let_def)
qed

theorem backup_retention_witness:
  "length (filter is_archive (bw_files (snd (backup_run True)))) \<le> 1
   \<and> (\<exists>f. find_file (archive_name (days 1)) (bw_files (snd (backup_run True))) = Some f)"
proof -
  obtain v where v: "backup_run True = (Inr (), v)" using backup_run_results(1) by (metis prod.collapse)
  have "\<forall>g\<in>set [old_archive]. is_archive g \<longrightarrow> fi_mtime g < days 1 + 1" by (simp add: old_archive_def)
  then show ?thesis
    using backup_retention [OF v [unfolded backup_run_def] example_files(1)] example_files(2) v by auto
qed

subsection \<open>The pilot backup\<close>

text \<open>
  A member of a tar archive: its name and, for a regular file, its text. \<open>untar\<close> reads an archive,
  \<open>None\<close> for a \<open>TarError\<close>; \<open>decode\<close> is the reading of UTF-8.
\<close>

type_synonym tar_member = "string \<times> string option"

definition path_parts :: "string \<Rightarrow> string list" where
  "path_parts p = filter (\<lambda>x. x \<noteq> [] \<and> x \<noteq> ''.'') (split_on (CHR ''/'') p)"

definition unsafe_member :: "tar_member \<Rightarrow> bool" where
  "unsafe_member m = (startswith (fst m) ''/'' \<or> ''..'' \<in> set (path_parts (fst m)))"

definition reject_unsafe_members :: "tar_member list \<Rightarrow> unit result" where
  "reject_unsafe_members ms = (case find unsafe_member ms of None \<Rightarrow> Inr ()
     | Some m \<Rightarrow> Inl (CommandError (''Backup contains unsafe path: '' @ fst m)))"

text \<open>\<open>extractfile\<close> of a name that is present: the last member with it.\<close>

definition extract_file :: "string \<Rightarrow> tar_member list \<Rightarrow> string option" where
  "extract_file n ms = (case lookup_by fst n (rev ms) of None \<Rightarrow> None | Some m \<Rightarrow> snd m)"

definition read_payload :: "(string \<Rightarrow> string option) \<Rightarrow> (string \<Rightarrow> json option) \<Rightarrow> string \<Rightarrow> json result" where
  "read_payload decode loads b = (case decode b of None \<Rightarrow> Inl (ServerError ''UnicodeDecodeError'')
     | Some t \<Rightarrow> (case loads t of None \<Rightarrow> Inl (CommandError ''Backup verification failed'') | Some j \<Rightarrow> Inr j))"

definition is_media :: "string \<Rightarrow> bool" where
  "is_media n = (n = ''media'' \<or> startswith n ''media/'')"

text \<open>\<open>verify_pilot_backup\<close> of a file of the directory: the number of records.\<close>

definition verify_pilot_backup ::
  "(string \<Rightarrow> tar_member list option) \<Rightarrow> (string \<Rightarrow> string option) \<Rightarrow> (string \<Rightarrow> json option) \<Rightarrow> string
    \<Rightarrow> backup_file list \<Rightarrow> nat result" where
  "verify_pilot_backup untar decode loads archive fs =
     (case find_file archive fs of
        None \<Rightarrow> Inl (CommandError (''Backup archive does not exist: '' @ archive))
      | Some f \<Rightarrow> (case untar (fi_bytes f) of
          None \<Rightarrow> Inl (CommandError ''Backup verification failed'')
        | Some members \<Rightarrow>
            bind_result (reject_unsafe_members members) (\<lambda>u1.
            bind_result (require (''metadata.json'' \<in> fst ` set members) (CommandError ''Backup is missing metadata.json.'')) (\<lambda>u2.
            bind_result (require (''database.json'' \<in> fst ` set members) (CommandError ''Backup is missing database.json.'')) (\<lambda>u3.
            (case (extract_file ''metadata.json'' members, extract_file ''database.json'' members) of
               (Some m, Some d) \<Rightarrow>
                 bind_result (read_payload decode loads m) (\<lambda>metadata.
                 bind_result (read_payload decode loads d) (\<lambda>database.
                 (case database of
                    JArr records \<Rightarrow>
                      (case metadata of
                         JObj p \<Rightarrow>
                           if truthy (jget_default p ''media_included'' JNull) \<and> \<not> list_ex (\<lambda>x. is_media (fst x)) members
                           then Inl (CommandError ''Backup metadata says media is included, but no media folder exists.'')
                           else Inr (length records)
                       | _ \<Rightarrow> Inl (ServerError ''AttributeError''))
                  | _ \<Rightarrow> Inl (CommandError ''Database payload is not a Django fixture list.''))))
             | _ \<Rightarrow> Inl (CommandError ''Backup payload could not be read.'')))))))"

text \<open>
  What one run gets from outside: the fixture written by \<open>dumpdata\<close>, the tree under the media root
  with names relative to it, \<open>None\<close> when there is no such directory, and the answer to the upload.
\<close>

record pilot_tools =
  pt_fixture :: "string result"
  pt_media :: "tar_member list option"
  pt_uploaded :: bool

record pilot_options =
  po_retain_days :: int
  po_skip_media :: bool
  po_bucket :: string

definition pilot_prefix :: string where
  "pilot_prefix = ''duducar-signage''"

definition pilot_archive_name :: "time \<Rightarrow> string" where
  "pilot_archive_name t = pilot_prefix @ ''-'' @ stamp t @ ''.tar.gz''"

definition pilot_metadata :: "settings \<Rightarrow> bool \<Rightarrow> time \<Rightarrow> json" where
  "pilot_metadata st include_media now =
     JObj [(''created_at'', JStr (datetime_iso now)), (''deployment_env'', JStr (st_deployment_env st)),
           (''time_zone'', JStr ''Asia/Kuala_Lumpur''), (''database_engine'', JStr (st_database_engine st)),
           (''media_included'', JBool include_media)]"

definition media_members :: "tar_member list \<Rightarrow> tar_member list" where
  "media_members tree = (''media'', None) # map (\<lambda>(n, c). (''media/'' @ n, c)) tree"

definition pilot_members ::
  "settings \<Rightarrow> (json \<Rightarrow> string) \<Rightarrow> bool \<Rightarrow> time \<Rightarrow> string \<Rightarrow> tar_member list option \<Rightarrow> tar_member list" where
  "pilot_members st dumps include_media now fixture tree =
     [(''metadata.json'', Some (dumps (pilot_metadata st include_media now))), (''database.json'', Some fixture)]
     @ (if include_media then (case tree of None \<Rightarrow> [] | Some t \<Rightarrow> media_members t) else [])"

definition pilot_part :: "backup_file \<Rightarrow> bool" where
  "pilot_part f = (startswith (fi_name f) (pilot_prefix @ ''-'') \<and> endswith (fi_name f) ''.tar.gz'')"

definition prune_pilot_backups :: "time \<Rightarrow> int \<Rightarrow> backup_file list \<Rightarrow> backup_file list result" where
  "prune_pilot_backups now retain_days fs =
     (if retain_days < 1 then Inl (CommandError ''Backup retention must be at least one day.'')
      else Inr (delete_where (\<lambda>f. pilot_part f \<and> fi_mtime f < now - days retain_days) fs))"

text \<open>
  \<open>handle\<close>: the archive is written, old ones are deleted, and only then is it verified. The clock is
  read for the name (0), the metadata (1), the file (2) and pruning (3).
\<close>

definition create_pilot_backup ::
  "settings \<Rightarrow> (json \<Rightarrow> string) \<Rightarrow> (tar_member list \<Rightarrow> string) \<Rightarrow> (string \<Rightarrow> tar_member list option)
    \<Rightarrow> (string \<Rightarrow> string option) \<Rightarrow> (string \<Rightarrow> json option) \<Rightarrow> pilot_tools \<Rightarrow> pilot_options \<Rightarrow> clock \<Rightarrow> backup_file list
    \<Rightarrow> nat result \<times> backup_file list" where
  "create_pilot_backup st dumps tar untar decode loads pt opts clk fs =
     (case pt_fixture pt of
        Inl e \<Rightarrow> (Inl e, fs)
      | Inr fixture \<Rightarrow>
          let archive = pilot_archive_name (clk 0);
              content = tar (pilot_members st dumps (\<not> po_skip_media opts) (clk 1) fixture (pt_media pt));
              fs1 = put_file \<lparr>fi_name = archive, fi_bytes = content, fi_mode = 384, fi_mtime = clk 2\<rparr> fs
          in (case prune_pilot_backups (clk 3) (po_retain_days opts) fs1 of
              Inl e \<Rightarrow> (Inl e, fs1)
            | Inr fs2 \<Rightarrow>
                if find_file archive fs2 = None then (Inl (CommandError ''Backup archive was not created.''), fs2)
                else (case verify_pilot_backup untar decode loads archive fs2 of
                    Inl e \<Rightarrow> (Inl e, fs2)
                  | Inr n \<Rightarrow> if po_bucket opts \<noteq> [] \<and> \<not> pt_uploaded pt then (Inl (ServerError ''ClientError''), fs2)
                            else (Inr n, fs2))))"

lemma split_on_prefix: "c \<notin> set p \<Longrightarrow> split_on c (p @ c # s) = p # split_on c s"
  by (induction p) auto

lemma media_member_safe: "''..'' \<notin> set (path_parts n) \<Longrightarrow> \<not> unsafe_member (''media/'' @ n, c)"
  using split_on_prefix [of "CHR ''/''" "''media''" n] by (simp add: unsafe_member_def path_parts_def startswith_def)

lemma pilot_members_safe:
  assumes "\<And>t. tree = Some t \<Longrightarrow> include_media \<Longrightarrow> \<forall>m\<in>set t. ''..'' \<notin> set (path_parts (fst m))"
  shows "reject_unsafe_members (pilot_members st dumps include_media now fixture tree) = Inr ()"
proof -
  have base: "\<not> unsafe_member (''metadata.json'', x)" "\<not> unsafe_member (''database.json'', x)" "\<not> unsafe_member (''media'', x)" for x
    by (simp_all add: unsafe_member_def path_parts_def startswith_def)
  have "list_all (\<lambda>m. \<not> unsafe_member m) (media_members t)" if "tree = Some t" "include_media" for t
    using assms [OF that] base(3) media_member_safe by (auto simp: media_members_def list_all_iff)
  then have "list_all (\<lambda>m. \<not> unsafe_member m) (pilot_members st dumps include_media now fixture tree)"
    using base(1,2) by (simp add: pilot_members_def split: option.split)
  then have "find unsafe_member (pilot_members st dumps include_media now fixture tree) = None" by (auto simp: find_None_iff list_all_iff)
  then show ?thesis by (simp add: reject_unsafe_members_def)
qed

lemma pilot_payloads:
  "extract_file ''metadata.json'' (pilot_members st dumps include_media now fixture tree) = Some (dumps (pilot_metadata st include_media now))"
  "extract_file ''database.json'' (pilot_members st dumps include_media now fixture tree) = Some fixture"
proof -
  have "lookup_by fst n (rev (media_members t)) = None" if "\<not> is_media n" for n t
    using that by (auto simp: lookup_by_None media_members_def is_media_def startswith_def)
  moreover have "\<not> is_media ''metadata.json''" "\<not> is_media ''database.json''" by code_simp+
  ultimately show "extract_file ''metadata.json'' (pilot_members st dumps include_media now fixture tree) = Some (dumps (pilot_metadata st include_media now))"
    "extract_file ''database.json'' (pilot_members st dumps include_media now fixture tree) = Some fixture"
    by (simp_all add: extract_file_def pilot_members_def table_simps split: option.splits)
qed

lemma pilot_verified:
  assumes "find_file archive fs = Some f" and "untar (fi_bytes f) = Some (pilot_members st dumps include_media now fixture tree)"
    and "\<And>t. tree = Some t \<Longrightarrow> include_media \<Longrightarrow> \<forall>m\<in>set t. ''..'' \<notin> set (path_parts (fst m))"
    and "read_payload decode loads (dumps (pilot_metadata st include_media now)) = Inr (pilot_metadata st include_media now)"
    and "read_payload decode loads fixture = Inr (JArr records)"
  shows "verify_pilot_backup untar decode loads archive fs =
     (if include_media \<and> tree = None then Inl (CommandError ''Backup metadata says media is included, but no media folder exists.'')
      else Inr (length records))"
proof -
  have "list_ex (\<lambda>x. is_media (fst x)) (pilot_members st dumps include_media now fixture tree) \<longleftrightarrow> include_media \<and> tree \<noteq> None"
    by (auto simp: pilot_members_def media_members_def is_media_def startswith_def split: option.splits)
  moreover obtain rest where "map fst (pilot_members st dumps include_media now fixture tree) = ''metadata.json'' # ''database.json'' # rest"
    by (simp add: pilot_members_def)
  then have "''metadata.json'' \<in> fst ` set (pilot_members st dumps include_media now fixture tree)"
    "''database.json'' \<in> fst ` set (pilot_members st dumps include_media now fixture tree)"
    unfolding set_map [symmetric] by (metis list.set_intros)+
  moreover have "reject_unsafe_members (pilot_members st dumps include_media now fixture tree) = Inr ()"
    by (rule pilot_members_safe) (rule assms(3))
  ultimately show ?thesis
    using assms(1,2,4,5) by (simp add: verify_pilot_backup_def pilot_payloads pilot_metadata_def jget_default_def require_def)
qed

text \<open>A run with a sound clock comes to the verification, after the old archives are deleted.\<close>

lemma pilot_run:
  fixes st dumps tar untar decode loads pt opts clk fs fixture
  assumes "pt_fixture pt = Inr fixture" and "1 \<le> po_retain_days opts" and "clk 3 - days (po_retain_days opts) \<le> clk 2"
  defines "members \<equiv> pilot_members st dumps (\<not> po_skip_media opts) (clk 1) fixture (pt_media pt)"
  defines "f \<equiv> \<lparr>fi_name = pilot_archive_name (clk 0), fi_bytes = tar members, fi_mode = 384, fi_mtime = clk 2\<rparr>"
  defines "left \<equiv> delete_where (\<lambda>g. pilot_part g \<and> fi_mtime g < clk 3 - days (po_retain_days opts)) (put_file f fs)"
  shows "find_file (pilot_archive_name (clk 0)) left = Some f"
    and "create_pilot_backup st dumps tar untar decode loads pt opts clk fs =
      (case verify_pilot_backup untar decode loads (pilot_archive_name (clk 0)) left of
         Inl e \<Rightarrow> (Inl e, left)
       | Inr n \<Rightarrow> if po_bucket opts \<noteq> [] \<and> \<not> pt_uploaded pt then (Inl (ServerError ''ClientError''), left) else (Inr n, left))"
proof -
  have "left = delete_where (\<lambda>g. pilot_part g \<and> fi_mtime g < clk 3 - days (po_retain_days opts))
      (unlink (pilot_archive_name (clk 0)) fs) @ [f]"
    using assms(3) by (simp add: left_def put_file_def f_def delete_where_def)
  then show found: "find_file (pilot_archive_name (clk 0)) left = Some f"
    by (auto simp: find_file_def table_simps f_def dest!: lookup_by_SomeD split: option.split)
  show "create_pilot_backup st dumps tar untar decode loads pt opts clk fs =
      (case verify_pilot_backup untar decode loads (pilot_archive_name (clk 0)) left of
         Inl e \<Rightarrow> (Inl e, left)
       | Inr n \<Rightarrow> if po_bucket opts \<noteq> [] \<and> \<not> pt_uploaded pt then (Inl (ServerError ''ClientError''), left) else (Inr n, left))"
    using assms(1,2) found
    by (simp add: create_pilot_backup_def prune_pilot_backups_def Let_def left_def f_def members_def split: sum.split)
qed

text \<open>
  Without a media directory, as where media is in object storage, a run that does not skip the media
  fails, and the archives that are too old are deleted all the same.
\<close>

lemma pilot_backup_without_media:
  assumes "pt_fixture pt = Inr fixture" and "1 \<le> po_retain_days opts" and "clk 3 - days (po_retain_days opts) \<le> clk 2"
    and "untar (tar (pilot_members st dumps (\<not> po_skip_media opts) (clk 1) fixture (pt_media pt)))
           = Some (pilot_members st dumps (\<not> po_skip_media opts) (clk 1) fixture (pt_media pt))"
    and "read_payload decode loads (dumps (pilot_metadata st (\<not> po_skip_media opts) (clk 1)))
           = Inr (pilot_metadata st (\<not> po_skip_media opts) (clk 1))"
    and "read_payload decode loads fixture = Inr (JArr records)"
    and "\<not> po_skip_media opts" and "pt_media pt = None"
    and "g \<in> set fs" and "pilot_part g" and "fi_mtime g < clk 3 - days (po_retain_days opts)"
  shows "\<exists>left. create_pilot_backup st dumps tar untar decode loads pt opts clk fs =
      (Inl (CommandError ''Backup metadata says media is included, but no media folder exists.''), left) \<and> g \<notin> set left"
proof -
  note run = pilot_run [OF assms(1-3), where tar = tar and st = st and dumps = dumps and fs = fs]
  have "verify_pilot_backup untar decode loads (pilot_archive_name (clk 0))
      (delete_where (\<lambda>g. pilot_part g \<and> fi_mtime g < clk 3 - days (po_retain_days opts))
        (put_file \<lparr>fi_name = pilot_archive_name (clk 0),
           fi_bytes = tar (pilot_members st dumps (\<not> po_skip_media opts) (clk 1) fixture (pt_media pt)), fi_mode = 384, fi_mtime = clk 2\<rparr> fs))
      = Inl (CommandError ''Backup metadata says media is included, but no media folder exists.'')"
    using pilot_verified [OF run(1), of untar st dumps "\<not> po_skip_media opts" "clk 1" fixture "pt_media pt" decode loads records] assms(4-8)
    by simp
  then show ?thesis using assms(10,11) unfolding run(2) by auto
qed

text \<open>A pilot backup is readable. With a tar format and a JSON reader that give back what this
  run wrote, a run on a fixture that is a list, with a media directory or without media, ends with an
  archive in which the verification finds every record of the fixture; and of the other files only
  archives beyond the retention are deleted.\<close>

theorem pilot_backup_readable:
  assumes "pt_fixture pt = Inr fixture" and "1 \<le> po_retain_days opts" and "clk 3 - days (po_retain_days opts) \<le> clk 2"
    and "untar (tar (pilot_members st dumps (\<not> po_skip_media opts) (clk 1) fixture (pt_media pt)))
           = Some (pilot_members st dumps (\<not> po_skip_media opts) (clk 1) fixture (pt_media pt))"
    and "read_payload decode loads (dumps (pilot_metadata st (\<not> po_skip_media opts) (clk 1)))
           = Inr (pilot_metadata st (\<not> po_skip_media opts) (clk 1))"
    and "read_payload decode loads fixture = Inr (JArr records)"
    and "po_skip_media opts \<or> pt_media pt = Some tree \<and> (\<forall>m\<in>set tree. ''..'' \<notin> set (path_parts (fst m)))"
    and "po_bucket opts = [] \<or> pt_uploaded pt"
  shows "\<exists>left. create_pilot_backup st dumps tar untar decode loads pt opts clk fs = (Inr (length records), left)
     \<and> verify_pilot_backup untar decode loads (pilot_archive_name (clk 0)) left = Inr (length records)
     \<and> (\<forall>g\<in>set fs. g \<notin> set left \<longrightarrow> fi_name g = pilot_archive_name (clk 0)
          \<or> pilot_part g \<and> fi_mtime g < clk 3 - days (po_retain_days opts))"
proof -
  note run = pilot_run [OF assms(1-3), where tar = tar and st = st and dumps = dumps and fs = fs]
  let ?left = "delete_where (\<lambda>g. pilot_part g \<and> fi_mtime g < clk 3 - days (po_retain_days opts))
        (put_file \<lparr>fi_name = pilot_archive_name (clk 0),
           fi_bytes = tar (pilot_members st dumps (\<not> po_skip_media opts) (clk 1) fixture (pt_media pt)), fi_mode = 384, fi_mtime = clk 2\<rparr> fs)"
  have "verify_pilot_backup untar decode loads (pilot_archive_name (clk 0)) ?left = Inr (length records)"
    using pilot_verified [OF run(1), of untar st dumps "\<not> po_skip_media opts" "clk 1" fixture "pt_media pt" decode loads records] assms(4-7)
    by auto
  then show ?thesis using assms(8) unfolding run(2) by (intro exI [of _ ?left]) auto
qed

definition example_tree :: "tar_member list" where
  "example_tree = [(''a.png'', Some ''x'')]"

definition example_members :: "tar_member list" where
  "example_members = pilot_members default_settings (\<lambda>j. ''m'') True 1 ''d'' (Some example_tree)"

definition example_loads :: "string \<Rightarrow> json option" where
  "example_loads x = (if x = ''m'' then Some (pilot_metadata default_settings True 1)
     else if x = ''d'' then Some (JArr [JObj []]) else None)"

theorem pilot_backup_readable_witness:
  "\<exists>left. create_pilot_backup default_settings (\<lambda>j. ''m'') (\<lambda>ms. ''t'') (\<lambda>b. Some example_members) Some example_loads
      \<lparr>pt_fixture = Inr ''d'', pt_media = Some example_tree, pt_uploaded = False\<rparr>
      \<lparr>po_retain_days = 3, po_skip_media = False, po_bucket = []\<rparr> (\<lambda>i. int i) [] = (Inr 1, left)"
proof -
  have safe: "\<forall>m\<in>set example_tree. ''..'' \<notin> set (path_parts (fst m))" by code_simp
  have d: "read_payload Some example_loads ''d'' = Inr (JArr [JObj []])"
    and m: "read_payload Some example_loads ''m'' = Inr (pilot_metadata default_settings True 1)"
    by (simp_all add: read_payload_def example_loads_def)
  show ?thesis
    using pilot_backup_readable [of "\<lparr>pt_fixture = Inr ''d'', pt_media = Some example_tree, pt_uploaded = False\<rparr>" "''d''"
        "\<lparr>po_retain_days = 3, po_skip_media = False, po_bucket = []\<rparr>" "\<lambda>i. int i" "\<lambda>b. Some example_members"
        "\<lambda>ms. ''t''" default_settings "\<lambda>j. ''m''" Some example_loads "[JObj []]" example_tree "[]"] safe d m
    by (auto simp: example_members_def)
qed

end
