(* ===== verification/Routes.thy ===== *)
theory Routes
  imports Models
begin

section \<open>Addresses\<close>

text \<open>
  The URL tables of \<open>config/urls.py\<close>, \<open>signage/urls.py\<close> and \<open>signage/api_urls.py\<close>: the first entry
  that matches a path decides, and \<open>reverse\<close> gives the path of a view. The paths below the
  administration site and the files that a debug server adds are the framework's.
\<close>

subsection \<open>Views\<close>

datatype view =
    Dashboard | LocationMap | LocationStyle | LocationTilejson | LocationTile int int int
  | LocationLatest | LocationHistory
  | MediaList | MediaUpload | MediaDelete id
  | PlaylistList | PlaylistCreate | PlaylistDetail id | PlaylistPublish id | PlaylistClone id
  | DeviceList | DeviceCreate | DeviceReassign id | IssueEnrollment id | DevicePinReset id
  | DeviceDisable id | DeviceReactivate id | DeviceAdminMode id | DeviceCredentialsRevoke id
  | EnrollmentCodePage | KioskPinPage
  | AlertList | AcknowledgeAlert id | SettingsEdit | UserList | UserCreate | UserEdit id | PlaybackCsv

datatype api_view =
    ApiEnrollmentChallenge | ApiEnroll | ApiToken | ApiManagementBootstrap | ApiManagementCommands
  | ApiSync | ApiHeartbeat | ApiLocationBatches | ApiPlaybackBatches | ApiOperationalEvents

datatype route =
    HealthLive | HealthReady | AdminSite "string list" | Login | Logout
  | PasswordReset | PasswordResetDone | PasswordResetConfirm string string | PasswordResetComplete
  | View view | Api api_view

subsection \<open>Converters\<close>

text \<open>\<open><int>\<close> takes one digit or more, \<open><uuid>\<close> only the canonical form.\<close>

definition url_int :: "string \<Rightarrow> int option" where
  "url_int s = (if s \<noteq> [] \<and> list_all (\<lambda>c. c \<in> set ''0123456789'') s then parse_int s else None)"

definition url_uuid :: "string \<Rightarrow> id option" where
  "url_uuid s = (case parse_uuid s of None \<Rightarrow> None | Some i \<Rightarrow> if uuid_str i = s then Some i else None)"

definition url_pbf :: "string \<Rightarrow> int option" where
  "url_pbf s = (if endswith s ''.pbf'' then url_int (take (length s - 4) s) else None)"

subsection \<open>Patterns\<close>

text \<open>A path is the list of its segments; a pattern that ends in a slash ends in an empty segment.\<close>

type_synonym 'v pattern = "string list \<Rightarrow> 'v option"

definition at_path :: "string list \<Rightarrow> 'v \<Rightarrow> 'v pattern" where
  "at_path segments v p = (if p = segments then Some v else None)"

definition with_arg :: "(string \<Rightarrow> 'a option) \<Rightarrow> string list \<Rightarrow> string list \<Rightarrow> ('a \<Rightarrow> 'v) \<Rightarrow> 'v pattern" where
  "with_arg convert pre post v p =
     (if length p = length pre + 1 + length post \<and> take (length pre) p = pre \<and> drop (length pre + 1) p = post
      then map_option v (convert (p ! length pre)) else None)"

definition tile_path :: "view pattern" where
  "tile_path p = (case p of [a, b, z, x, y] \<Rightarrow>
       if a = ''locations'' \<and> b = ''tiles''
       then (case (url_int z, url_int x, url_pbf y) of (Some z, Some x, Some y) \<Rightarrow> Some (LocationTile z x y) | _ \<Rightarrow> None)
       else None
     | _ \<Rightarrow> None)"

fun first_match :: "'v pattern list \<Rightarrow> 'v pattern" where
  "first_match [] p = None"
| "first_match (f # fs) p = (case f p of Some v \<Rightarrow> Some v | None \<Rightarrow> first_match fs p)"

definition included :: "string list \<Rightarrow> ('v \<Rightarrow> 'w) \<Rightarrow> 'v pattern list \<Rightarrow> 'w pattern" where
  "included prefix wrap patterns p =
     (if take (length prefix) p = prefix then map_option wrap (first_match patterns (drop (length prefix) p)) else None)"

subsection \<open>The tables\<close>

definition signage_urlpatterns :: "view pattern list" where
  "signage_urlpatterns =
     [at_path [''''] Dashboard,
      at_path [''locations'', ''''] LocationMap,
      at_path [''locations'', ''style.json''] LocationStyle,
      at_path [''locations'', ''tiles.json''] LocationTilejson,
      tile_path,
      at_path [''locations'', ''latest.json''] LocationLatest,
      at_path [''locations'', ''history.json''] LocationHistory,
      at_path [''media'', ''''] MediaList,
      at_path [''media'', ''upload'', ''''] MediaUpload,
      with_arg url_uuid [''media''] [''delete'', ''''] MediaDelete,
      at_path [''playlists'', ''''] PlaylistList,
      at_path [''playlists'', ''new'', ''''] PlaylistCreate,
      with_arg url_uuid [''playlists''] [''''] PlaylistDetail,
      with_arg url_uuid [''playlists''] [''publish'', ''''] PlaylistPublish,
      with_arg url_uuid [''playlists''] [''clone'', ''''] PlaylistClone,
      at_path [''devices'', ''''] DeviceList,
      at_path [''devices'', ''new'', ''''] DeviceCreate,
      with_arg url_uuid [''devices''] [''reassign'', ''''] DeviceReassign,
      with_arg url_uuid [''devices''] [''enrollment'', ''''] IssueEnrollment,
      with_arg url_uuid [''devices''] [''pin-reset'', ''''] DevicePinReset,
      with_arg url_uuid [''devices''] [''disable'', ''''] DeviceDisable,
      with_arg url_uuid [''devices''] [''reactivate'', ''''] DeviceReactivate,
      with_arg url_uuid [''devices''] [''admin-mode'', ''''] DeviceAdminMode,
      with_arg url_uuid [''devices''] [''credentials'', ''revoke'', ''''] DeviceCredentialsRevoke,
      at_path [''devices'', ''enrollment-code'', ''''] EnrollmentCodePage,
      at_path [''devices'', ''kiosk-pin'', ''''] KioskPinPage,
      at_path [''alerts'', ''''] AlertList,
      with_arg url_int [''alerts''] [''acknowledge'', ''''] AcknowledgeAlert,
      at_path [''settings'', ''''] SettingsEdit,
      at_path [''users'', ''''] UserList,
      at_path [''users'', ''new'', ''''] UserCreate,
      with_arg url_int [''users''] [''''] UserEdit,
      at_path [''reports'', ''playback.csv''] PlaybackCsv]"

definition api_urlpatterns :: "api_view pattern list" where
  "api_urlpatterns =
     [at_path [''devices'', ''enrollment-challenge'', ''''] ApiEnrollmentChallenge,
      at_path [''devices'', ''enroll'', ''''] ApiEnroll,
      at_path [''devices'', ''token'', ''''] ApiToken,
      at_path [''devices'', ''management'', ''bootstrap'', ''''] ApiManagementBootstrap,
      at_path [''devices'', ''management'', ''commands'', ''''] ApiManagementCommands,
      at_path [''devices'', ''sync'', ''''] ApiSync,
      at_path [''devices'', ''heartbeat'', ''''] ApiHeartbeat,
      at_path [''devices'', ''location-batches'', ''''] ApiLocationBatches,
      at_path [''devices'', ''playback-batches'', ''''] ApiPlaybackBatches,
      at_path [''devices'', ''operational-events'', ''''] ApiOperationalEvents]"

definition reset_path :: "route pattern" where
  "reset_path p = (case p of [a, uid, token, b] \<Rightarrow>
       if a = ''password-reset'' \<and> uid \<noteq> [] \<and> token \<noteq> [] \<and> b = [] then Some (PasswordResetConfirm uid token) else None
     | _ \<Rightarrow> None)"

definition admin_path :: "route pattern" where
  "admin_path p = (if 2 \<le> length p \<and> hd p = ''admin'' then Some (AdminSite (tl p)) else None)"

definition urlpatterns :: "route pattern list" where
  "urlpatterns =
     [at_path [''health'', ''live'', ''''] HealthLive,
      at_path [''health'', ''ready'', ''''] HealthReady,
      admin_path,
      at_path [''login'', ''''] Login,
      at_path [''logout'', ''''] Logout,
      at_path [''password-reset'', ''''] PasswordReset,
      at_path [''password-reset'', ''done'', ''''] PasswordResetDone,
      reset_path,
      at_path [''password-reset'', ''complete'', ''''] PasswordResetComplete,
      included [] View signage_urlpatterns,
      included [''api'', ''v1''] Api api_urlpatterns]"

definition segments :: "string \<Rightarrow> string list" where
  "segments path = split_on (CHR ''/'') (drop 1 path)"

definition resolve :: "string \<Rightarrow> route option" where
  "resolve path = (if startswith path ''/'' then first_match urlpatterns (segments path) else None)"

subsection \<open>Reversal\<close>

fun view_segments :: "view \<Rightarrow> string list" where
  "view_segments Dashboard = ['''']"
| "view_segments LocationMap = [''locations'', '''']"
| "view_segments LocationStyle = [''locations'', ''style.json'']"
| "view_segments LocationTilejson = [''locations'', ''tiles.json'']"
| "view_segments (LocationTile z x y) = [''locations'', ''tiles'', int_str z, int_str x, int_str y @ ''.pbf'']"
| "view_segments LocationLatest = [''locations'', ''latest.json'']"
| "view_segments LocationHistory = [''locations'', ''history.json'']"
| "view_segments MediaList = [''media'', '''']"
| "view_segments MediaUpload = [''media'', ''upload'', '''']"
| "view_segments (MediaDelete i) = [''media'', uuid_str i, ''delete'', '''']"
| "view_segments PlaylistList = [''playlists'', '''']"
| "view_segments PlaylistCreate = [''playlists'', ''new'', '''']"
| "view_segments (PlaylistDetail i) = [''playlists'', uuid_str i, '''']"
| "view_segments (PlaylistPublish i) = [''playlists'', uuid_str i, ''publish'', '''']"
| "view_segments (PlaylistClone i) = [''playlists'', uuid_str i, ''clone'', '''']"
| "view_segments DeviceList = [''devices'', '''']"
| "view_segments DeviceCreate = [''devices'', ''new'', '''']"
| "view_segments (DeviceReassign i) = [''devices'', uuid_str i, ''reassign'', '''']"
| "view_segments (IssueEnrollment i) = [''devices'', uuid_str i, ''enrollment'', '''']"
| "view_segments (DevicePinReset i) = [''devices'', uuid_str i, ''pin-reset'', '''']"
| "view_segments (DeviceDisable i) = [''devices'', uuid_str i, ''disable'', '''']"
| "view_segments (DeviceReactivate i) = [''devices'', uuid_str i, ''reactivate'', '''']"
| "view_segments (DeviceAdminMode i) = [''devices'', uuid_str i, ''admin-mode'', '''']"
| "view_segments (DeviceCredentialsRevoke i) = [''devices'', uuid_str i, ''credentials'', ''revoke'', '''']"
| "view_segments EnrollmentCodePage = [''devices'', ''enrollment-code'', '''']"
| "view_segments KioskPinPage = [''devices'', ''kiosk-pin'', '''']"
| "view_segments AlertList = [''alerts'', '''']"
| "view_segments (AcknowledgeAlert i) = [''alerts'', int_str i, ''acknowledge'', '''']"
| "view_segments SettingsEdit = [''settings'', '''']"
| "view_segments UserList = [''users'', '''']"
| "view_segments UserCreate = [''users'', ''new'', '''']"
| "view_segments (UserEdit i) = [''users'', int_str i, '''']"
| "view_segments PlaybackCsv = [''reports'', ''playback.csv'']"

fun api_segments :: "api_view \<Rightarrow> string list" where
  "api_segments ApiEnrollmentChallenge = [''devices'', ''enrollment-challenge'', '''']"
| "api_segments ApiEnroll = [''devices'', ''enroll'', '''']"
| "api_segments ApiToken = [''devices'', ''token'', '''']"
| "api_segments ApiManagementBootstrap = [''devices'', ''management'', ''bootstrap'', '''']"
| "api_segments ApiManagementCommands = [''devices'', ''management'', ''commands'', '''']"
| "api_segments ApiSync = [''devices'', ''sync'', '''']"
| "api_segments ApiHeartbeat = [''devices'', ''heartbeat'', '''']"
| "api_segments ApiLocationBatches = [''devices'', ''location-batches'', '''']"
| "api_segments ApiPlaybackBatches = [''devices'', ''playback-batches'', '''']"
| "api_segments ApiOperationalEvents = [''devices'', ''operational-events'', '''']"

fun route_segments :: "route \<Rightarrow> string list" where
  "route_segments HealthLive = [''health'', ''live'', '''']"
| "route_segments HealthReady = [''health'', ''ready'', '''']"
| "route_segments (AdminSite p) = ''admin'' # p"
| "route_segments Login = [''login'', '''']"
| "route_segments Logout = [''logout'', '''']"
| "route_segments PasswordReset = [''password-reset'', '''']"
| "route_segments PasswordResetDone = [''password-reset'', ''done'', '''']"
| "route_segments (PasswordResetConfirm uid token) = [''password-reset'', uid, token, '''']"
| "route_segments PasswordResetComplete = [''password-reset'', ''complete'', '''']"
| "route_segments (View v) = view_segments v"
| "route_segments (Api a) = [''api'', ''v1''] @ api_segments a"

fun join_path :: "string list \<Rightarrow> string" where
  "join_path [] = []"
| "join_path (s # ss) = ''/'' @ s @ join_path ss"

definition reverse :: "route \<Rightarrow> string" where
  "reverse r = join_path (route_segments r)"

subsection \<open>Paths and segments\<close>

lemma split_on_no_sep: "sep \<notin> set s \<Longrightarrow> split_on sep s = [s]"
  by (induction s) auto

lemma split_on_append_sep: "sep \<notin> set s \<Longrightarrow> split_on sep (s @ sep # t) = s # split_on sep t"
  by (induction s) auto

lemma segments_join_path:
  assumes "ss \<noteq> []" and "\<forall>s\<in>set ss. CHR ''/'' \<notin> set s"
  shows "segments (join_path ss) = ss"
  using assms
proof (induction ss)
  case (Cons s ss)
  show ?case
  proof (cases ss)
    case Nil
    then show ?thesis using Cons.prems by (simp add: segments_def split_on_no_sep)
  next
    case (Cons r rs)
    then have "segments (join_path ss) = ss" using Cons.IH Cons.prems by simp
    then show ?thesis using Cons Cons.prems by (simp add: segments_def split_on_append_sep)
  qed
qed simp

subsection \<open>Numbers in paths\<close>

lemma digit_char_dec: "0 \<le> n \<Longrightarrow> n < 10 \<Longrightarrow> digit_char n \<in> set ''0123456789'' \<and> dec_digit (digit_char n) = Some n"
proof -
  assume n: "0 \<le> n" "n < 10"
  have "list_all (\<lambda>n. digit_char n \<in> set ''0123456789'' \<and> dec_digit (digit_char n) = Some n) [0..9]" by code_simp
  moreover have "n \<in> set [0..9]" using n by simp
  ultimately show ?thesis unfolding list_all_iff by blast
qed

lemma nat_str_digits:
  "0 \<le> n \<Longrightarrow> nat_str n \<noteq> [] \<and> set (nat_str n) \<subseteq> set ''0123456789''
     \<and> parse_digits dec_digit 10 0 l (nat_str n) = Some n"
proof (induction n arbitrary: l rule: nat_str.induct)
  case (1 n)
  show ?case
  proof (cases "n < 10")
    case True
    then have "digit_char n \<noteq> CHR ''_''" using digit_char_dec [of n] 1 by auto
    then show ?thesis using True digit_char_dec [of n] 1 by (simp add: nat_str.simps [of n])
  next
    case False
    have d: "digit_char (n mod 10) \<in> set ''0123456789''" "dec_digit (digit_char (n mod 10)) = Some (n mod 10)"
      using digit_char_dec [of "n mod 10"] by auto
    then have "digit_char (n mod 10) \<noteq> CHR ''_''" by auto
    moreover have "0 \<le> n div 10" using False by simp
    moreover have under: "\<forall>c\<in>set (nat_str (n div 10)). c \<noteq> CHR ''_''"
      using 1(1) [OF False \<open>0 \<le> n div 10\<close>] by auto
    ultimately show ?thesis
      using 1 False d under parse_digits_append [where xs = "nat_str (n div 10)" and ys = "[digit_char (n mod 10)]" and dig = dec_digit]
      by (simp add: nat_str.simps [of n])
  qed
qed

lemma strip_digits: "set s \<subseteq> set ''0123456789'' \<Longrightarrow> strip s = s"
proof -
  assume a: "set s \<subseteq> set ''0123456789''"
  have "list_all (\<lambda>c. \<not> is_space c) ''0123456789''" by code_simp
  then show ?thesis unfolding strip_def using a by (intro strip_by_none) (auto simp only: list_all_iff)
qed

lemma url_int_str [simp]:
  assumes "0 \<le> n"
  shows "url_int (int_str n) = Some n"
proof -
  have d: "nat_str n \<noteq> []" "set (nat_str n) \<subseteq> set ''0123456789''" "parse_digits dec_digit 10 0 False (nat_str n) = Some n"
    using nat_str_digits [OF assms] by auto
  have no: "CHR ''-'' \<notin> set ''0123456789''" "CHR ''+'' \<notin> set ''0123456789''" by simp_all
  have "split_sign (nat_str n) = (False, nat_str n)"
  proof (cases "nat_str n")
    case (Cons c cs)
    then have "c \<in> set ''0123456789''" using d(2) by auto
    then have "c \<noteq> CHR ''-''" "c \<noteq> CHR ''+''" using no by blast+
    then show ?thesis using Cons by (simp add: split_sign_def)
  qed (simp add: d(1))
  then have "parse_int (nat_str n) = Some n"
    using strip_digits [OF d(2)] d(3) by (simp add: parse_int_def)
  moreover have "list_all (\<lambda>c. c \<in> set ''0123456789'') (nat_str n)"
    using d(2) unfolding list_all_iff by blast
  ultimately show ?thesis using assms d(1) by (simp only: url_int_def int_str_def) simp
qed

lemma url_pbf_str [simp]: "0 \<le> n \<Longrightarrow> url_pbf (int_str n @ ''.pbf'') = Some n"
  by (simp add: url_pbf_def endswith_def)

lemma length_uuid_str [simp]: "length (uuid_str i) = 36"
proof -
  have "length (hex_fixed k i) = k" for k i by (induction k arbitrary: i) auto
  then show ?thesis by (simp add: uuid_str_def uuid_hex_def Let_def)
qed

lemma url_uuid_str [simp]: "0 \<le> i \<Longrightarrow> i < 2 ^ 128 \<Longrightarrow> url_uuid (uuid_str i) = Some i"
  by (simp add: url_uuid_def)

lemma uuid_str_not: "length s \<noteq> 36 \<Longrightarrow> uuid_str i \<noteq> s" "length s \<noteq> 36 \<Longrightarrow> s \<noteq> uuid_str i"
  using length_uuid_str [of i] by metis+

lemma no_slash:
  "CHR ''/'' \<notin> set (uuid_str i)" "0 \<le> n \<Longrightarrow> CHR ''/'' \<notin> set (int_str n)"
proof -
  have "CHR ''/'' \<notin> set hex_chars" by code_simp
  then show "CHR ''/'' \<notin> set (uuid_str i)" using uuid_str_chars [of i] by auto
  show "CHR ''/'' \<notin> set (int_str n)" if "0 \<le> n" using nat_str_digits [OF that] that by (auto simp: int_str_def)
qed

lemma int_str_not_new: "0 \<le> n \<Longrightarrow> int_str n \<noteq> ''new''"
  using nat_str_digits [of n] by (auto simp: int_str_def)

subsection \<open>Reversed paths resolve\<close>

fun view_args_ok :: "view \<Rightarrow> bool" where
  "view_args_ok (LocationTile z x y) = (0 \<le> z \<and> 0 \<le> x \<and> 0 \<le> y)"
| "view_args_ok (AcknowledgeAlert i) = (0 \<le> i)"
| "view_args_ok (UserEdit i) = (0 \<le> i)"
| "view_args_ok v = list_all (\<lambda>i. 0 \<le> i \<and> i < 2 ^ 128) (case v of
       MediaDelete i \<Rightarrow> [i] | PlaylistDetail i \<Rightarrow> [i] | PlaylistPublish i \<Rightarrow> [i] | PlaylistClone i \<Rightarrow> [i]
     | DeviceReassign i \<Rightarrow> [i] | IssueEnrollment i \<Rightarrow> [i] | DevicePinReset i \<Rightarrow> [i] | DeviceDisable i \<Rightarrow> [i]
     | DeviceReactivate i \<Rightarrow> [i] | DeviceAdminMode i \<Rightarrow> [i] | DeviceCredentialsRevoke i \<Rightarrow> [i] | _ \<Rightarrow> [])"

fun route_args_ok :: "route \<Rightarrow> bool" where
  "route_args_ok (AdminSite p) = (p \<noteq> [] \<and> list_all (\<lambda>s. CHR ''/'' \<notin> set s) p)"
| "route_args_ok (PasswordResetConfirm uid token) =
     (uid \<noteq> [] \<and> token \<noteq> [] \<and> list_all (\<lambda>s. CHR ''/'' \<notin> set s) [uid, token])"
| "route_args_ok (View v) = view_args_ok v"
| "route_args_ok r = True"

lemmas pattern_simps = at_path_def with_arg_def included_def tile_path_def reset_path_def admin_path_def
  signage_urlpatterns_def api_urlpatterns_def urlpatterns_def

lemma view_matches: "view_args_ok v \<Longrightarrow> first_match signage_urlpatterns (view_segments v) = Some v"
  by (cases v) (simp_all add: pattern_simps uuid_str_not int_str_not_new)

lemma route_matches:
  assumes "route_args_ok r"
  shows "first_match urlpatterns (route_segments r) = Some r"
proof (cases r)
  case (View v)
  then have m: "first_match signage_urlpatterns (view_segments v) = Some v" using assms view_matches by simp
  have "hd (view_segments v) \<notin> {''health'', ''admin'', ''login'', ''logout'', ''password-reset''}" "view_segments v \<noteq> []"
    by (cases v; simp)+
  then show ?thesis using m unfolding View
    by (cases "view_segments v") (auto simp: urlpatterns_def at_path_def reset_path_def admin_path_def included_def split: list.split)
next
  case (Api a)
  then show ?thesis by (cases a) (simp_all add: pattern_simps)
qed (use assms in \<open>auto simp: pattern_simps neq_Nil_conv\<close>)

lemma route_segments_plain:
  assumes "route_args_ok r"
  shows "route_segments r \<noteq> [] \<and> (\<forall>s\<in>set (route_segments r). CHR ''/'' \<notin> set s)"
proof (cases r)
  case (View v)
  then show ?thesis using assms by (cases v) (auto simp: no_slash)
next
  case (Api a)
  then show ?thesis by (cases a) simp_all
qed (use assms in \<open>auto simp: list_all_iff\<close>)

lemma resolve_reverse:
  assumes "route_args_ok r"
  shows "resolve (reverse r) = Some r"
proof -
  have plain: "route_segments r \<noteq> []" "\<forall>s\<in>set (route_segments r). CHR ''/'' \<notin> set s"
    using route_segments_plain [OF assms] by auto
  have "startswith (reverse r) ''/''"
    using plain(1) by (cases "route_segments r") (simp_all add: reverse_def startswith_def)
  moreover have "segments (reverse r) = route_segments r"
    unfolding reverse_def by (rule segments_join_path [OF plain])
  ultimately show ?thesis using route_matches [OF assms] by (simp add: resolve_def)
qed

text \<open>C22: Every page is reachable by its own address and no entry of the three URL tables shadows
  another. The path that \<open>reverse\<close> gives for a view and its arguments, with numbers that are not
  negative, identifiers of 128 bits and texts without a slash, is resolved to that view with the
  same arguments, and no other view with such arguments has the same path.\<close>

theorem urls_roundtrip:
  assumes "route_args_ok r"
  shows "resolve (reverse r) = Some r \<and> (\<forall>q. route_args_ok q \<and> reverse q = reverse r \<longrightarrow> q = r)"
  using resolve_reverse [OF assms] resolve_reverse by (metis option.inject)

theorem urls_roundtrip_witness:
  "resolve (reverse (View (UserEdit 7))) = Some (View (UserEdit 7))"
  using urls_roundtrip [of "View (UserEdit 7)"] by simp

end
