(* ===== verification/Site.thy ===== *)
theory Site
  imports Routes Dispatch Playlists Devices Accounts Reports
begin

section \<open>The dashboard as a whole\<close>

text \<open>
  One request through the middleware, the URL table, the guards of the view and the view. \<open>visit\<close>
  answers with a status or a redirect and gives the new database and objects. What the framework
  reads from a request (the session's user, the posted fields, the user a sign-in form accepts, the
  user and token a reset link carries) are fields of the request.
\<close>

subsection \<open>Requests and answers\<close>

record web_request =
  wr_method :: string
  wr_path :: string
  wr_content_length :: string
  wr_user :: "user option"
  wr_last_activity :: "int option"
  wr_ip :: string
  wr_username :: string
  wr_credentials :: "user option"
  wr_reset :: "(id \<times> string \<times> string) option"
  wr_query :: query
  wr_confirm :: string
  wr_urgent :: string
  wr_business_name :: string
  wr_title :: string
  wr_kind :: media_kind
  wr_filename :: string
  wr_size :: int
  wr_action :: detail_action
  wr_name :: string
  wr_version :: int
  wr_starts_at :: time
  wr_ends_at :: time
  wr_media :: "string list"
  wr_device :: device_form
  wr_max_entries :: int
  wr_max_duration_seconds :: int
  wr_user_form :: user_form

text \<open>What the process has: settings, clock, random values, hashes, the framework's validators, files.\<close>

record web_env =
  we_settings :: settings
  we_clock :: clock
  we_uuid :: "nat \<Rightarrow> id"
  we_codes :: "string list"
  we_pin_hash :: string
  we_hash :: "string \<Rightarrow> string"
  we_make_password :: "string \<Rightarrow> string"
  we_check_token :: "user \<Rightarrow> string \<Rightarrow> bool"
  we_valid_email :: "string \<Rightarrow> bool"
  we_norm_email :: "string \<Rightarrow> string"
  we_password_policy :: "string \<Rightarrow> user option \<Rightarrow> bool"
  we_read_date :: date_reader
  we_read_datetime :: datetime_reader
  we_stored :: "string \<Rightarrow> media_file job"
  we_stored_as :: "string \<Rightarrow> string"
  we_ecs :: ecs_service
  we_tiles_installed :: bool
  we_tiles :: "int \<Rightarrow> int \<Rightarrow> int \<Rightarrow> string option result"
  we_database_answers :: bool

datatype answer = Page int | Redirect route

text \<open>The status of an error no view catches.\<close>

definition failed :: "error \<Rightarrow> answer" where
  "failed e = Page (case e of PermissionDenied m \<Rightarrow> 403 | Http404 \<Rightarrow> 404 | _ \<Rightarrow> 500)"

text \<open>A form that is refused is shown again.\<close>

definition form_failed :: "error \<Rightarrow> answer" where
  "form_failed e = (case e of ValidationError f m \<Rightarrow> Page 200 | _ \<Rightarrow> failed e)"

definition on_db :: "(db \<Rightarrow> answer \<times> db) \<Rightarrow> media_world \<Rightarrow> answer \<times> media_world" where
  "on_db f w = (let (a, s) = f (mw_db w) in (a, w\<lparr>mw_db := s\<rparr>))"

text \<open>A view that is one transaction: an error leaves the database as it was.\<close>

definition atomic_view :: "(error \<Rightarrow> answer) \<Rightarrow> ('a \<Rightarrow> answer) \<Rightarrow> ('a \<Rightarrow> db) \<Rightarrow> 'a result \<Rightarrow> db \<Rightarrow> answer \<times> db" where
  "atomic_view bad good new_state r s = (case r of Inl e \<Rightarrow> (bad e, s) | Inr x \<Rightarrow> (good x, new_state x))"

subsection \<open>The choice of media in \<open>PlaylistForm\<close>\<close>

text \<open>
  \<open>ModelMultipleChoiceField\<close>: at least one choice, each of them a ready asset. The cleaned value is
  the query of these assets, in its order by business name and title.
\<close>

definition clean_media :: "string list \<Rightarrow> db \<Rightarrow> id list result" where
  "clean_media ids s =
     (let offered = sort_key (\<lambda>a. (ma_business_name a, ma_title a)) (filter (\<lambda>a. ma_status a = Ready) (media_assets s));
          picked = filter (\<lambda>a. Some (ma_id a) \<in> set (map parse_uuid ids)) offered
      in bind_result (require (ids \<noteq> []) (ValidationError ''media'' ''This field is required.'')) (\<lambda>u.
         bind_result (require (list_all (\<lambda>c. parse_uuid c \<in> (\<lambda>a. Some (ma_id a)) ` set offered) ids)
           (ValidationError ''media'' ''Select a valid choice.'')) (\<lambda>u.
         Inr (map ma_id picked))))"

subsection \<open>Pages that only GET parts of a view show\<close>

text \<open>
  \<open>device_reassign\<close> with GET shows the name of the driver and records that it did.
\<close>

definition device_reassign_page :: "time \<Rightarrow> bool \<Rightarrow> id \<Rightarrow> id \<Rightarrow> db \<Rightarrow> db result" where
  "device_reassign_page now owner actor i s =
     bind_result (device_or_404 owner i s) (\<lambda>d.
     Inr (case first_row (active_assignments i s) of
        None \<Rightarrow> s
      | Some a \<Rightarrow> audit now (Some actor) ''driver.personal_data.view'' ''signage.driver'' (int_str (da_driver a))
           [(''surface'', JStr ''device_assignment_edit'')] s))"

definition user_edit_page :: "user \<Rightarrow> id option \<Rightarrow> db \<Rightarrow> unit result" where
  "user_edit_page actor user_id s =
     bind_result (owner_required actor) (\<lambda>u.
     case user_id of None \<Rightarrow> Inr ()
       | Some i \<Rightarrow> require (exists_row (\<lambda>v. us_id v = i) (users s)) Http404)"

subsection \<open>Guards\<close>

text \<open>The methods that \<open>require_POST\<close> and \<open>require_http_methods\<close> let through.\<close>

fun method_allowed :: "view \<Rightarrow> string \<Rightarrow> bool" where
  "method_allowed (MediaDelete i) m = (m = ''POST'')"
| "method_allowed (PlaylistPublish i) m = (m = ''POST'')"
| "method_allowed (PlaylistClone i) m = (m = ''POST'')"
| "method_allowed DeviceCreate m = (m = ''GET'' \<or> m = ''POST'')"
| "method_allowed (DeviceReassign i) m = (m = ''GET'' \<or> m = ''POST'')"
| "method_allowed (IssueEnrollment i) m = (m = ''POST'')"
| "method_allowed (DevicePinReset i) m = (m = ''POST'')"
| "method_allowed (DeviceDisable i) m = (m = ''POST'')"
| "method_allowed (DeviceReactivate i) m = (m = ''POST'')"
| "method_allowed (DeviceAdminMode i) m = (m = ''POST'')"
| "method_allowed (DeviceCredentialsRevoke i) m = (m = ''POST'')"
| "method_allowed (AcknowledgeAlert i) m = (m = ''POST'')"
| "method_allowed UserCreate m = (m = ''GET'' \<or> m = ''POST'')"
| "method_allowed (UserEdit i) m = (m = ''GET'' \<or> m = ''POST'')"
| "method_allowed v m = True"

subsection \<open>Views\<close>

text \<open>
  \<open>MediaUploadForm\<close>: the stripped texts and the file, whose name has at most 100 characters and which
  is not empty. Then the transaction of the view, and when it has committed the dispatch that
  \<open>queue_media_processing\<close> left for this moment. The form's own \<open>clean_source_file\<close> is part of
  \<open>media_upload\<close>.
\<close>

definition clean_upload :: "web_request \<Rightarrow> (string \<times> string) result" where
  "clean_upload rq =
     bind_result (char_field ''business_name'' 160 (wr_business_name rq)) (\<lambda>business.
     bind_result (char_field ''title'' 160 (wr_title rq)) (\<lambda>title.
     bind_result (require (wr_filename rq \<noteq> []) (ValidationError ''source_file'' ''No file was submitted.'')) (\<lambda>u1.
     bind_result (require (length (wr_filename rq) \<le> 100)
       (ValidationError ''source_file'' ''Ensure this filename has at most 100 characters.'')) (\<lambda>u2.
     bind_result (require (wr_size rq \<noteq> 0) (ValidationError ''source_file'' ''The submitted file is empty.'')) (\<lambda>u3.
     Inr (business, title))))))"

definition media_upload_page :: "web_env \<Rightarrow> web_request \<Rightarrow> user \<Rightarrow> media_world \<Rightarrow> answer \<times> media_world" where
  "media_upload_page e rq u w =
     (if wr_method rq \<noteq> ''POST'' then (Page 200, w)
      else (case bind_result (clean_upload rq) (\<lambda>(business, title).
                  media_upload (we_settings e) (we_clock e 0) (us_id u) (we_uuid e 0) (we_stored_as e)
                    business title (wr_kind rq) (wr_filename rq) (wr_size rq) w) of
              Inl err \<Rightarrow> (form_failed err, w)
            | Inr (i, w') \<Rightarrow>
                (Redirect (View MediaList),
                 w'\<lparr>mw_db := queue_media_processing (we_settings e) (we_hash e) (we_ecs e) (\<lambda>k. we_clock e (k + 1)) i (mw_db w')\<rparr>)))"

text \<open>
  \<open>PlaylistForm\<close>: the fields of the model, its constraints, and the choice of media. Its refusals show
  the form again; an error after it leaves the view.
\<close>

definition clean_playlist :: "web_env \<Rightarrow> web_request \<Rightarrow> user \<Rightarrow> db \<Rightarrow> (string \<times> id list) result" where
  "clean_playlist e rq u s =
     bind_result (char_field ''name'' 160 (wr_name rq)) (\<lambda>name.
     bind_result (require (form_integer (wr_version rq)) (ValidationError ''version'' ''Enter a valid value.'')) (\<lambda>u1.
     bind_result (clean_media (wr_media rq) s) (\<lambda>media.
     bind_result (require (playlist_constraints (new_playlist (we_uuid e 0) name (wr_version rq) (wr_starts_at rq)
         (wr_ends_at rq) (us_id u)) s) (ValidationError [] ''Constraint is violated.'')) (\<lambda>u2.
     Inr (name, media)))))"

definition playlist_create_page :: "web_env \<Rightarrow> web_request \<Rightarrow> user \<Rightarrow> db \<Rightarrow> answer \<times> db" where
  "playlist_create_page e rq u s =
     (if wr_method rq \<noteq> ''POST'' then (Page 200, s)
      else (case clean_playlist e rq u s of
          Inl err \<Rightarrow> (form_failed err, s)
        | Inr (name, media) \<Rightarrow> atomic_view failed (\<lambda>t. Redirect (View PlaylistList)) (\<lambda>t. t)
            (playlist_create (we_clock e 0) (we_uuid e) (us_id u) name (wr_version rq)
              (wr_starts_at rq) (wr_ends_at rq) media s) s))"

text \<open>The views of media and playlists.\<close>

fun serve_content :: "web_env \<Rightarrow> web_request \<Rightarrow> user \<Rightarrow> view \<Rightarrow> media_world \<Rightarrow> answer \<times> media_world" where
  "serve_content e rq u MediaUpload w = media_upload_page e rq u w"
| "serve_content e rq u (MediaDelete i) w = on_db (\<lambda>s.
     (case media_delete (we_clock e) (us_id u) i (wr_confirm rq) s of
        (DeleteNotFound, t) \<Rightarrow> (Page 404, t) | (p, t) \<Rightarrow> (Redirect (View MediaList), t))) w"
| "serve_content e rq u PlaylistCreate w = on_db (playlist_create_page e rq u) w"
| "serve_content e rq u (PlaylistDetail i) w = on_db (\<lambda>s.
     if wr_method rq \<noteq> ''POST'' then (Page (if find_playlist i s = None then 404 else 200), s)
     else atomic_view failed (\<lambda>t. Redirect (View (PlaylistDetail i))) (\<lambda>t. t)
       (playlist_detail (we_clock e 0) (us_id u) (we_uuid e 0) i (wr_action rq) s) s) w"
| "serve_content e rq u (PlaylistPublish i) w = on_db (\<lambda>s.
     (case playlist_publish (we_settings e) (we_stored e) (we_clock e 0) (we_uuid e) (us_id u) (wr_urgent rq) i s of
        (PublishNotFound, t) \<Rightarrow> (Page 404, t) | (PublishCrashed, t) \<Rightarrow> (Page 500, t)
      | (p, t) \<Rightarrow> (Redirect (View PlaylistList), t))) w"
| "serve_content e rq u (PlaylistClone i) w = on_db (\<lambda>s.
     atomic_view failed (\<lambda>(p, t). Redirect (View (PlaylistDetail (pl_id p)))) snd
       (playlist_clone (we_clock e 0) (we_uuid e) (us_id u) i s) s) w"
| "serve_content e rq u (AcknowledgeAlert i) w = on_db (\<lambda>s.
     atomic_view failed (\<lambda>t. Redirect (View Dashboard)) (\<lambda>t. t) (acknowledge_alert (we_clock e 0) (us_id u) i s) s) w"
| "serve_content e rq u v w = (Page 200, w)"

definition edit_user :: "web_env \<Rightarrow> web_request \<Rightarrow> user \<Rightarrow> id option \<Rightarrow> db \<Rightarrow> answer \<times> db" where
  "edit_user e rq u target s =
     (if wr_method rq \<noteq> ''POST''
      then (case user_edit_page u target s of Inl err \<Rightarrow> failed err | Inr x \<Rightarrow> Page 200, s)
      else atomic_view failed (\<lambda>(saved, t). if saved then Redirect (View UserList) else Page 200) snd
        (user_edit (we_valid_email e) (we_norm_email e) (we_password_policy e) (we_make_password e) (we_clock e 0) u
           target (wr_user_form rq) s) s)"

text \<open>The views of devices, accounts and limits.\<close>

fun serve_owner :: "web_env \<Rightarrow> web_request \<Rightarrow> user \<Rightarrow> view \<Rightarrow> db \<Rightarrow> answer \<times> db" where
  "serve_owner e rq u DeviceCreate s =
     (if wr_method rq \<noteq> ''POST''
      then (case owner_required u of Inl err \<Rightarrow> failed err | Inr x \<Rightarrow> Page 200, s)
      else atomic_view form_failed (\<lambda>t. Page 200) (\<lambda>t. t)
        (device_create (we_clock e 0) (is_owner u) (us_id u) (we_uuid e 0) (we_uuid e 1) (we_pin_hash e) (wr_device rq) s) s)"
| "serve_owner e rq u (DeviceReassign i) s =
     (if wr_method rq \<noteq> ''POST''
      then atomic_view failed (\<lambda>t. Page 200) (\<lambda>t. t) (device_reassign_page (we_clock e 0) (is_owner u) (us_id u) i s) s
      else atomic_view form_failed (\<lambda>t. Redirect (View DeviceList)) (\<lambda>t. t)
        (device_reassign (we_clock e) (is_owner u) (us_id u) (we_uuid e 0) (wr_device rq) i s) s)"
| "serve_owner e rq u (IssueEnrollment i) s =
     atomic_view failed (\<lambda>(p, t). case p of CodeRefused m \<Rightarrow> Redirect (View DeviceList) | CodeIssued raw \<Rightarrow> Page 200) snd
       (issue_enrollment (we_settings e) (we_hash e) (we_clock e 0) (we_codes e) (is_owner u) (us_id u) i s) s"
| "serve_owner e rq u (DevicePinReset i) s =
     atomic_view failed (\<lambda>t. Page 200) (\<lambda>t. t) (device_pin_reset (we_clock e) (is_owner u) (us_id u) (we_pin_hash e) i s) s"
| "serve_owner e rq u (DeviceDisable i) s =
     atomic_view failed (\<lambda>t. Redirect (View DeviceList)) (\<lambda>t. t) (device_disable (we_clock e) (is_owner u) (us_id u) i s) s"
| "serve_owner e rq u (DeviceReactivate i) s =
     atomic_view failed (\<lambda>t. Redirect (View DeviceList)) (\<lambda>t. t) (device_reactivate (we_clock e 0) (is_owner u) (us_id u) i s) s"
| "serve_owner e rq u (DeviceAdminMode i) s =
     atomic_view failed (\<lambda>x. Redirect (View DeviceList)) snd
       (device_admin_mode (we_clock e 0) (is_owner u) (us_id u) (we_uuid e 0) i s) s"
| "serve_owner e rq u (DeviceCredentialsRevoke i) s =
     atomic_view failed (\<lambda>x. Redirect (View DeviceList)) snd (device_credentials_revoke (we_clock e) (is_owner u) (us_id u) i s) s"
| "serve_owner e rq u KioskPinPage s =
     (case owner_required u of Inl err \<Rightarrow> failed err | Inr x \<Rightarrow> Redirect (View DeviceList), s)"
| "serve_owner e rq u SettingsEdit s =
     (if wr_method rq \<noteq> ''POST''
      then atomic_view failed (\<lambda>t. Page 200) (\<lambda>t. t)
        (bind_result (owner_required u) (\<lambda>x. Inr (snd (load_platform s)))) s
      else atomic_view failed (\<lambda>(saved, t). if saved then Redirect (View SettingsEdit) else Page 200) snd
        (settings_edit (we_clock e 0) u (wr_max_entries rq) (wr_max_duration_seconds rq) s) s)"
| "serve_owner e rq u UserList s =
     (case user_list u s of Inl err \<Rightarrow> failed err | Inr x \<Rightarrow> Page 200, s)"
| "serve_owner e rq u UserCreate s = edit_user e rq u None s"
| "serve_owner e rq u (UserEdit i) s = edit_user e rq u (if i = 0 then None else Some i) s"
| "serve_owner e rq u v s = (Page 200, s)"

text \<open>The pages everybody who is signed in may read; two of them record who reads them.\<close>

definition location_history_status :: "web_env \<Rightarrow> web_request \<Rightarrow> db \<Rightarrow> int" where
  "location_history_status e rq s =
     (case location_history (we_read_datetime e) (we_clock e 0) (wr_query rq) s of
        Inl (ValidationError f m) \<Rightarrow> 400 | Inl Http404 \<Rightarrow> 404 | Inl err \<Rightarrow> 500 | Inr x \<Rightarrow> 200)"

fun serve_read :: "web_env \<Rightarrow> web_request \<Rightarrow> user \<Rightarrow> view \<Rightarrow> db \<Rightarrow> answer \<times> db" where
  "serve_read e rq u (LocationTile z x y) s =
     (case location_tile (we_settings e) (we_tiles_installed e) (we_tiles e) z x y of
        TileError n m \<Rightarrow> (Page n, s) | Tile b gz \<Rightarrow> (Page 200, s))"
| "serve_read e rq u LocationHistory s = (Page (location_history_status e rq s), s)"
| "serve_read e rq u DeviceList s = (Page 200, snd (device_list (we_clock e 0) u s))"
| "serve_read e rq u EnrollmentCodePage s = (Redirect (View DeviceList), s)"
| "serve_read e rq u PlaybackCsv s =
     (case playback_report_csv (we_settings e) (we_read_date e) (we_clock e) (us_id u) (wr_query rq) s of
        Inl (ValidationError f m) \<Rightarrow> (Page 400, s) | Inl err \<Rightarrow> (failed err, s) | Inr (lines, t) \<Rightarrow> (Page 200, t))"
| "serve_read e rq u v s = (Page 200, s)"

definition content_view :: "view \<Rightarrow> bool" where
  "content_view v = (case v of MediaUpload \<Rightarrow> True | MediaDelete i \<Rightarrow> True | PlaylistCreate \<Rightarrow> True
     | PlaylistDetail i \<Rightarrow> True | PlaylistPublish i \<Rightarrow> True | PlaylistClone i \<Rightarrow> True | AcknowledgeAlert i \<Rightarrow> True | _ \<Rightarrow> False)"

definition owner_view :: "view \<Rightarrow> bool" where
  "owner_view v = (case v of DeviceCreate \<Rightarrow> True | DeviceReassign i \<Rightarrow> True | IssueEnrollment i \<Rightarrow> True
     | DevicePinReset i \<Rightarrow> True | DeviceDisable i \<Rightarrow> True | DeviceReactivate i \<Rightarrow> True | DeviceAdminMode i \<Rightarrow> True
     | DeviceCredentialsRevoke i \<Rightarrow> True | KioskPinPage \<Rightarrow> True | SettingsEdit \<Rightarrow> True | UserList \<Rightarrow> True
     | UserCreate \<Rightarrow> True | UserEdit i \<Rightarrow> True | _ \<Rightarrow> False)"

definition serve :: "web_env \<Rightarrow> web_request \<Rightarrow> user \<Rightarrow> view \<Rightarrow> media_world \<Rightarrow> answer \<times> media_world" where
  "serve e rq u v w =
     (if content_view v then serve_content e rq u v w
      else if owner_view v then on_db (serve_owner e rq u v) w
      else on_db (serve_read e rq u v) w)"

text \<open>\<open>login_required\<close> is the outer guard of every view, the methods come next.\<close>

definition dashboard_view :: "web_env \<Rightarrow> web_request \<Rightarrow> view \<Rightarrow> media_world \<Rightarrow> answer \<times> media_world" where
  "dashboard_view e rq v w = (case wr_user rq of
       None \<Rightarrow> (Redirect Login, w)
     | Some u \<Rightarrow> if method_allowed v (wr_method rq) then serve e rq u v w else (Page 405, w))"

subsection \<open>Signing in and out\<close>

text \<open>
  \<open>SecureLoginView\<close> sends a user who is signed in to the dashboard; \<open>wr_credentials\<close> is the user of the
  sign-in form when its name and password are right.
\<close>

definition sign_in :: "web_env \<Rightarrow> web_request \<Rightarrow> db \<Rightarrow> answer \<times> db" where
  "sign_in e rq s =
     (let key = login_key (we_hash e) (we_settings e) (wr_username rq) (wr_ip rq) in
      if wr_user rq \<noteq> None then (Redirect (View Dashboard), s)
      else if wr_method rq \<noteq> ''POST'' \<or> \<not> login_admitted (we_clock e 0) key s then (Page 200, s)
      else (case wr_credentials rq of
          None \<Rightarrow> atomic_view failed (\<lambda>t. Page 200) (\<lambda>t. t) (login_failed (we_hash e) (we_clock e) key (wr_username rq) s) s
        | Some u \<Rightarrow> (Redirect (View Dashboard), login_succeeded (we_clock e 0) key u s)))"

definition sign_out :: "web_env \<Rightarrow> web_request \<Rightarrow> db \<Rightarrow> answer \<times> db" where
  "sign_out e rq s =
     (if wr_method rq \<noteq> ''POST'' then (Page 405, s) else (Redirect Login, logout_post (we_clock e 0) (wr_user rq) s))"

definition reset_request :: "web_env \<Rightarrow> web_request \<Rightarrow> db \<Rightarrow> answer \<times> db" where
  "reset_request e rq s =
     (if wr_method rq \<noteq> ''POST'' then (Page 200, s)
      else (let (admitted, t) = password_reset_request (we_hash e) (we_settings e) (we_clock e) (wr_ip rq) (wr_username rq) s
            in (if admitted \<and> we_valid_email e (wr_username rq) then Redirect PasswordResetDone else Page 200, t)))"

text \<open>The framework checks the link; \<open>wr_reset\<close> is what it hands to \<open>form_valid\<close>, if anything.\<close>

definition reset_confirm :: "web_env \<Rightarrow> web_request \<Rightarrow> db \<Rightarrow> answer \<times> db" where
  "reset_confirm e rq s = (case wr_reset rq of
       None \<Rightarrow> (Page 200, s)
     | Some (i, token, raw) \<Rightarrow>
         if wr_method rq \<noteq> ''POST'' then (Page 200, s)
         else (case password_reset_confirm (we_check_token e) (we_make_password e) (we_clock e 0) i token raw s of
             (None, t) \<Rightarrow> (Page 200, t) | (Some u, t) \<Rightarrow> (Redirect PasswordResetComplete, t)))"

subsection \<open>A visit\<close>

text \<open>
  The middleware in its order, then the URL table. The API and the administration site have their own
  theories: their requests leave this one with the route.
\<close>

datatype visit_end = Answered answer media_world | Passed_on route

definition visit :: "web_env \<Rightarrow> web_request \<Rightarrow> media_world \<Rightarrow> visit_end" where
  "visit e rq w =
     (case health_probe (wr_path rq) (we_database_answers e) of
        Some status \<Rightarrow> Answered (Page status) w
      | None \<Rightarrow>
          if upload_too_large (we_settings e) (wr_method rq) (wr_path rq) (wr_content_length rq) then Answered (Page 413) w
          else (case idle_timeout (we_settings e) (we_clock e 0) (wr_user rq \<noteq> None) (wr_last_activity rq) of
              LogOut \<Rightarrow> Answered (Redirect Login) w
            | Proceed seen \<Rightarrow>
                let answered = (\<lambda>(a, x). Answered a x) in
                (case resolve (wr_path rq) of
                   None \<Rightarrow> Answered (Page 404) w
                 | Some (View v) \<Rightarrow> answered (dashboard_view e rq v w)
                 | Some Login \<Rightarrow> answered (on_db (sign_in e rq) w)
                 | Some Logout \<Rightarrow> answered (on_db (sign_out e rq) w)
                 | Some PasswordReset \<Rightarrow> answered (on_db (reset_request e rq) w)
                 | Some (PasswordResetConfirm uid token) \<Rightarrow> answered (on_db (reset_confirm e rq) w)
                 | Some (AdminSite p) \<Rightarrow> Passed_on (AdminSite p)
                 | Some (Api v) \<Rightarrow> Passed_on (Api v)
                 | Some r \<Rightarrow> Answered (Page 200) w)))"

subsection \<open>What a request changed\<close>

text \<open>
  \<open>recorded u s t\<close>: the audit trail grew, and by an entry of the user \<open>u\<close>. \<open>content_only s t\<close>: nothing
  but playlists, media, their deletions, commands, alerts, the audit trail and the row of limits, which is
  created with the defaults when it is missing; the new commands only ask devices to synchronise.
\<close>

definition recorded :: "id \<Rightarrow> db \<Rightarrow> db \<Rightarrow> bool" where
  "recorded u s t = (\<exists>es. audits t = audits s @ es \<and> list_ex (\<lambda>e. au_actor e = Some u) es)"

definition content_only :: "db \<Rightarrow> db \<Rightarrow> bool" where
  "content_only s t =
     (t = s\<lparr>playlists := playlists t, playlist_items := playlist_items t, media_assets := media_assets t,
        media_deletions := media_deletions t, commands := commands t, alerts := alerts t, audits := audits t,
        platform := platform t, next_pk := next_pk t\<rparr>
      \<and> (platform t = platform s \<or> platform s = None \<and> platform t = Some default_platform_settings)
      \<and> (\<exists>cs. commands t = commands s @ cs \<and> list_all (\<lambda>c. dc_kind c = SyncNow) cs))"

lemma content_only_refl [simp]: "content_only s s"
  by (simp add: content_only_def)

lemma content_only_trans: "content_only s t \<Longrightarrow> content_only t r \<Longrightarrow> content_only s r"
  by (cases s; cases t; cases r) (auto simp: content_only_def)

lemma content_only_audit [simp]: "content_only s (audit now a act tt ti m s)"
  by (simp add: content_only_def audit_def)

lemma recorded_audit: "audits s' = audits s \<Longrightarrow> recorded u s (audit now (Some u) act tt ti m s')"
  by (simp add: recorded_def audits_audit)

lemma recorded_audit_after: "audits s' = audits s @ es \<Longrightarrow> recorded u s (audit now (Some u) act tt ti m s')"
  by (simp add: recorded_def audits_audit)

subsection \<open>Edits of playlists\<close>

definition edits :: "db \<Rightarrow> db \<Rightarrow> bool" where
  "edits s t = (t = s\<lparr>playlists := playlists t, playlist_items := playlist_items t\<rparr>)"

lemma edits_refl [simp]: "edits s s"
  by (simp add: edits_def)

lemma edits_trans: "edits s t \<Longrightarrow> edits t r \<Longrightarrow> edits s r"
  by (cases s; cases t; cases r) (simp add: edits_def)

lemma edits_content: "edits s t \<Longrightarrow> content_only s t"
  by (cases s; cases t) (simp add: edits_def content_only_def)

lemma edits_audits: "edits s t \<Longrightarrow> audits t = audits s"
  by (cases s; cases t) (simp add: edits_def)

lemma playlist_save_edits: "playlist_save cols p s = Inr t \<Longrightarrow> edits s t"
  by (auto simp: playlist_save_def bind_result_Inr_iff edits_def Let_def split: option.splits)

lemma write_item_edits: "write_item i s = Inr t \<Longrightarrow> edits s t"
  by (auto simp: write_item_def bind_result_Inr_iff edits_def)

lemma item_save_edits: "item_save i s = Inr t \<Longrightarrow> edits s t"
  by (auto simp: item_save_def bind_result_Inr_iff intro: write_item_edits)

lemma item_delete_edits: "item_delete i s = Inr t \<Longrightarrow> edits s t"
  by (auto simp: item_delete_def bind_result_Inr_iff edits_def)

lemma create_items_edits: "create_items uuids k p ms s = Inr t \<Longrightarrow> edits s t"
  by (induction ms arbitrary: k s) (auto simp: bind_result_Inr_iff intro: edits_trans item_save_edits)

lemma clone_items_edits: "clone_items uuids k p is s = Inr t \<Longrightarrow> edits s t"
  by (induction "is" arbitrary: k s) (auto simp: bind_result_Inr_iff intro: edits_trans write_item_edits)

lemma renumber_edits: "renumber k is s = Inr t \<Longrightarrow> edits s t"
  by (induction "is" arbitrary: k s) (auto simp: bind_result_Inr_iff intro: edits_trans item_save_edits split: if_splits)

lemma set_positions_edits: "set_positions k ts p s = Inr t \<Longrightarrow> edits s t"
  by (induction ts arbitrary: k s) (auto simp: bind_result_Inr_iff intro: edits_trans write_item_edits split: option.splits)

lemma shift_positions_edits: "shift_positions p s = Inr t \<Longrightarrow> edits s t"
  unfolding shift_positions_def
  by (erule fold_result_invariant) (auto intro: edits_trans write_item_edits)

lemmas edit_steps = playlist_save_edits write_item_edits item_save_edits item_delete_edits create_items_edits
  clone_items_edits renumber_edits set_positions_edits shift_positions_edits

lemma edits_recorded:
  assumes "edits s s'"
  shows "content_only s (audit now (Some u) act tt ti m s') \<and> recorded u s (audit now (Some u) act tt ti m s')"
  using content_only_trans [OF edits_content [OF assms] content_only_audit] recorded_audit [OF edits_audits [OF assms]] by blast

text \<open>What a successful view of the content leaves behind.\<close>

definition content_change :: "id \<Rightarrow> db \<Rightarrow> db \<Rightarrow> bool" where
  "content_change u s t = (content_only s t \<and> recorded u s t)"

lemma content_change_audit: "edits s s' \<Longrightarrow> content_change u s (audit now (Some u) act tt ti m s')"
  by (simp add: content_change_def edits_recorded)

lemma playlist_create_change:
  "playlist_create now uuids u name version starts ends media s = Inr t \<Longrightarrow> content_change u s t"
  by (auto simp: playlist_create_def bind_result_Inr_iff intro!: content_change_audit intro: edits_trans edit_steps)

lemma playlist_clone_change: "playlist_clone now uuids u i s = Inr (p, t) \<Longrightarrow> content_change u s t"
  by (auto simp: playlist_clone_def bind_result_Inr_iff Let_def intro!: content_change_audit intro: edits_trans edit_steps
      split: option.splits)

lemma add_item_edits: "add_item uuid m p s = Inr (i, t) \<Longrightarrow> edits s t"
  by (auto simp: add_item_def bind_result_Inr_iff Let_def intro: item_save_edits)

lemma remove_item_edits: "remove_item m p s = Inr (i, t) \<Longrightarrow> edits s t"
  by (auto simp: remove_item_def bind_result_Inr_iff Let_def split: option.splits
      dest!: item_delete_edits renumber_edits dest: edits_trans)

lemma reorder_items_edits: "reorder_items order p s = Inr t \<Longrightarrow> edits s t"
  by (auto simp: reorder_items_def bind_result_Inr_iff Let_def dest!: shift_positions_edits set_positions_edits dest: edits_trans)

lemma playlist_detail_change:
  assumes "playlist_detail now u uuid i act s = Inr t"
  shows "content_change u s t \<or> t = s"
  using assms
  by (auto simp: playlist_detail_def bind_result_Inr_iff Let_def
      intro!: content_change_audit intro: add_item_edits remove_item_edits reorder_items_edits
      split: option.splits detail_action.splits)

lemma acknowledge_alert_change: "acknowledge_alert now u i s = Inr t \<Longrightarrow> content_change u s t"
  by (auto simp: acknowledge_alert_def Let_def content_change_def content_only_def recorded_def audit_def split: option.splits)

lemma media_delete_change: "media_delete clk u i confirm s = (p, t) \<Longrightarrow> content_change u s t \<or> t = s"
  by (auto simp: media_delete_def delete_media_binary_def bind_result_Inr_iff content_change_def content_only_def recorded_def
      audit_def save_asset_def get_or_create_deletion_def split: if_splits sum.splits option.splits error.splits)

lemma media_upload_change:
  "media_upload st now u uuid stored_as business title kind filename bytes w = Inr (i, w') \<Longrightarrow>
     content_change u (mw_db w) (mw_db w')"
  by (auto simp: media_upload_def bind_result_Inr_iff Let_def content_change_def content_only_def recorded_def audit_def)

text \<open>
  What an upload leaves behind: a change of the content, and what the dispatch does to the throttle rows
  under its own keys.
\<close>

definition dispatch_keys :: "web_env \<Rightarrow> string set" where
  "dispatch_keys e = {dispatch_budget_key (we_hash e), asset_dispatch_state_key (we_hash e) (we_uuid e 0)}"

definition upload_only :: "string set \<Rightarrow> db \<Rightarrow> db \<Rightarrow> bool" where
  "upload_only keys s t =
     (content_only s (t\<lparr>api_throttles := api_throttles s\<rparr>) \<and> throttles_besides keys t = throttles_besides keys s)"

lemma content_upload_only: "content_only s t \<Longrightarrow> upload_only keys s t"
  by (cases s; cases t) (auto simp: upload_only_def content_only_def throttles_besides_def)

lemma dispatch_upload_only: "content_only s r \<Longrightarrow> dispatch_only keys r t \<Longrightarrow> upload_only keys s t"
  by (cases s; cases r; cases t) (auto simp: upload_only_def content_only_def dispatch_only_def throttles_besides_def)

lemma dispatch_recorded: "recorded u s r \<Longrightarrow> dispatch_only keys r t \<Longrightarrow> recorded u s t"
  by (cases r; cases t) (auto simp: recorded_def dispatch_only_def)

lemma media_upload_page_change:
  assumes "media_upload_page e rq u w = (a, w')"
  shows "w' = w \<or> upload_only (dispatch_keys e) (mw_db w) (mw_db w') \<and> recorded (us_id u) (mw_db w) (mw_db w')"
proof (cases "w' = w")
  case False
  then obtain i r business title
    where up: "media_upload (we_settings e) (we_clock e 0) (us_id u) (we_uuid e 0) (we_stored_as e) business title
        (wr_kind rq) (wr_filename rq) (wr_size rq) w = Inr (i, r)"
      and t: "mw_db w' = queue_media_processing (we_settings e) (we_hash e) (we_ecs e) (\<lambda>k. we_clock e (k + 1)) i (mw_db r)"
    using assms by (auto simp: media_upload_page_def bind_result_Inr_iff split: if_splits sum.splits)
  have i: "i = we_uuid e 0" using up by (auto simp: media_upload_def bind_result_Inr_iff Let_def)
  have "dispatch_only (dispatch_keys e) (mw_db r) (mw_db w')"
    unfolding t i dispatch_keys_def by (rule queue_media_processing_only)
  then show ?thesis
    using media_upload_change [OF up] dispatch_upload_only dispatch_recorded unfolding content_change_def by blast
qed simp

lemma clean_playlist_create_change:
  "playlist_create_page e rq u s = (a, t) \<Longrightarrow> content_change (us_id u) s t \<or> t = s"
  by (auto simp: playlist_create_page_def atomic_view_def dest: playlist_create_change split: if_splits sum.splits)

lemma cancel_superseded_change:
  "cancel_superseded now u r qs s = Inr t \<Longrightarrow> content_only s t \<and> (\<exists>es. audits t = audits s @ es)"
proof (induction qs arbitrary: s)
  case (Cons q qs)
  then obtain s1 where s1: "playlist_save (Some [''status'', ''superseded_by'', ''updated_at''])
      (q\<lparr>pl_status := Cancelled, pl_superseded_by := Some r\<rparr>) s = Inr s1"
    and rest: "cancel_superseded now u r qs (audit now (Some u) ''playlist.cancelled_by_correction'' ''signage.playlist''
      (uuid_str (pl_id q)) [(''replacement'', JStr (uuid_str r))] s1) = Inr t" by (auto simp: bind_result_Inr_iff)
  note e = playlist_save_edits [OF s1]
  have "content_only s t"
    using content_only_trans [OF content_only_trans [OF edits_content [OF e] content_only_audit]] Cons.IH [OF rest] by blast
  then show ?case using Cons.IH [OF rest] edits_audits [OF e] by (auto simp: audits_audit)
qed simp

lemma create_sync_commands_change:
  "content_only s (create_sync_commands now u uuids k ds s) \<and> audits (create_sync_commands now u uuids k ds s) = audits s"
proof (induction ds arbitrary: k s)
  case (Cons d ds)
  have "content_only s (s\<lparr>commands := commands s @ [new_command now SyncNow u (now + minutes 10) (uuids k) (dv_id d)]\<rparr>)"
    by (simp add: content_only_def new_command_def)
  then show ?case using Cons.IH content_only_trans by fastforce
qed simp

lemma load_platform_change: "content_only s (snd (load_platform s)) \<and> audits (snd (load_platform s)) = audits s"
  by (auto simp: load_platform_def content_only_def split: option.splits)

lemma publish_playlist_change:
  assumes "publish_playlist st stored now uuids u urgent i s = Inr (p, t)"
  shows "content_change u s t"
proof -
  obtain pl lim s0 s1 s2 where load: "load_platform s = (lim, s0)"
    and s1: "playlist_save (Some [''status'', ''published_at'', ''is_urgent'', ''updated_at''])
        (pl\<lparr>pl_status := Published, pl_published_at := Some now, pl_is_urgent := urgent\<rparr>) s0 = Inr s1"
    and c: "cancel_superseded now u i (superseded_by urgent pl s0) s1 = Inr s2"
    and t: "t = create_sync_commands now u uuids 0 (sync_targets now
         (audit now (Some u) ''playlist.publish'' ''signage.playlist'' (uuid_str i) [(''urgent'', JBool urgent)] s2))
        (audit now (Some u) ''playlist.publish'' ''signage.playlist'' (uuid_str i) [(''urgent'', JBool urgent)] s2)"
    using assms by (auto simp: publish_playlist_def bind_result_Inr_iff Let_def split: option.splits prod.splits)
  have s0: "s0 = snd (load_platform s)" using load by simp
  obtain es where es: "audits s2 = audits s1 @ es" "content_only s1 s2" using cancel_superseded_change [OF c] by blast
  have a: "audits s1 = audits s" "content_only s s1"
    using edits_audits [OF playlist_save_edits [OF s1]] edits_content [OF playlist_save_edits [OF s1]]
      load_platform_change [of s] content_only_trans unfolding s0 by auto
  show ?thesis
    unfolding content_change_def
  proof
    show "content_only s t" unfolding t
      using a(2) es(2) content_only_audit create_sync_commands_change content_only_trans by meson
    show "recorded u s t"
      using create_sync_commands_change es(1) a(1) by (simp add: t recorded_def audits_audit)
  qed
qed

lemma playlist_publish_change:
  "playlist_publish st stored now uuids u urgent i s = (p, t) \<Longrightarrow> content_change u s t \<or> t = s"
  by (auto simp: playlist_publish_def dest: publish_playlist_change split: if_splits sum.splits error.splits)

subsection \<open>Changes by owners\<close>

lemma audits_frames:
  "audits (save_device d s) = audits s" "audits (expire_codes now i s) = audits s" "audits (unassign now i s) = audits s"
  "audits (snd (expire_unused_enrollment_codes now i s)) = audits s"
  "audits (snd (revoke_active_device_credentials now i s)) = audits s"
  "audits (snd (create_driver x n s)) = audits s" "audits (snd (get_or_create_vehicle r s)) = audits s"
  "audits (insert_user v s) = audits s" "audits (save_user v s) = audits s"
  "insert_assignment a s = Inr t \<Longrightarrow> audits t = audits s"
  by (auto simp: save_device_def expire_codes_def unassign_def expire_unused_enrollment_codes_def Let_def
      revoke_active_device_credentials_def create_driver_def get_or_create_vehicle_def insert_assignment_def
      insert_user_def save_user_def split: option.splits if_splits)

lemma insert_code_audits: "insert_code st h now d a raws s = Inr (raw, t) \<Longrightarrow> audits t = audits s"
  by (induction raws) (auto split: if_splits)

lemma issue_kiosk_pin_recorded:
  "issue_kiosk_pin now pin u i s = Inr t \<Longrightarrow> \<exists>e. audits t = audits s @ [e] \<and> au_actor e = Some u"
  by (auto simp: issue_kiosk_pin_def bind_result_Inr_iff Let_def audit_device_def audits_audit audits_frames)

lemma device_create_recorded:
  assumes "device_create now owner u uuid duuid pin f s = Inr t"
  shows "recorded u s t"
proof -
  obtain g d s1 where p: "provision_device now uuid duuid g s = Inr (d, s1)"
    and i: "issue_kiosk_pin now pin u uuid (audit_device now u ''device.provision'' d [] s1) = Inr t"
    using assms by (auto simp: device_create_def bind_result_Inr_iff)
  obtain dr s2 ve s3 where c: "create_driver duuid (df_driver_name g) s = (dr, s2)"
    "get_or_create_vehicle (df_vehicle_registration g) s2 = (ve, s3)" by (metis surj_pair)
  have "audits s3 = audits s" using audits_frames(6,7) c by (metis snd_conv)
  then have "audits s1 = audits s"
    using p c by (auto simp: provision_device_def bind_result_Inr_iff Let_def dest!: audits_frames(10))
  then show ?thesis using issue_kiosk_pin_recorded [OF i] by (auto simp: recorded_def audit_device_def audits_audit)
qed

lemma reassign_device_audits:
  assumes "reassign_device now duuid f d s = Inr (changed, t)"
  shows "audits t = audits s"
proof -
  let ?s = "unassign now (dv_id d) (save_device (d\<lparr>dv_label := df_label f\<rparr>) s)"
  obtain dr s2 ve s3 where c: "create_driver duuid (df_driver_name f) ?s = (dr, s2)"
    "get_or_create_vehicle (df_vehicle_registration f) s2 = (ve, s3)" by (metis surj_pair)
  have "audits s3 = audits s" using audits_frames(6,7) c by (metis audits_frames(1,3) snd_conv)
  then show ?thesis
    using assms c by (auto simp: reassign_device_def bind_result_Inr_iff Let_def audits_frames(1,3)
        dest!: audits_frames(10) split: if_splits)
qed

lemma device_reassign_recorded:
  "device_reassign clk owner u duuid f i s = Inr t \<Longrightarrow> recorded u s t"
  by (auto simp: device_reassign_def bind_result_Inr_iff Let_def audit_device_def audits_frames
      intro!: recorded_audit dest: reassign_device_audits)

lemma issue_enrollment_recorded:
  "issue_enrollment st h now raws owner u i s = Inr (p, t) \<Longrightarrow> recorded u s t \<or> t = s"
  by (auto simp: issue_enrollment_def issue_code_def bind_result_Inr_iff audit_device_def audits_frames
      intro!: recorded_audit dest!: insert_code_audits split: if_splits)

lemma device_pin_reset_recorded: "device_pin_reset clk owner u pin i s = Inr t \<Longrightarrow> recorded u s t"
  by (auto simp: device_pin_reset_def bind_result_Inr_iff recorded_def audits_frames dest!: issue_kiosk_pin_recorded)

lemma device_disable_recorded: "device_disable clk owner u i s = Inr t \<Longrightarrow> recorded u s t"
  by (auto simp: device_disable_def disable_device_def bind_result_Inr_iff Let_def audit_device_def split_beta audits_frames
      intro!: recorded_audit)

lemma device_reactivate_recorded: "device_reactivate now owner u i s = Inr t \<Longrightarrow> recorded u s t"
  by (auto simp: device_reactivate_def reactivate_device_def bind_result_Inr_iff Let_def audit_device_def audits_frames
      intro!: recorded_audit)

lemma device_admin_mode_recorded: "device_admin_mode now owner u uuid i s = Inr (b, t) \<Longrightarrow> recorded u s t \<or> t = s"
  by (auto simp: device_admin_mode_def bind_result_Inr_iff intro!: recorded_audit split: if_splits)

lemma device_credentials_revoke_recorded: "device_credentials_revoke clk owner u i s = Inr (n, t) \<Longrightarrow> recorded u s t"
  by (auto simp: device_credentials_revoke_def revoke_device_credentials_def bind_result_Inr_iff Let_def audit_device_def
      split_beta audits_frames intro!: recorded_audit)

lemma settings_edit_recorded:
  "settings_edit now v entries duration s = Inr (b, t) \<Longrightarrow> recorded (us_id v) s t \<or> t = snd (load_platform s)"
  using load_platform_change [of s]
  by (auto simp: settings_edit_def bind_result_Inr_iff Let_def split_beta intro!: recorded_audit split: if_splits sum.splits)

lemma form_save_audits: "form_save ve ne mk f existing v s = Inr (x, t) \<Longrightarrow> audits t = audits s"
  by (auto simp: form_save_def bind_result_Inr_iff Let_def audits_frames)

lemma user_edit_recorded:
  assumes "user_edit ve ne policy mk now v i f s = Inr (b, t)"
  shows "recorded (us_id v) s t \<or> t = s"
proof -
  obtain existing where "(case i of None \<Rightarrow> Inl Http404 | Some k \<Rightarrow> (case lookup_by us_id k (users s) of
       None \<Rightarrow> Inl Http404 | Some u \<Rightarrow> Inr (Some u))) = Inr existing \<or> i = None \<and> existing = None"
    and body: "(case form_clean ve ne policy f existing s of
       Inl e \<Rightarrow> Inr (False, s)
     | Inr w \<Rightarrow>
         if (case existing of None \<Rightarrow> False | Some u \<Rightarrow> is_owner u \<and> us_is_active u)
            \<and> (us_role w \<noteq> Owner \<or> \<not> us_is_active w) \<and> \<not> list_ex (\<lambda>k. k \<noteq> us_id w) (active_owner_ids s)
         then Inr (False, s)
         else bind_result (form_save ve ne mk f existing w s) (\<lambda>(x, t).
           Inr (True, audit now (Some (us_id v)) (if i = None then ''user.create'' else ''user.update'')
                 ''signage.user'' (int_str (us_id x))
                 [(''role'', JStr (role_value (us_role x))), (''active'', JBool (us_is_active x))] t)))
       = Inr (b, t)"
    using assms unfolding user_edit_def bind_result_Inr_iff Let_def by (cases i) (auto split: option.splits)
  show ?thesis
  proof (cases "form_clean ve ne policy f existing s")
    case (Inr w)
    let ?refused = "(case existing of None \<Rightarrow> False | Some u \<Rightarrow> is_owner u \<and> us_is_active u)
        \<and> (us_role w \<noteq> Owner \<or> \<not> us_is_active w) \<and> \<not> list_ex (\<lambda>k. k \<noteq> us_id w) (active_owner_ids s)"
    show ?thesis
    proof (cases ?refused)
      case True
      show ?thesis using body unfolding Inr sum.case if_P [OF True] by simp
    next
      case False
      show ?thesis using body unfolding Inr sum.case if_not_P [OF False]
        by (auto simp: bind_result_Inr_iff intro!: recorded_audit dest: form_save_audits)
    qed
  qed (use body in simp)
qed

subsection \<open>Every change of the dashboard is on record\<close>

lemma on_db_simps [simp]:
  "mw_db (snd (on_db f w)) = snd (f (mw_db w))" "mw_objects (snd (on_db f w)) = mw_objects w"
  "fst (on_db f w) = fst (f (mw_db w))"
  by (simp_all add: on_db_def split_beta)

definition on_record :: "id \<Rightarrow> db \<Rightarrow> db \<Rightarrow> bool" where
  "on_record u s t = (t = s \<or> t = snd (load_platform s) \<or> recorded u s t)"

lemma on_record_refl [simp]: "on_record u s s"
  by (simp add: on_record_def)

lemma recorded_on_record: "recorded u s t \<Longrightarrow> on_record u s t"
  by (simp add: on_record_def)

lemma content_on_record: "content_change u s t \<Longrightarrow> on_record u s t"
  by (simp add: on_record_def content_change_def)

lemma atomic_on_record:
  "(\<And>x. r = Inr x \<Longrightarrow> on_record u s (f x)) \<Longrightarrow> on_record u s (snd (atomic_view bad good f r s))"
  by (simp add: atomic_view_def split: sum.split)

lemma serve_content_on_record:
  "on_record (us_id u) (mw_db w) (mw_db (snd (serve_content e rq u v w)))"
proof (cases v)
  case MediaUpload
  then show ?thesis using media_upload_page_change [of e rq u w] by (cases "media_upload_page e rq u w") (auto simp: on_record_def)
next
  case (MediaDelete i)
  then show ?thesis using media_delete_change [of "we_clock e" "us_id u" i "wr_confirm rq" "mw_db w"]
    by (auto simp: on_db_simps split: prod.split delete_page.split dest!: content_on_record)
next
  case PlaylistCreate
  then show ?thesis using clean_playlist_create_change [of e rq u "mw_db w"]
    by (cases "playlist_create_page e rq u (mw_db w)") (auto dest: content_on_record)
next
  case (PlaylistDetail i)
  then show ?thesis by (auto intro!: atomic_on_record dest!: playlist_detail_change dest: content_on_record)
next
  case (PlaylistPublish i)
  then show ?thesis
    using playlist_publish_change [of "we_settings e" "we_stored e" "we_clock e 0" "we_uuid e" "us_id u" "wr_urgent rq" i "mw_db w"]
    by (auto simp: split: prod.split publish_page.split dest!: content_on_record)
next
  case (PlaylistClone i)
  then show ?thesis by (auto intro!: atomic_on_record dest!: playlist_clone_change dest: content_on_record)
next
  case (AcknowledgeAlert i)
  then show ?thesis by (auto intro!: atomic_on_record dest!: acknowledge_alert_change dest: content_on_record)
qed simp_all

lemma device_reassign_page_record: "device_reassign_page now owner u i s = Inr t \<Longrightarrow> on_record u s t"
  by (auto simp: device_reassign_page_def bind_result_Inr_iff on_record_def split: option.splits intro: recorded_audit)

lemmas owner_records = device_create_recorded device_reassign_recorded issue_enrollment_recorded device_pin_reset_recorded
  device_disable_recorded device_reactivate_recorded device_admin_mode_recorded device_credentials_revoke_recorded
  settings_edit_recorded user_edit_recorded

lemma serve_owner_on_record: "on_record (us_id u) s (snd (serve_owner e rq u v s))"
proof (cases v)
  case (DeviceReassign i)
  then show ?thesis by (auto intro!: atomic_on_record intro: device_reassign_page_record recorded_on_record device_reassign_recorded)
qed (auto simp: edit_user_def bind_result_Inr_iff on_record_def intro!: atomic_on_record [unfolded on_record_def] dest!: owner_records)

lemma serve_read_on_record: "on_record (us_id u) s (snd (serve_read e rq u v s))"
proof (cases v)
  case DeviceList
  then show ?thesis by (simp add: device_list_def on_record_def recorded_audit)
next
  case PlaybackCsv
  then show ?thesis
    by (auto simp: playback_report_csv_def bind_result_def on_record_def recorded_audit split: sum.splits error.splits prod.splits)
qed (simp_all split: tile_answer.split)

lemma serve_on_record:
  "on_record (us_id u) (mw_db w) (mw_db (snd (serve e rq u v w)))"
  by (simp add: serve_def serve_content_on_record serve_owner_on_record serve_read_on_record)

lemma serve_objects:
  "mw_objects (snd (serve e rq u v w)) = mw_objects w
     \<or> recorded (us_id u) (mw_db w) (mw_db (snd (serve e rq u v w)))"
proof (cases "v = MediaUpload")
  case True
  then show ?thesis using media_upload_page_change [of e rq u w]
    by (cases "media_upload_page e rq u w") (auto simp: serve_def content_view_def)
next
  case False
  then have "mw_objects (snd (serve_content e rq u v w)) = mw_objects w" by (cases v) simp_all
  then show ?thesis by (simp add: serve_def)
qed

lemma visit_view:
  assumes "visit e rq w = Answered a w'" and "resolve (wr_path rq) = Some (View v)"
  shows "(a, w') \<in> {(Page 413, w), (Redirect Login, w), dashboard_view e rq v w}"
proof -
  have "resolve ''/health/live/'' = Some HealthLive" "resolve ''/health/ready/'' = Some HealthReady" by code_simp+
  then have "health_probe (wr_path rq) (we_database_answers e) = None"
    using assms(2) by (auto simp: health_probe_def split: if_splits)
  then show ?thesis using assms by (auto simp: visit_def split_beta split: if_splits session_step.splits)
qed

text \<open>C4: The dashboard changes nothing behind the back of the audit trail. A request of a signed-in user
  for any page of the dashboard, through the middleware, the URL table and the guards of the view,
  leaves everything as it was, or at most creates the missing row of limits with the defaults, or adds
  to the audit trail an entry that names this user; entries that were there stay as they were, and
  without a new entry no object is stored.\<close>

theorem dashboard_changes_audited:
  assumes "visit e rq w = Answered a w'" and "resolve (wr_path rq) = Some (View v)" and "wr_user rq = Some u"
  shows "w' = w \<or> (mw_objects w' = mw_objects w \<and> mw_db w' = snd (load_platform (mw_db w)))
     \<or> (\<exists>es. audits (mw_db w') = audits (mw_db w) @ es \<and> list_ex (\<lambda>x. au_actor x = Some (us_id u)) es)"
proof -
  have "w' = w \<or> w' = snd (serve e rq u v w)"
    using visit_view [OF assms(1,2)] assms(3) by (auto simp: dashboard_view_def split: if_splits) (metis snd_conv)+
  moreover have "mw_objects w' = mw_objects w \<and> mw_db w' = mw_db w \<Longrightarrow> w' = w" by simp
  ultimately show ?thesis
    using serve_on_record [of u w e rq v] serve_objects [of e rq u v w] by (auto simp: on_record_def recorded_def)
qed

subsection \<open>Who may do what\<close>

lemma serve_owner_marketing:
  assumes "us_role u = Marketing" and "owner_view v"
  shows "serve_owner e rq u v s = (Page 403, s)"
proof -
  have n: "\<not> is_owner u" using assms(1) by (simp add: is_owner_def)
  have o: "owner_required u = Inl (PermissionDenied [])" "device_or_404 False i s = Inl (PermissionDenied [])" for i
    using n by (simp_all add: owner_required_def device_or_404_def require_def)
  show ?thesis using assms(2) n o
    by (cases v) (simp_all add: owner_view_def edit_user_def user_edit_page_def user_edit_def user_list_def settings_edit_def
        device_create_def device_reassign_def device_reassign_page_def issue_enrollment_def device_pin_reset_def
        device_disable_def device_reactivate_def device_admin_mode_def device_credentials_revoke_def
        atomic_view_def failed_def form_failed_def require_def)
qed

lemma atomic_content:
  "(\<And>x. r = Inr x \<Longrightarrow> content_only s (f x)) \<Longrightarrow> content_only s (snd (atomic_view bad good f r s))"
  by (simp add: atomic_view_def split: sum.split)

lemma serve_content_only:
  "v \<noteq> MediaUpload \<Longrightarrow> content_only (mw_db w) (mw_db (snd (serve_content e rq u v w)))"
proof (cases v)
  case (MediaDelete i)
  then show ?thesis using media_delete_change [of "we_clock e" "us_id u" i "wr_confirm rq" "mw_db w"]
    by (auto simp: content_change_def split: prod.split delete_page.split)
next
  case PlaylistCreate
  then show ?thesis using clean_playlist_create_change [of e rq u "mw_db w"]
    by (cases "playlist_create_page e rq u (mw_db w)") (auto simp: content_change_def)
next
  case (PlaylistDetail i)
  then show ?thesis by (auto simp: content_change_def intro!: atomic_content dest!: playlist_detail_change)
next
  case (PlaylistPublish i)
  then show ?thesis
    using playlist_publish_change [of "we_settings e" "we_stored e" "we_clock e 0" "we_uuid e" "us_id u" "wr_urgent rq" i "mw_db w"]
    by (auto simp: content_change_def split: prod.split publish_page.split)
next
  case (PlaylistClone i)
  then show ?thesis by (auto simp: content_change_def intro!: atomic_content dest!: playlist_clone_change)
next
  case (AcknowledgeAlert i)
  then show ?thesis by (auto simp: content_change_def intro!: atomic_content dest!: acknowledge_alert_change)
qed simp_all

lemma serve_read_content: "content_only s (snd (serve_read e rq u v s))"
proof (cases v)
  case PlaybackCsv
  then show ?thesis
    by (auto simp: playback_report_csv_def bind_result_def split: sum.splits error.splits prod.splits)
qed (simp_all add: device_list_def split: tile_answer.split)

lemma serve_upload_only:
  "upload_only (dispatch_keys e) (mw_db w) (mw_db (snd (serve_content e rq u MediaUpload w)))"
  using media_upload_page_change [of e rq u w]
  by (cases "media_upload_page e rq u w") (auto intro: content_upload_only)

text \<open>C5: Access to the dashboard. Whoever is not signed in changes nothing on any page and is sent to the
  sign-in page. A marketing user changes nothing but content: users, drivers, vehicles, devices,
  assignments, codes, credentials, tokens, sign-in throttles, qualifications and all evidence stay as they
  are and no new command is anything but a request to synchronise. The rows of the general throttles stay
  as they are too, except that an upload, whose processing is dispatched when it commits, may change
  the row of the dispatch budget and the row of the dispatch state of the new asset. The pages of owners
  answer 403 (or 405 for the method) and change nothing.\<close>

theorem dashboard_access:
  assumes "visit e rq w = Answered a w'" and "resolve (wr_path rq) = Some (View v)"
  shows "(wr_user rq = None \<longrightarrow> w' = w \<and> a \<in> {Page 413, Redirect Login})
    \<and> (\<forall>u. wr_user rq = Some u \<and> us_role u = Marketing \<longrightarrow>
         (if v = MediaUpload
          then upload_only {dispatch_budget_key (we_hash e), asset_dispatch_state_key (we_hash e) (we_uuid e 0)}
                 (mw_db w) (mw_db w')
          else content_only (mw_db w) (mw_db w'))
         \<and> (owner_view v \<longrightarrow> w' = w \<and> a \<in> {Page 413, Redirect Login, Page 403, Page 405}))"
proof (intro conjI allI impI)
  assume "wr_user rq = None"
  then show "w' = w" "a \<in> {Page 413, Redirect Login}"
    using visit_view [OF assms] by (auto simp: dashboard_view_def)
next
  fix u assume u: "wr_user rq = Some u \<and> us_role u = Marketing"
  have cases: "w' = w \<and> a \<in> {Page 413, Redirect Login, Page 405} \<or> (a, w') = serve e rq u v w"
    using visit_view [OF assms] u by (auto simp: dashboard_view_def split: if_splits)
  have c: "\<not> content_view v" if "owner_view v" using that by (cases v) (simp_all add: owner_view_def content_view_def)
  have "serve e rq u v w = (Page 403, w)" if "owner_view v"
    using serve_owner_marketing [OF conjunct2 [OF u] that] c [OF that] that by (simp add: serve_def on_db_def)
  then show "w' = w" "a \<in> {Page 413, Redirect Login, Page 403, Page 405}" if "owner_view v"
    using cases that by auto
  have "if v = MediaUpload then upload_only (dispatch_keys e) (mw_db w) (mw_db (snd (serve e rq u v w)))
      else content_only (mw_db w) (mw_db (snd (serve e rq u v w)))"
    using serve_owner_marketing [OF conjunct2 [OF u]] serve_upload_only
    by (simp add: serve_def serve_content_only serve_read_content content_view_def del: serve_content.simps)
  then show "if v = MediaUpload
      then upload_only {dispatch_budget_key (we_hash e), asset_dispatch_state_key (we_hash e) (we_uuid e 0)} (mw_db w) (mw_db w')
      else content_only (mw_db w) (mw_db w')"
    using cases unfolding dispatch_keys_def [symmetric] by (metis content_only_refl content_upload_only snd_conv)
qed

subsection \<open>Reading\<close>

definition read_only :: "db \<Rightarrow> db \<Rightarrow> bool" where
  "read_only s t = (t = s\<lparr>audits := audits t, platform := platform t, next_pk := next_pk t\<rparr>
     \<and> (platform t = platform s \<or> platform s = None \<and> platform t = Some default_platform_settings)
     \<and> (\<exists>es. audits t = audits s @ es))"

lemma read_only_refl [simp]: "read_only s s"
  by (simp add: read_only_def)

lemma read_only_audit [simp]: "read_only s (audit now a act tt ti m s)"
  by (simp add: read_only_def audit_def)

lemma read_only_load [simp]: "read_only s (snd (load_platform s))"
  by (simp add: read_only_def load_platform_def split: option.split)

lemma serve_reads:
  assumes "wr_method rq \<noteq> ''POST''" and "method_allowed v (wr_method rq)"
  shows "mw_objects (snd (serve e rq u v w)) = mw_objects w \<and> read_only (mw_db w) (mw_db (snd (serve e rq u v w)))"
proof -
  have r: "read_only s (snd (serve_read e rq u v s))" for s
  proof (cases v)
    case PlaybackCsv
    then show ?thesis
      by (auto simp: playback_report_csv_def bind_result_def split: sum.splits error.splits prod.splits)
  qed (simp_all add: device_list_def split: tile_answer.split)
  have o: "read_only s (snd (serve_owner e rq u v s))" for s
    using assms by (cases v) (auto simp: edit_user_def atomic_view_def device_reassign_page_def bind_result_def
        split: sum.splits option.splits)
  have c: "snd (serve_content e rq u v w) = w"
    using assms by (cases v) (simp_all add: on_db_def media_upload_page_def playlist_create_page_def)
  show ?thesis using r o c by (simp add: serve_def)
qed

text \<open>C26: Reading changes nothing. A request that is not a POST, for any page of the dashboard and by
  whomever, leaves every table and every stored object as it was, except that entries may be added to
  the audit trail and the missing row of limits may be created with the defaults.\<close>

theorem dashboard_reads:
  assumes "visit e rq w = Answered a w'" and "resolve (wr_path rq) = Some (View v)" and "wr_method rq \<noteq> ''POST''"
  shows "mw_objects w' = mw_objects w \<and> read_only (mw_db w) (mw_db w')"
proof -
  have "w' = w \<or> (\<exists>u. method_allowed v (wr_method rq) \<and> (a, w') = serve e rq u v w)"
    using visit_view [OF assms(1,2)] by (auto simp: dashboard_view_def split: if_splits option.splits)
  then show ?thesis using serve_reads [OF assms(3)] by (metis read_only_refl snd_conv)
qed

subsection \<open>Instances\<close>

definition sample_env :: web_env where
  "sample_env = \<lparr>we_settings = default_settings, we_clock = (\<lambda>k. 100 + int k), we_uuid = (\<lambda>k. 900 + int k),
     we_codes = [''A1''], we_pin_hash = ''p'', we_hash = (\<lambda>x. x), we_make_password = (\<lambda>p. ''h''),
     we_check_token = (\<lambda>u t. False), we_valid_email = (\<lambda>x. True), we_norm_email = (\<lambda>x. x),
     we_password_policy = (\<lambda>p u. True), we_read_date = (\<lambda>x. NoDate), we_read_datetime = (\<lambda>x. None),
     we_stored = (\<lambda>n. Inl (Invalid [])), we_stored_as = (\<lambda>n. n), we_ecs = timing_out_service, we_tiles_installed = False,
     we_tiles = (\<lambda>z x y. Inr None), we_database_answers = True\<rparr>"

definition sample_request :: "string \<Rightarrow> string \<Rightarrow> user option \<Rightarrow> web_request" where
  "sample_request m p who = \<lparr>wr_method = m, wr_path = p, wr_content_length = ''0'', wr_user = who,
     wr_last_activity = None, wr_ip = ''10.0.0.1'', wr_username = [], wr_credentials = None, wr_reset = None,
     wr_query = (\<lambda>x. []), wr_confirm = [], wr_urgent = [], wr_business_name = [], wr_title = [], wr_kind = Image,
     wr_filename = [], wr_size = 0, wr_action = OtherAction, wr_name = [], wr_version = 1, wr_starts_at = 0,
     wr_ends_at = 1, wr_media = [], wr_device = \<lparr>df_label = [], df_qualification = None, df_driver_name = [],
       df_vehicle_registration = [], df_sim_card_number = []\<rparr>, wr_max_entries = 1, wr_max_duration_seconds = 1,
     wr_user_form = \<lparr>fo_email = [], fo_role = [], fo_is_active = True, fo_password = []\<rparr>\<rparr>"

definition site_db :: db where
  "site_db = empty_db\<lparr>alerts := [\<lparr>al_id = 5, al_device = None, al_code = ''x'', al_severity = Warning, al_message = [],
     al_acknowledged_at = None, al_acknowledged_by = None, al_created_at = 1\<rparr>], next_pk := 6\<rparr>"

definition site_world :: media_world where
  "site_world = \<lparr>mw_db = site_db, mw_objects = []\<rparr>"

definition marketer :: user where
  "marketer = owner_row\<lparr>us_id := 2, us_role := Marketing\<rparr>"

definition acknowledging :: web_request where
  "acknowledging = sample_request ''POST'' ''/alerts/5/acknowledge/'' (Some marketer)"

lemma sample_visit:
  assumes "resolve p = Some (View v)"
  shows "visit sample_env (sample_request m p who) w =
    (let (a, x) = dashboard_view sample_env (sample_request m p who) v w in Answered a x)"
proof -
  let ?rq = "sample_request m p who"
  have "resolve ''/health/live/'' = Some HealthLive" "resolve ''/health/ready/'' = Some HealthReady" by code_simp+
  then have "health_probe p True = None" using assms by (auto simp: health_probe_def)
  moreover have "\<not> upload_too_large default_settings m p ''0''"
  proof -
    have "parse_int ''0'' = Some 0" "\<not> st_media_max_request_bytes default_settings < 0" by code_simp+
    then show ?thesis by (simp add: upload_too_large_def)
  qed
  moreover have "\<exists>x. idle_timeout default_settings 100 (who \<noteq> None) None = Proceed x"
    by (simp add: idle_timeout_def Let_def)
  ultimately show ?thesis using assms by (auto simp: visit_def sample_env_def sample_request_def split_beta)
qed

definition acknowledged_db :: db where
  "acknowledged_db = (case acknowledge_alert 100 2 5 site_db of Inl e \<Rightarrow> site_db | Inr t \<Rightarrow> t)"

lemma acknowledging_visit:
  "visit sample_env acknowledging site_world = Answered (Redirect (View Dashboard)) (site_world\<lparr>mw_db := acknowledged_db\<rparr>)"
  "resolve (wr_path acknowledging) = Some (View (AcknowledgeAlert 5))"
  "wr_user acknowledging = Some marketer" "us_role marketer = Marketing"
  "site_world\<lparr>mw_db := acknowledged_db\<rparr> \<noteq> site_world" "platform acknowledged_db = None"
proof -
  have r: "resolve ''/alerts/5/acknowledge/'' = Some (View (AcknowledgeAlert 5))" by code_simp
  then show "resolve (wr_path acknowledging) = Some (View (AcknowledgeAlert 5))"
    by (simp add: acknowledging_def sample_request_def)
  show "wr_user acknowledging = Some marketer" "us_role marketer = Marketing"
    by (simp_all add: acknowledging_def sample_request_def marketer_def)
  have a: "acknowledge_alert 100 2 5 site_db = Inr acknowledged_db"
    by (simp add: acknowledged_db_def acknowledge_alert_def site_db_def unresolved_def Let_def)
  show "visit sample_env acknowledging site_world = Answered (Redirect (View Dashboard)) (site_world\<lparr>mw_db := acknowledged_db\<rparr>)"
    unfolding acknowledging_def sample_visit [OF r]
    by (simp add: dashboard_view_def serve_def content_view_def on_db_def atomic_view_def sample_request_def site_world_def
        a [symmetric]) (simp add: sample_env_def marketer_def a)
  have "audits acknowledged_db \<noteq> audits site_db" "platform acknowledged_db = None"
    by (simp_all add: acknowledged_db_def acknowledge_alert_def site_db_def unresolved_def Let_def audits_audit empty_db_def)
  then show "platform acknowledged_db = None" "site_world\<lparr>mw_db := acknowledged_db\<rparr> \<noteq> site_world"
    by (auto simp: site_world_def)
qed

theorem dashboard_changes_audited_witness:
  "list_ex (\<lambda>x. au_actor x = Some 2) (audits acknowledged_db)"
proof -
  have "platform acknowledged_db \<noteq> platform (snd (load_platform (mw_db site_world)))"
    using acknowledging_visit(6) by (simp add: load_platform_def site_world_def site_db_def empty_db_def)
  then have "acknowledged_db \<noteq> snd (load_platform (mw_db site_world))" by metis
  then show ?thesis
    using dashboard_changes_audited [OF acknowledging_visit(1-3)] acknowledging_visit(5)
    by (auto simp: marketer_def owner_row_def)
qed

theorem dashboard_access_witness:
  "content_only site_db acknowledged_db \<and> acknowledged_db \<noteq> site_db"
  using dashboard_access [OF acknowledging_visit(1,2)] acknowledging_visit(3-5) by (auto simp: site_world_def)

theorem dashboard_reads_witness:
  "read_only site_db (snd (device_list 100 owner_row site_db))"
proof -
  let ?rq = "sample_request ''GET'' ''/devices/'' (Some owner_row)"
  have r: "resolve ''/devices/'' = Some (View DeviceList)" by code_simp
  have "visit sample_env ?rq site_world = Answered (Page 200) (site_world\<lparr>mw_db := snd (device_list 100 owner_row site_db)\<rparr>)"
    unfolding sample_visit [OF r]
    by (simp add: dashboard_view_def serve_def content_view_def owner_view_def on_db_def sample_request_def sample_env_def site_world_def)
  then show ?thesis using dashboard_reads [of sample_env ?rq site_world] r
    by (auto simp: sample_request_def site_world_def)
qed

end
