(* ===== verification/Maps.thy ===== *)
theory Maps
  imports Routes Reports
begin

section \<open>The map of the dashboard\<close>

text \<open>
  The style and the tile description that \<open>views.py\<close> gives to the map, as JSON, and the paths in them.
  \<open>origin\<close> is the scheme and host with which \<open>build_absolute_uri\<close> begins an address.
\<close>

definition attribution :: string where
  "attribution = [CHR 0xA9] @ '' OpenStreetMap contributors '' @ [CHR 0xB7, CHR 0x20, CHR 0xA9] @ '' OpenMapTiles''"

definition style_layer :: "string \<Rightarrow> string \<Rightarrow> string \<Rightarrow> payload \<Rightarrow> payload \<Rightarrow> json" where
  "style_layer name kind source_layer extra paint =
     JObj ([(''id'', JStr name), (''type'', JStr kind), (''source'', JStr ''openmaptiles''), (''source-layer'', JStr source_layer)]
       @ extra @ [(''paint'', JObj paint)])"

definition line_width :: "json list \<Rightarrow> json" where
  "line_width stops = JArr ([JStr ''interpolate'', JArr [JStr ''linear''], JArr [JStr ''zoom'']] @ stops)"

definition style_layers :: "json list" where
  "style_layers =
     [JObj [(''id'', JStr ''background''), (''type'', JStr ''background''), (''paint'', JObj [(''background-color'', JStr ''#eef2f5'')])],
      style_layer ''landcover'' ''fill'' ''landcover'' [] [(''fill-color'', JStr ''#d9ead3''), (''fill-opacity'', JFloat 7 (-1))],
      style_layer ''landuse'' ''fill'' ''landuse'' [] [(''fill-color'', JStr ''#e8f0df''), (''fill-opacity'', JFloat 8 (-1))],
      style_layer ''water'' ''fill'' ''water'' [] [(''fill-color'', JStr ''#b9d9ee'')],
      style_layer ''waterway'' ''line'' ''waterway'' []
        [(''line-color'', JStr ''#8fc5e8''), (''line-width'', line_width [JInt 5, JFloat 5 (-1), JInt 13, JInt 2])],
      style_layer ''building'' ''fill'' ''building'' [(''minzoom'', JInt 13)]
        [(''fill-color'', JStr ''#d8d5d0''), (''fill-outline-color'', JStr ''#c1bdb6''), (''fill-opacity'', JFloat 75 (-2))],
      style_layer ''transportation'' ''line'' ''transportation'' []
        [(''line-color'', JStr ''#ffffff''), (''line-width'', line_width [JInt 5, JFloat 5 (-1), JInt 12, JFloat 15 (-1), JInt 16, JInt 6])],
      style_layer ''transportation-major'' ''line'' ''transportation''
        [(''filter'', JArr [JStr ''match'', JArr [JStr ''get'', JStr ''class''],
           JArr [JStr ''motorway'', JStr ''trunk'', JStr ''primary'', JStr ''secondary''], JBool True, JBool False])]
        [(''line-color'', JStr ''#f0a35b''), (''line-width'', line_width [JInt 5, JInt 1, JInt 12, JFloat 25 (-1), JInt 16, JInt 8])]]"

definition openmaptiles_style :: "string \<Rightarrow> payload" where
  "openmaptiles_style origin =
     [(''version'', JInt 8), (''name'', JStr ''DUDU OpenMapTiles''),
      (''center'', JArr [JFloat 1016869 (-4), JFloat 3139 (-3)]), (''zoom'', JInt 8),
      (''sources'', JObj [(''openmaptiles'', JObj [(''type'', JStr ''vector''),
         (''url'', JStr (origin @ ''/locations/tiles.json'')), (''attribution'', JStr attribution)])]),
      (''layers'', JArr style_layers)]"

definition rstrip_slash :: "string \<Rightarrow> string" where
  "rstrip_slash s = rev (dropWhile (\<lambda>c. c = CHR ''/'') (rev s))"

definition vector_layers :: "string list" where
  "vector_layers = [''landcover'', ''landuse'', ''water'', ''waterway'', ''building'', ''transportation'']"

definition location_tilejson :: "settings \<Rightarrow> string \<Rightarrow> payload" where
  "location_tilejson st origin =
     [(''tilejson'', JStr ''3.0.0''), (''name'', JStr ''DUDU OpenMapTiles''), (''scheme'', JStr ''xyz''), (''format'', JStr ''pbf''),
      (''minzoom'', JInt 0), (''maxzoom'', JInt (st_openmaptiles_max_zoom st)),
      (''bounds'', JArr [JFloat 99 0, JFloat 0 0, JFloat 120 0, JFloat 8 0]),
      (''tiles'', JArr [JStr (rstrip_slash (origin @ ''/'') @ ''/locations/tiles/{z}/{x}/{y}.pbf'')]),
      (''vector_layers'', JArr (map (\<lambda>layer. JObj [(''id'', JStr layer)]) vector_layers)),
      (''attribution'', JStr attribution)]"

subsection \<open>What the map asks for\<close>

text \<open>
  A client of the format replaces \<open>{z}\<close>, \<open>{x}\<close> and \<open>{y}\<close> in the template by the numbers of a tile; the
  server sees the part after the origin.
\<close>

fun fill_template :: "(char \<Rightarrow> string) \<Rightarrow> string \<Rightarrow> string" where
  "fill_template arg [] = []"
| "fill_template arg (c # cs) =
     (case cs of k # b # rest \<Rightarrow> if c = CHR ''{'' \<and> b = CHR ''}'' then arg k @ fill_template arg rest else c # fill_template arg cs
      | _ \<Rightarrow> c # fill_template arg cs)"

definition tile_arg :: "int \<Rightarrow> int \<Rightarrow> int \<Rightarrow> char \<Rightarrow> string" where
  "tile_arg z x y k = (if k = CHR ''z'' then int_str z else if k = CHR ''x'' then int_str x
     else if k = CHR ''y'' then int_str y else [CHR ''{'', k, CHR ''}''])"

fun str_of :: "json \<Rightarrow> string" where
  "str_of (JStr s) = s" | "str_of j = []"

fun list_of :: "json \<Rightarrow> json list" where
  "list_of (JArr xs) = xs" | "list_of j = []"

fun object_of :: "json \<Rightarrow> payload" where
  "object_of (JObj p) = p" | "object_of j = []"

definition tiles_template :: "settings \<Rightarrow> string \<Rightarrow> string" where
  "tiles_template st origin = str_of (hd (list_of (jget (location_tilejson st origin) ''tiles'')))"

definition style_source :: "string \<Rightarrow> string" where
  "style_source origin = str_of (jget (object_of (jget (object_of (jget (openmaptiles_style origin) ''sources'')) ''openmaptiles'')) ''url'')"

definition path_after :: "string \<Rightarrow> string \<Rightarrow> string" where
  "path_after origin url = drop (length origin) url"

definition drawn_layers :: "string \<Rightarrow> string list" where
  "drawn_layers origin = map (\<lambda>l. str_of (jget (object_of l) ''source-layer''))
     (filter (\<lambda>l. jget (object_of l) ''source-layer'' \<noteq> JNull) (list_of (jget (openmaptiles_style origin) ''layers'')))"

definition offered_layers :: "settings \<Rightarrow> string \<Rightarrow> string list" where
  "offered_layers st origin = map (\<lambda>l. str_of (jget (object_of l) ''id'')) (list_of (jget (location_tilejson st origin) ''vector_layers''))"

lemma fill_other: "c \<noteq> CHR ''{'' \<Longrightarrow> fill_template arg (c # cs) = c # fill_template arg cs"
proof (cases cs)
  case (Cons k ds)
  then show "c \<noteq> CHR ''{'' \<Longrightarrow> ?thesis" by (cases ds) simp_all
qed simp

lemma fill_arg: "fill_template arg (CHR ''{'' # k # CHR ''}'' # rest) = arg k @ fill_template arg rest"
  by simp

declare fill_template.simps(2) [simp del]

lemma fill_plain: "CHR ''{'' \<notin> set s \<Longrightarrow> fill_template arg (s @ t) = s @ fill_template arg t"
  by (induction s) (auto simp: fill_other)

lemma style_parts:
  "style_source origin = origin @ ''/locations/tiles.json''"
  "set (drawn_layers origin) \<subseteq> set vector_layers"
  "offered_layers st origin = vector_layers"
  by (simp_all add: style_source_def openmaptiles_style_def jget_def drawn_layers_def style_layers_def style_layer_def
      vector_layers_def offered_layers_def location_tilejson_def)

text \<open>What the map is told to fetch is what the dashboard serves. For an origin that is not empty and does not
  end in a slash, and has no brace, the style's source address leads to the tile description; the
  template of the tiles, filled in with any zoom, column and row from zero on, leads to the view of exactly that tile; and
  the style draws only layers that the tile description offers.\<close>

theorem map_addresses_resolve:
  assumes "origin \<noteq> []" and "last origin \<noteq> CHR ''/''" and "CHR ''{'' \<notin> set origin" and "0 \<le> z" and "0 \<le> x" and "0 \<le> y"
  shows "resolve (path_after origin (style_source origin)) = Some (View LocationTilejson)
     \<and> resolve (path_after origin (fill_template (tile_arg z x y) (tiles_template st origin))) = Some (View (LocationTile z x y))
     \<and> set (drawn_layers origin) \<subseteq> set (offered_layers st origin)"
proof (intro conjI)
  have "resolve (reverse (View LocationTilejson)) = Some (View LocationTilejson)" by code_simp
  then show "resolve (path_after origin (style_source origin)) = Some (View LocationTilejson)"
    by (simp add: style_parts path_after_def reverse_def)
  show "set (drawn_layers origin) \<subseteq> set (offered_layers st origin)" using style_parts by simp
  have "rstrip_slash (origin @ ''/'') = origin"
    using assms(1,2) by (cases origin rule: rev_cases) (simp_all add: rstrip_slash_def)
  then have "tiles_template st origin = origin @ ''/locations/tiles/{z}/{x}/{y}.pbf''"
    by (simp add: tiles_template_def location_tilejson_def jget_def)
  then have "path_after origin (fill_template (tile_arg z x y) (tiles_template st origin)) = reverse (View (LocationTile z x y))"
    using assms(3) by (simp add: fill_plain fill_other fill_arg path_after_def tile_arg_def reverse_def)
  moreover have "resolve (reverse (View (LocationTile z x y))) = Some (View (LocationTile z x y))"
    by (rule resolve_reverse) (use assms(4-6) in simp)
  ultimately show "resolve (path_after origin (fill_template (tile_arg z x y) (tiles_template st origin))) =
      Some (View (LocationTile z x y))" by simp
qed

theorem map_addresses_resolve_witness:
  "resolve (path_after ''https://x'' (fill_template (tile_arg 3 2 1) (tiles_template default_settings ''https://x''))) =
     Some (View (LocationTile 3 2 1))"
  using map_addresses_resolve [of "''https://x''" 3 2 1 default_settings] by simp

end
