(* ===== verification/Migrations.thy ===== *)
theory Migrations
  imports Alerts Playlists Qualifications Media
begin

section \<open>Data migrations\<close>

text \<open>
  The functions that the migrations run on existing data, on the columns of the tables as they are
  now. The changes of the schema itself are Django's.
\<close>

subsection \<open>Groups of rows\<close>

text \<open>
  A migration that works group by group: \<open>work\<close> gets the members of a group and changes them, and
  the groups are those of the state at the start.
\<close>

definition each_group ::
  "('r \<Rightarrow> bool) \<Rightarrow> ('r \<Rightarrow> 'k) \<Rightarrow> ('r list \<Rightarrow> 'r list \<Rightarrow> 'r list) \<Rightarrow> 'r list \<Rightarrow> 'r list" where
  "each_group member key work rows =
     fold (\<lambda>k rs. work (filter (\<lambda>r. member r \<and> key r = k) rs) rs) (remdups (map key (filter member rows))) rows"

subsection \<open>0007: superseded playlists\<close>

definition playlist_window :: "playlist \<Rightarrow> string \<times> time \<times> time" where
  "playlist_window p = (pl_name p, pl_starts_at p, pl_ends_at p)"

definition cancel_superseded_playlist_versions :: "db \<Rightarrow> db" where
  "cancel_superseded_playlist_versions s =
     s\<lparr>playlists := each_group (\<lambda>p. pl_status p = Published) playlist_window
        (\<lambda>versions rows. case sort_key (\<lambda>p. - pl_version p) versions of
           [] \<Rightarrow> rows
         | replacement # rest \<Rightarrow>
             fold (\<lambda>p. update_where (\<lambda>x. pl_id x = pl_id p)
                (\<lambda>x. x\<lparr>pl_status := Cancelled, pl_superseded_by := Some (pl_id replacement)\<rparr>)) rest rows)
        (playlists s)\<rparr>"

subsection \<open>0008: interrupted media runs\<close>

text \<open>The random tokens are given by the asset.\<close>

definition mark_incomplete_processing_for_recovery :: "time \<Rightarrow> (id \<Rightarrow> int) \<Rightarrow> db \<Rightarrow> db" where
  "mark_incomplete_processing_for_recovery now token s =
     s\<lparr>media_assets := update_where (\<lambda>a. ma_status a = Processing)
        (\<lambda>a. a\<lparr>ma_processing_attempts := 1, ma_processing_token := Some (token (ma_id a)),
               ma_processing_started_at := Some now, ma_processing_lease_expires_at := Some (now + hours 1)\<rparr>)
        (media_assets s)\<rparr>"

subsection \<open>0009: marketing users\<close>

text \<open>All sessions are deleted too. They are the framework's table; their number is recorded.\<close>

definition revoke_marketing_admin_access :: "time \<Rightarrow> int \<Rightarrow> db \<Rightarrow> db" where
  "revoke_marketing_admin_access now session_count s =
     (let affected = length (filter (\<lambda>u. us_role u = Marketing \<and> (us_is_staff u \<or> us_is_superuser u)) (users s)) in
      audit now None ''user.marketing_admin_access.revoked'' ''signage.user'' ''data-migration''
        [(''account_count'', JInt (int affected)), (''dashboard_sessions_revoked'', JInt session_count)]
        (s\<lparr>users := update_where (\<lambda>u. us_role u = Marketing)
            (\<lambda>u. u\<lparr>us_is_staff := False, us_is_superuser := False\<rparr>) (users s)\<rparr>))"

subsection \<open>0010, 0011 and 0013: hardware approvals\<close>

definition withdrawn :: "hardware_qualification \<Rightarrow> hardware_qualification" where
  "withdrawn q = q\<lparr>hq_approved_for_pilot := False, hq_approved_at := None\<rparr>"

definition invalidate_legacy_hardware_approvals :: "db \<Rightarrow> db" where
  "invalidate_legacy_hardware_approvals s =
     s\<lparr>qualifications := update_where hq_approved_for_pilot withdrawn (qualifications s)\<rparr>"

definition rollback_compatible_columns :: "(string \<times> string) list" where
  "rollback_compatible_columns =
     [(''legacy_boot_on_vehicle_power_passed'', ''boot_on_power_passed''),
      (''legacy_external_power_loss_path_passed'', ''power_loss_path_passed'')]"

text \<open>The columns of the table before and after; all names are checked before any is changed.\<close>

definition restore_rollback_compatible_hardware_columns :: "string list \<Rightarrow> string list result" where
  "restore_rollback_compatible_hardware_columns columns =
     bind_result (map_result (\<lambda>(current, rollback).
         if current \<in> set columns \<and> rollback \<in> set columns then Inl (ServerError ''both exist'')
         else if current \<notin> set columns \<and> rollback \<notin> set columns then Inl (ServerError ''neither exists'')
         else Inr (if current \<in> set columns then [(current, rollback)] else [])) rollback_compatible_columns) (\<lambda>renames.
     Inr (fold (\<lambda>(current, rollback). map (\<lambda>c. if c = current then rollback else c)) (concat renames) columns))"

definition invalidate_non_battery_hardware_approvals :: "db \<Rightarrow> db" where
  "invalidate_non_battery_hardware_approvals s =
     s\<lparr>qualifications := update_where
        (\<lambda>q. hq_approved_for_pilot q \<and> \<not> list_all (hq_recorded_passes q) recorded_pass_fields) withdrawn (qualifications s)\<rparr>"

definition invalidate_unmeasured_hardware_approvals :: "time \<Rightarrow> db \<Rightarrow> db" where
  "invalidate_unmeasured_hardware_approvals now s =
     (let invalid = (\<lambda>q. hq_approved_for_pilot q \<and> \<not> diagonal_qualified (hq_display_diagonal q));
          marked = update_where (\<lambda>q. invalid q \<and> hq_approved_at q = None) (\<lambda>q. q\<lparr>hq_approved_at := Some now\<rparr>) (qualifications s)
      in s\<lparr>qualifications := update_where invalid (\<lambda>q. q\<lparr>hq_approved_for_pilot := False\<rparr>) marked\<rparr>)"

subsection \<open>0012: duplicate open alerts\<close>

definition first_alert :: "alert list \<Rightarrow> id" where
  "first_alert found = Min (al_id ` set found)"

definition acknowledge_duplicates :: "time \<Rightarrow> alert list \<Rightarrow> alert list \<Rightarrow> alert list" where
  "acknowledge_duplicates now found rows =
     (let first = first_alert found;
          duplicates = filter (\<lambda>i. i \<noteq> first) (map al_id found)
      in if duplicates = [] then rows
         else let promoted = (case order_first al_created_at (filter (\<lambda>a. al_severity a = Critical) found) of
                None \<Rightarrow> rows
              | Some critical \<Rightarrow>
                  if al_id critical = first then rows
                  else update_where (\<lambda>a. al_id a = first)
                         (\<lambda>a. a\<lparr>al_severity := Critical, al_message := al_message critical\<rparr>) rows)
              in update_where (\<lambda>a. al_id a \<in> set duplicates) (\<lambda>a. a\<lparr>al_acknowledged_at := Some now\<rparr>) promoted)"

definition acknowledge_duplicate_open_alerts :: "time \<Rightarrow> db \<Rightarrow> db" where
  "acknowledge_duplicate_open_alerts now s =
     s\<lparr>alerts := each_group unresolved (\<lambda>a. (al_device a, al_code a)) (acknowledge_duplicates now) (alerts s)\<rparr>"

subsection \<open>0017: the time an image is shown\<close>

definition set_image_duration :: "int \<Rightarrow> db \<Rightarrow> db" where
  "set_image_duration ms s =
     s\<lparr>media_assets := update_where (\<lambda>a. ma_kind a = Image) (\<lambda>a. a\<lparr>ma_duration_ms := ms\<rparr>) (media_assets s)\<rparr>"

definition set_image_duration_to_15_seconds :: "db \<Rightarrow> db" where
  "set_image_duration_to_15_seconds s = set_image_duration 15000 s"

definition restore_image_duration_to_10_seconds :: "db \<Rightarrow> db" where
  "restore_image_duration_to_10_seconds s = set_image_duration 10000 s"

subsection \<open>Work group by group\<close>

text \<open>When the work on a group changes only its rows and no key, one pass over the table does the same.\<close>

lemma each_group_map:
  fixes member :: "'r \<Rightarrow> bool" and key :: "'r \<Rightarrow> 'k"
  assumes work: "\<And>k rs. ids_of rs = ids_of rows \<Longrightarrow> work (filter (\<lambda>r. member r \<and> key r = k) rs) rs =
       map (\<lambda>r. if member r \<and> key r = k then f (filter (\<lambda>r. member r \<and> key r = k) rs) r else r) rs"
    and ids: "\<And>k rs. ids_of rs = ids_of rows \<Longrightarrow>
       ids_of (map (\<lambda>r. if member r \<and> key r = k then f (filter (\<lambda>r. member r \<and> key r = k) rs) r else r) rs) = ids_of rows"
    and key: "\<And>g r. key (f g r) = key r"
  shows "each_group member key work rows =
    map (\<lambda>r. if member r then f (filter (\<lambda>x. member x \<and> key x = key r) rows) r else r) rows"
proof -
  let ?grp = "\<lambda>k rs. filter (\<lambda>r. member r \<and> key r = k) rs"
  let ?step = "\<lambda>k rs. map (\<lambda>r. if member r \<and> key r = k then f (?grp k rs) r else r) rs"
  have other: "?grp j (?step k rs) = ?grp j rs" if "j \<noteq> k" for j k rs
  proof -
    have "?grp j (map (\<lambda>r. if member r \<and> key r = k then f g r else r) xs) = ?grp j xs" for g xs
      using that key by (induction xs) auto
    then show ?thesis by blast
  qed
  have "fold (\<lambda>k rs. work (?grp k rs) rs) ks rs =
      map (\<lambda>r. if member r \<and> key r \<in> set ks then f (?grp (key r) rs) r else r) rs"
    if "distinct ks" "ids_of rs = ids_of rows" for ks rs
    using that
  proof (induction ks arbitrary: rs)
    case (Cons k ks)
    have step: "work (?grp k rs) rs = ?step k rs" using work Cons.prems(2) by simp
    have "fold (\<lambda>k rs. work (?grp k rs) rs) (k # ks) rs
        = map (\<lambda>r. if member r \<and> key r \<in> set ks then f (?grp (key r) (?step k rs)) r else r) (?step k rs)"
      using Cons.IH [of "?step k rs"] Cons.prems ids by (simp add: step)
    also have "\<dots> = map (\<lambda>r. if member r \<and> key r \<in> set (k # ks) then f (?grp (key r) rs) r else r) rs"
    proof -
      have "(if member x \<and> key x \<in> set ks then f (?grp (key x) (?step k rs)) x else x)
          = (if member r \<and> key r \<in> set (k # ks) then f (?grp (key r) rs) r else r)"
        if "x = (if member r \<and> key r = k then f (?grp k rs) r else r)" for x r
        using that key [of "?grp k rs" r] other [of "key r" k rs] Cons.prems(1) by auto
      then show ?thesis by simp
    qed
    finally show ?case .
  qed simp
  from this [of "remdups (map key (filter member rows))" rows]
  show ?thesis unfolding each_group_def by (auto intro: map_cong)
qed

lemma row_in_group:
  assumes "distinct (map key rs)" and "x \<in> set (filter P rs)" and "r \<in> set rs" and "key r = key x"
  shows "P r" and "r = x"
proof -
  have "x \<in> set rs" "P x" using assms(2) by auto
  then have "r = x" using assms(1,3,4) by (auto simp: distinct_map dest: inj_onD)
  then show "r = x" "P r" using \<open>P x\<close> by auto
qed

subsection \<open>Published windows become unique\<close>

definition cancelled_for :: "playlist \<Rightarrow> playlist \<Rightarrow> playlist" where
  "cancelled_for h x = x\<lparr>pl_status := Cancelled, pl_superseded_by := Some (pl_id h)\<rparr>"

definition superseded_row :: "playlist list \<Rightarrow> playlist \<Rightarrow> playlist" where
  "superseded_row versions r = (case sort_key (\<lambda>p. - pl_version p) versions of
     [] \<Rightarrow> r | h # rest \<Rightarrow> if pl_id r \<in> pl_id ` set rest then cancelled_for h r else r)"

lemma cancelled_for_simps [simp]:
  "pl_id (cancelled_for h x) = pl_id x" "playlist_window (cancelled_for h x) = playlist_window x"
  "pl_status (cancelled_for h x) = Cancelled" "cancelled_for h (cancelled_for h x) = cancelled_for h x"
  by (simp_all add: cancelled_for_def playlist_window_def)

lemma superseded_row_simps [simp]:
  "pl_id (superseded_row g r) = pl_id r" "playlist_window (superseded_row g r) = playlist_window r"
  by (simp_all add: superseded_row_def split: list.split)

lemma cancel_all_map:
  "fold (\<lambda>p. update_where (\<lambda>x. pl_id x = pl_id p) (cancelled_for h)) ps rows =
     map (\<lambda>x. if pl_id x \<in> pl_id ` set ps then cancelled_for h x else x) rows"
  by (induction ps arbitrary: rows) (auto simp: update_where_def)

lemma cancel_superseded_map:
  assumes "distinct (map pl_id (playlists s))"
  shows "playlists (cancel_superseded_playlist_versions s) = map (\<lambda>r. if pl_status r = Published
     then superseded_row (filter (\<lambda>x. pl_status x = Published \<and> playlist_window x = playlist_window r) (playlists s)) r else r)
     (playlists s)"
proof -
  let ?work = "\<lambda>versions rows. case sort_key (\<lambda>p. - pl_version p) versions of [] \<Rightarrow> rows
       | h # rest \<Rightarrow> fold (\<lambda>p. update_where (\<lambda>x. pl_id x = pl_id p) (cancelled_for h)) rest rows"
  have work: "?work (filter (\<lambda>r. pl_status r = Published \<and> playlist_window r = k) rs) rs =
      map (\<lambda>r. if pl_status r = Published \<and> playlist_window r = k
         then superseded_row (filter (\<lambda>r. pl_status r = Published \<and> playlist_window r = k) rs) r else r) rs"
    if "map pl_id rs = map pl_id (playlists s)" for k rs
  proof (cases "sort_key (\<lambda>p. - pl_version p) (filter (\<lambda>r. pl_status r = Published \<and> playlist_window r = k) rs)")
    case (Cons h rest)
    let ?g = "filter (\<lambda>r. pl_status r = Published \<and> playlist_window r = k) rs"
    have d: "distinct (map pl_id rs)" using that assms by simp
    have "set (sort_key (\<lambda>p. - pl_version p) ?g) = set ?g" by simp
    then have sub: "set rest \<subseteq> set ?g" using Cons by auto
    have mem: "pl_status r = Published \<and> playlist_window r = k" if r: "r \<in> set rs" "pl_id r \<in> pl_id ` set rest" for r
    proof -
      obtain x where "x \<in> set ?g" "pl_id r = pl_id x" using r(2) sub by blast
      then show ?thesis using row_in_group(1) [OF d _ r(1)] by blast
    qed
    have "?work ?g rs = map (\<lambda>x. if pl_id x \<in> pl_id ` set rest then cancelled_for h x else x) rs"
      by (simp add: Cons cancel_all_map)
    also have "\<dots> = map (\<lambda>r. if pl_status r = Published \<and> playlist_window r = k then superseded_row ?g r else r) rs"
      using mem by (auto simp: superseded_row_def Cons intro!: map_cong)
    finally show ?thesis .
  next
    case Nil
    then have g: "filter (\<lambda>r. pl_status r = Published \<and> playlist_window r = k) rs = []" by (metis set_empty set_sort)
    show ?thesis unfolding g by (auto simp: superseded_row_def intro!: map_idI [symmetric])
  qed
  have "playlists (cancel_superseded_playlist_versions s)
      = each_group (\<lambda>p. pl_status p = Published) playlist_window ?work (playlists s)"
    by (simp add: cancel_superseded_playlist_versions_def cancelled_for_def [abs_def] cong: list.case_cong)
  also have "\<dots> = map (\<lambda>r. if pl_status r = Published
     then superseded_row (filter (\<lambda>x. pl_status x = Published \<and> playlist_window x = playlist_window r) (playlists s)) r else r)
     (playlists s)"
    by (rule each_group_map [where ids_of = "map pl_id"], rule work) (auto simp: comp_def if_distrib [of pl_id] cong: if_cong)
  finally show ?thesis .
qed

text \<open>
  Of the published versions with the same name and window exactly the highest stays, the others are
  cancelled with a link to it, and every other playlist is as it was.
\<close>

theorem cancel_superseded_effect:
  assumes "distinct (map pl_id (playlists s))" and "p \<in> set (playlists s)"
  defines "t \<equiv> cancel_superseded_playlist_versions s"
  shows "if pl_status p \<noteq> Published then p \<in> set (playlists t)
     else \<exists>h\<in>set (playlists t). pl_status h = Published \<and> playlist_window h = playlist_window p \<and> pl_version p \<le> pl_version h
       \<and> (h = p \<or> cancelled_for h p \<in> set (playlists t))
       \<and> (\<forall>q\<in>set (playlists t). pl_status q = Published \<and> playlist_window q = playlist_window p \<longrightarrow> q = h)"
proof (cases "pl_status p = Published")
  case False
  then show ?thesis using assms(2) unfolding t_def cancel_superseded_map [OF assms(1)] by force
next
  case pub: True
  define g where "g = filter (\<lambda>x. pl_status x = Published \<and> playlist_window x = playlist_window p) (playlists s)"
  have pg: "p \<in> set g" using assms(2) pub by (simp add: g_def)
  then obtain h rest where sorted: "sort_key (\<lambda>p. - pl_version p) g = h # rest"
    by (metis empty_iff empty_set list.exhaust set_sort)
  have all: "set g = insert h (set rest)" using sorted by (metis list.simps(15) set_sort)
  have d: "distinct (map pl_id (h # rest))"
    using assms(1) unfolding sorted [symmetric] by (simp add: g_def distinct_map_filter distinct_map)
      (auto simp: inj_on_def)
  have max: "pl_version x \<le> pl_version h" if "x \<in> set g" for x
  proof -
    have "sorted (map (\<lambda>p. - pl_version p) (h # rest))" unfolding sorted [symmetric] by simp
    then show ?thesis using that all by auto
  qed
  have row: "superseded_row g x = (if x = h then h else cancelled_for h x)" if "x \<in> set g" for x
    using that all d by (auto simp: superseded_row_def sorted)
  have img: "y \<in> set (playlists t) \<longleftrightarrow> (\<exists>x\<in>set (playlists s). y = (if pl_status x = Published
      then superseded_row (filter (\<lambda>z. pl_status z = Published \<and> playlist_window z = playlist_window x) (playlists s)) x else x))" for y
    unfolding t_def cancel_superseded_map [OF assms(1)] by auto
  have same: "superseded_row (filter (\<lambda>z. pl_status z = Published \<and> playlist_window z = playlist_window x) (playlists s)) x = superseded_row g x"
    if "playlist_window x = playlist_window p" for x
    using that by (simp add: g_def)
  have hg: "h \<in> set g" using all by simp
  then have hs: "h \<in> set (playlists s)" "pl_status h = Published" "playlist_window h = playlist_window p" by (auto simp: g_def)
  have ht: "h \<in> set (playlists t)"
    unfolding img using hs same [of h] row [OF hg] by (intro bexI [of _ h]) auto
  have link: "h = p \<or> cancelled_for h p \<in> set (playlists t)"
    unfolding img using assms(2) pub same [of p] row [OF pg] by (cases "h = p") (auto intro!: bexI [of _ p])
  have only: "q = h" if q: "q \<in> set (playlists t)" "pl_status q = Published" "playlist_window q = playlist_window p" for q
  proof -
    obtain x where x: "x \<in> set (playlists s)" "q = (if pl_status x = Published
      then superseded_row (filter (\<lambda>z. pl_status z = Published \<and> playlist_window z = playlist_window x) (playlists s)) x else x)"
      using q(1) unfolding img by blast
    then have w: "playlist_window x = playlist_window p" "pl_status x = Published"
      using q(2,3) by (auto split: if_splits)
    then have "x \<in> set g" using x(1) by (simp add: g_def)
    then show ?thesis using x(2) w same [OF w(1)] row q(2) by (auto split: if_splits)
  qed
  have "\<exists>h\<in>set (playlists t). pl_status h = Published \<and> playlist_window h = playlist_window p \<and> pl_version p \<le> pl_version h
       \<and> (h = p \<or> cancelled_for h p \<in> set (playlists t))
       \<and> (\<forall>q\<in>set (playlists t). pl_status q = Published \<and> playlist_window q = playlist_window p \<longrightarrow> q = h)"
    by (rule bexI [OF _ ht]) (use hs(2,3) max [OF pg] link only in blast)
  then show ?thesis by (simp only: pub simp_thms if_True if_False)
qed

subsection \<open>Open alerts become unique\<close>

definition merged_alert :: "time \<Rightarrow> alert list \<Rightarrow> alert \<Rightarrow> alert" where
  "merged_alert now g r =
     (if \<forall>a\<in>set g. al_id a = first_alert g then r
      else if al_id r \<noteq> first_alert g then r\<lparr>al_acknowledged_at := Some now\<rparr>
      else (case order_first al_created_at (filter (\<lambda>a. al_severity a = Critical) g) of None \<Rightarrow> r
          | Some c \<Rightarrow> if al_id c = first_alert g then r else r\<lparr>al_severity := Critical, al_message := al_message c\<rparr>))"

lemma merged_alert_simps [simp]:
  "al_id (merged_alert now g r) = al_id r" "al_device (merged_alert now g r) = al_device r"
  "al_code (merged_alert now g r) = al_code r"
  by (simp_all add: merged_alert_def split: option.split)

lemma first_alert_in: "g \<noteq> [] \<Longrightarrow> \<exists>a\<in>set g. al_id a = first_alert g"
  using Min_in [of "al_id ` set g"] by (fastforce simp: first_alert_def)

lemma update_where_map: "update_where P f rows = map (\<lambda>r. if P r then f r else r) rows"
  by (simp add: update_where_def)

lemma acknowledge_duplicates_map:
  fixes rs :: "alert list"
  assumes d: "distinct (map al_id rs)" and g: "g = filter P rs"
  shows "acknowledge_duplicates now g rs = map (\<lambda>r. if P r then merged_alert now g r else r) rs"
proof (cases "\<forall>a\<in>set g. al_id a = first_alert g")
  case True
  then have "filter (\<lambda>i. i \<noteq> first_alert g) (map al_id g) = []" by (auto simp: filter_empty_conv)
  then show ?thesis using True by (auto simp: acknowledge_duplicates_def merged_alert_def Let_def intro!: map_idI [symmetric])
next
  case False
  then have "g \<noteq> []" by auto
  then obtain f where f: "f \<in> set g" "al_id f = first_alert g" using first_alert_in by blast
  have dup: "filter (\<lambda>i. i \<noteq> first_alert g) (map al_id g) \<noteq> []" using False by (auto simp: filter_empty_conv)
  have in_g: "P r" if "r \<in> set rs" "x \<in> set g" "al_id r = al_id x" for r x
    using row_in_group(1) [OF d, of x P r] that g by simp
  have gone: "al_id r \<in> set (filter (\<lambda>i. i \<noteq> first_alert g) (map al_id g)) \<longleftrightarrow> P r \<and> al_id r \<noteq> first_alert g"
    if "r \<in> set rs" for r
    using in_g [OF that] that g by auto
  have kept: "al_id r = first_alert g \<longleftrightarrow> P r \<and> al_id r = first_alert g" if "r \<in> set rs" for r
    using in_g [OF that f(1)] f(2) by auto
  have split: "(if P r \<and> al_id r \<noteq> first_alert g then (h r)\<lparr>al_acknowledged_at := Some now\<rparr> else h r)
      = (if P r then merged_alert now g r else r)"
    if "r \<in> set rs" and h: "\<And>r. h r = (if al_id r = first_alert g then k r else r)"
      and k: "k = (case order_first al_created_at (filter (\<lambda>a. al_severity a = Critical) g) of None \<Rightarrow> (\<lambda>r. r)
          | Some c \<Rightarrow> if al_id c = first_alert g then (\<lambda>r. r) else (\<lambda>r. r\<lparr>al_severity := Critical, al_message := al_message c\<rparr>))"
    for r :: alert and h k
    using False kept [OF that(1)] by (auto simp: merged_alert_def h k split: option.splits)
  define k :: "alert \<Rightarrow> alert" where "k = (case order_first al_created_at (filter (\<lambda>a. al_severity a = Critical) g) of None \<Rightarrow> (\<lambda>r. r)
          | Some c \<Rightarrow> if al_id c = first_alert g then (\<lambda>r. r) else (\<lambda>r. r\<lparr>al_severity := Critical, al_message := al_message c\<rparr>))"
  define h where "h r = (if al_id r = first_alert g then k r else r)" for r :: alert
  have hid: "al_id (h r) = al_id r" for r by (auto simp: h_def k_def split: option.splits)
  have "(case order_first al_created_at (filter (\<lambda>a. al_severity a = Critical) g) of None \<Rightarrow> rs
      | Some c \<Rightarrow> if al_id c = first_alert g then rs else update_where (\<lambda>a. al_id a = first_alert g)
           (\<lambda>a. a\<lparr>al_severity := Critical, al_message := al_message c\<rparr>) rs) = map h rs"
    by (auto simp: h_def k_def update_where_map intro!: map_idI [symmetric] map_cong split: option.split)
  then have "acknowledge_duplicates now g rs
      = map (\<lambda>r. if al_id r \<in> set (filter (\<lambda>i. i \<noteq> first_alert g) (map al_id g)) then r\<lparr>al_acknowledged_at := Some now\<rparr> else r) (map h rs)"
    using dup by (simp add: acknowledge_duplicates_def Let_def update_where_map)
  also have "\<dots> = map (\<lambda>r. if P r then merged_alert now g r else r) rs"
    unfolding map_map using gone split [OF _ h_def k_def] by (auto simp: hid intro!: map_cong)
  finally show ?thesis .
qed

lemma acknowledge_duplicate_open_alerts_map:
  assumes "distinct (map al_id (alerts s))"
  shows "alerts (acknowledge_duplicate_open_alerts now s) =
    map (\<lambda>r. if unresolved r then merged_alert now (open_alerts (al_device r) (al_code r) (alerts s)) r else r) (alerts s)"
proof -
  have same: "filter (\<lambda>x. unresolved x \<and> (al_device x, al_code x) = (d, c)) rows = open_alerts d c rows" for d c rows
    by (auto simp: open_alerts_def intro!: filter_cong)
  have "each_group unresolved (\<lambda>a. (al_device a, al_code a)) (acknowledge_duplicates now) (alerts s) =
    map (\<lambda>r. if unresolved r then merged_alert now
        (filter (\<lambda>x. unresolved x \<and> (al_device x, al_code x) = (al_device r, al_code r)) (alerts s)) r else r) (alerts s)"
  proof (rule each_group_map [where ids_of = "map al_id"])
    fix k and rs :: "alert list" assume "map al_id rs = map al_id (alerts s)"
    then have "distinct (map al_id rs)" using assms by simp
    then show "acknowledge_duplicates now (filter (\<lambda>r. unresolved r \<and> (al_device r, al_code r) = k) rs) rs =
        map (\<lambda>r. if unresolved r \<and> (al_device r, al_code r) = k
          then merged_alert now (filter (\<lambda>r. unresolved r \<and> (al_device r, al_code r) = k) rs) r else r) rs"
      by (rule acknowledge_duplicates_map) simp
  qed (auto simp: comp_def if_distrib [of al_id] cong: if_cong)
  then show ?thesis unfolding same by (simp add: acknowledge_duplicate_open_alerts_def)
qed

lemma merged_open:
  assumes "r \<in> set g" and "unresolved r"
  shows "unresolved (merged_alert now g r) \<longleftrightarrow> al_id r = first_alert g"
  using assms by (auto simp: merged_alert_def unresolved_def split: option.split)

lemma merged_severity:
  assumes "distinct (map al_id g)" and "r \<in> set g" and "al_id r = first_alert g"
  shows "al_severity (merged_alert now g r) = Critical \<longleftrightarrow> (\<exists>a\<in>set g. al_severity a = Critical)"
proof -
  have only: "a = r" if "a \<in> set g" "al_id a = first_alert g" for a
  proof -
    have "inj_on al_id (set g)" using assms(1) by (simp only: distinct_map)
    moreover have "al_id a = al_id r" by (simp only: that(2) assms(3))
    ultimately show ?thesis by (rule inj_onD) (fact that(1), fact assms(2))
  qed
  show ?thesis
  proof (cases "\<forall>a\<in>set g. al_id a = first_alert g")
    case True
    then have "merged_alert now g r = r" by (simp add: merged_alert_def)
    moreover have "a = r" if "a \<in> set g" for a using only [OF that] True that by blast
    ultimately show ?thesis using assms(2) by metis
  next
    case False
    show ?thesis
    proof (cases "order_first al_created_at (filter (\<lambda>a. al_severity a = Critical) g)")
      case None
      then have "filter (\<lambda>a. al_severity a = Critical) g = []" by simp
      then show ?thesis using None False assms(2,3) by (auto simp: merged_alert_def filter_empty_conv)
    next
      case (Some c)
      then have c: "c \<in> set g" "al_severity c = Critical" using order_first_SomeD(1) [OF Some] by auto
      then show ?thesis using Some False assms(3) only [OF c(1)] by (auto simp: merged_alert_def)
    qed
  qed
qed

lemma merged_alerts_group:
  assumes "distinct (map al_id (alerts s))"
  shows "x \<in> set (open_alerts d c (alerts (acknowledge_duplicate_open_alerts now s))) \<longleftrightarrow>
     (\<exists>r\<in>set (open_alerts d c (alerts s)). al_id r = first_alert (open_alerts d c (alerts s))
        \<and> x = merged_alert now (open_alerts d c (alerts s)) r)" (is "?l \<longleftrightarrow> ?r")
proof
  assume ?l
  then have x: "x \<in> set (alerts (acknowledge_duplicate_open_alerts now s))" "unresolved x" "al_device x = d" "al_code x = c"
    by (auto simp: open_alerts_def)
  then obtain r where r: "r \<in> set (alerts s)" "x = (if unresolved r then merged_alert now (open_alerts (al_device r) (al_code r) (alerts s)) r else r)"
    unfolding acknowledge_duplicate_open_alerts_map [OF assms] by auto
  then have "unresolved r" using x(2) by (auto split: if_splits)
  then have "al_device r = d" "al_code r = c" using r(2) x(3,4) by auto
  then have "r \<in> set (open_alerts d c (alerts s))" using r(1) \<open>unresolved r\<close> by (simp add: open_alerts_def)
  then show ?r using merged_open [of r "open_alerts d c (alerts s)"] r(2) x \<open>unresolved r\<close> \<open>al_device r = d\<close> \<open>al_code r = c\<close> by auto
next
  assume ?r
  then obtain r where r: "r \<in> set (open_alerts d c (alerts s))" "al_id r = first_alert (open_alerts d c (alerts s))"
    "x = merged_alert now (open_alerts d c (alerts s)) r" by blast
  then have o: "r \<in> set (alerts s)" "unresolved r" "al_device r = d" "al_code r = c" by (auto simp: open_alerts_def)
  have "x = (if unresolved r then merged_alert now (open_alerts (al_device r) (al_code r) (alerts s)) r else r)"
    using o r(3) by simp
  then have "x \<in> set (alerts (acknowledge_duplicate_open_alerts now s))"
    unfolding acknowledge_duplicate_open_alerts_map [OF assms] using o(1) by (auto intro: image_eqI [of _ _ r])
  then show ?l using merged_open [OF r(1) o(2)] r(2,3) o(3,4) by (simp add: open_alerts_def)
qed

text \<open>C21: The migration that introduces the unique open alert establishes it and loses nothing. Afterwards
  no two open alerts have the same device and code, which is the invariant every later operation
  on alerts keeps; no alert is deleted or added, those already acknowledged are as they were, a
  device and code has an open alert exactly if it had one, and the one that stays is critical
  exactly if one of them was.\<close>

theorem alerts_migration_establishes:
  assumes "distinct (map al_id (alerts s))"
  shows "unique_open (alerts (acknowledge_duplicate_open_alerts now s))
     \<and> map al_id (alerts (acknowledge_duplicate_open_alerts now s)) = map al_id (alerts s)
     \<and> (\<forall>a\<in>set (alerts s). \<not> unresolved a \<longrightarrow> a \<in> set (alerts (acknowledge_duplicate_open_alerts now s)))
     \<and> (\<forall>d c. (open_alerts d c (alerts (acknowledge_duplicate_open_alerts now s)) = [] \<longleftrightarrow> open_alerts d c (alerts s) = [])
          \<and> ((\<exists>a\<in>set (open_alerts d c (alerts (acknowledge_duplicate_open_alerts now s))). al_severity a = Critical)
             \<longleftrightarrow> (\<exists>a\<in>set (open_alerts d c (alerts s)). al_severity a = Critical)))"
proof -
  let ?t = "alerts (acknowledge_duplicate_open_alerts now s)"
  have ids: "map al_id ?t = map al_id (alerts s)"
    unfolding acknowledge_duplicate_open_alerts_map [OF assms] by (auto simp: comp_def if_distrib [of al_id] cong: if_cong)
  have first: "\<exists>r\<in>set (open_alerts d c (alerts s)). al_id r = first_alert (open_alerts d c (alerts s))"
    if "open_alerts d c (alerts s) \<noteq> []" for d c using first_alert_in [OF that] .
  have dg: "distinct (map al_id (open_alerts d c (alerts s)))" for d c
    using assms by (simp add: open_alerts_def distinct_map_filter)
  have none: "open_alerts d c ?t = [] \<longleftrightarrow> open_alerts d c (alerts s) = []" for d c
  proof -
    have "set (open_alerts d c ?t) = {} \<longleftrightarrow> set (open_alerts d c (alerts s)) = {}"
      using merged_alerts_group [OF assms, of _ d c now] first [of d c] by fastforce
    then show ?thesis by simp
  qed
  have sev: "(\<exists>a\<in>set (open_alerts d c ?t). al_severity a = Critical) \<longleftrightarrow> (\<exists>a\<in>set (open_alerts d c (alerts s)). al_severity a = Critical)" for d c
    using merged_alerts_group [OF assms, of _ d c now] merged_severity [OF dg] first [of d c] by (metis empty_iff empty_set)
  have same: "x = y" if "x \<in> set ?t" "y \<in> set ?t" "unresolved x" "unresolved y" "al_device x = al_device y" "al_code x = al_code y" for x y
  proof -
    have "x \<in> set (open_alerts (al_device x) (al_code x) ?t)" "y \<in> set (open_alerts (al_device x) (al_code x) ?t)"
      using that by (simp_all add: open_alerts_def)
    then have "al_id x = al_id y" using merged_alerts_group [OF assms] by (metis merged_alert_simps(1))
    then show ?thesis using that(1,2) assms unfolding ids [symmetric] by (auto simp: distinct_map dest: inj_onD)
  qed
  have "unique_open ?t"
    unfolding unique_open_def ids using assms same
    by (auto simp: distinct_map inj_on_def ids [symmetric] dest: distinct_filter)
  moreover have "a \<in> set ?t" if "a \<in> set (alerts s)" "\<not> unresolved a" for a
    unfolding acknowledge_duplicate_open_alerts_map [OF assms] using that by force
  ultimately show ?thesis using ids none sev by blast
qed

definition doubled_db :: db where
  "doubled_db = empty_db\<lparr>alerts := [example_alert 1 None ''x'' Warning, example_alert 2 None ''x'' Critical,
     example_alert 3 (Some 7) ''x'' Warning]\<rparr>"

theorem alerts_migration_establishes_witness:
  "unique_open (alerts (acknowledge_duplicate_open_alerts 9 doubled_db)) \<and> \<not> unique_open (alerts doubled_db)"
proof -
  have "distinct (map al_id (alerts doubled_db))" "\<not> unique_open (alerts doubled_db)" by code_simp+
  then show ?thesis using alerts_migration_establishes [of doubled_db 9] by blast
qed

subsection \<open>Approvals and accounts after the migrations\<close>

text \<open>No approval survives without the evidence the policies ask for.\<close>

lemma withdrawn_simps [simp]: "hq_approved_for_pilot (withdrawn q) = False" "hq_approved_at (withdrawn q) = None"
  by (simp_all add: withdrawn_def)

lemma measured_approvals:
  assumes "q \<in> set (qualifications (invalidate_unmeasured_hardware_approvals now s))" and "hq_approved_for_pilot q"
  shows "q \<in> set (qualifications s) \<and> diagonal_qualified (hq_display_diagonal q)"
proof -
  let ?bad = "\<lambda>q :: hardware_qualification. hq_approved_for_pilot q \<and> \<not> diagonal_qualified (hq_display_diagonal q)"
  define f where "f = (\<lambda>q. if ?bad q \<and> hq_approved_at q = None then q\<lparr>hq_approved_at := Some now\<rparr> else q)"
  define h where "h = (\<lambda>q. if ?bad q then q\<lparr>hq_approved_for_pilot := False\<rparr> else q)"
  have "qualifications (invalidate_unmeasured_hardware_approvals now s) = map h (map f (qualifications s))"
    by (simp add: invalidate_unmeasured_hardware_approvals_def update_where_map Let_def f_def h_def)
  then obtain x where x: "x \<in> set (qualifications s)" "q = h (f x)" using assms(1) by auto
  have "\<not> hq_approved_for_pilot (h (f x))" if "?bad x"
    using that by (cases "hq_approved_at x") (simp_all add: f_def h_def)
  moreover have "h (f x) = x" if "\<not> ?bad x" using that unfolding f_def h_def by auto
  ultimately show ?thesis using x assms(2) by metis
qed

lemma battery_approvals:
  assumes "q \<in> set (qualifications (invalidate_non_battery_hardware_approvals s))" and "hq_approved_for_pilot q"
  shows "q \<in> set (qualifications s) \<and> list_all (hq_recorded_passes q) recorded_pass_fields"
proof -
  define h where "h = (\<lambda>q. if hq_approved_for_pilot q \<and> \<not> list_all (hq_recorded_passes q) recorded_pass_fields
     then withdrawn q else q)"
  have "qualifications (invalidate_non_battery_hardware_approvals s) = map h (qualifications s)"
    by (simp add: invalidate_non_battery_hardware_approvals_def update_where_map h_def)
  then obtain x where "x \<in> set (qualifications s)" "q = h x" using assms(1) by auto
  then show ?thesis using assms(2) by (cases "list_all (hq_recorded_passes x) recorded_pass_fields") (auto simp: h_def split: if_splits)
qed

lemma approvals_have_evidence:
  assumes "q \<in> set (qualifications (invalidate_unmeasured_hardware_approvals now
      (invalidate_non_battery_hardware_approvals s)))" and "hq_approved_for_pilot q"
  shows "diagonal_qualified (hq_display_diagonal q) \<and> list_all (hq_recorded_passes q) recorded_pass_fields"
  using measured_approvals [OF assms] battery_approvals assms(2) by blast

text \<open>A revocation for a missing measurement leaves a time of approval, which locks the evidence.\<close>

lemma unmeasured_revocation_marked:
  assumes "q \<in> set (qualifications s)" and "hq_approved_for_pilot q" and "\<not> diagonal_qualified (hq_display_diagonal q)"
  shows "\<exists>r\<in>set (qualifications (invalidate_unmeasured_hardware_approvals now s)).
     hq_id r = hq_id q \<and> \<not> hq_approved_for_pilot r \<and> hq_approved_at r \<noteq> None \<and> same_evidence q r"
proof -
  define f where "f = (\<lambda>q :: hardware_qualification. if hq_approved_for_pilot q \<and> \<not> diagonal_qualified (hq_display_diagonal q) \<and> hq_approved_at q = None
     then q\<lparr>hq_approved_at := Some now\<rparr> else q)"
  define h where "h = (\<lambda>q :: hardware_qualification. if hq_approved_for_pilot q \<and> \<not> diagonal_qualified (hq_display_diagonal q)
     then q\<lparr>hq_approved_for_pilot := False\<rparr> else q)"
  have "qualifications (invalidate_unmeasured_hardware_approvals now s) = map h (map f (qualifications s))"
    by (simp add: invalidate_unmeasured_hardware_approvals_def update_where_map Let_def f_def h_def)
  then have r: "h (f q) \<in> set (qualifications (invalidate_unmeasured_hardware_approvals now s))"
    using assms(1) by simp
  show ?thesis
    by (rule bexI [OF _ r]) (use assms(2,3) in \<open>simp add: f_def h_def same_evidence_def list_all_iff\<close>)
qed

lemma marketing_has_no_staff:
  "u \<in> set (users (revoke_marketing_admin_access now n s)) \<Longrightarrow> us_role u = Marketing \<Longrightarrow> \<not> us_is_staff u \<and> \<not> us_is_superuser u"
  by (auto simp: revoke_marketing_admin_access_def update_where_def Let_def split: if_splits)

text \<open>A run that was interrupted gets a lease, so that its recovery finds it.\<close>

lemma interrupted_runs_leased:
  "a \<in> set (media_assets (mark_incomplete_processing_for_recovery now token s)) \<Longrightarrow> ma_status a = Processing \<Longrightarrow>
     ma_processing_lease_expires_at a = Some (now + hours 1) \<and> ma_processing_token a \<noteq> None"
  by (auto simp: mark_incomplete_processing_for_recovery_def update_where_def split: if_splits)

text \<open>The columns: all names are right afterwards, or nothing is changed.\<close>

lemma restored_columns:
  assumes "restore_rollback_compatible_hardware_columns columns = Inr cs"
  shows "\<forall>(current, rollback) \<in> set rollback_compatible_columns. rollback \<in> set cs \<and> current \<notin> set cs"
  using assms
  by (cases "''legacy_boot_on_vehicle_power_passed'' \<in> set columns"; cases "''boot_on_power_passed'' \<in> set columns";
      cases "''legacy_external_power_loss_path_passed'' \<in> set columns"; cases "''power_loss_path_passed'' \<in> set columns")
    (simp_all add: restore_rollback_compatible_hardware_columns_def rollback_compatible_columns_def, force+)

end
