(* ===== verification/Schema.thy ===== *)
theory Schema
  imports Migrations
begin

section \<open>Schema changes\<close>

text \<open>
  What a migration does to the recorded state of the models and to the physical columns of the tables,
  after the documented behaviour of the framework's operations. The operations themselves are in
  Schema_Migrations, the models the code declares in Schema_Models.
\<close>

subsection \<open>Fields and models\<close>

datatype field_class =
    BigAutoField | BooleanField | CharField | DateField | DateTimeField | DecimalField | EmailField | FileField
  | ForeignKey | JSONField | ManyToManyField | OneToOneField | PositiveBigIntegerField | PositiveIntegerField
  | PositiveSmallIntegerField | UUIDField

datatype model_name =
    PlatformSettingsModel | HardwareQualificationModel | LoginThrottleModel | ApiThrottleModel | UserModel | DriverModel
  | VehicleModel | PlaylistModel | MediaAssetModel | PlaylistItemModel | DeviceModel | DeviceAssignmentModel
  | EnrollmentCodeModel | EnrollmentChallengeModel | DeviceCredentialModel | DeviceManagementCredentialModel
  | DeviceCommandModel | DeviceAccessTokenModel | MediaDeletionModel | DeviceHeartbeatModel | DeviceLocationPointModel
  | PlaybackBatchModel | PlaybackEventModel | PlaybackCorrectionModel | DeviceOperationalEventModel | AlertModel
  | AuditEventModel

datatype option_name =
    Auto_created | Auto_now | Auto_now_add | Blank | Choices | Db_column | Decimal_places | Default | Editable | Help_text
  | Max_digits | Max_length | Null | On_delete | Primary_key | Related_name | Related_query_name | Serialize | To | Unique
  | Upload_to | Verbose_name

datatype setting =
    Flag bool | Num int | Txt string | Named string | To_model model_name | Pairs "(string \<times> string) list"

type_synonym field = "field_class \<times> (option_name \<times> setting) list"

datatype condition = Holds string setting | Conj "condition list" | Disj "condition list"

datatype table_constraint = UniqueOn "string list" "condition option" | Check condition

record model_state =
  ms_fields :: "(string \<times> field) list"
  ms_ordering :: "string list"
  ms_indexes :: "string list list"
  ms_constraints :: "(string \<times> table_constraint) list"

datatype operation =
    CreateModel model_name model_state
  | AddField model_name string field bool
  | AlterField model_name string field
  | RenameField model_name string string
  | AddIndex model_name "string list"
  | AddConstraint model_name "string \<times> table_constraint"
  | RemoveConstraint model_name string
  | RunPython model_name string
  | StateOnly operation

definition option_of :: "option_name \<Rightarrow> field \<Rightarrow> setting option" where
  "option_of k f = map_of (snd f) k"

definition without_default :: "field \<Rightarrow> field" where
  "without_default f = (fst f, filter (\<lambda>(k, v). k \<noteq> Default) (snd f))"

subsection \<open>One table\<close>

text \<open>
  The recorded state of a model and the physical columns of its table. An operation concerns one
  model; \<open>None\<close> is the table that does not exist yet, a failure is \<open>None\<close> on the outside.
\<close>

record table_state =
  ts_model :: model_state
  ts_columns :: "string list"

definition add_field :: "string \<Rightarrow> field \<Rightarrow> model_state \<Rightarrow> model_state option" where
  "add_field n f st = (if map_of (ms_fields st) n = None then Some (st\<lparr>ms_fields := ms_fields st @ [(n, f)]\<rparr>) else None)"

definition alter_field :: "string \<Rightarrow> string \<Rightarrow> field \<Rightarrow> model_state \<Rightarrow> model_state option" where
  "alter_field old new f st =
     (if map_of (ms_fields st) old \<noteq> None \<and> (old = new \<or> map_of (ms_fields st) new = None)
      then Some (st\<lparr>ms_fields := map (\<lambda>(k, v). if k = old then (new, f) else (k, v)) (ms_fields st)\<rparr>) else None)"

text \<open>An \<open>AddField\<close> without \<open>preserve_default\<close> uses its default for the existing rows only.\<close>

fun state_op :: "operation \<Rightarrow> model_state \<Rightarrow> model_state option" where
  "state_op (AddField m n f keep) st = add_field n (if keep then f else without_default f) st"
| "state_op (AlterField m n f) st = alter_field n n f st"
| "state_op (RenameField m old new) st = (case map_of (ms_fields st) old of None \<Rightarrow> None | Some f \<Rightarrow> alter_field old new f st)"
| "state_op (AddIndex m i) st = Some (st\<lparr>ms_indexes := ms_indexes st @ [i]\<rparr>)"
| "state_op (AddConstraint m c) st = (if map_of (ms_constraints st) (fst c) = None
     then Some (st\<lparr>ms_constraints := ms_constraints st @ [c]\<rparr>) else None)"
| "state_op (RemoveConstraint m n) st = (if map_of (ms_constraints st) n \<noteq> None
     then Some (st\<lparr>ms_constraints := filter (\<lambda>c. fst c \<noteq> n) (ms_constraints st)\<rparr>) else None)"
| "state_op op st = Some st"

text \<open>A relation is a column with the suffix \<open>_id\<close>, a many-to-many relation a table of its own.\<close>

definition columns_of :: "string \<Rightarrow> field \<Rightarrow> string list" where
  "columns_of n f = (if fst f = ManyToManyField then [] else
     [case option_of Db_column f of Some (Txt c) \<Rightarrow> c
      | _ \<Rightarrow> if fst f = ForeignKey \<or> fst f = OneToOneField then n @ ''_id'' else n])"

definition all_columns :: "model_state \<Rightarrow> string list" where
  "all_columns st = concat (map (\<lambda>(n, f). columns_of n f) (ms_fields st))"

text \<open>
  A new column must have a value in the rows that exist: null, the default, or the empty text of a
  blank text field. Without one the database refuses the change.
\<close>

definition fillable :: "field \<Rightarrow> bool" where
  "fillable f = (option_of Null f = Some (Flag True) \<or> option_of Default f \<noteq> None
     \<or> fst f = CharField \<and> option_of Blank f = Some (Flag True))"

definition add_columns :: "string list \<Rightarrow> string list \<Rightarrow> string list option" where
  "add_columns new cs = (if list_all (\<lambda>c. c \<notin> set cs) new then Some (cs @ new) else None)"

definition rename_columns :: "string list \<Rightarrow> string list \<Rightarrow> string list \<Rightarrow> string list option" where
  "rename_columns old new cs =
     (if old = new then Some cs
      else if list_all (\<lambda>c. c \<in> set cs) old \<and> list_all (\<lambda>c. c \<notin> set cs) new \<and> length old = length new
      then Some (map (\<lambda>c. case map_of (zip old new) c of None \<Rightarrow> c | Some d \<Rightarrow> d) cs) else None)"

text \<open>The operation on the columns, in the recorded state before it.\<close>

fun column_op :: "operation \<Rightarrow> model_state \<Rightarrow> string list \<Rightarrow> string list option" where
  "column_op (AddField m n f keep) st cs = (if fillable f then add_columns (columns_of n f) cs else None)"
| "column_op (AlterField m n f) st cs = (case map_of (ms_fields st) n of None \<Rightarrow> None
     | Some g \<Rightarrow> rename_columns (columns_of n g) (columns_of n f) cs)"
| "column_op (RenameField m old new) st cs = (case map_of (ms_fields st) old of None \<Rightarrow> None
     | Some g \<Rightarrow> rename_columns (columns_of old g) (columns_of new g) cs)"
| "column_op (RunPython m f) st cs =
     (if f = ''restore_rollback_compatible_hardware_columns''
      then (case restore_rollback_compatible_hardware_columns cs of Inl e \<Rightarrow> None | Inr cs' \<Rightarrow> Some cs')
      else Some cs)"
| "column_op op st cs = Some cs"

subsection \<open>All migrations on one table\<close>

fun model_of :: "operation \<Rightarrow> model_name" where
  "model_of (CreateModel m st) = m"
| "model_of (AddField m n f keep) = m"
| "model_of (AlterField m n f) = m"
| "model_of (RenameField m old new) = m"
| "model_of (AddIndex m i) = m"
| "model_of (AddConstraint m c) = m"
| "model_of (RemoveConstraint m n) = m"
| "model_of (RunPython m f) = m"
| "model_of (StateOnly op) = model_of op"

fun apply_op :: "operation \<Rightarrow> table_state option \<Rightarrow> table_state option option" where
  "apply_op (CreateModel m st) None = Some (Some \<lparr>ts_model = st, ts_columns = all_columns st\<rparr>)"
| "apply_op (CreateModel m st) (Some t) = None"
| "apply_op op None = None"
| "apply_op (StateOnly op) (Some t) = map_option (\<lambda>st. Some (t\<lparr>ts_model := st\<rparr>)) (state_op op (ts_model t))"
| "apply_op op (Some t) = (case (state_op op (ts_model t), column_op op (ts_model t) (ts_columns t)) of
       (Some st, Some cs) \<Rightarrow> Some (Some \<lparr>ts_model = st, ts_columns = cs\<rparr>) | _ \<Rightarrow> None)"

fun migrate :: "model_name \<Rightarrow> operation list \<Rightarrow> table_state option \<Rightarrow> table_state option option" where
  "migrate m [] t = Some t"
| "migrate m (op # ops) t =
     (if model_of op = m then (case apply_op op t of None \<Rightarrow> None | Some u \<Rightarrow> migrate m ops u) else migrate m ops t)"

subsection \<open>What the framework adds to a declared model\<close>

text \<open>
  A primary key is not serialized; a model without one gets a numbered \<open>id\<close>; an e-mail field has a
  length; a relation to \<open>self\<close> is one to the model.
\<close>

definition primary :: "field \<Rightarrow> bool" where
  "primary f = (option_of Primary_key f = Some (Flag True))"

definition auto_id :: "string \<times> field" where
  "auto_id = (''id'', (BigAutoField, [(Auto_created, Flag True), (Primary_key, Flag True), (Serialize, Flag False),
     (Verbose_name, Txt ''ID'')]))"

definition completed_field :: "model_name \<Rightarrow> field \<Rightarrow> field" where
  "completed_field m f = (fst f,
     (if primary f then [(Serialize, Flag False)] else [])
     @ (if fst f = EmailField \<and> option_of Max_length f = None then [(Max_length, Num 254)] else [])
     @ map (\<lambda>(k, v). (k, if k = To \<and> v = Txt ''self'' then To_model m else v)) (snd f))"

definition completed :: "model_name \<Rightarrow> model_state \<Rightarrow> model_state" where
  "completed m st = st\<lparr>ms_fields :=
     (if list_ex (\<lambda>(n, f). primary f) (ms_fields st) then [] else [auto_id])
     @ map (\<lambda>(n, f). (n, if (n, f) = auto_id then f else completed_field m f)) (ms_fields st)\<rparr>"

text \<open>The fields that \<open>AbstractUser\<close> gives to the users.\<close>

definition inherited_fields :: "model_name \<Rightarrow> string list" where
  "inherited_fields m = (if m = UserModel then [''password'', ''last_login'', ''is_superuser'', ''groups'', ''user_permissions'',
     ''first_name'', ''last_name'', ''is_staff'', ''is_active'', ''date_joined''] else [])"

subsection \<open>Agreement\<close>

definition same_map :: "('k \<times> 'v) list \<Rightarrow> ('k \<times> 'v) list \<Rightarrow> bool" where
  "same_map a b = (distinct (map fst a) \<and> length a = length b \<and> list_all (\<lambda>(k, v). map_of b k = Some v) a)"

definition same_field :: "field \<Rightarrow> field \<Rightarrow> bool" where
  "same_field f g = (fst f = fst g \<and> same_map (snd f) (snd g))"

definition model_agrees :: "model_name \<Rightarrow> model_state \<Rightarrow> model_state \<Rightarrow> bool" where
  "model_agrees m declared state =
     (let fs = filter (\<lambda>(n, f). n \<notin> set (inherited_fields m)) (ms_fields state) in
      distinct (map fst (ms_fields declared)) \<and> length (ms_fields declared) = length fs
      \<and> list_all (\<lambda>(n, f). case map_of fs n of None \<Rightarrow> False | Some g \<Rightarrow> same_field f g) (ms_fields declared)
      \<and> ms_ordering declared = ms_ordering state
      \<and> same_map (map (\<lambda>i. (i, ())) (ms_indexes declared)) (map (\<lambda>i. (i, ())) (ms_indexes state))
      \<and> same_map (ms_constraints declared) (ms_constraints state))"

definition columns_agree :: "model_state \<Rightarrow> string list \<Rightarrow> bool" where
  "columns_agree st cs = (distinct cs \<and> length cs = length (all_columns st) \<and> list_all (\<lambda>c. c \<in> set cs) (all_columns st))"

end
