(* ===== verification/Schema_Models.thy ===== *)
theory Schema_Models
  imports Schema
begin

section \<open>The declared models\<close>

text \<open>
  The fields and the \<open>Meta\<close> options of the classes of \<open>signage/models.py\<close>; \<open>choices\<close> are those of the
  enumeration named, constants are replaced by their values, and the target of a relation is the name of its model.
\<close>

definition time_stamped :: "(string \<times> field) list" where
  "time_stamped =
     [(''created_at'', (DateTimeField, [(Auto_now_add, Flag True)])), (''updated_at'', (DateTimeField, [(Auto_now, Flag True)]))]"

definition declared_platformsettings :: "model_state" where
  "declared_platformsettings =
     \<lparr>ms_fields =
       time_stamped @ [(''singleton_id'', (PositiveSmallIntegerField, [(Primary_key, Flag True), (Default, Num 1)])),
        (''playlist_max_entries'', (PositiveIntegerField, [(Default, Num 100)])),
        (''playlist_max_duration_seconds'', (PositiveIntegerField, [(Default, Num 1800)]))],
     ms_ordering = [], ms_indexes = [],
     ms_constraints = []\<rparr>"

definition declared_hardwarequalification :: "model_state" where
  "declared_hardwarequalification =
     \<lparr>ms_fields =
       time_stamped @ [(''model_name'', (CharField, [(Max_length, Num 160)])), (''firmware_version'',
          (CharField, [(Max_length, Num 100)])),
        (''android_version'', (CharField, [(Max_length, Num 32)])),
        (''security_patch_level'', (CharField, [(Max_length, Num 32), (Blank, Flag True)])),
        (''measured_display_diagonal_inches'', (DecimalField, [(Max_digits, Num 4), (Decimal_places, Num 2), (Null, Flag True),
           (Blank, Flag True), (Help_text, Txt ''Physical corner-to-corner display diagonal in inches, excluding bezel.'')])),
        (''tested_by'', (ForeignKey, [(To, To_model UserModel), (On_delete, Named ''PROTECT'')])),
        (''test_date'', (DateField, [])),
        (''evidence_reference'', (CharField, [(Max_length, Num 255), (Blank, Flag True), (Default, Txt []),
           (Help_text, Txt ''Optional internal path or ticket containing photos, logs, and test notes.'')])),
        (''device_owner_lock_task_passed'', (BooleanField, [(Default, Flag False)])),
        (''legacy_boot_on_vehicle_power_passed'', (BooleanField, [(Default, Flag False), (Editable, Flag False),
           (Db_column, Txt ''boot_on_power_passed'')])),
        (''screen_state_passed'', (BooleanField, [(Default, Flag False)])),
        (''legacy_external_power_loss_path_passed'', (BooleanField, [(Default, Flag False), (Editable, Flag False),
           (Db_column, Txt ''power_loss_path_passed'')])),
        (''battery_backed_playback_passed'', (BooleanField, [(Default, Flag False)])),
        (''battery_runtime_passed'', (BooleanField, [(Default, Flag False)])),
        (''battery_level_telemetry_passed'', (BooleanField, [(Default, Flag False)])),
        (''planned_shutdown_flow_passed'', (BooleanField, [(Default, Flag False)])),
        (''physical_shutdown_recovery_passed'', (BooleanField, [(Default, Flag False)])),
        (''abnormal_exit_recovery_passed'', (BooleanField, [(Default, Flag False)])),
        (''playback_12h_passed'', (BooleanField, [(Default, Flag False)])),
        (''image_aspect_passed'', (BooleanField, [(Default, Flag False)])),
        (''cache_capacity_passed'', (BooleanField, [(Default, Flag False)])),
        (''network_reconnect_passed'', (BooleanField, [(Default, Flag False)])),
        (''interrupted_download_passed'', (BooleanField, [(Default, Flag False)])),
        (''thermal_passed'', (BooleanField, [(Default, Flag False)])),
        (''mounting_power_safety_passed'', (BooleanField, [(Default, Flag False)])),
        (''kiosk_escape_resistance_passed'', (BooleanField, [(Default, Flag False)])),
        (''device_time_change_passed'', (BooleanField, [(Default, Flag False)])),
        (''remote_disable_reboot_passed'', (BooleanField, [(Default, Flag False)])),
        (''factory_reset_revocation_passed'', (BooleanField, [(Default, Flag False)])),
        (''approved_for_pilot'', (BooleanField, [(Default, Flag False)])),
        (''approved_at'', (DateTimeField, [(Null, Flag True), (Blank, Flag True)]))],
     ms_ordering = [''-test_date'', ''model_name''], ms_indexes = [],
     ms_constraints = [(''signage_hq_approved_display_size'', Check (Disj [Holds ''approved_for_pilot'' (Flag False), Conj [Conj [Holds ''measured_display_diagonal_inches__isnull'' (Flag False), Holds ''measured_display_diagonal_inches__gte'' (Named ''Decimal('9.00')'')], Holds ''measured_display_diagonal_inches__lte'' (Named ''Decimal('12.00')'')]]))]\<rparr>"

definition declared_loginthrottle :: "model_state" where
  "declared_loginthrottle =
     \<lparr>ms_fields =
       time_stamped @ [(''key_hash'', (CharField, [(Max_length, Num 64), (Primary_key, Flag True)])),
        (''failures'', (PositiveSmallIntegerField, [(Default, Num 0)])),
        (''locked_until'', (DateTimeField, [(Null, Flag True), (Blank, Flag True)]))],
     ms_ordering = [], ms_indexes = [[''updated_at'']],
     ms_constraints = []\<rparr>"

definition declared_apithrottle :: "model_state" where
  "declared_apithrottle =
     \<lparr>ms_fields =
       time_stamped @ [(''key_hash'', (CharField, [(Max_length, Num 64), (Primary_key, Flag True)])),
        (''attempts'', (PositiveIntegerField, [(Default, Num 0)])),
        (''window_started_at'', (DateTimeField, [(Default, Named ''now'')])),
        (''blocked_until'', (DateTimeField, [(Null, Flag True), (Blank, Flag True)]))],
     ms_ordering = [], ms_indexes = [[''updated_at'']],
     ms_constraints = []\<rparr>"

definition declared_user :: "model_state" where
  "declared_user =
     \<lparr>ms_fields =
       [(''email'', (EmailField, [(Unique, Flag True)])),
        (''role'', (CharField, [(Max_length, Num 16), (Choices, Pairs [(''owner'', ''Account owner''),
           (''marketing'', ''Marketing'')]), (Default, Txt ''marketing'')]))],
     ms_ordering = [], ms_indexes = [],
     ms_constraints = []\<rparr>"

definition declared_driver :: "model_state" where
  "declared_driver =
     \<lparr>ms_fields =
       time_stamped @ [(''internal_id'', (CharField, [(Max_length, Num 64), (Unique, Flag True)])),
        (''name'', (CharField, [(Max_length, Num 160)])),
        (''anonymized_at'', (DateTimeField, [(Null, Flag True), (Blank, Flag True)]))],
     ms_ordering = [], ms_indexes = [],
     ms_constraints = []\<rparr>"

definition declared_vehicle :: "model_state" where
  "declared_vehicle =
     \<lparr>ms_fields =
       time_stamped @ [(''registration'', (CharField, [(Max_length, Num 32), (Unique, Flag True)])),
        (''anonymized_at'', (DateTimeField, [(Null, Flag True), (Blank, Flag True)]))],
     ms_ordering = [], ms_indexes = [],
     ms_constraints = []\<rparr>"

definition declared_playlist :: "model_state" where
  "declared_playlist =
     \<lparr>ms_fields =
       time_stamped @ [(''id'', (UUIDField, [(Primary_key, Flag True), (Default, Named ''uuid4''), (Editable, Flag False)])),
        (''name'', (CharField, [(Max_length, Num 160)])), (''version'', (PositiveIntegerField, [(Default, Num 1)])),
        (''status'', (CharField, [(Max_length, Num 16), (Choices, Pairs [(''draft'', ''Draft''), (''published'', ''Published''),
           (''cancelled'', ''Cancelled''), (''archived'', ''Archived'')]), (Default, Txt ''draft'')])),
        (''starts_at'', (DateTimeField, [])), (''ends_at'', (DateTimeField, [])),
        (''published_at'', (DateTimeField, [(Null, Flag True), (Blank, Flag True)])),
        (''is_urgent'', (BooleanField, [(Default, Flag False)])),
        (''created_by'', (ForeignKey, [(To, To_model UserModel), (On_delete, Named ''PROTECT''),
           (Related_name, Txt ''created_playlists'')])),
        (''superseded_by'', (ForeignKey, [(To, Txt ''self''), (Null, Flag True), (Blank, Flag True),
           (On_delete, Named ''PROTECT''), (Related_name, Txt ''superseded_versions''),
           (Help_text, Txt ''Replacement playlist version that cancelled this version.'')]))],
     ms_ordering = [''-starts_at'', ''-version''], ms_indexes = [],
     ms_constraints = [(''unique_playlist_name_version'', UniqueOn [''name'', ''version''] None),
        (''playlist_end_after_start'', Check (Holds ''ends_at__gt'' (Named ''F(starts_at)'')))]\<rparr>"

definition declared_mediaasset :: "model_state" where
  "declared_mediaasset =
     \<lparr>ms_fields =
       time_stamped @ [(''id'', (UUIDField, [(Primary_key, Flag True), (Default, Named ''uuid4''), (Editable, Flag False)])),
        (''business_name'', (CharField, [(Max_length, Num 160)])), (''title'', (CharField, [(Max_length, Num 160)])),
        (''kind'', (CharField, [(Max_length, Num 16), (Choices, Pairs [(''image'', ''Image''), (''video'', ''Video'')])])),
        (''status'', (CharField, [(Max_length, Num 16), (Choices, Pairs [(''quarantined'', ''Quarantined''),
           (''processing'', ''Processing''), (''ready'', ''Ready''), (''rejected'', ''Rejected''), (''archived'', ''Archived'')]),
           (Default, Txt ''quarantined'')])),
        (''source_file'', (FileField, [(Upload_to, Named ''media_upload_path'')])),
        (''normalized_file'', (FileField, [(Upload_to, Txt ''validated/''), (Null, Flag True), (Blank, Flag True)])),
        (''sha256'', (CharField, [(Max_length, Num 64), (Blank, Flag True)])),
        (''mime_type'', (CharField, [(Max_length, Num 100), (Blank, Flag True)])),
        (''file_size'', (PositiveBigIntegerField, [(Default, Num 0)])),
        (''duration_ms'', (PositiveIntegerField, [(Default, Num 15000)])),
        (''width'', (PositiveIntegerField, [(Null, Flag True), (Blank, Flag True)])),
        (''height'', (PositiveIntegerField, [(Null, Flag True), (Blank, Flag True)])),
        (''rejection_reason'', (CharField, [(Max_length, Num 255), (Blank, Flag True)])),
        (''uploaded_by'', (ForeignKey, [(To, To_model UserModel), (On_delete, Named ''PROTECT'')])),
        (''archived_at'', (DateTimeField, [(Null, Flag True), (Blank, Flag True)])),
        (''dispatch_attempts'', (PositiveIntegerField, [(Default, Num 0)])),
        (''last_dispatch_attempt_at'', (DateTimeField, [(Null, Flag True), (Blank, Flag True)])),
        (''dispatched_at'', (DateTimeField, [(Null, Flag True), (Blank, Flag True)])),
        (''processing_attempts'', (PositiveIntegerField, [(Default, Num 0)])),
        (''processing_token'', (UUIDField, [(Null, Flag True), (Blank, Flag True), (Editable, Flag False)])),
        (''processing_started_at'', (DateTimeField, [(Null, Flag True), (Blank, Flag True)])),
        (''processing_lease_expires_at'', (DateTimeField, [(Null, Flag True), (Blank, Flag True)])),
        (''processing_finished_at'', (DateTimeField, [(Null, Flag True), (Blank, Flag True)]))],
     ms_ordering = [], ms_indexes = [],
     ms_constraints = []\<rparr>"

definition declared_playlistitem :: "model_state" where
  "declared_playlistitem =
     \<lparr>ms_fields =
       [(''id'', (UUIDField, [(Primary_key, Flag True), (Default, Named ''uuid4''), (Editable, Flag False)])),
        (''playlist'', (ForeignKey, [(To, To_model PlaylistModel), (On_delete, Named ''PROTECT''),
           (Related_name, Txt ''items'')])),
        (''media'', (ForeignKey, [(To, To_model MediaAssetModel), (On_delete, Named ''PROTECT''),
           (Related_name, Txt ''playlist_items'')])),
        (''position'', (PositiveIntegerField, []))],
     ms_ordering = [''position''], ms_indexes = [],
     ms_constraints = [(''unique_playlist_position'', UniqueOn [''playlist'', ''position''] None)]\<rparr>"

definition declared_device :: "model_state" where
  "declared_device =
     \<lparr>ms_fields =
       time_stamped @ [(''id'', (UUIDField, [(Primary_key, Flag True), (Default, Named ''uuid4''), (Editable, Flag False)])),
        (''label'', (CharField, [(Max_length, Num 100), (Unique, Flag True)])),
        (''hardware_qualification'', (ForeignKey, [(To, To_model HardwareQualificationModel), (Null, Flag True),
           (Blank, Flag True), (On_delete, Named ''PROTECT''), (Related_name, Txt ''devices''),
           (Help_text, Txt ''Exact model and firmware qualification used for this device.'')])),
        (''status'', (CharField, [(Max_length, Num 16), (Choices, Pairs [(''pending'', ''Pending enrollment''),
           (''active'', ''Active''), (''disabled'', ''Disabled'')]), (Default, Txt ''pending'')])),
        (''android_id_hash'', (CharField, [(Max_length, Num 64), (Blank, Flag True), (Unique, Flag True), (Null, Flag True)])),
        (''hardware_model'', (CharField, [(Max_length, Num 160), (Blank, Flag True)])),
        (''hardware_firmware_version'', (CharField, [(Max_length, Num 100), (Blank, Flag True)])),
        (''hardware_security_patch'', (CharField, [(Max_length, Num 32), (Blank, Flag True)])),
        (''app_version'', (CharField, [(Max_length, Num 32), (Blank, Flag True)])),
        (''android_version'', (CharField, [(Max_length, Num 32), (Blank, Flag True)])),
        (''last_seen_at'', (DateTimeField, [(Null, Flag True), (Blank, Flag True)])),
        (''last_heartbeat_recorded_at'', (DateTimeField, [(Null, Flag True), (Blank, Flag True)])),
        (''last_location_reported_at'', (DateTimeField, [(Null, Flag True), (Blank, Flag True)])),
        (''location_state'', (CharField, [(Max_length, Num 32), (Default, Txt ''initializing'')])),
        (''location_state_updated_at'', (DateTimeField, [(Null, Flag True), (Blank, Flag True)])),
        (''location_planned_gap_until'', (DateTimeField, [(Null, Flag True), (Blank, Flag True)])),
        (''last_sync_at'', (DateTimeField, [(Null, Flag True), (Blank, Flag True)])),
        (''last_playback_at'', (DateTimeField, [(Null, Flag True), (Blank, Flag True)])),
        (''current_playlist'', (ForeignKey, [(To, To_model PlaylistModel), (Null, Flag True), (Blank, Flag True),
           (On_delete, Named ''PROTECT'')])),
        (''disabled_at'', (DateTimeField, [(Null, Flag True), (Blank, Flag True)])),
        (''kiosk_pin_hash'', (CharField, [(Max_length, Num 255), (Blank, Flag True)])),
        (''kiosk_pin_reset_at'', (DateTimeField, [(Null, Flag True), (Blank, Flag True)]))],
     ms_ordering = [], ms_indexes = [],
     ms_constraints = []\<rparr>"

definition declared_deviceassignment :: "model_state" where
  "declared_deviceassignment =
     \<lparr>ms_fields =
       [(''device'', (ForeignKey, [(To, To_model DeviceModel), (On_delete, Named ''PROTECT''),
          (Related_name, Txt ''assignments'')])),
        (''driver'', (ForeignKey, [(To, To_model DriverModel), (On_delete, Named ''PROTECT'')])),
        (''vehicle'', (ForeignKey, [(To, To_model VehicleModel), (On_delete, Named ''PROTECT'')])),
        (''sim_card_number'', (CharField, [(Max_length, Num 32), (Blank, Flag True), (Default, Txt [])])),
        (''assigned_at'', (DateTimeField, [(Default, Named ''now'')])),
        (''unassigned_at'', (DateTimeField, [(Null, Flag True), (Blank, Flag True)]))],
     ms_ordering = [''-assigned_at''], ms_indexes = [],
     ms_constraints = [(''one_active_assignment_per_device'', UniqueOn [''device''] (Some (Holds ''unassigned_at__isnull'' (Flag True))))]\<rparr>"

definition declared_enrollmentcode :: "model_state" where
  "declared_enrollmentcode =
     \<lparr>ms_fields =
       time_stamped @ [(''device'', (ForeignKey, [(To, To_model DeviceModel), (On_delete, Named ''CASCADE'')])),
        (''code_hash'', (CharField, [(Max_length, Num 64), (Unique, Flag True)])), (''expires_at'', (DateTimeField, [])),
        (''used_at'', (DateTimeField, [(Null, Flag True), (Blank, Flag True)])),
        (''created_by'', (ForeignKey, [(To, To_model UserModel), (On_delete, Named ''PROTECT'')]))],
     ms_ordering = [], ms_indexes = [[''expires_at'']],
     ms_constraints = []\<rparr>"

definition declared_enrollmentchallenge :: "model_state" where
  "declared_enrollmentchallenge =
     \<lparr>ms_fields =
       time_stamped @ [(''id'', (UUIDField, [(Primary_key, Flag True), (Default, Named ''uuid4''), (Editable, Flag False)])),
        (''enrollment'', (ForeignKey, [(To, To_model EnrollmentCodeModel), (On_delete, Named ''CASCADE''),
           (Related_name, Txt ''challenges'')])),
        (''request_hash'', (CharField, [(Max_length, Num 64), (Unique, Flag True)])),
        (''android_id_hash'', (CharField, [(Max_length, Num 64)])), (''android_version'', (CharField, [(Max_length, Num 32)])),
        (''app_version'', (CharField, [(Max_length, Num 32)])),
        (''hardware_model'', (CharField, [(Max_length, Num 160), (Blank, Flag True)])),
        (''firmware_version'', (CharField, [(Max_length, Num 100), (Blank, Flag True)])),
        (''security_patch_level'', (CharField, [(Max_length, Num 32), (Blank, Flag True)])),
        (''expires_at'', (DateTimeField, [])), (''used_at'', (DateTimeField, [(Null, Flag True), (Blank, Flag True)]))],
     ms_ordering = [], ms_indexes = [[''expires_at'']],
     ms_constraints = []\<rparr>"

definition declared_devicecredential :: "model_state" where
  "declared_devicecredential =
     \<lparr>ms_fields =
       time_stamped @ [(''device'', (ForeignKey, [(To, To_model DeviceModel), (On_delete, Named ''CASCADE''),
          (Related_name, Txt ''credentials'')])),
        (''refresh_hash'', (CharField, [(Max_length, Num 64), (Unique, Flag True)])),
        (''revoked_at'', (DateTimeField, [(Null, Flag True), (Blank, Flag True)]))],
     ms_ordering = [], ms_indexes = [],
     ms_constraints = []\<rparr>"

definition declared_devicemanagementcredential :: "model_state" where
  "declared_devicemanagementcredential =
     \<lparr>ms_fields =
       time_stamped @ [(''device'', (OneToOneField, [(To, To_model DeviceModel), (On_delete, Named ''CASCADE''),
          (Related_name, Txt ''management_credential'')])),
        (''token_hash'', (CharField, [(Max_length, Num 64), (Unique, Flag True)]))],
     ms_ordering = [], ms_indexes = [],
     ms_constraints = []\<rparr>"

definition declared_devicecommand :: "model_state" where
  "declared_devicecommand =
     \<lparr>ms_fields =
       time_stamped @ [(''id'', (UUIDField, [(Primary_key, Flag True), (Default, Named ''uuid4''), (Editable, Flag False)])),
        (''device'', (ForeignKey, [(To, To_model DeviceModel), (On_delete, Named ''CASCADE''),
           (Related_name, Txt ''commands'')])),
        (''kind'', (CharField, [(Max_length, Num 32), (Choices, Pairs [(''admin_mode'', ''Admin mode''),
           (''sync_now'', ''Sync now'')])])),
        (''requested_by'', (ForeignKey, [(To, To_model UserModel), (On_delete, Named ''PROTECT'')])),
        (''expires_at'', (DateTimeField, [])), (''delivered_at'', (DateTimeField, [(Null, Flag True), (Blank, Flag True)])),
        (''acknowledged_at'', (DateTimeField, [(Null, Flag True), (Blank, Flag True)]))],
     ms_ordering = [''created_at''], ms_indexes = [[''device'', ''acknowledged_at'', ''expires_at'']],
     ms_constraints = []\<rparr>"

definition declared_deviceaccesstoken :: "model_state" where
  "declared_deviceaccesstoken =
     \<lparr>ms_fields =
       [(''credential'', (ForeignKey, [(To, To_model DeviceCredentialModel), (On_delete, Named ''CASCADE''),
          (Related_name, Txt ''access_tokens'')])),
        (''token_hash'', (CharField, [(Max_length, Num 64), (Unique, Flag True)])), (''expires_at'', (DateTimeField, [])),
        (''created_at'', (DateTimeField, [(Auto_now_add, Flag True)]))],
     ms_ordering = [], ms_indexes = [[''expires_at'']],
     ms_constraints = []\<rparr>"

definition declared_mediadeletion :: "model_state" where
  "declared_mediadeletion =
     \<lparr>ms_fields =
       time_stamped @ [(''asset'', (OneToOneField, [(To, To_model MediaAssetModel), (On_delete, Named ''PROTECT''),
          (Related_name, Txt ''binary_deletion'')])),
        (''source_name'', (CharField, [(Max_length, Num 255), (Blank, Flag True)])),
        (''normalized_name'', (CharField, [(Max_length, Num 255), (Blank, Flag True)])),
        (''attempts'', (PositiveIntegerField, [(Default, Num 0)])),
        (''last_attempt_at'', (DateTimeField, [(Null, Flag True), (Blank, Flag True)])),
        (''last_error'', (CharField, [(Max_length, Num 255), (Blank, Flag True)])),
        (''completed_at'', (DateTimeField, [(Null, Flag True), (Blank, Flag True)]))],
     ms_ordering = [], ms_indexes = [],
     ms_constraints = []\<rparr>"

definition declared_deviceheartbeat :: "model_state" where
  "declared_deviceheartbeat =
     \<lparr>ms_fields =
       [(''device'', (ForeignKey, [(To, To_model DeviceModel), (On_delete, Named ''PROTECT''),
          (Related_name, Txt ''heartbeats'')])),
        (''recorded_at'', (DateTimeField, [(Default, Named ''now'')])),
        (''received_at'', (DateTimeField, [(Auto_now_add, Flag True)])), (''screen_on'', (BooleanField, [])),
        (''external_power'', (BooleanField, [(Null, Flag True), (Blank, Flag True)])),
        (''charging'', (BooleanField, [(Null, Flag True), (Blank, Flag True)])),
        (''battery_percent'', (PositiveSmallIntegerField, [(Null, Flag True), (Blank, Flag True)])),
        (''free_storage_bytes'', (PositiveBigIntegerField, [])),
        (''temperature_celsius'', (DecimalField, [(Max_digits, Num 5), (Decimal_places, Num 2), (Null, Flag True),
           (Blank, Flag True)])),
        (''app_version'', (CharField, [(Max_length, Num 32)])), (''android_version'', (CharField, [(Max_length, Num 32)])),
        (''active_playlist'', (ForeignKey, [(To, To_model PlaylistModel), (Null, Flag True), (Blank, Flag True),
           (On_delete, Named ''PROTECT'')])),
        (''playback_active'', (BooleanField, [(Default, Flag False)])),
        (''last_successful_sync_at'', (DateTimeField, [(Null, Flag True), (Blank, Flag True)])),
        (''last_playback_at'', (DateTimeField, [(Null, Flag True), (Blank, Flag True)]))],
     ms_ordering = [''-recorded_at''], ms_indexes = [[''device'', ''-recorded_at'']],
     ms_constraints = []\<rparr>"

definition declared_devicelocationpoint :: "model_state" where
  "declared_devicelocationpoint =
     \<lparr>ms_fields =
       [(''id'', (UUIDField, [(Primary_key, Flag True), (Editable, Flag False)])),
        (''device'', (ForeignKey, [(To, To_model DeviceModel), (On_delete, Named ''PROTECT''),
           (Related_name, Txt ''location_points'')])),
        (''assignment'', (ForeignKey, [(To, To_model DeviceAssignmentModel), (Null, Flag True), (Blank, Flag True),
           (On_delete, Named ''PROTECT''), (Related_name, Txt ''location_points'')])),
        (''recorded_at'', (DateTimeField, [])), (''device_recorded_at'', (DateTimeField, [])),
        (''received_at'', (DateTimeField, [(Auto_now_add, Flag True)])),
        (''latitude'', (DecimalField, [(Max_digits, Num 9), (Decimal_places, Num 6)])),
        (''longitude'', (DecimalField, [(Max_digits, Num 9), (Decimal_places, Num 6)])),
        (''accuracy_m'', (DecimalField, [(Max_digits, Num 6), (Decimal_places, Num 2)])),
        (''provider'', (CharField, [(Max_length, Num 16)])), (''source'', (CharField, [(Max_length, Num 32)]))],
     ms_ordering = [], ms_indexes = [[''device'', ''-recorded_at''], [''recorded_at'']],
     ms_constraints = []\<rparr>"

definition declared_playbackbatch :: "model_state" where
  "declared_playbackbatch =
     \<lparr>ms_fields =
       [(''id'', (UUIDField, [(Primary_key, Flag True), (Editable, Flag False)])),
        (''device'', (ForeignKey, [(To, To_model DeviceModel), (On_delete, Named ''PROTECT'')])),
        (''playlist'', (ForeignKey, [(To, To_model PlaylistModel), (On_delete, Named ''PROTECT'')])),
        (''assignment'', (ForeignKey, [(To, To_model DeviceAssignmentModel), (Null, Flag True), (On_delete, Named ''PROTECT'')])),
        (''loop_started_at'', (DateTimeField, [])),
        (''loop_ended_at'', (DateTimeField, [(Null, Flag True), (Blank, Flag True)])),
        (''captured_offline'', (BooleanField, [(Default, Flag False)])),
        (''received_at'', (DateTimeField, [(Auto_now_add, Flag True)]))],
     ms_ordering = [], ms_indexes = [[''device'', ''-loop_started_at'']],
     ms_constraints = []\<rparr>"

definition declared_playbackevent :: "model_state" where
  "declared_playbackevent =
     \<lparr>ms_fields =
       [(''id'', (UUIDField, [(Primary_key, Flag True), (Editable, Flag False)])),
        (''batch'', (ForeignKey, [(To, To_model PlaybackBatchModel), (On_delete, Named ''PROTECT''),
           (Related_name, Txt ''events'')])),
        (''playlist_item'', (ForeignKey, [(To, To_model PlaylistItemModel), (On_delete, Named ''PROTECT'')])),
        (''started_at'', (DateTimeField, [])), (''ended_at'', (DateTimeField, [(Null, Flag True), (Blank, Flag True)])),
        (''duration_ms'', (PositiveIntegerField, [(Default, Num 0)])),
        (''status'', (CharField, [(Max_length, Num 16), (Choices, Pairs [(''completed'', ''Completed''),
           (''interrupted'', ''Interrupted''), (''failed'', ''Failed'')])])),
        (''failure_reason'', (CharField, [(Max_length, Num 64), (Blank, Flag True)]))],
     ms_ordering = [], ms_indexes = [[''status'', ''-started_at'']],
     ms_constraints = []\<rparr>"

definition declared_playbackcorrection :: "model_state" where
  "declared_playbackcorrection =
     \<lparr>ms_fields =
       [(''id'', (UUIDField, [(Primary_key, Flag True), (Default, Named ''uuid4''), (Editable, Flag False)])),
        (''event'', (ForeignKey, [(To, To_model PlaybackEventModel), (On_delete, Named ''PROTECT''),
           (Related_name, Txt ''corrections'')])),
        (''reason'', (CharField, [(Max_length, Num 255)])),
        (''replacement_status'', (CharField, [(Max_length, Num 16), (Choices, Pairs [(''completed'', ''Completed''),
           (''interrupted'', ''Interrupted''), (''failed'', ''Failed'')]), (Null, Flag True), (Blank, Flag True)])),
        (''created_by'', (ForeignKey, [(To, To_model UserModel), (On_delete, Named ''PROTECT'')])),
        (''created_at'', (DateTimeField, [(Auto_now_add, Flag True)]))],
     ms_ordering = [], ms_indexes = [],
     ms_constraints = []\<rparr>"

definition declared_deviceoperationalevent :: "model_state" where
  "declared_deviceoperationalevent =
     \<lparr>ms_fields =
       [(''id'', (UUIDField, [(Primary_key, Flag True), (Default, Named ''uuid4''), (Editable, Flag False)])),
        (''device'', (ForeignKey, [(To, To_model DeviceModel), (On_delete, Named ''PROTECT''),
           (Related_name, Txt ''operational_events'')])),
        (''kind'', (CharField, [(Max_length, Num 32), (Choices, Pairs [(''forced_queue_loss'', ''Forced queue data loss''),
           (''replacement_failed'', ''Replacement validation failed''), (''planned_shutdown'', ''Planned shutdown''),
           (''abnormal_app_exit'', ''Abnormal application exit''), (''location_queue_loss'', ''Location queue data loss''),
           (''location_point_rejected'', ''Location point rejected'')])])),
        (''recorded_at'', (DateTimeField, [])), (''received_at'', (DateTimeField, [(Auto_now_add, Flag True)])),
        (''details'', (JSONField, [(Default, Named ''dict'')]))],
     ms_ordering = [], ms_indexes = [[''device'', ''kind'', ''-received_at'']],
     ms_constraints = []\<rparr>"

definition declared_alert :: "model_state" where
  "declared_alert =
     \<lparr>ms_fields =
       time_stamped @ [(''device'', (ForeignKey, [(To, To_model DeviceModel), (Null, Flag True), (Blank, Flag True),
          (On_delete, Named ''PROTECT''), (Related_name, Txt ''alerts'')])),
        (''code'', (CharField, [(Max_length, Num 64)])),
        (''severity'', (CharField, [(Max_length, Num 16), (Choices, Pairs [(''warning'', ''Warning''),
           (''critical'', ''Critical'')])])),
        (''message'', (CharField, [(Max_length, Num 255)])),
        (''acknowledged_at'', (DateTimeField, [(Null, Flag True), (Blank, Flag True)])),
        (''acknowledged_by'', (ForeignKey, [(To, To_model UserModel), (Null, Flag True), (Blank, Flag True),
           (On_delete, Named ''PROTECT'')]))],
     ms_ordering = [], ms_indexes = [[''acknowledged_at'', ''-created_at'']],
     ms_constraints = [(''signage_open_device_alert_unique'', UniqueOn [''device'', ''code''] (Some (Conj [Holds ''acknowledged_at__isnull'' (Flag True), Holds ''device__isnull'' (Flag False)]))),
        (''signage_open_global_alert_unique'', UniqueOn [''code''] (Some (Conj [Holds ''acknowledged_at__isnull'' (Flag True), Holds ''device__isnull'' (Flag True)])))]\<rparr>"

definition declared_auditevent :: "model_state" where
  "declared_auditevent =
     \<lparr>ms_fields =
       [(''actor'', (ForeignKey, [(To, To_model UserModel), (Null, Flag True), (Blank, Flag True),
          (On_delete, Named ''PROTECT'')])),
        (''action'', (CharField, [(Max_length, Num 100)])), (''target_type'', (CharField, [(Max_length, Num 100)])),
        (''target_id'', (CharField, [(Max_length, Num 100)])), (''metadata'', (JSONField, [(Default, Named ''dict'')])),
        (''occurred_at'', (DateTimeField, [(Auto_now_add, Flag True)])),
        (''source_ip_hash'', (CharField, [(Max_length, Num 64), (Blank, Flag True)]))],
     ms_ordering = [''-occurred_at''], ms_indexes = [],
     ms_constraints = []\<rparr>"

definition declared_models :: "(model_name \<times> model_state) list" where
  "declared_models =
     [(PlatformSettingsModel, declared_platformsettings), (HardwareQualificationModel, declared_hardwarequalification),
      (LoginThrottleModel, declared_loginthrottle), (ApiThrottleModel, declared_apithrottle), (UserModel, declared_user),
      (DriverModel, declared_driver), (VehicleModel, declared_vehicle), (PlaylistModel, declared_playlist),
      (MediaAssetModel, declared_mediaasset), (PlaylistItemModel, declared_playlistitem), (DeviceModel, declared_device),
      (DeviceAssignmentModel, declared_deviceassignment), (EnrollmentCodeModel, declared_enrollmentcode),
      (EnrollmentChallengeModel, declared_enrollmentchallenge), (DeviceCredentialModel, declared_devicecredential),
      (DeviceManagementCredentialModel, declared_devicemanagementcredential), (DeviceCommandModel, declared_devicecommand),
      (DeviceAccessTokenModel, declared_deviceaccesstoken), (MediaDeletionModel, declared_mediadeletion),
      (DeviceHeartbeatModel, declared_deviceheartbeat), (DeviceLocationPointModel, declared_devicelocationpoint),
      (PlaybackBatchModel, declared_playbackbatch), (PlaybackEventModel, declared_playbackevent),
      (PlaybackCorrectionModel, declared_playbackcorrection), (DeviceOperationalEventModel, declared_deviceoperationalevent),
      (AlertModel, declared_alert), (AuditEventModel, declared_auditevent)]"

end
