(* ===== verification/Columns.thy ===== *)
theory Columns
  imports Schema_Models Telemetry Locations
begin

section \<open>Rows and their columns\<close>

text \<open>
  What the columns declared in \<open>models.py\<close> can hold, and the rows of the evidence tables as values of those
  columns. A field with \<open>choices\<close> holds one of them. The framework fills the fields with \<open>auto_now_add\<close>.
\<close>

datatype column_value =
    VNull | VBool bool | VText string | VNum int | VDec int int | VTime time | VKey id | VJson payload

definition text_limit :: "field \<Rightarrow> int" where
  "text_limit f = (case option_of Max_length f of Some (Num n) \<Rightarrow> n | _ \<Rightarrow> 0)"

definition chosen_from :: "field \<Rightarrow> string \<Rightarrow> bool" where
  "chosen_from f t = (case option_of Choices f of Some (Pairs cs) \<Rightarrow> t \<in> set (map fst cs) | _ \<Rightarrow> True)"

definition whole_limit :: "field_class \<Rightarrow> int" where
  "whole_limit c = (if c = PositiveSmallIntegerField then 32767 else if c = PositiveIntegerField then 2147483647
     else if c = PositiveBigIntegerField then max_bigint else - 1)"

text \<open>A decimal is rounded half-even to the places of its column and must then have no more digits than allowed.\<close>

definition decimal_fits :: "field \<Rightarrow> int \<Rightarrow> int \<Rightarrow> bool" where
  "decimal_fits f m e = (case (option_of Max_digits f, option_of Decimal_places f) of
       (Some (Num d), Some (Num p)) \<Rightarrow> (case quantize (nat p) m e of None \<Rightarrow> False | Some n \<Rightarrow> \<bar>n\<bar> < 10 ^ nat d)
     | _ \<Rightarrow> False)"

fun holds :: "field \<Rightarrow> column_value \<Rightarrow> bool" where
  "holds f VNull = (option_of Null f = Some (Flag True))"
| "holds f (VBool b) = (fst f = BooleanField)"
| "holds f (VText t) = (fst f = CharField \<and> int (length t) \<le> text_limit f \<and> chosen_from f t)"
| "holds f (VNum n) = (0 \<le> n \<and> n \<le> whole_limit (fst f))"
| "holds f (VDec m e) = (fst f = DecimalField \<and> decimal_fits f m e)"
| "holds f (VTime t) = (fst f = DateTimeField)"
| "holds f (VKey i) = (fst f = ForeignKey \<or> fst f = UUIDField)"
| "holds f (VJson p) = (fst f = JSONField)"

text \<open>Every value of the row fits its field, and every field of the model has a value or is filled by the framework.\<close>

definition row_fits :: "model_state \<Rightarrow> (string \<times> column_value) list \<Rightarrow> bool" where
  "row_fits st row = (list_all (\<lambda>(n, v). case map_of (ms_fields st) n of None \<Rightarrow> False | Some f \<Rightarrow> holds f v) row
     \<and> list_all (\<lambda>(n, f). n \<in> set (map fst row) \<or> option_of Auto_now_add f = Some (Flag True)) (ms_fields st))"

fun nullable :: "('a \<Rightarrow> column_value) \<Rightarrow> 'a option \<Rightarrow> column_value" where
  "nullable c None = VNull"
| "nullable c (Some x) = c x"

definition heartbeat_row :: "device_heartbeat \<Rightarrow> (string \<times> column_value) list" where
  "heartbeat_row r = [(''device'', VKey (hb_device r)), (''recorded_at'', VTime (hb_recorded_at r)),
     (''received_at'', VTime (hb_received_at r)), (''screen_on'', VBool (hb_screen_on r)),
     (''external_power'', nullable VBool (hb_external_power r)), (''charging'', nullable VBool (hb_charging r)),
     (''battery_percent'', nullable VNum (hb_battery_percent r)), (''free_storage_bytes'', VNum (hb_free_storage_bytes r)),
     (''temperature_celsius'', nullable (\<lambda>(m, e). VDec m e) (hb_temperature_celsius r)),
     (''app_version'', VText (hb_app_version r)), (''android_version'', VText (hb_android_version r)),
     (''active_playlist'', nullable VKey (hb_active_playlist r)), (''playback_active'', VBool (hb_playback_active r)),
     (''last_successful_sync_at'', nullable VTime (hb_last_successful_sync_at r)),
     (''last_playback_at'', nullable VTime (hb_last_playback_at r))]"

definition point_row :: "location_point \<Rightarrow> (string \<times> column_value) list" where
  "point_row r = [(''id'', VKey (lp_id r)), (''device'', VKey (lp_device r)), (''assignment'', nullable VKey (lp_assignment r)),
     (''recorded_at'', VTime (lp_recorded_at r)), (''device_recorded_at'', VTime (lp_device_recorded_at r)),
     (''latitude'', VDec (lp_latitude r) (- 6)), (''longitude'', VDec (lp_longitude r) (- 6)),
     (''accuracy_m'', VDec (lp_accuracy_m r) (- 2)), (''provider'', VText (lp_provider r)), (''source'', VText (lp_source r))]"

definition kind_value :: "event_kind \<Rightarrow> string" where
  "kind_value k = (case find (\<lambda>(n, j). j = k) event_kind_values of None \<Rightarrow> [] | Some (n, j) \<Rightarrow> n)"

definition operational_row :: "operational_event_row \<Rightarrow> (string \<times> column_value) list" where
  "operational_row r = [(''id'', VKey (oe_id r)), (''device'', VKey (oe_device r)), (''kind'', VText (kind_value (oe_kind r))),
     (''recorded_at'', VTime (oe_recorded_at r)), (''received_at'', VTime (oe_received_at r)), (''details'', VJson (oe_details r))]"

definition evidence_typed :: "db \<Rightarrow> bool" where
  "evidence_typed s = (list_all (\<lambda>r. row_fits declared_deviceheartbeat (heartbeat_row r)) (heartbeats s)
     \<and> list_all (\<lambda>r. row_fits declared_devicelocationpoint (point_row r)) (location_points s)
     \<and> list_all (\<lambda>r. row_fits declared_deviceoperationalevent (operational_row r)) (operational_events s))"

subsection \<open>The rows of each endpoint\<close>

lemma nullable_holds:
  "holds f (nullable c x) \<longleftrightarrow> (case x of None \<Rightarrow> option_of Null f = Some (Flag True) | Some y \<Rightarrow> holds f (c y))"
  by (cases x) simp_all

lemma heartbeat_row_fits:
  "row_fits declared_deviceheartbeat (heartbeat_row r) \<longleftrightarrow>
     (case hb_battery_percent r of None \<Rightarrow> True | Some b \<Rightarrow> 0 \<le> b \<and> b \<le> 32767)
     \<and> 0 \<le> hb_free_storage_bytes r \<and> hb_free_storage_bytes r \<le> max_bigint
     \<and> (case hb_temperature_celsius r of None \<Rightarrow> True | Some (m, e) \<Rightarrow>
          (case quantize 2 m e of None \<Rightarrow> False | Some n \<Rightarrow> \<bar>n\<bar> < 10 ^ 5))
     \<and> length (hb_app_version r) \<le> 32 \<and> length (hb_android_version r) \<le> 32"
  by (simp add: row_fits_def heartbeat_row_def declared_deviceheartbeat_def nullable_holds option_of_def whole_limit_def
      text_limit_def chosen_from_def decimal_fits_def split: option.split prod.split)

lemma decimal_self:
  "(case quantize places n (- int places) of None \<Rightarrow> False | Some k \<Rightarrow> \<bar>k\<bar> < b) \<longleftrightarrow> \<bar>n\<bar> < 10 ^ 28 \<and> \<bar>n\<bar> < b"
  by (simp add: quantize_def Let_def)

lemma point_row_fits:
  "row_fits declared_devicelocationpoint (point_row r) \<longleftrightarrow>
     \<bar>lp_latitude r\<bar> < 10 ^ 9 \<and> \<bar>lp_longitude r\<bar> < 10 ^ 9 \<and> \<bar>lp_accuracy_m r\<bar> < 10 ^ 6
     \<and> length (lp_provider r) \<le> 16 \<and> length (lp_source r) \<le> 32"
  using decimal_self [where places = 6 and b = "10 ^ nat 9" and n = "lp_latitude r"]
    decimal_self [where places = 6 and b = "10 ^ nat 9" and n = "lp_longitude r"]
    decimal_self [where places = 2 and b = "10 ^ nat 6" and n = "lp_accuracy_m r"]
  by (cases "lp_assignment r") (auto simp: row_fits_def point_row_def declared_devicelocationpoint_def option_of_def
      text_limit_def chosen_from_def decimal_fits_def)

lemma operational_row_fits: "row_fits declared_deviceoperationalevent (operational_row r)"
  by (cases "oe_kind r")
    (simp_all add: row_fits_def operational_row_def declared_deviceoperationalevent_def option_of_def text_limit_def
      chosen_from_def kind_value_def event_kind_values_def)

lemma quantize_Some:
  assumes "int_le_dec lo m e" and "dec_le_int m e hi" and "- (10 ^ 28) < lo * 10 ^ places" and "hi * 10 ^ places < 10 ^ 28"
  shows "\<exists>n. quantize places m e = Some n"
  using quantize_units [OF refl assms(1,2) refl, of places] assms(3,4)
  by (auto simp: quantize_def Let_def abs_less_iff split: if_splits)

lemma read_heartbeat_bounds:
  assumes "read_heartbeat read clk data s = Inr h"
  shows "0 \<le> hr_free_storage h" and "length (hr_app_version h) \<le> 32" and "length (hr_android_version h) \<le> 32"
    and "case hr_battery h of None \<Rightarrow> True | Some b \<Rightarrow> 0 \<le> b \<and> b \<le> 100"
    and "case hr_temperature h of None \<Rightarrow> True | Some (m, e) \<Rightarrow> int_le_dec (- 50) m e \<and> dec_le_int m e 150"
proof -
  show "0 \<le> hr_free_storage h" using assms by (auto simp: read_heartbeat_def bind_result_Inr_iff)
  have "required_short_string data ''app_version'' 32 = Inr (hr_app_version h)"
    "required_short_string data ''android_version'' 32 = Inr (hr_android_version h)"
    and b: "read_battery (jget data ''battery_percent'') = Inr (hr_battery h)"
    and t: "read_temperature (jget data ''temperature_celsius'') = Inr (hr_temperature h)"
    using assms by (auto simp: read_heartbeat_def bind_result_Inr_iff)
  then show "length (hr_app_version h) \<le> 32" and "length (hr_android_version h) \<le> 32"
    by (auto simp: required_short_string_def Let_def split: json.splits if_splits)
  show "case hr_battery h of None \<Rightarrow> True | Some b \<Rightarrow> 0 \<le> b \<and> b \<le> 100"
    using b by (auto simp: read_battery_def split: if_splits option.splits)
  show "case hr_temperature h of None \<Rightarrow> True | Some (m, e) \<Rightarrow> int_le_dec (- 50) m e \<and> dec_le_int m e 150"
    using t by (auto simp: read_temperature_def split: if_splits option.splits pydec.splits)
qed

lemma stored_heartbeat_state:
  assumes "store_heartbeat st received now i h data s = Inr (u, t)"
  obtains d row s1 where "find_device i s = Some d" and "hr_free_storage h \<le> max_bigint" and "hb_device row = i"
    and "hb_free_storage_bytes row = hr_free_storage h" and "hb_battery_percent row = hr_battery h"
    and "hb_temperature_celsius row = hr_temperature h" and "hb_app_version row = hr_app_version h"
    and "hb_android_version row = hr_android_version h"
    and "s1 = save_device (apply_heartbeat h received d) (s\<lparr>heartbeats := heartbeats s @ [row], next_pk := next_pk s + 1\<rparr>)"
    and "raise_all now (heartbeat_alerts st h d s1) s1 = Inr t"
proof -
  let ?row = "\<lambda>power charging. \<lparr>hb_id = next_pk s, hb_device = i, hb_recorded_at = hr_recorded_at h, hb_received_at = received,
     hb_screen_on = hr_screen_on h, hb_external_power = power, hb_charging = charging,
     hb_battery_percent = hr_battery h, hb_free_storage_bytes = hr_free_storage h,
     hb_temperature_celsius = hr_temperature h, hb_app_version = hr_app_version h,
     hb_android_version = hr_android_version h, hb_active_playlist = hr_playlist h,
     hb_playback_active = hr_playback_active h, hb_last_successful_sync_at = hr_last_sync h,
     hb_last_playback_at = hr_last_playback h\<rparr>"
  let ?s1 = "\<lambda>d row. save_device (apply_heartbeat h received d) (s\<lparr>heartbeats := heartbeats s @ [row], next_pk := next_pk s + 1\<rparr>)"
  obtain d power charging where d: "get_device i s = Inr d" and lim: "hr_free_storage h \<le> max_bigint"
    and al: "raise_all now (heartbeat_alerts st h d (?s1 d (?row power charging))) (?s1 d (?row power charging)) = Inr t"
    using assms unfolding store_heartbeat_def bind_result_Inr_iff Let_def by auto
  show ?thesis
    by (rule that [OF _ lim _ _ _ _ _ _ refl al]) (use d in \<open>simp_all add: get_device_Inr\<close>)
qed

lemma stored_heartbeat_fits:
  assumes h: "read_heartbeat read clk data s0 = Inr h" and "store_heartbeat st received now i h data s = Inr (u, t)"
  shows "\<exists>row. heartbeats t = heartbeats s @ [row] \<and> row_fits declared_deviceheartbeat (heartbeat_row row)
    \<and> location_points t = location_points s \<and> operational_events t = operational_events s"
  using assms(2)
proof (rule stored_heartbeat_state)
  fix d row s1
  assume lim: "hr_free_storage h \<le> max_bigint"
    and row: "hb_free_storage_bytes row = hr_free_storage h" "hb_battery_percent row = hr_battery h"
      "hb_temperature_celsius row = hr_temperature h" "hb_app_version row = hr_app_version h"
      "hb_android_version row = hr_android_version h"
    and s1: "s1 = save_device (apply_heartbeat h received d) (s\<lparr>heartbeats := heartbeats s @ [row], next_pk := next_pk s + 1\<rparr>)"
    and al: "raise_all now (heartbeat_alerts st h d s1) s1 = Inr t"
  have "\<exists>n. quantize 2 m e = Some n \<and> \<bar>n\<bar> < 10 ^ 5" if "hr_temperature h = Some (m, e)" for m e
  proof -
    have b: "int_le_dec (- 50) m e" "dec_le_int m e 150" using read_heartbeat_bounds(5) [OF h] that by simp_all
    then obtain n where n: "quantize 2 m e = Some n" using quantize_Some [OF b, of 2] by auto
    show ?thesis using quantize_bounds [OF b n] n by auto
  qed
  then have "row_fits declared_deviceheartbeat (heartbeat_row row)"
    using read_heartbeat_bounds [OF h] lim
    by (auto simp: heartbeat_row_fits row split: option.splits)
  then show ?thesis using only_alertsD(3,7,10) [OF raise_all_frame [OF al]] by (auto simp: s1 save_device_def)
qed

lemma heartbeat_typed:
  assumes "evidence_typed (others s)" and "evidence_typed s"
  shows "evidence_typed (snd (heartbeat read st clk others d data s))"
proof (cases "read_heartbeat read clk data s")
  case (Inr h)
  show ?thesis
  proof (cases "store_heartbeat st (clk 3) (clk 4) (dv_id d) h data (others s)")
    case (Inl e)
    then show ?thesis using assms by (simp add: heartbeat_def Inr)
  next
    case (Inr r)
    then have "store_heartbeat st (clk 3) (clk 4) (dv_id d) h data (others s) = Inr ((), snd r)" by (cases r) simp
    from stored_heartbeat_fits [OF \<open>read_heartbeat read clk data s = Inr h\<close> this]
    have "evidence_typed (snd r)" using assms(1) by (auto simp: evidence_typed_def)
    then show ?thesis using Inr \<open>read_heartbeat read clk data s = Inr h\<close> by (cases r) (simp add: heartbeat_def atomic_def)
  qed
qed (simp add: heartbeat_def assms)

lemma point_typed:
  assumes "fix_plausible now p" and "evidence_typed s" and "evidence_typed (others s)"
  shows "evidence_typed (snd (record_point others d p s))"
proof -
  have "row_fits declared_devicelocationpoint (point_row (fix_row d a p))" for a
    using assms(1) by (auto simp: point_row_fits fix_row_def fix_plausible_def location_providers_def location_source_def)
  then show ?thesis
    using assms(2,3) by (auto simp: record_point_def evidence_typed_def Let_def split: option.splits)
qed

lemma points_typed:
  assumes "\<forall>p\<in>set ps. fix_plausible now p" and "\<And>k x. evidence_typed x \<Longrightarrow> evidence_typed (others k x)" and "evidence_typed s"
  shows "evidence_typed (snd (record_points others k d ps s))"
  using assms
proof (induction ps arbitrary: k s)
  case (Cons p ps)
  have "evidence_typed (snd (record_point (others k) d p s))"
    using Cons.prems by (intro point_typed) auto
  then show ?case using Cons.IH Cons.prems by (simp add: split_beta)
qed simp

lemma locations_typed:
  assumes "\<And>k x. evidence_typed x \<Longrightarrow> evidence_typed (others k x)" and "evidence_typed s"
  shows "evidence_typed (snd (location_batch read clk alert_now others d data s))"
proof (cases "read_batch read clk d data")
  case (Inr r)
  obtain current ps where r: "r = (current, ps)" by (cases r)
  obtain points rejected where cp: "collect_points ps [] = (points, rejected)" by (metis surj_pair)
  have "\<forall>p\<in>set points. fix_plausible (clk 0) p"
    using collect_points_sound(3) [OF cp] read_batch_points [OF Inr [unfolded r]] by blast
  then have pts: "evidence_typed (snd (record_points others 0 (dv_id d) points s))"
    by (rule points_typed) (use assms in auto)
  show ?thesis
  proof (cases "store_locations (clk 0) alert_now others (dv_id d) current points s")
    case st: (Inl e)
    then show ?thesis using assms(2) by (simp add: location_batch_def Inr r cp)
  next
    case st: (Inr x)
    obtain rs t where x: "x = (rs, t)" by (cases x)
    obtain rs1 s1 where rp: "record_points others 0 (dv_id d) points s = (rs1, s1)" by (metis surj_pair)
    have refl: "only_alerts u u" for u by (simp add: only_alerts_def)
    obtain d0 where "get_device (dv_id d) s = Inr d0"
      using st by (auto simp: x store_locations_def bind_result_Inr_iff)
    then have "only_alerts (save_device (apply_state (clk 0) current (list_ex (\<lambda>r. snd r = Stored) rs1) d0) s1) t"
      using st by (auto simp: x store_locations_def bind_result_Inr_iff rp Let_def refl split: option.splits if_splits
          dest: raise_all_frame)
    then have "evidence_typed t" using pts by (simp add: evidence_typed_def rp save_device_def only_alertsD)
    then show ?thesis by (simp add: location_batch_def Inr r cp st x)
  qed
qed (simp add: location_batch_def assms(2))

lemma operational_event_typed:
  assumes "\<And>x. evidence_typed x \<Longrightarrow> evidence_typed (others x)" and "evidence_typed s"
  shows "evidence_typed (snd (operational_event read clk others d data s))"
proof -
  have st: "evidence_typed t" if "store_event received e u = Inr t" "evidence_typed u" for received e t u
    using that by (auto simp: store_event_def evidence_typed_def operational_row_fits split: if_splits)
  have al: "evidence_typed u" if "raise_all now rs t = Inr u" "evidence_typed t" for now rs t u
    using that only_alertsD [OF raise_all_frame [OF that(1)]] by (simp add: evidence_typed_def)
  have "evidence_typed (snd (create_event received now e u))" if "evidence_typed u" for received now e u
    using that by (auto simp: create_event_def Let_def split: sum.split option.split intro: st al)
  then show ?thesis
    using assms by (auto simp: operational_event_def submit_event_def split: sum.split option.split)
qed

text \<open>C10: The rows of evidence have the types of their columns. Whatever a device sends as a heartbeat, as a
  batch of location points or as an operational event, and whatever other requests do between the steps,
  every row of the three tables keeps fitting the fields declared for it: texts no longer than their
  column and one of its choices, whole numbers within the range of theirs, decimals with at most the
  digits theirs has once they are rounded, nothing missing in a column that is not null.\<close>

theorem evidence_rows_typed:
  assumes "evidence_typed s" and "\<And>x. evidence_typed x \<Longrightarrow> evidence_typed (others x)"
    and "\<And>k x. evidence_typed x \<Longrightarrow> evidence_typed (interleaved k x)"
  shows "evidence_typed (snd (heartbeat read st clk others d data s))
    \<and> evidence_typed (snd (location_batch read clk alert_now interleaved d data s))
    \<and> evidence_typed (snd (operational_event read clk others d data s))"
  using heartbeat_typed locations_typed operational_event_typed assms by simp

theorem evidence_rows_typed_witness:
  "heartbeats fleet_db = [] \<and> evidence_typed (snd (beat fleet_db)) \<and> length (heartbeats (snd (beat fleet_db))) = 1"
proof -
  have "evidence_typed fleet_db" by code_simp
  then have "evidence_typed (snd (beat fleet_db))"
    using evidence_rows_typed [where others = "\<lambda>s. s" and interleaved = "\<lambda>k s. s"] unfolding beat_def by blast
  moreover have "heartbeats fleet_db = []" "length (heartbeats (snd (beat fleet_db))) = 1" by code_simp+
  ultimately show ?thesis by simp
qed

end
