(* ===== verification/Device_Api.thy ===== *)
theory Device_Api
  imports Enrollment Sync Playback Routes Columns
begin

section \<open>The device API as a whole\<close>

text \<open>
  A request to one of the paths of \<open>api_urls.py\<close>: authentication by the classes of the view, the methods it
  admits, the view, and the status of the answer. One request runs alone here; what concurrent requests do
  between the steps of a view is studied with each view. The rate limits of the framework, which are kept in
  its cache, are left out.
\<close>

subsection \<open>Requests and answers\<close>

record api_request =
  aq_method :: string
  aq_authorization :: string
  aq_ip :: string
  aq_data :: payload

record api_env =
  ae_settings :: settings
  ae_hash :: hash
  ae_clock :: clock
  ae_throttle_clock :: clock
  ae_auth_clock :: clock
  ae_read :: datetime_reader
  ae_decode :: "string \<Rightarrow> json result"
  ae_uuid :: id
  ae_secret :: string
  ae_tokens :: raw_tokens
  ae_sha :: "string \<Rightarrow> string"
  ae_storage_url :: "string \<Rightarrow> string option"

text \<open>
  The status of an exception. Failed authentication is 401 where the view has an authentication class, whose
  header goes with it, and 403 where it has none.
\<close>

definition api_status :: "bool \<Rightarrow> error \<Rightarrow> int" where
  "api_status authenticates e = (case e of
       ValidationError f m \<Rightarrow> 400 | ParseError m \<Rightarrow> 400
     | AuthenticationFailed m \<Rightarrow> if authenticates then 401 else 403
     | PermissionDenied m \<Rightarrow> 403 | Http404 \<Rightarrow> 404 | Throttled n \<Rightarrow> 429
     | PayloadTooLarge \<Rightarrow> 413 | UnsupportedEncoding \<Rightarrow> 415 | _ \<Rightarrow> 500)"

definition replied :: "bool \<Rightarrow> ('a \<Rightarrow> int) \<Rightarrow> 'a result \<times> db \<Rightarrow> int \<times> db" where
  "replied authenticates good r = (case fst r of Inl e \<Rightarrow> api_status authenticates e | Inr x \<Rightarrow> good x, snd r)"

definition created :: "bool \<Rightarrow> int" where
  "created duplicate = (if duplicate then 200 else 201)"

subsection \<open>Views\<close>

fun api_methods :: "api_view \<Rightarrow> string list" where
  "api_methods ApiSync = [''GET'']"
| "api_methods ApiManagementCommands = [''GET'', ''POST'']"
| "api_methods v = [''POST'']"

text \<open>A view is reached with one of its methods; \<open>OPTIONS\<close> is answered by the framework.\<close>

definition admitted :: "api_view \<Rightarrow> string \<Rightarrow> (db \<Rightarrow> int \<times> db) \<Rightarrow> db \<Rightarrow> int \<times> db" where
  "admitted v m f s = (if m = ''OPTIONS'' then (200, s) else if m \<in> set (api_methods v) then f s else (405, s))"

text \<open>The views of an authenticated device.\<close>

fun device_call :: "api_env \<Rightarrow> api_view \<Rightarrow> device \<Rightarrow> payload \<Rightarrow> db \<Rightarrow> int \<times> db" where
  "device_call e ApiSync d data s =
     replied True (\<lambda>x. 200) (sync_manifest (ae_settings e) (ae_sha e) (ae_storage_url e) (ae_clock e) d s)"
| "device_call e ApiHeartbeat d data s =
     replied True (\<lambda>x. 200) (heartbeat (ae_read e) (ae_settings e) (ae_clock e) (\<lambda>x. x) d data s)"
| "device_call e ApiLocationBatches d data s =
     replied True (\<lambda>x. 200) (location_batch (ae_read e) (ae_clock e) (ae_auth_clock e 9) (\<lambda>k x. x) d data s)"
| "device_call e ApiPlaybackBatches d data s =
     replied True created (playback_batch (ae_read e) (ae_clock e) (ae_auth_clock e 8) (ae_auth_clock e 9) (\<lambda>x. x) d data s)"
| "device_call e ApiOperationalEvents d data s =
     replied True created (operational_event (ae_read e) (ae_clock e) (\<lambda>x. x) d data s)"
| "device_call e ApiManagementBootstrap d data s =
     (case management_bootstrap (ae_hash e) (rt_management (ae_tokens e)) d s of
        Inl err \<Rightarrow> (api_status True err, s) | Inr t \<Rightarrow> (200, t))"
| "device_call e v d data s = (404, s)"

definition command_call :: "api_env \<Rightarrow> string \<Rightarrow> device \<Rightarrow> payload \<Rightarrow> db \<Rightarrow> int \<times> db" where
  "command_call e m d data s =
     (if m = ''POST''
      then (case acknowledge_command (ae_clock e 0) (dv_id d) (jget_default data ''command_id'' (JStr [])) s of
          Inl err \<Rightarrow> (api_status True err, s) | Inr t \<Rightarrow> (200, t))
      else (200, snd (deliver_command (ae_clock e 0) (dv_id d) s)))"

definition api_visit :: "api_env \<Rightarrow> api_view \<Rightarrow> api_request \<Rightarrow> db \<Rightarrow> int \<times> db" where
  "api_visit e v rq s =
     (let st = ae_settings e; hash = ae_hash e; data = aq_data rq; m = aq_method rq in
      if v = ApiEnrollmentChallenge
      then admitted v m (\<lambda>s. replied False (\<lambda>x. 201) (request_challenge st hash (ae_throttle_clock e) (ae_clock e) (aq_ip rq)
          (ae_uuid e) (ae_secret e) data s)) s
      else if v = ApiEnroll
      then admitted v m (\<lambda>s. replied False (\<lambda>x. 201) (enroll st hash (ae_decode e) (ae_throttle_clock e) (ae_clock e) (aq_ip rq)
          (ae_tokens e) (\<lambda>x. x) data s)) s
      else if v = ApiManagementCommands
      then (case authenticate_management hash (aq_authorization rq) s of
          Inl err \<Rightarrow> (api_status True err, s)
        | Inr d \<Rightarrow> admitted v m (command_call e m d data) s)
      else (case authenticate_access st hash (ae_auth_clock e) (aq_ip rq) (aq_authorization rq) s of
          (Inl err, t) \<Rightarrow> (api_status True err, t)
        | (Inr who, t) \<Rightarrow>
            if v = ApiToken
            then admitted v m (\<lambda>t. replied True (\<lambda>x. 200) (token_refresh st hash (ae_throttle_clock e) (ae_clock e) (aq_ip rq)
                (rt_access (ae_tokens e)) data t)) t
            else (case who of None \<Rightarrow> (401, t) | Some (d, k) \<Rightarrow> admitted v m (device_call e v d data) t)))"

subsection \<open>What belongs to a device\<close>

text \<open>The device whose secret the request presents: a token, a credential, a code, or a challenge for one.\<close>

definition code_owner :: "hash \<Rightarrow> payload \<Rightarrow> db \<Rightarrow> id option" where
  "code_owner hash data s =
     map_option ec_device (lookup_by ec_code_hash (hash (strip (text_field data ''code''))) (enrollment_codes s))"

definition presented :: "api_env \<Rightarrow> api_view \<Rightarrow> api_request \<Rightarrow> db \<Rightarrow> id option" where
  "presented e v rq s =
     (let hash = ae_hash e; data = aq_data rq in
      if v = ApiEnrollmentChallenge then code_owner hash data s
      else if v = ApiEnroll
      then (if truthy (jget data ''challenge_id'') \<and> text_field data ''integrity_token'' \<noteq> []
            then (case uuid_key (jget data ''challenge_id'') of Inl err \<Rightarrow> None
              | Inr k \<Rightarrow> map_option (\<lambda>ch. challenge_device ch s) (lookup_by ch_id k (challenges s)))
            else code_owner hash data s)
      else if v = ApiToken
      then map_option cr_device (lookup_by cr_refresh_hash (hash (text_field data ''refresh_token'')) (credentials s))
      else if v = ApiManagementCommands
      then (case authenticate_management hash (aq_authorization rq) s of Inl err \<Rightarrow> None | Inr d \<Rightarrow> Some (dv_id d))
      else (case fst (authenticate_access (ae_settings e) hash (ae_auth_clock e) (aq_ip rq) (aq_authorization rq) s) of
          Inr (Some (d, k)) \<Rightarrow> Some (dv_id d) | _ \<Rightarrow> None))"

record device_rows =
  dw_device :: "device option"
  dw_credentials :: "device_credential list"
  dw_tokens :: "access_token list"
  dw_management :: "management_credential list"
  dw_codes :: "enrollment_code list"
  dw_challenges :: "enrollment_challenge list"
  dw_commands :: "device_command list"
  dw_heartbeats :: "device_heartbeat list"
  dw_points :: "location_point list"
  dw_events :: "operational_event_row list"
  dw_batches :: "playback_batch_row list"
  dw_playback :: "playback_event list"
  dw_alerts :: "alert list"

definition rows_of_device :: "id \<Rightarrow> db \<Rightarrow> device_rows" where
  "rows_of_device j s =
     (let creds = filter (\<lambda>c. cr_device c = j) (credentials s); codes = filter (\<lambda>c. ec_device c = j) (enrollment_codes s);
          batches = filter (\<lambda>b. pb_device b = j) (playback_batches s) in
      \<lparr>dw_device = find_device j s, dw_credentials = creds,
       dw_tokens = filter (\<lambda>k. tk_credential k \<in> cr_id ` set creds) (access_tokens s),
       dw_management = filter (\<lambda>m. mc_device m = j) (management_credentials s), dw_codes = codes,
       dw_challenges = filter (\<lambda>x. ch_enrollment x \<in> ec_id ` set codes) (challenges s),
       dw_commands = filter (\<lambda>c. dc_device c = j) (commands s), dw_heartbeats = filter (\<lambda>h. hb_device h = j) (heartbeats s),
       dw_points = filter (\<lambda>p. lp_device p = j) (location_points s),
       dw_events = filter (\<lambda>x. oe_device x = j) (operational_events s), dw_batches = batches,
       dw_playback = filter (\<lambda>x. pe_batch x \<in> pb_id ` set batches) (playback_events s),
       dw_alerts = filter (\<lambda>a. al_device a = Some j) (alerts s)\<rparr>)"

text \<open>What no device owns and no device may change.\<close>

definition shared_tables :: "db \<Rightarrow> db" where
  "shared_tables s = empty_db\<lparr>platform := platform s, qualifications := qualifications s, login_throttles := login_throttles s,
     users := users s, drivers := drivers s, vehicles := vehicles s, playlists := playlists s,
     media_assets := media_assets s, playlist_items := playlist_items s, media_deletions := media_deletions s,
     assignments := assignments s, corrections := corrections s, audits := audits s\<rparr>"

definition confined :: "id option \<Rightarrow> db \<Rightarrow> db \<Rightarrow> bool" where
  "confined w s t = (shared_tables t = shared_tables s \<and> (\<forall>j. w \<noteq> Some j \<longrightarrow> rows_of_device j t = rows_of_device j s))"

lemma confined_refl [simp]: "confined w s s"
  by (simp add: confined_def)

lemma confined_trans: "confined w s t \<Longrightarrow> confined w t u \<Longrightarrow> confined w s u"
  by (simp add: confined_def)

lemma confined_weaken: "confined None s t \<Longrightarrow> confined w s t"
  by (simp add: confined_def)

lemmas confined_unfold = confined_def rows_of_device_def shared_tables_def Let_def

lemma confined_throttles: "confined w s (s\<lparr>api_throttles := x\<rparr>)"
  by (simp add: confined_unfold find_device_def)

lemma confined_save_device: "w = Some (dv_id d) \<Longrightarrow> confined w s (save_device d s)"
  by (simp add: confined_unfold save_device_def find_device_def table_simps)

subsection \<open>Alerts of one device\<close>

lemma filter_save_other:
  assumes "distinct (map key rows)" and "a \<in> set rows" and "key x = key a" and "\<not> P a" and "\<not> P x"
  shows "filter P (save_by key x rows) = filter P rows"
  using assms by (intro filter_save_by_same) (metis distinct_map inj_onD)+

lemma raise_alert_confined:
  assumes ok: "alerts_ok s" and run: "raise_alert now d c sev m s = Inr t"
  shows "confined d s t"
proof -
  obtain b n where o: "open_or_escalate_racing [] now d c sev m s = Inr ((b, n), t)"
    using run by (auto simp: raise_alert_def open_or_escalate_alert_def bind_result_Inr_iff)
  consider (found) a where "find_open_alert d c (alerts s) = Some a" "escalate a sev m s = (b, t)"
    | (inserted) "insert_alert now d c sev m s = Inr (b, t)"
    using o by (auto simp: open_or_escalate_racing_def Let_def insert_alert_def find_open_None
        split: if_splits option.splits sum.splits prod.splits)
  then show ?thesis
  proof cases
    case found
    have a: "a \<in> set (alerts s)" "al_device a = d"
      using found(1) by (auto dest: find_open_SomeD)
    have dist: "distinct (map al_id (alerts s))" using ok by (simp add: alerts_ok_def unique_open_def)
    have "filter (\<lambda>x. al_device x = Some j) (save_by al_id (a\<lparr>al_severity := sev, al_message := m\<rparr>) (alerts s))
        = filter (\<lambda>x. al_device x = Some j) (alerts s)" if "d \<noteq> Some j" for j
      by (rule filter_save_other [OF dist a(1)]) (use a(2) that in simp_all)
    then show ?thesis
      using found(2) by (auto simp: escalate_def confined_unfold find_device_def split: if_splits)
  next
    case inserted
    then show ?thesis
      by (auto simp: insert_alert_def confined_unfold find_device_def split: if_splits)
  qed
qed

lemma raise_all_confined:
  assumes "alerts_ok s" and "raise_all now rs s = Inr t" and "\<And>a. a \<in> set rs \<Longrightarrow> fst (request_key a) = w"
  shows "confined w s t"
proof -
  have "alerts_ok t \<and> confined w s t"
  proof (rule fold_result_invariant [OF assms(2) [unfolded raise_all_def], where P = "\<lambda>t. alerts_ok t \<and> confined w s t"])
    fix a u v assume a: "a \<in> set rs" and u: "alerts_ok u \<and> confined w s u" and r: "raise_request now a u = Inr v"
    obtain d c sev m where "a = AlertRequest d c sev m" by (cases a)
    with r assms(3) [OF a] have "raise_alert now w c sev m u = Inr v" by simp
    then show "alerts_ok v \<and> confined w s v"
      using u raise_alert_ok(1) raise_alert_confined confined_trans by blast
  qed (use assms(1) in simp)
  then show ?thesis by blast
qed

subsection \<open>Every view keeps to its device\<close>

text \<open>The keys that the views look rows up by are distinct.\<close>

definition api_keys_ok :: "db \<Rightarrow> bool" where
  "api_keys_ok s = (auth_ok s \<and> alerts_ok s \<and> distinct (map dc_id (commands s)))"

lemma lookup_update_other:
  "j \<noteq> i \<Longrightarrow> (\<And>r. key (f r) = key r) \<Longrightarrow> lookup_by key j (update_where (\<lambda>x. key x = i) f rows) = lookup_by key j rows"
  by (induction rows) (auto simp: lookup_by_def update_where_def)

lemma mark_confined: "confined (Some i) s (mark_successful_sync now i s)"
  by (simp add: mark_successful_sync_def confined_unfold find_device_def lookup_update_other)

lemma sync_confined: "confined (Some (dv_id d)) s (snd (sync_manifest st sha url clk d s))"
  by (auto simp: sync_manifest_def Let_def mark_confined split: sum.split option.split)

lemma heartbeat_confined:
  assumes "alerts_ok s"
  shows "confined (Some (dv_id d)) s (snd (heartbeat read st clk (\<lambda>x. x) d data s))"
proof (cases "read_heartbeat read clk data s")
  case (Inr h)
  show ?thesis
  proof (cases "store_heartbeat st (clk 3) (clk 4) (dv_id d) h data s")
    case st: (Inr r)
    obtain u t where r: "r = (u, t)" by (cases r)
    obtain d0 row s1 where fd: "find_device (dv_id d) s = Some d0" and row: "hb_device row = dv_id d"
      and s1: "s1 = save_device (apply_heartbeat h (clk 3) d0) (s\<lparr>heartbeats := heartbeats s @ [row], next_pk := next_pk s + 1\<rparr>)"
      and al: "raise_all (clk 4) (heartbeat_alerts st h d0 s1) s1 = Inr t"
      using st [unfolded r] by (rule stored_heartbeat_state)
    have "alerts_ok s1" using assms by (auto simp: s1 alerts_ok_def save_device_def)
    moreover have "fst (request_key a) = Some (dv_id d)" if "a \<in> set (heartbeat_alerts st h d0 s1)" for a
      using that find_device_id [OF fd] by (auto simp: heartbeat_alerts_def split: option.splits if_splits)
    ultimately have "confined (Some (dv_id d)) s1 t" using al by (intro raise_all_confined)
    moreover have "confined (Some (dv_id d)) s (s\<lparr>heartbeats := heartbeats s @ [row], next_pk := next_pk s + 1\<rparr>)"
      using row by (auto simp: confined_unfold find_device_def)
    moreover have "confined (Some (dv_id d)) (s\<lparr>heartbeats := heartbeats s @ [row], next_pk := next_pk s + 1\<rparr>) s1"
      unfolding s1 using find_device_id [OF fd] by (intro confined_save_device) (simp add: apply_heartbeat_simps)
    ultimately have "confined (Some (dv_id d)) s t" by (meson confined_trans)
    then show ?thesis by (simp add: heartbeat_def Inr st r)
  qed (simp add: heartbeat_def Inr)
qed (simp add: heartbeat_def)

lemma record_point_confined: "confined (Some d) s (snd (record_point (\<lambda>x. x) d p s))"
  by (auto simp: record_point_def Let_def confined_unfold find_device_def fix_row_def split: option.split)

lemma record_points_confined: "confined (Some d) s (snd (record_points (\<lambda>k x. x) k d ps s))"
proof (induction ps arbitrary: k s)
  case (Cons p ps)
  show ?case
    using confined_trans [OF record_point_confined [of d s p] Cons.IH] by (simp add: split_beta)
qed simp

lemma record_points_alerts: "alerts (snd (record_points (\<lambda>k x. x) k d ps s)) = alerts s
    \<and> next_pk (snd (record_points (\<lambda>k x. x) k d ps s)) = next_pk s"
proof (induction ps arbitrary: k s)
  case (Cons p ps)
  have "alerts (snd (record_point (\<lambda>x. x) d p s)) = alerts s \<and> next_pk (snd (record_point (\<lambda>x. x) d p s)) = next_pk s"
    by (auto simp: record_point_def Let_def split: option.split)
  then show ?case using Cons.IH by (simp add: split_beta)
qed simp

lemma locations_confined:
  assumes "alerts_ok s"
  shows "confined (Some (dv_id d)) s (snd (location_batch read clk now (\<lambda>k x. x) d data s))"
proof (cases "read_batch read clk d data")
  case (Inr r)
  obtain current ps where r: "r = (current, ps)" by (cases r)
  obtain points rejected where cp: "collect_points ps [] = (points, rejected)" by (metis surj_pair)
  show ?thesis
  proof (cases "store_locations (clk 0) now (\<lambda>k x. x) (dv_id d) current points s")
    case st: (Inl e)
    then show ?thesis by (simp add: location_batch_def Inr r cp)
  next
    case st: (Inr x)
    obtain rs t where x: "x = (rs, t)" by (cases x)
    obtain rs1 s1 where rp: "record_points (\<lambda>k x. x) 0 (dv_id d) points s = (rs1, s1)" by (metis surj_pair)
    obtain d0 where d0: "get_device (dv_id d) s = Inr d0"
      using st by (auto simp: x store_locations_def bind_result_Inr_iff)
    define s2 where "s2 = save_device (apply_state (clk 0) current (list_ex (\<lambda>r. snd r = Stored) rs1) d0) s1"
    have "confined (Some (dv_id d)) s s1" using record_points_confined [of "dv_id d" s 0 points] by (simp add: rp)
    moreover have "confined (Some (dv_id d)) s1 s2"
      unfolding s2_def using d0 find_device_id by (intro confined_save_device) (force simp: get_device_Inr)
    moreover have "confined (Some (dv_id d)) s2 t"
    proof -
      have "alerts_ok s2" using assms record_points_alerts [of 0 "dv_id d" points s] by (simp add: rp s2_def alerts_ok_def save_device_def)
      moreover have "s2 = t \<or> (\<exists>c. raise_all now (state_alerts c (dv_id d)) s2 = Inr t)"
        using st by (auto simp: x store_locations_def bind_result_Inr_iff rp d0 Let_def s2_def split: option.splits if_splits)
      moreover have "fst (request_key a) = Some (dv_id d)" if "a \<in> set (state_alerts c (dv_id d))" for a c
        using that by (auto simp: state_alerts_def split: if_splits)
      ultimately show ?thesis using raise_all_confined by fastforce
    qed
    ultimately have "confined (Some (dv_id d)) s t" by (meson confined_trans)
    then show ?thesis by (simp add: location_batch_def Inr r cp st x)
  qed
qed (simp add: location_batch_def)

lemma event_confined:
  assumes "alerts_ok s"
  shows "confined (Some (dv_id d)) s (snd (operational_event read clk (\<lambda>x. x) d data s))"
proof (cases "read_event read (clk 0) d data")
  case (Inr ev)
  have dev: "er_device ev = dv_id d" using Inr by (auto simp: read_event_def bind_result_Inr_iff split: option.splits)
  have st: "confined (Some (dv_id d)) s t \<and> alerts_ok t" if "store_event received ev s = Inr t" for received t
    using that dev assms by (auto simp: store_event_def confined_unfold find_device_def alerts_ok_def split: if_splits)
  have al: "fst (request_key a) = Some (dv_id d)" if "a \<in> set (event_alerts ev)" for a
    using that dev by (auto simp: event_alerts_def split: event_kind.splits)
  have "confined (Some (dv_id d)) s (snd (create_event received now ev s))" for received now
    by (auto simp: create_event_def Let_def split: sum.split option.split dest!: st
        intro: confined_trans raise_all_confined al)
  then show ?thesis by (auto simp: operational_event_def submit_event_def Inr split: option.split)
qed (simp add: operational_event_def)

lemma playback_confined: "confined (Some (dv_id d)) s (snd (playback_batch read clk received now (\<lambda>x. x) d data s))"
proof -
  have "confined (Some i) s t" if "store_batch received now i a n s = Inr t" for i a n t
  proof -
    have "nb_id n \<notin> pb_id ` set (playback_batches s)"
      using that by (auto simp: store_batch_def lookup_by_None split: if_splits)
    then have "filter (\<lambda>x. pe_batch x \<in> pb_id ` set (filter (\<lambda>b. pb_device b = j) (playback_batches s))) (map (event_row (nb_id n)) (nb_events n)) = []" for j
      by (auto simp: filter_empty_conv)
    then show ?thesis
      using that by (simp add: store_batch_def confined_unfold find_device_def lookup_update_other del: set_filter split: if_splits)
        (auto simp del: set_filter simp: lookup_update_other)
  qed
  then show ?thesis
    by (auto simp: playback_batch_def create_batch_def Let_def split: sum.split option.split prod.split)
qed

lemma management_confined:
  "issue_management_credential hash raw i s = Inr t \<Longrightarrow> confined (Some i) s t"
proof -
  assume r: "issue_management_credential hash raw i s = Inr t"
  have "filter (\<lambda>m. mc_device m = j) (save_by mc_device \<lparr>mc_device = i, mc_token_hash = hash raw\<rparr> (management_credentials s))
      = filter (\<lambda>m. mc_device m = j) (management_credentials s)" if "i \<noteq> j" for j
    by (rule filter_save_by_same) (use that in auto)
  then show ?thesis
    using r by (auto simp: issue_management_credential_def Let_def confined_unfold find_device_def split: if_splits)
qed

lemma find_mem: "find P xs = Some x \<Longrightarrow> x \<in> set xs \<and> P x"
  by (auto simp: find_Some_iff)

lemma filter_save_command:
  assumes "distinct (map dc_id (commands s))" and "c \<in> set (commands s)" and "dc_device c = i" and "dc_id e = dc_id c" and "dc_device e = i" and "i \<noteq> j"
  shows "filter (\<lambda>c. dc_device c = j) (save_by dc_id e (commands s)) = filter (\<lambda>c. dc_device c = j) (commands s)"
  by (rule filter_save_other [OF assms(1,2,4)]) (use assms in auto)

lemma commands_confined:
  assumes "distinct (map dc_id (commands s))"
  shows "confined (Some (dv_id d)) s (snd (command_call e m d data s))"
proof -
  have ack: "confined (Some i) s t" if r: "acknowledge_command now i v s = Inr t" for now i v t
  proof -
    obtain c where "c \<in> set (commands s)" "dc_device c = i" "t = s\<lparr>commands := save_by dc_id (c\<lparr>dc_acknowledged_at := Some now\<rparr>) (commands s)\<rparr>"
      using r by (auto simp: acknowledge_command_def pending_command_def split: option.splits dest!: find_mem)
    then show ?thesis using filter_save_command [OF assms] by (simp add: confined_unfold find_device_def)
  qed
  have del: "confined (Some i) s (snd (deliver_command now i s))" for now i
  proof (cases "order_first dc_created_at (filter (pending_command now i) (commands s))")
    case (Some c)
    have "c \<in> set (commands s)" "dc_device c = i" using order_first_SomeD [OF Some] by (auto simp: pending_command_def)
    then show ?thesis using Some filter_save_command [OF assms]
      by (simp add: deliver_command_def Let_def confined_unfold find_device_def)
  qed (simp add: deliver_command_def)
  show ?thesis using ack del by (auto simp: command_call_def split: sum.split)
qed

subsection \<open>Enrollment and authentication\<close>

lemma throttle_confined: "confined w s (snd (enforce_api_throttle clk key limit n s))"
  using throttle_only [of clk key limit n s] confined_throttles
  by (metis prod.collapse)

lemma throttle_alerts:
  "snd (enforce_api_throttle clk key limit n s) = s\<lparr>api_throttles := api_throttles (snd (enforce_api_throttle clk key limit n s))\<rparr>"
  using throttle_only [of clk key limit n s] by (metis prod.collapse)

lemma note_confined:
  assumes "alerts_ok s"
  shows "confined w s (snd (note_bad_request st hash clk ip action message e s))"
proof -
  obtain wait t where w: "throttle_wait clk (throttle_key hash st action ip) 5 900 s = (wait, t)" by (metis surj_pair)
  then have e: "enforce_api_throttle clk (throttle_key hash st action ip) 5 900 s = (if wait \<noteq> 0 then Inl (Throttled wait) else Inr (), t)"
    by (simp add: enforce_api_throttle_def)
  have t: "t = s\<lparr>api_throttles := api_throttles t\<rparr>" using throttle_only [OF e] .
  have "alerts_ok t" using assms by (subst t) (simp add: alerts_ok_def)
  moreover have "confined w s t" by (subst t) (rule confined_throttles)
  ultimately show ?thesis
    by (auto simp: note_bad_request_def w split: sum.split)
      (blast intro: confined_trans confined_weaken raise_alert_confined)
qed

lemma issue_token_confined:
  assumes ok: "auth_ok s" and c: "c \<in> set (credentials s)" "cr_device c = i"
    and r: "issue_access_token st hash now raw (cr_id c) s = Inr (k, t)"
  shows "confined (Some i) s t"
proof -
  have "cr_id c \<notin> cr_id ` {x \<in> set (credentials s). cr_device x = j}" if "i \<noteq> j" for j
    using ok c that by (auto simp: auth_ok_def dest: distinct_map_unique)
  then show ?thesis
    using issue_access_token_Inr(1,2) [OF r] by (auto simp: confined_unfold find_device_def)
qed

lemma issue_credential_confined:
  assumes ok: "auth_ok s" and r: "issue_credential hash now raw i s = Inr (c, t)"
  shows "confined (Some i) s t"
  using issue_credential_Inr [OF r] by (auto simp: confined_unfold find_device_def)

lemma revoke_confined:
  "confined (Some i) s (s\<lparr>credentials := update_where (\<lambda>x. cr_device x = i \<and> cr_revoked_at x = None)
     (\<lambda>x. x\<lparr>cr_revoked_at := v\<rparr>) (credentials s)\<rparr>)"
proof -
  have "filter (\<lambda>c. cr_device c = j) (update_where (\<lambda>x. cr_device x = i \<and> cr_revoked_at x = None) (\<lambda>x. x\<lparr>cr_revoked_at := v\<rparr>) rows)
      = filter (\<lambda>c. cr_device c = j) rows" if "i \<noteq> j" for j rows
    using that by (induction rows) (auto simp: update_where_def)
  then show ?thesis by (auto simp: confined_unfold find_device_def simp del: set_filter)
qed

lemma use_code_confined:
  assumes "distinct (map ec_id (enrollment_codes s))" and "c \<in> set (enrollment_codes s)" and "ec_device c = i"
  shows "confined (Some i) s (s\<lparr>enrollment_codes := save_by ec_id (c\<lparr>ec_used_at := v\<rparr>) (enrollment_codes s)\<rparr>)"
proof -
  have "filter (\<lambda>x. ec_device x = j) (save_by ec_id (c\<lparr>ec_used_at := v\<rparr>) (enrollment_codes s)) = filter (\<lambda>x. ec_device x = j) (enrollment_codes s)"
    if "i \<noteq> j" for j
    by (rule filter_save_other [OF assms(1,2)]) (use assms(3) that in auto)
  then show ?thesis by (auto simp: confined_unfold find_device_def simp del: set_filter)
qed

lemma map_save_same:
  assumes "distinct (map key rows)" and "x \<in> set rows" and "key y = key x" and "g y = g x"
  shows "map g (save_by key y rows) = map g rows"
  unfolding save_by_def map_map using assms by (intro map_cong refl) (auto dest: distinct_map_unique)

lemma issue_device_confined:
  assumes ok: "auth_ok s" and c: "c \<in> set (enrollment_codes s)" "ec_device c = dv_id d"
    and r: "issue_device_credentials st hash clk raws c d ah dd s = Inr (x, t)"
  shows "confined (Some (dv_id d)) s t"
proof -
  let ?i = "Some (dv_id d)" and ?e = "enrolled_device d ah dd"
  define s1 where "s1 = save_device ?e s"
  define s2 where "s2 = s1\<lparr>enrollment_codes := save_by ec_id (c\<lparr>ec_used_at := Some (clk 5)\<rparr>) (enrollment_codes s1)\<rparr>"
  define s3 where "s3 = s2\<lparr>credentials := update_where (\<lambda>x. cr_device x = dv_id d \<and> cr_revoked_at x = None)
                    (\<lambda>x. x\<lparr>cr_revoked_at := Some (clk 6)\<rparr>) (credentials s2)\<rparr>"
  obtain n s4 k s5 where 4: "issue_credential hash (clk 7) (rt_refresh raws) (dv_id d) s3 = Inr (n, s4)"
    and 5: "issue_access_token st hash (clk 8) (rt_access raws) (cr_id n) s4 = Inr (k, s5)"
    and 6: "issue_management_credential hash (rt_management raws) (dv_id d) s5 = Inr t"
    using r by (auto simp: issue_device_credentials_def bind_result_Inr_iff Let_def s1_def s2_def s3_def)
  have ok3: "auth_ok s3"
    using ok map_save_same [of ec_id "enrollment_codes s" c "c\<lparr>ec_used_at := Some (clk 5)\<rparr>" ec_code_hash] c(1)
    by (auto simp: auth_ok_def s1_def s2_def s3_def save_device_def table_simps list_all_iff elim!: update_where_cases)
  have ok4: "auth_ok s4"
    using ok3 issue_credential_Inr(1,2) [OF 4] by (auto simp: auth_ok_def list_all_iff)
  have "confined ?i s s1" by (simp add: s1_def confined_save_device enrolled_device_def)
  moreover have "confined ?i s1 s2" unfolding s2_def
    by (rule use_code_confined) (use ok c in \<open>simp_all add: s1_def save_device_def auth_ok_def\<close>)
  moreover have "confined ?i s2 s3" unfolding s3_def by (rule revoke_confined)
  moreover have "confined ?i s3 s4" using ok3 4 by (rule issue_credential_confined)
  moreover have "confined ?i s4 s5" using ok4 _ _ 5 by (rule issue_token_confined) (use issue_credential_Inr [OF 4] in auto)
  moreover have "confined ?i s5 t" using 6 by (rule management_confined)
  ultimately show ?thesis by (meson confined_trans)
qed

lemma challenge_confined:
  assumes "create_challenge st hash clk uuid secret data s = Inr (ch, t)"
    and "distinct (map ec_id (enrollment_codes s))"
  shows "confined (code_owner hash data s) s t"
proof -
  obtain c where c: "lookup_by ec_code_hash (hash (strip (text_field data ''code''))) (enrollment_codes s) = Some c"
    and t: "ch_enrollment ch = ec_id c" "t = s\<lparr>challenges := challenges s @ [ch]\<rparr>"
    using assms(1) by (auto simp: create_challenge_def code_device_def Let_def bind_result_Inr_iff split: option.splits if_splits)
  have "c \<in> set (enrollment_codes s)" using lookup_by_SomeD [OF c] by simp
  then have "ec_id c \<notin> ec_id ` {x \<in> set (enrollment_codes s). ec_device x = j}" if "ec_device c \<noteq> j" for j
    using assms(2) that by (auto dest: distinct_map_unique)
  then show ?thesis using t by (auto simp: code_owner_def c confined_unfold find_device_def)
qed

lemma enroll_body_confined:
  assumes ok: "auth_ok s"
  shows "confined (presented e ApiEnroll rq s) s
    (snd (enroll_body st (ae_hash e) decode clk raws (\<lambda>x. x) (aq_data rq) s))"
proof (cases "enroll_body st (ae_hash e) decode clk raws (\<lambda>x. x) (aq_data rq) s")
  case (Pair r t)
  show ?thesis
  proof (cases r)
    case (Inl err)
    then have "t = s" using Pair
      by (auto simp: enroll_body_def Let_def atomic_def split: sum.splits if_splits prod.splits)
    then show ?thesis by (simp add: Pair)
  next
    case (Inr x)
    obtain dev tk where x: "x = (dev, tk)" by (cases x)
    have b: "enroll_body st (ae_hash e) decode clk raws (\<lambda>x. x) (aq_data rq) s = (Inr (dev, tk), t)" using Pair Inr x by simp
    show ?thesis
      using b
    proof (cases rule: enroll_body_Inr)
      case (challenge k ch c d)
      let ?v = "s\<lparr>challenges := save_by ch_id (k\<lparr>ch_used_at := Some (clk 4)\<rparr>) (challenges s)\<rparr>"
      obtain u where u: "uuid_key (jget (aq_data rq) ''challenge_id'') = Inr u" "lookup_by ch_id u (challenges s) = Some ch"
        using check_challenge_Inr [OF challenge(3)] by blast
      have k: "k = ch" "k \<in> set (challenges s)"
        using challenge(4) lookup_by_SomeD [OF u(2)] u(2) by (auto dest: lookup_by_SomeD)
      have i: "ec_device c = dv_id d" "c \<in> set (enrollment_codes s)"
        using challenge(5,6) k(1) find_device_id [OF challenge(6)] by (auto simp: challenge_device_def dest: lookup_by_SomeD)
      have "confined (Some (dv_id d)) s ?v"
      proof -
        have "filter (\<lambda>x. ch_enrollment x \<in> ec_id ` {x \<in> set (enrollment_codes s). ec_device x = j}) (save_by ch_id (k\<lparr>ch_used_at := Some (clk 4)\<rparr>) (challenges s))
            = filter (\<lambda>x. ch_enrollment x \<in> ec_id ` {x \<in> set (enrollment_codes s). ec_device x = j}) (challenges s)" if "dv_id d \<noteq> j" for j
        proof (rule filter_save_other [OF _ k(2)])
          show "distinct (map ch_id (challenges s))" using ok by (simp add: auth_ok_def)
          have "ch_enrollment k = ec_id c" using challenge(5) by (auto dest: lookup_by_SomeD)
          then show "\<not> ch_enrollment k \<in> ec_id ` {x \<in> set (enrollment_codes s). ec_device x = j}"
            using ok i that by (auto simp: auth_ok_def dest: distinct_map_unique)
          then show "\<not> ch_enrollment (k\<lparr>ch_used_at := Some (clk 4)\<rparr>) \<in> ec_id ` {x \<in> set (enrollment_codes s). ec_device x = j}" by simp
        qed simp
        then show ?thesis by (auto simp: confined_unfold find_device_def)
      qed
      moreover have "confined (Some (dv_id d)) ?v t"
        by (rule issue_device_confined [OF _ _ i(1) challenge(9)]) (use ok i in \<open>simp_all add: auth_ok_def table_simps\<close>)
      moreover have "presented e ApiEnroll rq s = Some (dv_id d)"
        using challenge(1,2,6) u find_device_id [OF challenge(6)] by (simp add: presented_def Let_def)
      ultimately show ?thesis by (auto simp: Pair intro: confined_trans)
    next
      case (code dd c0 c d)
      have c0: "lookup_by ec_code_hash (ae_hash e (strip (text_field (aq_data rq) ''code''))) (enrollment_codes s) = Some c0"
        using code(3) by (auto simp: check_code_def bind_result_Inr_iff split: option.splits)
      have "c0 \<in> set (enrollment_codes s)" using lookup_by_SomeD [OF c0] by simp
      then have c: "c = c0" using code(4) ok by (auto simp: auth_ok_def dest: lookup_by_SomeD distinct_map_unique)
      then have i: "ec_device c = dv_id d" "c \<in> set (enrollment_codes s)"
        using code(5) find_device_id \<open>c0 \<in> set (enrollment_codes s)\<close> by force+
      have "presented e ApiEnroll rq s = code_owner (ae_hash e) (aq_data rq) s" using code(1) by (auto simp: presented_def Let_def)
      then have "presented e ApiEnroll rq s = Some (dv_id d)" using c0 c i by (simp add: code_owner_def)
      then show ?thesis using issue_device_confined [OF ok i(2,1) code(7)] by (simp add: Pair)
    qed
  qed
qed

subsection \<open>A request as a whole\<close>

lemma replied_snd [simp]: "snd (replied b f r) = snd r"
  by (simp add: replied_def)

lemma admitted_confined: "(confined w s (snd (f s))) \<Longrightarrow> confined w s (snd (admitted v m f s))"
  by (simp add: admitted_def)

lemma throttled_confined:
  assumes "\<And>x. confined w (s\<lparr>api_throttles := x\<rparr>) (snd (body (s\<lparr>api_throttles := x\<rparr>)))"
  shows "confined w s (snd (throttled clk key limit body s))"
proof -
  obtain r t where t: "enforce_api_throttle clk key limit 900 s = (r, t)" by (metis surj_pair)
  then have "confined w s t" "confined w t (snd (body t))"
    using throttle_confined [of w s clk key limit 900] throttle_alerts [of clk key limit 900 s] assms [of "api_throttles t"]
    by auto
  then show ?thesis by (auto simp: throttled_def t split: sum.split intro: confined_trans)
qed

lemma device_call_confined:
  assumes "alerts_ok s"
  shows "confined (Some (dv_id d)) s (snd (device_call e v d data s))"
proof (cases v)
  case ApiManagementBootstrap
  then show ?thesis by (auto simp: management_bootstrap_def split: sum.split dest: management_confined)
qed (simp_all add: sync_confined heartbeat_confined locations_confined playback_confined event_confined assms)

lemma refresh_confined:
  assumes ok: "auth_ok s" "alerts_ok s"
  shows "confined (map_option cr_device (lookup_by cr_refresh_hash (hash (text_field data ''refresh_token'')) (credentials s))) s
    (snd (refresh_body st hash clk ip raw data s))"
proof (cases "lookup_by cr_refresh_hash (hash (text_field data ''refresh_token'')) (credentials s)")
  case None
  then show ?thesis by (simp add: refresh_body_def Let_def note_confined ok)
next
  case (Some c)
  have c: "c \<in> set (credentials s)" using lookup_by_SomeD [OF Some] by simp
  have "confined (Some (cr_device c)) s (snd (atomic (issue_access_token st hash (clk 5) raw (cr_id c)) s))"
    by (cases "issue_access_token st hash (clk 5) raw (cr_id c) s")
      (auto simp: atomic_def split: prod.split dest: issue_token_confined [OF ok(1) c refl])
  then show ?thesis using Some by (auto simp: refresh_body_def Let_def note_confined ok split: option.split)
qed

lemma authenticate_confined: "alerts_ok s \<Longrightarrow> confined w s (snd (authenticate_access st hash clk ip h s))"
  by (auto simp: authenticate_access_def note_confined split: list.split option.split prod.split)

lemma authenticated_same: "authenticate_access st hash clk ip h s = (Inr x, t) \<Longrightarrow> t = s"
  by (auto simp: authenticate_access_def split: list.splits option.splits prod.splits if_splits)

lemma challenge_request_confined:
  assumes "distinct (map ec_id (enrollment_codes s))"
  shows "confined (code_owner hash data s) s (snd (request_challenge st hash tclk clk ip uuid secret data s))"
  unfolding request_challenge_def
proof (rule throttled_confined)
  fix x
  let ?s = "s\<lparr>api_throttles := x\<rparr>"
  have "code_owner hash data ?s = code_owner hash data s" by (simp add: code_owner_def)
  then show "confined (code_owner hash data s) ?s (snd (atomic (create_challenge st hash clk uuid secret data) ?s))"
    using challenge_confined [of st hash clk uuid secret data ?s] assms
    by (cases "create_challenge st hash clk uuid secret data ?s") (auto simp: atomic_def split: prod.split)
qed

lemma enroll_confined:
  assumes "auth_ok s"
  shows "confined (presented e ApiEnroll rq s) s
    (snd (enroll st (ae_hash e) decode tclk clk ip raws (\<lambda>x. x) (aq_data rq) s))"
  unfolding enroll_def
proof (rule throttled_confined)
  fix x
  let ?s = "s\<lparr>api_throttles := x\<rparr>"
  have "auth_ok ?s" using assms by (simp add: auth_ok_def)
  moreover have "presented e ApiEnroll rq ?s = presented e ApiEnroll rq s"
    by (simp add: presented_def code_owner_def challenge_device_def Let_def split: sum.split)
  ultimately show "confined (presented e ApiEnroll rq s) ?s
      (snd (enroll_body st (ae_hash e) decode clk raws (\<lambda>x. x) (aq_data rq) ?s))"
    using enroll_body_confined [of ?s e rq] by metis
qed

lemma token_request_confined:
  assumes "auth_ok s" and "alerts_ok s"
  shows "confined (map_option cr_device (lookup_by cr_refresh_hash (hash (text_field data ''refresh_token'')) (credentials s))) s
    (snd (token_refresh st hash tclk clk ip raw data s))"
  unfolding token_refresh_def
proof (rule throttled_confined)
  fix x
  let ?s = "s\<lparr>api_throttles := x\<rparr>"
  have "auth_ok ?s" "alerts_ok ?s" using assms by (simp_all add: auth_ok_def alerts_ok_def)
  then show "confined (map_option cr_device (lookup_by cr_refresh_hash (hash (text_field data ''refresh_token'')) (credentials s))) ?s
      (snd (refresh_body st hash clk ip raw data ?s))"
    using refresh_confined [of ?s hash data] by simp
qed

text \<open>C3: A device reaches nothing but its own. Whatever a request to the API contains, and whether it
  succeeds or not, it changes rows of at most one device: the one whose access token, management token,
  refresh token, enrollment code or challenge it presents. The record, credentials, tokens, codes, challenges,
  commands, heartbeats, locations, events, playback evidence and alerts of every other device stay as
  they are, and so do users, playlists, media, assignments, qualifications, limits and the audit trail;
  a request that presents nothing valid changes throttles and the alerts without a device at most.\<close>

theorem device_isolation:
  assumes "api_keys_ok s" and "api_visit e v rq s = (status, t)"
  shows "shared_tables t = shared_tables s
    \<and> (\<forall>j. presented e v rq s \<noteq> Some j \<longrightarrow> rows_of_device j t = rows_of_device j s)"
proof -
  have ok: "auth_ok s" "alerts_ok s" "distinct (map dc_id (commands s))" "distinct (map ec_id (enrollment_codes s))"
    using assms(1) by (simp_all add: api_keys_ok_def auth_ok_def)
  let ?auth = "authenticate_access (ae_settings e) (ae_hash e) (ae_auth_clock e) (aq_ip rq) (aq_authorization rq) s"
  have "confined (presented e v rq s) s (snd (api_visit e v rq s))"
  proof (cases "v \<in> {ApiEnrollmentChallenge, ApiEnroll, ApiManagementCommands}")
    case True
    then show ?thesis
      using enroll_confined [OF ok(1), of e rq] challenge_request_confined [OF ok(4)] commands_confined [OF ok(3)]
      by (auto simp: api_visit_def presented_def Let_def intro!: admitted_confined split: sum.split)
  next
    case False
    obtain r u where r: "?auth = (r, u)" by (metis surj_pair)
    show ?thesis
    proof (cases r)
      case (Inl err)
      then have "snd (api_visit e v rq s) = snd ?auth" using False r by (simp add: api_visit_def Let_def)
      then show ?thesis by (simp add: authenticate_confined ok)
    next
      case (Inr who)
      then have "u = s" using r authenticated_same by blast
      then show ?thesis
        using False Inr r token_request_confined [OF ok(1,2)] device_call_confined [OF ok(2)]
        by (auto simp: api_visit_def presented_def Let_def intro!: admitted_confined split: option.split)
    qed
  qed
  then show ?thesis using assms(2) by (simp add: confined_def)
qed

definition sample_api :: api_env where
  "sample_api = \<lparr>ae_settings = default_settings, ae_hash = (\<lambda>x. x), ae_clock = (\<lambda>n. 3000), ae_throttle_clock = (\<lambda>n. 3000),
     ae_auth_clock = (\<lambda>n. 3000), ae_read = beat_reader, ae_decode = (\<lambda>t. Inl Http404), ae_uuid = 77, ae_secret = ''s'',
     ae_tokens = example_tokens, ae_sha = (\<lambda>x. x), ae_storage_url = (\<lambda>x. None)\<rparr>"

definition sample_beat :: api_request where
  "sample_beat = \<lparr>aq_method = ''POST'', aq_authorization = ''Bearer a'', aq_ip = ''ip'', aq_data = beat_request ''a'' 5\<rparr>"

definition after_beat :: "int \<times> db" where
  "after_beat = api_visit sample_api ApiHeartbeat sample_beat enrolled_db"

theorem device_isolation_witness:
  "fst after_beat = 200 \<and> length (heartbeats (snd after_beat)) = 1
     \<and> (\<exists>i. presented sample_api ApiHeartbeat sample_beat enrolled_db = Some i \<and> heartbeats (snd after_beat) \<noteq> dw_heartbeats (rows_of_device (i + 1) (snd after_beat)))
     \<and> shared_tables (snd after_beat) = shared_tables enrolled_db"
proof -
  have ok: "api_keys_ok enrolled_db" by code_simp
  have v: "api_visit sample_api ApiHeartbeat sample_beat enrolled_db = (fst after_beat, snd after_beat)" by (simp add: after_beat_def)
  have p: "presented sample_api ApiHeartbeat sample_beat enrolled_db = Some 7" by code_simp
  have h: "fst after_beat = 200" "length (heartbeats (snd after_beat)) = 1" "dw_heartbeats (rows_of_device 8 enrolled_db) = []" by code_simp+
  have iso: "shared_tables (snd after_beat) = shared_tables enrolled_db"
    "rows_of_device 8 (snd after_beat) = rows_of_device 8 enrolled_db"
    using device_isolation [OF ok v] p by simp_all
  then have "heartbeats (snd after_beat) \<noteq> dw_heartbeats (rows_of_device (7 + 1) (snd after_beat))" using h by auto
  with p h iso show ?thesis by blast
qed

end
