(* ===== verification/Admin_Site.thy ===== *)
theory Admin_Site
  imports Accounts Schema_Models
begin

section \<open>The administration site\<close>

text \<open>
  The registrations of \<open>admin.py\<close>: which tables have a page, of which class, and what its options are. The
  permissions of the classes are in Accounts. Which fields a page shows follows the documented rule of the
  framework: those of \<open>fields\<close>; without them, the fields of the form followed by the read-only ones, where
  \<open>exclude\<close> takes fields from the form only.
\<close>

record admin_options =
  ao_page :: admin_page
  ao_fields :: "string list option"
  ao_exclude :: "string list"
  ao_readonly :: "string list"
  ao_list :: "string list"

definition read_only_page :: admin_options where
  "read_only_page = \<lparr>ao_page = ReadOnlyAdmin, ao_fields = None, ao_exclude = [], ao_readonly = [], ao_list = [''__str__'']\<rparr>"

definition site_registry :: "(model_name \<times> admin_options) list" where
  "site_registry =
     [(UserModel, read_only_page\<lparr>ao_list := [''email'', ''role'', ''is_active'', ''is_staff'', ''last_login''],
         ao_exclude := [''password'', ''groups'', ''user_permissions'']\<rparr>),
      (DriverModel, read_only_page\<lparr>ao_fields := Some [''internal_id'', ''name'', ''anonymized_at'', ''created_at'', ''updated_at''],
         ao_list := [''internal_id'', ''anonymized_at'']\<rparr>),
      (VehicleModel, read_only_page\<lparr>ao_list := [''registration'', ''anonymized_at'']\<rparr>),
      (DeviceAssignmentModel, read_only_page\<lparr>ao_list := [''device'', ''driver'', ''vehicle'', ''assigned_at'', ''unassigned_at'']\<rparr>),
      (DeviceModel, read_only_page\<lparr>ao_list := [''label'', ''status'', ''hardware_qualification'', ''last_seen_at'', ''last_sync_at'',
         ''app_version''], ao_exclude := [''android_id_hash'', ''kiosk_pin_hash'']\<rparr>),
      (PlaylistModel, read_only_page\<lparr>ao_list := [''name'', ''version'', ''status'', ''starts_at'', ''ends_at'', ''is_urgent'']\<rparr>),
      (MediaAssetModel, read_only_page\<lparr>ao_list := [''title'', ''business_name'', ''kind'', ''status'', ''duration_ms'']\<rparr>),
      (AlertModel, read_only_page\<lparr>ao_list := [''code'', ''device'', ''severity'', ''created_at'', ''acknowledged_at'']\<rparr>),
      (PlatformSettingsModel, read_only_page\<lparr>ao_fields := Some [''playlist_max_entries'', ''playlist_max_duration_seconds'',
         ''created_at'', ''updated_at'']\<rparr>),
      (HardwareQualificationModel, \<lparr>ao_page = QualificationAdmin, ao_fields = None, ao_exclude = [], ao_readonly = [''approved_at''],
         ao_list = [''model_name'', ''firmware_version'', ''android_version'', ''measured_display_diagonal_inches'',
           ''test_date'', ''approved_for_pilot'']\<rparr>),
      (AuditEventModel, read_only_page\<lparr>ao_list := [''occurred_at'', ''actor'', ''action'', ''target_type'', ''target_id'']\<rparr>),
      (EnrollmentCodeModel, read_only_page\<lparr>ao_list := [''device'', ''expires_at'', ''used_at'', ''created_by'', ''created_at''],
         ao_exclude := [''code_hash'']\<rparr>),
      (EnrollmentChallengeModel, read_only_page\<lparr>ao_list := [''enrollment'', ''expires_at'', ''used_at'', ''created_at''],
         ao_exclude := [''request_hash'', ''android_id_hash'']\<rparr>),
      (DeviceHeartbeatModel, read_only_page), (DeviceOperationalEventModel, read_only_page),
      (PlaybackBatchModel, read_only_page), (PlaybackEventModel, read_only_page),
      (PlaybackCorrectionModel, \<lparr>ao_page = CorrectionAdmin, ao_fields = None, ao_exclude = [],
         ao_readonly = [''created_by'', ''created_at''], ao_list = [''__str__'']\<rparr>)]"

definition admin_allows :: "user \<Rightarrow> model_name \<Rightarrow> admin_action \<Rightarrow> bool" where
  "admin_allows u m act = (site_permission u
     \<and> (case map_of site_registry m of None \<Rightarrow> False | Some opts \<Rightarrow> admin_permission (ao_page opts) act u))"

text \<open>The concrete fields of a model; two of the fields the users inherit are relations to many.\<close>

definition concrete_fields :: "model_name \<Rightarrow> model_state \<Rightarrow> string list" where
  "concrete_fields m d = map fst (filter (\<lambda>(n, f). fst f \<noteq> ManyToManyField) (ms_fields (completed m d)))
     @ filter (\<lambda>n. n \<noteq> ''groups'' \<and> n \<noteq> ''user_permissions'') (inherited_fields m)"

definition readonly_fields :: "admin_options \<Rightarrow> model_name \<Rightarrow> model_state \<Rightarrow> string list" where
  "readonly_fields opts m d = (if ao_page opts = ReadOnlyAdmin then concrete_fields m d else ao_readonly opts)"

definition form_fields :: "admin_options \<Rightarrow> model_name \<Rightarrow> model_state \<Rightarrow> string list" where
  "form_fields opts m d = filter (\<lambda>n. n \<notin> set (ao_exclude opts) \<and> n \<notin> set (readonly_fields opts m d))
     (map fst (filter (\<lambda>(n, f). option_of Editable f \<noteq> Some (Flag False) \<and> option_of Auto_created f \<noteq> Some (Flag True)
        \<and> option_of Auto_now f \<noteq> Some (Flag True) \<and> option_of Auto_now_add f \<noteq> Some (Flag True)) (ms_fields (completed m d)))
      @ inherited_fields m)"

definition page_fields :: "model_name \<Rightarrow> string list" where
  "page_fields m = (case (map_of site_registry m, map_of declared_models m) of
       (Some opts, Some d) \<Rightarrow> (case ao_fields opts of Some fs \<Rightarrow> fs | None \<Rightarrow> form_fields opts m d @ readonly_fields opts m d)
     | _ \<Rightarrow> [])"

subsection \<open>What the site allows\<close>

lemma registry_pages:
  assumes "map_of site_registry m = Some opts"
  shows "(ao_page opts = QualificationAdmin \<longleftrightarrow> m = HardwareQualificationModel)
    \<and> (ao_page opts = CorrectionAdmin \<longleftrightarrow> m = PlaybackCorrectionModel)"
  using assms by (cases m) (auto simp: site_registry_def read_only_page_def)

text \<open>
  Only active owners who are staff are let in, nothing is deleted there, only hardware qualifications are
  changed, and only they and corrections are added.
\<close>

lemma admin_allows_little:
  assumes "admin_allows u m act"
  shows "us_is_active u \<and> us_is_staff u \<and> is_owner u \<and> act \<noteq> DeleteRow
    \<and> (act = ChangeRow \<longrightarrow> m = HardwareQualificationModel)
    \<and> (act = AddRow \<longrightarrow> m = HardwareQualificationModel \<or> m = PlaybackCorrectionModel)"
proof -
  obtain opts where opts: "map_of site_registry m = Some opts" "admin_permission (ao_page opts) act u" "site_permission u"
    using assms by (auto simp: admin_allows_def split: option.splits)
  then show ?thesis
    using registry_pages [OF opts(1)]
    by (cases "ao_page opts"; cases act) (simp_all add: site_permission_def)
qed

text \<open>The tables of bearer credentials, throttles and pending deletions have no page.\<close>

lemma no_page:
  "list_all (\<lambda>m. \<not> admin_allows u m act) [DeviceCredentialModel, DeviceManagementCredentialModel, DeviceAccessTokenModel,
     DeviceCommandModel, LoginThrottleModel, ApiThrottleModel, MediaDeletionModel, DeviceLocationPointModel, PlaylistItemModel]"
  by (simp add: admin_allows_def site_registry_def)

text \<open>
  A read-only page without \<open>fields\<close> shows every concrete field, also those it excludes: the class makes
  all of them read-only, and the list of read-only fields is not filtered. So the hashes that four
  classes mean to hide are shown.
\<close>

lemma exclusion_without_effect:
  assumes "map_of site_registry m = Some opts" and "map_of declared_models m = Some d"
    and "ao_page opts = ReadOnlyAdmin" and "ao_fields opts = None"
  shows "set (concrete_fields m d) \<subseteq> set (page_fields m)"
  using assms by (simp add: page_fields_def readonly_fields_def)

lemma hashes_shown:
  "''password'' \<in> set (page_fields UserModel)" "''kiosk_pin_hash'' \<in> set (page_fields DeviceModel)"
  "''code_hash'' \<in> set (page_fields EnrollmentCodeModel)" "''request_hash'' \<in> set (page_fields EnrollmentChallengeModel)"
  by code_simp+

text \<open>The page of a driver, which has \<open>fields\<close>, shows these and no other.\<close>

lemma driver_page: "page_fields DriverModel = [''internal_id'', ''name'', ''anonymized_at'', ''created_at'', ''updated_at'']"
  by code_simp

end
