(* ===== verification/Schema_Migrations.thy ===== *)
theory Schema_Migrations
  imports Schema
begin

section \<open>The migrations\<close>

text \<open>
  The operations of \<open>signage/migrations\<close>, one definition per migration and one per operation of the
  first, with every option as it is written. The order of the options of a field does not matter.
\<close>

subsection \<open>0001_initial\<close>

definition initial_device :: "operation" where
  "initial_device =
     CreateModel DeviceModel
       (\<lparr>ms_fields =
          [(''created_at'', (DateTimeField, [(Auto_now_add, Flag True)])),
           (''updated_at'', (DateTimeField, [(Auto_now, Flag True)])),
           (''id'', (UUIDField, [(Default, Named ''uuid4''), (Editable, Flag False), (Primary_key, Flag True),
              (Serialize, Flag False)])),
           (''label'', (CharField, [(Max_length, Num 100), (Unique, Flag True)])),
           (''status'', (CharField, [(Choices, Pairs [(''pending'', ''Pending enrollment''), (''active'', ''Active''),
              (''disabled'', ''Disabled'')]), (Default, Txt ''pending''), (Max_length, Num 16)])),
           (''android_id_hash'', (CharField, [(Blank, Flag True), (Max_length, Num 64), (Null, Flag True), (Unique, Flag True)])),
           (''app_version'', (CharField, [(Blank, Flag True), (Max_length, Num 32)])),
           (''android_version'', (CharField, [(Blank, Flag True), (Max_length, Num 32)])),
           (''last_seen_at'', (DateTimeField, [(Blank, Flag True), (Null, Flag True)])),
           (''last_sync_at'', (DateTimeField, [(Blank, Flag True), (Null, Flag True)])),
           (''last_playback_at'', (DateTimeField, [(Blank, Flag True), (Null, Flag True)])),
           (''disabled_at'', (DateTimeField, [(Blank, Flag True), (Null, Flag True)]))],
        ms_ordering = [], ms_indexes = [],
        ms_constraints = []\<rparr>)"

definition initial_driver :: "operation" where
  "initial_driver =
     CreateModel DriverModel
       (\<lparr>ms_fields =
          [(''id'', (BigAutoField, [(Auto_created, Flag True), (Primary_key, Flag True), (Serialize, Flag False),
             (Verbose_name, Txt ''ID'')])),
           (''created_at'', (DateTimeField, [(Auto_now_add, Flag True)])),
           (''updated_at'', (DateTimeField, [(Auto_now, Flag True)])),
           (''internal_id'', (CharField, [(Max_length, Num 64), (Unique, Flag True)])),
           (''name'', (CharField, [(Max_length, Num 160)])),
           (''anonymized_at'', (DateTimeField, [(Blank, Flag True), (Null, Flag True)]))],
        ms_ordering = [], ms_indexes = [],
        ms_constraints = []\<rparr>)"

definition initial_vehicle :: "operation" where
  "initial_vehicle =
     CreateModel VehicleModel
       (\<lparr>ms_fields =
          [(''id'', (BigAutoField, [(Auto_created, Flag True), (Primary_key, Flag True), (Serialize, Flag False),
             (Verbose_name, Txt ''ID'')])),
           (''created_at'', (DateTimeField, [(Auto_now_add, Flag True)])),
           (''updated_at'', (DateTimeField, [(Auto_now, Flag True)])),
           (''registration'', (CharField, [(Max_length, Num 32), (Unique, Flag True)])),
           (''anonymized_at'', (DateTimeField, [(Blank, Flag True), (Null, Flag True)]))],
        ms_ordering = [], ms_indexes = [],
        ms_constraints = []\<rparr>)"

definition initial_user :: "operation" where
  "initial_user =
     CreateModel UserModel
       (\<lparr>ms_fields =
          [(''id'', (BigAutoField, [(Auto_created, Flag True), (Primary_key, Flag True), (Serialize, Flag False),
             (Verbose_name, Txt ''ID'')])),
           (''password'', (CharField, [(Max_length, Num 128), (Verbose_name, Txt ''password'')])),
           (''last_login'', (DateTimeField, [(Blank, Flag True), (Null, Flag True), (Verbose_name, Txt ''last login'')])),
           (''is_superuser'', (BooleanField, [(Default, Flag False),
              (Help_text, Txt ''Designates that this user has all permissions without explicitly assigning them.''),
              (Verbose_name, Txt ''superuser status'')])),
           (''first_name'', (CharField, [(Blank, Flag True), (Max_length, Num 150), (Verbose_name, Txt ''first name'')])),
           (''last_name'', (CharField, [(Blank, Flag True), (Max_length, Num 150), (Verbose_name, Txt ''last name'')])),
           (''is_staff'', (BooleanField, [(Default, Flag False),
              (Help_text, Txt ''Designates whether the user can log into this admin site.''),
              (Verbose_name, Txt ''staff status'')])),
           (''is_active'', (BooleanField, [(Default, Flag True),
              (Help_text, Txt ''Designates whether this user should be treated as active. Unselect this instead of deleting accounts.''), (Verbose_name, Txt ''active'')])),
           (''date_joined'', (DateTimeField, [(Default, Named ''now''), (Verbose_name, Txt ''date joined'')])),
           (''email'', (EmailField, [(Max_length, Num 254), (Unique, Flag True)])),
           (''role'', (CharField, [(Choices, Pairs [(''owner'', ''Account owner''), (''marketing'', ''Marketing'')]),
              (Default, Txt ''marketing''), (Max_length, Num 16)])),
           (''groups'', (ManyToManyField, [(Blank, Flag True),
              (Help_text, Txt ''The groups this user belongs to. A user will get all permissions granted to each of their groups.''), (Related_name, Txt ''user_set''), (Related_query_name, Txt ''user''), (To, Txt ''auth.group''), (Verbose_name, Txt ''groups'')])),
           (''user_permissions'', (ManyToManyField, [(Blank, Flag True), (Help_text, Txt ''Specific permissions for this user.''),
              (Related_name, Txt ''user_set''), (Related_query_name, Txt ''user''), (To, Txt ''auth.permission''),
              (Verbose_name, Txt ''user permissions'')]))],
        ms_ordering = [], ms_indexes = [],
        ms_constraints = []\<rparr>)"

definition initial_auditevent :: "operation" where
  "initial_auditevent =
     CreateModel AuditEventModel
       (\<lparr>ms_fields =
          [(''id'', (BigAutoField, [(Auto_created, Flag True), (Primary_key, Flag True), (Serialize, Flag False),
             (Verbose_name, Txt ''ID'')])),
           (''action'', (CharField, [(Max_length, Num 100)])), (''target_type'', (CharField, [(Max_length, Num 100)])),
           (''target_id'', (CharField, [(Max_length, Num 100)])), (''metadata'', (JSONField, [(Default, Named ''dict'')])),
           (''occurred_at'', (DateTimeField, [(Auto_now_add, Flag True)])),
           (''source_ip_hash'', (CharField, [(Blank, Flag True), (Max_length, Num 64)])),
           (''actor'', (ForeignKey, [(Blank, Flag True), (Null, Flag True), (On_delete, Named ''PROTECT''),
              (To, To_model UserModel)]))],
        ms_ordering = [''-occurred_at''], ms_indexes = [],
        ms_constraints = []\<rparr>)"

definition initial_devicecredential :: "operation" where
  "initial_devicecredential =
     CreateModel DeviceCredentialModel
       (\<lparr>ms_fields =
          [(''id'', (BigAutoField, [(Auto_created, Flag True), (Primary_key, Flag True), (Serialize, Flag False),
             (Verbose_name, Txt ''ID'')])),
           (''created_at'', (DateTimeField, [(Auto_now_add, Flag True)])),
           (''updated_at'', (DateTimeField, [(Auto_now, Flag True)])),
           (''refresh_hash'', (CharField, [(Max_length, Num 64), (Unique, Flag True)])),
           (''revoked_at'', (DateTimeField, [(Blank, Flag True), (Null, Flag True)])),
           (''device'', (ForeignKey, [(On_delete, Named ''CASCADE''), (Related_name, Txt ''credentials''),
              (To, To_model DeviceModel)]))],
        ms_ordering = [], ms_indexes = [],
        ms_constraints = []\<rparr>)"

definition initial_deviceaccesstoken :: "operation" where
  "initial_deviceaccesstoken =
     CreateModel DeviceAccessTokenModel
       (\<lparr>ms_fields =
          [(''id'', (BigAutoField, [(Auto_created, Flag True), (Primary_key, Flag True), (Serialize, Flag False),
             (Verbose_name, Txt ''ID'')])),
           (''token_hash'', (CharField, [(Max_length, Num 64), (Unique, Flag True)])), (''expires_at'', (DateTimeField, [])),
           (''created_at'', (DateTimeField, [(Auto_now_add, Flag True)])),
           (''credential'', (ForeignKey, [(On_delete, Named ''CASCADE''), (Related_name, Txt ''access_tokens''),
              (To, To_model DeviceCredentialModel)]))],
        ms_ordering = [], ms_indexes = [],
        ms_constraints = []\<rparr>)"

definition initial_deviceassignment :: "operation" where
  "initial_deviceassignment =
     CreateModel DeviceAssignmentModel
       (\<lparr>ms_fields =
          [(''id'', (BigAutoField, [(Auto_created, Flag True), (Primary_key, Flag True), (Serialize, Flag False),
             (Verbose_name, Txt ''ID'')])),
           (''assigned_at'', (DateTimeField, [(Default, Named ''now'')])),
           (''unassigned_at'', (DateTimeField, [(Blank, Flag True), (Null, Flag True)])),
           (''device'', (ForeignKey, [(On_delete, Named ''PROTECT''), (Related_name, Txt ''assignments''),
              (To, To_model DeviceModel)])),
           (''driver'', (ForeignKey, [(On_delete, Named ''PROTECT''), (To, To_model DriverModel)])),
           (''vehicle'', (ForeignKey, [(On_delete, Named ''PROTECT''), (To, To_model VehicleModel)]))],
        ms_ordering = [''-assigned_at''], ms_indexes = [],
        ms_constraints = []\<rparr>)"

definition initial_enrollmentcode :: "operation" where
  "initial_enrollmentcode =
     CreateModel EnrollmentCodeModel
       (\<lparr>ms_fields =
          [(''id'', (BigAutoField, [(Auto_created, Flag True), (Primary_key, Flag True), (Serialize, Flag False),
             (Verbose_name, Txt ''ID'')])),
           (''created_at'', (DateTimeField, [(Auto_now_add, Flag True)])),
           (''updated_at'', (DateTimeField, [(Auto_now, Flag True)])),
           (''code_hash'', (CharField, [(Max_length, Num 64), (Unique, Flag True)])), (''expires_at'', (DateTimeField, [])),
           (''used_at'', (DateTimeField, [(Blank, Flag True), (Null, Flag True)])),
           (''created_by'', (ForeignKey, [(On_delete, Named ''PROTECT''), (To, To_model UserModel)])),
           (''device'', (ForeignKey, [(On_delete, Named ''CASCADE''), (To, To_model DeviceModel)]))],
        ms_ordering = [], ms_indexes = [],
        ms_constraints = []\<rparr>)"

definition initial_mediaasset :: "operation" where
  "initial_mediaasset =
     CreateModel MediaAssetModel
       (\<lparr>ms_fields =
          [(''created_at'', (DateTimeField, [(Auto_now_add, Flag True)])),
           (''updated_at'', (DateTimeField, [(Auto_now, Flag True)])),
           (''id'', (UUIDField, [(Default, Named ''uuid4''), (Editable, Flag False), (Primary_key, Flag True),
              (Serialize, Flag False)])),
           (''business_name'', (CharField, [(Max_length, Num 160)])), (''title'', (CharField, [(Max_length, Num 160)])),
           (''kind'', (CharField, [(Choices, Pairs [(''image'', ''Image''), (''video'', ''Video'')]), (Max_length, Num 16)])),
           (''status'', (CharField, [(Choices, Pairs [(''quarantined'', ''Quarantined''), (''processing'', ''Processing''),
              (''ready'', ''Ready''), (''rejected'', ''Rejected''), (''archived'', ''Archived'')]),
              (Default, Txt ''quarantined''), (Max_length, Num 16)])),
           (''source_file'', (FileField, [(Upload_to, Named ''media_upload_path'')])),
           (''normalized_file'', (FileField, [(Blank, Flag True), (Null, Flag True), (Upload_to, Txt ''validated/'')])),
           (''sha256'', (CharField, [(Blank, Flag True), (Max_length, Num 64)])),
           (''mime_type'', (CharField, [(Blank, Flag True), (Max_length, Num 100)])),
           (''file_size'', (PositiveBigIntegerField, [(Default, Num 0)])),
           (''duration_ms'', (PositiveIntegerField, [(Default, Num 10000)])),
           (''width'', (PositiveIntegerField, [(Blank, Flag True), (Null, Flag True)])),
           (''height'', (PositiveIntegerField, [(Blank, Flag True), (Null, Flag True)])),
           (''rejection_reason'', (CharField, [(Blank, Flag True), (Max_length, Num 255)])),
           (''archived_at'', (DateTimeField, [(Blank, Flag True), (Null, Flag True)])),
           (''uploaded_by'', (ForeignKey, [(On_delete, Named ''PROTECT''), (To, To_model UserModel)]))],
        ms_ordering = [], ms_indexes = [],
        ms_constraints = []\<rparr>)"

definition initial_playlist :: "operation" where
  "initial_playlist =
     CreateModel PlaylistModel
       (\<lparr>ms_fields =
          [(''created_at'', (DateTimeField, [(Auto_now_add, Flag True)])),
           (''updated_at'', (DateTimeField, [(Auto_now, Flag True)])),
           (''id'', (UUIDField, [(Default, Named ''uuid4''), (Editable, Flag False), (Primary_key, Flag True),
              (Serialize, Flag False)])),
           (''name'', (CharField, [(Max_length, Num 160)])), (''version'', (PositiveIntegerField, [(Default, Num 1)])),
           (''status'', (CharField, [(Choices, Pairs [(''draft'', ''Draft''), (''published'', ''Published''),
              (''archived'', ''Archived'')]), (Default, Txt ''draft''), (Max_length, Num 16)])),
           (''starts_at'', (DateTimeField, [])), (''ends_at'', (DateTimeField, [])),
           (''published_at'', (DateTimeField, [(Blank, Flag True), (Null, Flag True)])),
           (''is_urgent'', (BooleanField, [(Default, Flag False)])),
           (''created_by'', (ForeignKey, [(On_delete, Named ''PROTECT''), (Related_name, Txt ''created_playlists''),
              (To, To_model UserModel)]))],
        ms_ordering = [''-starts_at'', ''-version''], ms_indexes = [],
        ms_constraints = []\<rparr>)"

definition initial_playbackbatch :: "operation" where
  "initial_playbackbatch =
     CreateModel PlaybackBatchModel
       (\<lparr>ms_fields =
          [(''id'', (UUIDField, [(Editable, Flag False), (Primary_key, Flag True), (Serialize, Flag False)])),
           (''loop_started_at'', (DateTimeField, [])),
           (''loop_ended_at'', (DateTimeField, [(Blank, Flag True), (Null, Flag True)])),
           (''captured_offline'', (BooleanField, [(Default, Flag False)])),
           (''received_at'', (DateTimeField, [(Auto_now_add, Flag True)])),
           (''assignment'', (ForeignKey, [(Null, Flag True), (On_delete, Named ''PROTECT''),
              (To, To_model DeviceAssignmentModel)])),
           (''device'', (ForeignKey, [(On_delete, Named ''PROTECT''), (To, To_model DeviceModel)])),
           (''playlist'', (ForeignKey, [(On_delete, Named ''PROTECT''), (To, To_model PlaylistModel)]))],
        ms_ordering = [], ms_indexes = [],
        ms_constraints = []\<rparr>)"

definition initial_change_1 :: "operation" where
  "initial_change_1 =
     AddField DeviceModel ''current_playlist'' (ForeignKey, [(Blank, Flag True), (Null, Flag True),
        (On_delete, Named ''PROTECT''), (To, To_model PlaylistModel)]) True"

definition initial_playlistitem :: "operation" where
  "initial_playlistitem =
     CreateModel PlaylistItemModel
       (\<lparr>ms_fields =
          [(''id'', (UUIDField, [(Default, Named ''uuid4''), (Editable, Flag False), (Primary_key, Flag True),
             (Serialize, Flag False)])),
           (''position'', (PositiveIntegerField, [])),
           (''media'', (ForeignKey, [(On_delete, Named ''PROTECT''), (Related_name, Txt ''playlist_items''),
              (To, To_model MediaAssetModel)])),
           (''playlist'', (ForeignKey, [(On_delete, Named ''PROTECT''), (Related_name, Txt ''items''),
              (To, To_model PlaylistModel)]))],
        ms_ordering = [''position''], ms_indexes = [],
        ms_constraints = []\<rparr>)"

definition initial_playbackevent :: "operation" where
  "initial_playbackevent =
     CreateModel PlaybackEventModel
       (\<lparr>ms_fields =
          [(''id'', (UUIDField, [(Editable, Flag False), (Primary_key, Flag True), (Serialize, Flag False)])),
           (''started_at'', (DateTimeField, [])), (''ended_at'', (DateTimeField, [(Blank, Flag True), (Null, Flag True)])),
           (''duration_ms'', (PositiveIntegerField, [(Default, Num 0)])),
           (''status'', (CharField, [(Choices, Pairs [(''completed'', ''Completed''), (''interrupted'', ''Interrupted''),
              (''failed'', ''Failed'')]), (Max_length, Num 16)])),
           (''failure_reason'', (CharField, [(Blank, Flag True), (Max_length, Num 64)])),
           (''batch'', (ForeignKey, [(On_delete, Named ''PROTECT''), (Related_name, Txt ''events''),
              (To, To_model PlaybackBatchModel)])),
           (''playlist_item'', (ForeignKey, [(On_delete, Named ''PROTECT''), (To, To_model PlaylistItemModel)]))],
        ms_ordering = [], ms_indexes = [],
        ms_constraints = []\<rparr>)"

definition initial_alert :: "operation" where
  "initial_alert =
     CreateModel AlertModel
       (\<lparr>ms_fields =
          [(''id'', (BigAutoField, [(Auto_created, Flag True), (Primary_key, Flag True), (Serialize, Flag False),
             (Verbose_name, Txt ''ID'')])),
           (''created_at'', (DateTimeField, [(Auto_now_add, Flag True)])),
           (''updated_at'', (DateTimeField, [(Auto_now, Flag True)])), (''code'', (CharField, [(Max_length, Num 64)])),
           (''severity'', (CharField, [(Choices, Pairs [(''warning'', ''Warning''), (''critical'', ''Critical'')]),
              (Max_length, Num 16)])),
           (''message'', (CharField, [(Max_length, Num 255)])),
           (''acknowledged_at'', (DateTimeField, [(Blank, Flag True), (Null, Flag True)])),
           (''acknowledged_by'', (ForeignKey, [(Blank, Flag True), (Null, Flag True), (On_delete, Named ''PROTECT''),
              (To, To_model UserModel)])),
           (''device'', (ForeignKey, [(Blank, Flag True), (Null, Flag True), (On_delete, Named ''PROTECT''),
              (Related_name, Txt ''alerts''), (To, To_model DeviceModel)]))],
        ms_ordering = [], ms_indexes = [[''acknowledged_at'', ''-created_at'']],
        ms_constraints = []\<rparr>)"

definition initial_deviceheartbeat :: "operation" where
  "initial_deviceheartbeat =
     CreateModel DeviceHeartbeatModel
       (\<lparr>ms_fields =
          [(''id'', (BigAutoField, [(Auto_created, Flag True), (Primary_key, Flag True), (Serialize, Flag False),
             (Verbose_name, Txt ''ID'')])),
           (''recorded_at'', (DateTimeField, [(Default, Named ''now'')])),
           (''received_at'', (DateTimeField, [(Auto_now_add, Flag True)])), (''screen_on'', (BooleanField, [])),
           (''external_power'', (BooleanField, [])), (''charging'', (BooleanField, [])),
           (''battery_percent'', (PositiveSmallIntegerField, [(Blank, Flag True), (Null, Flag True)])),
           (''free_storage_bytes'', (PositiveBigIntegerField, [])),
           (''temperature_celsius'', (DecimalField, [(Blank, Flag True), (Decimal_places, Num 2), (Max_digits, Num 5),
              (Null, Flag True)])),
           (''app_version'', (CharField, [(Max_length, Num 32)])), (''android_version'', (CharField, [(Max_length, Num 32)])),
           (''device'', (ForeignKey, [(On_delete, Named ''PROTECT''), (Related_name, Txt ''heartbeats''),
              (To, To_model DeviceModel)]))],
        ms_ordering = [''-recorded_at''], ms_indexes = [[''device'', ''-recorded_at'']],
        ms_constraints = []\<rparr>)"

definition initial_change_2 :: "operation" where
  "initial_change_2 =
     AddConstraint PlaylistModel (''unique_playlist_name_version'', UniqueOn [''name'', ''version''] None)"

definition initial_change_3 :: "operation" where
  "initial_change_3 =
     AddConstraint PlaylistModel (''playlist_end_after_start'', Check (Holds ''ends_at__gt'' (Named ''F(starts_at)'')))"

definition initial_change_4 :: "operation" where
  "initial_change_4 =
     AddIndex PlaybackBatchModel [''device'', ''-loop_started_at'']"

definition initial_change_5 :: "operation" where
  "initial_change_5 =
     AddConstraint PlaylistItemModel (''unique_playlist_position'', UniqueOn [''playlist'', ''position''] None)"

definition initial_change_6 :: "operation" where
  "initial_change_6 =
     AddIndex PlaybackEventModel [''status'', ''-started_at'']"

definition initial_change_7 :: "operation" where
  "initial_change_7 =
     AddConstraint DeviceAssignmentModel (''one_active_assignment_per_device'', UniqueOn [''device''] (Some (Holds ''unassigned_at__isnull'' (Flag True))))"

definition migration_0001 :: "operation list" where
  "migration_0001 =
     [initial_device, initial_driver, initial_vehicle, initial_user, initial_auditevent, initial_devicecredential,
      initial_deviceaccesstoken, initial_deviceassignment, initial_enrollmentcode, initial_mediaasset, initial_playlist,
      initial_playbackbatch, initial_change_1, initial_playlistitem, initial_playbackevent, initial_alert,
      initial_deviceheartbeat, initial_change_2, initial_change_3, initial_change_4, initial_change_5, initial_change_6,
      initial_change_7]"

subsection \<open>0002_platformsettings\<close>

definition migration_0002 :: "operation list" where
  "migration_0002 =
     [CreateModel PlatformSettingsModel
        (\<lparr>ms_fields =
           [(''created_at'', (DateTimeField, [(Auto_now_add, Flag True)])),
            (''updated_at'', (DateTimeField, [(Auto_now, Flag True)])),
            (''singleton_id'', (PositiveSmallIntegerField, [(Default, Num 1), (Primary_key, Flag True),
               (Serialize, Flag False)])),
            (''playlist_max_entries'', (PositiveIntegerField, [(Default, Num 100)])),
            (''playlist_max_duration_seconds'', (PositiveIntegerField, [(Default, Num 1800)]))],
         ms_ordering = [], ms_indexes = [],
         ms_constraints = []\<rparr>)]"

subsection \<open>0003_loginthrottle\<close>

definition migration_0003 :: "operation list" where
  "migration_0003 =
     [CreateModel LoginThrottleModel
        (\<lparr>ms_fields =
           [(''created_at'', (DateTimeField, [(Auto_now_add, Flag True)])),
            (''updated_at'', (DateTimeField, [(Auto_now, Flag True)])),
            (''key_hash'', (CharField, [(Max_length, Num 64), (Primary_key, Flag True), (Serialize, Flag False)])),
            (''failures'', (PositiveSmallIntegerField, [(Default, Num 0)])),
            (''locked_until'', (DateTimeField, [(Blank, Flag True), (Null, Flag True)]))],
         ms_ordering = [], ms_indexes = [],
         ms_constraints = []\<rparr>)]"

subsection \<open>0004_device_kiosk_pin_hash_device_kiosk_pin_reset_at\<close>

definition migration_0004 :: "operation list" where
  "migration_0004 =
     [AddField DeviceModel ''kiosk_pin_hash'' (CharField, [(Blank, Flag True), (Max_length, Num 64)]) True,
      AddField DeviceModel ''kiosk_pin_reset_at'' (DateTimeField, [(Blank, Flag True), (Null, Flag True)]) True]"

subsection \<open>0005_hardwarequalification\<close>

definition migration_0005 :: "operation list" where
  "migration_0005 =
     [CreateModel HardwareQualificationModel
        (\<lparr>ms_fields =
           [(''id'', (BigAutoField, [(Auto_created, Flag True), (Primary_key, Flag True), (Serialize, Flag False),
              (Verbose_name, Txt ''ID'')])),
            (''created_at'', (DateTimeField, [(Auto_now_add, Flag True)])),
            (''updated_at'', (DateTimeField, [(Auto_now, Flag True)])), (''model_name'', (CharField, [(Max_length, Num 160)])),
            (''firmware_version'', (CharField, [(Max_length, Num 100)])),
            (''android_version'', (CharField, [(Max_length, Num 32)])), (''test_date'', (DateField, [])),
            (''evidence_reference'',
               (CharField, [(Help_text, Txt ''Internal path or ticket containing photos, logs, and test notes.''),
               (Max_length, Num 255)])),
            (''device_owner_lock_task_passed'', (BooleanField, [(Default, Flag False)])),
            (''boot_on_power_passed'', (BooleanField, [(Default, Flag False)])),
            (''screen_state_passed'', (BooleanField, [(Default, Flag False)])),
            (''power_loss_path_passed'', (BooleanField, [(Default, Flag False)])),
            (''playback_12h_passed'', (BooleanField, [(Default, Flag False)])),
            (''image_aspect_passed'', (BooleanField, [(Default, Flag False)])),
            (''cache_capacity_passed'', (BooleanField, [(Default, Flag False)])),
            (''network_reconnect_passed'', (BooleanField, [(Default, Flag False)])),
            (''interrupted_download_passed'', (BooleanField, [(Default, Flag False)])),
            (''thermal_passed'', (BooleanField, [(Default, Flag False)])),
            (''mounting_power_safety_passed'', (BooleanField, [(Default, Flag False)])),
            (''kiosk_escape_resistance_passed'', (BooleanField, [(Default, Flag False)])),
            (''device_time_change_passed'', (BooleanField, [(Default, Flag False)])),
            (''remote_disable_reboot_passed'', (BooleanField, [(Default, Flag False)])),
            (''factory_reset_revocation_passed'', (BooleanField, [(Default, Flag False)])),
            (''approved_for_pilot'', (BooleanField, [(Default, Flag False)])),
            (''approved_at'', (DateTimeField, [(Blank, Flag True), (Null, Flag True)])),
            (''tested_by'', (ForeignKey, [(On_delete, Named ''PROTECT''), (To, To_model UserModel)]))],
         ms_ordering = [''-test_date'', ''model_name''], ms_indexes = [],
         ms_constraints = []\<rparr>)]"

subsection \<open>0006_production_hardening\<close>

definition migration_0006 :: "operation list" where
  "migration_0006 =
     [AddField DeviceModel ''hardware_qualification'' (ForeignKey, [(Blank, Flag True),
        (Help_text, Txt ''Exact model and firmware qualification used for this device.''), (Null, Flag True),
        (On_delete, Named ''PROTECT''), (Related_name, Txt ''devices''), (To, To_model HardwareQualificationModel)]) True,
      AlterField DeviceModel ''kiosk_pin_hash'' (CharField, [(Blank, Flag True), (Max_length, Num 255)]),
      CreateModel ApiThrottleModel
        (\<lparr>ms_fields =
           [(''created_at'', (DateTimeField, [(Auto_now_add, Flag True)])),
            (''updated_at'', (DateTimeField, [(Auto_now, Flag True)])),
            (''key_hash'', (CharField, [(Max_length, Num 64), (Primary_key, Flag True), (Serialize, Flag False)])),
            (''attempts'', (PositiveIntegerField, [(Default, Num 0)])),
            (''window_started_at'', (DateTimeField, [(Default, Named ''now'')])),
            (''blocked_until'', (DateTimeField, [(Blank, Flag True), (Null, Flag True)]))],
         ms_ordering = [], ms_indexes = [],
         ms_constraints = []\<rparr>),
      CreateModel EnrollmentChallengeModel
        (\<lparr>ms_fields =
           [(''created_at'', (DateTimeField, [(Auto_now_add, Flag True)])),
            (''updated_at'', (DateTimeField, [(Auto_now, Flag True)])),
            (''id'', (UUIDField, [(Default, Named ''uuid4''), (Editable, Flag False), (Primary_key, Flag True),
               (Serialize, Flag False)])),
            (''request_hash'', (CharField, [(Max_length, Num 64), (Unique, Flag True)])),
            (''android_id_hash'', (CharField, [(Max_length, Num 64)])),
            (''android_version'', (CharField, [(Max_length, Num 32)])), (''app_version'', (CharField, [(Max_length, Num 32)])),
            (''expires_at'', (DateTimeField, [])), (''used_at'', (DateTimeField, [(Blank, Flag True), (Null, Flag True)])),
            (''enrollment'', (ForeignKey, [(On_delete, Named ''CASCADE''), (Related_name, Txt ''challenges''),
               (To, To_model EnrollmentCodeModel)]))],
         ms_ordering = [], ms_indexes = [],
         ms_constraints = []\<rparr>),
      AddField DeviceHeartbeatModel ''active_playlist'' (ForeignKey, [(Blank, Flag True), (Null, Flag True),
         (On_delete, Named ''PROTECT''), (To, To_model PlaylistModel)]) True,
      AddField DeviceHeartbeatModel ''last_playback_at'' (DateTimeField, [(Blank, Flag True), (Null, Flag True)]) True,
      AddField DeviceHeartbeatModel ''last_successful_sync_at'' (DateTimeField, [(Blank, Flag True), (Null, Flag True)]) True,
      AddField DeviceHeartbeatModel ''playback_active'' (BooleanField, [(Default, Flag False)]) True,
      CreateModel PlaybackCorrectionModel
        (\<lparr>ms_fields =
           [(''id'', (UUIDField, [(Default, Named ''uuid4''), (Editable, Flag False), (Primary_key, Flag True),
              (Serialize, Flag False)])),
            (''reason'', (CharField, [(Max_length, Num 255)])),
            (''replacement_status'', (CharField, [(Blank, Flag True), (Choices, Pairs [(''completed'', ''Completed''),
               (''interrupted'', ''Interrupted''), (''failed'', ''Failed'')]), (Max_length, Num 16), (Null, Flag True)])),
            (''created_at'', (DateTimeField, [(Auto_now_add, Flag True)])),
            (''created_by'', (ForeignKey, [(On_delete, Named ''PROTECT''), (To, To_model UserModel)])),
            (''event'', (ForeignKey, [(On_delete, Named ''PROTECT''), (Related_name, Txt ''corrections''),
               (To, To_model PlaybackEventModel)]))],
         ms_ordering = [], ms_indexes = [],
         ms_constraints = []\<rparr>),
      CreateModel DeviceOperationalEventModel
        (\<lparr>ms_fields =
           [(''id'', (UUIDField, [(Default, Named ''uuid4''), (Editable, Flag False), (Primary_key, Flag True),
              (Serialize, Flag False)])),
            (''kind'', (CharField, [(Choices, Pairs [(''forced_queue_loss'', ''Forced queue data loss''),
               (''replacement_failed'', ''Replacement validation failed'')]), (Max_length, Num 32)])),
            (''recorded_at'', (DateTimeField, [])), (''received_at'', (DateTimeField, [(Auto_now_add, Flag True)])),
            (''details'', (JSONField, [(Default, Named ''dict'')])),
            (''device'', (ForeignKey, [(On_delete, Named ''PROTECT''), (Related_name, Txt ''operational_events''),
               (To, To_model DeviceModel)]))],
         ms_ordering = [], ms_indexes = [],
         ms_constraints = []\<rparr>)]"

subsection \<open>0007_playlist_supersession\<close>

definition migration_0007 :: "operation list" where
  "migration_0007 =
     [AlterField PlaylistModel ''status'' (CharField, [(Choices, Pairs [(''draft'', ''Draft''), (''published'', ''Published''),
        (''cancelled'', ''Cancelled''), (''archived'', ''Archived'')]), (Default, Txt ''draft''), (Max_length, Num 16)]),
      AddField PlaylistModel ''superseded_by'' (ForeignKey, [(Blank, Flag True),
         (Help_text, Txt ''Replacement playlist version that cancelled this version.''), (Null, Flag True),
         (On_delete, Named ''PROTECT''), (Related_name, Txt ''superseded_versions''), (To, To_model PlaylistModel)]) True,
      RunPython PlaylistModel ''cancel_superseded_playlist_versions'']"

subsection \<open>0008_media_processing_dispatch\<close>

definition migration_0008 :: "operation list" where
  "migration_0008 =
     [AddField MediaAssetModel ''dispatch_attempts'' (PositiveIntegerField, [(Default, Num 0)]) True,
      AddField MediaAssetModel ''last_dispatch_attempt_at'' (DateTimeField, [(Blank, Flag True), (Null, Flag True)]) True,
      AddField MediaAssetModel ''dispatched_at'' (DateTimeField, [(Blank, Flag True), (Null, Flag True)]) True,
      AddField MediaAssetModel ''processing_attempts'' (PositiveIntegerField, [(Default, Num 0)]) True,
      AddField MediaAssetModel ''processing_token'' (UUIDField, [(Blank, Flag True), (Editable, Flag False),
         (Null, Flag True)]) True,
      AddField MediaAssetModel ''processing_started_at'' (DateTimeField, [(Blank, Flag True), (Null, Flag True)]) True,
      AddField MediaAssetModel ''processing_lease_expires_at'' (DateTimeField, [(Blank, Flag True), (Null, Flag True)]) True,
      AddField MediaAssetModel ''processing_finished_at'' (DateTimeField, [(Blank, Flag True), (Null, Flag True)]) True,
      RunPython MediaAssetModel ''mark_incomplete_processing_for_recovery'']"

subsection \<open>0009_revoke_marketing_admin_access\<close>

definition migration_0009 :: "operation list" where
  "migration_0009 =
     [RunPython UserModel ''revoke_marketing_admin_access'']"

subsection \<open>0010_battery_backed_player_policy\<close>

definition migration_0010 :: "operation list" where
  "migration_0010 =
     [StateOnly (RenameField HardwareQualificationModel ''boot_on_power_passed'' ''legacy_boot_on_vehicle_power_passed''),
      StateOnly (RenameField HardwareQualificationModel ''power_loss_path_passed'' ''legacy_external_power_loss_path_passed''),
      StateOnly (AlterField HardwareQualificationModel ''legacy_boot_on_vehicle_power_passed'' (BooleanField, [(Db_column, Txt ''boot_on_power_passed''), (Default, Flag False), (Editable, Flag False)])),
      StateOnly (AlterField HardwareQualificationModel ''legacy_external_power_loss_path_passed'' (BooleanField, [(Db_column, Txt ''power_loss_path_passed''), (Default, Flag False), (Editable, Flag False)])),
      AddField HardwareQualificationModel ''abnormal_exit_recovery_passed'' (BooleanField, [(Default, Flag False)]) True,
      AddField HardwareQualificationModel ''battery_backed_playback_passed'' (BooleanField, [(Default, Flag False)]) True,
      AddField HardwareQualificationModel ''battery_level_telemetry_passed'' (BooleanField, [(Default, Flag False)]) True,
      AddField HardwareQualificationModel ''battery_runtime_passed'' (BooleanField, [(Default, Flag False)]) True,
      AddField HardwareQualificationModel ''physical_shutdown_recovery_passed'' (BooleanField, [(Default, Flag False)]) True,
      AddField HardwareQualificationModel ''planned_shutdown_flow_passed'' (BooleanField, [(Default, Flag False)]) True,
      RunPython HardwareQualificationModel ''invalidate_legacy_hardware_approvals'',
      AlterField DeviceHeartbeatModel ''charging'' (BooleanField, [(Blank, Flag True), (Null, Flag True)]),
      AlterField DeviceHeartbeatModel ''external_power'' (BooleanField, [(Blank, Flag True), (Null, Flag True)]),
      AlterField DeviceOperationalEventModel ''kind'' (CharField, [(Choices, Pairs [(''forced_queue_loss'', ''Forced queue data loss''), (''replacement_failed'', ''Replacement validation failed''), (''planned_shutdown'', ''Planned shutdown''), (''abnormal_app_exit'', ''Abnormal application exit'')]), (Max_length, Num 32)]),
      AddIndex DeviceOperationalEventModel [''device'', ''kind'', ''-received_at'']]"

subsection \<open>0011_restore_hardware_rollback_columns\<close>

definition migration_0011 :: "operation list" where
  "migration_0011 =
     [RunPython HardwareQualificationModel ''restore_rollback_compatible_hardware_columns'',
      RunPython HardwareQualificationModel ''invalidate_non_battery_hardware_approvals'',
      AddConstraint HardwareQualificationModel (''signage_hq_battery_policy_approved'', Check (Disj [Holds ''approved_for_pilot'' (Flag False), Conj [Holds ''device_owner_lock_task_passed'' (Flag True), Holds ''screen_state_passed'' (Flag True), Holds ''battery_backed_playback_passed'' (Flag True), Holds ''battery_runtime_passed'' (Flag True), Holds ''battery_level_telemetry_passed'' (Flag True), Holds ''planned_shutdown_flow_passed'' (Flag True), Holds ''physical_shutdown_recovery_passed'' (Flag True), Holds ''abnormal_exit_recovery_passed'' (Flag True), Holds ''playback_12h_passed'' (Flag True), Holds ''image_aspect_passed'' (Flag True), Holds ''cache_capacity_passed'' (Flag True), Holds ''network_reconnect_passed'' (Flag True), Holds ''interrupted_download_passed'' (Flag True), Holds ''thermal_passed'' (Flag True), Holds ''mounting_power_safety_passed'' (Flag True), Holds ''kiosk_escape_resistance_passed'' (Flag True), Holds ''device_time_change_passed'' (Flag True), Holds ''remote_disable_reboot_passed'' (Flag True), Holds ''factory_reset_revocation_passed'' (Flag True)]]))]"

subsection \<open>0012_backend_hardening\<close>

definition migration_0012 :: "operation list" where
  "migration_0012 =
     [AddField HardwareQualificationModel ''security_patch_level'' (CharField, [(Blank, Flag True), (Default, Txt []),
        (Max_length, Num 32)]) False,
      AddField DeviceModel ''hardware_firmware_version'' (CharField, [(Blank, Flag True), (Default, Txt []),
         (Max_length, Num 100)]) False,
      AddField DeviceModel ''hardware_model'' (CharField, [(Blank, Flag True), (Default, Txt []), (Max_length, Num 160)]) False,
      AddField DeviceModel ''hardware_security_patch'' (CharField, [(Blank, Flag True), (Default, Txt []),
         (Max_length, Num 32)]) False,
      AddField DeviceModel ''last_heartbeat_recorded_at'' (DateTimeField, [(Blank, Flag True), (Null, Flag True)]) True,
      AddField EnrollmentChallengeModel ''firmware_version'' (CharField, [(Blank, Flag True), (Default, Txt []),
         (Max_length, Num 100)]) False,
      AddField EnrollmentChallengeModel ''hardware_model'' (CharField, [(Blank, Flag True), (Default, Txt []),
         (Max_length, Num 160)]) False,
      AddField EnrollmentChallengeModel ''security_patch_level'' (CharField, [(Blank, Flag True), (Default, Txt []),
         (Max_length, Num 32)]) False,
      CreateModel MediaDeletionModel
        (\<lparr>ms_fields =
           [(''id'', (BigAutoField, [(Auto_created, Flag True), (Primary_key, Flag True), (Serialize, Flag False),
              (Verbose_name, Txt ''ID'')])),
            (''created_at'', (DateTimeField, [(Auto_now_add, Flag True)])),
            (''updated_at'', (DateTimeField, [(Auto_now, Flag True)])),
            (''source_name'', (CharField, [(Blank, Flag True), (Max_length, Num 255)])),
            (''normalized_name'', (CharField, [(Blank, Flag True), (Max_length, Num 255)])),
            (''attempts'', (PositiveIntegerField, [(Default, Num 0)])),
            (''last_attempt_at'', (DateTimeField, [(Blank, Flag True), (Null, Flag True)])),
            (''last_error'', (CharField, [(Blank, Flag True), (Max_length, Num 255)])),
            (''completed_at'', (DateTimeField, [(Blank, Flag True), (Null, Flag True)])),
            (''asset'', (OneToOneField, [(On_delete, Named ''PROTECT''), (Related_name, Txt ''binary_deletion''),
               (To, To_model MediaAssetModel)]))],
         ms_ordering = [], ms_indexes = [],
         ms_constraints = []\<rparr>),
      AddIndex LoginThrottleModel [''updated_at''],
      AddIndex ApiThrottleModel [''updated_at''],
      AddIndex EnrollmentCodeModel [''expires_at''],
      AddIndex EnrollmentChallengeModel [''expires_at''],
      AddIndex DeviceAccessTokenModel [''expires_at''],
      RunPython AlertModel ''acknowledge_duplicate_open_alerts'',
      AddConstraint AlertModel (''signage_open_device_alert_unique'', UniqueOn [''device'', ''code''] (Some (Conj [Holds ''acknowledged_at__isnull'' (Flag True), Holds ''device__isnull'' (Flag False)]))),
      AddConstraint AlertModel (''signage_open_global_alert_unique'', UniqueOn [''code''] (Some (Conj [Holds ''acknowledged_at__isnull'' (Flag True), Holds ''device__isnull'' (Flag True)])))]"

subsection \<open>0013_display_diagonal_qualification\<close>

definition migration_0013 :: "operation list" where
  "migration_0013 =
     [AddField HardwareQualificationModel ''measured_display_diagonal_inches'' (DecimalField, [(Blank, Flag True),
        (Decimal_places, Num 2), (Help_text, Txt ''Physical corner-to-corner display diagonal in inches, excluding bezel.''),
        (Max_digits, Num 4), (Null, Flag True)]) True,
      RunPython HardwareQualificationModel ''invalidate_unmeasured_hardware_approvals'',
      AddConstraint HardwareQualificationModel (''signage_hq_approved_display_size'', Check (Disj [Holds ''approved_for_pilot'' (Flag False), Conj [Conj [Holds ''measured_display_diagonal_inches__isnull'' (Flag False), Holds ''measured_display_diagonal_inches__gte'' (Named ''Decimal('9.00')'')], Holds ''measured_display_diagonal_inches__lte'' (Named ''Decimal('12.00')'')]]))]"

subsection \<open>0014_location_tracking\<close>

definition migration_0014 :: "operation list" where
  "migration_0014 =
     [AddField DeviceModel ''last_location_reported_at'' (DateTimeField, [(Blank, Flag True), (Null, Flag True)]) True,
      AddField DeviceModel ''location_planned_gap_until'' (DateTimeField, [(Blank, Flag True), (Null, Flag True)]) True,
      AddField DeviceModel ''location_state'' (CharField, [(Default, Txt ''initializing''), (Max_length, Num 32)]) True,
      AddField DeviceModel ''location_state_updated_at'' (DateTimeField, [(Blank, Flag True), (Null, Flag True)]) True,
      CreateModel DeviceLocationPointModel
        (\<lparr>ms_fields =
           [(''id'', (UUIDField, [(Editable, Flag False), (Primary_key, Flag True), (Serialize, Flag False)])),
            (''recorded_at'', (DateTimeField, [])), (''device_recorded_at'', (DateTimeField, [])),
            (''received_at'', (DateTimeField, [(Auto_now_add, Flag True)])),
            (''latitude'', (DecimalField, [(Decimal_places, Num 6), (Max_digits, Num 9)])),
            (''longitude'', (DecimalField, [(Decimal_places, Num 6), (Max_digits, Num 9)])),
            (''accuracy_m'', (DecimalField, [(Decimal_places, Num 2), (Max_digits, Num 6)])),
            (''provider'', (CharField, [(Max_length, Num 16)])), (''source'', (CharField, [(Max_length, Num 32)])),
            (''assignment'', (ForeignKey, [(Blank, Flag True), (Null, Flag True), (On_delete, Named ''PROTECT''),
               (Related_name, Txt ''location_points''), (To, To_model DeviceAssignmentModel)])),
            (''device'', (ForeignKey, [(On_delete, Named ''PROTECT''), (Related_name, Txt ''location_points''),
               (To, To_model DeviceModel)]))],
         ms_ordering = [], ms_indexes = [[''device'', ''-recorded_at''], [''recorded_at'']],
         ms_constraints = []\<rparr>),
      AlterField DeviceOperationalEventModel ''kind'' (CharField, [(Choices, Pairs [(''forced_queue_loss'', ''Forced queue data loss''), (''replacement_failed'', ''Replacement validation failed''), (''planned_shutdown'', ''Planned shutdown''), (''abnormal_app_exit'', ''Abnormal application exit''), (''location_queue_loss'', ''Location queue data loss''), (''location_point_rejected'', ''Location point rejected'')]), (Max_length, Num 32)])]"

subsection \<open>0015_simplify_hardware_qualification\<close>

definition migration_0015 :: "operation list" where
  "migration_0015 =
     [AlterField HardwareQualificationModel ''evidence_reference'' (CharField, [(Blank, Flag True), (Default, Txt []),
        (Help_text, Txt ''Optional internal path or ticket containing photos, logs, and test notes.''), (Max_length, Num 255)]),
      RemoveConstraint HardwareQualificationModel ''signage_hq_battery_policy_approved'']"

subsection \<open>0016_device_management\<close>

definition migration_0016 :: "operation list" where
  "migration_0016 =
     [CreateModel DeviceManagementCredentialModel
        (\<lparr>ms_fields =
           [(''id'', (BigAutoField, [(Auto_created, Flag True), (Primary_key, Flag True), (Serialize, Flag False),
              (Verbose_name, Txt ''ID'')])),
            (''created_at'', (DateTimeField, [(Auto_now_add, Flag True)])),
            (''updated_at'', (DateTimeField, [(Auto_now, Flag True)])),
            (''token_hash'', (CharField, [(Max_length, Num 64), (Unique, Flag True)])),
            (''device'', (OneToOneField, [(On_delete, Named ''CASCADE''), (Related_name, Txt ''management_credential''),
               (To, To_model DeviceModel)]))],
         ms_ordering = [], ms_indexes = [],
         ms_constraints = []\<rparr>),
      CreateModel DeviceCommandModel
        (\<lparr>ms_fields =
           [(''created_at'', (DateTimeField, [(Auto_now_add, Flag True)])),
            (''updated_at'', (DateTimeField, [(Auto_now, Flag True)])),
            (''id'', (UUIDField, [(Default, Named ''uuid4''), (Editable, Flag False), (Primary_key, Flag True),
               (Serialize, Flag False)])),
            (''kind'', (CharField, [(Choices, Pairs [(''admin_mode'', ''Admin mode'')]), (Max_length, Num 32)])),
            (''expires_at'', (DateTimeField, [])), (''delivered_at'', (DateTimeField, [(Blank, Flag True), (Null, Flag True)])),
            (''acknowledged_at'', (DateTimeField, [(Blank, Flag True), (Null, Flag True)])),
            (''device'', (ForeignKey, [(On_delete, Named ''CASCADE''), (Related_name, Txt ''commands''),
               (To, To_model DeviceModel)])),
            (''requested_by'', (ForeignKey, [(On_delete, Named ''PROTECT''), (To, To_model UserModel)]))],
         ms_ordering = [''created_at''], ms_indexes = [],
         ms_constraints = []\<rparr>),
      AddIndex DeviceCommandModel [''device'', ''acknowledged_at'', ''expires_at'']]"

subsection \<open>0017_image_duration_15_seconds\<close>

definition migration_0017 :: "operation list" where
  "migration_0017 =
     [RunPython MediaAssetModel ''set_image_duration_to_15_seconds'',
      AlterField MediaAssetModel ''duration_ms'' (PositiveIntegerField, [(Default, Num 15000)])]"

subsection \<open>0018_device_sync_command\<close>

definition migration_0018 :: "operation list" where
  "migration_0018 =
     [AlterField DeviceCommandModel ''kind'' (CharField, [(Choices, Pairs [(''admin_mode'', ''Admin mode''),
        (''sync_now'', ''Sync now'')]), (Max_length, Num 32)])]"

subsection \<open>0019_deviceassignment_sim_card_number\<close>

definition migration_0019 :: "operation list" where
  "migration_0019 =
     [AddField DeviceAssignmentModel ''sim_card_number'' (CharField, [(Blank, Flag True), (Default, Txt []),
        (Max_length, Num 32)]) True]"

definition migrations :: "operation list" where
  "migrations =
     concat [migration_0001, migration_0002, migration_0003, migration_0004, migration_0005, migration_0006, migration_0007,
             migration_0008, migration_0009, migration_0010, migration_0011, migration_0012, migration_0013, migration_0014,
             migration_0015, migration_0016, migration_0017, migration_0018, migration_0019]"

end
