(* ===== verification/Schema_Agreement.thy ===== *)
theory Schema_Agreement
  imports Schema_Migrations Schema_Models
begin

section \<open>The migrations reach the declared models\<close>

text \<open>
  Runs the migrations of \<open>signage/migrations/\<close> on an empty database, model by model, and compares the tables
  they leave with the models declared in \<open>signage/models.py\<close>.
\<close>

text \<open>What the migrations make of the table of a model, from an empty database.\<close>

definition migrated :: "model_name \<Rightarrow> table_state option" where
  "migrated m = (case migrate m migrations None of None \<Rightarrow> None | Some t \<Rightarrow> t)"

definition up_to_date :: "model_name \<Rightarrow> model_state \<Rightarrow> bool" where
  "up_to_date m d = (case migrated m of None \<Rightarrow> False
     | Some t \<Rightarrow> model_agrees m (completed m d) (ts_model t) \<and> columns_agree (ts_model t) (ts_columns t))"

lemma up_to_date_platformsettings: "up_to_date PlatformSettingsModel declared_platformsettings"
  by code_simp

lemma up_to_date_hardwarequalification: "up_to_date HardwareQualificationModel declared_hardwarequalification"
  by code_simp

lemma up_to_date_loginthrottle: "up_to_date LoginThrottleModel declared_loginthrottle"
  by code_simp

lemma up_to_date_apithrottle: "up_to_date ApiThrottleModel declared_apithrottle"
  by code_simp

lemma up_to_date_user: "up_to_date UserModel declared_user"
  by code_simp

lemma up_to_date_driver: "up_to_date DriverModel declared_driver"
  by code_simp

lemma up_to_date_vehicle: "up_to_date VehicleModel declared_vehicle"
  by code_simp

lemma up_to_date_playlist: "up_to_date PlaylistModel declared_playlist"
  by code_simp

lemma up_to_date_mediaasset: "up_to_date MediaAssetModel declared_mediaasset"
  by code_simp

lemma up_to_date_playlistitem: "up_to_date PlaylistItemModel declared_playlistitem"
  by code_simp

lemma up_to_date_device: "up_to_date DeviceModel declared_device"
  by code_simp

lemma up_to_date_deviceassignment: "up_to_date DeviceAssignmentModel declared_deviceassignment"
  by code_simp

lemma up_to_date_enrollmentcode: "up_to_date EnrollmentCodeModel declared_enrollmentcode"
  by code_simp

lemma up_to_date_enrollmentchallenge: "up_to_date EnrollmentChallengeModel declared_enrollmentchallenge"
  by code_simp

lemma up_to_date_devicecredential: "up_to_date DeviceCredentialModel declared_devicecredential"
  by code_simp

lemma up_to_date_devicemanagementcredential: "up_to_date DeviceManagementCredentialModel declared_devicemanagementcredential"
  by code_simp

lemma up_to_date_devicecommand: "up_to_date DeviceCommandModel declared_devicecommand"
  by code_simp

lemma up_to_date_deviceaccesstoken: "up_to_date DeviceAccessTokenModel declared_deviceaccesstoken"
  by code_simp

lemma up_to_date_mediadeletion: "up_to_date MediaDeletionModel declared_mediadeletion"
  by code_simp

lemma up_to_date_deviceheartbeat: "up_to_date DeviceHeartbeatModel declared_deviceheartbeat"
  by code_simp

lemma up_to_date_devicelocationpoint: "up_to_date DeviceLocationPointModel declared_devicelocationpoint"
  by code_simp

lemma up_to_date_playbackbatch: "up_to_date PlaybackBatchModel declared_playbackbatch"
  by code_simp

lemma up_to_date_playbackevent: "up_to_date PlaybackEventModel declared_playbackevent"
  by code_simp

lemma up_to_date_playbackcorrection: "up_to_date PlaybackCorrectionModel declared_playbackcorrection"
  by code_simp

lemma up_to_date_deviceoperationalevent: "up_to_date DeviceOperationalEventModel declared_deviceoperationalevent"
  by code_simp

lemma up_to_date_alert: "up_to_date AlertModel declared_alert"
  by code_simp

lemma up_to_date_auditevent: "up_to_date AuditEventModel declared_auditevent"
  by code_simp

lemmas models_up_to_date =
  up_to_date_platformsettings up_to_date_hardwarequalification up_to_date_loginthrottle up_to_date_apithrottle
  up_to_date_user up_to_date_driver up_to_date_vehicle up_to_date_playlist
  up_to_date_mediaasset up_to_date_playlistitem up_to_date_device up_to_date_deviceassignment
  up_to_date_enrollmentcode up_to_date_enrollmentchallenge up_to_date_devicecredential up_to_date_devicemanagementcredential
  up_to_date_devicecommand up_to_date_deviceaccesstoken up_to_date_mediadeletion up_to_date_deviceheartbeat
  up_to_date_devicelocationpoint up_to_date_playbackbatch up_to_date_playbackevent up_to_date_playbackcorrection
  up_to_date_deviceoperationalevent up_to_date_alert up_to_date_auditevent

text \<open>C15: The migrations and the models describe the same database. Run in order on an empty database, the
  nineteen migrations apply without an error: no name is created twice, altered or removed without
  being there, and every column added to an existing table has a value for the rows in it. They end with
  exactly the declared models, every field with its class and all its options, ordering, indexes and
  constraints, so that none is missing; and the physical columns of every table are exactly those the
  fields read and write, although one migration renames fields in the recorded state only.\<close>

theorem migrations_reach_models:
  "list_all (\<lambda>(m, d). up_to_date m d) declared_models
   \<and> list_all (\<lambda>op. list_ex (\<lambda>(m, d). m = model_of op) declared_models) migrations"
proof
  show "list_all (\<lambda>(m, d). up_to_date m d) declared_models"
    by (simp add: declared_models_def models_up_to_date)
  show "list_all (\<lambda>op. list_ex (\<lambda>(m, d). m = model_of op) declared_models) migrations" by code_simp
qed

end
