(* ===== verification/Spec2Isabelle.thy ===== *)
theory Spec2Isabelle
  imports Media_Lifecycle Dispatch Enrollment Sync Telemetry Locations Retention Qualifications Reports
    Readiness Backups Site Maps Device_Api Admin_Site Schema_Agreement
begin

text \<open>
  A model of the Digital Signage backend (the Django project under \<open>src/backend\<close>) with the
  theorems that make it correct.

  The program. Owners and marketing staff upload images and videos, which worker tasks scan and
  normalise before they may be shown; playlists of ready media are edited as drafts and published
  for a window of time; displays in vehicles enroll with a code and an attestation, fetch the
  playlist in force, and report heartbeats, locations and proof of play; alerts, audit events and
  throttles run through all of it. All state is in one database and in object storage.

  How it is modelled. The database is the record \<open>db\<close> of all tables (Models), a table a list of
  rows, a row a record with the columns of its model class. A handler is a function of the state.
  One that runs in a transaction has type \<open>db \<Rightarrow> ('a \<times> db) result\<close>: an error is \<open>Inl\<close> and leaves
  no state, which is the rollback. One that commits before it raises has type
  \<open>db \<Rightarrow> 'a result \<times> db\<close>. Exceptions are the values of \<open>error\<close> (Prelude). Times are integers in
  microseconds; \<open>clk n\<close> is the n-th reading of the clock in a request. What the code gets from
  outside is an argument: hashes and random values, the answers of PIL, ffprobe, ClamAV, ECS, Google
  and the storage, the inflating of gzip data, the JSON reader, Django's \<open>parse_datetime\<close>, and the
  effect of concurrent transactions where the code releases its locks (\<open>others\<close>).

  The theories.
  \<^item> Prelude, Py_Std: results, transactions, tables, and the parts of Python's standard library that
    are used (strings, integers, UUIDs with their round trip, JSON values, decimals).
  \<^item> Models: the tables of \<open>models.py\<close> and the audit log of \<open>services.py\<close>.
  \<^item> Settings: \<open>config/settings.py\<close>; a process that starts is either a development or a
    production process, and secrets come from one place.
  \<^item> Alerts: at most one open alert per device and code, never lowered, under concurrent insertion.
    The interface \<open>alert_sink\<close> gives the facts about runs of alerts to its clients.
  \<^item> Throttles: bounds of the request throttle and the sign-in lockout, and their recovery.
  \<^item> Media_Files, Media, Media_Lifecycle: inspection of files, the asset's life, fencing of stale
    workers, the deletion outbox; the pipeline as an inductive step relation of concurrent actors
    with its invariant over all reachable states.
  \<^item> Playlists: immutability of published versions, publication, disjoint urgent schedules, the
    playlist in force and the soundness of the announced transition time.
  \<^item> Dispatch: \<open>media_dispatch.py\<close>; the hourly budget over any run of dispatches, the guards of a
    launch and the life of an idempotency token.
  \<^item> Devices: provisioning, assignments, codes, disabling, revocation and the command handshake.
  \<^item> Integrity: \<open>integrity.py\<close>; what an accepted verdict says, and the round trip of digests.
  \<^item> Requests: field readers and the bounded gzip reader of \<open>api.py\<close>.
  \<^item> Enrollment: challenges, enrollment, tokens and the authentication classes.
  \<^item> Evidence, Playback, Telemetry, Locations: the evidence devices report. The interface
    \<open>idempotent_store\<close> states what resubmission means and is interpreted by playback batches,
    operational events and location points. Py_Float has the double arithmetic of \<open>total_seconds\<close>.
  \<^item> Sync, Py_Url: the manifest, the checks on media URLs, the application update.
  \<^item> Health: the fleet evaluation, as a refinement of the alert levels it is meant to compute.
  \<^item> Retention: anonymisation and batched deletion. The interface \<open>purge\<close> states what a deletion with
    its cascades must satisfy for batches to be one deletion; every table of the command interprets it.

  \<^item> Accounts: users, permissions, the session timeout; from the first owner on there is always an
    active owner, as an invariant of a step relation over all account requests.
  \<^item> Qualifications: approved hardware evidence is final; corrections only add.
  \<^item> Py_Date, Reports: the proof-of-play export, its CSV with a reader that gives the cells back, the
    selection of its rows; the location history, tiles, the start page and the lists.
  \<^item> Readiness: \<open>check_deployment_readiness\<close>; what a passing check guarantees, and what it misses.
  \<^item> Backups: the backup commands over a directory and the object storage; failures do no harm,
    success means verified objects, pruning is bounded, a pilot archive can be read.
  \<^item> Migrations: the functions the migrations run on existing data, group by group where the code
    does so; the open alerts become unique, as Alerts needs them, without losing a critical one.
  \<^item> Schema, Schema_Migrations, Schema_Models, Schema_Agreement: the operations of the migrations on
    the recorded models and on the columns, the models as \<open>models.py\<close> declares them, and that the
    first end exactly at the second.
  \<^item> Columns: the rows of evidence as values of the declared columns; whatever devices send, every
    stored row fits its columns.
  \<^item> Routes: the URL tables of \<open>config/urls.py\<close>, \<open>signage/urls.py\<close> and \<open>signage/api_urls.py\<close>; resolving a
    reversed address gives the page back.
  \<^item> Site: a request to the dashboard as a whole, from the middleware through the URL table and the
    guards to the handlers of the other theories, and for an upload on to the dispatch that runs when
    it commits; what is changed is on record, what marketing users may change, and that reading
    changes nothing.
  \<^item> Device_Api: a request to the API as a whole, from authentication to the status of the answer; no
    request changes anything that belongs to a device other than the one whose secret it presents.
  \<^item> Admin_Site: the registrations of the administration site, what they permit and what they show.
  \<^item> Maps: the style and the tile description of the map; their addresses are pages of the dashboard.

  Bounds and fuel. The only fuel is the number of rounds of the worker command (Media): without
  \<open>--loop\<close> one round per asset and one more is enough, which is proved; with \<open>--loop\<close> the
  command is meant to run for ever. The loops over batches (Retention) are partial functions shown to
  return. All other recursion is structural or has a measure.

  Abstractions. Rows locked by \<open>select_for_update\<close> are read in the same atomic step. Ties of an
  ordering go by the order of the table. Characters are the first 256 code points. \<open>updated_at\<close> is
  kept only where the code reads it. Request bodies are JSON objects.

  Not modelled: rendering of pages, e-mail, logging, the generic pages of the administration site,
  the rate limits the framework keeps in its cache, the SQL of the schema changes and the fields that \<open>AbstractUser\<close>
  contributes, the wiring of the framework in the settings (applications, templates, storages), the formats
  of archives and the external tools, errors of the local disk, and the framework itself; the Kotlin
  player and the infrastructure, which are not Python.
\<close>

end
